(* ===== verification/Prelude.thy ===== *)
theory Prelude
  imports Complex_Main "HOL-Library.AList" "HOL-Library.Sublist" "HOL-Library.Multiset"
begin

text \<open>
  What every component shares: JavaScript values as the wire delivers them, the part of the
  string and collection library of the language that the program calls, numbers printed in
  decimal, and runs of event-driven components with their invariant rule.

  Strings are lists of UTF-16 code units below 256 (\<open>char\<close>); numbers on the wire are integers
  (every numeric field of the server's Go structures is one). \<open>Map\<close> and \<open>Record\<close> are association
  lists, \<open>Set\<close> is a list without repetition: both keep insertion order, as the language does; the
  entries of an object with number keys are enumerated in the order of the keys (\<open>record_entries\<close>).
\<close>

section \<open>Values\<close>

datatype jsval =
    JUndefined
  | JNull
  | JBool bool
  | JNum int
  | JStr string
  | JArr "jsval list"
  | JObj "(string \<times> jsval) list"

type_synonym 'v record_map = "(int \<times> 'v) list"

text \<open>Reading a property: a missing one is \<open>undefined\<close>. A read on \<open>null\<close> or \<open>undefined\<close> throws
  in JavaScript; the callers test for that before they read (\<open>?.\<close> or an explicit guard).\<close>

fun js_get :: "jsval \<Rightarrow> string \<Rightarrow> jsval" where
  "js_get (JObj fs) k = (case map_of fs k of Some v \<Rightarrow> v | None \<Rightarrow> JUndefined)"
| "js_get _ _ = JUndefined"

fun is_nullish :: "jsval \<Rightarrow> bool" where
  "is_nullish JUndefined = True"
| "is_nullish JNull = True"
| "is_nullish _ = False"

fun is_number :: "jsval \<Rightarrow> bool" where
  "is_number (JNum _) = True"
| "is_number _ = False"

fun is_string :: "jsval \<Rightarrow> bool" where
  "is_string (JStr _) = True"
| "is_string _ = False"

fun is_array :: "jsval \<Rightarrow> bool" where
  "is_array (JArr _) = True"
| "is_array _ = False"

text \<open>\<open>x !== null \<and> typeof x === "object"\<close>: arrays are objects too.\<close>

fun is_object :: "jsval \<Rightarrow> bool" where
  "is_object (JObj _) = True"
| "is_object (JArr _) = True"
| "is_object _ = False"

fun truthy :: "jsval \<Rightarrow> bool" where
  "truthy JUndefined = False"
| "truthy JNull = False"
| "truthy (JBool b) = b"
| "truthy (JNum n) = (n \<noteq> 0)"
| "truthy (JStr s) = (s \<noteq> [])"
| "truthy _ = True"

fun num_of :: "jsval \<Rightarrow> int option" where
  "num_of (JNum n) = Some n"
| "num_of _ = None"

fun str_of :: "jsval \<Rightarrow> string option" where
  "str_of (JStr s) = Some s"
| "str_of _ = None"

fun bool_of :: "jsval \<Rightarrow> bool option" where
  "bool_of (JBool b) = Some b"
| "bool_of _ = None"

fun arr_of :: "jsval \<Rightarrow> jsval list option" where
  "arr_of (JArr xs) = Some xs"
| "arr_of _ = None"

definition str_or :: "string \<Rightarrow> jsval \<Rightarrow> string" where
  "str_or d v = (case str_of v of Some s \<Rightarrow> s | None \<Rightarrow> d)"

definition num_or :: "int \<Rightarrow> jsval \<Rightarrow> int" where
  "num_or d v = (case num_of v of Some n \<Rightarrow> n | None \<Rightarrow> d)"

fun_cases num_of_SomeE [elim!]: "num_of v = Some n"
fun_cases str_of_SomeE [elim!]: "str_of v = Some s"
fun_cases arr_of_SomeE [elim!]: "arr_of v = Some xs"

lemma is_number_iff: "is_number v \<longleftrightarrow> (\<exists>n. v = JNum n)"
  by (cases v) auto

lemma is_string_iff: "is_string v \<longleftrightarrow> (\<exists>s. v = JStr s)"
  by (cases v) auto

lemma num_of_None_iff: "num_of v = None \<longleftrightarrow> \<not> is_number v"
  by (cases v) auto

lemma str_of_None_iff: "str_of v = None \<longleftrightarrow> \<not> is_string v"
  by (cases v) auto

lemma str_or_simps [simp]:
  "str_or d (JStr s) = s" "str_or d JUndefined = d" "str_or d JNull = d"
  by (simp_all add: str_or_def)

lemma num_or_simps [simp]:
  "num_or d (JNum n) = n" "num_or d JUndefined = d" "num_or d JNull = d"
  by (simp_all add: num_or_def)

lemma js_get_nullish: "is_nullish v \<Longrightarrow> js_get v k = JUndefined"
  by (cases v) auto

section \<open>Strings\<close>

definition is_space :: "char \<Rightarrow> bool" where
  "is_space c \<longleftrightarrow> (let n = of_char c :: nat in (9 \<le> n \<and> n \<le> 13) \<or> n = 32 \<or> n = 160)"

definition trim :: "string \<Rightarrow> string" where
  "trim s = rev (dropWhile is_space (rev (dropWhile is_space s)))"

definition lower_char :: "char \<Rightarrow> char" where
  "lower_char c = (let n = of_char c :: nat in
     if (65 \<le> n \<and> n \<le> 90) \<or> (192 \<le> n \<and> n \<le> 222 \<and> n \<noteq> 215) then char_of (n + 32) else c)"

definition to_lower :: "string \<Rightarrow> string" where
  "to_lower s = map lower_char s"

fun str_includes :: "string \<Rightarrow> string \<Rightarrow> bool" where
  "str_includes [] t \<longleftrightarrow> t = []"
| "str_includes (c # s) t \<longleftrightarrow> prefix t (c # s) \<or> str_includes s t"

lemma str_includes_iff: "str_includes s t \<longleftrightarrow> (\<exists>a b. s = a @ t @ b)"
proof (induction s)
  case Nil
  then show ?case by auto
next
  case (Cons c s)
  show ?case
  proof
    assume "str_includes (c # s) t"
    then consider "prefix t (c # s)" | "str_includes s t" by auto
    then show "\<exists>a b. c # s = a @ t @ b"
    proof cases
      case 1
      then obtain b where "c # s = [] @ t @ b" by (auto simp: prefix_def)
      then show ?thesis by blast
    next
      case 2
      then obtain a b where "c # s = (c # a) @ t @ b" using Cons.IH by auto
      then show ?thesis by blast
    qed
  next
    assume "\<exists>a b. c # s = a @ t @ b"
    then obtain a b where eq: "c # s = a @ t @ b" by blast
    show "str_includes (c # s) t"
    proof (cases a)
      case Nil
      with eq have "prefix t (c # s)" by (simp add: prefix_def)
      then show ?thesis by simp
    next
      case (Cons x a')
      with eq have "s = a' @ t @ b" by simp
      then have "str_includes s t" using Cons.IH by blast
      then show ?thesis by simp
    qed
  qed
qed

lemma trim_Nil [simp]: "trim [] = []"
  by (simp add: trim_def)

lemma trim_ends:
  assumes "trim s \<noteq> []"
  shows "\<not> is_space (hd (trim s))" and "\<not> is_space (last (trim s))"
proof -
  define u where "u = dropWhile is_space s"
  define w where "w = dropWhile is_space (rev u)"
  have t: "trim s = rev w" by (simp add: trim_def u_def w_def)
  with assms have w: "w \<noteq> []" by simp
  then have "\<not> is_space (hd w)" unfolding w_def by (rule hd_dropWhile)
  then show "\<not> is_space (last (trim s))" using t w by (simp add: last_rev)
  obtain ys where ys: "rev u = ys @ w"
    unfolding w_def by (metis takeWhile_dropWhile_id)
  then have "u = rev w @ rev ys" by (metis rev_append rev_rev_ident)
  then have "hd (trim s) = hd u" and "u \<noteq> []" using w t by simp_all
  then show "\<not> is_space (hd (trim s))" unfolding u_def using hd_dropWhile by metis
qed

lemma trim_no_space: "(\<forall>c \<in> set s. \<not> is_space c) \<Longrightarrow> trim s = s"
proof -
  assume a: "\<forall>c \<in> set s. \<not> is_space c"
  have d: "dropWhile is_space xs = xs" if "\<forall>c \<in> set xs. \<not> is_space c" for xs
    using that by (cases xs) auto
  show ?thesis using a by (simp add: trim_def d)
qed

section \<open>Decimal printing\<close>

definition digit_char :: "nat \<Rightarrow> char" where
  "digit_char d = char_of (48 + d)"

fun show_nat :: "nat \<Rightarrow> string" where
  "show_nat n = (if n < 10 then [digit_char n] else show_nat (n div 10) @ [digit_char (n mod 10)])"

declare show_nat.simps [simp del]

definition show_int :: "int \<Rightarrow> string" where
  "show_int i = (if i < 0 then CHR ''-'' # show_nat (nat (- i)) else show_nat (nat i))"

definition char_digit :: "char \<Rightarrow> nat" where
  "char_digit c = of_char c - 48"

definition read_nat :: "string \<Rightarrow> nat" where
  "read_nat s = foldl (\<lambda>acc c. acc * 10 + char_digit c) 0 s"

lemma char_digit_digit [simp]: "d < 10 \<Longrightarrow> char_digit (digit_char d) = d"
  by (simp add: char_digit_def digit_char_def)

lemma read_show_nat [simp]: "read_nat (show_nat n) = n"
proof (induction n rule: show_nat.induct)
  case (1 n)
  show ?case
  proof (cases "n < 10")
    case True
    then show ?thesis by (simp add: show_nat.simps [of n] read_nat_def)
  next
    case False
    with 1 have "read_nat (show_nat (n div 10)) = n div 10" by simp
    with False show ?thesis
      by (simp add: show_nat.simps [of n] read_nat_def)
  qed
qed

lemma show_nat_inject [simp]: "show_nat m = show_nat n \<longleftrightarrow> m = n"
  by (metis read_show_nat)

lemma digit_char_range: "d < 10 \<Longrightarrow> 48 \<le> (of_char (digit_char d) :: nat) \<and> (of_char (digit_char d) :: nat) \<le> 57"
  by (simp add: digit_char_def)

lemma show_nat_digits: "c \<in> set (show_nat n) \<Longrightarrow> 48 \<le> (of_char c :: nat) \<and> (of_char c :: nat) \<le> 57"
proof (induction n arbitrary: c rule: show_nat.induct)
  case (1 n)
  show ?case
  proof (cases "n < 10")
    case True
    with 1 show ?thesis by (simp add: show_nat.simps [of n] digit_char_range)
  next
    case False
    with 1 consider "c \<in> set (show_nat (n div 10))" | "c = digit_char (n mod 10)"
      by (auto simp: show_nat.simps [of n])
    then show ?thesis
    proof cases
      case 1
      then show ?thesis using "1.IH" False by simp
    next
      case 2
      then show ?thesis by (simp add: digit_char_range)
    qed
  qed
qed

lemma show_nat_nonempty [simp]: "show_nat n \<noteq> []"
  by (simp add: show_nat.simps [of n])

lemma show_nat_not_char: "(of_char c :: nat) < 48 \<or> 57 < (of_char c :: nat) \<Longrightarrow> c \<notin> set (show_nat n)"
  using show_nat_digits by fastforce

lemma show_int_inject [simp]: "show_int i = show_int j \<longleftrightarrow> i = j"
proof -
  have minus: "CHR ''-'' # s \<noteq> show_nat n" for s n
  proof
    assume "CHR ''-'' # s = show_nat n"
    then have "CHR ''-'' \<in> set (show_nat n)" by (metis list.set_intros(1))
    then show False using show_nat_not_char [of "CHR ''-''" n] by simp
  qed
  show ?thesis
    by (auto simp: show_int_def minus minus [symmetric] eq_nat_nat_iff)
qed

lemma show_int_not_char:
  "c \<noteq> CHR ''-'' \<Longrightarrow> (of_char c :: nat) < 48 \<or> 57 < (of_char c :: nat) \<Longrightarrow> c \<notin> set (show_int i)"
  using show_nat_not_char [of c] by (auto simp: show_int_def)

text \<open>Keys of the form \<^verbatim>\<open>`${a}:${x}`\<close> determine their parts.\<close>

lemma show_int_no_colon [simp]: "CHR '':'' \<notin> set (show_int i)"
  by (rule show_int_not_char) simp_all

lemma split_at_first:
  "a @ c # x = b @ c # y \<Longrightarrow> c \<notin> set a \<Longrightarrow> c \<notin> set b \<Longrightarrow> a = b \<and> x = y"
proof (induction a arbitrary: b)
  case Nil
  then show ?case by (cases b) auto
next
  case (Cons z a)
  then show ?case by (cases b) auto
qed

lemma colon_key_inject [simp]:
  "show_int a @ CHR '':'' # x = show_int b @ CHR '':'' # y \<longleftrightarrow> a = b \<and> x = y"
  using split_at_first [of "show_int a" "CHR '':''" x "show_int b" y] by auto

section \<open>Sets and maps\<close>

text \<open>A JavaScript \<open>Set\<close>: \<open>add\<close> appends a new element, \<open>delete\<close> removes it.\<close>

definition set_add :: "'a \<Rightarrow> 'a list \<Rightarrow> 'a list" where
  "set_add x xs = (if x \<in> set xs then xs else xs @ [x])"

definition set_del :: "'a \<Rightarrow> 'a list \<Rightarrow> 'a list" where
  "set_del x xs = filter (\<lambda>y. y \<noteq> x) xs"

lemma set_set_add [simp]: "set (set_add x xs) = insert x (set xs)"
  by (auto simp: set_add_def)

lemma distinct_set_add [simp]: "distinct (set_add x xs) = distinct xs"
  by (auto simp: set_add_def)

lemma set_set_del [simp]: "set (set_del x xs) = set xs - {x}"
  by (auto simp: set_del_def)

lemma distinct_set_del [simp]: "distinct xs \<Longrightarrow> distinct (set_del x xs)"
  by (simp add: set_del_def)

text \<open>A JavaScript \<open>Map\<close>: \<open>AList.update\<close> overwrites in place or appends, \<open>AList.delete\<close> removes.\<close>

definition map_get :: "('k \<times> 'v) list \<Rightarrow> 'k \<Rightarrow> 'v option" where
  "map_get m k = map_of m k"

definition map_set :: "'k \<Rightarrow> 'v \<Rightarrow> ('k \<times> 'v) list \<Rightarrow> ('k \<times> 'v) list" where
  "map_set k v m = AList.update k v m"

definition map_del :: "'k \<Rightarrow> ('k \<times> 'v) list \<Rightarrow> ('k \<times> 'v) list" where
  "map_del k m = AList.delete k m"

definition map_has :: "'k \<Rightarrow> ('k \<times> 'v) list \<Rightarrow> bool" where
  "map_has k m \<longleftrightarrow> map_get m k \<noteq> None"

definition map_keys :: "('k \<times> 'v) list \<Rightarrow> 'k list" where
  "map_keys m = map fst m"

definition map_get_or :: "'v \<Rightarrow> ('k \<times> 'v) list \<Rightarrow> 'k \<Rightarrow> 'v" where
  "map_get_or d m k = (case map_get m k of Some v \<Rightarrow> v | None \<Rightarrow> d)"

definition record_entries :: "'v record_map \<Rightarrow> (int \<times> 'v) list" where
  "record_entries m = sort_key fst m"

lemma set_record_entries [simp]: "set (record_entries m) = set m"
  by (simp add: record_entries_def)

lemma map_get_Nil [simp]: "map_get [] k = None"
  by (simp add: map_get_def)

lemma map_get_set [simp]: "map_get (map_set k v m) k' = (if k' = k then Some v else map_get m k')"
  by (simp add: map_get_def map_set_def update_conv')

lemma map_get_del [simp]: "map_get (map_del k m) k' = (if k' = k then None else map_get m k')"
  by (simp add: map_get_def map_del_def delete_conv')

lemma map_get_or_set [simp]:
  "map_get_or d (map_set k v m) k' = (if k' = k then v else map_get_or d m k')"
  by (simp add: map_get_or_def)

lemma distinct_keys_set [simp]: "distinct (map_keys (map_set k v m)) = distinct (map_keys m)"
proof (induction m)
  case (Cons p m)
  have "fst ` set (AList.update k v m) = insert k (fst ` set m)"
    using dom_update [of k v m] by (simp add: dom_map_of_conv_image_fst)
  with Cons show ?case
    by (cases p) (auto simp: map_keys_def map_set_def)
qed (simp add: map_keys_def map_set_def)

lemma distinct_keys_del [simp]: "distinct (map_keys m) \<Longrightarrow> distinct (map_keys (map_del k m))"
  by (simp add: map_keys_def map_del_def distinct_delete)

lemma set_keys_set [simp]: "set (map_keys (map_set k v m)) = insert k (set (map_keys m))"
  using dom_update [of k v m] by (simp add: map_keys_def map_set_def dom_map_of_conv_image_fst)

lemma set_keys_del [simp]: "set (map_keys (map_del k m)) = set (map_keys m) - {k}"
  by (simp add: map_keys_def map_del_def delete_keys)

lemma map_get_keys: "map_get m k \<noteq> None \<longleftrightarrow> k \<in> set (map_keys m)"
  by (simp add: map_get_def map_keys_def map_of_eq_None_iff)

text \<open>The interface the components' per-key state relies on, and what they derive from it:
  an update at one key leaves every other key alone, in any order of two updates.\<close>

locale keyed_store =
  fixes lookup :: "'m \<Rightarrow> 'k \<Rightarrow> 'v option"
    and update :: "'k \<Rightarrow> 'v \<Rightarrow> 'm \<Rightarrow> 'm"
    and delete :: "'k \<Rightarrow> 'm \<Rightarrow> 'm"
  assumes lookup_update: "lookup (update k v m) k' = (if k' = k then Some v else lookup m k')"
    and lookup_delete: "lookup (delete k m) k' = (if k' = k then None else lookup m k')"
begin

lemma modify_frame:
  "k' \<noteq> k \<Longrightarrow> lookup (case lookup m k of None \<Rightarrow> m | Some v \<Rightarrow> update k (f v) m) k' = lookup m k'"
  by (simp add: lookup_update split: option.split)

lemma modify_same:
  "lookup (case lookup m k of None \<Rightarrow> m | Some v \<Rightarrow> update k (f v) m) k = map_option f (lookup m k)"
  by (simp add: lookup_update split: option.split)

lemma update_commute:
  "k \<noteq> k' \<Longrightarrow> lookup (update k v (update k' v' m)) = lookup (update k' v' (update k v m))"
  by (auto simp: lookup_update fun_eq_iff)

lemma update_delete: "lookup (update k v (delete k m)) = lookup (update k v m)"
  by (auto simp: lookup_update lookup_delete fun_eq_iff)

end

interpretation jsmap: keyed_store map_get map_set map_del
  by unfold_locales simp_all

section \<open>Runs of an event-driven component\<close>

text \<open>
  A component reacts to events (calls, messages, timers). \<open>run en st s es t os\<close>: from \<open>s\<close> the
  enabled events \<open>es\<close> lead to \<open>t\<close> and emit the effects \<open>os\<close>, in order.
\<close>

inductive run :: "('s \<Rightarrow> 'e \<Rightarrow> bool) \<Rightarrow> ('s \<Rightarrow> 'e \<Rightarrow> 's \<times> 'o list) \<Rightarrow> 's \<Rightarrow> 'e list \<Rightarrow> 's \<Rightarrow> 'o list \<Rightarrow> bool"
  for en st where
  run_nil: "run en st s [] s []"
| run_snoc: "run en st s es t os \<Longrightarrow> en t e \<Longrightarrow> st t e = (u, os') \<Longrightarrow> run en st s (es @ [e]) u (os @ os')"

inductive_cases run_NilE: "run en st s [] t os"
inductive_simps run_simps: "run en st s es t os"

fun exec_run :: "('s \<Rightarrow> 'e \<Rightarrow> 's \<times> 'o list) \<Rightarrow> 's \<Rightarrow> 'e list \<Rightarrow> 's \<times> 'o list" where
  "exec_run st s [] = (s, [])"
| "exec_run st s (e # es) = (let (t, os) = st s e; (u, os') = exec_run st t es in (u, os @ os'))"

fun enabled_run :: "('s \<Rightarrow> 'e \<Rightarrow> bool) \<Rightarrow> ('s \<Rightarrow> 'e \<Rightarrow> 's \<times> 'o list) \<Rightarrow> 's \<Rightarrow> 'e list \<Rightarrow> bool" where
  "enabled_run en st s [] = True"
| "enabled_run en st s (e # es) = (en s e \<and> enabled_run en st (fst (st s e)) es)"

lemma run_append:
  assumes "run en st s es t os" and "run en st t es' u os'"
  shows "run en st s (es @ es') u (os @ os')"
  using assms(2,1)
proof (induction arbitrary: rule: run.induct)
  case (run_nil t)
  then show ?case by simp
next
  case (run_snoc t es' v os' e w os'')
  then have "run en st s (es @ es') v (os @ os')" by blast
  then have "run en st s ((es @ es') @ [e]) w ((os @ os') @ os'')"
    using run_snoc.hyps by (blast intro: run.run_snoc)
  then show ?case by simp
qed

lemma run_single: "en s e \<Longrightarrow> st s e = (t, os) \<Longrightarrow> run en st s [e] t os"
  using run_snoc [OF run_nil, of en s e st t os] by simp

lemma exec_run_run: "enabled_run en st s es \<Longrightarrow> exec_run st s es = (t, os) \<Longrightarrow> run en st s es t os"
proof (induction es arbitrary: s t os)
  case Nil
  then show ?case by (auto intro: run_nil)
next
  case (Cons e es)
  obtain s1 os1 where 1: "st s e = (s1, os1)" by fastforce
  obtain s2 os2 where 2: "exec_run st s1 es = (s2, os2)" by fastforce
  from Cons.prems 1 have "run en st s [e] s1 os1" by (intro run_single) auto
  moreover have "run en st s1 es s2 os2" using Cons.IH [OF _ 2] Cons.prems 1 by simp
  ultimately have "run en st s ([e] @ es) s2 (os1 @ os2)" by (rule run_append)
  with Cons.prems 1 2 show ?case by simp
qed

text \<open>The contract of an invariant: it holds at the start and every enabled event keeps it.\<close>

locale machine_invariant =
  fixes enabled :: "'s \<Rightarrow> 'e \<Rightarrow> bool"
    and step :: "'s \<Rightarrow> 'e \<Rightarrow> 's \<times> 'o list"
    and inv :: "'s \<Rightarrow> bool"
  assumes inv_step: "inv s \<Longrightarrow> enabled s e \<Longrightarrow> inv (fst (step s e))"
begin

lemma inv_run: "run enabled step s es t os \<Longrightarrow> inv s \<Longrightarrow> inv t"
proof (induction rule: run.induct)
  case (run_nil s)
  then show ?case .
next
  case (run_snoc s es t os e u os')
  then have "inv (fst (step t e))" by (blast intro: inv_step)
  with run_snoc.hyps show ?case by simp
qed

end

text \<open>
  The contract of an account: a quantity of the state that every event changes by exactly what
  its effects and its inputs say. Over a run the inputs balance the holdings and the outputs.
\<close>

locale machine_account = machine_invariant enabled step inv
  for enabled :: "'s \<Rightarrow> 'e \<Rightarrow> bool" and step :: "'s \<Rightarrow> 'e \<Rightarrow> 's \<times> 'o list" and inv :: "'s \<Rightarrow> bool" +
  fixes held :: "'s \<Rightarrow> 'a multiset"
    and inflow :: "'e \<Rightarrow> 'a multiset"
    and outflow :: "'o list \<Rightarrow> 'a multiset"
    and given :: "'e list \<Rightarrow> 'a multiset"
  assumes outflow_append: "outflow (os @ os') = outflow os + outflow os'"
    and outflow_Nil: "outflow [] = {#}"
    and given_Nil: "given [] = {#}"
    and given_snoc: "given (es @ [e]) = given es + inflow e"
    and balance_step: "inv s \<Longrightarrow> enabled s e \<Longrightarrow> step s e = (t, os) \<Longrightarrow>
          held s + inflow e = held t + outflow os"
begin

lemma balance_run:
  "run enabled step s es t os \<Longrightarrow> inv s \<Longrightarrow> held s + given es = held t + outflow os"
proof (induction rule: run.induct)
  case (run_nil s)
  then show ?case by (simp add: outflow_Nil given_Nil)
next
  case (run_snoc s es t os e u os')
  have "inv t" using run_snoc.hyps run_snoc.prems by (blast intro: inv_run)
  then have "held t + inflow e = held u + outflow os'"
    using run_snoc.hyps by (blast intro: balance_step)
  moreover have "held s + given es = held t + outflow os" using run_snoc by blast
  moreover have "given (es @ [e]) = given es + inflow e" by (rule given_snoc)
  ultimately show ?case
    by (simp add: outflow_append ac_simps) (metis add.assoc add.commute)
qed

end

end
