(* ===== verification/ChatTypes.thy ===== *)
theory ChatTypes
  imports Prelude
begin

text \<open>
  The shared data types of the client, from \<^verbatim>\<open>frontend/src/types/chat.ts\<close> and
  \<^verbatim>\<open>frontend/src/types/notifications.ts\<close>. An optional field is an \<open>option\<close>; a field that may
  be absent, \<open>null\<close> or a value is a \<open>nullable\<close>. Field names carry a prefix where the
  source reuses one name in several interfaces.
\<close>

datatype 'a nullable = Absent | Null | Val 'a

datatype channel_type = TextChannel | VoiceChannel | DmChannel

record Channel =
  ch_id :: int
  ch_server_id :: int
  ch_name :: string
  ch_type :: channel_type

record DMChannel =
  dm_channel_id :: int
  dm_peer_user_id :: int
  dm_peer_nickname :: string
  dm_peer_avatar_url :: "string option"
  dm_last_message_at :: "string option"

record UserSearchHit =
  us_user_id :: int
  us_nickname :: string
  us_avatar_url :: "string option"

record Server =
  srv_id :: int
  srv_name :: string
  srv_owner_id :: int

record Attachment =
  att_url :: string
  att_file_name :: string
  att_content_type :: string

record LinkPreview =
  lp_url :: string
  lp_title :: "string option"
  lp_description :: "string option"
  lp_site_name :: "string option"
  lp_image_token :: "string option"

record ReplyPreview =
  rp_message_id :: int
  rp_author_id :: int
  rp_author_first_name :: string
  rp_author_last_name :: string
  rp_author_nickname :: "string option"
  rp_content :: string
  rp_has_attachments :: bool

record Message =
  m_id :: int
  m_channel_id :: int
  m_author_id :: int
  m_author_first_name :: jsval
  m_author_last_name :: jsval
  m_author_nickname :: jsval
  m_author_avatar_url :: string
  m_content :: string
  m_attachments :: "Attachment list option"
  m_reply_to_id :: "int nullable"
  m_reply_to :: "ReplyPreview nullable"
  m_mentions :: "int list option"
  m_mentions_everyone :: "bool option"
  m_embeds :: "LinkPreview list"
  m_created_at :: string
  m_edited_at :: "string option"

record ServerMember =
  mem_user_id :: int
  mem_first_name :: "string option"
  mem_last_name :: "string option"
  mem_nickname :: "string option"
  mem_avatar_url :: "string option"

record VoiceParticipant =
  vp_user_id :: int
  vp_first_name :: "string option"
  vp_last_name :: "string option"
  vp_nickname :: "string option"
  vp_avatar_url :: "string option"
  vp_mic_enabled :: "bool option"
  vp_deafened :: "bool option"
  vp_detached :: "bool option"

record VoiceChannelParticipants =
  vcp_channel_id :: int
  vcp_participants :: "VoiceParticipant list"

record OnlineUser =
  ou_first_name :: "string option"
  ou_last_name :: "string option"
  ou_nickname :: "string option"
  ou_user_id :: "int option"
  ou_avatar_url :: "string option"
  ou_email :: "string option"

record VoiceUserEvent =
  vue_channel_id :: int
  vue_user :: VoiceParticipant

record UserProfile =
  up_user_id :: int
  up_first_name :: string
  up_last_name :: string
  up_nickname :: "string option"
  up_avatar_url :: string

record ChannelUnread =
  cu_channel_id :: int
  cu_server_id :: int
  cu_unread_count :: int

type_synonym MessagesByChannel = "Message list record_map"
type_synonym ChannelsByServer = "Channel list record_map"
type_synonym VoiceParticipantsByChannel = "VoiceParticipant list record_map"
type_synonym UnreadByChannel = "int record_map"
type_synonym UnreadByServer = "int record_map"

record ChannelPagination =
  pg_cursor :: string
  pg_hasMore :: bool
  pg_isLoadingMore :: bool
  pg_error :: bool
  pg_newerCursor :: "string option"
  pg_hasMoreNewer :: "bool option"
  pg_isLoadingNewer :: "bool option"

type_synonym PaginationByChannel = "ChannelPagination record_map"

datatype SearchScope = ChannelScope | ServerScope

record SearchFilters =
  sf_authorId :: "int option"
  sf_hasFile :: "bool option"
  sf_hasLink :: "bool option"
  sf_before :: "string option"
  sf_after :: "string option"

record SearchHit =
  sh_message_id :: int
  sh_channel_id :: int
  sh_channel_name :: string
  sh_author_id :: int
  sh_author_first_name :: jsval
  sh_author_last_name :: jsval
  sh_author_nickname :: jsval
  sh_author_avatar_url :: jsval
  sh_headline :: string
  sh_created_at :: string

text \<open>\<^verbatim>\<open>types/notifications.ts\<close>.\<close>

datatype NotificationLevel = LevelAll | LevelMentions | LevelNone

record ServerNotificationOverride =
  sno_server_id :: int
  sno_level :: "NotificationLevel option"
  sno_muted_until :: "string option"

record ChannelNotificationOverride =
  cno_channel_id :: int
  cno_level :: "NotificationLevel option"
  cno_muted_until :: "string option"

record NotificationSettings =
  ns_default_level :: NotificationLevel
  ns_hide_message_preview :: bool
  ns_dnd_until :: "string option"
  ns_servers :: "ServerNotificationOverride list"
  ns_channels :: "ChannelNotificationOverride list"

end
