(* ===== verification/WireParse.thy ===== *)
theory WireParse
  imports ChatTypes
begin

text \<open>
  The parsers of \<^verbatim>\<open>services/chatSocket.ts\<close> that turn the untyped payload of a server event
  into a typed value: \<open>parseAttachments\<close>, \<open>parseEmbeds\<close>, \<open>toMessage\<close> and \<open>toDMChannel\<close>. The
  clock reading of \<open>new Date().toISOString()\<close> is the argument \<open>now\<close>.
\<close>

section \<open>Definitions\<close>

definition parseAttachment :: "jsval \<Rightarrow> Attachment" where
  "parseAttachment item = \<lparr>
     att_url = str_or [] (js_get item ''url''),
     att_file_name = str_or [] (js_get item ''file_name''),
     att_content_type = str_or [] (js_get item ''content_type'') \<rparr>"

definition parseAttachments :: "jsval \<Rightarrow> Attachment list option" where
  "parseAttachments raw = (case arr_of raw of
     None \<Rightarrow> None
   | Some items \<Rightarrow> Some (filter (\<lambda>a. att_url a \<noteq> []) (map parseAttachment (filter is_object items))))"

definition parseEmbed :: "jsval \<Rightarrow> LinkPreview" where
  "parseEmbed item = \<lparr>
     lp_url = str_or [] (js_get item ''url''),
     lp_title = str_of (js_get item ''title''),
     lp_description = str_of (js_get item ''description''),
     lp_site_name = str_of (js_get item ''site_name''),
     lp_image_token = str_of (js_get item ''image_token'') \<rparr>"

definition parseEmbeds :: "jsval \<Rightarrow> LinkPreview list" where
  "parseEmbeds raw = (case arr_of raw of
     None \<Rightarrow> []
   | Some items \<Rightarrow> filter (\<lambda>e. lp_url e \<noteq> []) (map parseEmbed (filter is_object items)))"

text \<open>
  The chain \<open>a || b || ... || ""\<close>: the first candidate that is truthy. A candidate of the form
  \<open>typeof v === "string" && v\<close> is \<open>string_or_false v\<close>; one of the form \<open>v ?? ""\<close> is \<open>nullish_or_empty v\<close>, which
  lets a value of another type through.
\<close>

fun first_truthy :: "jsval list \<Rightarrow> jsval" where
  "first_truthy [] = JStr []"
| "first_truthy (v # vs) = (if truthy v then v else first_truthy vs)"

definition string_or_false :: "jsval \<Rightarrow> jsval" where
  "string_or_false v = (if is_string v then v else JBool False)"

definition nullish_or_empty :: "jsval \<Rightarrow> jsval" where
  "nullish_or_empty v = (if is_nullish v then JStr [] else v)"

definition author_first_name_of :: "jsval \<Rightarrow> jsval" where
  "author_first_name_of c = first_truthy
     [string_or_false (js_get c ''author_first_name''),
      nullish_or_empty (js_get (js_get c ''author'') ''first_name''),
      nullish_or_empty (js_get (js_get c ''author'') ''firstName''),
      string_or_false (js_get c ''first_name''),
      string_or_false (js_get c ''authorFirstName'')]"

definition author_last_name_of :: "jsval \<Rightarrow> jsval" where
  "author_last_name_of c = first_truthy
     [string_or_false (js_get c ''author_last_name''),
      nullish_or_empty (js_get (js_get c ''author'') ''last_name''),
      nullish_or_empty (js_get (js_get c ''author'') ''lastName''),
      string_or_false (js_get c ''last_name''),
      string_or_false (js_get c ''authorLastName'')]"

definition author_nickname_of :: "jsval \<Rightarrow> jsval" where
  "author_nickname_of c = first_truthy
     [string_or_false (js_get c ''author_nickname''),
      nullish_or_empty (js_get (js_get c ''author'') ''nickname''),
      nullish_or_empty (js_get (js_get c ''author'') ''nickName''),
      string_or_false (js_get c ''nickname'')]"

definition author_avatar_url_of :: "jsval \<Rightarrow> string" where
  "author_avatar_url_of c = str_or [] (first_truthy
     [string_or_false (js_get c ''author_avatar_url''),
      string_or_false (js_get c ''auuthor_avatar_url''),
      string_or_false (js_get c ''authorAvatarUrl''),
      string_or_false (js_get c ''avatar_url'')])"

definition reply_to_id_of :: "jsval \<Rightarrow> int nullable" where
  "reply_to_id_of c =
     (let r = js_get c ''reply_to_id''
      in if is_nullish r then Absent
         else case num_of r of Some n \<Rightarrow> Val n | None \<Rightarrow> Null)"

definition reply_preview_of :: "jsval \<Rightarrow> int \<Rightarrow> ReplyPreview" where
  "reply_preview_of r mid = \<lparr>
     rp_message_id = mid,
     rp_author_id = num_or 0 (js_get r ''author_id''),
     rp_author_first_name = str_or [] (js_get r ''author_first_name''),
     rp_author_last_name = str_or [] (js_get r ''author_last_name''),
     rp_author_nickname = str_of (js_get r ''author_nickname''),
     rp_content = str_or [] (js_get r ''content''),
     rp_has_attachments = (bool_of (js_get r ''has_attachments'') = Some True) \<rparr>"

definition reply_to_of :: "jsval \<Rightarrow> ReplyPreview nullable" where
  "reply_to_of c =
     (let r = js_get c ''reply_to''
      in if \<not> is_nullish r
         then (case num_of (js_get r ''message_id'') of
                 Some mid \<Rightarrow> Val (reply_preview_of r mid)
               | None \<Rightarrow> Absent)
         else if reply_to_id_of c = Null then Null else Absent)"

definition mentions_of :: "jsval \<Rightarrow> int list option" where
  "mentions_of c = map_option (List.map_filter num_of) (arr_of (js_get c ''mentions''))"

definition toMessage :: "string \<Rightarrow> jsval \<Rightarrow> Message option" where
  "toMessage now raw =
     (if \<not> is_object raw then None
      else case (num_of (js_get raw ''channel_id''), num_of (js_get raw ''author_id''),
                 str_of (js_get raw ''content'')) of
        (Some channel, Some author, Some content) \<Rightarrow> Some \<lparr>
          m_id = num_or 0 (js_get raw ''id''),
          m_channel_id = channel,
          m_author_id = author,
          m_author_first_name = author_first_name_of raw,
          m_author_last_name = author_last_name_of raw,
          m_author_nickname = author_nickname_of raw,
          m_author_avatar_url = author_avatar_url_of raw,
          m_content = content,
          m_attachments = parseAttachments (js_get raw ''attachments''),
          m_reply_to_id = reply_to_id_of raw,
          m_reply_to = reply_to_of raw,
          m_mentions = mentions_of raw,
          m_mentions_everyone = bool_of (js_get raw ''mentions_everyone''),
          m_embeds = parseEmbeds (js_get raw ''embeds''),
          m_created_at = str_or now (js_get raw ''created_at''),
          m_edited_at = str_of (js_get raw ''edited_at'') \<rparr>
      | _ \<Rightarrow> None)"

definition toDMChannel :: "jsval \<Rightarrow> DMChannel option" where
  "toDMChannel raw =
     (if \<not> is_object raw then None
      else case (num_of (js_get raw ''channel_id''), num_of (js_get raw ''peer_user_id'')) of
        (Some channel, Some peer) \<Rightarrow> Some \<lparr>
          dm_channel_id = channel,
          dm_peer_user_id = peer,
          dm_peer_nickname = str_or [] (js_get raw ''peer_nickname''),
          dm_peer_avatar_url = str_of (js_get raw ''peer_avatar_url''),
          dm_last_message_at = str_of (js_get raw ''last_message_at'') \<rparr>
      | _ \<Rightarrow> None)"

end
