(* ===== verification/SocketCore.thy ===== *)
theory SocketCore
  imports WireParse
begin

text \<open>
  The command queue and the connection life cycle of \<^verbatim>\<open>ChatSocket\<close>
  (\<^verbatim>\<open>services/chatSocket.ts\<close>): one command in flight at a time, a timeout per command,
  autoreconnect with backoff. Promises, sockets and timers are numbered; what a method does to the
  outside (settle a promise, arm a timer, call a listener, write a frame) is an \<open>effect\<close>. The
  record holds the class fields and, last, what the host keeps for them: live timers and the
  sockets whose opening a reconnect attempt waits for.
\<close>

section \<open>State\<close>

datatype ready_state = CONNECTING | OPEN | CLOSING | CLOSED

datatype timer_kind = CommandTimer | ReconnectTimer

datatype ReconnectPhase = Lost | Restored

text \<open>\<open>ConnPending w\<close> is the promise of socket \<open>w\<close>, \<open>ConnRejected e\<close> one rejected by its own executor.\<close>

datatype connection = ConnPending nat | ConnRejected string

record PendingCommand =
  pc_action :: string
  pc_requestId :: string
  pc_promise :: nat
  pc_timeoutId :: nat
  pc_openDMPeerUserId :: "int option"

record QueuedCommand =
  qc_action :: string
  qc_payload :: jsval
  qc_promise :: nat

datatype listener_set =
    ReconnectListeners | MessageListeners | MessageEmbedsListeners | MessageEditedListeners
  | ErrorListeners | VoiceParticipantsListeners | VoiceUserJoinedListeners | VoiceUserLeftListeners
  | VoiceStatusChangedListeners | VoiceUserDetachedListeners | VoiceUserResumedListeners
  | SfuOfferListeners | SfuAnswerListeners | SfuCandidateListeners | SfuTrackPublishedListeners
  | SfuTrackUnpublishedListeners | SfuActiveSpeakersListeners | SfuErrorListeners
  | SfuSessionClosedListeners | TypingListeners | DMOpenedListeners

datatype socket_event =
    OnReconnect ReconnectPhase
  | OnMessage Message
  | OnMessageEmbeds int int "LinkPreview list"
  | OnMessageEdited int int string string
  | OnError string
  | OnTyping jsval bool
  | OnDMOpened DMChannel
  | OnRaw listener_set jsval

fun set_of_event :: "socket_event \<Rightarrow> listener_set" where
  "set_of_event (OnReconnect _) = ReconnectListeners"
| "set_of_event (OnMessage _) = MessageListeners"
| "set_of_event (OnMessageEmbeds _ _ _) = MessageEmbedsListeners"
| "set_of_event (OnMessageEdited _ _ _ _) = MessageEditedListeners"
| "set_of_event (OnError _) = ErrorListeners"
| "set_of_event (OnTyping _ _) = TypingListeners"
| "set_of_event (OnDMOpened _) = DMOpenedListeners"
| "set_of_event (OnRaw l _) = l"

datatype effect =
    SendCommandFrame nat jsval
  | SendFrame jsval
  | Resolve nat jsval
  | Reject nat string
  | SetTimer nat nat
  | ClearTimer nat
  | CallListener nat socket_event
  | OpenSocket nat string
  | CloseSocket nat
  | ConnectResolved nat
  | ConnectRejected nat string
  | UncaughtTypeError

record chat_socket =
  socket :: "(nat \<times> ready_state) option"
  pending :: "PendingCommand option"
  queue :: "QueuedCommand list"
  nextRequestId :: nat
  connectionPromise :: "connection option"
  reconnectAttempt :: nat
  reconnectTimer :: "nat option"
  closedByUser :: bool
  listeners :: "listener_set \<Rightarrow> nat list"
  timers :: "(nat \<times> timer_kind) list"
  nextHandle :: nat
  reconnectWaiters :: "nat list"

definition new_socket :: chat_socket where
  "new_socket = \<lparr> socket = None, pending = None, queue = [], nextRequestId = 1,
     connectionPromise = None, reconnectAttempt = 0, reconnectTimer = None, closedByUser = False,
     listeners = (\<lambda>_. []), timers = [], nextHandle = 0, reconnectWaiters = [] \<rparr>"

definition COMMAND_TIMEOUT_MS :: nat where
  "COMMAND_TIMEOUT_MS = 10000"

section \<open>Listeners\<close>

definition subscribe :: "listener_set \<Rightarrow> nat \<Rightarrow> chat_socket \<Rightarrow> chat_socket" where
  "subscribe l i s = s\<lparr>listeners := (listeners s)(l := set_add i (listeners s l))\<rparr>"

definition unsubscribe :: "listener_set \<Rightarrow> nat \<Rightarrow> chat_socket \<Rightarrow> chat_socket" where
  "unsubscribe l i s = s\<lparr>listeners := (listeners s)(l := set_del i (listeners s l))\<rparr>"

definition notify_listeners :: "chat_socket \<Rightarrow> socket_event \<Rightarrow> effect list" where
  "notify_listeners s ev = map (\<lambda>i. CallListener i ev) (listeners s (set_of_event ev))"

section \<open>The command queue\<close>

definition isOpen :: "chat_socket \<Rightarrow> bool" where
  "isOpen s \<longleftrightarrow> (case socket s of Some (_, st) \<Rightarrow> st = OPEN | None \<Rightarrow> False)"

definition drop_timer :: "nat \<Rightarrow> (nat \<times> timer_kind) list \<Rightarrow> (nat \<times> timer_kind) list" where
  "drop_timer t ts = filter (\<lambda>p. fst p \<noteq> t) ts"

definition request_id :: "nat \<Rightarrow> string" where
  "request_id n = CHR ''r'' # show_nat n"

definition command_frame :: "string \<Rightarrow> jsval \<Rightarrow> string \<Rightarrow> jsval" where
  "command_frame action payload rid =
     JObj [(''action'', JStr action), (''payload'', payload), (''request_id'', JStr rid)]"

definition peer_of_command :: "QueuedCommand \<Rightarrow> int option" where
  "peer_of_command c =
     (if qc_action c = ''open_dm'' then num_of (js_get (qc_payload c) ''peer_user_id'') else None)"

definition flushQueue :: "chat_socket \<Rightarrow> chat_socket \<times> effect list" where
  "flushQueue s =
     (if \<not> isOpen s \<or> pending s \<noteq> None then (s, [])
      else case queue s of
        [] \<Rightarrow> (s, [])
      | c # rest \<Rightarrow>
          (let rid = request_id (nextRequestId s); t = nextHandle s
           in (s\<lparr> queue := rest,
                 nextRequestId := nextRequestId s + 1,
                 nextHandle := t + 1,
                 timers := timers s @ [(t, CommandTimer)],
                 pending := Some \<lparr> pc_action = qc_action c, pc_requestId = rid,
                   pc_promise = qc_promise c, pc_timeoutId = t,
                   pc_openDMPeerUserId = peer_of_command c \<rparr> \<rparr>,
               [SetTimer t COMMAND_TIMEOUT_MS,
                SendCommandFrame (qc_promise c) (command_frame (qc_action c) (qc_payload c) rid)])))"

definition and_then :: "chat_socket \<times> effect list \<Rightarrow> (chat_socket \<Rightarrow> chat_socket \<times> effect list) \<Rightarrow>
    chat_socket \<times> effect list" where
  "and_then r f = (let (s, os) = r; (s', os') = f s in (s', os @ os'))"

text \<open>\<open>pending.resolve(data); pending = null\<close> and the same for \<open>reject\<close>: both clear the timeout.\<close>

definition resolve_pending :: "jsval \<Rightarrow> chat_socket \<Rightarrow> chat_socket \<times> effect list" where
  "resolve_pending d s = (case pending s of
     None \<Rightarrow> (s, [])
   | Some p \<Rightarrow> (s\<lparr>pending := None, timers := drop_timer (pc_timeoutId p) (timers s)\<rparr>,
       [ClearTimer (pc_timeoutId p), Resolve (pc_promise p) d]))"

definition reject_pending :: "string \<Rightarrow> chat_socket \<Rightarrow> chat_socket \<times> effect list" where
  "reject_pending e s = (case pending s of
     None \<Rightarrow> (s, [])
   | Some p \<Rightarrow> (s\<lparr>pending := None, timers := drop_timer (pc_timeoutId p) (timers s)\<rparr>,
       [ClearTimer (pc_timeoutId p), Reject (pc_promise p) e]))"

definition command_timeout :: "nat \<Rightarrow> chat_socket \<Rightarrow> chat_socket \<times> effect list" where
  "command_timeout t s0 =
     (let s = s0\<lparr>timers := drop_timer t (timers s0)\<rparr>
      in if pending s = None then (s, [])
         else and_then (and_then (reject_pending ''Chat response timeout'' s)
                (\<lambda>s1. (s1, notify_listeners s1 (OnError ''Chat response timeout''))))
              flushQueue)"

definition reject_queue :: "string \<Rightarrow> chat_socket \<Rightarrow> chat_socket \<times> effect list" where
  "reject_queue e s = (s\<lparr>queue := []\<rparr>, map (\<lambda>c. Reject (qc_promise c) e) (queue s))"

definition rejectAllPending :: "string \<Rightarrow> chat_socket \<Rightarrow> chat_socket \<times> effect list" where
  "rejectAllPending e s = and_then (reject_pending e s) (reject_queue e)"

definition stale_reply :: "chat_socket \<Rightarrow> string option \<Rightarrow> bool" where
  "stale_reply s rid = (case (rid, pending s) of
     (Some r, Some p) \<Rightarrow> r \<noteq> [] \<and> pc_requestId p \<noteq> r
   | _ \<Rightarrow> False)"

definition handleSocketError :: "string \<Rightarrow> string option \<Rightarrow> chat_socket \<Rightarrow> chat_socket \<times> effect list" where
  "handleSocketError text rid s =
     (if stale_reply s rid then (s, notify_listeners s (OnError text))
      else let unsupported = (map_option pc_action (pending s) = Some ''get_user_info''
                 \<and> str_includes (to_lower text) ''unknown action'');
               r = (if pending s = None then (s, [])
                    else and_then (reject_pending text s) flushQueue)
           in if unsupported then r
              else and_then r (\<lambda>s1. (s1, notify_listeners s1 (OnError text))))"

definition sendCommand :: "nat \<Rightarrow> string \<Rightarrow> jsval \<Rightarrow> chat_socket \<Rightarrow> chat_socket \<times> effect list" where
  "sendCommand promise action payload s =
     (if \<not> isOpen s then (s, [Reject promise ''WebSocket not connected''])
      else flushQueue (s\<lparr>queue := queue s @
             [\<lparr> qc_action = action, qc_payload = payload, qc_promise = promise \<rparr>]\<rparr>))"

text \<open>\<open>sendTyping\<close>, \<open>sendMarkRead\<close>: outside the queue, dropped while the socket is not open.\<close>

definition sendTyping :: "int \<Rightarrow> bool \<Rightarrow> chat_socket \<Rightarrow> chat_socket \<times> effect list" where
  "sendTyping channelId isTyping s =
     (if \<not> isOpen s then (s, [])
      else (s, [SendFrame (JObj [
        (''action'', JStr (if isTyping then ''typing_start'' else ''typing_stop'')),
        (''payload'', JObj [(''channel_id'', JNum channelId)])])]))"

definition sendMarkRead :: "int \<Rightarrow> int \<Rightarrow> chat_socket \<Rightarrow> chat_socket \<times> effect list" where
  "sendMarkRead channelId messageId s =
     (if \<not> isOpen s then (s, [])
      else (s, [SendFrame (JObj [
        (''action'', JStr ''mark_read''),
        (''payload'', JObj [(''channel_id'', JNum channelId), (''message_id'', JNum messageId)])])]))"

text \<open>\<open>sendSfuCandidate\<close> is async: its own promise rejects while the socket is not open.\<close>

definition sendSfuCandidate :: "nat \<Rightarrow> jsval \<Rightarrow> chat_socket \<Rightarrow> chat_socket \<times> effect list" where
  "sendSfuCandidate promise payload s =
     (if \<not> isOpen s then (s, [Reject promise ''WebSocket not connected''])
      else (s, [SendFrame (JObj [(''action'', JStr ''sfu_candidate''), (''payload'', payload)]),
                Resolve promise JUndefined]))"

section \<open>The connection\<close>

definition RECONNECT_CAP_MS :: nat where
  "RECONNECT_CAP_MS = 15000"

definition reconnect_base :: "nat \<Rightarrow> nat" where
  "reconnect_base attempt = min RECONNECT_CAP_MS (500 * 2 ^ (attempt - 1))"

text \<open>\<open>jitter\<close> is \<open>Math.floor(Math.random() * 500)\<close>.\<close>

definition scheduleReconnect :: "nat \<Rightarrow> chat_socket \<Rightarrow> chat_socket \<times> effect list" where
  "scheduleReconnect jitter s =
     (if closedByUser s \<or> reconnectTimer s \<noteq> None then (s, [])
      else let attempt = reconnectAttempt s + 1; t = nextHandle s
           in (s\<lparr> reconnectAttempt := attempt, reconnectTimer := Some t, nextHandle := t + 1,
                 timers := timers s @ [(t, ReconnectTimer)] \<rparr>,
               [SetTimer t (reconnect_base attempt + jitter)]))"

datatype connect_outcome = ConnNow | ConnWait nat | ConnFail string

text \<open>\<open>url\<close> is what \<open>resolveWsUrl()\<close> returns (\<open>Inr\<close>) or throws (\<open>Inl\<close>).\<close>

definition connect :: "string + string \<Rightarrow> chat_socket \<Rightarrow> chat_socket \<times> connect_outcome \<times> effect list" where
  "connect url s =
     (if isOpen s then (s, ConnNow, [])
      else case connectionPromise s of
        Some (ConnPending w) \<Rightarrow> (s, ConnWait w, [])
      | Some (ConnRejected e) \<Rightarrow> (s, ConnFail e, [])
      | None \<Rightarrow>
          (case url of
             Inl e \<Rightarrow> (s\<lparr>closedByUser := False, connectionPromise := Some (ConnRejected e)\<rparr>, ConnFail e, [])
           | Inr u \<Rightarrow> (let w = nextHandle s in
               (s\<lparr> closedByUser := False, nextHandle := w + 1, socket := Some (w, CONNECTING),
                   connectionPromise := Some (ConnPending w) \<rparr>, ConnWait w, [OpenSocket w u]))))"

definition reconnect_restored :: "chat_socket \<Rightarrow> chat_socket \<times> effect list" where
  "reconnect_restored s = (s\<lparr>reconnectAttempt := 0\<rparr>, notify_listeners s (OnReconnect Restored))"

definition reconnect_fire :: "nat \<Rightarrow> string + string \<Rightarrow> nat \<Rightarrow> chat_socket \<Rightarrow> chat_socket \<times> effect list" where
  "reconnect_fire t url jitter s0 =
     (let (s, outcome, os) = connect url
            (s0\<lparr>reconnectTimer := None, timers := drop_timer t (timers s0)\<rparr>)
      in case outcome of
           ConnNow \<Rightarrow> and_then (s, os) reconnect_restored
         | ConnWait w \<Rightarrow> (s\<lparr>reconnectWaiters := w # reconnectWaiters s\<rparr>, os)
         | ConnFail e \<Rightarrow> and_then (s, os) (scheduleReconnect jitter))"

definition set_ready :: "nat \<Rightarrow> ready_state \<Rightarrow> chat_socket \<Rightarrow> chat_socket" where
  "set_ready w st s = (case socket s of
     Some (v, _) \<Rightarrow> if v = w then s\<lparr>socket := Some (w, st)\<rparr> else s
   | None \<Rightarrow> s)"

definition ws_onopen :: "nat \<Rightarrow> chat_socket \<Rightarrow> chat_socket \<times> effect list" where
  "ws_onopen w s0 =
     (let s = (set_ready w OPEN s0)\<lparr>connectionPromise := None\<rparr>;
          r = and_then (flushQueue s) (\<lambda>s1. (s1, [ConnectResolved w]))
      in if w \<in> set (reconnectWaiters s)
         then and_then r (\<lambda>s1. reconnect_restored
                (s1\<lparr>reconnectWaiters := removeAll w (reconnectWaiters s1)\<rparr>))
         else r)"

definition ws_onerror :: "nat \<Rightarrow> nat \<Rightarrow> chat_socket \<Rightarrow> chat_socket \<times> effect list" where
  "ws_onerror w jitter s0 =
     (let s = (set_ready w CLOSED s0)\<lparr>connectionPromise := None\<rparr>;
          r = (s, [ConnectRejected w ''Failed to connect to chat''])
      in if w \<in> set (reconnectWaiters s)
         then and_then r (\<lambda>s1. scheduleReconnect jitter
                (s1\<lparr>reconnectWaiters := removeAll w (reconnectWaiters s1)\<rparr>))
         else r)"

definition CLOSED_MESSAGE :: string where
  "CLOSED_MESSAGE = ''The WebSocket connection was closed.''"

definition ws_onclose :: "nat \<Rightarrow> nat \<Rightarrow> chat_socket \<Rightarrow> chat_socket \<times> effect list" where
  "ws_onclose w jitter s0 =
     (let s = (set_ready w CLOSED s0)\<lparr>connectionPromise := None\<rparr>;
          r = rejectAllPending CLOSED_MESSAGE s
      in if closedByUser s then r
         else and_then (and_then r (\<lambda>s1. (s1, notify_listeners s1 (OnReconnect Lost))))
                (scheduleReconnect jitter))"

definition close_socket :: "chat_socket \<Rightarrow> chat_socket \<times> effect list" where
  "close_socket s0 =
     (let cleared = (case reconnectTimer s0 of
            None \<Rightarrow> (s0\<lparr>closedByUser := True\<rparr>, [])
          | Some t \<Rightarrow> (s0\<lparr>closedByUser := True, reconnectTimer := None,
                            timers := drop_timer t (timers s0)\<rparr>, [ClearTimer t]));
          r = and_then (and_then cleared (\<lambda>s. (s\<lparr>connectionPromise := None\<rparr>, [])))
                (rejectAllPending CLOSED_MESSAGE)
      in and_then r (\<lambda>s. (s\<lparr>socket := None\<rparr>,
           case socket s of Some (w, _) \<Rightarrow> [CloseSocket w] | None \<Rightarrow> [])))"

end
