(* ===== verification/SocketDispatch.thy ===== *)
theory SocketDispatch
  imports SocketCore
begin

text \<open>
  The \<^verbatim>\<open>onmessage\<close> handler of \<^verbatim>\<open>ChatSocket.connect\<close>: which server event reaches which
  listeners, and which reply settles the command in flight. The branches are grouped as the handler
  has them; a branch that only calls listeners is a function to the events it delivers.
\<close>

section \<open>The envelope\<close>

text \<open>\<open>event\<close>, \<open>request_id\<close> and \<open>error\<close> are strings when present, as the declared type says; a field of
  another type is read as absent.\<close>

record WsServerEvent =
  ev_event :: string
  ev_request_id :: "string option"
  ev_error :: "string option"
  ev_data :: jsval

definition server_event :: "jsval \<Rightarrow> WsServerEvent" where
  "server_event v = \<lparr>
     ev_event = str_or [] (js_get v ''event''),
     ev_request_id = str_of (js_get v ''request_id''),
     ev_error = str_of (js_get v ''error''),
     ev_data = js_get v ''data'' \<rparr>"

section \<open>Events that only reach listeners\<close>

definition message_events :: "string \<Rightarrow> string \<Rightarrow> jsval \<Rightarrow> socket_event list option" where
  "message_events now ev d =
     (if ev = ''message'' then
        Some (case toMessage now d of Some m \<Rightarrow> [OnMessage m] | None \<Rightarrow> [])
      else if ev = ''message_embeds'' then
        Some (case (num_of (js_get d ''channel_id''), num_of (js_get d ''message_id'')) of
          (Some c, Some m) \<Rightarrow> [OnMessageEmbeds c m (parseEmbeds (js_get d ''embeds''))]
        | _ \<Rightarrow> [])
      else if ev = ''message_edited'' then
        Some (case (num_of (js_get d ''channel_id''), num_of (js_get d ''message_id''),
                    str_of (js_get d ''content'')) of
          (Some c, Some m, Some t) \<Rightarrow> [OnMessageEdited c m t (str_or now (js_get d ''edited_at''))]
        | _ \<Rightarrow> [])
      else None)"

definition is_voice_user :: "jsval \<Rightarrow> bool" where
  "is_voice_user d \<longleftrightarrow> is_number (js_get d ''channel_id'') \<and> is_number (js_get (js_get d ''user'') ''user_id'')"

definition voice_events :: "string \<Rightarrow> jsval \<Rightarrow> socket_event list option" where
  "voice_events ev d =
     (if ev = ''voice_participants'' then
        Some (if is_array (js_get d ''participants'')
              then [OnRaw VoiceParticipantsListeners (js_get d ''participants'')] else [])
      else if ev = ''voice_user_joined'' then
        Some (if is_voice_user d then [OnRaw VoiceUserJoinedListeners d] else [])
      else if ev = ''voice_user_left'' then
        Some (if is_voice_user d then [OnRaw VoiceUserLeftListeners d] else [])
      else if ev = ''voice_status_changed'' then
        Some (if is_voice_user d then [OnRaw VoiceStatusChangedListeners d] else [])
      else if ev = ''voice_user_detached'' then
        Some (if is_voice_user d then [OnRaw VoiceUserDetachedListeners d] else [])
      else if ev = ''voice_user_resumed'' then
        Some (if is_voice_user d then [OnRaw VoiceUserResumedListeners d] else [])
      else None)"

definition typing_events :: "string \<Rightarrow> jsval \<Rightarrow> socket_event list option" where
  "typing_events ev d =
     (if ev = ''typing_start'' \<or> ev = ''typing_stop'' then
        Some (if is_number (js_get d ''channel_id'') \<and> is_number (js_get d ''user_id'')
              then [OnTyping d (ev = ''typing_start'')] else [])
      else None)"

definition is_session_payload :: "jsval \<Rightarrow> string \<Rightarrow> bool" where
  "is_session_payload d k \<longleftrightarrow> is_string (js_get d ''session_id'') \<and> is_string (js_get d k)"

definition is_track_payload :: "jsval \<Rightarrow> bool" where
  "is_track_payload d \<longleftrightarrow> is_number (js_get d ''channel_id'') \<and> is_number (js_get d ''user_id'')"

definition sfu_error_payload :: "string option \<Rightarrow> jsval \<Rightarrow> jsval" where
  "sfu_error_payload err d =
     (if is_nullish d
      then JObj [(''session_id'', JStr []), (''code'', JStr ''unknown''),
        (''message'', JStr (case err of Some e \<Rightarrow> (if e \<noteq> [] then e else ''SFU error'') | None \<Rightarrow> ''SFU error''))]
      else d)"

definition sfu_events :: "string \<Rightarrow> string option \<Rightarrow> jsval \<Rightarrow> socket_event list option" where
  "sfu_events ev err d =
     (if ev = ''sfu_offer'' then
        Some (if is_session_payload d ''sdp'' then [OnRaw SfuOfferListeners d] else [])
      else if ev = ''sfu_answer'' then
        Some (if is_session_payload d ''sdp'' then [OnRaw SfuAnswerListeners d] else [])
      else if ev = ''sfu_candidate'' then
        Some (if is_session_payload d ''candidate'' then [OnRaw SfuCandidateListeners d] else [])
      else if ev = ''sfu_track_published'' then
        Some (if is_track_payload d then [OnRaw SfuTrackPublishedListeners d] else [])
      else if ev = ''sfu_track_unpublished'' then
        Some (if is_track_payload d then [OnRaw SfuTrackUnpublishedListeners d] else [])
      else if ev = ''sfu_active_speakers'' then
        Some (if is_number (js_get d ''channel_id'') \<and> is_array (js_get d ''user_ids'')
              then [OnRaw SfuActiveSpeakersListeners d] else [])
      else if ev = ''sfu_error'' then
        Some [OnRaw SfuErrorListeners (sfu_error_payload err d)]
      else if ev = ''sfu_session_closed'' then
        Some (if is_string (js_get d ''session_id'') then [OnRaw SfuSessionClosedListeners d] else [])
      else None)"

definition listener_events :: "string \<Rightarrow> WsServerEvent \<Rightarrow> socket_event list option" where
  "listener_events now e =
     (case message_events now (ev_event e) (ev_data e) of Some evs \<Rightarrow> Some evs | None \<Rightarrow>
      case voice_events (ev_event e) (ev_data e) of Some evs \<Rightarrow> Some evs | None \<Rightarrow>
      case typing_events (ev_event e) (ev_data e) of Some evs \<Rightarrow> Some evs | None \<Rightarrow>
      sfu_events (ev_event e) (ev_error e) (ev_data e))"

definition deliver :: "socket_event list \<Rightarrow> chat_socket \<Rightarrow> chat_socket \<times> effect list" where
  "deliver evs s = (s, concat (map (notify_listeners s) evs))"

section \<open>Replies\<close>

definition resolve_and_flush :: "jsval \<Rightarrow> chat_socket \<Rightarrow> chat_socket \<times> effect list" where
  "resolve_and_flush d s = and_then (resolve_pending d s) flushQueue"

definition pending_action :: "chat_socket \<Rightarrow> string option" where
  "pending_action s = map_option pc_action (pending s)"

definition dm_opened :: "jsval \<Rightarrow> chat_socket \<Rightarrow> chat_socket \<times> effect list" where
  "dm_opened d s = (case toDMChannel d of
     None \<Rightarrow> (s, [])
   | Some dm \<Rightarrow> and_then (deliver [OnDMOpened dm] s) (\<lambda>s.
       if pending_action s = Some ''open_dm''
          \<and> Option.bind (pending s) pc_openDMPeerUserId = Some (dm_peer_user_id dm)
       then resolve_and_flush d s else (s, [])))"

text \<open>The replies that carry no \<open>ack\<close>: each resolves the command in flight when its action fits.\<close>

definition reply_to_action :: "string \<Rightarrow> string option" where
  "reply_to_action ev =
     (if ev = ''dm_list'' then Some ''list_dms''
      else if ev = ''dm_closed'' then Some ''close_dm''
      else if ev = ''user_search'' then Some ''search_users''
      else None)"

definition named_reply :: "string \<Rightarrow> jsval \<Rightarrow> chat_socket \<Rightarrow> chat_socket \<times> effect list" where
  "named_reply action d s = (if pending_action s = Some action then resolve_and_flush d s else (s, []))"

definition error_text :: "string option \<Rightarrow> string" where
  "error_text err = (case err of Some e \<Rightarrow> (if e \<noteq> [] then e else ''Chat error'') | None \<Rightarrow> ''Chat error'')"

definition ack_reply :: "string option \<Rightarrow> jsval \<Rightarrow> chat_socket \<Rightarrow> chat_socket \<times> effect list" where
  "ack_reply rid d s = (if stale_reply s rid then (s, []) else resolve_and_flush d s)"

text \<open>The branches of the handler after those that only call listeners, in their order.\<close>

definition reply_event :: "WsServerEvent \<Rightarrow> chat_socket \<Rightarrow> chat_socket \<times> effect list" where
  "reply_event e s =
     (if ev_event e = ''dm_opened'' then dm_opened (ev_data e) s
      else case reply_to_action (ev_event e) of
        Some action \<Rightarrow> named_reply action (ev_data e) s
      | None \<Rightarrow>
        (if ev_event e = ''error'' then handleSocketError (error_text (ev_error e)) (ev_request_id e) s
         else if ev_event e = ''ack'' \<and> pending s \<noteq> None then ack_reply (ev_request_id e) (ev_data e) s
         else (case ev_error e of
                 Some err \<Rightarrow> (if trim err \<noteq> [] then handleSocketError err (ev_request_id e) s else (s, []))
               | None \<Rightarrow> (s, []))))"

text \<open>
  The handler. \<open>None\<close> is a frame that \<open>JSON.parse\<close> refuses; on \<open>null\<close> the first property read
  throws and the handler ends there. The two groups test disjoint event names, so their order
  does not matter.
\<close>

definition onmessage :: "string \<Rightarrow> jsval option \<Rightarrow> chat_socket \<Rightarrow> chat_socket \<times> effect list" where
  "onmessage now frame s = (case frame of
     None \<Rightarrow> (s, [])
   | Some v \<Rightarrow>
       (if is_nullish v then (s, [UncaughtTypeError])
        else let e = server_event v
             in case listener_events now e of
                  Some evs \<Rightarrow> deliver evs s
                | None \<Rightarrow> reply_event e s))"

section \<open>Shapes of the groups\<close>

lemma message_events_None:
  "message_events now ev d = None \<longleftrightarrow> ev \<notin> {''message'', ''message_embeds'', ''message_edited''}"
  by (auto simp: message_events_def)

lemma typing_events_None: "typing_events ev d = None \<longleftrightarrow> ev \<notin> {''typing_start'', ''typing_stop''}"
  by (auto simp: typing_events_def)

lemma deliver_state [simp]: "fst (deliver evs s) = s"
  by (simp add: deliver_def)

end
