(* ===== verification/SocketMachine.thy ===== *)
theory SocketMachine
  imports SocketDispatch
begin

text \<open>
  \<^verbatim>\<open>ChatSocket\<close> as a machine: the calls of its methods, the frames and the socket and timer
  events the host delivers, in any order. The section on the invariant says what every reachable
  state satisfies; the section on the account says that each command is settled exactly once.
\<close>

section \<open>Events\<close>

datatype socket_input =
    InSend nat string jsval
  | InTyping int bool
  | InMarkRead int int
  | InFrame string "jsval option"
  | InTimer nat "string + string" nat
  | InConnect "string + string"
  | InOpen nat
  | InError nat nat
  | InClose nat nat
  | InClosing nat
  | InUserClose
  | InSubscribe listener_set nat
  | InUnsubscribe listener_set nat

definition fire_timer :: "nat \<Rightarrow> string + string \<Rightarrow> nat \<Rightarrow> chat_socket \<Rightarrow> chat_socket \<times> effect list" where
  "fire_timer t url jitter s = (case map_of (timers s) t of
     Some CommandTimer \<Rightarrow> command_timeout t s
   | Some ReconnectTimer \<Rightarrow> reconnect_fire t url jitter s
   | None \<Rightarrow> (s, []))"

fun socket_step :: "chat_socket \<Rightarrow> socket_input \<Rightarrow> chat_socket \<times> effect list" where
  "socket_step s (InSend p a d) = sendCommand p a d s"
| "socket_step s (InTyping c b) = sendTyping c b s"
| "socket_step s (InMarkRead c m) = sendMarkRead c m s"
| "socket_step s (InFrame now f) = onmessage now f s"
| "socket_step s (InTimer t url j) = fire_timer t url j s"
| "socket_step s (InConnect url) = (let (s', _, os) = connect url s in (s', os))"
| "socket_step s (InOpen w) = ws_onopen w s"
| "socket_step s (InError w j) = ws_onerror w j s"
| "socket_step s (InClose w j) = ws_onclose w j s"
| "socket_step s (InClosing w) = (set_ready w CLOSING s, [])"
| "socket_step s InUserClose = close_socket s"
| "socket_step s (InSubscribe l i) = (subscribe l i s, [])"
| "socket_step s (InUnsubscribe l i) = (unsubscribe l i s, [])"

text \<open>
  What the host can deliver: a live timer, the opening of the current socket while it connects, the
  end of any socket it ever made; \<open>jitter\<close> is below 500.
\<close>

fun socket_enabled :: "chat_socket \<Rightarrow> socket_input \<Rightarrow> bool" where
  "socket_enabled s (InTimer t url j) = (t \<in> fst ` set (timers s) \<and> j < 500)"
| "socket_enabled s (InOpen w) = (socket s = Some (w, CONNECTING))"
| "socket_enabled s (InError w j) = (w < nextHandle s \<and> j < 500)"
| "socket_enabled s (InClose w j) = (w < nextHandle s \<and> j < 500)"
| "socket_enabled s (InClosing w) = (socket s = Some (w, OPEN))"
| "socket_enabled s _ = True"

abbreviation socket_run where
  "socket_run \<equiv> run socket_enabled socket_step"

end
