(* ===== verification/SocketInvariant.thy ===== *)
theory SocketInvariant
  imports SocketMachine
begin

text \<open>
  What every reachable state of \<^verbatim>\<open>ChatSocket\<close> satisfies: the live timers are exactly the timeout
  of the command in flight and the pending reconnect, the command in flight carries an issued
  request id, and an open socket with nothing in flight has an empty queue.
\<close>

section \<open>The invariant\<close>

definition live_timers :: "chat_socket \<Rightarrow> (nat \<times> timer_kind) set" where
  "live_timers s =
     (case pending s of None \<Rightarrow> {} | Some p \<Rightarrow> {(pc_timeoutId p, CommandTimer)})
   \<union> (case reconnectTimer s of None \<Rightarrow> {} | Some t \<Rightarrow> {(t, ReconnectTimer)})"

definition socket_core :: "chat_socket \<Rightarrow> bool" where
  "socket_core s \<longleftrightarrow>
     set (timers s) = live_timers s
   \<and> distinct (map fst (timers s)) \<and> (\<forall>p \<in> set (timers s). fst p < nextHandle s)
   \<and> (\<forall>p. pending s = Some p \<longrightarrow> (\<exists>n < nextRequestId s. pc_requestId p = request_id n))
   \<and> (closedByUser s \<longrightarrow> reconnectTimer s = None)
   \<and> (\<forall>l. distinct (listeners s l))"

definition not_stalled :: "chat_socket \<Rightarrow> bool" where
  "not_stalled s \<longleftrightarrow> (isOpen s \<and> pending s = None \<longrightarrow> queue s = [])"

definition socket_inv :: "chat_socket \<Rightarrow> bool" where
  "socket_inv s \<longleftrightarrow> socket_core s \<and> not_stalled s"

lemma set_drop_timer [simp]: "set (drop_timer t ts) = {p \<in> set ts. fst p \<noteq> t}"
  by (auto simp: drop_timer_def)

lemma distinct_drop_timer [simp]: "distinct (map fst ts) \<Longrightarrow> distinct (map fst (drop_timer t ts))"
  by (simp add: drop_timer_def distinct_map_filter)

lemma isOpen_update [simp]:
  "isOpen (s\<lparr>queue := q\<rparr>) = isOpen s" "isOpen (s\<lparr>pending := p\<rparr>) = isOpen s"
  "isOpen (s\<lparr>timers := ts\<rparr>) = isOpen s" "isOpen (s\<lparr>nextHandle := n\<rparr>) = isOpen s"
  "isOpen (s\<lparr>nextRequestId := n\<rparr>) = isOpen s" "isOpen (s\<lparr>reconnectTimer := r\<rparr>) = isOpen s"
  "isOpen (s\<lparr>reconnectAttempt := n\<rparr>) = isOpen s" "isOpen (s\<lparr>closedByUser := b\<rparr>) = isOpen s"
  "isOpen (s\<lparr>connectionPromise := c\<rparr>) = isOpen s" "isOpen (s\<lparr>listeners := ls\<rparr>) = isOpen s"
  "isOpen (s\<lparr>reconnectWaiters := ws\<rparr>) = isOpen s"
  by (simp_all add: isOpen_def)

lemma fst_and_then [simp]: "fst (and_then r f) = fst (f (fst r))"
  by (simp add: and_then_def split: prod.split)

lemma snd_and_then [simp]: "snd (and_then r f) = snd r @ snd (f (fst r))"
  by (simp add: and_then_def split: prod.split)

text \<open>The two live timers are different, so dropping one keeps the other.\<close>

lemma core_timers_differ:
  assumes "socket_core s" and "pending s = Some p" and "reconnectTimer s = Some t"
  shows "pc_timeoutId p \<noteq> t"
proof
  assume eq: "pc_timeoutId p = t"
  have "(t, CommandTimer) \<in> set (timers s)" and "(t, ReconnectTimer) \<in> set (timers s)"
    using assms eq by (auto simp: socket_core_def live_timers_def)
  moreover have "distinct (map fst (timers s))" using assms(1) by (simp add: socket_core_def)
  ultimately show False by (metis eq_key_imp_eq_value timer_kind.distinct(1))
qed

lemma core_drop_pending:
  assumes "socket_core s" and "pending s = Some p"
  shows "socket_core (s\<lparr>pending := None, timers := drop_timer (pc_timeoutId p) (timers s)\<rparr>)"
proof (cases "reconnectTimer s")
  case None
  with assms show ?thesis by (auto simp: socket_core_def live_timers_def)
next
  case (Some t)
  with assms core_timers_differ [OF assms] show ?thesis
    by (auto simp: socket_core_def live_timers_def)
qed

lemma core_drop_reconnect:
  assumes "socket_core s" and "reconnectTimer s = Some t"
  shows "socket_core (s\<lparr>reconnectTimer := None, timers := drop_timer t (timers s)\<rparr>)"
proof (cases "pending s")
  case None
  with assms show ?thesis by (auto simp: socket_core_def live_timers_def)
next
  case (Some p)
  with assms core_timers_differ [OF assms(1) Some] show ?thesis
    by (auto simp: socket_core_def live_timers_def)
qed

lemma core_resolve: "socket_core s \<Longrightarrow> socket_core (fst (resolve_pending d s))"
  by (simp add: resolve_pending_def core_drop_pending split: option.split)

lemma core_reject: "socket_core s \<Longrightarrow> socket_core (fst (reject_pending e s))"
  by (simp add: reject_pending_def core_drop_pending split: option.split)

lemma core_flush: "socket_core s \<Longrightarrow> socket_core (fst (flushQueue s))"
  by (auto simp: flushQueue_def Let_def socket_core_def live_timers_def less_Suc_eq
      split: list.split option.splits)

lemma flush_not_stalled [simp]: "not_stalled (fst (flushQueue s))"
  by (auto simp: flushQueue_def not_stalled_def Let_def isOpen_def split: list.split option.split)

lemma flush_inv: "socket_core s \<Longrightarrow> socket_inv (fst (flushQueue s))"
  by (simp add: socket_inv_def core_flush)

lemma core_schedule: "socket_core s \<Longrightarrow> socket_core (fst (scheduleReconnect j s))"
  by (auto simp: scheduleReconnect_def Let_def socket_core_def live_timers_def less_Suc_eq
      split: option.splits)

lemma schedule_frame [simp]:
  "pending (fst (scheduleReconnect j s)) = pending s" "queue (fst (scheduleReconnect j s)) = queue s"
  "isOpen (fst (scheduleReconnect j s)) = isOpen s"
  by (simp_all add: scheduleReconnect_def Let_def)

lemma schedule_inv: "socket_inv s \<Longrightarrow> socket_inv (fst (scheduleReconnect j s))"
  by (simp add: socket_inv_def core_schedule not_stalled_def)

lemma core_frame [simp]:
  "socket_core (s\<lparr>queue := q\<rparr>) = socket_core s"
  "socket_core (s\<lparr>connectionPromise := c\<rparr>) = socket_core s"
  "socket_core (s\<lparr>reconnectWaiters := ws\<rparr>) = socket_core s"
  "socket_core (s\<lparr>reconnectAttempt := n\<rparr>) = socket_core s"
  "socket_core (s\<lparr>socket := v\<rparr>) = socket_core s"
  by (simp_all add: socket_core_def live_timers_def)

lemma not_stalled_frame [simp]:
  "not_stalled (s\<lparr>connectionPromise := c\<rparr>) = not_stalled s"
  "not_stalled (s\<lparr>reconnectWaiters := ws\<rparr>) = not_stalled s"
  "not_stalled (s\<lparr>reconnectAttempt := n\<rparr>) = not_stalled s"
  "not_stalled (s\<lparr>listeners := ls\<rparr>) = not_stalled s"
  by (simp_all add: not_stalled_def)

lemma inv_frame [simp]:
  "socket_inv (s\<lparr>connectionPromise := c\<rparr>) = socket_inv s"
  "socket_inv (s\<lparr>reconnectWaiters := ws\<rparr>) = socket_inv s"
  "socket_inv (s\<lparr>reconnectAttempt := n\<rparr>) = socket_inv s"
  by (simp_all add: socket_inv_def)

lemma inv_core: "socket_inv s \<Longrightarrow> socket_core s"
  by (simp add: socket_inv_def)

lemma core_set_ready [simp]: "socket_core (set_ready w st s) = socket_core s"
  by (simp add: set_ready_def split: option.split)

lemma send_inv: "socket_inv s \<Longrightarrow> socket_inv (fst (sendCommand p a d s))"
  by (simp add: sendCommand_def flush_inv socket_inv_def core_flush)

lemma resolve_and_flush_inv: "socket_core s \<Longrightarrow> socket_inv (fst (resolve_and_flush d s))"
  by (simp add: resolve_and_flush_def flush_inv core_resolve)

lemma handle_error_inv: "socket_inv s \<Longrightarrow> socket_inv (fst (handleSocketError e r s))"
  by (auto simp: handleSocketError_def Let_def intro!: flush_inv core_reject)
     (auto simp: socket_inv_def)

lemma dm_opened_inv: "socket_inv s \<Longrightarrow> socket_inv (fst (dm_opened d s))"
  by (auto simp: dm_opened_def intro: resolve_and_flush_inv inv_core split: option.split)

lemma reply_inv: "socket_inv s \<Longrightarrow> socket_inv (fst (reply_event e s))"
  by (auto simp: reply_event_def dm_opened_inv named_reply_def ack_reply_def handle_error_inv
      intro: resolve_and_flush_inv inv_core split: option.split)

lemma onmessage_inv: "socket_inv s \<Longrightarrow> socket_inv (fst (onmessage now f s))"
  by (simp add: onmessage_def Let_def reply_inv split: option.split)

lemma timer_lookup:
  assumes "socket_core s"
  shows "map_of (timers s) t = Some CommandTimer \<Longrightarrow> \<exists>p. pending s = Some p \<and> pc_timeoutId p = t"
    and "map_of (timers s) t = Some ReconnectTimer \<Longrightarrow> reconnectTimer s = Some t"
proof -
  have live: "(t, k) \<in> live_timers s" if "map_of (timers s) t = Some k" for k
    using map_of_SomeD [OF that] assms by (simp add: socket_core_def)
  show "\<exists>p. pending s = Some p \<and> pc_timeoutId p = t" if "map_of (timers s) t = Some CommandTimer"
    using live [OF that] by (auto simp: live_timers_def split: option.splits)
  show "reconnectTimer s = Some t" if "map_of (timers s) t = Some ReconnectTimer"
    using live [OF that] by (auto simp: live_timers_def split: option.splits)
qed

lemma drop_timer_idem [simp]: "drop_timer t (drop_timer t ts) = drop_timer t ts"
  by (simp add: drop_timer_def)

lemma reject_after_drop:
  "pending s = Some p \<Longrightarrow>
   reject_pending e (s\<lparr>timers := drop_timer (pc_timeoutId p) (timers s)\<rparr>) = reject_pending e s"
  by (simp add: reject_pending_def)

lemma command_timeout_eq:
  assumes "pending s = Some p"
  shows "command_timeout (pc_timeoutId p) s =
    and_then (and_then (reject_pending ''Chat response timeout'' s)
       (\<lambda>s1. (s1, notify_listeners s1 (OnError ''Chat response timeout'')))) flushQueue"
  using assms by (simp add: command_timeout_def Let_def reject_after_drop)

lemma command_timeout_inv:
  assumes "socket_core s" and "pending s = Some p"
  shows "socket_inv (fst (command_timeout (pc_timeoutId p) s))"
  using assms by (simp add: command_timeout_eq flush_inv core_reject)

lemma connect_cases:
  obtains (same) "fst (connect url s) = s"
  | (failed) e where "isOpen s = False"
      "fst (connect url s) = s\<lparr>closedByUser := False, connectionPromise := Some (ConnRejected e)\<rparr>"
  | (opened) u where "isOpen s = False"
      "fst (connect url s) = s\<lparr>closedByUser := False, nextHandle := nextHandle s + 1,
         socket := Some (nextHandle s, CONNECTING), connectionPromise := Some (ConnPending (nextHandle s))\<rparr>"
  by (cases "isOpen s"; cases "connectionPromise s"; cases url)
     (auto simp: connect_def Let_def split: connection.splits)

lemma connect_inv: "socket_inv s \<Longrightarrow> socket_inv (fst (connect url s))"
  by (rule connect_cases [of url s])
     (auto simp: socket_inv_def socket_core_def live_timers_def not_stalled_def isOpen_def less_Suc_eq
       split: option.splits)

lemma connect_inv_result: "connect url s = (s', oc, os) \<Longrightarrow> socket_inv s \<Longrightarrow> socket_inv s'"
  by (metis connect_inv fst_conv)

lemma restored_inv: "socket_inv s \<Longrightarrow> socket_inv (fst (reconnect_restored s))"
  by (simp add: reconnect_restored_def socket_inv_def)

lemma reconnect_fire_inv:
  assumes "socket_inv s" and "reconnectTimer s = Some t"
  shows "socket_inv (fst (reconnect_fire t url j s))"
proof -
  let ?s = "s\<lparr>reconnectTimer := None, timers := drop_timer t (timers s)\<rparr>"
  obtain s1 oc os where c: "connect url ?s = (s1, oc, os)" by (metis prod_cases3)
  have "socket_inv ?s"
    using assms by (simp add: socket_inv_def core_drop_reconnect not_stalled_def)
  from connect_inv [OF this, of url] c have s1: "socket_inv s1" by simp
  show ?thesis
  proof (cases oc)
    case ConnNow
    with c s1 show ?thesis by (simp add: reconnect_fire_def restored_inv)
  next
    case (ConnWait w)
    with c s1 show ?thesis by (simp add: reconnect_fire_def)
  next
    case (ConnFail e)
    with c s1 show ?thesis by (simp add: reconnect_fire_def schedule_inv)
  qed
qed

lemma fire_timer_inv: "socket_inv s \<Longrightarrow> socket_inv (fst (fire_timer t url j s))"
  using timer_lookup [of s t]
  by (auto simp: fire_timer_def intro: command_timeout_inv reconnect_fire_inv inv_core
      split: option.split timer_kind.split)

lemma onopen_inv: "socket_inv s \<Longrightarrow> socket_inv (fst (ws_onopen w s))"
proof -
  assume "socket_inv s"
  then have "socket_inv (fst (flushQueue ((set_ready w OPEN s)\<lparr>connectionPromise := None\<rparr>)))"
    by (intro flush_inv) (simp add: socket_inv_def)
  then show ?thesis
    by (simp add: ws_onopen_def Let_def restored_inv)
qed

lemma set_ready_closed [simp]:
  "pending (set_ready w st s) = pending s" "queue (set_ready w st s) = queue s"
  by (simp_all add: set_ready_def split: option.split)

lemma not_stalled_set_ready: "st \<noteq> OPEN \<Longrightarrow> not_stalled s \<Longrightarrow> not_stalled (set_ready w st s)"
  by (auto simp: not_stalled_def set_ready_def isOpen_def split: option.splits prod.splits if_splits)

lemma onerror_inv: "socket_inv s \<Longrightarrow> socket_inv (fst (ws_onerror w j s))"
proof -
  assume "socket_inv s"
  then have "socket_inv (set_ready w CLOSED s)"
    by (simp add: socket_inv_def not_stalled_set_ready)
  then show ?thesis
    by (simp add: ws_onerror_def Let_def schedule_inv)
qed

lemma reject_all_result [simp]:
  "queue (fst (rejectAllPending e s)) = []" "pending (fst (rejectAllPending e s)) = None"
  "isOpen (fst (rejectAllPending e s)) = isOpen s"
  by (simp_all add: rejectAllPending_def reject_queue_def reject_pending_def split: option.split)

lemma reject_all_inv: "socket_core s \<Longrightarrow> socket_inv (fst (rejectAllPending e s))"
  by (simp add: socket_inv_def not_stalled_def)
     (simp add: rejectAllPending_def reject_queue_def core_reject)

lemma onclose_inv: "socket_inv s \<Longrightarrow> socket_inv (fst (ws_onclose w j s))"
  by (auto simp: ws_onclose_def Let_def intro!: schedule_inv reject_all_inv dest: inv_core)

lemma core_closed:
  "socket_core s \<Longrightarrow> reconnectTimer s = None \<Longrightarrow> socket_core (s\<lparr>closedByUser := True\<rparr>)"
  by (simp add: socket_core_def live_timers_def)

lemma close_core:
  "socket_core s \<Longrightarrow> socket_core (case reconnectTimer s of
      None \<Rightarrow> s\<lparr>closedByUser := True\<rparr>
    | Some t \<Rightarrow> s\<lparr>closedByUser := True, reconnectTimer := None, timers := drop_timer t (timers s)\<rparr>)"
proof (cases "reconnectTimer s")
  case (Some t)
  assume "socket_core s"
  from core_closed [OF core_drop_reconnect [OF this Some]]
  have "socket_core (s\<lparr>reconnectTimer := None, timers := drop_timer t (timers s), closedByUser := True\<rparr>)"
    by simp
  moreover have "s\<lparr>reconnectTimer := None, timers := drop_timer t (timers s), closedByUser := True\<rparr>
      = s\<lparr>closedByUser := True, reconnectTimer := None, timers := drop_timer t (timers s)\<rparr>" by simp
  ultimately show ?thesis using Some by simp
qed (simp add: core_closed)

lemma close_inv: "socket_inv s \<Longrightarrow> socket_inv (fst (close_socket s))"
proof -
  assume "socket_inv s"
  then have "socket_core (case reconnectTimer s of
      None \<Rightarrow> s\<lparr>closedByUser := True\<rparr>
    | Some t \<Rightarrow> s\<lparr>closedByUser := True, reconnectTimer := None, timers := drop_timer t (timers s)\<rparr>)" (is "socket_core ?s")
    by (simp add: socket_inv_def close_core)
  then have "socket_inv (fst (rejectAllPending CLOSED_MESSAGE (?s\<lparr>connectionPromise := None\<rparr>)))"
    by (intro reject_all_inv) simp
  then show ?thesis
    by (simp add: close_socket_def Let_def socket_inv_def not_stalled_def isOpen_def split: option.split_asm option.split)
qed

lemma closing_inv: "socket_inv s \<Longrightarrow> socket_inv (set_ready w CLOSING s)"
  by (simp add: socket_inv_def not_stalled_set_ready)

lemma subscribe_inv: "socket_inv s \<Longrightarrow> socket_inv (subscribe l i s) \<and> socket_inv (unsubscribe l i s)"
  by (auto simp: socket_inv_def socket_core_def live_timers_def subscribe_def unsubscribe_def not_stalled_def)

lemma socket_step_inv: "socket_inv s \<Longrightarrow> socket_enabled s e \<Longrightarrow> socket_inv (fst (socket_step s e))"
  by (cases e)
     (auto simp: send_inv sendTyping_def sendMarkRead_def onmessage_inv fire_timer_inv connect_inv onopen_inv
      onerror_inv onclose_inv closing_inv close_inv subscribe_inv split: prod.split intro: connect_inv_result)

lemma new_socket_inv: "socket_inv new_socket"
  by (simp add: socket_inv_def socket_core_def live_timers_def not_stalled_def new_socket_def)

interpretation sock: machine_invariant socket_enabled socket_step socket_inv
  by unfold_locales (rule socket_step_inv)

end
