(* ===== verification/SocketAccount.thy ===== *)
theory SocketAccount
  imports SocketInvariant
begin

text \<open>
  The account of promises: every command handed to \<^verbatim>\<open>sendCommand\<close> is queued, in flight or
  settled, each exactly once, and commands go out in the order they were given.
\<close>

section \<open>The account of promises\<close>

fun settles :: "effect \<Rightarrow> nat list" where
  "settles (Resolve p _) = [p]"
| "settles (Reject p _) = [p]"
| "settles _ = []"

fun sends :: "effect \<Rightarrow> nat list" where
  "sends (SendCommandFrame p _) = [p]"
| "sends _ = []"

definition settled :: "effect list \<Rightarrow> nat list" where
  "settled os = concat (map settles os)"

definition sent :: "effect list \<Rightarrow> nat list" where
  "sent os = concat (map sends os)"

definition queued_promises :: "chat_socket \<Rightarrow> nat list" where
  "queued_promises s = map qc_promise (queue s)"

definition outstanding :: "chat_socket \<Rightarrow> nat multiset" where
  "outstanding s = mset (queued_promises s)
     + (case pending s of None \<Rightarrow> {#} | Some p \<Rightarrow> {#pc_promise p#})"

fun promise_of_input :: "socket_input \<Rightarrow> nat list" where
  "promise_of_input (InSend p _ _) = [p]"
| "promise_of_input _ = []"

definition promises_given :: "socket_input list \<Rightarrow> nat list" where
  "promises_given es = concat (map promise_of_input es)"

lemma settled_simps [simp]:
  "settled [] = []" "settled (x # os) = settles x @ settled os" "settled (os @ os') = settled os @ settled os'"
  by (simp_all add: settled_def)

lemma sent_simps [simp]:
  "sent [] = []" "sent (x # os) = sends x @ sent os" "sent (os @ os') = sent os @ sent os'"
  by (simp_all add: sent_def)

lemma concat_map_Nil [simp]: "concat (map (\<lambda>x. []) xs) = []"
  by (induction xs) simp_all

lemma notify_silent [simp]: "settled (notify_listeners s ev) = []" "sent (notify_listeners s ev) = []"
  by (simp_all add: notify_listeners_def settled_def sent_def o_def)

lemma deliver_silent [simp]: "settled (snd (deliver evs s)) = []" "sent (snd (deliver evs s)) = []"
  by (induction evs) (simp_all add: deliver_def)

text \<open>
  \<open>honest s r\<close>: the transition from \<open>s\<close> to \<open>r\<close> settles what it takes out of the outstanding
  commands, and sends from the front of the queue only.
\<close>

definition honest :: "chat_socket \<Rightarrow> chat_socket \<times> effect list \<Rightarrow> bool" where
  "honest s r \<longleftrightarrow> outstanding s = outstanding (fst r) + mset (settled (snd r))
     \<and> subseq (sent (snd r) @ queued_promises (fst r)) (queued_promises s)"

lemma honest_then:
  assumes "honest s r" and "honest (fst r) (f (fst r))"
  shows "honest s (and_then r f)"
proof -
  have "subseq (sent (snd r) @ sent (snd (f (fst r))) @ queued_promises (fst (f (fst r))))
          (sent (snd r) @ queued_promises (fst r))"
    using assms(2) by (simp add: honest_def list_emb_append_mono)
  also have "subseq \<dots> (queued_promises s)" using assms(1) by (simp add: honest_def)
  finally show ?thesis using assms by (simp add: honest_def)
qed

lemma honest_silent:
  "outstanding t = outstanding s \<Longrightarrow> queued_promises t = queued_promises s \<Longrightarrow>
   settled os = [] \<Longrightarrow> sent os = [] \<Longrightarrow> honest s (t, os)"
  by (simp add: honest_def)

lemma outstanding_frame [simp]:
  "outstanding (s\<lparr>connectionPromise := c\<rparr>) = outstanding s"
  "outstanding (s\<lparr>reconnectWaiters := ws\<rparr>) = outstanding s"
  "outstanding (s\<lparr>reconnectAttempt := n\<rparr>) = outstanding s"
  "outstanding (s\<lparr>reconnectTimer := r\<rparr>) = outstanding s"
  "outstanding (s\<lparr>timers := ts\<rparr>) = outstanding s"
  "outstanding (s\<lparr>nextHandle := n\<rparr>) = outstanding s"
  "outstanding (s\<lparr>socket := v\<rparr>) = outstanding s"
  "outstanding (s\<lparr>closedByUser := b\<rparr>) = outstanding s"
  "outstanding (s\<lparr>listeners := l\<rparr>) = outstanding s"
  "outstanding (set_ready w st s) = outstanding s"
  by (simp_all add: outstanding_def queued_promises_def)

lemma queued_frame [simp]:
  "queued_promises (s\<lparr>connectionPromise := c\<rparr>) = queued_promises s"
  "queued_promises (s\<lparr>reconnectWaiters := ws\<rparr>) = queued_promises s"
  "queued_promises (s\<lparr>reconnectAttempt := n\<rparr>) = queued_promises s"
  "queued_promises (s\<lparr>reconnectTimer := r\<rparr>) = queued_promises s"
  "queued_promises (s\<lparr>timers := ts\<rparr>) = queued_promises s"
  "queued_promises (s\<lparr>nextHandle := n\<rparr>) = queued_promises s"
  "queued_promises (s\<lparr>socket := v\<rparr>) = queued_promises s"
  "queued_promises (s\<lparr>closedByUser := b\<rparr>) = queued_promises s"
  "queued_promises (s\<lparr>listeners := l\<rparr>) = queued_promises s"
  "queued_promises (s\<lparr>pending := p\<rparr>) = queued_promises s"
  "queued_promises (set_ready w st s) = queued_promises s"
  by (simp_all add: queued_promises_def)

lemma honest_frame [simp]:
  "honest (s\<lparr>connectionPromise := c\<rparr>) r = honest s r"
  "honest (s\<lparr>reconnectWaiters := ws\<rparr>) r = honest s r"
  "honest (s\<lparr>reconnectTimer := rt\<rparr>) r = honest s r"
  "honest (s\<lparr>timers := ts\<rparr>) r = honest s r"
  "honest (set_ready w st s) r = honest s r"
  by (simp_all add: honest_def)

lemma flush_honest: "honest s (flushQueue s)"
  by (auto simp: flushQueue_def honest_def outstanding_def queued_promises_def Let_def split: list.split)

lemma resolve_honest: "honest s (resolve_pending d s)"
  by (simp add: resolve_pending_def honest_def outstanding_def split: option.split)

lemma reject_honest: "honest s (reject_pending e s)"
  by (simp add: reject_pending_def honest_def outstanding_def split: option.split)

lemma reject_queue_honest: "honest s (reject_queue e s)"
  by (auto simp: reject_queue_def honest_def outstanding_def queued_promises_def settled_def sent_def o_def)

lemma notify_honest: "honest s (s, notify_listeners s ev)"
  by (simp add: honest_silent)

lemma idle_honest: "honest s (s, [])"
  by (simp add: honest_silent)

lemma deliver_honest: "honest s (deliver evs s)"
  by (simp add: honest_def)

lemma schedule_honest: "honest s (scheduleReconnect j s)"
  by (simp add: scheduleReconnect_def honest_def Let_def)

lemma restored_honest: "honest s (reconnect_restored s)"
  by (simp add: reconnect_restored_def honest_def)

lemmas honest_intros = honest_then flush_honest resolve_honest reject_honest reject_queue_honest
  notify_honest idle_honest deliver_honest schedule_honest restored_honest

lemma reject_all_honest: "honest s (rejectAllPending e s)"
  by (simp add: rejectAllPending_def honest_intros)

lemma resolve_and_flush_honest: "honest s (resolve_and_flush d s)"
  by (simp add: resolve_and_flush_def honest_intros)

lemma handle_error_honest: "honest s (handleSocketError e r s)"
  by (auto simp: handleSocketError_def Let_def intro!: honest_intros)

lemma dm_opened_honest: "honest s (dm_opened d s)"
  by (auto simp: dm_opened_def intro!: honest_intros resolve_and_flush_honest split: option.split)

lemma reply_honest: "honest s (reply_event e s)"
  by (auto simp: reply_event_def named_reply_def ack_reply_def
      intro!: dm_opened_honest handle_error_honest resolve_and_flush_honest honest_intros split: option.split)

lemma onmessage_honest: "honest s (onmessage now f s)"
  by (auto simp: onmessage_def Let_def intro!: reply_honest deliver_honest honest_silent split: option.split)

lemma reject_timers_honest: "honest s (reject_pending e (s\<lparr>timers := ts\<rparr>))"
  using reject_honest [of "s\<lparr>timers := ts\<rparr>" e] by simp

lemma timeout_honest: "honest s (command_timeout t s)"
  by (auto simp: command_timeout_def Let_def intro!: honest_intros reject_timers_honest honest_silent)

lemma connect_frame [simp]:
  "outstanding (fst (connect url s)) = outstanding s"
  "queued_promises (fst (connect url s)) = queued_promises s"
  by (rule connect_cases [of url s]; simp)+

lemma connect_silent: "connect url s = (s', oc, os) \<Longrightarrow> settled os = [] \<and> sent os = []"
  by (auto simp: connect_def Let_def split: if_splits option.splits connection.splits sum.splits)

lemma connect_honest: "connect url s = (s', oc, os) \<Longrightarrow> honest s (s', os)"
  using connect_silent [of url s s' oc os] connect_frame [of url s] by (auto intro!: honest_silent)

lemma reconnect_fire_honest: "honest s (reconnect_fire t url j s)"
proof -
  let ?s = "s\<lparr>reconnectTimer := None, timers := drop_timer t (timers s)\<rparr>"
  obtain s1 oc os where c: "connect url ?s = (s1, oc, os)" by (metis prod_cases3)
  from connect_honest [OF c] have h: "honest s (s1, os)" by simp
  then have w: "honest s (s1\<lparr>reconnectWaiters := ws\<rparr>, os)" for ws by (simp add: honest_def)
  show ?thesis using c h w
    by (cases oc) (auto simp: reconnect_fire_def intro!: honest_intros)
qed

lemma fire_timer_honest: "honest s (fire_timer t url j s)"
  by (auto simp: fire_timer_def timeout_honest reconnect_fire_honest idle_honest
      split: option.split timer_kind.split)

lemma silent_effect_honest: "settled os = [] \<Longrightarrow> sent os = [] \<Longrightarrow> honest s (s, os)"
  by (simp add: honest_silent)

lemma onopen_honest: "honest s (ws_onopen w s)"
proof -
  let ?s = "(set_ready w OPEN s)\<lparr>connectionPromise := None\<rparr>"
  have f: "honest s (and_then (flushQueue ?s) (\<lambda>s1. (s1, [ConnectResolved w])))"
    using honest_then [OF flush_honest [of ?s], of "\<lambda>s1. (s1, [ConnectResolved w])"]
    by (simp add: silent_effect_honest)
  have r: "honest u (reconnect_restored (u\<lparr>reconnectWaiters := ws\<rparr>))" for u ws
    using restored_honest [of "u\<lparr>reconnectWaiters := ws\<rparr>"] by simp
  show ?thesis using f by (simp add: ws_onopen_def Let_def honest_then r)
qed

lemma onerror_honest: "honest s (ws_onerror w j s)"
proof -
  let ?s = "(set_ready w CLOSED s)\<lparr>connectionPromise := None\<rparr>"
  have f: "honest s (?s, [ConnectRejected w ''Failed to connect to chat''])"
    by (simp add: honest_silent)
  have r: "honest u (scheduleReconnect j (u\<lparr>reconnectWaiters := ws\<rparr>))" for u ws
    using schedule_honest [of "u\<lparr>reconnectWaiters := ws\<rparr>" j] by simp
  show ?thesis
    using f by (simp add: ws_onerror_def Let_def honest_then r)
qed

lemma onclose_honest: "honest s (ws_onclose w j s)"
proof -
  let ?s = "(set_ready w CLOSED s)\<lparr>connectionPromise := None\<rparr>"
  have "honest s (rejectAllPending CLOSED_MESSAGE ?s)"
    using reject_all_honest [of ?s] by simp
  then show ?thesis by (simp add: ws_onclose_def Let_def honest_intros)
qed

lemma close_honest: "honest s (close_socket s)"
proof -
  have 1: "honest s (case reconnectTimer s of
            None \<Rightarrow> (s\<lparr>closedByUser := True\<rparr>, [])
          | Some t \<Rightarrow> (s\<lparr>closedByUser := True, reconnectTimer := None,
                            timers := drop_timer t (timers s)\<rparr>, [ClearTimer t]))"
    by (simp add: honest_silent split: option.split)
  have 2: "honest u (u\<lparr>connectionPromise := None\<rparr>, [])" for u
    by (simp add: honest_silent)
  have 3: "honest u (u\<lparr>socket := None\<rparr>, case socket u of Some (w, _) \<Rightarrow> [CloseSocket w] | None \<Rightarrow> [])" for u
    by (simp add: honest_silent split: option.split)
  show ?thesis
    unfolding close_socket_def Let_def by (intro honest_then 1 2 3 reject_all_honest)
qed

text \<open>A call of \<open>sendCommand\<close> adds its own promise; every other input adds none.\<close>

lemma send_balance:
  "outstanding s + {#p#} = outstanding (fst (sendCommand p a d s)) + mset (settled (snd (sendCommand p a d s)))
   \<and> subseq (sent (snd (sendCommand p a d s)) @ queued_promises (fst (sendCommand p a d s)))
       (queued_promises s @ [p])"
proof (cases "isOpen s")
  case True
  let ?s = "s\<lparr>queue := queue s @ [\<lparr>qc_action = a, qc_payload = d, qc_promise = p\<rparr>]\<rparr>"
  have "queued_promises ?s = queued_promises s @ [p]" and "outstanding ?s = outstanding s + {#p#}"
    by (simp_all add: queued_promises_def outstanding_def)
  with flush_honest [of ?s] True show ?thesis by (simp add: sendCommand_def honest_def)
qed (simp add: sendCommand_def list_emb_prefix)

lemma step_balance:
  "outstanding s + mset (promise_of_input e) =
     outstanding (fst (socket_step s e)) + mset (settled (snd (socket_step s e)))
   \<and> subseq (sent (snd (socket_step s e)) @ queued_promises (fst (socket_step s e)))
       (queued_promises s @ promise_of_input e)"
proof (cases e)
  case (InSend p a d)
  then show ?thesis using send_balance [of s p a d] by simp
next
  case (InConnect url)
  obtain s' oc os where c: "connect url s = (s', oc, os)" by (metis prod_cases3)
  then show ?thesis using InConnect connect_honest [OF c] by (simp add: honest_def)
next
  case (InFrame now f)
  then show ?thesis using onmessage_honest [of s now f] by (simp add: honest_def)
next
  case (InTimer t url j)
  then show ?thesis using fire_timer_honest [of s t url j] by (simp add: honest_def)
next
  case (InOpen w)
  then show ?thesis using onopen_honest [of s w] by (simp add: honest_def)
next
  case (InError w j)
  then show ?thesis using onerror_honest [of s w j] by (simp add: honest_def)
next
  case (InClose w j)
  then show ?thesis using onclose_honest [of s w j] by (simp add: honest_def)
next
  case InUserClose
  then show ?thesis using close_honest [of s] by (simp add: honest_def)
qed (simp_all add: sendTyping_def sendMarkRead_def subscribe_def unsubscribe_def)

lemma promises_given_simps [simp]:
  "promises_given [] = []" "promises_given (es @ es') = promises_given es @ promises_given es'"
  "promises_given [e] = promise_of_input e"
  by (simp_all add: promises_given_def)

interpretation sock_account: machine_account socket_enabled socket_step socket_inv outstanding
  "\<lambda>e. mset (promise_of_input e)" "\<lambda>os. mset (settled os)" "\<lambda>es. mset (promises_given es)"
proof unfold_locales
  fix s e t os
  assume "socket_step s e = (t, os)"
  then show "outstanding s + mset (promise_of_input e) = outstanding t + mset (settled os)"
    using step_balance [of s e] by simp
qed simp_all

lemma fifo_run:
  "socket_run s es t os \<Longrightarrow> queued_promises s = [] \<Longrightarrow>
   subseq (sent os @ queued_promises t) (promises_given es)"
proof (induction rule: run.induct)
  case (run_nil s)
  then show ?case by simp
next
  case (run_snoc s es t os e u os')
  have "subseq (sent os' @ queued_promises u) (queued_promises t @ promise_of_input e)"
    using step_balance [of t e] run_snoc.hyps by simp
  then have 1: "subseq (sent os @ sent os' @ queued_promises u) (sent os @ queued_promises t @ promise_of_input e)"
    by (rule list_emb_append_mono [OF subseq_order.refl])
  have "subseq (sent os @ queued_promises t) (promises_given es)"
    using run_snoc.IH run_snoc.prems by blast
  then have 2: "subseq ((sent os @ queued_promises t) @ promise_of_input e) (promises_given es @ promise_of_input e)"
    by (intro list_emb_append_mono) simp_all
  show ?case using subseq_order.trans [OF 1] 2 by simp
qed

end
