(* ===== verification/SocketRequests.thy ===== *)
theory SocketRequests
  imports SocketAccount
begin

text \<open>The request ids of the command channel of \<^verbatim>\<open>ChatSocket\<close>: every command frame a run writes carries
  the next number of \<^verbatim>\<open>nextRequestId\<close>, so ids are never reused and \<^verbatim>\<open>isStaleReply\<close> can tell the reply to
  an abandoned command from the reply to the one in flight.\<close>

section \<open>Request ids\<close>

fun frame_rids :: "effect \<Rightarrow> string list" where
  "frame_rids (SendCommandFrame _ f) = (case js_get f ''request_id'' of JStr r \<Rightarrow> [r] | _ \<Rightarrow> [])"
| "frame_rids _ = []"

definition sent_rids :: "effect list \<Rightarrow> string list" where
  "sent_rids os = concat (map frame_rids os)"

lemma sent_rids_simps [simp]:
  "sent_rids [] = []" "sent_rids (x # os) = frame_rids x @ sent_rids os"
  "sent_rids (os @ os') = sent_rids os @ sent_rids os'"
  by (simp_all add: sent_rids_def)

lemma request_id_inject [simp]: "request_id m = request_id n \<longleftrightarrow> m = n"
  by (simp add: request_id_def)

lemma request_id_nonempty [simp]: "request_id n \<noteq> []"
  by (simp add: request_id_def)

lemma sent_rids_silent [simp]: "sent_rids (notify_listeners s ev) = []" "sent_rids (snd (deliver evs s)) = []"
proof -
  show n: "sent_rids (notify_listeners s ev) = []" for ev
    by (simp add: notify_listeners_def sent_rids_def o_def)
  show "sent_rids (snd (deliver evs s)) = []"
    by (induction evs) (simp_all add: deliver_def n)
qed

definition issued :: "nat \<Rightarrow> nat \<Rightarrow> string list" where
  "issued m n = map request_id [m..<n]"

lemma issued_append: "m \<le> k \<Longrightarrow> k \<le> n \<Longrightarrow> issued m k @ issued k n = issued m n"
  using upt_add_eq_append [of m k "n - k"] by (simp add: issued_def flip: map_append)

lemma issued_same [simp]: "issued n n = []"
  by (simp add: issued_def)

text \<open>\<open>numbered s r\<close>: the frames of the transition carry the ids the counter went through.\<close>

definition numbered :: "chat_socket \<Rightarrow> chat_socket \<times> effect list \<Rightarrow> bool" where
  "numbered s r \<longleftrightarrow> nextRequestId s \<le> nextRequestId (fst r)
     \<and> sent_rids (snd r) = issued (nextRequestId s) (nextRequestId (fst r))"

lemma numbered_then: "numbered s r \<Longrightarrow> numbered (fst r) (f (fst r)) \<Longrightarrow> numbered s (and_then r f)"
  by (auto simp: numbered_def issued_append)

lemma numbered_silent: "nextRequestId t = nextRequestId s \<Longrightarrow> sent_rids os = [] \<Longrightarrow> numbered s (t, os)"
  by (simp add: numbered_def)

lemma numbered_cong: "nextRequestId s' = nextRequestId s \<Longrightarrow> numbered s' r \<Longrightarrow> numbered s r"
  by (simp add: numbered_def)

lemma flush_numbered: "numbered s (flushQueue s)"
  by (auto simp: flushQueue_def numbered_def Let_def command_frame_def issued_def split: list.split)

lemma no_send_rids: "sent os = [] \<Longrightarrow> sent_rids os = []"
proof (induction os)
  case (Cons x os)
  then show ?case by (cases x) auto
qed simp

lemma resolve_numbered: "numbered s (resolve_pending d s)"
  by (simp add: resolve_pending_def numbered_def split: option.split)

lemma reject_numbered: "numbered s (reject_pending e s)"
  by (simp add: reject_pending_def numbered_def split: option.split)

lemma reject_queue_numbered: "numbered s (reject_queue e s)"
  by (simp add: reject_queue_def numbered_def sent_rids_def o_def)

lemma notify_numbered: "numbered s (s, notify_listeners s ev)" "numbered s (s, [])"
  "numbered s (deliver evs s)"
  by (simp_all add: numbered_def)

lemma schedule_numbered: "numbered s (scheduleReconnect j s)"
  by (simp add: scheduleReconnect_def numbered_def Let_def)

lemma restored_numbered: "numbered s (reconnect_restored s)"
  by (simp add: reconnect_restored_def numbered_def)

lemmas numbered_intros = numbered_then flush_numbered resolve_numbered reject_numbered
  reject_queue_numbered notify_numbered schedule_numbered restored_numbered

lemma reject_all_numbered: "numbered s (rejectAllPending e s)"
  by (simp add: rejectAllPending_def numbered_intros)

lemma resolve_and_flush_numbered: "numbered s (resolve_and_flush d s)"
  by (simp add: resolve_and_flush_def numbered_intros)

lemma handle_error_numbered: "numbered s (handleSocketError e r s)"
  by (auto simp: handleSocketError_def Let_def intro!: numbered_intros)

lemma dm_opened_numbered: "numbered s (dm_opened d s)"
  by (auto simp: dm_opened_def intro!: numbered_intros resolve_and_flush_numbered split: option.split)

lemma reply_numbered: "numbered s (reply_event e s)"
  by (auto simp: reply_event_def named_reply_def ack_reply_def
      intro!: dm_opened_numbered handle_error_numbered resolve_and_flush_numbered numbered_intros
      split: option.split)

lemma onmessage_numbered: "numbered s (onmessage now f s)"
  by (auto simp: onmessage_def Let_def intro!: reply_numbered numbered_intros numbered_silent split: option.split)

lemma timeout_numbered: "numbered s (command_timeout t s)"
  by (rule numbered_cong [of "s\<lparr>timers := drop_timer t (timers s)\<rparr>"])
     (auto simp: command_timeout_def Let_def intro!: numbered_intros)

lemma connect_numbered: "connect url s = (s', oc, os) \<Longrightarrow> numbered s (s', os)"
  by (auto simp: connect_def Let_def numbered_def split: if_splits option.splits connection.splits sum.splits)

lemma reconnect_fire_numbered: "numbered s (reconnect_fire t url j s)"
proof -
  let ?s = "s\<lparr>reconnectTimer := None, timers := drop_timer t (timers s)\<rparr>"
  obtain s1 oc os where c: "connect url ?s = (s1, oc, os)" by (metis prod_cases3)
  from connect_numbered [OF c] have h: "numbered s (s1, os)" by (simp add: numbered_def)
  then have w: "numbered s (s1\<lparr>reconnectWaiters := ws\<rparr>, os)" for ws by (simp add: numbered_def)
  show ?thesis using c h w
    by (cases oc) (auto simp: reconnect_fire_def intro!: numbered_intros)
qed

lemma set_ready_counter [simp]: "nextRequestId (set_ready w st s) = nextRequestId s"
  by (simp add: set_ready_def split: option.split)

lemma onopen_numbered: "numbered s (ws_onopen w s)"
proof -
  let ?s = "(set_ready w OPEN s)\<lparr>connectionPromise := None\<rparr>"
  have f: "numbered s (and_then (flushQueue ?s) (\<lambda>s1. (s1, [ConnectResolved w])))"
    by (rule numbered_cong [of ?s]) (auto intro!: numbered_intros numbered_silent)
  have r: "numbered u (reconnect_restored (u\<lparr>reconnectWaiters := ws\<rparr>))" for u ws
    by (rule numbered_cong [of "u\<lparr>reconnectWaiters := ws\<rparr>"]) (simp_all add: restored_numbered)
  show ?thesis using f by (simp add: ws_onopen_def Let_def numbered_then r)
qed

lemma onerror_numbered: "numbered s (ws_onerror w j s)"
proof -
  have r: "numbered u (scheduleReconnect j (u\<lparr>reconnectWaiters := ws\<rparr>))" for u ws
    by (rule numbered_cong [of "u\<lparr>reconnectWaiters := ws\<rparr>"]) (simp_all add: schedule_numbered)
  show ?thesis by (simp add: ws_onerror_def Let_def numbered_then numbered_silent r)
qed

lemma onclose_numbered: "numbered s (ws_onclose w j s)"
  by (rule numbered_cong [of "(set_ready w CLOSED s)\<lparr>connectionPromise := None\<rparr>"])
     (simp_all add: ws_onclose_def Let_def numbered_intros reject_all_numbered)

lemma close_numbered: "numbered s (close_socket s)"
  unfolding close_socket_def Let_def
  by (intro numbered_then reject_all_numbered) (simp_all add: numbered_silent split: option.split)

lemma send_numbered: "numbered s (sendCommand p a d s)"
  using flush_numbered [of "s\<lparr>queue := q\<rparr>" for q]
  by (auto simp: sendCommand_def numbered_def)

lemma step_numbered: "numbered s (socket_step s e)"
proof (cases e)
  case (InConnect url)
  obtain s' oc os where c: "connect url s = (s', oc, os)" by (metis prod_cases3)
  then show ?thesis using InConnect connect_numbered [OF c] by simp
next
  case (InTimer t url j)
  then show ?thesis
    by (simp add: fire_timer_def timeout_numbered reconnect_fire_numbered numbered_intros
        split: option.split timer_kind.split)
qed (simp_all add: send_numbered onmessage_numbered onopen_numbered onerror_numbered onclose_numbered
  close_numbered numbered_silent sendTyping_def sendMarkRead_def subscribe_def unsubscribe_def)

lemma numbered_run: "socket_run s es t os \<Longrightarrow> numbered s (t, os)"
proof (induction rule: run.induct)
  case (run_nil s)
  then show ?case by (simp add: numbered_silent)
next
  case (run_snoc s es t os e u os')
  then show ?case using step_numbered [of t e] by (auto simp: numbered_def issued_append)
qed

end
