(* ===== verification/SocketLiveness.thy ===== *)
theory SocketLiveness
  imports SocketRequests
begin

text \<open>Runs of the socket that the properties are about: command timeouts alone drain the queue, a closed
  socket stays quiet until the next \<^verbatim>\<open>connect()\<close>, and a reconnect attempt that throws leaves a rejected
  connection promise behind.\<close>

section \<open>Draining a silent server\<close>

text \<open>The timeout of the command in flight, as the next input.\<close>

definition timeout_input :: "chat_socket \<Rightarrow> socket_input list" where
  "timeout_input s = (case pending s of None \<Rightarrow> [] | Some p \<Rightarrow> [InTimer (pc_timeoutId p) (Inl []) 0])"

fun drain :: "nat \<Rightarrow> chat_socket \<Rightarrow> socket_input list" where
  "drain 0 s = []"
| "drain (Suc k) s = (case timeout_input s of
     [] \<Rightarrow> []
   | e # _ \<Rightarrow> e # drain k (fst (socket_step s e)))"

lemma timeout_step:
  assumes "socket_inv s" and "pending s = Some p"
  shows "socket_step s (InTimer (pc_timeoutId p) url j) = command_timeout (pc_timeoutId p) s"
    and "pc_timeoutId p \<in> fst ` set (timers s)"
proof -
  have "set (timers s) = live_timers s" and d: "distinct (map fst (timers s))"
    using assms(1) by (simp_all add: socket_inv_def socket_core_def)
  then have m: "(pc_timeoutId p, CommandTimer) \<in> set (timers s)"
    using assms(2) by (simp add: live_timers_def)
  then show "pc_timeoutId p \<in> fst ` set (timers s)" by force
  from m d have "map_of (timers s) (pc_timeoutId p) = Some CommandTimer"
    by (simp add: map_of_eq_Some_iff)
  then show "socket_step s (InTimer (pc_timeoutId p) url j) = command_timeout (pc_timeoutId p) s"
    by (simp add: fire_timer_def)
qed

lemma timeout_shrinks:
  assumes "isOpen s" and "pending s = Some p"
  shows "queue (fst (command_timeout (pc_timeoutId p) s)) = tl (queue s)"
    and "pending (fst (command_timeout (pc_timeoutId p) s)) = None \<longleftrightarrow> queue s = []"
    and "isOpen (fst (command_timeout (pc_timeoutId p) s))"
  using assms
  by (simp_all add: command_timeout_eq reject_pending_def flushQueue_def Let_def split: list.split)

lemma drain_run:
  assumes "socket_inv s" and "isOpen s" and "length (queue s) < k"
  shows "\<exists>t os. socket_run s (drain k s) t os \<and> outstanding t = {#} \<and> isOpen t"
  using assms
proof (induction k arbitrary: s)
  case 0
  then show ?case by simp
next
  case (Suc k)
  show ?case
  proof (cases "pending s")
    case None
    then have "queue s = []" using Suc.prems by (simp add: socket_inv_def not_stalled_def)
    with None have "outstanding s = {#}" and "drain (Suc k) s = []"
      by (simp_all add: timeout_input_def outstanding_def queued_promises_def)
    then show ?thesis using Suc.prems(2) run_nil [of socket_enabled socket_step s] by auto
  next
    case (Some p)
    let ?e = "InTimer (pc_timeoutId p) (Inl []) 0"
    obtain s1 os1 where step: "socket_step s ?e = (s1, os1)" by fastforce
    have s1: "s1 = fst (command_timeout (pc_timeoutId p) s)"
      using step timeout_step(1) [OF Suc.prems(1) Some] by (metis fst_conv)
    have en: "socket_enabled s ?e" using timeout_step(2) [OF Suc.prems(1) Some] by simp
    have one: "socket_run s [?e] s1 os1" using en step by (rule run_single)
    have inv1: "socket_inv s1" using socket_step_inv [OF Suc.prems(1) en] step by simp
    have d: "drain (Suc k) s = ?e # drain k s1" using Some step by (simp add: timeout_input_def)
    show ?thesis
    proof (cases "queue s")
      case Nil
      then have p1: "pending s1 = None" and q1: "queue s1 = []" and o1: "isOpen s1"
        using timeout_shrinks [OF Suc.prems(2) Some] s1 by simp_all
      then have "drain k s1 = []" by (cases k) (simp_all add: timeout_input_def)
      then show ?thesis using one d p1 q1 o1 by (auto simp: outstanding_def queued_promises_def)
    next
      case (Cons c cs)
      then have "length (queue s1) < k" and "isOpen s1"
        using timeout_shrinks [OF Suc.prems(2) Some] s1 Suc.prems(3) by simp_all
      then obtain t os where "socket_run s1 (drain k s1) t os" "outstanding t = {#}" "isOpen t"
        using Suc.IH [OF inv1] by blast
      then show ?thesis using run_append [OF one] d by (metis append_Cons append_Nil)
    qed
  qed
qed

lemma drain_length: "length (drain k s) \<le> k"
  by (induction k s rule: drain.induct) (auto split: list.split)

lemma run_settles:
  assumes "socket_run s es t os" and "socket_inv s"
  shows "outstanding s + mset (promises_given es) = outstanding t + mset (settled os)"
  using sock_account.balance_run [OF assms] .

lemma drain_gives_nothing: "promises_given (drain k s) = []"
  by (induction k s rule: drain.induct)
     (auto simp: promises_given_def timeout_input_def split: list.split option.splits)

section \<open>After close\<close>

definition quiet :: "chat_socket \<Rightarrow> bool" where
  "quiet s \<longleftrightarrow> closedByUser s \<and> socket s = None \<and> timers s = [] \<and> reconnectTimer s = None
     \<and> pending s = None \<and> queue s = []"

fun is_connect :: "socket_input \<Rightarrow> bool" where
  "is_connect (InConnect _) = True"
| "is_connect _ = False"

fun arms :: "effect \<Rightarrow> bool" where
  "arms (SetTimer _ _) = True"
| "arms (OpenSocket _ _) = True"
| "arms (SendCommandFrame _ _) = True"
| "arms (SendFrame _) = True"
| "arms _ = False"

lemma notify_arms [simp]: "\<not> (\<exists>x \<in> set (notify_listeners s ev). arms x)"
  by (auto simp: notify_listeners_def)

lemma deliver_arms: "x \<in> set (snd (deliver evs s)) \<Longrightarrow> \<not> arms x"
  by (auto simp: deliver_def notify_listeners_def)

lemma quiet_not_open: "quiet s \<Longrightarrow> \<not> isOpen s"
  by (simp add: quiet_def isOpen_def)

lemma quiet_flush: "quiet s \<Longrightarrow> flushQueue s = (s, [])"
  by (simp add: flushQueue_def quiet_not_open)

lemma quiet_reject: "quiet s \<Longrightarrow> rejectAllPending e s = (s, [])"
  by (simp add: rejectAllPending_def reject_pending_def reject_queue_def and_then_def quiet_def)

lemma quiet_schedule: "quiet s \<Longrightarrow> scheduleReconnect j s = (s, [])"
  by (simp add: scheduleReconnect_def quiet_def)

lemma quiet_frame [simp]:
  "quiet (s\<lparr>connectionPromise := c\<rparr>) = quiet s" "quiet (s\<lparr>reconnectWaiters := ws\<rparr>) = quiet s"
  "quiet (s\<lparr>reconnectAttempt := n\<rparr>) = quiet s" "quiet (s\<lparr>listeners := l\<rparr>) = quiet s"
  by (simp_all add: quiet_def)

lemma quiet_set_ready: "quiet s \<Longrightarrow> set_ready w st s = s"
  by (simp add: quiet_def set_ready_def)

text \<open>\<open>calm s r\<close>: the transition stays quiet and arms nothing.\<close>

definition calm :: "chat_socket \<times> effect list \<Rightarrow> bool" where
  "calm r \<longleftrightarrow> quiet (fst r) \<and> (\<forall>x \<in> set (snd r). \<not> arms x)"

lemma calm_message: "quiet s \<Longrightarrow> calm (onmessage now f s)"
proof -
  assume q: "quiet s"
  then have p: "pending s = None" by (simp add: quiet_def)
  have "calm (reply_event e s)" for e
    using q p by (auto simp: reply_event_def dm_opened_def named_reply_def handleSocketError_def
        stale_reply_def pending_action_def calm_def deliver_def notify_listeners_def and_then_def
        split: option.split)
  then show ?thesis using q
    by (auto simp: onmessage_def Let_def calm_def dest: deliver_arms split: option.split)
qed

lemma calm_step:
  assumes q: "quiet s" and "socket_enabled s e" and "\<not> is_connect e"
  shows "calm (socket_step s e)"
proof (cases e)
  case (InFrame now f)
  then show ?thesis using calm_message [OF q] by simp
next
  case (InTimer t url j)
  with assms show ?thesis by (simp add: quiet_def)
next
  case (InError w j)
  with q show ?thesis
    by (simp add: ws_onerror_def Let_def quiet_set_ready calm_def quiet_schedule)
next
  case (InClose w j)
  with q show ?thesis
    by (simp add: ws_onclose_def Let_def quiet_set_ready calm_def quiet_reject)
       (simp add: quiet_def)
next
  case InUserClose
  with q show ?thesis
    by (simp add: close_socket_def Let_def and_then_def quiet_reject calm_def quiet_def
        rejectAllPending_def reject_pending_def reject_queue_def)
next
  case (InConnect url)
  with assms(3) show ?thesis by simp
next
  case (InOpen w)
  with assms show ?thesis by (simp add: quiet_def)
next
  case (InClosing w)
  with assms show ?thesis by (simp add: quiet_def)
qed (use q in \<open>auto simp: calm_def sendCommand_def sendTyping_def sendMarkRead_def quiet_not_open
    subscribe_def unsubscribe_def\<close>)

lemma calm_run:
  "socket_run s es t os \<Longrightarrow> quiet s \<Longrightarrow> \<forall>e \<in> set es. \<not> is_connect e \<Longrightarrow> calm (t, os)"
proof (induction rule: run.induct)
  case (run_nil s)
  then show ?case by (simp add: calm_def)
next
  case (run_snoc s es t os e u os')
  then have "calm (t, os)" by simp
  with run_snoc calm_step [of t e] show ?case by (auto simp: calm_def)
qed

lemma close_quiet:
  assumes "socket_inv s"
  shows "quiet (fst (close_socket s))"
proof -
  have inv: "socket_inv (fst (close_socket s))" by (rule close_inv [OF assms])
  have f: "closedByUser (fst (close_socket s))" "socket (fst (close_socket s)) = None"
    "reconnectTimer (fst (close_socket s)) = None" "pending (fst (close_socket s)) = None"
    "queue (fst (close_socket s)) = []"
    by (simp_all add: close_socket_def Let_def rejectAllPending_def reject_pending_def reject_queue_def
        split: option.split)
  from inv f have "set (timers (fst (close_socket s))) = {}"
    by (simp add: socket_inv_def socket_core_def live_timers_def)
  with f show ?thesis by (simp add: quiet_def)
qed

lemma close_settles:
  assumes "socket_inv s"
  shows "mset (settled (snd (close_socket s))) = outstanding s"
  using close_honest [of s] close_quiet [OF assms]
  by (simp add: honest_def quiet_def outstanding_def queued_promises_def)

section \<open>A rejected connection promise stays\<close>

text \<open>Reconnect timers firing one after the other, each with what \<open>resolveWsUrl()\<close> gives then.\<close>

fun refire :: "(string + string) list \<Rightarrow> chat_socket \<Rightarrow> chat_socket \<times> effect list" where
  "refire [] s = (s, [])"
| "refire (url # urls) s = (case reconnectTimer s of
     None \<Rightarrow> (s, [])
   | Some t \<Rightarrow> and_then (reconnect_fire t url 0 s) (refire urls))"

definition poisoned :: "chat_socket \<Rightarrow> bool" where
  "poisoned s \<longleftrightarrow> (\<exists>e. connectionPromise s = Some (ConnRejected e)) \<and> \<not> isOpen s
     \<and> \<not> closedByUser s \<and> reconnectTimer s \<noteq> None"

lemma poisoned_fire:
  assumes "poisoned s" and "reconnectTimer s = Some t"
  shows "poisoned (fst (reconnect_fire t url j s)) \<and> (\<forall>w u. OpenSocket w u \<notin> set (snd (reconnect_fire t url j s)))"
proof -
  let ?s = "s\<lparr>reconnectTimer := None, timers := drop_timer t (timers s)\<rparr>"
  from assms obtain e where "connectionPromise s = Some (ConnRejected e)" "\<not> isOpen s" "\<not> closedByUser s"
    by (auto simp: poisoned_def)
  then show ?thesis
    by (auto simp: reconnect_fire_def connect_def scheduleReconnect_def Let_def poisoned_def)
qed

lemma poisoned_refire:
  "poisoned s \<Longrightarrow> poisoned (fst (refire urls s)) \<and> (\<forall>w u. OpenSocket w u \<notin> set (snd (refire urls s)))"
proof (induction urls arbitrary: s)
  case (Cons url urls)
  then obtain t where "reconnectTimer s = Some t" by (auto simp: poisoned_def)
  with Cons poisoned_fire [OF Cons.prems, of t url 0] show ?case by auto
qed simp

end
