(* ===== verification/SocketProps.thy ===== *)
theory SocketProps
  imports SocketLiveness
begin

text \<open>The properties of \<^verbatim>\<open>ChatSocket\<close> (\<^verbatim>\<open>services/chatSocket.ts\<close>), each with a witness on a concrete run.\<close>

section \<open>A run to witness the properties\<close>

definition ack_frame :: "string \<Rightarrow> jsval \<Rightarrow> jsval" where
  "ack_frame rid d = JObj [(''event'', JStr ''ack''), (''request_id'', JStr rid), (''data'', d)]"

definition error_frame :: "string \<Rightarrow> string \<Rightarrow> jsval" where
  "error_frame rid e = JObj [(''event'', JStr ''error''), (''request_id'', JStr rid), (''error'', JStr e)]"

definition sample_inputs :: "socket_input list" where
  "sample_inputs = [InConnect (Inr ''ws''), InOpen 0, InSend 7 ''get_servers'' (JObj []),
     InSend 8 ''get_unread'' (JObj []), InSend 9 ''get_unread'' (JObj []), InTimer 1 (Inl []) 0]"

definition sample_result :: "chat_socket \<times> effect list" where
  "sample_result = exec_run socket_step new_socket sample_inputs"

lemma sample_run: "socket_run new_socket sample_inputs (fst sample_result) (snd sample_result)"
  by (rule exec_run_run) (code_simp, simp add: sample_result_def)

text \<open>The state and the effects are evaluated once, with what closing then does.\<close>

lemma sample_facts:
  "isOpen (fst sample_result)" "settled (snd sample_result) = [7]"
  "map_option pc_requestId (pending (fst sample_result)) = Some ''r2''" "''r1'' \<in> set (sent_rids (snd sample_result))"
  "settled (snd (close_socket (fst sample_result))) = [8, 9]"
  "enabled_run socket_enabled socket_step (fst (close_socket (fst sample_result)))
     [InClose 0 3, InSend 10 ''get_servers'' (JObj [])]"
proof -
  have "case sample_result of (s, os) \<Rightarrow> isOpen s \<and> settled os = [7]
      \<and> map_option pc_requestId (pending s) = Some ''r2'' \<and> ''r1'' \<in> set (sent_rids os)
      \<and> (case close_socket s of (c, os') \<Rightarrow> settled os' = [8, 9]
          \<and> enabled_run socket_enabled socket_step c [InClose 0 3, InSend 10 ''get_servers'' (JObj [])])" by code_simp
  then show "isOpen (fst sample_result)" "settled (snd sample_result) = [7]"
    "map_option pc_requestId (pending (fst sample_result)) = Some ''r2''" "''r1'' \<in> set (sent_rids (snd sample_result))"
    "settled (snd (close_socket (fst sample_result))) = [8, 9]"
    "enabled_run socket_enabled socket_step (fst (close_socket (fst sample_result)))
       [InClose 0 3, InSend 10 ''get_servers'' (JObj [])]"
    unfolding case_prod_beta by blast+
qed

lemma new_socket_empty [simp]: "outstanding new_socket = {#}" "queued_promises new_socket = []"
  "nextRequestId new_socket = 1"
  by (simp_all add: outstanding_def queued_promises_def new_socket_def)

section \<open>Properties\<close>

text \<open>C1. Settled exactly once. In every run of a new \<^verbatim>\<open>ChatSocket\<close> whose \<^verbatim>\<open>sendCommand\<close> calls make
  different promises, no promise is settled twice, and each promise made is either settled or still
  queued or in flight, never both and never lost.\<close>

theorem command_settled_once:
  assumes "socket_run new_socket es t os" and "distinct (promises_given es)"
  shows "distinct (settled os)
    \<and> set (promises_given es) = set (settled os) \<union> set_mset (outstanding t)
    \<and> set (settled os) \<inter> set_mset (outstanding t) = {}"
proof -
  have eq: "mset (promises_given es) = outstanding t + mset (settled os)"
    using run_settles [OF assms(1) new_socket_inv] by simp
  then have "set (promises_given es) = set (settled os) \<union> set_mset (outstanding t)"
    by (metis Un_commute set_mset_mset set_mset_union)
  moreover have "\<forall>p. count (outstanding t) p + count (mset (settled os)) p \<le> 1"
    using assms(2) by (metis eq count_union distinct_count_atmost_1 eq_iff zero_le_one)
  then have c: "count (outstanding t) p + count (mset (settled os)) p \<le> 1" for p by blast
  moreover have "set (settled os) \<inter> set_mset (outstanding t) = {}"
  proof (rule equals0I)
    fix p assume "p \<in> set (settled os) \<inter> set_mset (outstanding t)"
    then have "p \<in># mset (settled os)" and "p \<in># outstanding t" by simp_all
    then have "1 \<le> count (mset (settled os)) p" and "1 \<le> count (outstanding t) p"
      by (simp_all only: count_greater_eq_one_iff)
    then show False using c [of p] by linarith
  qed
  moreover have "distinct (settled os)"
    unfolding distinct_count_atmost_1
  proof
    fix p
    have "count (mset (settled os)) p \<le> 1" using c [of p] by linarith
    moreover have "p \<in> set (settled os) \<Longrightarrow> 1 \<le> count (mset (settled os)) p"
      by (simp only: count_greater_eq_one_iff) simp
    ultimately show "count (mset (settled os)) p = (if p \<in> set (settled os) then 1 else 0)"
      by (auto simp del: count_mset_0_iff simp: le_antisym count_eq_zero_iff)
  qed
  ultimately show ?thesis by blast
qed

text \<open>C2. First in, first out. The command frames a run writes, followed by what is still queued,
  appear in the order in which the commands were given; none is written twice or out of order.\<close>

theorem command_fifo:
  assumes "socket_run new_socket es t os"
  shows "subseq (sent os @ queued_promises t) (promises_given es)"
  using fifo_run [OF assms] by simp

theorem command_fifo_witness:
  "subseq (sent (snd sample_result) @ queued_promises (fst sample_result)) [7, 8, 9]"
  using command_fifo [OF sample_run] by (simp add: sample_inputs_def promises_given_def)

text \<open>C3. Reachable states. In every reachable state the live timers are exactly the timeout of the
  command in flight and the pending reconnect, timer handles are not reused, a socket closed by the
  user has no reconnect pending, and an open socket with nothing in flight has an empty queue.\<close>

theorem socket_reachable:
  assumes "socket_run new_socket es t os"
  shows "set (timers t) =
      (case pending t of None \<Rightarrow> {} | Some p \<Rightarrow> {(pc_timeoutId p, CommandTimer)})
      \<union> (case reconnectTimer t of None \<Rightarrow> {} | Some r \<Rightarrow> {(r, ReconnectTimer)})
    \<and> distinct (map fst (timers t))
    \<and> (closedByUser t \<longrightarrow> reconnectTimer t = None)
    \<and> (isOpen t \<and> pending t = None \<longrightarrow> queue t = [])"
  using sock.inv_run [OF assms new_socket_inv]
  by (simp add: socket_inv_def socket_core_def not_stalled_def live_timers_def)

theorem socket_reachable_witness:
  "isOpen (fst sample_result) \<and> distinct (map fst (timers (fst sample_result)))"
  using socket_reachable [OF sample_run] sample_facts(1) by blast

theorem command_settled_once_witness:
  "settled (snd sample_result) = [7] \<and> set_mset (outstanding (fst sample_result)) = {8, 9}"
proof -
  have d: "distinct (promises_given sample_inputs)" and g: "set (promises_given sample_inputs) = {7, 8, 9}"
    by (simp_all add: sample_inputs_def promises_given_def insert_commute)
  note s = sample_facts(2)
  from command_settled_once [OF sample_run d] g s
  have "set_mset (outstanding (fst sample_result)) = {7, 8, 9} - {7}" by auto
  with s show ?thesis by auto
qed



text \<open>C5. A silent server. From any reachable state with an open socket, however many commands are
  queued, the command timeouts alone settle everything: after at most one timeout more than the queue
  is long nothing is outstanding, every command that was has been settled, and the socket is still open.\<close>

theorem silent_server_drains:
  assumes "socket_run new_socket es s os" and "isOpen s"
  shows "\<exists>t os'. socket_run s (drain (length (queue s) + 1) s) t os'
     \<and> length (drain (length (queue s) + 1) s) \<le> length (queue s) + 1
     \<and> outstanding t = {#} \<and> mset (settled os') = outstanding s \<and> isOpen t"
proof -
  have inv: "socket_inv s" using sock.inv_run [OF assms(1) new_socket_inv] .
  obtain t os' where r: "socket_run s (drain (length (queue s) + 1) s) t os'" "outstanding t = {#}" "isOpen t"
    using drain_run [OF inv assms(2), of "length (queue s) + 1"] by auto
  have "mset (settled os') = outstanding s"
    using run_settles [OF r(1) inv] r(2) by (simp add: drain_gives_nothing del: drain.simps)
  with r drain_length show ?thesis by blast
qed

theorem silent_server_drains_witness:
  "\<exists>t os'. socket_run (fst sample_result) (drain (length (queue (fst sample_result)) + 1) (fst sample_result)) t os'
     \<and> outstanding t = {#}"
  using silent_server_drains [OF sample_run sample_facts(1)] by blast

text \<open>C6. Closing. \<^verbatim>\<open>close()\<close> in any reachable state settles every outstanding command exactly once,
  and whatever happens afterwards short of a new \<^verbatim>\<open>connect()\<close> - late socket errors and closes of the
  old sockets, frames, new commands - no timer is armed, no socket opened and no frame written.\<close>

theorem close_is_final:
  assumes "socket_run new_socket es s os"
    and "socket_run (fst (close_socket s)) es' t os'" and "\<forall>e \<in> set es'. \<not> is_connect e"
  shows "mset (settled (snd (close_socket s))) = outstanding s
    \<and> outstanding t = {#} \<and> timers t = [] \<and> (\<forall>x \<in> set os'. \<not> arms x)"
proof -
  have inv: "socket_inv s" using sock.inv_run [OF assms(1) new_socket_inv] .
  from calm_run [OF assms(2) close_quiet [OF inv] assms(3)]
  have "quiet t" and "\<forall>x \<in> set os'. \<not> arms x" by (simp_all add: calm_def)
  moreover from \<open>quiet t\<close> have "outstanding t = {#}" and "timers t = []"
    by (simp_all add: quiet_def outstanding_def queued_promises_def)
  ultimately show ?thesis using close_settles [OF inv] by simp
qed

theorem close_is_final_witness:
  "mset (settled (snd (close_socket (fst sample_result)))) = {#8, 9#}
   \<and> timers (fst (exec_run socket_step (fst (close_socket (fst sample_result)))
        [InClose 0 3, InSend 10 ''get_servers'' (JObj [])])) = []"
proof -
  let ?c = "fst (close_socket (fst sample_result))"
  let ?es = "[InClose 0 3, InSend 10 ''get_servers'' (JObj [])]"
  have r: "socket_run ?c ?es (fst (exec_run socket_step ?c ?es)) (snd (exec_run socket_step ?c ?es))"
    by (rule exec_run_run [OF sample_facts(6)]) simp
  have n: "\<forall>e \<in> set ?es. \<not> is_connect e" by simp
  show ?thesis using close_is_final [OF sample_run r n] sample_facts(5) by simp
qed

text \<open>C7. Backoff. Unless the user closed the socket or a reconnect is already pending, a lost
  connection arms exactly one timer; its delay doubles from 500 ms with each attempt, is capped at
  15 s and lies, with the jitter, between 500 ms and 15.5 s.\<close>

theorem reconnect_backoff:
  assumes "\<not> closedByUser s" and "reconnectTimer s = None" and "jitter < 500"
  shows "snd (scheduleReconnect jitter s)
      = [SetTimer (nextHandle s) (min 15000 (500 * 2 ^ reconnectAttempt s) + jitter)]
    \<and> 500 \<le> min 15000 (500 * 2 ^ reconnectAttempt s) + jitter
    \<and> min 15000 (500 * 2 ^ reconnectAttempt s) + jitter < 15500
    \<and> (5 \<le> reconnectAttempt s \<longrightarrow> min 15000 (500 * 2 ^ reconnectAttempt s) = (15000::nat))
    \<and> snd (scheduleReconnect jitter (fst (scheduleReconnect jitter s))) = []"
proof -
  have one: "(1::nat) \<le> 2 ^ reconnectAttempt s" by simp
  have "5 \<le> reconnectAttempt s \<Longrightarrow> (2::nat) ^ 5 \<le> 2 ^ reconnectAttempt s"
    by (rule power_increasing) simp_all
  then have "5 \<le> reconnectAttempt s \<Longrightarrow> min 15000 (500 * 2 ^ reconnectAttempt s) = (15000::nat)"
    by simp
  moreover have "500 * 1 \<le> 500 * (2::nat) ^ reconnectAttempt s" using one by (rule mult_le_mono2)
  then have "500 \<le> min 15000 (500 * 2 ^ reconnectAttempt s) + jitter" by linarith
  moreover have "min 15000 (500 * 2 ^ reconnectAttempt s) + jitter < 15500" using assms(3) by linarith
  ultimately show ?thesis using assms
    by (simp add: scheduleReconnect_def Let_def reconnect_base_def RECONNECT_CAP_MS_def)
qed

theorem reconnect_backoff_witness:
  "snd (scheduleReconnect 20 new_socket) = [SetTimer 0 520]"
  using reconnect_backoff [of new_socket 20] by (simp add: new_socket_def)

text \<open>C8. A reconnect attempt that throws is fatal. If \<^verbatim>\<open>resolveWsUrl()\<close> throws once when a reconnect
  timer fires (an expired token), the rejected promise stays in \<^verbatim>\<open>connectionPromise\<close>: every later
  reconnect fires again and again but opens no socket, even when a valid url is available by then.\<close>

theorem rejected_connection_is_never_retried:
  assumes "reconnectTimer s = Some r" and "\<not> isOpen s" and "connectionPromise s = None"
  shows "let s1 = fst (reconnect_fire r (Inl e) j s); (s2, os) = refire urls s1
    in (\<forall>w u. OpenSocket w u \<notin> set os) \<and> \<not> isOpen s2 \<and> reconnectTimer s2 \<noteq> None"
proof -
  let ?s = "s\<lparr>reconnectTimer := None, timers := drop_timer r (timers s)\<rparr>"
  have "poisoned (fst (reconnect_fire r (Inl e) j s))"
    using assms by (simp add: reconnect_fire_def connect_def scheduleReconnect_def Let_def poisoned_def)
  from poisoned_refire [OF this, of urls] show ?thesis
    by (cases "refire urls (fst (reconnect_fire r (Inl e) j s))") (simp add: Let_def poisoned_def)
qed

theorem rejected_connection_is_never_retried_witness:
  "let s0 = fst (exec_run socket_step new_socket [InConnect (Inr ''ws''), InOpen 0, InClose 0 0]);
       s1 = fst (reconnect_fire 1 (Inl ''Re-login required'') 0 s0);
       (s2, os) = refire [Inr ''ws'', Inr ''ws''] s1
   in (\<forall>w u. OpenSocket w u \<notin> set os) \<and> \<not> isOpen s2 \<and> reconnectTimer s2 \<noteq> None"
proof -
  let ?s0 = "fst (exec_run socket_step new_socket [InConnect (Inr ''ws''), InOpen 0, InClose 0 0])"
  have "case ?s0 of s \<Rightarrow> reconnectTimer s = Some 1 \<and> \<not> isOpen s \<and> connectionPromise s = None" by code_simp
  then have h: "reconnectTimer ?s0 = Some 1" "\<not> isOpen ?s0" "connectionPromise ?s0 = None" by simp_all
  show ?thesis
    using rejected_connection_is_never_retried [OF h, of "''Re-login required''" 0 "[Inr ''ws'', Inr ''ws'']"]
    by (simp only: Let_def)
qed

text \<open>\<open>dm_opened\<close> is told apart from its broadcasts. A \<open>dm_opened\<close> event always reaches every
  listener; it resolves the command in flight exactly when that is an \<open>open_dm\<close> for the very peer of
  the event, and otherwise leaves the socket as it was.\<close>

theorem dm_opened_matches_peer:
  assumes "toDMChannel d = Some dm"
  shows "let r = onmessage now (Some (JObj [(''event'', JStr ''dm_opened''), (''data'', d)])) s in
    (\<forall>i \<in> set (listeners s DMOpenedListeners). CallListener i (OnDMOpened dm) \<in> set (snd r))
    \<and> (if \<exists>p. pending s = Some p \<and> pc_action p = ''open_dm''
             \<and> pc_openDMPeerUserId p = Some (dm_peer_user_id dm)
       then settled (snd r) = [pc_promise (the (pending s))]
       else fst r = s \<and> settled (snd r) = [])"
proof -
  let ?e = "server_event (JObj [(''event'', JStr ''dm_opened''), (''data'', d)])"
  have e: "ev_event ?e = ''dm_opened''" "ev_data ?e = d" by (simp_all add: server_event_def)
  have none: "listener_events now ?e = None"
    using e by (simp add: listener_events_def message_events_def voice_events_def typing_events_def sfu_events_def)
  have m: "onmessage now (Some (JObj [(''event'', JStr ''dm_opened''), (''data'', d)])) s = dm_opened d s"
    using e none by (simp add: onmessage_def Let_def reply_event_def)
  have f: "settled (snd (flushQueue u)) = []" for u
    by (simp add: flushQueue_def Let_def split: list.split)
  have c: "CallListener i (OnDMOpened dm) \<in> set (snd (deliver [OnDMOpened dm] s))"
    if "i \<in> set (listeners s DMOpenedListeners)" for i
    using that by (simp add: deliver_def notify_listeners_def)
  show ?thesis unfolding m Let_def using assms c
    by (cases "pending s")
       (auto simp: dm_opened_def pending_action_def resolve_and_flush_def resolve_pending_def f)
qed

theorem dm_opened_matches_peer_witness:
  "settled (snd (onmessage [] (Some (JObj [(''event'', JStr ''dm_opened''),
      (''data'', JObj [(''channel_id'', JNum 3), (''peer_user_id'', JNum 4)])])) new_socket)) = []"
proof -
  let ?d = "JObj [(''channel_id'', JNum 3), (''peer_user_id'', JNum 4)]"
  have "toDMChannel ?d = Some \<lparr>dm_channel_id = 3, dm_peer_user_id = 4, dm_peer_nickname = [],
      dm_peer_avatar_url = None, dm_last_message_at = None\<rparr>"
    by (simp add: toDMChannel_def)
  from dm_opened_matches_peer [OF this, of "[]" new_socket] show ?thesis
    by (simp add: Let_def new_socket_def)
qed

end
