(* ===== verification/SocketApi.thy ===== *)
theory SocketApi
  imports SocketDispatch
begin

text \<open>
  The commands of \<^verbatim>\<open>ChatSocket\<close> (\<^verbatim>\<open>services/chatSocket.ts\<close>, lines 1050 to 1563). A method \<open>m\<close> is two
  definitions, as its body is split by its \<open>await\<close>: \<open>m\<close> hands the request to \<open>sendCommand\<close>, and
  \<open>m_ack\<close> is the continuation, from the payload the promise resolves with to what the method returns
  or throws. A property read on \<open>null\<close> or \<open>undefined\<close> throws, so those continuations that read an element
  without a test can end with \<open>PropertyOfNullish\<close>.
\<close>

section \<open>Reading an acknowledgement\<close>

datatype ack_error = InvalidResponse string | UnexpectedTransport jsval | PropertyOfNullish

type_synonym 'a ack = "ack_error + 'a"

text \<open>\<open>raw.filter(test).map(conv)\<close> with a test that reads a property of each element, as one pass: \<open>conv\<close>
  gives \<open>None\<close> where the test fails. \<open>collect\<close> is the same for a test that never throws.\<close>

definition collect_plain :: "(jsval \<Rightarrow> 'a option) \<Rightarrow> jsval \<Rightarrow> 'a list ack" where
  "collect_plain conv raw = (case arr_of raw of
     None \<Rightarrow> Inr []
   | Some items \<Rightarrow> (if \<exists>v \<in> set items. is_nullish v then Inl PropertyOfNullish
                   else Inr (List.map_filter conv items)))"

definition collect :: "(jsval \<Rightarrow> 'a option) \<Rightarrow> jsval \<Rightarrow> 'a list" where
  "collect conv raw = (case arr_of raw of None \<Rightarrow> [] | Some items \<Rightarrow> List.map_filter conv items)"

record 'a page =
  page_items :: "'a list"
  page_nextCursor :: string
  page_hasMore :: bool

definition page_of :: "string \<Rightarrow> (jsval \<Rightarrow> 'a option) \<Rightarrow> jsval \<Rightarrow> 'a page" where
  "page_of field conv payload = \<lparr>
     page_items = collect conv (js_get payload field),
     page_nextCursor = str_or [] (js_get payload ''next_cursor''),
     page_hasMore = (bool_of (js_get payload ''has_more'') = Some True) \<rparr>"

record window_page =
  win_messages :: "Message list"
  win_olderCursor :: string
  win_newerCursor :: string
  win_hasMoreOlder :: bool
  win_hasMoreNewer :: bool

text \<open>An object literal built by conditional assignments: the fields whose condition held, in order.\<close>

definition given :: "bool \<Rightarrow> string \<Rightarrow> jsval \<Rightarrow> (string \<times> jsval) list" where
  "given c k v = (if c then [(k, v)] else [])"

section \<open>Channels and servers\<close>

fun channel_type_name :: "channel_type \<Rightarrow> string" where
  "channel_type_name TextChannel = ''text''"
| "channel_type_name VoiceChannel = ''voice''"
| "channel_type_name DmChannel = ''dm''"

definition createChannel :: "nat \<Rightarrow> int \<Rightarrow> string \<Rightarrow> channel_type \<Rightarrow> chat_socket \<Rightarrow> chat_socket \<times> effect list" where
  "createChannel p serverId name ty = sendCommand p ''create_channel''
     (JObj [(''server_id'', JNum serverId), (''name'', JStr name), (''type'', JStr (channel_type_name ty))])"

definition createChannel_ack :: "jsval \<Rightarrow> Channel ack" where
  "createChannel_ack payload =
     (case (num_of (js_get payload ''channel_id''), num_of (js_get payload ''server_id''),
            str_of (js_get payload ''name''), js_get payload ''type'') of
        (Some c, Some s, Some n, JStr t) \<Rightarrow>
          (if t = ''text'' then Inr \<lparr>ch_id = c, ch_server_id = s, ch_name = n, ch_type = TextChannel\<rparr>
           else if t = ''voice'' then Inr \<lparr>ch_id = c, ch_server_id = s, ch_name = n, ch_type = VoiceChannel\<rparr>
           else Inl (InvalidResponse ''The server returned an invalid response when creating a channel.''))
      | _ \<Rightarrow> Inl (InvalidResponse ''The server returned an invalid response when creating a channel.''))"

definition createServer :: "nat \<Rightarrow> string \<Rightarrow> chat_socket \<Rightarrow> chat_socket \<times> effect list" where
  "createServer p name = sendCommand p ''create_server'' (JObj [(''name'', JStr name)])"

definition createServer_ack :: "jsval \<Rightarrow> (int \<times> string) ack" where
  "createServer_ack payload =
     (case (num_of (js_get payload ''server_id''), str_of (js_get payload ''name'')) of
        (Some s, Some n) \<Rightarrow> Inr (s, n)
      | _ \<Rightarrow> Inl (InvalidResponse ''The server returned an invalid response while creating the server.''))"

definition joinServer :: "nat \<Rightarrow> int \<Rightarrow> chat_socket \<Rightarrow> chat_socket \<times> effect list" where
  "joinServer p serverId = sendCommand p ''join_server'' (JObj [(''server_id'', JNum serverId)])"

definition deleteServer :: "nat \<Rightarrow> int \<Rightarrow> chat_socket \<Rightarrow> chat_socket \<times> effect list" where
  "deleteServer p serverId = sendCommand p ''delete_server'' (JObj [(''server_id'', JNum serverId)])"

definition deleteChannel :: "nat \<Rightarrow> int \<Rightarrow> chat_socket \<Rightarrow> chat_socket \<times> effect list" where
  "deleteChannel p channelId = sendCommand p ''delete_channel'' (JObj [(''channel_id'', JNum channelId)])"

definition getServers :: "nat \<Rightarrow> chat_socket \<Rightarrow> chat_socket \<times> effect list" where
  "getServers p = sendCommand p ''get_servers'' (JObj [])"

definition server_of :: "jsval \<Rightarrow> Server option" where
  "server_of v = (case (num_of (js_get v ''id''), str_of (js_get v ''name''), num_of (js_get v ''owner_id'')) of
     (Some i, Some n, Some ow) \<Rightarrow> Some \<lparr>srv_id = i, srv_name = n, srv_owner_id = ow\<rparr>
   | _ \<Rightarrow> None)"

definition getServers_ack :: "jsval \<Rightarrow> Server list ack" where
  "getServers_ack payload = collect_plain server_of (js_get payload ''servers'')"

definition getServerChannelsState :: "nat \<Rightarrow> int \<Rightarrow> chat_socket \<Rightarrow> chat_socket \<times> effect list" where
  "getServerChannelsState p serverId = sendCommand p ''get_server_channels'' (JObj [(''server_id'', JNum serverId)])"

definition channel_of :: "jsval \<Rightarrow> Channel option" where
  "channel_of v = (case (num_of (js_get v ''id''), num_of (js_get v ''server_id''), str_of (js_get v ''name'')) of
     (Some i, Some s, Some n) \<Rightarrow> Some \<lparr>ch_id = i, ch_server_id = s, ch_name = n,
        ch_type = (if js_get v ''type'' = JStr ''voice'' then VoiceChannel else TextChannel)\<rparr>
   | _ \<Rightarrow> None)"

definition participant_of :: "jsval \<Rightarrow> VoiceParticipant option" where
  "participant_of v = (case num_of (js_get v ''user_id'') of
     None \<Rightarrow> None
   | Some u \<Rightarrow> Some \<lparr>
       vp_user_id = u,
       vp_first_name = str_of (js_get v ''first_name''),
       vp_last_name = str_of (js_get v ''last_name''),
       vp_nickname = str_of (js_get v ''nickname''),
       vp_avatar_url = str_of (js_get v ''avatar_url''),
       vp_mic_enabled = bool_of (js_get v ''mic_enabled''),
       vp_deafened = bool_of (js_get v ''deafened''),
       vp_detached = None \<rparr>)"

definition channel_participants_of :: "jsval \<Rightarrow> VoiceChannelParticipants option" where
  "channel_participants_of v = (case num_of (js_get v ''channel_id'') of
     None \<Rightarrow> None
   | Some c \<Rightarrow> Some \<lparr> vcp_channel_id = c, vcp_participants = collect participant_of (js_get v ''participants'') \<rparr>)"

definition getServerChannelsState_ack :: "jsval \<Rightarrow> (Channel list \<times> VoiceChannelParticipants list) ack" where
  "getServerChannelsState_ack payload =
     (case collect_plain channel_of (js_get payload ''channels'') of
        Inl e \<Rightarrow> Inl e
      | Inr cs \<Rightarrow> Inr (cs, collect channel_participants_of (js_get payload ''voice_participants'')))"

definition getServerChannels_ack :: "jsval \<Rightarrow> Channel list ack" where
  "getServerChannels_ack payload = map_sum id fst (getServerChannelsState_ack payload)"

definition searchServers :: "nat \<Rightarrow> string \<Rightarrow> int \<Rightarrow> chat_socket \<Rightarrow> chat_socket \<times> effect list" where
  "searchServers p query limit = sendCommand p ''search_servers''
     (JObj [(''query'', JStr query), (''limit'', JNum limit)])"

definition found_server_of :: "jsval \<Rightarrow> (int \<times> string) option" where
  "found_server_of v = (case (num_of (js_get v ''id''), str_of (js_get v ''name'')) of
     (Some i, Some n) \<Rightarrow> Some (i, n) | _ \<Rightarrow> None)"

definition searchServers_ack :: "jsval \<Rightarrow> (int \<times> string) list ack" where
  "searchServers_ack payload = collect_plain found_server_of (js_get payload ''servers'')"

section \<open>Messages\<close>

definition sendMessage :: "nat \<Rightarrow> int \<Rightarrow> string \<Rightarrow> int list \<Rightarrow> int option \<Rightarrow> chat_socket \<Rightarrow>
    chat_socket \<times> effect list" where
  "sendMessage p channelId content attachmentIds replyToId = sendCommand p ''send_message''
     (JObj ([(''channel_id'', JNum channelId), (''content'', JStr content)]
        @ given (attachmentIds \<noteq> []) ''attachment_ids'' (JArr (map JNum attachmentIds))
        @ given (replyToId \<noteq> None) ''reply_to_id'' (JNum (the replyToId))))"

definition getMessages :: "nat \<Rightarrow> int \<Rightarrow> int \<Rightarrow> string \<Rightarrow> chat_socket \<Rightarrow> chat_socket \<times> effect list" where
  "getMessages p channelId limit cursor = sendCommand p ''get_messages''
     (JObj ([(''channel_id'', JNum channelId), (''limit'', JNum limit)]
        @ given (cursor \<noteq> []) ''cursor'' (JStr cursor)))"

definition getMessages_ack :: "string \<Rightarrow> jsval \<Rightarrow> Message page" where
  "getMessages_ack now payload = page_of ''messages'' (toMessage now) payload"

definition getMessagesAround :: "nat \<Rightarrow> int \<Rightarrow> int \<Rightarrow> int \<Rightarrow> chat_socket \<Rightarrow> chat_socket \<times> effect list" where
  "getMessagesAround p channelId messageId limit = sendCommand p ''get_messages_around''
     (JObj [(''channel_id'', JNum channelId), (''message_id'', JNum messageId), (''limit'', JNum limit)])"

definition getMessagesAround_ack :: "string \<Rightarrow> jsval \<Rightarrow> window_page" where
  "getMessagesAround_ack now payload = \<lparr>
     win_messages = collect (toMessage now) (js_get payload ''messages''),
     win_olderCursor = str_or [] (js_get payload ''older_cursor''),
     win_newerCursor = str_or [] (js_get payload ''newer_cursor''),
     win_hasMoreOlder = (bool_of (js_get payload ''has_more_older'') = Some True),
     win_hasMoreNewer = (bool_of (js_get payload ''has_more_newer'') = Some True) \<rparr>"

definition getMessagesAfter :: "nat \<Rightarrow> int \<Rightarrow> string \<Rightarrow> int \<Rightarrow> chat_socket \<Rightarrow> chat_socket \<times> effect list" where
  "getMessagesAfter p channelId cursor limit = sendCommand p ''get_messages_after''
     (JObj [(''channel_id'', JNum channelId), (''cursor'', JStr cursor), (''limit'', JNum limit)])"

definition getMessagesAfter_ack :: "string \<Rightarrow> jsval \<Rightarrow> Message page" where
  "getMessagesAfter_ack now payload = page_of ''messages'' (toMessage now) payload"

definition deleteMessage :: "nat \<Rightarrow> int \<Rightarrow> chat_socket \<Rightarrow> chat_socket \<times> effect list" where
  "deleteMessage p messageId = sendCommand p ''delete_message'' (JObj [(''message_id'', JNum messageId)])"

definition editMessage :: "nat \<Rightarrow> int \<Rightarrow> string \<Rightarrow> chat_socket \<Rightarrow> chat_socket \<times> effect list" where
  "editMessage p messageId content = sendCommand p ''edit_message''
     (JObj [(''message_id'', JNum messageId), (''content'', JStr content)])"

text \<open>The optional filters; a filter that is absent, \<open>0\<close>, empty or \<open>false\<close> is not sent.\<close>

definition search_filter_fields :: "SearchFilters \<Rightarrow> (string \<times> jsval) list" where
  "search_filter_fields f =
     (case sf_authorId f of Some a \<Rightarrow> given (a \<noteq> 0) ''author_id'' (JNum a) | None \<Rightarrow> [])
     @ given (sf_hasFile f = Some True) ''has_file'' (JBool True)
     @ given (sf_hasLink f = Some True) ''has_link'' (JBool True)
     @ (case sf_before f of Some b \<Rightarrow> given (b \<noteq> []) ''before'' (JStr b) | None \<Rightarrow> [])
     @ (case sf_after f of Some a \<Rightarrow> given (a \<noteq> []) ''after'' (JStr a) | None \<Rightarrow> [])"

definition search_request :: "string \<Rightarrow> SearchScope \<Rightarrow> int \<Rightarrow> SearchFilters option \<Rightarrow> string \<Rightarrow> int \<Rightarrow> jsval" where
  "search_request query scope scopeId filters cursor limit =
     JObj ([(''query'', JStr query), (''limit'', JNum limit)]
        @ [(case scope of ServerScope \<Rightarrow> ''server_id'' | ChannelScope \<Rightarrow> ''channel_id'', JNum scopeId)]
        @ (case filters of Some f \<Rightarrow> search_filter_fields f | None \<Rightarrow> [])
        @ given (cursor \<noteq> []) ''cursor'' (JStr cursor))"

definition searchMessages :: "nat \<Rightarrow> string \<Rightarrow> SearchScope \<Rightarrow> int \<Rightarrow> SearchFilters option \<Rightarrow> string \<Rightarrow> int \<Rightarrow>
    chat_socket \<Rightarrow> chat_socket \<times> effect list" where
  "searchMessages p query scope scopeId filters cursor limit =
     sendCommand p ''search_messages'' (search_request query scope scopeId filters cursor limit)"

definition search_hit_of :: "string \<Rightarrow> jsval \<Rightarrow> SearchHit option" where
  "search_hit_of now v =
     (case (num_of (js_get v ''message_id''), num_of (js_get v ''channel_id'')) of
        (Some m, Some c) \<Rightarrow> Some \<lparr>
          sh_message_id = m,
          sh_channel_id = c,
          sh_channel_name = str_or [] (js_get v ''channel_name''),
          sh_author_id = num_or 0 (js_get v ''author_id''),
          sh_author_first_name = js_get v ''author_first_name'',
          sh_author_last_name = js_get v ''author_last_name'',
          sh_author_nickname = js_get v ''author_nickname'',
          sh_author_avatar_url = js_get v ''author_avatar_url'',
          sh_headline = str_or [] (js_get v ''headline''),
          sh_created_at = str_or now (js_get v ''created_at'') \<rparr>
      | _ \<Rightarrow> None)"

definition searchMessages_ack :: "string \<Rightarrow> jsval \<Rightarrow> SearchHit page" where
  "searchMessages_ack now payload = page_of ''hits'' (search_hit_of now) payload"

definition getUnread :: "nat \<Rightarrow> chat_socket \<Rightarrow> chat_socket \<times> effect list" where
  "getUnread p = sendCommand p ''get_unread'' (JObj [])"

definition unread_of :: "jsval \<Rightarrow> ChannelUnread option" where
  "unread_of v = (case (num_of (js_get v ''channel_id''), num_of (js_get v ''unread_count'')) of
     (Some c, Some n) \<Rightarrow> Some \<lparr>cu_channel_id = c, cu_server_id = num_or 0 (js_get v ''server_id''),
                              cu_unread_count = n\<rparr>
   | _ \<Rightarrow> None)"

definition getUnread_ack :: "jsval \<Rightarrow> ChannelUnread list ack" where
  "getUnread_ack payload = collect_plain unread_of (js_get payload ''channels'')"

section \<open>Users\<close>

definition getUsersOnline :: "nat \<Rightarrow> int \<Rightarrow> chat_socket \<Rightarrow> chat_socket \<times> effect list" where
  "getUsersOnline p serverId = sendCommand p ''get_users_online'' (JObj [(''server_id'', JNum serverId)])"

definition online_user_of :: "jsval \<Rightarrow> OnlineUser option" where
  "online_user_of v =
     (if is_string (js_get v ''nickname'') \<or> is_string (js_get v ''first_name'')
         \<or> is_string (js_get v ''last_name'') \<or> is_string (js_get v ''email'')
      then Some \<lparr>
        ou_first_name = str_of (js_get v ''first_name''),
        ou_last_name = str_of (js_get v ''last_name''),
        ou_nickname = str_of (js_get v ''nickname''),
        ou_user_id = num_of (js_get v ''user_id''),
        ou_avatar_url = str_of (js_get v ''avatar_url''),
        ou_email = str_of (js_get v ''email'') \<rparr>
      else None)"

definition getUsersOnline_ack :: "jsval \<Rightarrow> OnlineUser list ack" where
  "getUsersOnline_ack payload = collect_plain online_user_of (js_get payload ''users'')"

definition getServerMembers :: "nat \<Rightarrow> int \<Rightarrow> chat_socket \<Rightarrow> chat_socket \<times> effect list" where
  "getServerMembers p serverId = sendCommand p ''get_server_members'' (JObj [(''server_id'', JNum serverId)])"

definition member_of :: "jsval \<Rightarrow> ServerMember option" where
  "member_of v = (case num_of (js_get v ''user_id'') of
     None \<Rightarrow> None
   | Some u \<Rightarrow> Some \<lparr>
       mem_user_id = u,
       mem_first_name = str_of (js_get v ''first_name''),
       mem_last_name = str_of (js_get v ''last_name''),
       mem_nickname = str_of (js_get v ''nickname''),
       mem_avatar_url = str_of (js_get v ''avatar_url'') \<rparr>)"

definition getServerMembers_ack :: "jsval \<Rightarrow> ServerMember list ack" where
  "getServerMembers_ack payload = collect_plain member_of (js_get payload ''members'')"

definition getUserInfo :: "nat \<Rightarrow> int \<Rightarrow> chat_socket \<Rightarrow> chat_socket \<times> effect list" where
  "getUserInfo p userId = sendCommand p ''get_user_info'' (JObj [(''user_id'', JNum userId)])"

definition getUserInfo_ack :: "int \<Rightarrow> jsval \<Rightarrow> UserProfile ack" where
  "getUserInfo_ack userId payload =
     (if is_nullish payload then Inl PropertyOfNullish
      else Inr \<lparr>
        up_user_id = num_or userId (js_get payload ''user_id''),
        up_first_name = str_or [] (js_get payload ''first_name''),
        up_last_name = str_or [] (js_get payload ''last_name''),
        up_nickname = str_of (js_get payload ''nickname''),
        up_avatar_url = str_or [] (js_get payload ''avatar_url'') \<rparr>)"

definition searchUsers :: "nat \<Rightarrow> string \<Rightarrow> int \<Rightarrow> chat_socket \<Rightarrow> chat_socket \<times> effect list" where
  "searchUsers p query limit = sendCommand p ''search_users''
     (JObj [(''query'', JStr query), (''limit'', JNum limit)])"

definition user_hit_of :: "jsval \<Rightarrow> UserSearchHit option" where
  "user_hit_of v = (case (num_of (js_get v ''user_id''), str_of (js_get v ''nickname'')) of
     (Some u, Some n) \<Rightarrow> Some \<lparr>us_user_id = u, us_nickname = n, us_avatar_url = str_of (js_get v ''avatar_url'')\<rparr>
   | _ \<Rightarrow> None)"

definition searchUsers_ack :: "jsval \<Rightarrow> UserSearchHit list ack" where
  "searchUsers_ack payload = collect_plain user_hit_of (js_get payload ''users'')"

section \<open>Direct messages\<close>

definition openDM :: "nat \<Rightarrow> int \<Rightarrow> chat_socket \<Rightarrow> chat_socket \<times> effect list" where
  "openDM p peerUserId = sendCommand p ''open_dm'' (JObj [(''peer_user_id'', JNum peerUserId)])"

definition openDM_ack :: "jsval \<Rightarrow> DMChannel ack" where
  "openDM_ack payload = (case toDMChannel payload of
     Some dm \<Rightarrow> Inr dm
   | None \<Rightarrow> Inl (InvalidResponse ''Invalid open_dm response''))"

definition closeDM :: "nat \<Rightarrow> int \<Rightarrow> chat_socket \<Rightarrow> chat_socket \<times> effect list" where
  "closeDM p channelId = sendCommand p ''close_dm'' (JObj [(''channel_id'', JNum channelId)])"

definition listDMs :: "nat \<Rightarrow> chat_socket \<Rightarrow> chat_socket \<times> effect list" where
  "listDMs p = sendCommand p ''list_dms'' (JObj [])"

definition listDMs_ack :: "jsval \<Rightarrow> DMChannel list" where
  "listDMs_ack payload = collect toDMChannel (js_get payload ''channels'')"

section \<open>Voice\<close>

definition joinVoiceChannel :: "nat \<Rightarrow> int \<Rightarrow> chat_socket \<Rightarrow> chat_socket \<times> effect list" where
  "joinVoiceChannel p channelId = sendCommand p ''join_voice_channel'' (JObj [(''channel_id'', JNum channelId)])"

definition joinVoiceChannel_ack :: "jsval \<Rightarrow> jsval ack" where
  "joinVoiceChannel_ack payload =
     (if \<not> truthy payload \<or> \<not> is_number (js_get payload ''channel_id'') \<or> \<not> is_array (js_get payload ''participants'')
      then Inl (InvalidResponse ''Invalid join voice response'')
      else if js_get payload ''transport_mode'' \<noteq> JStr ''sfu''
      then Inl (UnexpectedTransport (js_get payload ''transport_mode''))
      else Inr payload)"

definition leaveVoiceChannel :: "nat \<Rightarrow> chat_socket \<Rightarrow> chat_socket \<times> effect list" where
  "leaveVoiceChannel p = sendCommand p ''leave_voice_channel'' (JObj [])"

definition changeVoiceStatus :: "nat \<Rightarrow> int \<Rightarrow> bool \<Rightarrow> bool \<Rightarrow> chat_socket \<Rightarrow> chat_socket \<times> effect list" where
  "changeVoiceStatus p userId micEnabled deafened = sendCommand p ''change_voice_status''
     (JObj [(''user_id'', JNum userId), (''mic_enabled'', JBool micEnabled), (''deafened'', JBool deafened)])"

definition sendSfuOffer :: "nat \<Rightarrow> string \<Rightarrow> string \<Rightarrow> jsval list \<Rightarrow> chat_socket \<Rightarrow> chat_socket \<times> effect list" where
  "sendSfuOffer p sessionId sdp slots = sendCommand p ''sfu_offer''
     (JObj [(''session_id'', JStr sessionId), (''sdp'', JStr sdp), (''slots'', JArr slots)])"

definition sendSfuAnswer :: "nat \<Rightarrow> string \<Rightarrow> string \<Rightarrow> chat_socket \<Rightarrow> chat_socket \<times> effect list" where
  "sendSfuAnswer p sessionId sdp = sendCommand p ''sfu_answer''
     (JObj [(''session_id'', JStr sessionId), (''sdp'', JStr sdp)])"

definition sendSfuSubscribeVideo :: "nat \<Rightarrow> string \<Rightarrow> int \<Rightarrow> string \<Rightarrow> string \<Rightarrow> chat_socket \<Rightarrow>
    chat_socket \<times> effect list" where
  "sendSfuSubscribeVideo p sessionId targetUserId source quality = sendCommand p ''sfu_subscribe_video''
     (JObj [(''session_id'', JStr sessionId), (''target_user_id'', JNum targetUserId),
       (''source'', JStr source), (''quality'', JStr quality)])"

definition sendSfuPublishState :: "nat \<Rightarrow> string \<Rightarrow> string \<Rightarrow> bool \<Rightarrow> chat_socket \<Rightarrow> chat_socket \<times> effect list" where
  "sendSfuPublishState p sessionId source active = sendCommand p ''sfu_publish_state''
     (JObj [(''session_id'', JStr sessionId), (''source'', JStr source), (''active'', JBool active)])"

definition sendSfuResume :: "nat \<Rightarrow> string \<Rightarrow> chat_socket \<Rightarrow> chat_socket \<times> effect list" where
  "sendSfuResume p sessionId = sendCommand p ''sfu_resume'' (JObj [(''session_id'', JStr sessionId)])"

definition sendSfuResume_ack :: "jsval \<Rightarrow> jsval ack" where
  "sendSfuResume_ack payload =
     (if \<not> truthy payload \<or> bool_of (js_get payload ''ok'') = None \<or> \<not> is_array (js_get payload ''participants'')
      then Inl (InvalidResponse ''Invalid sfu_resume response'')
      else Inr payload)"

end
