(* ===== verification/WireProps.thy ===== *)
theory WireProps
  imports SocketApi
begin

text \<open>
  What the server encodes (\<^verbatim>\<open>types/websocket.go\<close>: \<^verbatim>\<open>WsMessage\<close>, \<^verbatim>\<open>WsReplyTo\<close>, \<^verbatim>\<open>Server\<close>, the fields the
  client reads) and the properties of the parsers and commands over it.
\<close>

section \<open>What the server sends\<close>

text \<open>The payload of a message as the server encodes it: a field that is not set is left out.\<close>

definition fields :: "(string \<times> jsval option) list \<Rightarrow> jsval" where
  "fields fs = JObj (List.map_filter (\<lambda>(k, v). map_option (Pair k) v) fs)"

definition omit_if :: "bool \<Rightarrow> jsval \<Rightarrow> jsval option" where
  "omit_if c v = (if c then None else Some v)"

lemma omit_if_simps [simp]: "omit_if True v = None" "omit_if False v = Some v"
  by (simp_all add: omit_if_def)

definition attachment_json :: "Attachment \<Rightarrow> jsval" where
  "attachment_json a = JObj [(''url'', JStr (att_url a)), (''file_name'', JStr (att_file_name a)),
     (''content_type'', JStr (att_content_type a))]"

definition embed_json :: "LinkPreview \<Rightarrow> jsval" where
  "embed_json e = fields [(''url'', Some (JStr (lp_url e))),
     (''title'', map_option JStr (lp_title e)),
     (''description'', map_option JStr (lp_description e)),
     (''site_name'', map_option JStr (lp_site_name e)),
     (''image_token'', map_option JStr (lp_image_token e))]"

definition reply_json :: "ReplyPreview \<Rightarrow> jsval" where
  "reply_json r = fields [(''message_id'', Some (JNum (rp_message_id r))),
     (''author_id'', Some (JNum (rp_author_id r))),
     (''author_first_name'', Some (JStr (rp_author_first_name r))),
     (''author_last_name'', Some (JStr (rp_author_last_name r))),
     (''author_nickname'', map_option JStr (rp_author_nickname r)),
     (''content'', Some (JStr (rp_content r))),
     (''has_attachments'', Some (JBool (rp_has_attachments r)))]"

fun val_of :: "'a nullable \<Rightarrow> 'a option" where
  "val_of (Val x) = Some x"
| "val_of _ = None"

definition message_json :: "Message \<Rightarrow> jsval" where
  "message_json m = fields [(''id'', Some (JNum (m_id m))), (''channel_id'', Some (JNum (m_channel_id m))),
     (''author_id'', Some (JNum (m_author_id m))),
     (''author_first_name'', Some (m_author_first_name m)),
     (''author_last_name'', Some (m_author_last_name m)),
     (''author_nickname'', omit_if (m_author_nickname m = JStr []) (m_author_nickname m)),
     (''author_avatar_url'', omit_if (m_author_avatar_url m = []) (JStr (m_author_avatar_url m))),
     (''content'', Some (JStr (m_content m))),
     (''attachments'', map_option (\<lambda>as. JArr (map attachment_json as)) (m_attachments m)),
     (''reply_to_id'', map_option JNum (val_of (m_reply_to_id m))),
     (''reply_to'', map_option reply_json (val_of (m_reply_to m))),
     (''mentions'', map_option (\<lambda>is. JArr (map JNum is)) (m_mentions m)),
     (''mentions_everyone'', map_option JBool (m_mentions_everyone m)),
     (''embeds'', omit_if (m_embeds m = []) (JArr (map embed_json (m_embeds m)))),
     (''created_at'', Some (JStr (m_created_at m))),
     (''edited_at'', map_option JStr (m_edited_at m))]"

definition wire_ok :: "Message \<Rightarrow> bool" where
  "wire_ok m \<longleftrightarrow> is_string (m_author_first_name m) \<and> is_string (m_author_last_name m)
     \<and> is_string (m_author_nickname m) \<and> m_reply_to_id m \<noteq> Null \<and> m_reply_to m \<noteq> Null
     \<and> (\<forall>as. m_attachments m = Some as \<longrightarrow> (\<forall>a \<in> set as. att_url a \<noteq> []))
     \<and> (\<forall>e \<in> set (m_embeds m). lp_url e \<noteq> [])"

primrec json_field_of :: "jsval option \<Rightarrow> jsval" where
  "json_field_of None = JUndefined"
| "json_field_of (Some v) = v"

lemma js_get_fields [simp]:
  "js_get (fields []) k = JUndefined"
  "k \<notin> fst ` set fs \<Longrightarrow> js_get (fields ((k, v) # fs)) k = json_field_of v"
  "k' \<noteq> k \<Longrightarrow> js_get (fields ((k, v) # fs)) k' = js_get (fields fs) k'"
proof -
  show "js_get (fields []) k = JUndefined" by (simp add: fields_def List.map_filter_simps)
  show "k' \<noteq> k \<Longrightarrow> js_get (fields ((k, v) # fs)) k' = js_get (fields fs) k'"
    by (simp add: fields_def List.map_filter_simps split: option.split)
  have "map_of (List.map_filter (\<lambda>(k, v). map_option (Pair k) v) fs) k = None" if "k \<notin> fst ` set fs"
    using that by (induction fs) (auto simp: List.map_filter_simps split: option.splits)
  then show "k \<notin> fst ` set fs \<Longrightarrow> js_get (fields ((k, v) # fs)) k = json_field_of v"
    by (cases v) (simp_all add: fields_def List.map_filter_simps)
qed

lemma fields_shape [simp]: "is_object (fields fs)" "is_nullish (fields fs) = False"
  by (simp_all add: fields_def)

lemma str_of_opt [simp]: "str_of (json_field_of (map_option JStr x)) = x"
  by (cases x) simp_all

lemma bool_of_opt [simp]: "bool_of (json_field_of (map_option JBool x)) = x"
  by (cases x) simp_all

lemma parse_attachment_json [simp]: "parseAttachment (attachment_json a) = a"
  by (simp add: parseAttachment_def attachment_json_def)

lemma parse_attachments_json:
  "\<forall>a \<in> set as. att_url a \<noteq> [] \<Longrightarrow> parseAttachments (JArr (map attachment_json as)) = Some as"
  by (simp add: parseAttachments_def filter_map comp_def)
     (simp add: attachment_json_def filter_id_conv map_idI)

lemma parse_embed_json [simp]: "parseEmbed (embed_json e) = e"
  by (cases e) (simp add: parseEmbed_def embed_json_def)

lemma parse_embeds_json:
  "\<forall>e \<in> set es. lp_url e \<noteq> [] \<Longrightarrow> parseEmbeds (JArr (map embed_json es)) = es"
  by (simp add: parseEmbeds_def filter_map comp_def)
     (simp add: embed_json_def filter_id_conv)

lemma reply_preview_json [simp]: "reply_preview_of (reply_json r) (rp_message_id r) = r"
  by (cases r) (simp add: reply_preview_of_def reply_json_def)

lemma map_filter_num [simp]: "List.map_filter num_of (map JNum is) = is"
  by (induction "is") (simp_all add: List.map_filter_simps)

lemma message_round_trip:
  assumes "wire_ok m"
  shows "toMessage now (message_json m) = Some m"
proof -
  have att: "parseAttachments (js_get (message_json m) ''attachments'') = m_attachments m"
    using assms by (cases "m_attachments m") (simp_all add: message_json_def wire_ok_def parse_attachments_json,
      simp add: parseAttachments_def)
  have emb: "parseEmbeds (js_get (message_json m) ''embeds'') = m_embeds m"
    using assms by (cases "m_embeds m = []") (simp_all add: message_json_def wire_ok_def parse_embeds_json, simp add: parseEmbeds_def)
  have rid: "reply_to_id_of (message_json m) = m_reply_to_id m"
    using assms by (cases "m_reply_to_id m") (simp_all add: reply_to_id_of_def message_json_def wire_ok_def)
  have rep: "reply_to_of (message_json m) = m_reply_to m"
  proof (cases "m_reply_to m")
    case (Val r)
    then have g: "js_get (message_json m) ''reply_to'' = reply_json r" by (simp add: message_json_def)
    have i: "js_get (reply_json r) ''message_id'' = JNum (rp_message_id r)" by (simp add: reply_json_def)
    have n: "is_nullish (reply_json r) = False" by (simp add: reply_json_def)
    show ?thesis by (simp add: reply_to_of_def Let_def g i n Val)
  qed (use assms rid in \<open>simp_all add: reply_to_of_def message_json_def wire_ok_def\<close>)
  have men: "mentions_of (message_json m) = m_mentions m"
    by (cases "m_mentions m") (simp_all add: mentions_of_def message_json_def)
  have fst: "author_first_name_of (message_json m) = m_author_first_name m"
    and lst: "author_last_name_of (message_json m) = m_author_last_name m"
    and nick: "author_nickname_of (message_json m) = m_author_nickname m"
    using assms by (auto simp: author_first_name_of_def author_last_name_of_def author_nickname_of_def
        message_json_def wire_ok_def string_or_false_def nullish_or_empty_def is_string_iff omit_if_def)
  have ava: "author_avatar_url_of (message_json m) = m_author_avatar_url m"
    by (cases "m_author_avatar_url m = []") (simp_all add: author_avatar_url_of_def message_json_def string_or_false_def)
  show ?thesis
    unfolding toMessage_def att emb rid rep men fst lst nick ava
    by (simp add: message_json_def)
qed

definition page_json :: "Message list \<Rightarrow> string \<Rightarrow> bool \<Rightarrow> jsval" where
  "page_json ms cursor hasMore = JObj [(''messages'', JArr (map message_json ms)),
     (''next_cursor'', JStr cursor), (''has_more'', JBool hasMore)]"

definition server_json :: "Server \<Rightarrow> jsval" where
  "server_json s = JObj [(''id'', JNum (srv_id s)), (''name'', JStr (srv_name s)),
     (''owner_id'', JNum (srv_owner_id s))]"

definition sample_message :: Message where
  "sample_message = \<lparr>m_id = 5, m_channel_id = 3, m_author_id = 9, m_author_first_name = JStr ''Ann'',
     m_author_last_name = JStr ''Bee'', m_author_nickname = JStr [], m_author_avatar_url = [],
     m_content = ''hi'', m_attachments = Some [\<lparr>att_url = ''u'', att_file_name = ''f'', att_content_type = ''t''\<rparr>],
     m_reply_to_id = Val 2, m_reply_to = Absent, m_mentions = Some [4], m_mentions_everyone = None,
     m_embeds = [], m_created_at = ''2026'', m_edited_at = None\<rparr>"

lemma page_round_trip:
  assumes "\<forall>m \<in> set ms. wire_ok m"
  shows "collect (toMessage now) (JArr (map message_json ms)) = ms"
  using assms by (induction ms) (simp_all add: collect_def List.map_filter_simps message_round_trip)


section \<open>Properties\<close>



text \<open>Opening a direct message. On an open socket with nothing to send, \<^verbatim>\<open>openDM(peer)\<close> writes one
  \<open>open_dm\<close> frame and waits; a \<open>dm_opened\<close> event for another peer leaves it waiting, and the one for this
  peer settles exactly this call with a payload from which \<^verbatim>\<open>openDM\<close> returns that channel.\<close>

theorem openDM_completes:
  assumes "isOpen s" and "pending s = None" and "queue s = []" and "toDMChannel d = Some dm"
  shows "let r = openDM q peer s;
             e = onmessage now (Some (JObj [(''event'', JStr ''dm_opened''), (''data'', d)])) (fst r)
         in [f. SendCommandFrame _ f \<leftarrow> snd r] = [command_frame ''open_dm'' (JObj [(''peer_user_id'', JNum peer)])
               (request_id (nextRequestId s))]
          \<and> (if dm_peer_user_id dm = peer
             then pending (fst e) = None \<and> Resolve q d \<in> set (snd e) \<and> openDM_ack d = Inr dm
             else fst e = fst r)"
proof -
  let ?e = "server_event (JObj [(''event'', JStr ''dm_opened''), (''data'', d)])"
  have e: "ev_event ?e = ''dm_opened''" "ev_data ?e = d" by (simp_all add: server_event_def)
  have none: "listener_events now ?e = None"
    using e by (simp add: listener_events_def message_events_def voice_events_def typing_events_def sfu_events_def)
  have m: "onmessage now (Some (JObj [(''event'', JStr ''dm_opened''), (''data'', d)])) u = dm_opened d u" for u
    using e none by (simp add: onmessage_def Let_def reply_event_def)
  define r where "r = openDM q peer s"
  have r: "pending (fst r) = Some \<lparr> pc_action = ''open_dm'', pc_requestId = request_id (nextRequestId s),
      pc_promise = q, pc_timeoutId = nextHandle s, pc_openDMPeerUserId = Some peer \<rparr>" "queue (fst r) = []"
    "snd r = [SetTimer (nextHandle s) COMMAND_TIMEOUT_MS,
      SendCommandFrame q (command_frame ''open_dm'' (JObj [(''peer_user_id'', JNum peer)]) (request_id (nextRequestId s)))]"
    using assms by (simp_all add: r_def openDM_def sendCommand_def flushQueue_def isOpen_def peer_of_command_def Let_def)
  show ?thesis unfolding m Let_def r_def [symmetric] using assms(4) r
    by (auto simp: dm_opened_def deliver_def pending_action_def resolve_and_flush_def resolve_pending_def and_then_def
        flushQueue_def openDM_ack_def Let_def split: prod.split)
qed

theorem openDM_completes_witness:
  "let s = fst (exec_run (\<lambda>s w. ws_onopen w s) (fst (connect (Inr ''ws'') new_socket)) [0]);
       d = JObj [(''channel_id'', JNum 3), (''peer_user_id'', JNum 4)];
       e = onmessage [] (Some (JObj [(''event'', JStr ''dm_opened''), (''data'', d)])) (fst (openDM 7 4 s))
   in pending (fst e) = None \<and> Resolve 7 d \<in> set (snd e)"
proof -
  let ?s = "fst (exec_run (\<lambda>s w. ws_onopen w s) (fst (connect (Inr ''ws'') new_socket)) [0])"
  let ?d = "JObj [(''channel_id'', JNum 3), (''peer_user_id'', JNum 4)]"
  have h: "isOpen ?s" "pending ?s = None" "queue ?s = []" by code_simp+
  have d: "toDMChannel ?d = Some \<lparr>dm_channel_id = 3, dm_peer_user_id = 4, dm_peer_nickname = [],
      dm_peer_avatar_url = None, dm_last_message_at = None\<rparr>"
    by (simp add: toDMChannel_def)
  show ?thesis using openDM_completes [OF h d, of 7 4 "[]"] by (simp add: Let_def)
qed

text \<open>A list reply is all or nothing. \<^verbatim>\<open>getServers\<close> throws exactly when the \<open>servers\<close> array holds a
  \<open>null\<close>; otherwise it returns, in order, the entries with an id, a name and an owner, and nothing else,
  so that the list the server encodes comes back as it was.\<close>

theorem getServers_total:
  "(getServers_ack payload = Inl PropertyOfNullish
     \<longleftrightarrow> (\<exists>items. js_get payload ''servers'' = JArr items \<and> (\<exists>v \<in> set items. is_nullish v)))
   \<and> (\<forall>e. getServers_ack payload = Inl e \<longrightarrow> e = PropertyOfNullish)
   \<and> (\<forall>ss. getServers_ack payload = Inr ss \<longrightarrow> set ss = {x. \<exists>items v. js_get payload ''servers'' = JArr items
        \<and> v \<in> set items \<and> js_get v ''id'' = JNum (srv_id x) \<and> js_get v ''name'' = JStr (srv_name x)
        \<and> js_get v ''owner_id'' = JNum (srv_owner_id x)})
   \<and> getServers_ack (JObj [(''servers'', JArr (map server_json ts))]) = Inr ts"
proof -
  have iff: "server_of v = Some x \<longleftrightarrow> js_get v ''id'' = JNum (srv_id x) \<and> js_get v ''name'' = JStr (srv_name x)
      \<and> js_get v ''owner_id'' = JNum (srv_owner_id x)" for v x
    by (cases x) (auto simp: server_of_def split: option.splits)
  have rt: "List.map_filter server_of (map server_json ts) = ts"
    by (induction ts) (auto simp: List.map_filter_simps server_json_def server_of_def)
  have nn: "\<not> (\<exists>v \<in> set (map server_json ts). is_nullish v)" by (auto simp: server_json_def)
  have "getServers_ack (JObj [(''servers'', JArr (map server_json ts))]) = Inr ts"
    using nn rt by (simp add: getServers_ack_def collect_plain_def)
  then show ?thesis
    by (cases "js_get payload ''servers''")
      (auto simp: getServers_ack_def collect_plain_def map_filter_def iff image_iff, (metis iff option.sel)+)
qed

theorem getServers_total_witness:
  "getServers_ack (JObj [(''servers'', JArr [JNull])]) = Inl PropertyOfNullish"
  using getServers_total [of "JObj [(''servers'', JArr [JNull])]" "[]"] by simp

end
