(* ===== verification/Quality.thy ===== *)
theory Quality
  imports Prelude
begin

text \<open>
  Connection quality (\<^verbatim>\<open>services/connectionQuality.ts\<close>): one sample of a peer connection's statistics,
  the level it measures, the hysteresis between samples, the text shown and the signature of a
  snapshot. Numbers are rationals: the model has no rounding of doubles and no \<open>-0\<close>; a number that is
  not finite is \<open>SNonFinite\<close>. Display text is UTF-8, so the ellipsis is three characters.
\<close>

section \<open>Levels and metrics\<close>

datatype MeasuredLevel = Good | Medium | Bad

datatype QualityLevel = Measured MeasuredLevel | Connecting | Disconnected

datatype QualityDirection = Inbound | Outbound

record QualityMetrics =
  rttMs :: "rat option"
  inboundLossPercent :: "rat option"
  inboundJitterMs :: "rat option"
  outboundLossPercent :: "rat option"
  outboundJitterMs :: "rat option"

record PeerQuality =
  pq_level :: QualityLevel
  pq_metrics :: QualityMetrics
  pq_direction :: "QualityDirection option"
  pq_title :: string
  pq_ariaLabel :: string

definition EMPTY_METRICS :: QualityMetrics where
  "EMPTY_METRICS = \<lparr>rttMs = None, inboundLossPercent = None, inboundJitterMs = None,
     outboundLossPercent = None, outboundJitterMs = None\<rparr>"

definition RTT_MEDIUM_MS :: rat where "RTT_MEDIUM_MS = 200"
definition RTT_BAD_MS :: rat where "RTT_BAD_MS = 400"
definition LOSS_MEDIUM_PERCENT :: rat where "LOSS_MEDIUM_PERCENT = 2"
definition LOSS_BAD_PERCENT :: rat where "LOSS_BAD_PERCENT = 8"
definition JITTER_MEDIUM_MS :: rat where "JITTER_MEDIUM_MS = 30"
definition JITTER_BAD_MS :: rat where "JITTER_BAD_MS = 80"
definition MIN_PACKETS_FOR_LOSS :: rat where "MIN_PACKETS_FOR_LOSS = 20"
definition RECOVERY_SAMPLES :: nat where "RECOVERY_SAMPLES = 2"

fun rank_of :: "MeasuredLevel \<Rightarrow> nat" where
  "rank_of Good = 0"
| "rank_of Medium = 1"
| "rank_of Bad = 2"

fun rankOf :: "QualityLevel \<Rightarrow> int" where
  "rankOf (Measured m) = int (rank_of m)"
| "rankOf _ = -1"

instantiation MeasuredLevel :: linorder
begin

definition less_eq_MeasuredLevel :: "MeasuredLevel \<Rightarrow> MeasuredLevel \<Rightarrow> bool" where
  "less_eq_MeasuredLevel a b = (rank_of a \<le> rank_of b)"

definition less_MeasuredLevel :: "MeasuredLevel \<Rightarrow> MeasuredLevel \<Rightarrow> bool" where
  "less_MeasuredLevel a b = (rank_of a < rank_of b)"

instance
proof
  fix a b :: MeasuredLevel
  show "a \<le> b \<Longrightarrow> b \<le> a \<Longrightarrow> a = b"
    by (cases a; cases b) (simp_all add: less_eq_MeasuredLevel_def)
qed (auto simp: less_eq_MeasuredLevel_def less_MeasuredLevel_def)

end

section \<open>Reading the statistics\<close>

datatype stat_val = SNum rat | SNonFinite | SStr string | SBool bool | SOther

type_synonym RawStat = "(string \<times> stat_val) list"

definition stat_num :: "RawStat \<Rightarrow> string \<Rightarrow> rat option" where
  "stat_num s k = (case map_of s k of Some (SNum x) \<Rightarrow> Some x | _ \<Rightarrow> None)"

definition stat_str :: "RawStat \<Rightarrow> string \<Rightarrow> string option" where
  "stat_str s k = (case map_of s k of Some (SStr x) \<Rightarrow> (if x \<noteq> [] then Some x else None) | _ \<Rightarrow> None)"

definition stat_is :: "RawStat \<Rightarrow> string \<Rightarrow> stat_val \<Rightarrow> bool" where
  "stat_is s k v \<longleftrightarrow> map_of s k = Some v"

definition classify :: "rat option \<Rightarrow> rat \<Rightarrow> rat \<Rightarrow> MeasuredLevel option" where
  "classify value mediumAt badAt = (case value of
     None \<Rightarrow> None
   | Some v \<Rightarrow> Some (if badAt \<le> v then Bad else if mediumAt \<le> v then Medium else Good))"

definition worse_level :: "MeasuredLevel option \<Rightarrow> MeasuredLevel option \<Rightarrow> MeasuredLevel option" where
  "worse_level result level = (case level of
     None \<Rightarrow> result
   | Some l \<Rightarrow> (case result of
       None \<Rightarrow> Some l
     | Some r \<Rightarrow> if rank_of r < rank_of l then Some l else Some r))"

definition worstLevel :: "MeasuredLevel option list \<Rightarrow> MeasuredLevel option" where
  "worstLevel levels = foldl worse_level None levels"

definition worstNumber :: "rat option \<Rightarrow> rat option \<Rightarrow> rat option" where
  "worstNumber current candidate = (case candidate of
     None \<Rightarrow> current
   | Some c \<Rightarrow> (case current of None \<Rightarrow> Some c | Some v \<Rightarrow> Some (max v c)))"

definition lossPercent :: "rat \<Rightarrow> rat \<Rightarrow> rat option" where
  "lossPercent deltaLost deltaTotal =
     (if deltaTotal < MIN_PACKETS_FOR_LOSS then None
      else Some (min 100 (max 0 (deltaLost / deltaTotal * 100))))"

definition selected_pair_id :: "RawStat list \<Rightarrow> string option" where
  "selected_pair_id stats = foldl (\<lambda>acc s.
     if stat_is s ''type'' (SStr ''transport'')
     then (case stat_str s ''selectedCandidatePairId'' of Some i \<Rightarrow> Some i | None \<Rightarrow> acc) else acc) None stats"

definition is_fallback_pair :: "RawStat \<Rightarrow> bool" where
  "is_fallback_pair s \<longleftrightarrow> stat_is s ''selected'' (SBool True)
     \<or> stat_is s ''nominated'' (SBool True) \<and> stat_is s ''state'' (SStr ''succeeded'')"

fun pick_pair :: "string option \<Rightarrow> RawStat option \<Rightarrow> RawStat list \<Rightarrow> RawStat option" where
  "pick_pair sel fallback [] = fallback"
| "pick_pair sel fallback (s # ss) =
     (if \<not> stat_is s ''type'' (SStr ''candidate-pair'') then pick_pair sel fallback ss
      else if sel \<noteq> None \<and> stat_str s ''id'' = sel then Some s
      else pick_pair sel (if fallback = None \<and> is_fallback_pair s then Some s else fallback) ss)"

definition readRoundTripTimeMs :: "RawStat list \<Rightarrow> rat option" where
  "readRoundTripTimeMs stats = (case pick_pair (selected_pair_id stats) None stats of
     None \<Rightarrow> None
   | Some pair \<Rightarrow> map_option (\<lambda>s. s * 1000) (stat_num pair ''currentRoundTripTime''))"

record InboundCount =
  ic_received :: rat
  ic_lost :: rat

record RemoteCount =
  rc_lost :: rat
  rc_sent :: rat

record QualityTracker =
  qt_inbound :: "(string \<times> InboundCount) list"
  qt_remote :: "(string \<times> RemoteCount) list"
  qt_level :: QualityLevel
  qt_pendingLevel :: "MeasuredLevel option"
  qt_pendingCount :: nat

definition createQualityTracker :: QualityTracker where
  "createQualityTracker = \<lparr>qt_inbound = [], qt_remote = [], qt_level = Connecting,
     qt_pendingLevel = None, qt_pendingCount = 0\<rparr>"

definition packets_sent_by_id :: "RawStat list \<Rightarrow> (string \<times> rat) list" where
  "packets_sent_by_id stats = foldl (\<lambda>m s.
     if stat_is s ''type'' (SStr ''outbound-rtp'') then
       (case (stat_str s ''id'', stat_num s ''packetsSent'') of
          (Some i, Some n) \<Rightarrow> map_set i n m | _ \<Rightarrow> m)
     else m) [] stats"

definition num0 :: "rat option \<Rightarrow> rat" where
  "num0 x = (case x of Some n \<Rightarrow> n | None \<Rightarrow> 0)"

record quality_pass =
  qp_metrics :: QualityMetrics
  qp_inbound :: "(string \<times> InboundCount) list"
  qp_remote :: "(string \<times> RemoteCount) list"

definition jitter_ms :: "RawStat \<Rightarrow> rat option" where
  "jitter_ms s = map_option (\<lambda>j. j * 1000) (stat_num s ''jitter'')"

definition inbound_loss :: "InboundCount option \<Rightarrow> InboundCount \<Rightarrow> rat option" where
  "inbound_loss previous c = (case previous of
     None \<Rightarrow> None
   | Some p \<Rightarrow>
       (let deltaReceived = max 0 (ic_received c - ic_received p);
            deltaLost = max 0 (ic_lost c - ic_lost p)
        in lossPercent deltaLost (deltaLost + deltaReceived)))"

definition inbound_stat :: "QualityTracker \<Rightarrow> string \<Rightarrow> RawStat \<Rightarrow> quality_pass \<Rightarrow> quality_pass" where
  "inbound_stat tracker i s q =
     (let c = \<lparr>ic_received = num0 (stat_num s ''packetsReceived''),
               ic_lost = max 0 (num0 (stat_num s ''packetsLost''))\<rparr>;
          m = qp_metrics q
      in q\<lparr>qp_inbound := map_set i c (qp_inbound q),
           qp_metrics := m\<lparr>
             inboundLossPercent := worstNumber (inboundLossPercent m) (inbound_loss (map_get (qt_inbound tracker) i) c),
             inboundJitterMs := worstNumber (inboundJitterMs m) (jitter_ms s)\<rparr>\<rparr>)"

definition outbound_loss :: "RemoteCount option \<Rightarrow> RemoteCount \<Rightarrow> RawStat \<Rightarrow> rat option" where
  "outbound_loss previous c s = (case previous of
     None \<Rightarrow> None
   | Some p \<Rightarrow>
       (case lossPercent (max 0 (rc_lost c - rc_lost p)) (max 0 (rc_sent c - rc_sent p)) of
          Some x \<Rightarrow> Some x
        | None \<Rightarrow> map_option (\<lambda>f. f * 100) (stat_num s ''fractionLost'')))"

definition remote_stat :: "QualityTracker \<Rightarrow> (string \<times> rat) list \<Rightarrow> string \<Rightarrow> RawStat \<Rightarrow> quality_pass \<Rightarrow>
    quality_pass" where
  "remote_stat tracker sentById i s q =
     (let c = \<lparr>rc_lost = max 0 (num0 (stat_num s ''packetsLost'')),
               rc_sent = (case stat_str s ''localId'' of
                  Some l \<Rightarrow> num0 (map_get sentById l) | None \<Rightarrow> 0)\<rparr>;
          m = qp_metrics q
      in q\<lparr>qp_remote := map_set i c (qp_remote q),
           qp_metrics := m\<lparr>
             outboundLossPercent := worstNumber (outboundLossPercent m)
               (outbound_loss (map_get (qt_remote tracker) i) c s),
             outboundJitterMs := worstNumber (outboundJitterMs m) (jitter_ms s),
             rttMs := (case rttMs m of
                Some r \<Rightarrow> Some r
              | None \<Rightarrow> map_option (\<lambda>r. r * 1000) (stat_num s ''roundTripTime''))\<rparr>\<rparr>)"

definition sample_stat :: "QualityTracker \<Rightarrow> (string \<times> rat) list \<Rightarrow> quality_pass \<Rightarrow> RawStat \<Rightarrow> quality_pass" where
  "sample_stat tracker sentById q s = (case stat_str s ''id'' of
     None \<Rightarrow> q
   | Some i \<Rightarrow>
       (if stat_is s ''type'' (SStr ''inbound-rtp'') then inbound_stat tracker i s q
        else if stat_is s ''type'' (SStr ''remote-inbound-rtp'') then remote_stat tracker sentById i s q
        else q))"

fun pickDirection :: "MeasuredLevel option \<Rightarrow> MeasuredLevel option \<Rightarrow> QualityDirection option" where
  "pickDirection (Some i) (Some u) =
     (if rank_of u < rank_of i then Some Inbound else if rank_of i < rank_of u then Some Outbound else None)"
| "pickDirection (Some i) None = (if i \<noteq> Good then Some Inbound else None)"
| "pickDirection None (Some u) = (if u \<noteq> Good then Some Outbound else None)"
| "pickDirection None None = None"

definition inbound_level :: "QualityMetrics \<Rightarrow> MeasuredLevel option" where
  "inbound_level m = worstLevel [classify (inboundLossPercent m) LOSS_MEDIUM_PERCENT LOSS_BAD_PERCENT,
     classify (inboundJitterMs m) JITTER_MEDIUM_MS JITTER_BAD_MS]"

definition outbound_level :: "QualityMetrics \<Rightarrow> MeasuredLevel option" where
  "outbound_level m = worstLevel [classify (outboundLossPercent m) LOSS_MEDIUM_PERCENT LOSS_BAD_PERCENT,
     classify (outboundJitterMs m) JITTER_MEDIUM_MS JITTER_BAD_MS]"

definition sample_pass :: "RawStat list \<Rightarrow> QualityTracker \<Rightarrow> quality_pass" where
  "sample_pass stats tracker = foldl (sample_stat tracker (packets_sent_by_id stats))
     \<lparr>qp_metrics = EMPTY_METRICS\<lparr>rttMs := readRoundTripTimeMs stats\<rparr>, qp_inbound = [], qp_remote = []\<rparr> stats"

definition readQualitySample :: "RawStat list \<Rightarrow> QualityTracker \<Rightarrow>
    QualityTracker \<times> QualityMetrics \<times> MeasuredLevel option \<times> QualityDirection option" where
  "readQualitySample stats tracker =
     (let q = sample_pass stats tracker; m = qp_metrics q
      in (tracker\<lparr>qt_inbound := qp_inbound q, qt_remote := qp_remote q\<rparr>, m,
          worstLevel [inbound_level m, outbound_level m, classify (rttMs m) RTT_MEDIUM_MS RTT_BAD_MS],
          pickDirection (inbound_level m) (outbound_level m)))"

section \<open>Hysteresis\<close>

definition settle_level :: "QualityLevel \<Rightarrow> QualityTracker \<Rightarrow> QualityTracker \<times> QualityLevel" where
  "settle_level l tracker = (tracker\<lparr>qt_level := l, qt_pendingLevel := None, qt_pendingCount := 0\<rparr>, l)"

definition applyHysteresis :: "QualityTracker \<Rightarrow> QualityLevel \<Rightarrow> QualityTracker \<times> QualityLevel" where
  "applyHysteresis tracker candidate = (case candidate of
     Measured m \<Rightarrow>
       (let current = qt_level tracker
        in if current = Connecting \<or> current = Disconnected \<or> rankOf current \<le> rankOf candidate
           then settle_level candidate tracker
           else let t = (if qt_pendingLevel tracker = Some m
                         then tracker\<lparr>qt_pendingCount := qt_pendingCount tracker + 1\<rparr>
                         else tracker\<lparr>qt_pendingLevel := Some m, qt_pendingCount := 1\<rparr>)
                in if RECOVERY_SAMPLES \<le> qt_pendingCount t then settle_level candidate t else (t, current))
   | _ \<Rightarrow> settle_level candidate tracker)"

section \<open>Text, aggregate and signature\<close>

definition ELLIPSIS :: string where
  "ELLIPSIS = [CHR 0xE2, CHR 0x80, CHR 0xA6]"

definition MIDDLE_DOT :: string where
  "MIDDLE_DOT = [CHR 0x20, CHR 0xC2, CHR 0xB7, CHR 0x20]"

fun PEER_LEVEL_TEXT :: "QualityLevel \<Rightarrow> string" where
  "PEER_LEVEL_TEXT (Measured Good) = ''Good connection''"
| "PEER_LEVEL_TEXT (Measured Medium) = ''Unstable connection''"
| "PEER_LEVEL_TEXT (Measured Bad) = ''Poor connection''"
| "PEER_LEVEL_TEXT Connecting = ''Connecting'' @ ELLIPSIS"
| "PEER_LEVEL_TEXT Disconnected = ''Connection lost''"

fun SELF_LEVEL_TEXT :: "QualityLevel \<Rightarrow> string" where
  "SELF_LEVEL_TEXT (Measured Good) = ''Your connection is good''"
| "SELF_LEVEL_TEXT (Measured Medium) = ''Your connection is unstable''"
| "SELF_LEVEL_TEXT (Measured Bad) = ''Your connection is poor''"
| "SELF_LEVEL_TEXT Connecting = ''Connecting'' @ ELLIPSIS"
| "SELF_LEVEL_TEXT Disconnected = ''Connection lost''"

datatype quality_scope = PeerScope | SelfScope

text \<open>\<open>Math.round\<close> rounds half up; \<open>toFixed(1)\<close> does so on the magnitude.\<close>

definition math_round :: "rat \<Rightarrow> int" where
  "math_round x = \<lfloor>x + 1 / 2\<rfloor>"

definition to_fixed_1 :: "rat \<Rightarrow> string" where
  "to_fixed_1 x = (let n = \<lfloor>\<bar>x\<bar> * 10 + 1 / 2\<rfloor>
     in (if x < 0 then ''-'' else []) @ show_int (n div 10) @ ''.'' @ show_int (n mod 10))"

fun join_with :: "string \<Rightarrow> string list \<Rightarrow> string" where
  "join_with sep [] = []"
| "join_with sep [x] = x"
| "join_with sep (x # y # xs) = x @ sep @ join_with sep (y # xs)"

definition quality_parts :: "QualityLevel \<Rightarrow> QualityMetrics \<Rightarrow> QualityDirection option \<Rightarrow> string \<Rightarrow> string list" where
  "quality_parts level m direction headline =
     [headline]
     @ (case rttMs m of Some r \<Rightarrow> [''ping '' @ show_int (math_round r) @ '' ms''] | None \<Rightarrow> [])
     @ (case worstNumber (inboundLossPercent m) (outboundLossPercent m) of
          Some l \<Rightarrow> [''loss '' @ to_fixed_1 l @ ''%''] | None \<Rightarrow> [])
     @ (case worstNumber (inboundJitterMs m) (outboundJitterMs m) of
          Some j \<Rightarrow> [''jitter '' @ show_int (math_round j) @ '' ms''] | None \<Rightarrow> [])
     @ (case direction of
          Some d \<Rightarrow> (if level \<noteq> Measured Good \<and> level \<noteq> Connecting
             then [if d = Outbound then ''upload problem'' else ''download problem''] else [])
        | None \<Rightarrow> [])"

definition buildQuality :: "QualityLevel \<Rightarrow> QualityMetrics \<Rightarrow> QualityDirection option \<Rightarrow> quality_scope \<Rightarrow>
    PeerQuality" where
  "buildQuality level m direction scope =
     (let headline = (if scope = SelfScope then SELF_LEVEL_TEXT level else PEER_LEVEL_TEXT level)
      in \<lparr>pq_level = level, pq_metrics = m, pq_direction = direction,
          pq_title = join_with MIDDLE_DOT (quality_parts level m direction headline), pq_ariaLabel = headline\<rparr>)"

definition worse_item :: "PeerQuality option \<times> bool \<Rightarrow> PeerQuality \<Rightarrow> PeerQuality option \<times> bool" where
  "worse_item acc item =
     (let (worst, hasConnecting) = acc
      in if pq_level item = Connecting then (worst, True)
         else if pq_level item = Disconnected then acc
         else case worst of
           None \<Rightarrow> (Some item, hasConnecting)
         | Some w \<Rightarrow> (if rankOf (pq_level w) < rankOf (pq_level item) then Some item else Some w, hasConnecting))"

definition aggregateQuality :: "PeerQuality list \<Rightarrow> PeerQuality option" where
  "aggregateQuality items =
     (if items = [] then None
      else let (worst, hasConnecting) = foldl worse_item (None, False) items
           in Some (case worst of
                Some w \<Rightarrow> buildQuality (pq_level w) (pq_metrics w) (pq_direction w) SelfScope
              | None \<Rightarrow> buildQuality (if hasConnecting then Connecting else Disconnected) EMPTY_METRICS None SelfScope))"

definition bucket :: "rat option \<Rightarrow> rat \<Rightarrow> string" where
  "bucket value step = (case value of None \<Rightarrow> ''-'' | Some v \<Rightarrow> show_int (math_round (v / step)))"

fun level_name :: "QualityLevel \<Rightarrow> string" where
  "level_name (Measured Good) = ''good''"
| "level_name (Measured Medium) = ''medium''"
| "level_name (Measured Bad) = ''bad''"
| "level_name Connecting = ''connecting''"
| "level_name Disconnected = ''disconnected''"

definition direction_name :: "QualityDirection option \<Rightarrow> string" where
  "direction_name d = (case d of None \<Rightarrow> ''-'' | Some Inbound \<Rightarrow> ''inbound'' | Some Outbound \<Rightarrow> ''outbound'')"

definition signature_fields :: "int \<Rightarrow> PeerQuality \<Rightarrow> string list" where
  "signature_fields userID item = (let m = pq_metrics item in
     [show_int userID, level_name (pq_level item), bucket (rttMs m) 25,
      bucket (worstNumber (inboundLossPercent m) (outboundLossPercent m)) (1 / 2),
      bucket (worstNumber (inboundJitterMs m) (outboundJitterMs m)) 5,
      direction_name (pq_direction item)])"

definition qualitySignature :: "PeerQuality record_map \<Rightarrow> string" where
  "qualitySignature snapshot = join_with ''|''
     (map (\<lambda>u. join_with '':'' (signature_fields u (the (map_of snapshot u)))) (sort (map_keys snapshot)))"

text \<open>\<open>raw\<close> is what \<open>localStorage.getItem\<close> returns; \<open>Inl\<close> when storage throws.\<close>

definition readForcedLevel :: "unit + string option \<Rightarrow> QualityLevel option" where
  "readForcedLevel raw = (case raw of
     Inr (Some r) \<Rightarrow>
       (if r = ''good'' then Some (Measured Good) else if r = ''medium'' then Some (Measured Medium)
        else if r = ''bad'' then Some (Measured Bad) else if r = ''connecting'' then Some Connecting
        else if r = ''disconnected'' then Some Disconnected else None)
   | _ \<Rightarrow> None)"

end
