(* ===== verification/QualityProps.thy ===== *)
theory QualityProps
  imports Quality
begin

text \<open>
  The properties of \<^verbatim>\<open>services/connectionQuality.ts\<close>. Choosing the worst of many values is the locale
  \<open>worst_of\<close>, interpreted by \<^verbatim>\<open>worstLevel\<close> on levels and by \<^verbatim>\<open>worstNumber\<close> on numbers.
\<close>

section \<open>The worst of many\<close>

locale worst_of =
  fixes worse :: "'a option \<Rightarrow> 'a option \<Rightarrow> 'a option" and le :: "'a \<Rightarrow> 'a \<Rightarrow> bool"
  assumes worse_none: "worse r None = r"
    and worse_first: "worse None (Some x) = Some x"
    and worse_some: "\<exists>c. worse (Some a) (Some b) = Some c \<and> (c = a \<or> c = b) \<and> le a c \<and> le b c"
    and le_refl: "le a a"
    and le_trans: "le a b \<Longrightarrow> le b c \<Longrightarrow> le a c"
begin

lemma fold_from_some:
  "\<exists>w. foldl worse (Some a) xs = Some w \<and> le a w \<and> (w = a \<or> Some w \<in> set xs) \<and> (\<forall>x. Some x \<in> set xs \<longrightarrow> le x w)"
proof (induction xs arbitrary: a)
  case (Cons y ys)
  show ?case
  proof (cases y)
    case None
    then show ?thesis using Cons.IH [of a] by (auto simp: worse_none)
  next
    case (Some b)
    obtain c where c: "worse (Some a) (Some b) = Some c" "c = a \<or> c = b" "le a c" "le b c"
      using worse_some by blast
    obtain w where w: "foldl worse (Some c) ys = Some w" "le c w" "w = c \<or> Some w \<in> set ys"
      "\<forall>x. Some x \<in> set ys \<longrightarrow> le x w" using Cons.IH [of c] by blast
    have "le a w" and "le b w" using c w(2) le_trans by blast+
    with w c Some show ?thesis by auto
  qed
qed (simp add: le_refl)

lemma fold_none: "foldl worse None xs = None \<longleftrightarrow> (\<forall>x \<in> set xs. x = None)"
proof (induction xs)
  case (Cons y ys)
  show ?case
  proof (cases y)
    case (Some b)
    then show ?thesis using fold_from_some [of b ys] by (auto simp: worse_first)
  qed (use Cons in \<open>simp add: worse_none\<close>)
qed simp

lemma fold_worst:
  "foldl worse None xs = Some w \<Longrightarrow> Some w \<in> set xs \<and> (\<forall>x. Some x \<in> set xs \<longrightarrow> le x w)"
proof (induction xs)
  case (Cons y ys)
  show ?case
  proof (cases y)
    case None
    with Cons show ?thesis by (auto simp: worse_none)
  next
    case (Some b)
    with Cons.prems have "foldl worse (Some b) ys = Some w" by (simp add: worse_first)
    with fold_from_some [of b ys] Some show ?thesis by auto
  qed
qed simp

end

interpretation levels: worst_of worse_level "(\<le>)"
  by unfold_locales (auto simp: worse_level_def less_eq_MeasuredLevel_def)

interpretation numbers: worst_of worstNumber "(\<le>)"
  by unfold_locales (auto simp: worstNumber_def max_def)

lemma worse_level_assoc [simp]:
  "worse_level a (worse_level b c) = worse_level (worse_level a b) c"
  "worse_level None a = a" "worse_level a None = a"
  by (auto simp: worse_level_def split: option.split)

section \<open>One pass over the statistics\<close>

definition is_inbound :: "RawStat \<Rightarrow> bool" where
  "is_inbound s \<longleftrightarrow> stat_str s ''id'' \<noteq> None \<and> stat_is s ''type'' (SStr ''inbound-rtp'')"

definition inbound_count :: "RawStat \<Rightarrow> InboundCount" where
  "inbound_count s = \<lparr>ic_received = num0 (stat_num s ''packetsReceived''),
     ic_lost = max 0 (num0 (stat_num s ''packetsLost''))\<rparr>"

definition stream_loss :: "QualityTracker \<Rightarrow> RawStat \<Rightarrow> rat option" where
  "stream_loss tracker s = (if is_inbound s
     then inbound_loss (map_get (qt_inbound tracker) (the (stat_str s ''id''))) (inbound_count s) else None)"

lemma loss_range: "lossPercent a b = Some x \<Longrightarrow> 0 \<le> x \<and> x \<le> 100"
  by (auto simp: lossPercent_def split: if_splits)

lemma stream_loss_range: "stream_loss tracker s = Some x \<Longrightarrow> 0 \<le> x \<and> x \<le> 100"
  by (auto simp: stream_loss_def inbound_loss_def Let_def split: option.splits if_splits dest: loss_range)

lemma pass_loss:
  "inboundLossPercent (qp_metrics (foldl (sample_stat tracker sentById) q stats))
    = foldl worstNumber (inboundLossPercent (qp_metrics q)) (map (stream_loss tracker) stats)"
proof (induction stats arbitrary: q)
  case (Cons s ss)
  have "inboundLossPercent (qp_metrics (sample_stat tracker sentById q s))
      = worstNumber (inboundLossPercent (qp_metrics q)) (stream_loss tracker s)"
    by (auto simp: sample_stat_def inbound_stat_def remote_stat_def stream_loss_def is_inbound_def
        inbound_count_def Let_def numbers.worse_none split: option.split)
  with Cons show ?case by simp
qed simp

lemma pass_inbound:
  "map_get (qp_inbound (foldl (sample_stat tracker sentById) q stats)) i
    = foldl (\<lambda>acc s. if is_inbound s \<and> stat_str s ''id'' = Some i then Some (inbound_count s) else acc)
        (map_get (qp_inbound q) i) stats"
proof (induction stats arbitrary: q)
  case (Cons s ss)
  have "map_get (qp_inbound (sample_stat tracker sentById q s)) i
      = (if is_inbound s \<and> stat_str s ''id'' = Some i then Some (inbound_count s) else map_get (qp_inbound q) i)"
    by (auto simp: sample_stat_def inbound_stat_def remote_stat_def is_inbound_def inbound_count_def Let_def
        split: option.split)
  with Cons show ?case by simp
qed simp

section \<open>Joined text\<close>

lemma split_at_sep:
  "c \<notin> set u \<Longrightarrow> c \<notin> set v \<Longrightarrow> u @ c # r = v @ c # t \<longleftrightarrow> u = v \<and> r = t"
proof (induction u arbitrary: v)
  case Nil
  then show ?case by (cases v) auto
next
  case (Cons a u)
  then show ?case by (cases v) auto
qed

lemma join_inject:
  assumes "length xs = length ys" and "\<forall>x \<in> set xs \<union> set ys. c \<notin> set x"
    and "join_with [c] xs = join_with [c] ys"
  shows "xs = ys"
  using assms
proof (induction xs ys rule: list_induct2)
  case (Cons x xs y ys)
  show ?case
  proof (cases xs)
    case Nil
    with Cons show ?thesis by (cases ys) auto
  next
    case (Cons x' xs')
    with \<open>length xs = length ys\<close> obtain y' ys' where ys: "ys = y' # ys'" by (cases ys) auto
    have "x @ c # join_with [c] xs = y @ c # join_with [c] ys" using Cons.prems(2) Cons ys by simp
    then have "x = y" and "join_with [c] xs = join_with [c] ys" using Cons.prems(1) by (simp_all add: split_at_sep)
    with Cons.IH Cons.prems(1) show ?thesis by auto
  qed
qed simp

lemma join_length:
  assumes "\<forall>x \<in> set xs. c \<notin> set x" and "xs \<noteq> []"
  shows "count_list (join_with [c] xs) c + 1 = length xs"
  using assms
proof (induction xs rule: induct_list012)
  case (3 x y zs)
  have "count_list x c = 0" using 3 by (simp add: count_list_0_iff)
  with 3 show ?case by simp
qed (simp_all add: count_list_0_iff)


section \<open>Signatures\<close>

lemma show_int_dash [simp]: "show_int i \<noteq> ''-''"
proof
  assume h: "show_int i = ''-''"
  have "CHR ''-'' \<notin> set (show_nat (nat i))" by (rule show_nat_not_char) simp
  with h show False by (auto simp: show_int_def split: if_splits)
qed

lemma bucket_inject: "bucket v k = bucket w k
    \<longleftrightarrow> map_option (\<lambda>x. math_round (x / k)) v = map_option (\<lambda>x. math_round (x / k)) w"
  by (cases v; cases w) (simp_all add: bucket_def show_int_dash [symmetric])

lemma level_name_inject: "level_name a = level_name b \<longleftrightarrow> a = b"
  by (cases a rule: level_name.cases; cases b rule: level_name.cases) simp_all

lemma direction_name_inject: "direction_name a = direction_name b \<longleftrightarrow> a = b"
  by (auto simp: direction_name_def split: option.splits QualityDirection.splits)

definition separator :: "char \<Rightarrow> bool" where
  "separator c \<longleftrightarrow> c = CHR '':'' \<or> c = CHR ''|''"

lemma show_int_no_sep: "separator c \<Longrightarrow> c \<notin> set (show_int i)"
  by (rule show_int_not_char) (auto simp: separator_def)

lemma level_no_sep: "separator c \<Longrightarrow> c \<notin> set (level_name l)"
  by (cases l rule: level_name.cases) (auto simp: separator_def)

lemma direction_no_sep: "separator c \<Longrightarrow> c \<notin> set (direction_name d)"
  by (auto simp: direction_name_def separator_def split: option.splits QualityDirection.splits)

lemma bucket_no_sep: "separator c \<Longrightarrow> c \<notin> set (bucket v k)"
  by (cases v) (auto simp: bucket_def show_int_no_sep separator_def)

lemma fields_no_sep: "x \<in> set (signature_fields u q) \<Longrightarrow> separator c \<Longrightarrow> c \<notin> set x"
  by (auto simp: signature_fields_def Let_def show_int_no_sep level_no_sep direction_no_sep bucket_no_sep)

lemma join_no_sep: "(\<And>x. x \<in> set xs \<Longrightarrow> c \<notin> set x) \<Longrightarrow> c \<notin> set sep \<Longrightarrow> c \<notin> set (join_with sep xs)"
  by (induction xs rule: induct_list012) auto

lemma entry_inject:
  "join_with '':'' (signature_fields u p) = join_with '':'' (signature_fields v q)
    \<longleftrightarrow> signature_fields u p = signature_fields v q"
proof
  assume "join_with '':'' (signature_fields u p) = join_with '':'' (signature_fields v q)"
  moreover have "\<forall>x \<in> set (signature_fields u p) \<union> set (signature_fields v q). CHR '':'' \<notin> set x"
    using fields_no_sep [of _ _ _ "CHR '':''"] by (auto simp: separator_def)
  moreover have "length (signature_fields u p) = length (signature_fields v q)"
    by (simp add: signature_fields_def Let_def)
  ultimately show "signature_fields u p = signature_fields v q" by (metis join_inject)
qed simp

lemma entry_no_bar: "CHR ''|'' \<notin> set (join_with '':'' (signature_fields u p))"
  by (rule join_no_sep) (auto simp: separator_def dest: fields_no_sep [of _ _ _ "CHR ''|''"])

lemma bars_inject:
  assumes "\<forall>x \<in> set xs \<union> set ys. CHR ''|'' \<notin> set x \<and> x \<noteq> []" and "join_with ''|'' xs = join_with ''|'' ys"
  shows "xs = ys"
proof -
  have ne: "join_with ''|'' zs = [] \<longleftrightarrow> zs = []" if "\<forall>z \<in> set zs. z \<noteq> []" for zs :: "string list"
    using that by (cases zs; cases "tl zs") auto
  show ?thesis
  proof (cases "xs = [] \<or> ys = []")
    case True
    have "join_with ''|'' xs = [] \<longleftrightarrow> xs = []" and "join_with ''|'' ys = [] \<longleftrightarrow> ys = []"
      using assms(1) by (auto intro!: ne)
    with True assms(2) show ?thesis by auto
  next
    case False
    then have "length xs = length ys"
      using join_length [of xs "CHR ''|''"] join_length [of ys "CHR ''|''"] assms by auto
    then show ?thesis using assms by (auto intro: join_inject)
  qed
qed

definition coarse :: "PeerQuality \<Rightarrow> QualityLevel \<times> int option \<times> int option \<times> int option \<times> QualityDirection option" where
  "coarse item = (let m = pq_metrics item;
     rounded = (\<lambda>v k. map_option (\<lambda>x. math_round (x / k)) v) in
     (pq_level item, rounded (rttMs m) 25,
      rounded (worstNumber (inboundLossPercent m) (outboundLossPercent m)) (1 / 2),
      rounded (worstNumber (inboundJitterMs m) (outboundJitterMs m)) 5, pq_direction item))"

lemma fields_coarse: "signature_fields u p = signature_fields v q \<longleftrightarrow> u = v \<and> coarse p = coarse q"
  by (simp add: signature_fields_def coarse_def Let_def bucket_inject level_name_inject direction_name_inject)


section \<open>Aggregates and hysteresis\<close>

definition measured_of :: "PeerQuality \<Rightarrow> MeasuredLevel option" where
  "measured_of item = (case pq_level item of Measured m \<Rightarrow> Some m | _ \<Rightarrow> None)"

lemma worse_items:
  "\<forall>w. fst acc = Some w \<longrightarrow> (\<exists>m. pq_level w = Measured m) \<Longrightarrow>
    (\<forall>w. fst (foldl worse_item acc items) = Some w \<longrightarrow> (\<exists>m. pq_level w = Measured m))
    \<and> Option.bind (fst (foldl worse_item acc items)) measured_of
      = foldl worse_level (Option.bind (fst acc) measured_of) (map measured_of items)
    \<and> snd (foldl worse_item acc items) = (snd acc \<or> (\<exists>i \<in> set items. pq_level i = Connecting))"
proof (induction items arbitrary: acc)
  case (Cons i items)
  have a: "\<forall>w. fst (worse_item acc i) = Some w \<longrightarrow> (\<exists>m. pq_level w = Measured m)"
    using Cons.prems by (cases acc; cases "pq_level i") (auto simp: worse_item_def split: option.splits)
  have b: "Option.bind (fst (worse_item acc i)) measured_of
      = worse_level (Option.bind (fst acc) measured_of) (measured_of i)"
    using Cons.prems by (cases acc; cases "pq_level i")
      (auto simp: worse_item_def measured_of_def worse_level_def split: option.splits)
  have c: "snd (worse_item acc i) = (snd acc \<or> pq_level i = Connecting)"
    by (cases acc; cases "pq_level i") (auto simp: worse_item_def split: option.splits)
  from Cons.IH [OF a] show ?case by (simp add: b c disj_assoc)
qed simp

definition observe :: "QualityTracker \<Rightarrow> MeasuredLevel list \<Rightarrow> QualityTracker" where
  "observe tracker ms = foldl (\<lambda>t m. fst (applyHysteresis t (Measured m))) tracker ms"

lemma observe_simps [simp]:
  "observe t [] = t" "observe t (m # ms) = observe (fst (applyHysteresis t (Measured m))) ms"
  by (simp_all add: observe_def)

lemma hold_level:
  assumes "qt_level t = Measured cur" and "m < cur" and "qt_pendingLevel t \<noteq> Some m"
  shows "qt_level (fst (applyHysteresis t (Measured m))) = Measured cur
    \<and> qt_pendingLevel (fst (applyHysteresis t (Measured m))) = Some m"
  using assms by (simp add: applyHysteresis_def Let_def less_MeasuredLevel_def RECOVERY_SAMPLES_def)

lemma hold_levels:
  assumes "qt_level t = Measured cur" and "\<forall>m \<in> set ms. m < cur"
    and "distinct_adj ((case qt_pendingLevel t of None \<Rightarrow> [] | Some p \<Rightarrow> [p]) @ ms)"
  shows "qt_level (observe t ms) = Measured cur"
  using assms
proof (induction ms arbitrary: t)
  case (Cons m ms)
  have "qt_pendingLevel t \<noteq> Some m" using Cons.prems(3) by auto
  with hold_level [OF Cons.prems(1)] Cons.prems(2)
  have h: "qt_level (fst (applyHysteresis t (Measured m))) = Measured cur"
    "qt_pendingLevel (fst (applyHysteresis t (Measured m))) = Some m" by simp_all
  have "distinct_adj (m # ms)" using Cons.prems(3) by (auto split: option.splits)
  with Cons.IH [OF h(1)] h(2) Cons.prems(2) show ?case by simp
qed simp

section \<open>Properties\<close>

text \<open>The worst stream counts. In a sample the inbound loss is that of the worst inbound stream, never a
  mixture: it is \<open>null\<close> exactly when no stream has enough packets since the last sample, and otherwise lies
  between 0 and 100 percent, is the loss of one stream and at least that of each other. The tracker keeps
  for each id the counters of its last inbound entry.\<close>

theorem worst_stream:
  "let (t, m, l, d) = readQualitySample stats tracker in
     (inboundLossPercent m = None \<longleftrightarrow> (\<forall>s \<in> set stats. stream_loss tracker s = None))
   \<and> (\<forall>x. inboundLossPercent m = Some x \<longrightarrow> 0 \<le> x \<and> x \<le> 100
        \<and> (\<exists>s \<in> set stats. stream_loss tracker s = Some x)
        \<and> (\<forall>s \<in> set stats. \<forall>y. stream_loss tracker s = Some y \<longrightarrow> y \<le> x))
   \<and> (\<forall>i. map_get (qt_inbound t) i
        = map_option inbound_count (find (\<lambda>s. is_inbound s \<and> stat_str s ''id'' = Some i) (rev stats)))"
proof -
  have last: "foldl (\<lambda>acc s. if P s then Some (f s) else acc) b ss
      = (case find P (rev ss) of Some s \<Rightarrow> Some (f s) | None \<Rightarrow> b)" for P f b and ss :: "RawStat list"
    by (induction ss rule: rev_induct) auto
  have loss: "inboundLossPercent (qp_metrics (sample_pass stats tracker))
      = foldl worstNumber None (map (stream_loss tracker) stats)"
    by (simp add: sample_pass_def pass_loss EMPTY_METRICS_def)
  have count: "map_get (qp_inbound (sample_pass stats tracker)) i
      = map_option inbound_count (find (\<lambda>s. is_inbound s \<and> stat_str s ''id'' = Some i) (rev stats))" for i
    by (simp add: sample_pass_def pass_inbound last split: option.split)
  have "0 \<le> x \<and> x \<le> 100 \<and> (\<exists>s \<in> set stats. stream_loss tracker s = Some x)
      \<and> (\<forall>s \<in> set stats. \<forall>y. stream_loss tracker s = Some y \<longrightarrow> y \<le> x)"
    if "foldl worstNumber None (map (stream_loss tracker) stats) = Some x" for x
  proof -
    from numbers.fold_worst [OF that] obtain s where s: "s \<in> set stats" "stream_loss tracker s = Some x"
      and up: "\<forall>y. Some y \<in> set (map (stream_loss tracker) stats) \<longrightarrow> y \<le> x" by force
    have "\<forall>s \<in> set stats. \<forall>y. stream_loss tracker s = Some y \<longrightarrow> y \<le> x"
      using up by (metis image_eqI image_set)
    with s stream_loss_range [OF s(2)] show ?thesis by blast
  qed
  then show ?thesis
    by (simp add: readQualitySample_def Let_def loss count numbers.fold_none)
qed

theorem worst_stream_witness:
  "let stat = (\<lambda>r l. [(''id'', SStr ''a''), (''type'', SStr ''inbound-rtp''), (''packetsReceived'', SNum r),
        (''packetsLost'', SNum l)]);
       t1 = fst (readQualitySample [stat 100 0] createQualityTracker)
   in \<exists>s \<in> set [stat 190 10]. stream_loss t1 s = Some 10"
proof -
  let ?stat = "\<lambda>r l. [(''id'', SStr ''a''), (''type'', SStr ''inbound-rtp''), (''packetsReceived'', SNum r),
        (''packetsLost'', SNum l)]"
  let ?t1 = "fst (readQualitySample [?stat 100 0] createQualityTracker)"
  have "inboundLossPercent (fst (snd (readQualitySample [?stat 190 10] ?t1))) = Some 10" by code_simp
  with worst_stream [of "[?stat 190 10]" ?t1] show ?thesis by (auto simp: Let_def split: prod.splits)
qed

text \<open>Bottleneck. The level of a sample is the worst that any of its five metrics classifies to, and
  \<open>null\<close> exactly when there is no metric at all; the direction named is one whose side is strictly worse.\<close>

theorem sample_bottleneck:
  "let (t, m, l, d) = readQualitySample stats tracker;
       ls = [classify (inboundLossPercent m) 2 8, classify (inboundJitterMs m) 30 80,
             classify (outboundLossPercent m) 2 8, classify (outboundJitterMs m) 30 80,
             classify (rttMs m) 200 400]
   in (l = None \<longleftrightarrow> m = EMPTY_METRICS)
    \<and> (\<forall>w. l = Some w \<longrightarrow> Some w \<in> set ls \<and> (\<forall>x. Some x \<in> set ls \<longrightarrow> x \<le> w))
    \<and> (d = Some Inbound \<longrightarrow> (\<exists>x. inbound_level m = Some x \<and> x \<noteq> Good
          \<and> (\<forall>y. outbound_level m = Some y \<longrightarrow> y < x)))
    \<and> (d = Some Outbound \<longrightarrow> (\<exists>x. outbound_level m = Some x \<and> x \<noteq> Good
          \<and> (\<forall>y. inbound_level m = Some y \<longrightarrow> y < x)))"
proof -
  have none: "worstLevel xs = None \<longleftrightarrow> (\<forall>x \<in> set xs. x = None)" for xs
    by (simp add: worstLevel_def levels.fold_none)
  have some: "Some w \<in> set xs \<and> (\<forall>x. Some x \<in> set xs \<longrightarrow> x \<le> w)" if "worstLevel xs = Some w" for xs w
    using levels.fold_worst that by (simp add: worstLevel_def)
  have c: "classify v a b = None \<longleftrightarrow> v = None" for v a b by (cases v) (simp_all add: classify_def)
  obtain t m l d where r: "readQualitySample stats tracker = (t, m, l, d)" by (metis prod_cases4)
  then have l: "l = worstLevel [inbound_level m, outbound_level m, classify (rttMs m) 200 400]"
    and d: "d = pickDirection (inbound_level m) (outbound_level m)"
    by (auto simp: readQualitySample_def Let_def RTT_MEDIUM_MS_def RTT_BAD_MS_def)
  define ls where "ls = [classify (inboundLossPercent m) 2 8, classify (inboundJitterMs m) 30 80,
    classify (outboundLossPercent m) 2 8, classify (outboundJitterMs m) 30 80, classify (rttMs m) 200 400]"
  have "l = worstLevel ls"
    by (simp add: l ls_def worstLevel_def inbound_level_def outbound_level_def worse_level_assoc
        LOSS_MEDIUM_PERCENT_def LOSS_BAD_PERCENT_def JITTER_MEDIUM_MS_def JITTER_BAD_MS_def)
  then have "l = None \<longleftrightarrow> m = EMPTY_METRICS" using none [of ls]
    by (cases m) (auto simp: ls_def c EMPTY_METRICS_def)
  moreover have "\<forall>w. l = Some w \<longrightarrow> Some w \<in> set ls \<and> (\<forall>x. Some x \<in> set ls \<longrightarrow> x \<le> w)"
  proof (intro allI impI)
    fix w assume "l = Some w"
    then have "worstLevel ls = Some w" using \<open>l = worstLevel ls\<close> by simp
    then show "Some w \<in> set ls \<and> (\<forall>x. Some x \<in> set ls \<longrightarrow> x \<le> w)" by (rule some)
  qed
  moreover have "d = Some Inbound \<longrightarrow> (\<exists>x. inbound_level m = Some x \<and> x \<noteq> Good
          \<and> (\<forall>y. outbound_level m = Some y \<longrightarrow> y < x))"
    and "d = Some Outbound \<longrightarrow> (\<exists>x. outbound_level m = Some x \<and> x \<noteq> Good
          \<and> (\<forall>y. inbound_level m = Some y \<longrightarrow> y < x))"
    unfolding d by (cases "inbound_level m"; cases "outbound_level m"; auto simp: less_MeasuredLevel_def split: if_splits)+
  ultimately show ?thesis by (simp add: r ls_def Let_def)
qed


theorem sample_bottleneck_witness:
  "fst (snd (snd (readQualitySample [[(''type'', SStr ''candidate-pair''), (''selected'', SBool True),
       (''currentRoundTripTime'', SNum (1 / 2))]] createQualityTracker))) = Some Bad"
proof -
  let ?s = "[[(''type'', SStr ''candidate-pair''), (''selected'', SBool True), (''currentRoundTripTime'', SNum (1 / 2))]]"
  obtain t m l d where r: "readQualitySample ?s createQualityTracker = (t, m, l, d)" by (metis prod_cases4)
  have "rttMs (fst (snd (readQualitySample ?s createQualityTracker))) = Some 500" by code_simp
  then have q: "rttMs m = Some 500" by (simp add: r)
  then have "m \<noteq> EMPTY_METRICS" by (auto simp: EMPTY_METRICS_def)
  with sample_bottleneck [of ?s createQualityTracker] obtain w where w: "l = Some w" "Bad \<le> w"
    by (auto simp: r Let_def q classify_def)
  then have "w = Bad" by (cases w) (simp_all add: less_eq_MeasuredLevel_def)
  with w r show ?thesis by simp
qed

text \<open>Hysteresis. Whatever the tracker holds: a level as bad as the one shown or worse is shown at once;
  the level shown is never better than the last one measured; two equal measurements in a row are always
  shown; and better measurements of which no two neighbours agree never change what is shown.\<close>

theorem hysteresis:
  "(rankOf (qt_level t) \<le> int (rank_of m) \<longrightarrow> qt_level (observe t [m]) = Measured m)
   \<and> int (rank_of m) \<le> rankOf (qt_level (observe t [m]))
   \<and> qt_level (observe t [m, m]) = Measured m
   \<and> (qt_level t = Measured cur \<and> (\<forall>m \<in> set ms. m < cur)
      \<and> distinct_adj ((case qt_pendingLevel t of None \<Rightarrow> [] | Some p \<Rightarrow> [p]) @ ms)
      \<longrightarrow> qt_level (observe t ms) = Measured cur)"
proof (intro conjI impI)
  show "rankOf (qt_level t) \<le> int (rank_of m) \<Longrightarrow> qt_level (observe t [m]) = Measured m"
    by (simp add: applyHysteresis_def settle_level_def Let_def)
  show "int (rank_of m) \<le> rankOf (qt_level (observe t [m]))"
    by (auto simp: applyHysteresis_def settle_level_def Let_def)
  show "qt_level (observe t [m, m]) = Measured m"
    by (auto simp: applyHysteresis_def settle_level_def Let_def RECOVERY_SAMPLES_def)
qed (use hold_levels in blast)

theorem hysteresis_witness:
  "qt_level (observe (createQualityTracker\<lparr>qt_level := Measured Bad\<rparr>) [Good, Medium, Good, Medium]) = Measured Bad"
  using hysteresis [of "createQualityTracker\<lparr>qt_level := Measured Bad\<rparr>" Good Bad "[Good, Medium, Good, Medium]"]
  by (simp add: createQualityTracker_def less_MeasuredLevel_def)

text \<open>The aggregate of several links is the worst measured one; links that are still connecting or lost
  count only when none is measured, and then a connecting one wins. There is none only for no link.\<close>

theorem aggregate_worst:
  "(aggregateQuality items = None \<longleftrightarrow> items = [])
   \<and> (\<forall>q. aggregateQuality items = Some q \<longrightarrow>
        (if \<exists>i \<in> set items. measured_of i \<noteq> None
         then \<exists>i \<in> set items. \<exists>w. measured_of i = Some w \<and> pq_level q = Measured w
               \<and> (\<forall>j \<in> set items. \<forall>x. measured_of j = Some x \<longrightarrow> x \<le> w)
         else pq_level q = (if \<exists>i \<in> set items. pq_level i = Connecting then Connecting else Disconnected)
              \<and> pq_metrics q = EMPTY_METRICS)
        \<and> pq_ariaLabel q = SELF_LEVEL_TEXT (pq_level q))"
proof -
  obtain w h where f: "foldl worse_item (None, False) items = (w, h)" by fastforce
  from worse_items [of "(None, False)" items] f
  have m: "\<forall>v. w = Some v \<longrightarrow> (\<exists>m. pq_level v = Measured m)"
    and b: "Option.bind w measured_of = foldl worse_level None (map measured_of items)"
    and h: "h \<longleftrightarrow> (\<exists>i \<in> set items. pq_level i = Connecting)" by simp_all
  have lev: "pq_level (buildQuality l x d sc) = l" "pq_metrics (buildQuality l x d sc) = x"
    "pq_ariaLabel (buildQuality l x d SelfScope) = SELF_LEVEL_TEXT l" for l x d sc
    by (simp_all add: buildQuality_def Let_def)
  show ?thesis
  proof (cases w)
    case None
    then have "\<forall>i \<in> set items. measured_of i = None"
      using b levels.fold_none [of "map measured_of items"] by auto
    with None f h show ?thesis by (auto simp: aggregateQuality_def lev)
  next
    case (Some v)
    with m obtain k where k: "pq_level v = Measured k" by blast
    with b Some have "foldl worse_level None (map measured_of items) = Some k" by (simp add: measured_of_def)
    from levels.fold_worst [OF this] obtain i where i: "i \<in> set items" "measured_of i = Some k"
      and up: "\<forall>x. Some x \<in> set (map measured_of items) \<longrightarrow> x \<le> k" by force
    have "\<forall>j \<in> set items. \<forall>x. measured_of j = Some x \<longrightarrow> x \<le> k" using up by (metis image_eqI image_set)
    with Some f k i show ?thesis by (auto simp: aggregateQuality_def lev)
  qed
qed

theorem aggregate_worst_witness:
  "let q = (\<lambda>l. buildQuality l EMPTY_METRICS None PeerScope)
   in \<forall>r. aggregateQuality [q Connecting, q (Measured Medium)] = Some r
       \<longrightarrow> pq_ariaLabel r = SELF_LEVEL_TEXT (pq_level r)"
  using aggregate_worst by (simp add: Let_def)

text \<open>The signature of a snapshot. Two snapshots have the same signature exactly when they have the same
  users and, for each, the same level, direction and rounded metrics: no change of those is missed, and
  nothing else makes the tiles render again.\<close>

theorem signature_equal_iff:
  assumes "distinct (map_keys a)" and "distinct (map_keys b)"
  shows "qualitySignature a = qualitySignature b
    \<longleftrightarrow> set (map_keys a) = set (map_keys b)
       \<and> (\<forall>u \<in> set (map_keys a). coarse (the (map_of a u)) = coarse (the (map_of b u)))"
proof -
  let ?e = "\<lambda>s u. join_with '':'' (signature_fields u (the (map_of s u)))"
  have inj: "?e a u = ?e b v \<longleftrightarrow> u = v \<and> coarse (the (map_of a u)) = coarse (the (map_of b v))" for u v
    by (simp add: entry_inject fields_coarse)
  have maps: "map (?e a) xs = map (?e b) ys
      \<longleftrightarrow> xs = ys \<and> (\<forall>u \<in> set xs. coarse (the (map_of a u)) = coarse (the (map_of b u)))" for xs ys
  proof (induction xs arbitrary: ys)
    case (Cons x xs)
    then show ?case by (cases ys) (auto simp: inj)
  qed auto
  have ne: "?e s u \<noteq> []" for s u by (simp add: signature_fields_def Let_def)
  have "qualitySignature a = qualitySignature b
      \<longleftrightarrow> map (?e a) (sort (map_keys a)) = map (?e b) (sort (map_keys b))"
  proof
    assume "qualitySignature a = qualitySignature b"
    then show "map (?e a) (sort (map_keys a)) = map (?e b) (sort (map_keys b))"
      unfolding qualitySignature_def
    proof (rule bars_inject [rotated])
      show "\<forall>x \<in> set (map (?e a) (sort (map_keys a))) \<union> set (map (?e b) (sort (map_keys b))).
          CHR ''|'' \<notin> set x \<and> x \<noteq> []"
      proof
        fix x assume "x \<in> set (map (?e a) (sort (map_keys a))) \<union> set (map (?e b) (sort (map_keys b)))"
        then obtain u s where "x = ?e s u" by auto
        then show "CHR ''|'' \<notin> set x \<and> x \<noteq> []" using ne entry_no_bar by simp
      qed
    qed
  next
    assume "map (?e a) (sort (map_keys a)) = map (?e b) (sort (map_keys b))"
    then show "qualitySignature a = qualitySignature b" by (simp only: qualitySignature_def)
  qed
  also have "\<dots> \<longleftrightarrow> sort (map_keys a) = sort (map_keys b)
      \<and> (\<forall>u \<in> set (sort (map_keys a)). coarse (the (map_of a u)) = coarse (the (map_of b u)))"
    by (rule maps)
  also have "sort (map_keys a) = sort (map_keys b) \<longleftrightarrow> set (map_keys a) = set (map_keys b)"
    using assms by (metis distinct_sort set_sort sorted_distinct_set_unique sorted_sort)
  finally show ?thesis by simp
qed

theorem signature_equal_iff_witness:
  "let q = (\<lambda>r. buildQuality (Measured Good) (EMPTY_METRICS\<lparr>rttMs := Some r\<rparr>) None PeerScope)
   in qualitySignature [(3, q 40), (1, q 41)] = qualitySignature [(1, q 45), (3, q 50)]"
proof -
  let ?q = "\<lambda>r. buildQuality (Measured Good) (EMPTY_METRICS\<lparr>rttMs := Some r\<rparr>) None PeerScope"
  have "coarse (?q 40) = coarse (?q 50)" "coarse (?q 41) = coarse (?q 45)" by code_simp+
  then show ?thesis
    using signature_equal_iff [of "[(3, ?q 40), (1, ?q 41)]" "[(1, ?q 45), (3, ?q 50)]"]
    by (simp add: Let_def map_keys_def) blast
qed

end
