(* ===== verification/Notifications.thy ===== *)
theory Notifications
  imports ChatTypes
begin

text \<open>
  Who is told about a message: \<^verbatim>\<open>services/notifications/rules.ts\<close> (mentions, inherited levels, mutes, do not
  disturb), \<^verbatim>\<open>sound.ts\<close> (rate limits), \<^verbatim>\<open>index.ts\<close> (\<open>notify\<close>) and the handler of \<^verbatim>\<open>hooks/useNotifications.ts\<close>; and
  the policy of the server for push messages that the rules must agree with (the query of
  \<^verbatim>\<open>internal/storage/postgresql/notifications.go\<close> and the loop of \<^verbatim>\<open>internal/service/push/sender.go\<close>).
  The argument \<open>ms\<close> is \<open>new Date(iso).getTime()\<close>, \<open>None\<close> for \<open>NaN\<close>. Text the program itself shows is UTF-8.
\<close>

section \<open>The rules\<close>

datatype NotifyDecision = NotifyNone | NotifyMessage | NotifyMention

record NotifyContext =
  nc_currentUserId :: "int option"
  nc_activeChannelId :: int
  nc_isPageVisible :: bool
  nc_serverId :: int
  nc_settings :: "NotificationSettings option"

definition isMention :: "Message \<Rightarrow> int option \<Rightarrow> bool" where
  "isMention msg currentUserId = (case currentUserId of
     None \<Rightarrow> False
   | Some u \<Rightarrow>
       (case m_mentions msg of Some us \<Rightarrow> u \<in> set us | None \<Rightarrow> False)
       \<or> (case m_reply_to msg of Val r \<Rightarrow> rp_author_id r = u | _ \<Rightarrow> False)
       \<or> m_mentions_everyone msg = Some True)"

definition isTimeInFuture :: "(string \<Rightarrow> int option) \<Rightarrow> string option \<Rightarrow> int \<Rightarrow> bool" where
  "isTimeInFuture ms date now = (case date of
     None \<Rightarrow> False
   | Some s \<Rightarrow> s \<noteq> [] \<and> (case ms s of Some t \<Rightarrow> now < t | None \<Rightarrow> False))"

definition channel_override :: "NotificationSettings \<Rightarrow> int \<Rightarrow> ChannelNotificationOverride option" where
  "channel_override s channelId = find (\<lambda>c. cno_channel_id c = channelId) (ns_channels s)"

definition server_override :: "NotificationSettings \<Rightarrow> int \<Rightarrow> ServerNotificationOverride option" where
  "server_override s serverId = find (\<lambda>ov. sno_server_id ov = serverId) (ns_servers s)"

definition resolveLevel :: "NotificationSettings option \<Rightarrow> int \<Rightarrow> int \<Rightarrow> NotificationLevel" where
  "resolveLevel settings serverId channelId = (case settings of
     None \<Rightarrow> LevelAll
   | Some s \<Rightarrow>
       (case Option.bind (channel_override s channelId) cno_level of
          Some l \<Rightarrow> l
        | None \<Rightarrow>
            (if serverId \<le> 0 then LevelAll
             else case Option.bind (server_override s serverId) sno_level of
                    Some l \<Rightarrow> l
                  | None \<Rightarrow> ns_default_level s)))"

definition isMuted :: "(string \<Rightarrow> int option) \<Rightarrow> NotificationSettings option \<Rightarrow> int \<Rightarrow> int \<Rightarrow> int \<Rightarrow> bool" where
  "isMuted ms settings serverId channelId now = (case settings of
     None \<Rightarrow> False
   | Some s \<Rightarrow> isTimeInFuture ms (Option.bind (channel_override s channelId) cno_muted_until) now
       \<or> isTimeInFuture ms (Option.bind (server_override s serverId) sno_muted_until) now)"

definition isDoNotDisturb :: "(string \<Rightarrow> int option) \<Rightarrow> NotificationSettings option \<Rightarrow> int \<Rightarrow> bool" where
  "isDoNotDisturb ms settings now = (case settings of
     None \<Rightarrow> False
   | Some s \<Rightarrow> isTimeInFuture ms (ns_dnd_until s) now)"

definition shouldNotify :: "(string \<Rightarrow> int option) \<Rightarrow> int \<Rightarrow> Message \<Rightarrow> NotifyContext \<Rightarrow> NotifyDecision" where
  "shouldNotify ms now msg ctx =
     (if nc_currentUserId ctx = Some (m_author_id msg) then NotifyNone
      else if m_channel_id msg = nc_activeChannelId ctx \<and> nc_isPageVisible ctx then NotifyNone
      else if isDoNotDisturb ms (nc_settings ctx) now then NotifyNone
      else let level = resolveLevel (nc_settings ctx) (nc_serverId ctx) (m_channel_id msg)
           in if level = LevelNone then NotifyNone
              else if isMuted ms (nc_settings ctx) (nc_serverId ctx) (m_channel_id msg) now then NotifyNone
              else let mention = isMention msg (nc_currentUserId ctx)
                   in if level = LevelMentions \<and> \<not> mention then NotifyNone
                      else if mention then NotifyMention else NotifyMessage)"

section \<open>The policy of the server\<close>

text \<open>
  One row of the query for one recipient: \<open>server\<close> is \<open>ch.server_id\<close>, \<open>None\<close> for \<open>NULL\<close>; the joined rows are
  those of the recipient. \<open>COALESCE\<close> takes the first value that is not \<open>NULL\<close>, \<open>GREATEST\<close> skips \<open>NULL\<close>.
\<close>

record notification_target =
  nt_level :: NotificationLevel
  nt_muted_until :: "int option"
  nt_dnd_until :: "int option"
  nt_hide_preview :: bool

fun coalesce :: "'a option list \<Rightarrow> 'a option" where
  "coalesce [] = None"
| "coalesce (x # xs) = (case x of Some v \<Rightarrow> Some v | None \<Rightarrow> coalesce xs)"

definition sql_greatest :: "int option \<Rightarrow> int option \<Rightarrow> int option" where
  "sql_greatest a b = (case (a, b) of
     (Some x, Some y) \<Rightarrow> Some (max x y) | (Some x, None) \<Rightarrow> Some x | (None, y) \<Rightarrow> y)"

definition sql_time :: "(string \<Rightarrow> int option) \<Rightarrow> string option \<Rightarrow> int option" where
  "sql_time ms t = Option.bind t ms"

definition ResolveNotificationTarget :: "(string \<Rightarrow> int option) \<Rightarrow> NotificationSettings \<Rightarrow> int option \<Rightarrow> int \<Rightarrow>
    notification_target" where
  "ResolveNotificationTarget ms uns server channelId =
     (let cns = channel_override uns channelId;
          sns = Option.bind server (server_override uns)
      in \<lparr> nt_level = (case coalesce [Option.bind cns cno_level,
               if server = None then Some LevelAll else None,
               Option.bind sns sno_level, Some (ns_default_level uns)] of Some l \<Rightarrow> l | None \<Rightarrow> LevelAll),
           nt_muted_until = sql_greatest (sql_time ms (Option.bind cns cno_muted_until))
             (sql_time ms (Option.bind sns sno_muted_until)),
           nt_dnd_until = sql_time ms (ns_dnd_until uns),
           nt_hide_preview = ns_hide_message_preview uns \<rparr>)"

definition after :: "int option \<Rightarrow> int \<Rightarrow> bool" where
  "after t now = (case t of Some x \<Rightarrow> now < x | None \<Rightarrow> False)"

definition push_decision :: "int \<Rightarrow> bool \<Rightarrow> bool \<Rightarrow> notification_target \<Rightarrow> NotifyDecision" where
  "push_decision now online mention target =
     (if online then NotifyNone
      else if after (nt_dnd_until target) now then NotifyNone
      else if after (nt_muted_until target) now then NotifyNone
      else if nt_level target = LevelNone then NotifyNone
      else if nt_level target = LevelMentions \<and> \<not> mention then NotifyNone
      else if mention then NotifyMention else NotifyMessage)"

section \<open>Sound\<close>

datatype SoundName = MessageSound | MentionSound | JoinSound | LeaveSound

record sound_player =
  so_enabled :: bool
  so_lastPlayedByChannel :: "(int \<times> int) list"
  so_lastPlayedGlobal :: int

record PlayOptions =
  po_channelId :: "int option"
  po_bypassChannelLimit :: bool

definition CHANNEL_RATE_LIMIT_MS :: int where "CHANNEL_RATE_LIMIT_MS = 3000"
definition GLOBAL_RATE_LIMIT_MS :: int where "GLOBAL_RATE_LIMIT_MS = 1000"

definition new_player :: sound_player where
  "new_player = \<lparr>so_enabled = True, so_lastPlayedByChannel = [], so_lastPlayedGlobal = 0\<rparr>"

text \<open>The result says which sound starts, if any; which audio element plays it is in \<open>Sounds\<close>.\<close>

definition playSound :: "int \<Rightarrow> SoundName \<Rightarrow> PlayOptions \<Rightarrow> sound_player \<Rightarrow> sound_player \<times> SoundName option" where
  "playSound now name opts p =
     (if \<not> so_enabled p then (p, None)
      else if now - so_lastPlayedGlobal p < GLOBAL_RATE_LIMIT_MS then (p, None)
      else if (case po_channelId opts of
                 Some c \<Rightarrow> \<not> po_bypassChannelLimit opts
                   \<and> now - map_get_or 0 (so_lastPlayedByChannel p) c < CHANNEL_RATE_LIMIT_MS
               | None \<Rightarrow> False) then (p, None)
      else (p\<lparr>so_lastPlayedGlobal := now,
              so_lastPlayedByChannel := (case po_channelId opts of
                 Some c \<Rightarrow> map_set c now (so_lastPlayedByChannel p)
               | None \<Rightarrow> so_lastPlayedByChannel p)\<rparr>, Some name))"

definition clamp_volume :: "rat \<Rightarrow> rat" where
  "clamp_volume v = min 1 (max 0 v)"

section \<open>Showing a notification\<close>

datatype PermissionState = PermDefault | PermGranted | PermDenied | PermUnsupported

datatype NotifyOutcome = Shown | Skipped | BlockedByPermission

record NotificationClickData =
  cd_channel_id :: int
  cd_server_id :: int
  cd_message_id :: int
  cd_url :: string

record NotifyInput =
  ni_message :: Message
  ni_ctx :: NotifyContext
  ni_title :: string
  ni_body :: string
  ni_icon :: "string option"
  ni_tag :: string
  ni_data :: NotificationClickData

datatype notify_effect =
    PlaySound SoundName
  | MarkMissed
  | ShowNotification string string "string option" string NotificationClickData
  | MissedPermission

definition MAX_BODY_LENGTH :: nat where "MAX_BODY_LENGTH = 120"

definition ELLIPSIS_TEXT :: string where
  "ELLIPSIS_TEXT = [CHR 0xE2, CHR 0x80, CHR 0xA6]"

definition truncate_body :: "string \<Rightarrow> string" where
  "truncate_body text =
     (if MAX_BODY_LENGTH < length text then take (MAX_BODY_LENGTH - 1) text @ ELLIPSIS_TEXT else text)"

definition notify :: "(string \<Rightarrow> int option) \<Rightarrow> int \<Rightarrow> bool \<Rightarrow> PermissionState \<Rightarrow> NotifyInput \<Rightarrow> sound_player \<Rightarrow>
    sound_player \<times> NotifyOutcome \<times> notify_effect list" where
  "notify ms now leader permission input p =
     (let decision = shouldNotify ms now (ni_message input) (ni_ctx input)
      in if decision = NotifyNone then (p, Skipped, [])
         else let (p1, played) =
                (if leader
                 then playSound now (if decision = NotifyMention then MentionSound else MessageSound)
                        \<lparr>po_channelId = Some (m_channel_id (ni_message input)),
                         po_bypassChannelLimit = (decision = NotifyMention)\<rparr> p
                 else (p, None));
                sounds = (case played of Some s \<Rightarrow> [PlaySound s] | None \<Rightarrow> [])
              in if permission \<noteq> PermGranted then (p1, BlockedByPermission, sounds @ [MarkMissed])
                 else (p1, Shown, sounds @ [ShowNotification (ni_title input) (truncate_body (ni_body input))
                        (ni_icon input) (ni_tag input) (ni_data input)]))"

section \<open>The message handler\<close>

text \<open>The author fields are declared strings; a field of another type is read as empty.\<close>

definition resolveAuthorName :: "Message \<Rightarrow> string" where
  "resolveAuthorName message =
     (let nickname = trim (str_or [] (m_author_nickname message));
          first = str_or [] (m_author_first_name message);
          last = str_or [] (m_author_last_name message);
          fullName = trim (if first \<noteq> [] \<and> last \<noteq> [] then first @ '' '' @ last else first @ last)
      in if nickname \<noteq> [] then nickname else if fullName \<noteq> [] then fullName else ''Someone'')"

definition find_channel :: "int \<Rightarrow> ChannelsByServer \<Rightarrow> (int \<times> Channel) option" where
  "find_channel channelId m =
     (case List.map_filter (\<lambda>(s, cs). map_option (Pair s) (find (\<lambda>c. ch_id c = channelId) cs)) (record_entries m) of
        [] \<Rightarrow> None | x # _ \<Rightarrow> Some x)"

definition resolveChannelName :: "int \<Rightarrow> ChannelsByServer \<Rightarrow> string" where
  "resolveChannelName channelId m = (case find_channel channelId m of
     Some (_, c) \<Rightarrow> ch_name c | None \<Rightarrow> show_int channelId)"

definition resolveServerId :: "int \<Rightarrow> ChannelsByServer \<Rightarrow> int" where
  "resolveServerId channelId m = (case find_channel channelId m of Some (s, _) \<Rightarrow> s | None \<Rightarrow> 0)"

definition ATTACHMENT_TEXT :: string where
  "ATTACHMENT_TEXT = [CHR 0xF0, CHR 0x9F, CHR 0x93, CHR 0x8E] @ '' Attachment''"

definition resolveBody :: "Message \<Rightarrow> string" where
  "resolveBody message =
     (if m_content message \<noteq> [] then m_content message
      else case m_attachments message of
        Some (_ # _) \<Rightarrow> ATTACHMENT_TEXT
      | _ \<Rightarrow> ''New message'')"

definition TITLE_DASH :: string where
  "TITLE_DASH = [CHR 0x20, CHR 0xE2, CHR 0x80, CHR 0x94, CHR 0x20, CHR 0x23]"

record notify_env =
  ne_currentUserId :: "int option"
  ne_selectedChannelId :: int
  ne_isPageVisible :: bool
  ne_channelsByServer :: ChannelsByServer
  ne_dmChannels :: "DMChannel list"
  ne_settings :: "NotificationSettings option"

definition notify_input :: "notify_env \<Rightarrow> Message \<Rightarrow> NotifyInput" where
  "notify_input env incoming =
     (let cid = m_channel_id incoming;
          dm = find (\<lambda>d. dm_channel_id d = cid) (ne_dmChannels env);
          channelName = (if dm \<noteq> None then [] else resolveChannelName cid (ne_channelsByServer env));
          serverId = (if dm \<noteq> None then 0 else resolveServerId cid (ne_channelsByServer env));
          hide = (case ne_settings env of Some s \<Rightarrow> ns_hide_message_preview s | None \<Rightarrow> False)
      in \<lparr> ni_message = incoming,
           ni_ctx = \<lparr>nc_currentUserId = ne_currentUserId env, nc_activeChannelId = ne_selectedChannelId env,
             nc_isPageVisible = ne_isPageVisible env, nc_serverId = serverId, nc_settings = ne_settings env\<rparr>,
           ni_title = (if hide then ''MuArAb''
             else if dm \<noteq> None then resolveAuthorName incoming
             else resolveAuthorName incoming @ TITLE_DASH @ channelName),
           ni_body = (if hide then (if dm \<noteq> None then ''New message'' else ''New message in #'' @ channelName)
             else resolveBody incoming),
           ni_icon = (if hide then None else Some (m_author_avatar_url incoming)),
           ni_tag = ''channel-'' @ show_int cid,
           ni_data = \<lparr>cd_channel_id = cid, cd_server_id = serverId, cd_message_id = m_id incoming,
             cd_url = ''/?channel='' @ show_int cid @ ''&message='' @ show_int (m_id incoming)\<rparr> \<rparr>)"

text \<open>\<open>softPrompt\<close> is \<open>shouldShowSoftPrompt()\<close> (a flag and a cool-down in local storage).\<close>

definition shouldShowSoftPrompt :: "PermissionState \<Rightarrow> bool \<Rightarrow> int \<Rightarrow> int \<Rightarrow> bool" where
  "shouldShowSoftPrompt permission missed dismissedUntil now \<longleftrightarrow>
     permission = PermDefault \<and> missed \<and> dismissedUntil \<le> now"

definition on_notify_message :: "(string \<Rightarrow> int option) \<Rightarrow> int \<Rightarrow> bool \<Rightarrow> PermissionState \<Rightarrow> bool \<Rightarrow> notify_env \<Rightarrow> Message \<Rightarrow>
    sound_player \<Rightarrow> sound_player \<times> notify_effect list" where
  "on_notify_message ms now leader permission softPrompt env incoming p =
     (let (p1, outcome, os) = notify ms now leader permission (notify_input env incoming) p
      in (p1, os @ (if outcome = BlockedByPermission \<and> softPrompt then [MissedPermission] else [])))"

end
