(* ===== verification/NotifyProps.thy ===== *)
theory NotifyProps
  imports Notifications
begin

text \<open>
  The properties of the notification rules, of the sounds and of the message handler.
\<close>

section \<open>Facts the properties share\<close>

lemma future_after: "ms [] = None \<Longrightarrow> isTimeInFuture ms d now = after (sql_time ms d) now"
  by (cases d) (auto simp: isTimeInFuture_def after_def sql_time_def split: option.splits)

lemma after_greatest: "after (sql_greatest a b) now \<longleftrightarrow> after a now \<or> after b now"
  by (auto simp: after_def sql_greatest_def split: option.splits)

definition server_of_channel :: "int option \<Rightarrow> int" where
  "server_of_channel server = (case server of Some s \<Rightarrow> s | None \<Rightarrow> 0)"

text \<open>Server ids are positive, in the channel and in the overrides.\<close>

definition positive_ids :: "NotificationSettings \<Rightarrow> int option \<Rightarrow> bool" where
  "positive_ids s server \<longleftrightarrow> (\<forall>sid. server = Some sid \<longrightarrow> 0 < sid) \<and> (\<forall>r \<in> set (ns_servers s). 0 < sno_server_id r)"

lemma server_override_0: "positive_ids s server \<Longrightarrow> server_override s 0 = None"
  by (auto simp: positive_ids_def server_override_def find_None_iff)

lemma level_agrees:
  assumes "positive_ids s server"
  shows "resolveLevel (Some s) (server_of_channel server) c = nt_level (ResolveNotificationTarget ms s server c)"
  using assms
  by (cases server) (auto simp: resolveLevel_def ResolveNotificationTarget_def Let_def server_of_channel_def
      positive_ids_def split: option.split)

lemma muted_agrees:
  assumes "ms [] = None" and "positive_ids s server"
  shows "isMuted ms (Some s) (server_of_channel server) c now
    = after (nt_muted_until (ResolveNotificationTarget ms s server c)) now"
  using assms server_override_0 [OF assms(2)]
  by (cases server) (simp_all add: isMuted_def ResolveNotificationTarget_def Let_def server_of_channel_def
      after_greatest future_after)

section \<open>Sounds over time\<close>

record sound_request =
  sr_now :: int
  sr_name :: SoundName
  sr_opts :: PlayOptions

fun sounds_played :: "sound_player \<Rightarrow> sound_request list \<Rightarrow> sound_request list" where
  "sounds_played p [] = []"
| "sounds_played p (r # rs) = (case playSound (sr_now r) (sr_name r) (sr_opts r) p of
     (p1, None) \<Rightarrow> sounds_played p1 rs
   | (p1, Some _) \<Rightarrow> r # sounds_played p1 rs)"

definition clock_inv :: "sound_player \<Rightarrow> bool" where
  "clock_inv p \<longleftrightarrow> (\<forall>c. map_get_or 0 (so_lastPlayedByChannel p) c \<le> so_lastPlayedGlobal p)"

definition rested :: "sound_player \<Rightarrow> sound_request \<Rightarrow> bool" where
  "rested p r \<longleftrightarrow> so_lastPlayedGlobal p + 1000 \<le> sr_now r
     \<and> (\<forall>c. po_channelId (sr_opts r) = Some c \<and> \<not> po_bypassChannelLimit (sr_opts r)
          \<longrightarrow> map_get_or 0 (so_lastPlayedByChannel p) c + 3000 \<le> sr_now r)"

lemma play_cases:
  assumes "playSound (sr_now r) (sr_name r) (sr_opts r) p = (p1, out)" and "clock_inv p"
  shows "out = None \<and> p1 = p
    \<or> out = Some (sr_name r) \<and> rested p r \<and> clock_inv p1 \<and> so_lastPlayedGlobal p1 = sr_now r
      \<and> (\<forall>c. map_get_or 0 (so_lastPlayedByChannel p1) c
           = (if po_channelId (sr_opts r) = Some c then sr_now r else map_get_or 0 (so_lastPlayedByChannel p) c))"
proof (cases out)
  case None
  with assms(1) show ?thesis by (simp add: playSound_def split: if_splits option.splits)
next
  case (Some n)
  with assms(1) have g: "so_lastPlayedGlobal p + 1000 \<le> sr_now r" and n: "n = sr_name r"
    and "rested p r"
    and "so_lastPlayedGlobal p1 = sr_now r"
    and c: "\<forall>c. map_get_or 0 (so_lastPlayedByChannel p1) c
         = (if po_channelId (sr_opts r) = Some c then sr_now r else map_get_or 0 (so_lastPlayedByChannel p) c)"
    by (auto simp: playSound_def rested_def GLOBAL_RATE_LIMIT_MS_def CHANNEL_RATE_LIMIT_MS_def split: if_splits option.splits)
  moreover have "clock_inv p1"
    unfolding clock_inv_def
  proof
    fix c'
    have "map_get_or 0 (so_lastPlayedByChannel p) c' \<le> so_lastPlayedGlobal p"
      using assms(2) by (simp add: clock_inv_def)
    with c g \<open>so_lastPlayedGlobal p1 = sr_now r\<close>
    show "map_get_or 0 (so_lastPlayedByChannel p1) c' \<le> so_lastPlayedGlobal p1" by simp
  qed
  ultimately show ?thesis using Some by blast
qed

lemma later_rested:
  assumes "rested p1 x" and "rested p r" and "clock_inv p" and "so_lastPlayedGlobal p1 = sr_now r"
    and "\<forall>c. map_get_or 0 (so_lastPlayedByChannel p1) c
         = (if po_channelId (sr_opts r) = Some c then sr_now r else map_get_or 0 (so_lastPlayedByChannel p) c)"
  shows "rested p x"
  unfolding rested_def
proof (intro conjI allI impI)
  show "so_lastPlayedGlobal p + 1000 \<le> sr_now x" using assms(1,2,4) by (simp add: rested_def)
  fix c assume c: "po_channelId (sr_opts x) = Some c \<and> \<not> po_bypassChannelLimit (sr_opts x)"
  with assms(1) have "map_get_or 0 (so_lastPlayedByChannel p1) c + 3000 \<le> sr_now x" by (simp add: rested_def)
  moreover have "map_get_or 0 (so_lastPlayedByChannel p) c \<le> so_lastPlayedGlobal p"
    using assms(3) by (simp add: clock_inv_def)
  moreover have "so_lastPlayedGlobal p \<le> sr_now r" using assms(2) by (simp add: rested_def)
  ultimately show "map_get_or 0 (so_lastPlayedByChannel p) c + 3000 \<le> sr_now x"
    using assms(5) by (auto split: if_splits)
qed

lemma played_rested: "clock_inv p \<Longrightarrow> x \<in> set (sounds_played p rs) \<Longrightarrow> rested p x"
proof (induction rs arbitrary: p)
  case (Cons r rs)
  obtain p1 out where o: "playSound (sr_now r) (sr_name r) (sr_opts r) p = (p1, out)" by fastforce
  from play_cases [OF this Cons.prems(1)] consider "out = None" "p1 = p"
    | "out = Some (sr_name r)" "rested p r" "clock_inv p1" "so_lastPlayedGlobal p1 = sr_now r"
      "\<forall>c. map_get_or 0 (so_lastPlayedByChannel p1) c
         = (if po_channelId (sr_opts r) = Some c then sr_now r else map_get_or 0 (so_lastPlayedByChannel p) c)"
    by blast
  then show ?case
  proof cases
    case 1
    with Cons o show ?thesis by simp
  next
    case 2
    with Cons.prems(2) o consider "x = r" | "x \<in> set (sounds_played p1 rs)" by auto
    then show ?thesis
    proof cases
      case 1
      with 2 show ?thesis by simp
    next
      case 2
      from Cons.IH [OF \<open>clock_inv p1\<close> this] show ?thesis
        by (rule later_rested) (use \<open>rested p r\<close> Cons.prems(1) \<open>so_lastPlayedGlobal p1 = sr_now r\<close>
          \<open>\<forall>c. map_get_or 0 (so_lastPlayedByChannel p1) c = _ c\<close> in auto)
    qed
  qed
qed simp

section \<open>Properties\<close>

text \<open>C10. The open tab and the push service agree. For a message of another user in a channel that is not on
  screen, the client's rules decide exactly as the server's query and push policy do, for every setting,
  in server channels and in direct messages.\<close>

theorem push_agrees:
  assumes "ms [] = None" and "positive_ids s server" and "m_author_id msg \<noteq> u"
    and "m_channel_id msg \<noteq> active \<or> \<not> visible"
  shows "shouldNotify ms now msg \<lparr>nc_currentUserId = Some u, nc_activeChannelId = active, nc_isPageVisible = visible,
       nc_serverId = server_of_channel server, nc_settings = Some s\<rparr>
     = push_decision now False (isMention msg (Some u)) (ResolveNotificationTarget ms s server (m_channel_id msg))"
proof -
  have dnd: "isDoNotDisturb ms (Some s) now = after (nt_dnd_until (ResolveNotificationTarget ms s server (m_channel_id msg))) now"
    by (simp add: isDoNotDisturb_def future_after [of ms, OF assms(1)] ResolveNotificationTarget_def Let_def)
  show ?thesis
    using assms(3,4) unfolding shouldNotify_def push_decision_def
    by (auto simp: dnd level_agrees [OF assms(2), of _ ms] muted_agrees [of ms s server, OF assms(1,2)] Let_def)
qed

definition sample_settings :: NotificationSettings where
  "sample_settings = \<lparr>ns_default_level = LevelMentions, ns_hide_message_preview = False, ns_dnd_until = None,
     ns_servers = [\<lparr>sno_server_id = 4, sno_level = Some LevelNone, sno_muted_until = None\<rparr>], ns_channels = []\<rparr>"

definition plain_message :: "int \<Rightarrow> int \<Rightarrow> Message" where
  "plain_message c a = \<lparr>m_id = 1, m_channel_id = c, m_author_id = a, m_author_first_name = JStr ''Ann'',
     m_author_last_name = JStr [], m_author_nickname = JStr [], m_author_avatar_url = [], m_content = ''hi'',
     m_attachments = None, m_reply_to_id = Absent, m_reply_to = Absent, m_mentions = None,
     m_mentions_everyone = None, m_embeds = [], m_created_at = [], m_edited_at = None\<rparr>"

theorem push_agrees_witness:
  "shouldNotify (\<lambda>_. None) 0 (plain_message 3 9) \<lparr>nc_currentUserId = Some 7, nc_activeChannelId = 3,
     nc_isPageVisible = False, nc_serverId = 0, nc_settings = Some sample_settings\<rparr> = NotifyMessage"
proof -
  have "positive_ids sample_settings None" by (simp add: positive_ids_def sample_settings_def)
  from push_agrees [of "\<lambda>_. None", OF _ this, of "plain_message 3 9" 7 3 False 0]
  show ?thesis by (simp add: server_of_channel_def plain_message_def sample_settings_def push_decision_def after_def
      ResolveNotificationTarget_def channel_override_def sql_greatest_def sql_time_def isMention_def)
qed

text \<open>A channel the client has not listed is taken for a direct message: whatever the level of its server
  and the default level are, its messages notify at level \<open>all\<close>, while the server obeys its server level.\<close>

theorem unlisted_channel_level:
  assumes "find_channel (m_channel_id msg) (ne_channelsByServer env) = None"
    and "\<forall>d \<in> set (ne_dmChannels env). dm_channel_id d \<noteq> m_channel_id msg"
    and "ne_settings env = Some s" and "Option.bind (channel_override s (m_channel_id msg)) cno_level = None"
    and "Option.bind (server_override s sid) sno_level = Some l"
  shows "resolveLevel (nc_settings (ni_ctx (notify_input env msg))) (nc_serverId (ni_ctx (notify_input env msg)))
      (m_channel_id msg) = LevelAll
    \<and> nt_level (ResolveNotificationTarget ms s (Some sid) (m_channel_id msg)) = l"
proof -
  have "find (\<lambda>d. dm_channel_id d = m_channel_id msg) (ne_dmChannels env) = None"
    using assms(2) by (simp add: find_None_iff)
  with assms show ?thesis
    by (simp add: notify_input_def Let_def resolveServerId_def resolveLevel_def ResolveNotificationTarget_def)
qed

theorem unlisted_channel_level_witness:
  "resolveLevel (Some sample_settings) (nc_serverId (ni_ctx (notify_input
      \<lparr>ne_currentUserId = Some 7, ne_selectedChannelId = 1, ne_isPageVisible = True, ne_channelsByServer = [],
       ne_dmChannels = [], ne_settings = Some sample_settings\<rparr> (plain_message 3 9)))) 3 = LevelAll
   \<and> nt_level (ResolveNotificationTarget (\<lambda>_. None) sample_settings (Some 4) 3) = LevelNone"
proof -
  let ?env = "\<lparr>ne_currentUserId = Some 7, ne_selectedChannelId = 1, ne_isPageVisible = True, ne_channelsByServer = [],
       ne_dmChannels = [], ne_settings = Some sample_settings\<rparr>"
  have "find_channel (m_channel_id (plain_message 3 9)) (ne_channelsByServer ?env) = None"
    by (simp add: find_channel_def record_entries_def List.map_filter_simps)
  then show ?thesis
    using unlisted_channel_level [of "plain_message 3 9" ?env sample_settings 4 LevelNone "\<lambda>_. None"]
    by (simp add: plain_message_def sample_settings_def channel_override_def server_override_def notify_input_def Let_def)
qed

text \<open>Sounds are spaced out. However often \<^verbatim>\<open>playSound\<close> is called and whatever the clock does, two sounds
  that play are at least a second apart, and a sound held to the limit of its channel plays at least three
  seconds after any earlier sound of that channel.\<close>

theorem sounds_spaced:
  "sorted_wrt (\<lambda>a b. sr_now a + 1000 \<le> sr_now b
     \<and> (\<forall>c. po_channelId (sr_opts a) = Some c \<and> po_channelId (sr_opts b) = Some c
          \<and> \<not> po_bypassChannelLimit (sr_opts b) \<longrightarrow> sr_now a + 3000 \<le> sr_now b))
   (sounds_played new_player rs)"
proof -
  have "clock_inv p \<Longrightarrow> sorted_wrt (\<lambda>a b. sr_now a + 1000 \<le> sr_now b
     \<and> (\<forall>c. po_channelId (sr_opts a) = Some c \<and> po_channelId (sr_opts b) = Some c
          \<and> \<not> po_bypassChannelLimit (sr_opts b) \<longrightarrow> sr_now a + 3000 \<le> sr_now b)) (sounds_played p rs)" for p
  proof (induction rs arbitrary: p)
    case (Cons r rs)
    obtain p1 out where o: "playSound (sr_now r) (sr_name r) (sr_opts r) p = (p1, out)" by fastforce
    show ?case
    proof (cases out)
      case None
      with play_cases [OF o Cons.prems] Cons o show ?thesis by simp
    next
      case (Some n)
      with play_cases [OF o Cons.prems] have p1: "clock_inv p1" "so_lastPlayedGlobal p1 = sr_now r"
        "\<forall>c. po_channelId (sr_opts r) = Some c \<longrightarrow> map_get_or 0 (so_lastPlayedByChannel p1) c = sr_now r" by auto
      have "\<forall>x \<in> set (sounds_played p1 rs). rested p1 x" using played_rested [OF p1(1)] by blast
      with Some o p1 Cons.IH [OF p1(1)] show ?thesis by (auto simp: rested_def)
    qed
  qed simp
  then show ?thesis by (simp add: clock_inv_def new_player_def map_get_or_def)
qed

theorem sounds_spaced_witness:
  "let r = (\<lambda>t. \<lparr>sr_now = t, sr_name = MessageSound, sr_opts = \<lparr>po_channelId = Some 1, po_bypassChannelLimit = False\<rparr>\<rparr>)
   in sounds_played new_player [r 5000, r 7000, r 8000] = [r 5000, r 8000]
      \<and> (\<forall>a b. sounds_played new_player [r 5000, r 7000, r 8000] = [a, b] \<longrightarrow> sr_now a + 1000 \<le> sr_now b)"
proof -
  let ?r = "\<lambda>t. \<lparr>sr_now = t, sr_name = MessageSound, sr_opts = \<lparr>po_channelId = Some 1, po_bypassChannelLimit = False\<rparr>\<rparr>"
  have "sounds_played new_player [?r 5000, ?r 7000, ?r 8000] = [?r 5000, ?r 8000]" by code_simp
  with sounds_spaced [of "[?r 5000, ?r 7000, ?r 8000]"] show ?thesis by (simp add: Let_def)
qed

text \<open>A hidden preview leaks nothing. With \<open>hide_message_preview\<close> set, everything the handler does for a
  message - sound, title, body, icon, tag, data - is the same whatever the text, the attachments, the embeds
  and the author's names and picture are.\<close>

theorem hidden_preview:
  assumes "ne_settings env = Some s" and "ns_hide_message_preview s"
  shows "on_notify_message ms now leader permission softPrompt env
      (msg\<lparr>m_content := words, m_attachments := atts, m_embeds := embeds, m_author_first_name := forename,
           m_author_last_name := surname, m_author_nickname := nick, m_author_avatar_url := avatar\<rparr>) p
    = on_notify_message ms now leader permission softPrompt env msg p"
proof -
  let ?m = "msg\<lparr>m_content := words, m_attachments := atts, m_embeds := embeds, m_author_first_name := forename,
           m_author_last_name := surname, m_author_nickname := nick, m_author_avatar_url := avatar\<rparr>"
  have d: "shouldNotify ms now ?m ctx = shouldNotify ms now msg ctx" for ctx
  proof -
    have "isMention ?m u = isMention msg u" for u by (cases u) (simp_all add: isMention_def)
    then show ?thesis by (simp add: shouldNotify_def Let_def)
  qed
  have i: "notify_input env ?m = (notify_input env msg)\<lparr>ni_message := ?m\<rparr>"
    using assms by (simp add: notify_input_def Let_def)
  have n: "notify ms now leader permission ((notify_input env msg)\<lparr>ni_message := ?m\<rparr>) p
      = notify ms now leader permission (notify_input env msg) p"
    by (simp add: notify_def d notify_input_def [of env msg] Let_def)
  show ?thesis by (simp only: on_notify_message_def i n)
qed

theorem hidden_preview_witness:
  "let env = \<lparr>ne_currentUserId = Some 7, ne_selectedChannelId = 1, ne_isPageVisible = True, ne_channelsByServer = [],
       ne_dmChannels = [], ne_settings = Some (sample_settings\<lparr>ns_hide_message_preview := True\<rparr>)\<rparr>
   in on_notify_message (\<lambda>_. None) 9000 True PermGranted False env ((plain_message 3 9)\<lparr>m_content := ''secret''\<rparr>) new_player
    = on_notify_message (\<lambda>_. None) 9000 True PermGranted False env (plain_message 3 9) new_player"
proof -
  let ?env = "\<lparr>ne_currentUserId = Some 7, ne_selectedChannelId = 1, ne_isPageVisible = True, ne_channelsByServer = [],
       ne_dmChannels = [], ne_settings = Some (sample_settings\<lparr>ns_hide_message_preview := True\<rparr>)\<rparr>"
  have "ne_settings ?env = Some (sample_settings\<lparr>ns_hide_message_preview := True\<rparr>)"
    and "ns_hide_message_preview (sample_settings\<lparr>ns_hide_message_preview := True\<rparr>)" by simp_all
  from hidden_preview [OF this, where msg = "plain_message 3 9" and words = "''secret''" and ms = "\<lambda>_. None"
      and now = 9000 and leader = True and permission = PermGranted and softPrompt = False and atts = None
      and embeds = "[]" and forename = "JStr ''Ann''" and surname = "JStr []" and nick = "JStr []"
      and avatar = "[]" and p = new_player]
  show ?thesis by (simp add: plain_message_def Let_def)
qed

end
