(* ===== verification/Leader.thy ===== *)
theory Leader
  imports Prelude "HOL-Library.List_Lexorder" "HOL-Library.Char_ord"
begin

text \<open>
  Which tab plays sounds (\<^verbatim>\<open>services/notifications/leader.ts\<close>): the state of one tab, its handlers and
  timers as steps that give the new state and what the tab broadcasts, the invariant of a tab, and what
  a round of heartbeats among several tabs leaves. A \<open>BroadcastChannel\<close> delivers to the other tabs only.
  Ids compare as strings do in the language, by code units.
\<close>

section \<open>One tab\<close>

datatype LeaderMessage = Heartbeat string | Leaving string

record tab =
  t_isLeaderFlag :: bool
  t_myId :: string
  t_leaderId :: "string option"
  t_channel :: bool
  t_heartbeatTimer :: bool
  t_watchdogTimer :: bool
  t_claimTimer :: bool

definition broadcast :: "LeaderMessage \<Rightarrow> tab \<Rightarrow> LeaderMessage list" where
  "broadcast msg t = (if t_channel t then [msg] else [])"

definition stopHeartbeat :: "tab \<Rightarrow> tab" where
  "stopHeartbeat t = t\<lparr>t_heartbeatTimer := False\<rparr>"

definition becomeLeader :: "tab \<Rightarrow> tab \<times> LeaderMessage list" where
  "becomeLeader t = (t\<lparr>t_isLeaderFlag := True, t_leaderId := Some (t_myId t), t_heartbeatTimer := True\<rparr>,
     broadcast (Heartbeat (t_myId t)) t)"

definition resetWatchdog :: "tab \<Rightarrow> tab" where
  "resetWatchdog t = t\<lparr>t_watchdogTimer := True\<rparr>"

text \<open>The state of the module when it is loaded, and \<open>initLeaderElection\<close>: without \<open>BroadcastChannel\<close> the tab
  always leads; otherwise it starts anew, with \<open>leaderId\<close> left as it was.\<close>

definition module_state :: tab where
  "module_state = \<lparr>t_isLeaderFlag = True, t_myId = [], t_leaderId = None, t_channel = False,
     t_heartbeatTimer = False, t_watchdogTimer = False, t_claimTimer = False\<rparr>"

definition initLeaderElection :: "bool \<Rightarrow> string \<Rightarrow> tab \<Rightarrow> tab" where
  "initLeaderElection supported ident t =
     (if \<not> supported then t\<lparr>t_isLeaderFlag := True\<rparr>
      else (resetWatchdog (t\<lparr>t_myId := ident, t_isLeaderFlag := False, t_channel := True\<rparr>))\<lparr>t_claimTimer := True\<rparr>)"

definition new_tab :: "string \<Rightarrow> tab" where
  "new_tab ident = initLeaderElection True ident module_state"

definition leader_onmessage :: "LeaderMessage \<Rightarrow> tab \<Rightarrow> tab \<times> LeaderMessage list" where
  "leader_onmessage msg t0 = (case msg of
     Heartbeat i \<Rightarrow>
       (let t = t0\<lparr>t_leaderId := Some i\<rparr>;
            t1 = (if t_isLeaderFlag t \<and> i \<noteq> t_myId t \<and> i < t_myId t
                  then stopHeartbeat (t\<lparr>t_isLeaderFlag := False\<rparr>) else t)
        in (resetWatchdog t1, []))
   | Leaving i \<Rightarrow>
       (if t_leaderId t0 = Some i then becomeLeader (t0\<lparr>t_watchdogTimer := False\<rparr>) else (t0, [])))"

text \<open>The timers: the interval of the leader, the watchdog, and the claim 300 ms after the start.\<close>

definition heartbeat_tick :: "tab \<Rightarrow> tab \<times> LeaderMessage list" where
  "heartbeat_tick t = (t, broadcast (Heartbeat (t_myId t)) t)"

definition watchdog_fire :: "tab \<Rightarrow> tab \<times> LeaderMessage list" where
  "watchdog_fire t = becomeLeader (t\<lparr>t_watchdogTimer := False\<rparr>)"

definition claim_fire :: "tab \<Rightarrow> tab \<times> LeaderMessage list" where
  "claim_fire t = (let t1 = t\<lparr>t_claimTimer := False\<rparr>
     in if t_leaderId t1 = None \<or> t_leaderId t1 = Some [] then becomeLeader t1 else (t1, []))"

definition onUnload :: "tab \<Rightarrow> tab \<times> LeaderMessage list" where
  "onUnload t = (t, if t_isLeaderFlag t then broadcast (Leaving (t_myId t)) t else [])"

definition leader_cleanup :: "tab \<Rightarrow> tab \<times> LeaderMessage list" where
  "leader_cleanup t = ((stopHeartbeat t)\<lparr>t_watchdogTimer := False, t_channel := False\<rparr>, [])"

section \<open>The tab as a machine\<close>

datatype tab_input = TabMessage LeaderMessage | TabHeartbeat | TabWatchdog | TabClaim | TabUnload

fun tab_step :: "tab \<Rightarrow> tab_input \<Rightarrow> tab \<times> LeaderMessage list" where
  "tab_step t (TabMessage m) = leader_onmessage m t"
| "tab_step t TabHeartbeat = heartbeat_tick t"
| "tab_step t TabWatchdog = watchdog_fire t"
| "tab_step t TabClaim = claim_fire t"
| "tab_step t TabUnload = onUnload t"

fun tab_enabled :: "tab \<Rightarrow> tab_input \<Rightarrow> bool" where
  "tab_enabled t (TabMessage m) = t_channel t"
| "tab_enabled t TabHeartbeat = t_heartbeatTimer t"
| "tab_enabled t TabWatchdog = t_watchdogTimer t"
| "tab_enabled t TabClaim = t_claimTimer t"
| "tab_enabled t TabUnload = True"

text \<open>The heartbeat runs exactly while the tab leads, and a tab that does not lead has its watchdog set.\<close>

definition tab_inv :: "tab \<Rightarrow> bool" where
  "tab_inv t \<longleftrightarrow> (t_heartbeatTimer t \<longleftrightarrow> t_isLeaderFlag t) \<and> (t_isLeaderFlag t \<or> t_watchdogTimer t)
     \<and> t_channel t \<and> (t_isLeaderFlag t \<longrightarrow> t_leaderId t \<noteq> None)"

interpretation tabs: machine_invariant tab_enabled tab_step tab_inv
proof unfold_locales
  fix t e assume "tab_inv t" and "tab_enabled t e"
  then show "tab_inv (fst (tab_step t e))"
    by (cases e) (auto simp: tab_inv_def leader_onmessage_def becomeLeader_def resetWatchdog_def stopHeartbeat_def
        heartbeat_tick_def watchdog_fire_def claim_fire_def onUnload_def Let_def split: LeaderMessage.split)
qed

lemma init_tab_inv: "tab_inv (new_tab i)"
  by (simp add: tab_inv_def new_tab_def initLeaderElection_def module_state_def resetWatchdog_def)

section \<open>Several tabs\<close>

text \<open>A tab that hears heartbeats, in any order, from other tabs.\<close>

definition hear :: "tab \<Rightarrow> string list \<Rightarrow> tab" where
  "hear t ids = foldl (\<lambda>t i. fst (leader_onmessage (Heartbeat i) t)) t ids"

lemma hear_simps [simp]:
  "hear t [] = t" "hear t (i # ids) = hear (fst (leader_onmessage (Heartbeat i) t)) ids"
  by (simp_all add: hear_def)

lemma onmessage_heartbeat:
  "t_myId (fst (leader_onmessage (Heartbeat i) t)) = t_myId t"
  "t_isLeaderFlag (fst (leader_onmessage (Heartbeat i) t)) = (t_isLeaderFlag t \<and> \<not> i < t_myId t)"
  by (auto simp: leader_onmessage_def Let_def resetWatchdog_def stopHeartbeat_def)

lemma hear_leads:
  "t_myId (hear t ids) = t_myId t
   \<and> (t_isLeaderFlag (hear t ids) \<longleftrightarrow> t_isLeaderFlag t \<and> (\<forall>i \<in> set ids. \<not> i < t_myId t))"
  by (induction ids arbitrary: t) (auto simp: onmessage_heartbeat)

lemma hear_leaderId: "ids \<noteq> [] \<Longrightarrow> t_leaderId (hear t ids) = Some (last ids)"
proof (induction ids arbitrary: t)
  case (Cons i ids)
  have "t_leaderId (fst (leader_onmessage (Heartbeat i) t)) = Some i"
    by (simp add: leader_onmessage_def Let_def resetWatchdog_def stopHeartbeat_def)
  with Cons show ?case by (cases ids) auto
qed simp

text \<open>
  One round: every tab that leads sends one heartbeat, and every tab hears those of all the others, in
  the order \<open>order t\<close> in which they reach it.
\<close>

definition leaders :: "tab list \<Rightarrow> string set" where
  "leaders ts = {t_myId t |t. t \<in> set ts \<and> t_isLeaderFlag t}"

definition heartbeat_round :: "(tab \<Rightarrow> string list) \<Rightarrow> tab list \<Rightarrow> tab list" where
  "heartbeat_round order ts = map (\<lambda>t. hear t (order t)) ts"

definition fair_order :: "(tab \<Rightarrow> string list) \<Rightarrow> tab list \<Rightarrow> bool" where
  "fair_order order ts \<longleftrightarrow> (\<forall>t \<in> set ts. set (order t) = leaders ts - {t_myId t})"

lemma distinct_singleton: "distinct xs \<Longrightarrow> set xs = {a} \<Longrightarrow> xs = [a]"
  by (cases xs; cases "tl xs") auto

section \<open>Properties\<close>

text \<open>A tab can always take over. In every state a tab reaches after \<^verbatim>\<open>initLeaderElection\<close>, its heartbeat
  runs exactly while it leads, and if it does not lead its watchdog is set: should no heartbeat arrive,
  the watchdog makes it the leader and it says so to the others.\<close>

theorem tab_takes_over:
  assumes "run tab_enabled tab_step (new_tab i) es t os"
  shows "(t_heartbeatTimer t \<longleftrightarrow> t_isLeaderFlag t)
    \<and> (\<not> t_isLeaderFlag t \<longrightarrow> tab_enabled t TabWatchdog
         \<and> t_isLeaderFlag (fst (tab_step t TabWatchdog))
         \<and> snd (tab_step t TabWatchdog) = [Heartbeat (t_myId t)])"
  using tabs.inv_run [OF assms init_tab_inv]
  by (auto simp: tab_inv_def watchdog_fire_def becomeLeader_def broadcast_def)

theorem tab_takes_over_witness:
  "t_heartbeatTimer (fst (exec_run tab_step (new_tab ''b'') [TabClaim, TabMessage (Heartbeat ''a'')])) = False"
proof -
  let ?es = "[TabClaim, TabMessage (Heartbeat ''a'')]"
  have "run tab_enabled tab_step (new_tab ''b'') ?es
      (fst (exec_run tab_step (new_tab ''b'') ?es)) (snd (exec_run tab_step (new_tab ''b'') ?es))"
    by (rule exec_run_run) (code_simp, simp)
  moreover have "\<not> t_isLeaderFlag (fst (exec_run tab_step (new_tab ''b'') ?es))" by code_simp
  ultimately show ?thesis using tab_takes_over by blast
qed

text \<open>C11. One round settles the election. Among any tabs with different ids, some of them leading, once every
  leader's heartbeat has reached the others - in whatever order each hears them - exactly one tab leads:
  the one with the smallest id among those that led.\<close>

theorem one_leader_left:
  assumes "leaders ts \<noteq> {}" and "fair_order order ts" and "distinct (map t_myId ts)"
  shows "map t_myId (filter t_isLeaderFlag (heartbeat_round order ts)) = [Min (leaders ts)]"
proof -
  have fin: "finite (leaders ts)" by (simp add: leaders_def setcompr_eq_image)
  have keep: "t_isLeaderFlag (hear t (order t)) \<longleftrightarrow> t_isLeaderFlag t \<and> t_myId t = Min (leaders ts)"
    if "t \<in> set ts" for t
  proof
    assume h: "t_isLeaderFlag (hear t (order t))"
    with that assms(2) have l: "t_isLeaderFlag t" and all: "\<forall>i \<in> leaders ts - {t_myId t}. \<not> i < t_myId t"
      by (simp_all add: hear_leads fair_order_def)
    have "t_myId t \<in> leaders ts" using that l by (auto simp: leaders_def)
    moreover have "t_myId t \<le> i" if "i \<in> leaders ts" for i using all that by (cases "i = t_myId t") (auto simp: not_less)
    ultimately have "Min (leaders ts) = t_myId t" by (intro Min_eqI [OF fin]) auto
    with l show "t_isLeaderFlag t \<and> t_myId t = Min (leaders ts)" by simp
  next
    assume h: "t_isLeaderFlag t \<and> t_myId t = Min (leaders ts)"
    then have "\<forall>i \<in> leaders ts. \<not> i < t_myId t" using fin by (auto simp: not_less)
    with that h assms(2) show "t_isLeaderFlag (hear t (order t))" by (auto simp: hear_leads fair_order_def)
  qed
  have "Min (leaders ts) \<in> leaders ts" using fin assms(1) by (rule Min_in)
  then obtain t where t: "t \<in> set ts" "t_isLeaderFlag t" "t_myId t = Min (leaders ts)"
    by (auto simp: leaders_def)
  have ids: "map t_myId (filter t_isLeaderFlag (heartbeat_round order ts))
      = map t_myId (filter (\<lambda>t. t_isLeaderFlag (hear t (order t))) ts)"
    by (simp add: heartbeat_round_def filter_map comp_def hear_leads)
  have "set (map t_myId (filter (\<lambda>t. t_isLeaderFlag (hear t (order t))) ts)) = {Min (leaders ts)}"
  proof -
    have "t \<in> set (filter (\<lambda>t. t_isLeaderFlag (hear t (order t))) ts)" using t keep [OF t(1)] by simp
    then have "Min (leaders ts) \<in> t_myId ` set (filter (\<lambda>t. t_isLeaderFlag (hear t (order t))) ts)"
      using t(3) by (metis imageI)
    then show ?thesis using keep by auto
  qed
  moreover have "distinct (map t_myId (filter (\<lambda>t. t_isLeaderFlag (hear t (order t))) ts))"
    by (rule distinct_map_filter [OF assms(3)])
  ultimately show ?thesis unfolding ids by (metis distinct_singleton)
qed

theorem one_leader_left_witness:
  "let ts = map (\<lambda>i. fst (claim_fire (new_tab i))) [''c'', ''a'', ''b''];
       order = (\<lambda>t. filter (\<lambda>i. i \<noteq> t_myId t) [''a'', ''b'', ''c''])
   in map t_myId (filter t_isLeaderFlag (heartbeat_round order ts)) = [''a'']"
proof -
  let ?ts = "map (\<lambda>i. fst (claim_fire (new_tab i))) [''c'', ''a'', ''b'']"
  let ?order = "\<lambda>t. filter (\<lambda>i. i \<noteq> t_myId t) [''a'', ''b'', ''c'']"
  have l: "leaders ?ts = set (map t_myId (filter t_isLeaderFlag ?ts))" by (auto simp: leaders_def)
  also have "map t_myId (filter t_isLeaderFlag ?ts) = [''c'', ''a'', ''b'']" by code_simp
  finally have l: "leaders ?ts = {''c'', ''a'', ''b''}" by simp
  have "map t_myId ?ts = [''c'', ''a'', ''b'']" by code_simp
  then have d: "distinct (map t_myId ?ts)" by simp
  have f: "fair_order ?order ?ts" unfolding fair_order_def l
    by (intro ballI) (simp only: set_filter list.set, blast)
  have n: "leaders ?ts \<noteq> {}" unfolding l by simp
  have "Min (leaders ?ts) = ''a''" unfolding l by code_simp
  with one_leader_left [OF n f d] show ?thesis by (simp only: Let_def)
qed

end
