(* ===== verification/Messages.thy ===== *)
theory Messages
  imports SocketApi
begin

text \<open>
  The message lists of the open channels (\<^verbatim>\<open>hooks/useMessages.ts\<close>). The record holds the state of the hook and
  the states it is given setters for. A handler that awaits a command is split there: \<open>_start\<close> is what runs
  before (with the request, if any), \<open>_done\<close> what runs with the answer (\<open>Inl\<close> the text of the error). A
  handler reads \<open>paginationByChannel\<close> and \<open>messagesByChannel\<close> as they were when it was rendered (\<open>seen\<close>), the
  setters apply to the state at the time.
\<close>

section \<open>State\<close>

record message_view =
  mv_messages :: MessagesByChannel
  mv_loaded :: "bool record_map"
  mv_pagination :: PaginationByChannel
  mv_replyTo :: "Message option"
  mv_error :: string
  mv_channels :: ChannelsByServer

definition new_view :: message_view where
  "new_view = \<lparr>mv_messages = [], mv_loaded = [], mv_pagination = [], mv_replyTo = None, mv_error = [],
     mv_channels = []\<rparr>"

text \<open>What a missing entry reads as: no cursor, nothing more, nothing loading.\<close>

definition no_pagination :: ChannelPagination where
  "no_pagination = \<lparr>pg_cursor = [], pg_hasMore = False, pg_isLoadingMore = False, pg_error = False,
     pg_newerCursor = None, pg_hasMoreNewer = None, pg_isLoadingNewer = None\<rparr>"

definition pagination_of :: "int \<Rightarrow> message_view \<Rightarrow> ChannelPagination" where
  "pagination_of c v = map_get_or no_pagination (mv_pagination v) c"

definition shown :: "int \<Rightarrow> message_view \<Rightarrow> Message list" where
  "shown c v = map_get_or [] (mv_messages v) c"

definition set_messages :: "int \<Rightarrow> Message list \<Rightarrow> message_view \<Rightarrow> message_view" where
  "set_messages c ms v = v\<lparr>mv_messages := map_set c ms (mv_messages v)\<rparr>"

definition set_pagination :: "int \<Rightarrow> ChannelPagination \<Rightarrow> message_view \<Rightarrow> message_view" where
  "set_pagination c p v = v\<lparr>mv_pagination := map_set c p (mv_pagination v)\<rparr>"

definition windowed :: "int \<Rightarrow> message_view \<Rightarrow> bool" where
  "windowed c v \<longleftrightarrow> pg_hasMoreNewer (pagination_of c v) = Some True"

section \<open>Socket events\<close>

definition add_unknown_channel :: "int \<Rightarrow> int \<Rightarrow> int list \<Rightarrow> ChannelsByServer \<Rightarrow> ChannelsByServer" where
  "add_unknown_channel channelId selectedServer dmChannelIds prev =
     (if (\<exists>(s, cs) \<in> set prev. \<exists>ch \<in> set cs. ch_id ch = channelId) \<or> selectedServer \<le> 0 \<or> channelId \<in> set dmChannelIds
      then prev
      else map_set selectedServer (map_get_or [] prev selectedServer @
             [\<lparr>ch_id = channelId, ch_server_id = selectedServer, ch_name = show_int channelId, ch_type = TextChannel\<rparr>]) prev)"

definition on_message :: "int \<Rightarrow> int list \<Rightarrow> Message \<Rightarrow> message_view \<Rightarrow> message_view" where
  "on_message selectedServer dmChannelIds incoming v =
     (let c = m_channel_id incoming
      in if windowed c v then v
         else (set_messages c (shown c v @ [incoming]) v)
                \<lparr>mv_channels := add_unknown_channel c selectedServer dmChannelIds (mv_channels v)\<rparr>)"

fun replace_first :: "('a \<Rightarrow> bool) \<Rightarrow> ('a \<Rightarrow> 'a) \<Rightarrow> 'a list \<Rightarrow> 'a list" where
  "replace_first P f [] = []"
| "replace_first P f (x # xs) = (if P x then f x # xs else x # replace_first P f xs)"

definition on_message_embeds :: "int \<Rightarrow> int \<Rightarrow> LinkPreview list \<Rightarrow> message_view \<Rightarrow> message_view" where
  "on_message_embeds channelId messageId embeds v = (case map_get (mv_messages v) channelId of
     None \<Rightarrow> v
   | Some ms \<Rightarrow> (if \<exists>m \<in> set ms. m_id m = messageId
       then set_messages channelId (replace_first (\<lambda>m. m_id m = messageId) (\<lambda>m. m\<lparr>m_embeds := embeds\<rparr>) ms) v
       else v))"

definition edit_one :: "int \<Rightarrow> string \<Rightarrow> string \<Rightarrow> Message \<Rightarrow> Message" where
  "edit_one messageId content edited_at m =
     (if m_id m = messageId then m\<lparr>m_content := content, m_edited_at := Some edited_at\<rparr>
      else case m_reply_to m of
        Val r \<Rightarrow> (if rp_message_id r = messageId then m\<lparr>m_reply_to := Val (r\<lparr>rp_content := content\<rparr>)\<rparr> else m)
      | _ \<Rightarrow> m)"

definition touches :: "int \<Rightarrow> Message \<Rightarrow> bool" where
  "touches messageId m \<longleftrightarrow> m_id m = messageId
     \<or> (case m_reply_to m of Val r \<Rightarrow> rp_message_id r = messageId | _ \<Rightarrow> False)"

definition on_message_edited :: "int \<Rightarrow> int \<Rightarrow> string \<Rightarrow> string \<Rightarrow> message_view \<Rightarrow> message_view" where
  "on_message_edited channelId messageId content edited_at v = (case map_get (mv_messages v) channelId of
     None \<Rightarrow> v
   | Some ms \<Rightarrow> (if \<exists>m \<in> set ms. touches messageId m
       then set_messages channelId (map (edit_one messageId content edited_at) ms) v else v))"

section \<open>Loading\<close>

definition lazy_load_start :: "bool \<Rightarrow> int \<Rightarrow> message_view \<Rightarrow> bool" where
  "lazy_load_start online c v \<longleftrightarrow> 0 < c \<and> online \<and> map_get (mv_loaded v) c \<noteq> Some True"

definition lazy_load_done :: "int \<Rightarrow> string + Message page \<Rightarrow> message_view \<Rightarrow> message_view" where
  "lazy_load_done c res v = (case res of
     Inl e \<Rightarrow> v\<lparr>mv_error := e\<rparr>
   | Inr p \<Rightarrow>
       (set_pagination c (no_pagination\<lparr>pg_cursor := page_nextCursor p, pg_hasMore := page_hasMore p\<rparr>)
         (set_messages c (page_items p) v))\<lparr>mv_loaded := map_set c True (mv_loaded v)\<rparr>)"

definition loadOlder_start :: "bool \<Rightarrow> int \<Rightarrow> PaginationByChannel \<Rightarrow> message_view \<Rightarrow> message_view \<times> string option" where
  "loadOlder_start online c seen v = (case map_get seen c of
     None \<Rightarrow> (v, None)
   | Some st \<Rightarrow>
       (if \<not> online \<or> c \<le> 0 \<or> pg_isLoadingMore st \<or> \<not> pg_hasMore st \<or> pg_cursor st = [] then (v, None)
        else (set_pagination c ((pagination_of c v)\<lparr>pg_isLoadingMore := True, pg_error := False\<rparr>) v,
              Some (pg_cursor st))))"

definition loadOlder_done :: "int \<Rightarrow> string + Message page \<Rightarrow> message_view \<Rightarrow> message_view" where
  "loadOlder_done c res v = (case res of
     Inl _ \<Rightarrow> set_pagination c ((pagination_of c v)\<lparr>pg_isLoadingMore := False, pg_error := True\<rparr>) v
   | Inr p \<Rightarrow> set_pagination c ((pagination_of c v)\<lparr>pg_cursor := page_nextCursor p, pg_hasMore := page_hasMore p,
        pg_isLoadingMore := False, pg_error := False\<rparr>)
       (set_messages c (page_items p @ shown c v) v))"

datatype jump_result = JumpRefused | JumpPresent | JumpRequest

definition jump_start :: "bool \<Rightarrow> int \<Rightarrow> int \<Rightarrow> MessagesByChannel \<Rightarrow> message_view \<Rightarrow> message_view \<times> jump_result" where
  "jump_start online c messageId seen v =
     (if \<not> online \<or> c \<le> 0 \<or> messageId \<le> 0 then (v, JumpRefused)
      else if \<exists>m \<in> set (map_get_or [] seen c). m_id m = messageId then (v, JumpPresent)
      else (v\<lparr>mv_loaded := map_set c True (mv_loaded v)\<rparr>, JumpRequest))"

definition jump_done :: "int \<Rightarrow> string + window_page \<Rightarrow> message_view \<Rightarrow> message_view \<times> bool" where
  "jump_done c res v = (case res of
     Inl e \<Rightarrow> (v\<lparr>mv_error := e\<rparr>, False)
   | Inr w \<Rightarrow> (set_pagination c \<lparr>pg_cursor = win_olderCursor w, pg_hasMore = win_hasMoreOlder w,
          pg_isLoadingMore = False, pg_error = False, pg_newerCursor = Some (win_newerCursor w),
          pg_hasMoreNewer = Some (win_hasMoreNewer w), pg_isLoadingNewer = Some False\<rparr>
        (set_messages c (win_messages w) v), True))"

definition loadNewer_start :: "bool \<Rightarrow> int \<Rightarrow> PaginationByChannel \<Rightarrow> message_view \<Rightarrow> message_view \<times> string option" where
  "loadNewer_start online c seen v = (case map_get seen c of
     None \<Rightarrow> (v, None)
   | Some st \<Rightarrow>
       (if \<not> online \<or> c \<le> 0 \<or> pg_isLoadingNewer st = Some True \<or> pg_hasMoreNewer st \<noteq> Some True then (v, None)
        else case pg_newerCursor st of
          Some (ch # cur) \<Rightarrow>
            (set_pagination c ((pagination_of c v)\<lparr>pg_isLoadingNewer := Some True\<rparr>) v, Some (ch # cur))
        | _ \<Rightarrow> (v, None)))"

definition loadNewer_done :: "int \<Rightarrow> string + Message page \<Rightarrow> message_view \<Rightarrow> message_view" where
  "loadNewer_done c res v = (case res of
     Inl _ \<Rightarrow> set_pagination c ((pagination_of c v)\<lparr>pg_isLoadingNewer := Some False\<rparr>) v
   | Inr p \<Rightarrow> set_pagination c ((pagination_of c v)\<lparr>pg_newerCursor := Some (page_nextCursor p),
        pg_hasMoreNewer := Some (page_hasMore p), pg_isLoadingNewer := Some False\<rparr>)
       (set_messages c (shown c v @ page_items p) v))"

definition resetToLiveTail_start :: "bool \<Rightarrow> int \<Rightarrow> bool" where
  "resetToLiveTail_start online c \<longleftrightarrow> online \<and> 0 < c"

definition resetToLiveTail_done :: "int \<Rightarrow> string + Message page \<Rightarrow> message_view \<Rightarrow> message_view" where
  "resetToLiveTail_done c res v = (case res of
     Inl e \<Rightarrow> v\<lparr>mv_error := e\<rparr>
   | Inr p \<Rightarrow> set_pagination c \<lparr>pg_cursor = page_nextCursor p, pg_hasMore = page_hasMore p,
        pg_isLoadingMore = False, pg_error = False, pg_newerCursor = None,
        pg_hasMoreNewer = Some False, pg_isLoadingNewer = Some False\<rparr>
       (set_messages c (page_items p) v))"

text \<open>The effect of a channel switch: a channel left in a window is reloaded at its tail.\<close>

definition select_channel_resets :: "bool \<Rightarrow> int \<Rightarrow> message_view \<Rightarrow> bool" where
  "select_channel_resets online c v \<longleftrightarrow> 0 < c \<and> windowed c v \<and> resetToLiveTail_start online c"

section \<open>Sending, deleting, editing\<close>

definition handleSend_start :: "bool \<Rightarrow> int \<Rightarrow> message_view \<Rightarrow> message_view \<times> bool" where
  "handleSend_start online selectedChannelId v =
     (if \<not> online \<or> selectedChannelId \<le> 0 then (v, False) else (v\<lparr>mv_error := []\<rparr>, True))"

definition handleSend_done :: "string + unit \<Rightarrow> message_view \<Rightarrow> message_view" where
  "handleSend_done res v = (case res of Inl e \<Rightarrow> v\<lparr>mv_error := e\<rparr> | Inr _ \<Rightarrow> v\<lparr>mv_replyTo := None\<rparr>)"

definition drop_message :: "int \<Rightarrow> int \<Rightarrow> message_view \<Rightarrow> message_view" where
  "drop_message messageId c v = (case map_get (mv_messages v) c of
     None \<Rightarrow> v
   | Some ms \<Rightarrow> (let next = filter (\<lambda>m. m_id m \<noteq> messageId) ms
       in if length next = length ms then v else set_messages c next v))"

definition handleDelete_start :: "bool \<Rightarrow> int \<Rightarrow> int \<Rightarrow> message_view \<Rightarrow> message_view \<times> bool" where
  "handleDelete_start online messageId c v =
     (if \<not> online then (v\<lparr>mv_error := ''No connection''\<rparr>, False) else (drop_message messageId c v, True))"

text \<open>When the delete fails, the list is fetched again; \<open>refetched\<close> is that second answer.\<close>

definition handleDelete_done :: "int \<Rightarrow> string + unit \<Rightarrow> (string + Message page) option \<Rightarrow> message_view \<Rightarrow> message_view" where
  "handleDelete_done c res refetched v = (case res of
     Inr _ \<Rightarrow> v
   | Inl e \<Rightarrow> (case refetched of
       Some (Inr p) \<Rightarrow> set_messages c (page_items p) (v\<lparr>mv_error := e\<rparr>)
     | _ \<Rightarrow> v\<lparr>mv_error := e\<rparr>))"

definition NO_CONNECTION_RU :: string where
  "NO_CONNECTION_RU = map char_of [208, 157, 208, 181, 209, 130, 32, 209, 129, 208, 190, 208, 181, 208, 180, 208,
     184, 208, 189, 208, 181, 208, 189, 208, 184, 209, 143 :: nat]"

text \<open>\<open>handleEditMessage\<close> leaves the state alone: it throws without a connection, otherwise its promise is that
  of the \<open>edit_message\<close> command.\<close>

definition handleEditMessage :: "bool \<Rightarrow> nat \<Rightarrow> int \<Rightarrow> string \<Rightarrow> chat_socket \<Rightarrow> string + (chat_socket \<times> effect list)" where
  "handleEditMessage online promise messageId content s =
     (if \<not> online then Inl NO_CONNECTION_RU else Inr (editMessage promise messageId content s))"

end
