(* ===== verification/History.thy ===== *)
theory History
  imports Messages
begin

text \<open>
  The message lists against the history of the server. The pages are those of
  \<^verbatim>\<open>internal/storage/postgresql/websocket.go\<close> (\<open>GetMessages\<close>, \<open>GetMessagesAfter\<close>, \<open>GetMessagesAround\<close>), on the
  list of a channel's messages, oldest first; ids grow with the creation time, so a cursor is the id it
  encodes (\<open>enc\<close>, read back by \<open>dec\<close>), and \<open>newest\<close> is the highest id given so far. The events of one channel are requests answered at once, messages that
  arrive, and deletions.
\<close>

section \<open>The pages of the server\<close>

definition before :: "int option \<Rightarrow> Message list \<Rightarrow> Message list" where
  "before bound H = (case bound of None \<Rightarrow> H | Some i \<Rightarrow> filter (\<lambda>m. m_id m < i) H)"

definition last_of :: "nat \<Rightarrow> 'a list \<Rightarrow> 'a list" where
  "last_of n xs = drop (length xs - n) xs"

definition older_page :: "(int \<Rightarrow> string) \<Rightarrow> nat \<Rightarrow> int option \<Rightarrow> Message list \<Rightarrow> Message page" where
  "older_page enc limit bound H =
     (let rows = before bound H; page = last_of limit rows; hasMore = limit < length rows
      in \<lparr>page_items = page,
          page_nextCursor = (if hasMore \<and> page \<noteq> [] then enc (m_id (hd page)) else []),
          page_hasMore = hasMore\<rparr>)"

definition newer_page :: "(int \<Rightarrow> string) \<Rightarrow> nat \<Rightarrow> int \<Rightarrow> Message list \<Rightarrow> Message page" where
  "newer_page enc limit bound H =
     (let rows = filter (\<lambda>m. bound < m_id m) H; page = take limit rows; hasMore = limit < length rows
      in \<lparr>page_items = page,
          page_nextCursor = (if hasMore \<and> page \<noteq> [] then enc (m_id (last page)) else []),
          page_hasMore = hasMore\<rparr>)"

definition around_page :: "(int \<Rightarrow> string) \<Rightarrow> nat \<Rightarrow> int \<Rightarrow> Message list \<Rightarrow> string + window_page" where
  "around_page enc limit anchor H =
     (if anchor \<notin> m_id ` set H then Inl ''message not found''
      else let olderRows = filter (\<lambda>m. m_id m \<le> anchor) H; newerRows = filter (\<lambda>m. anchor < m_id m) H;
               older = last_of limit olderRows; newer = take limit newerRows; messages = older @ newer
           in Inr \<lparr>win_messages = messages,
                win_olderCursor = (if limit < length olderRows \<and> messages \<noteq> [] then enc (m_id (hd messages)) else []),
                win_newerCursor = (if limit < length newerRows \<and> messages \<noteq> [] then enc (m_id (last messages)) else []),
                win_hasMoreOlder = (limit < length olderRows),
                win_hasMoreNewer = (limit < length newerRows)\<rparr>)"

section \<open>Events of a channel\<close>

datatype history_event =
    Live Message
  | Tail bool
  | Older bool
  | Newer bool
  | Jump bool int
  | Delete int

definition answer :: "bool \<Rightarrow> 'a \<Rightarrow> string + 'a" where
  "answer ok x = (if ok then Inr x else Inl ''Chat response timeout'')"

fun history_step :: "(int \<Rightarrow> string) \<Rightarrow> (string \<Rightarrow> int) \<Rightarrow> int \<Rightarrow> int \<times> Message list \<times> message_view \<Rightarrow> history_event \<Rightarrow>
    (int \<times> Message list \<times> message_view) \<times> unit list" where
  "history_step enc dec c (newest, H, v) (Live m) = ((m_id m, H @ [m], on_message 0 [] m v), [])"
| "history_step enc dec c (newest, H, v) (Tail ok) =
     ((newest, H, if resetToLiveTail_start True c then resetToLiveTail_done c (answer ok (older_page enc 100 None H)) v else v), [])"
| "history_step enc dec c (newest, H, v) (Older ok) =
     ((newest, H, case loadOlder_start True c (mv_pagination v) v of
        (v1, Some cur) \<Rightarrow> loadOlder_done c (answer ok (older_page enc 50 (Some (dec cur)) H)) v1
      | (v1, None) \<Rightarrow> v1), [])"
| "history_step enc dec c (newest, H, v) (Newer ok) =
     ((newest, H, case loadNewer_start True c (mv_pagination v) v of
        (v1, Some cur) \<Rightarrow> loadNewer_done c (answer ok (newer_page enc 50 (dec cur) H)) v1
      | (v1, None) \<Rightarrow> v1), [])"
| "history_step enc dec c (newest, H, v) (Jump ok i) =
     ((newest, H, case jump_start True c i (mv_messages v) v of
        (v1, JumpRequest) \<Rightarrow> fst (jump_done c (if ok then around_page enc 25 i H else Inl ''Chat response timeout'') v1)
      | (v1, _) \<Rightarrow> v1), [])"
| "history_step enc dec c (newest, H, v) (Delete i) =
     ((newest, filter (\<lambda>m. m_id m \<noteq> i) H, handleDelete_done c (Inr ()) None (fst (handleDelete_start True i c v))), [])"

fun history_enabled :: "int \<Rightarrow> int \<times> Message list \<times> message_view \<Rightarrow> history_event \<Rightarrow> bool" where
  "history_enabled c (newest, H, v) (Live m) = (m_channel_id m = c \<and> 0 < m_id m \<and> newest < m_id m)"
| "history_enabled c (newest, H, v) e = True"

section \<open>The list is a window\<close>

definition codec :: "(int \<Rightarrow> string) \<Rightarrow> (string \<Rightarrow> int) \<Rightarrow> bool" where
  "codec enc dec \<longleftrightarrow> (\<forall>i>0. dec (enc i) = i \<and> enc i \<noteq> [])"

definition in_window :: "(string \<Rightarrow> int) \<Rightarrow> ChannelPagination \<Rightarrow> int \<Rightarrow> bool" where
  "in_window dec p i \<longleftrightarrow> (pg_hasMore p \<longrightarrow> dec (pg_cursor p) \<le> i)
     \<and> (pg_hasMoreNewer p = Some True \<longrightarrow> (\<exists>cur. pg_newerCursor p = Some cur \<and> i \<le> dec cur))"

definition ordered :: "Message list \<Rightarrow> bool" where
  "ordered H \<longleftrightarrow> sorted_wrt (\<lambda>x y. m_id x < m_id y) H \<and> (\<forall>m \<in> set H. 0 < m_id m)"

definition newer_bound :: "(string \<Rightarrow> int) \<Rightarrow> int \<Rightarrow> message_view \<Rightarrow> int" where
  "newer_bound dec c v = dec (the (pg_newerCursor (pagination_of c v)))"

definition hist_inv :: "(int \<Rightarrow> string) \<Rightarrow> (string \<Rightarrow> int) \<Rightarrow> int \<Rightarrow> int \<times> Message list \<times> message_view \<Rightarrow> bool" where
  "hist_inv enc dec c s = (case s of (newest, H, v) \<Rightarrow> codec enc dec \<and> ordered H \<and> (\<forall>m \<in> set H. m_id m \<le> newest)
     \<and> (pg_hasMore (pagination_of c v) \<longrightarrow> dec (pg_cursor (pagination_of c v)) \<le> newest)
     \<and> (windowed c v \<longrightarrow> pg_newerCursor (pagination_of c v) \<noteq> None \<and> newer_bound dec c v \<le> newest
          \<and> (pg_hasMore (pagination_of c v) \<longrightarrow> dec (pg_cursor (pagination_of c v)) \<le> newer_bound dec c v))
     \<and> shown c v = filter (\<lambda>m. in_window dec (pagination_of c v) (m_id m)) H)"

lemma view_simps [simp]:
  "shown c (set_messages c ms v) = ms" "shown c (set_pagination c p v) = shown c v"
  "pagination_of c (set_pagination c p v) = p" "pagination_of c (set_messages c ms v) = pagination_of c v"
  "shown c (v\<lparr>mv_error := e\<rparr>) = shown c v" "pagination_of c (v\<lparr>mv_error := e\<rparr>) = pagination_of c v"
  "shown c (v\<lparr>mv_loaded := l\<rparr>) = shown c v" "pagination_of c (v\<lparr>mv_loaded := l\<rparr>) = pagination_of c v"
  "shown c (v\<lparr>mv_channels := k\<rparr>) = shown c v" "pagination_of c (v\<lparr>mv_channels := k\<rparr>) = pagination_of c v"
  by (simp_all add: shown_def pagination_of_def set_messages_def set_pagination_def)

lemma ordered_filter: "ordered H \<Longrightarrow> ordered (filter P H)"
  by (simp add: ordered_def sorted_wrt_filter)

lemma ordered_snoc: "ordered (H @ [m]) \<longleftrightarrow> ordered H \<and> 0 < m_id m \<and> (\<forall>x \<in> set H. m_id x < m_id m)"
  by (auto simp: ordered_def sorted_wrt_append)

text \<open>The end of an ordered list, from one of its elements on, and its start up to one.\<close>

lemma last_of_all: "length xs \<le> n \<Longrightarrow> last_of n xs = xs"
  by (simp add: last_of_def)

lemma last_of_from:
  assumes "ordered xs" and "n < length xs" and "0 < n"
  shows "last_of n xs \<noteq> [] \<and> 0 < m_id (hd (last_of n xs))
    \<and> last_of n xs = filter (\<lambda>m. m_id (hd (last_of n xs)) \<le> m_id m) xs"
proof -
  let ?k = "length xs - n"
  have split: "xs = take ?k xs @ drop ?k xs" by simp
  have ne: "drop ?k xs \<noteq> []" using assms by simp
  then have h: "hd (drop ?k xs) \<in> set (drop ?k xs)" by simp
  have all: "\<forall>x \<in> set (take ?k xs). \<forall>y \<in> set (drop ?k xs). m_id x < m_id y"
    using assms(1) unfolding ordered_def by (metis split sorted_wrt_append)
  have tail: "sorted_wrt (\<lambda>x y. m_id x < m_id y) (drop ?k xs)"
    using assms(1) by (simp add: ordered_def sorted_wrt_drop)
  have up: "m_id (hd (drop ?k xs)) \<le> m_id y" if "y \<in> set (drop ?k xs)" for y
    using tail ne that by (cases "drop ?k xs") auto
  have "filter (\<lambda>m. m_id (hd (drop ?k xs)) \<le> m_id m) (take ?k xs) = []"
    using all h by (auto simp: filter_empty_conv not_le)
  moreover have "filter (\<lambda>m. m_id (hd (drop ?k xs)) \<le> m_id m) (drop ?k xs) = drop ?k xs"
    using up by (simp add: filter_id_conv)
  ultimately have "filter (\<lambda>m. m_id (hd (drop ?k xs)) \<le> m_id m) xs = drop ?k xs"
    by (subst split) (simp only: filter_append append_Nil)
  moreover have "0 < m_id (hd (drop ?k xs))" using assms(1) h by (auto simp: ordered_def dest: in_set_dropD)
  ultimately show ?thesis using ne by (simp add: last_of_def)
qed

lemma take_upto:
  assumes "ordered xs" and "n < length xs" and "0 < n"
  shows "take n xs \<noteq> [] \<and> 0 < m_id (last (take n xs))
    \<and> take n xs = filter (\<lambda>m. m_id m \<le> m_id (last (take n xs))) xs"
proof -
  have split: "xs = take n xs @ drop n xs" by simp
  have ne: "take n xs \<noteq> []" using assms by (cases xs) auto
  then have h: "last (take n xs) \<in> set (take n xs)" by simp
  have all: "\<forall>x \<in> set (take n xs). \<forall>y \<in> set (drop n xs). m_id x < m_id y"
    using assms(1) unfolding ordered_def by (metis split sorted_wrt_append)
  have "sorted_wrt (\<lambda>x y. m_id x < m_id y) (butlast (take n xs) @ [last (take n xs)])"
    using assms(1) ne by (simp add: ordered_def sorted_wrt_take)
  then have "\<forall>y \<in> set (butlast (take n xs)). m_id y < m_id (last (take n xs))" by (simp add: sorted_wrt_append)
  moreover have "set (take n xs) = insert (last (take n xs)) (set (butlast (take n xs)))"
    using ne by (metis append_butlast_last_id list.simps(15) rotate1.simps(2) set_rotate1)
  ultimately have up: "\<forall>y \<in> set (take n xs). m_id y \<le> m_id (last (take n xs))" by auto
  have "filter (\<lambda>m. m_id m \<le> m_id (last (take n xs))) (drop n xs) = []"
    using all h by (auto simp: filter_empty_conv not_le)
  moreover have "filter (\<lambda>m. m_id m \<le> m_id (last (take n xs))) (take n xs) = take n xs"
    using up by (simp add: filter_id_conv)
  ultimately have "filter (\<lambda>m. m_id m \<le> m_id (last (take n xs))) xs = take n xs"
    by (subst split) (simp only: filter_append append_Nil2)
  moreover have "0 < m_id (last (take n xs))" using assms(1) h by (auto simp: ordered_def dest: in_set_takeD)
  ultimately show ?thesis using ne by simp
qed


lemma filter_adjacent:
  assumes "ordered H" and "\<And>x y. x \<in> set H \<Longrightarrow> y \<in> set H \<Longrightarrow> P x \<Longrightarrow> Q y \<Longrightarrow> m_id x < m_id y"
  shows "filter P H @ filter Q H = filter (\<lambda>m. P m \<or> Q m) H"
  using assms
proof (induction H)
  case (Cons a H)
  have o: "ordered H" and up: "\<forall>x \<in> set H. m_id a < m_id x" using Cons.prems(1) by (auto simp: ordered_def)
  have IH: "filter P H @ filter Q H = filter (\<lambda>m. P m \<or> Q m) H" using Cons.IH [OF o] Cons.prems(2) by simp
  show ?case
  proof (cases "Q a \<and> \<not> P a")
    case True
    have "\<not> P x" if x: "x \<in> set H" for x
    proof
      assume "P x"
      then have "m_id x < m_id a" using Cons.prems(2) [of x a] x True by simp
      moreover have "m_id a < m_id x" using up x by blast
      ultimately show False by simp
    qed
    then have "filter P H = []" by (simp add: filter_empty_conv)
    with True IH show ?thesis by simp
  next
    case False
    then consider "P a" "\<not> Q a" | "P a" "Q a" | "\<not> P a" "\<not> Q a" by blast
    then show ?thesis
    proof cases
      case 2
      with Cons.prems(2) [of a a] show ?thesis by simp
    qed (use IH in simp_all)
  qed
qed simp

lemma older_page_items:
  fixes bound :: "int option"
  assumes "ordered H" and "codec enc dec" and "0 < limit"
  defines "p \<equiv> older_page enc limit bound H"
  shows "page_items p = filter (\<lambda>m. page_hasMore p \<longrightarrow> dec (page_nextCursor p) \<le> m_id m) (before bound H)"
    and "page_hasMore p \<Longrightarrow> \<exists>m \<in> set (before bound H). dec (page_nextCursor p) = m_id m"
proof -
  have o: "ordered (before bound H)" using assms(1) by (cases bound) (simp_all add: before_def ordered_filter)
  have "page_items p = filter (\<lambda>m. page_hasMore p \<longrightarrow> dec (page_nextCursor p) \<le> m_id m) (before bound H)
    \<and> (page_hasMore p \<longrightarrow> (\<exists>m \<in> set (before bound H). dec (page_nextCursor p) = m_id m))"
  proof (cases "limit < length (before bound H)")
    case True
    from last_of_from [OF o True assms(3)] have w: "last_of limit (before bound H) \<noteq> []"
      "0 < m_id (hd (last_of limit (before bound H)))"
      "last_of limit (before bound H) = filter (\<lambda>m. m_id (hd (last_of limit (before bound H))) \<le> m_id m) (before bound H)"
      by simp_all
    have "hd (last_of limit (before bound H)) \<in> set (before bound H)"
      using w(1) by (metis hd_in_set in_set_dropD last_of_def)
    with w assms(2) True show ?thesis by (auto simp: p_def older_page_def Let_def codec_def)
  next
    case False
    then show ?thesis by (simp add: p_def older_page_def Let_def last_of_all)
  qed
  then show "page_items p = filter (\<lambda>m. page_hasMore p \<longrightarrow> dec (page_nextCursor p) \<le> m_id m) (before bound H)"
    and "page_hasMore p \<Longrightarrow> \<exists>m \<in> set (before bound H). dec (page_nextCursor p) = m_id m" by blast+
qed

lemma newer_page_items:
  fixes bound :: int
  assumes "ordered H" and "codec enc dec" and "0 < limit"
  defines "p \<equiv> newer_page enc limit bound H"
  shows "page_items p = filter (\<lambda>m. bound < m_id m \<and> (page_hasMore p \<longrightarrow> m_id m \<le> dec (page_nextCursor p))) H"
    and "page_hasMore p \<Longrightarrow> bound < dec (page_nextCursor p)"
proof -
  let ?rows = "filter (\<lambda>m. bound < m_id m) H"
  have o: "ordered ?rows" using assms(1) by (rule ordered_filter)
  have "page_items p = filter (\<lambda>m. bound < m_id m \<and> (page_hasMore p \<longrightarrow> m_id m \<le> dec (page_nextCursor p))) H
    \<and> (page_hasMore p \<longrightarrow> bound < dec (page_nextCursor p))"
  proof (cases "limit < length ?rows")
    case True
    from take_upto [OF o True assms(3)] have w: "take limit ?rows \<noteq> []" "0 < m_id (last (take limit ?rows))"
      "take limit ?rows = filter (\<lambda>m. m_id m \<le> m_id (last (take limit ?rows))) ?rows" by simp_all
    have "last (take limit ?rows) \<in> set ?rows" using w(1) by (metis in_set_takeD last_in_set)
    with w assms(2) True show ?thesis
      by (simp add: p_def newer_page_def Let_def codec_def)
  next
    case False
    then show ?thesis by (simp add: p_def newer_page_def Let_def)
  qed
  then show "page_items p = filter (\<lambda>m. bound < m_id m \<and> (page_hasMore p \<longrightarrow> m_id m \<le> dec (page_nextCursor p))) H"
    and "page_hasMore p \<Longrightarrow> bound < dec (page_nextCursor p)" by blast+
qed


lemma newer_page_top:
  fixes bound :: int
  assumes "ordered H" and "codec enc dec" and "\<forall>m \<in> set H. m_id m \<le> newest" and "0 < limit"
    and "page_hasMore (newer_page enc limit bound H)"
  shows "dec (page_nextCursor (newer_page enc limit bound H)) \<le> newest"
proof -
  let ?rows = "filter (\<lambda>m. bound < m_id m) H"
  have len: "limit < length ?rows" using assms(5) by (simp add: newer_page_def Let_def)
  from take_upto [OF ordered_filter [OF assms(1)] len assms(4)]
  have w: "take limit ?rows \<noteq> []" "0 < m_id (last (take limit ?rows))" by simp_all
  have "last (take limit ?rows) \<in> set ?rows" using w(1) by (metis in_set_takeD last_in_set)
  with w len assms(2,3) show ?thesis by (simp add: newer_page_def Let_def codec_def)
qed

section \<open>Each event keeps the window\<close>

text \<open>The events work on the pagination entry and the list of the channel only.\<close>

lemma hist_inv_def2:
  "hist_inv enc dec c (newest, H, v) \<longleftrightarrow> codec enc dec \<and> ordered H \<and> (\<forall>m \<in> set H. m_id m \<le> newest)
     \<and> (let p = pagination_of c v in
        (pg_hasMore p \<longrightarrow> dec (pg_cursor p) \<le> newest)
        \<and> (pg_hasMoreNewer p = Some True \<longrightarrow> (\<exists>n. pg_newerCursor p = Some n \<and> dec n \<le> newest
            \<and> (pg_hasMore p \<longrightarrow> dec (pg_cursor p) \<le> dec n)))
        \<and> shown c v = filter (\<lambda>m. in_window dec p (m_id m)) H)"
  by (auto simp: hist_inv_def windowed_def newer_bound_def Let_def)

lemma live_keeps:
  assumes inv: "hist_inv enc dec c (newest, H, v)" and en: "history_enabled c (newest, H, v) (Live m)"
  shows "hist_inv enc dec c (m_id m, H @ [m], on_message 0 [] m v)"
proof -
  have o: "ordered (H @ [m])" and t: "\<forall>x \<in> set (H @ [m]). m_id x \<le> m_id m"
    using inv en by (auto simp: hist_inv_def ordered_snoc)
  show ?thesis
  proof (cases "windowed c v")
    case True
    then have w: "\<not> in_window dec (pagination_of c v) (m_id m)"
      using inv en by (auto simp: hist_inv_def2 windowed_def in_window_def Let_def)
    with True inv en o t show ?thesis
      by (auto simp: hist_inv_def2 on_message_def Let_def)
  next
    case False
    then have "in_window dec (pagination_of c v) (m_id m)"
      using inv en by (auto simp: hist_inv_def2 windowed_def in_window_def Let_def)
    with False inv en o t show ?thesis
      by (auto simp: hist_inv_def2 on_message_def Let_def windowed_def in_window_def)
  qed
qed


text \<open>Setting the list and the entry at once, where the invariant is a fact about the pair.\<close>

lemma hist_invI:
  assumes "codec enc dec" and "ordered H" and "\<forall>m \<in> set H. m_id m \<le> newest"
    and "pagination_of c v = p" and "shown c v = filter (\<lambda>m. in_window dec p (m_id m)) H"
    and "pg_hasMore p \<Longrightarrow> dec (pg_cursor p) \<le> newest"
    and "pg_hasMoreNewer p = Some True \<Longrightarrow> \<exists>n. pg_newerCursor p = Some n \<and> dec n \<le> newest
            \<and> (pg_hasMore p \<longrightarrow> dec (pg_cursor p) \<le> dec n)"
  shows "hist_inv enc dec c (newest, H, v)"
  using assms by (simp add: hist_inv_def2 Let_def)

lemma tail_keeps:
  assumes inv: "codec enc dec" "ordered H" "\<forall>m \<in> set H. m_id m \<le> newest"
    and p: "p = older_page enc 100 None H"
    and v: "shown c v = page_items p" "pg_hasMore (pagination_of c v) = page_hasMore p"
      "pg_cursor (pagination_of c v) = page_nextCursor p" "pg_hasMoreNewer (pagination_of c v) \<noteq> Some True"
  shows "hist_inv enc dec c (newest, H, v)"
proof (rule hist_invI [OF inv refl])
  have items: "page_items p = filter (\<lambda>m. page_hasMore p \<longrightarrow> dec (page_nextCursor p) \<le> m_id m) H"
    and bound: "page_hasMore p \<Longrightarrow> \<exists>m \<in> set H. dec (page_nextCursor p) = m_id m"
    using older_page_items [OF inv(2,1), of 100 None] by (simp_all add: p before_def)
  show "shown c v = filter (\<lambda>m. in_window dec (pagination_of c v) (m_id m)) H"
    using v items by (simp add: in_window_def)
  show "dec (pg_cursor (pagination_of c v)) \<le> newest" if "pg_hasMore (pagination_of c v)"
    using that v bound inv(3) by auto
qed (use v in simp)

lemma older_keeps:
  assumes inv: "hist_inv enc dec c (newest, H, v)"
  shows "hist_inv enc dec c (fst (history_step enc dec c (newest, H, v) (Older ok)))"
proof (cases "loadOlder_start True c (mv_pagination v) v")
  case (Pair v1 r)
  show ?thesis
  proof (cases r)
    case None
    then have "v1 = v" using Pair by (auto simp: loadOlder_start_def split: option.splits if_splits)
    with Pair None inv show ?thesis by simp
  next
    case (Some cur)
    let ?p = "pagination_of c v"
    have st: "cur = pg_cursor ?p" "pg_hasMore ?p"
      "v1 = set_pagination c (?p\<lparr>pg_isLoadingMore := True, pg_error := False\<rparr>) v"
      using Pair Some by (auto simp: loadOlder_start_def pagination_of_def map_get_or_def split: option.splits if_splits)
    define q where "q = older_page enc 50 (Some (dec cur)) H"
    from inv have c: "codec enc dec" and o: "ordered H" and t: "\<forall>m \<in> set H. m_id m \<le> newest"
      and sh: "shown c v = filter (\<lambda>m. in_window dec ?p (m_id m)) H"
      and up: "pg_hasMoreNewer ?p = Some True \<Longrightarrow>
        \<exists>n. pg_newerCursor ?p = Some n \<and> dec n \<le> newest \<and> dec cur \<le> dec n"
      using st(1,2) by (auto simp: hist_inv_def2 Let_def)
    have items: "page_items q = filter (\<lambda>m. m_id m < dec cur \<and> (page_hasMore q \<longrightarrow> dec (page_nextCursor q) \<le> m_id m)) H"
      using older_page_items(1) [OF o c, of 50 "Some (dec cur)"] by (simp add: q_def before_def conj_commute)
    have low: "page_hasMore q \<Longrightarrow> dec (page_nextCursor q) < dec cur \<and> dec (page_nextCursor q) \<le> newest"
      using older_page_items(2) [OF o c, of 50 "Some (dec cur)"] t by (auto simp: q_def before_def)
    let ?ok = "?p\<lparr>pg_cursor := page_nextCursor q, pg_hasMore := page_hasMore q, pg_isLoadingMore := False, pg_error := False\<rparr>"
    have join: "page_items q @ shown c v = filter (\<lambda>m. in_window dec ?ok (m_id m)) H"
    proof -
      have "page_items q @ shown c v = filter (\<lambda>m. (m_id m < dec cur \<and> (page_hasMore q \<longrightarrow> dec (page_nextCursor q) \<le> m_id m))
          \<or> in_window dec ?p (m_id m)) H"
        unfolding items sh by (rule filter_adjacent [OF o]) (use st in \<open>auto simp: in_window_def\<close>)
      also have "\<dots> = filter (\<lambda>m. in_window dec ?ok (m_id m)) H"
      proof (rule filter_cong [OF refl])
        fix m
        show "(m_id m < dec cur \<and> (page_hasMore q \<longrightarrow> dec (page_nextCursor q) \<le> m_id m)) \<or> in_window dec ?p (m_id m)
            \<longleftrightarrow> in_window dec ?ok (m_id m)"
          using st low up by (fastforce simp: in_window_def)
      qed
      finally show ?thesis .
    qed
    show ?thesis
    proof (cases ok)
      case True
      have "hist_inv enc dec c (newest, H, loadOlder_done c (Inr q) v1)"
        by (rule hist_invI [OF c o t, where p = ?ok]) (use join low up st in \<open>auto simp: loadOlder_done_def\<close>)
      with True Pair Some show ?thesis by (simp add: answer_def q_def)
    next
      case False
      have "hist_inv enc dec c (newest, H, loadOlder_done c (Inl e) v1)" for e
        by (rule hist_invI [OF c o t, where p = "?p\<lparr>pg_isLoadingMore := False, pg_error := True\<rparr>"])
          (use inv st in \<open>auto simp: loadOlder_done_def hist_inv_def2 Let_def in_window_def\<close>)
      with False Pair Some show ?thesis by (simp add: answer_def)
    qed
  qed
qed


lemma newer_keeps:
  assumes inv: "hist_inv enc dec c (newest, H, v)"
  shows "hist_inv enc dec c (fst (history_step enc dec c (newest, H, v) (Newer ok)))"
proof (cases "loadNewer_start True c (mv_pagination v) v")
  case (Pair v1 r)
  show ?thesis
  proof (cases r)
    case None
    then have "v1 = v" using Pair by (auto simp: loadNewer_start_def split: option.splits if_splits list.splits)
    with Pair None inv show ?thesis by simp
  next
    case (Some cur)
    let ?p = "pagination_of c v"
    have st: "pg_newerCursor ?p = Some cur" "pg_hasMoreNewer ?p = Some True"
      "v1 = set_pagination c (?p\<lparr>pg_isLoadingNewer := Some True\<rparr>) v"
      using Pair Some
      by (auto simp: loadNewer_start_def pagination_of_def map_get_or_def split: option.splits if_splits list.splits)
    define q where "q = newer_page enc 50 (dec cur) H"
    from inv have c: "codec enc dec" and o: "ordered H" and t: "\<forall>m \<in> set H. m_id m \<le> newest"
      and sh: "shown c v = filter (\<lambda>m. in_window dec ?p (m_id m)) H"
      and up: "pg_hasMore ?p \<Longrightarrow> dec (pg_cursor ?p) \<le> dec cur \<and> dec (pg_cursor ?p) \<le> newest" "dec cur \<le> newest"
      using st(1,2) by (auto simp: hist_inv_def2 Let_def)
    have items: "page_items q = filter (\<lambda>m. dec cur < m_id m \<and> (page_hasMore q \<longrightarrow> m_id m \<le> dec (page_nextCursor q))) H"
      using newer_page_items(1) [OF o c, of 50 "dec cur"] by (simp add: q_def)
    have high: "page_hasMore q \<Longrightarrow> dec cur < dec (page_nextCursor q)"
      using newer_page_items(2) [OF o c, of 50 "dec cur"] by (simp add: q_def)
    have last: "page_hasMore q \<Longrightarrow> dec (page_nextCursor q) \<le> newest"
      using newer_page_top [OF o c t, of 50 "dec cur"] by (simp add: q_def)
    let ?ok = "?p\<lparr>pg_newerCursor := Some (page_nextCursor q), pg_hasMoreNewer := Some (page_hasMore q),
        pg_isLoadingNewer := Some False\<rparr>"
    have join: "shown c v @ page_items q = filter (\<lambda>m. in_window dec ?ok (m_id m)) H"
    proof -
      have "shown c v @ page_items q = filter (\<lambda>m. in_window dec ?p (m_id m)
          \<or> (dec cur < m_id m \<and> (page_hasMore q \<longrightarrow> m_id m \<le> dec (page_nextCursor q)))) H"
        unfolding items sh by (rule filter_adjacent [OF o]) (use st in \<open>auto simp: in_window_def\<close>)
      also have "\<dots> = filter (\<lambda>m. in_window dec ?ok (m_id m)) H"
      proof (rule filter_cong [OF refl])
        fix m
        show "in_window dec ?p (m_id m) \<or> (dec cur < m_id m \<and> (page_hasMore q \<longrightarrow> m_id m \<le> dec (page_nextCursor q)))
            \<longleftrightarrow> in_window dec ?ok (m_id m)"
          using st high up by (fastforce simp: in_window_def)
      qed
      finally show ?thesis .
    qed
    show ?thesis
    proof (cases ok)
      case True
      have "hist_inv enc dec c (newest, H, loadNewer_done c (Inr q) v1)"
        by (rule hist_invI [OF c o t, where p = ?ok]) (use join high last up st in \<open>auto simp: loadNewer_done_def\<close>)
      with True Pair Some show ?thesis by (simp add: answer_def q_def)
    next
      case False
      have "hist_inv enc dec c (newest, H, loadNewer_done c (Inl e) v1)" for e
        by (rule hist_invI [OF c o t, where p = "?p\<lparr>pg_isLoadingNewer := Some False\<rparr>"])
          (use inv st in \<open>auto simp: loadNewer_done_def hist_inv_def2 Let_def in_window_def\<close>)
      with False Pair Some show ?thesis by (simp add: answer_def)
    qed
  qed
qed

lemma jump_keeps:
  assumes inv: "hist_inv enc dec c (newest, H, v)"
  shows "hist_inv enc dec c (fst (history_step enc dec c (newest, H, v) (Jump ok i)))"
proof -
  from inv have c: "codec enc dec" and o: "ordered H" and t: "\<forall>m \<in> set H. m_id m \<le> newest"
    by (simp_all add: hist_inv_def)
  obtain v1 r where jr: "jump_start True c i (mv_messages v) v = (v1, r)" by fastforce
  have same: "shown c v1 = shown c v" "pagination_of c v1 = pagination_of c v"
    using jr by (auto simp: jump_start_def split: if_splits)
  then have keep: "hist_inv enc dec c (newest, H, v1)" using inv by (simp add: hist_inv_def2)
  have err: "hist_inv enc dec c (newest, H, fst (jump_done c (Inl e) v1))" for e
    using keep by (simp add: jump_done_def hist_inv_def2)
  have win: "hist_inv enc dec c (newest, H, fst (jump_done c (Inr w) v1))" if w: "around_page enc 25 i H = Inr w" for w
  proof -
    let ?older = "filter (\<lambda>m. m_id m \<le> i) H" and ?newer = "filter (\<lambda>m. i < m_id m) H"
    have oo: "ordered ?older" "ordered ?newer" using o by (simp_all add: ordered_filter)
    from w have present: "i \<in> m_id ` set H" and wd: "w = \<lparr>win_messages = last_of 25 ?older @ take 25 ?newer,
        win_olderCursor = (if 25 < length ?older \<and> last_of 25 ?older @ take 25 ?newer \<noteq> []
          then enc (m_id (hd (last_of 25 ?older @ take 25 ?newer))) else []),
        win_newerCursor = (if 25 < length ?newer \<and> last_of 25 ?older @ take 25 ?newer \<noteq> []
          then enc (m_id (last (last_of 25 ?older @ take 25 ?newer))) else []),
        win_hasMoreOlder = (25 < length ?older), win_hasMoreNewer = (25 < length ?newer)\<rparr>"
      by (auto simp: around_page_def Let_def split: if_splits)
    have low: "last_of 25 ?older = filter (\<lambda>m. m_id m \<le> i \<and> (win_hasMoreOlder w \<longrightarrow> dec (win_olderCursor w) \<le> m_id m)) H
        \<and> (win_hasMoreOlder w \<longrightarrow> dec (win_olderCursor w) \<le> i)"
    proof (cases "25 < length ?older")
      case True
      from last_of_from [OF oo(1) True] have l: "last_of 25 ?older \<noteq> []" "0 < m_id (hd (last_of 25 ?older))"
        "last_of 25 ?older = filter (\<lambda>m. m_id (hd (last_of 25 ?older)) \<le> m_id m) ?older" by simp_all
      have "hd (last_of 25 ?older) \<in> set ?older" using l(1) by (metis hd_in_set in_set_dropD last_of_def)
      moreover have d: "dec (win_olderCursor w) = m_id (hd (last_of 25 ?older))"
        using c l(1,2) True by (simp add: wd codec_def)
      ultimately show ?thesis using l(3) True by (simp add: wd d conj_commute)
    next
      case False
      then show ?thesis by (simp add: wd last_of_all)
    qed
    have high: "take 25 ?newer = filter (\<lambda>m. i < m_id m \<and> (win_hasMoreNewer w \<longrightarrow> m_id m \<le> dec (win_newerCursor w))) H
        \<and> (win_hasMoreNewer w \<longrightarrow> i < dec (win_newerCursor w) \<and> dec (win_newerCursor w) \<le> newest)"
    proof (cases "25 < length ?newer")
      case True
      from take_upto [OF oo(2) True] have l: "take 25 ?newer \<noteq> []" "0 < m_id (last (take 25 ?newer))"
        "take 25 ?newer = filter (\<lambda>m. m_id m \<le> m_id (last (take 25 ?newer))) ?newer" by simp_all
      have "last (take 25 ?newer) \<in> set ?newer" using l(1) by (metis in_set_takeD last_in_set)
      moreover have d: "dec (win_newerCursor w) = m_id (last (take 25 ?newer))"
        using c l(1,2) True by (simp add: wd codec_def)
      ultimately show ?thesis using l(3) True t by (simp add: wd d conj_commute)
    next
      case False
      then show ?thesis by (simp add: wd)
    qed
    let ?p = "\<lparr>pg_cursor = win_olderCursor w, pg_hasMore = win_hasMoreOlder w, pg_isLoadingMore = False, pg_error = False,
      pg_newerCursor = Some (win_newerCursor w), pg_hasMoreNewer = Some (win_hasMoreNewer w),
      pg_isLoadingNewer = Some False\<rparr>"
    have i: "i \<le> newest" using present t by auto
    have "win_messages w = filter (\<lambda>m. in_window dec ?p (m_id m)) H"
    proof -
      have "last_of 25 ?older @ take 25 ?newer = filter (\<lambda>m. (m_id m \<le> i \<and> (win_hasMoreOlder w \<longrightarrow> dec (win_olderCursor w) \<le> m_id m))
          \<or> (i < m_id m \<and> (win_hasMoreNewer w \<longrightarrow> m_id m \<le> dec (win_newerCursor w)))) H"
        by (subst conjunct1 [OF low], subst conjunct1 [OF high], rule filter_adjacent [OF o]) auto
      also have "\<dots> = filter (\<lambda>m. in_window dec ?p (m_id m)) H"
        by (rule filter_cong [OF refl]) (use low high in \<open>fastforce simp: in_window_def\<close>)
      finally show ?thesis by (simp add: wd)
    qed
    then show ?thesis
      by (intro hist_invI [OF c o t, where p = ?p]) (use low high i in \<open>auto simp: jump_done_def\<close>)
  qed
  show ?thesis using jr keep err win
    by (cases r; cases ok; cases "around_page enc 25 i H") simp_all
qed

lemma drop_message_view:
  "shown c (drop_message i c v) = filter (\<lambda>m. m_id m \<noteq> i) (shown c v)"
  "pagination_of c (drop_message i c v) = pagination_of c v"
proof -
  have all: "filter P xs = xs" if "length (filter P xs) = length xs" for P and xs :: "Message list"
    using that by (metis filter_id_conv length_filter_less less_irrefl)
  show "shown c (drop_message i c v) = filter (\<lambda>m. m_id m \<noteq> i) (shown c v)"
    by (cases "map_get (mv_messages v) c") (auto simp: drop_message_def Let_def shown_def map_get_or_def set_messages_def
        intro: all [symmetric])
  show "pagination_of c (drop_message i c v) = pagination_of c v"
    by (auto simp: drop_message_def Let_def split: option.split)
qed

lemma history_step_inv:
  assumes inv: "hist_inv enc dec c s" and en: "history_enabled c s e"
  shows "hist_inv enc dec c (fst (history_step enc dec c s e))"
proof -
  obtain newest H v where s: "s = (newest, H, v)" by (cases s) auto
  from inv have c: "codec enc dec" and o: "ordered H" and t: "\<forall>m \<in> set H. m_id m \<le> newest"
    by (simp_all add: s hist_inv_def)
  show ?thesis
  proof (cases e)
    case (Live m)
    have "hist_inv enc dec c (m_id m, H @ [m], on_message 0 [] m v)"
      by (rule live_keeps [of enc dec c newest H v m]) (use inv en s Live in simp_all)
    then show ?thesis by (simp add: s Live)
  next
    case (Tail ok)
    have "hist_inv enc dec c (newest, H, resetToLiveTail_done c (Inr (older_page enc 100 None H)) v)"
      by (rule tail_keeps [OF c o t refl]) (simp_all add: resetToLiveTail_done_def)
    moreover have "hist_inv enc dec c (newest, H, resetToLiveTail_done c (Inl er) v)" for er
      using inv s by (simp add: resetToLiveTail_done_def hist_inv_def2)
    ultimately show ?thesis using Tail inv s by (simp add: answer_def)
  next
    case (Delete i)
    show ?thesis unfolding s Delete
      using inv s t
      by (auto simp: hist_inv_def2 Let_def handleDelete_start_def handleDelete_done_def drop_message_view
          ordered_filter conj_commute)
  qed (use inv s older_keeps newer_keeps jump_keeps in auto)
qed

interpretation hist: machine_invariant "history_enabled c" "history_step enc dec c" "hist_inv enc dec c"
  for enc dec c
  by unfold_locales (rule history_step_inv)

end
