(* ===== verification/HistoryProps.thy ===== *)
theory HistoryProps
  imports History
begin

text \<open>
  The properties of the message lists (\<^verbatim>\<open>hooks/useMessages.ts\<close>).
\<close>

section \<open>A window is a contiguous part\<close>

lemma interval_slice:
  fixes low high :: "int \<Rightarrow> bool"
  assumes "ordered H" and "\<And>x y. low x \<Longrightarrow> x \<le> y \<Longrightarrow> low y" and "\<And>x y. high y \<Longrightarrow> x \<le> y \<Longrightarrow> high x"
  shows "H = filter (\<lambda>m. \<not> low (m_id m)) H @ filter (\<lambda>m. low (m_id m) \<and> high (m_id m)) H
      @ filter (\<lambda>m. low (m_id m) \<and> \<not> high (m_id m)) H"
proof -
  have "filter (\<lambda>m. low (m_id m) \<and> high (m_id m)) H @ filter (\<lambda>m. low (m_id m) \<and> \<not> high (m_id m)) H
      = filter (\<lambda>m. (low (m_id m) \<and> high (m_id m)) \<or> (low (m_id m) \<and> \<not> high (m_id m))) H"
    by (rule filter_adjacent [OF assms(1)]) (use assms(2,3) in \<open>meson not_le\<close>)
  also have "\<dots> = filter (\<lambda>m. low (m_id m)) H" by (rule filter_cong [OF refl]) blast
  finally have a: "filter (\<lambda>m. low (m_id m) \<and> high (m_id m)) H @ filter (\<lambda>m. low (m_id m) \<and> \<not> high (m_id m)) H
      = filter (\<lambda>m. low (m_id m)) H" .
  have "filter (\<lambda>m. \<not> low (m_id m)) H @ filter (\<lambda>m. low (m_id m)) H = filter (\<lambda>m. \<not> low (m_id m) \<or> low (m_id m)) H"
    by (rule filter_adjacent [OF assms(1)]) (use assms(2,3) in \<open>meson not_le\<close>)
  then show ?thesis by (simp add: a)
qed

lemma window_contiguous:
  assumes "hist_inv enc dec c (newest, H, v)"
  shows "\<exists>pre suf. H = pre @ shown c v @ suf
    \<and> (pre \<noteq> [] \<longrightarrow> pg_hasMore (pagination_of c v)) \<and> (suf \<noteq> [] \<longrightarrow> windowed c v)"
proof -
  let ?p = "pagination_of c v"
  let ?low = "\<lambda>i. pg_hasMore ?p \<longrightarrow> dec (pg_cursor ?p) \<le> i"
  let ?high = "\<lambda>i. pg_hasMoreNewer ?p = Some True \<longrightarrow> (\<exists>cur. pg_newerCursor ?p = Some cur \<and> i \<le> dec cur)"
  from assms have o: "ordered H" and sh: "shown c v = filter (\<lambda>m. ?low (m_id m) \<and> ?high (m_id m)) H"
    by (simp_all add: hist_inv_def in_window_def)
  have "H = filter (\<lambda>m. \<not> ?low (m_id m)) H @ shown c v @ filter (\<lambda>m. ?low (m_id m) \<and> \<not> ?high (m_id m)) H"
    unfolding sh by (rule interval_slice [OF o, of ?low ?high]) auto
  moreover have "filter (\<lambda>m. \<not> ?low (m_id m)) H \<noteq> [] \<longrightarrow> pg_hasMore ?p" by (auto simp: filter_empty_conv)
  moreover have "filter (\<lambda>m. ?low (m_id m) \<and> \<not> ?high (m_id m)) H \<noteq> [] \<longrightarrow> windowed c v"
    by (auto simp: filter_empty_conv windowed_def)
  ultimately show ?thesis by blast
qed

lemma first_load_inv:
  assumes "codec enc dec" and "ordered H" and "\<forall>m \<in> set H. m_id m \<le> newest"
  shows "hist_inv enc dec c (newest, H, lazy_load_done c (Inr (older_page enc 100 None H)) v)"
  by (rule tail_keeps [OF assms refl]) (simp_all add: lazy_load_done_def no_pagination_def)

section \<open>Patches\<close>

lemma edit_one_id [simp]: "m_id (edit_one i t e m) = m_id m"
  by (simp add: edit_one_def split: nullable.split)

lemma edit_one_embeds: "edit_one i t e (m\<lparr>m_embeds := es\<rparr>) = (edit_one i t e m)\<lparr>m_embeds := es\<rparr>"
  by (cases m) (simp add: edit_one_def split: nullable.split)

lemma edit_untouched: "\<not> touches i m \<Longrightarrow> edit_one i t e m = m"
  by (auto simp: touches_def edit_one_def split: nullable.splits)

lemma edit_one_idem: "edit_one i t e (edit_one i t e m) = edit_one i t e m"
  by (auto simp: edit_one_def split: nullable.splits)

lemma shown_edited: "shown c (on_message_edited c i t e v) = map (edit_one i t e) (shown c v)"
  by (auto simp: on_message_edited_def shown_def map_get_or_def set_messages_def edit_untouched
      intro: map_idI [symmetric] split: option.split)

lemma shown_embeds: "shown c (on_message_embeds c i es v)
    = replace_first (\<lambda>m. m_id m = i) (\<lambda>m. m\<lparr>m_embeds := es\<rparr>) (shown c v)"
proof -
  have none: "replace_first P f xs = xs" if "\<not> (\<exists>x \<in> set xs. P x)" for P f and xs :: "Message list"
    using that by (induction xs) auto
  show ?thesis
    by (auto simp: on_message_embeds_def shown_def map_get_or_def set_messages_def none split: option.split)
qed

lemma shown_other:
  assumes "d \<noteq> c"
  shows "shown d (on_message_edited c i t e v) = shown d v" and "shown d (on_message_embeds c i es v) = shown d v"
  using assms by (auto simp: on_message_edited_def on_message_embeds_def shown_def set_messages_def map_get_or_def split: option.split)

lemma edit_replace:
  "map (edit_one i t e) (replace_first (\<lambda>m. m_id m = j) (\<lambda>m. m\<lparr>m_embeds := es\<rparr>) ms)
    = replace_first (\<lambda>m. m_id m = j) (\<lambda>m. m\<lparr>m_embeds := es\<rparr>) (map (edit_one i t e) ms)"
  by (induction ms) (simp_all add: edit_one_embeds)

section \<open>Properties\<close>


definition history_message :: "int \<Rightarrow> Message" where
  "history_message i = \<lparr>m_id = i, m_channel_id = 3, m_author_id = 9, m_author_first_name = JStr [],
     m_author_last_name = JStr [], m_author_nickname = JStr [], m_author_avatar_url = [], m_content = show_int i,
     m_attachments = None, m_reply_to_id = Absent, m_reply_to = Absent, m_mentions = None,
     m_mentions_everyone = None, m_embeds = [], m_created_at = [], m_edited_at = None\<rparr>"


text \<open>Patches commute. An edit changes only the text and the edit time of its message and the quotes of it in
  that channel, keeps ids and order, and is idempotent; and a link preview and an edit may arrive in either
  order with the same result.\<close>

theorem patches_commute:
  "map m_id (shown c (on_message_edited c i t e v)) = map m_id (shown c v)
   \<and> (\<forall>m \<in> set (shown c v). \<not> touches i m \<longrightarrow> m \<in> set (shown c (on_message_edited c i t e v)))
   \<and> shown c (on_message_edited c i t e (on_message_edited c i t e v)) = shown c (on_message_edited c i t e v)
   \<and> shown c (on_message_edited c i t e (on_message_embeds c j es v))
       = shown c (on_message_embeds c j es (on_message_edited c i t e v))
   \<and> (d \<noteq> c \<longrightarrow> shown d (on_message_edited c i t e (on_message_embeds c j es v)) = shown d v)"
proof (intro conjI ballI impI)
  fix m assume "m \<in> set (shown c v)" and "\<not> touches i m"
  then have "m = edit_one i t e m" by (simp add: edit_untouched)
  with \<open>m \<in> set (shown c v)\<close> show "m \<in> set (shown c (on_message_edited c i t e v))"
    by (simp add: shown_edited)
qed (simp_all add: shown_edited shown_embeds shown_other edit_replace edit_one_idem)

theorem patches_commute_witness:
  "let v = set_messages 3 [history_message 4, history_message 7] new_view
   in history_message 7 \<in> set (shown 3 (on_message_edited 3 4 ''x'' ''now'' v))"
proof -
  let ?v = "set_messages 3 [history_message 4, history_message 7] new_view"
  have "history_message 7 \<in> set (shown 3 ?v)" and "\<not> touches 4 (history_message 7)"
    by (simp_all add: touches_def history_message_def)
  then show ?thesis using patches_commute [of 3 4 "''x''" "''now''" ?v] by (simp only: Let_def) blast
qed

text \<open>A page in flight loses a message. While the last newer page of a window is on its way, a message that
  arrives is dropped (the window still has more), and the page, read before it, does not hold it: afterwards
  the list counts as the live tail, and the message is missing from it.\<close>

theorem newer_page_race:
  assumes "hist_inv enc dec c (newest, H, v)" and "windowed c v" and "history_enabled c (newest, H, v) (Live m)"
    and "\<not> page_hasMore (newer_page enc 50 bound H)"
  shows "let v' = loadNewer_done c (Inr (newer_page enc 50 bound H)) (on_message 0 [] m v)
    in \<not> windowed c v' \<and> m \<notin> set (shown c v') \<and> set (shown c v') \<subseteq> set H"
proof -
  from assms(1,3) have new: "m \<notin> set H" by (auto simp: hist_inv_def)
  have "set (shown c v) \<subseteq> set H" using assms(1) by (auto simp: hist_inv_def)
  moreover have "set (page_items (newer_page enc 50 bound H)) \<subseteq> set H"
    by (auto simp: newer_page_def Let_def dest: in_set_takeD)
  ultimately show ?thesis using assms(2-4) new
    by (auto simp: on_message_def loadNewer_done_def Let_def windowed_def)
qed

theorem newer_page_race_witness:
  "let v = set_pagination 3 (no_pagination\<lparr>pg_newerCursor := Some ''4'', pg_hasMoreNewer := Some True\<rparr>)
             (set_messages 3 [history_message 4] new_view);
       H = map history_message [4, 7]
   in history_message 9 \<notin> set (shown 3 (loadNewer_done 3 (Inr (newer_page (\<lambda>i. show_nat (nat i)) 50 4 H))
        (on_message 0 [] (history_message 9) v)))"
proof -
  let ?enc = "\<lambda>i. show_nat (nat i)" and ?dec = "\<lambda>s. int (read_nat s)" and ?H = "map history_message [4, 7]"
  let ?v = "set_pagination 3 (no_pagination\<lparr>pg_newerCursor := Some ''4'', pg_hasMoreNewer := Some True\<rparr>)
      (set_messages 3 [history_message 4] new_view)"
  have r: "read_nat ''4'' = 4" by code_simp
  have i: "hist_inv ?enc ?dec 3 (7, ?H, ?v)"
    by (simp add: hist_inv_def2 codec_def ordered_def history_message_def no_pagination_def in_window_def r)
  have w: "windowed 3 ?v" by (simp add: windowed_def)
  have l: "history_enabled 3 (7, ?H, ?v) (Live (history_message 9))" by (simp add: history_message_def)
  have p: "\<not> page_hasMore (newer_page ?enc 50 4 ?H)" by (simp add: newer_page_def Let_def history_message_def)
  from newer_page_race [OF i w l p] show ?thesis by (simp only: Let_def) blast
qed

end
