(* ===== verification/Unread.thy ===== *)
theory Unread
  imports ChatTypes
begin

text \<open>
  Unread counters and read receipts (\<^verbatim>\<open>hooks/useUnread.ts\<close>): the counters per channel, the throttled
  \<open>mark_read\<close> commands with one timer per channel, and the totals derived from the counters. \<open>now\<close> is
  \<open>Date.now()\<close>; an effect \<open>SendMarkRead\<close> is a call of \<^verbatim>\<open>sendMarkRead\<close> on the socket of the hook.
\<close>

section \<open>State\<close>

record unread_state =
  un_unread :: UnreadByChannel
  un_mention :: "bool record_map"
  un_lastMessageId :: "int record_map"
  un_serverId :: "int record_map"
  un_pending :: "(int \<times> int) list"
  un_lastSent :: "(int \<times> int) list"
  un_lastSentAt :: "(int \<times> int) list"
  un_timers :: "(int \<times> int) list"

definition new_unread :: unread_state where
  "new_unread = \<lparr>un_unread = [], un_mention = [], un_lastMessageId = [], un_serverId = [], un_pending = [],
     un_lastSent = [], un_lastSentAt = [], un_timers = []\<rparr>"

datatype unread_effect = SendMarkRead int int | ArmTimer int int | DisarmTimer int

definition MARK_READ_THROTTLE_MS :: int where "MARK_READ_THROTTLE_MS = 2000"

definition then_do :: "'s \<times> 'o list \<Rightarrow> ('s \<Rightarrow> 's \<times> 'o list) \<Rightarrow> 's \<times> 'o list" where
  "then_do r f = (let (s, os) = r; (s', os') = f s in (s', os @ os'))"

section \<open>Sending receipts\<close>

definition sendNow :: "int \<Rightarrow> int \<Rightarrow> unread_state \<Rightarrow> unread_state \<times> unread_effect list" where
  "sendNow now c s = (case map_get (un_pending s) c of
     None \<Rightarrow> (s, [])
   | Some messageId \<Rightarrow>
       (if messageId \<le> map_get_or 0 (un_lastSent s) c then (s\<lparr>un_pending := map_del c (un_pending s)\<rparr>, [])
        else (s\<lparr>un_lastSent := map_set c messageId (un_lastSent s),
                un_lastSentAt := map_set c now (un_lastSentAt s),
                un_pending := map_del c (un_pending s)\<rparr>, [SendMarkRead c messageId])))"

definition flushChannel :: "int \<Rightarrow> int \<Rightarrow> unread_state \<Rightarrow> unread_state \<times> unread_effect list" where
  "flushChannel now c s =
     then_do (if map_has c (un_timers s) then (s\<lparr>un_timers := map_del c (un_timers s)\<rparr>, [DisarmTimer c]) else (s, []))
       (sendNow now c)"

definition flushAll :: "int \<Rightarrow> unread_state \<Rightarrow> unread_state \<times> unread_effect list" where
  "flushAll now s = foldl (\<lambda>r c. then_do r (flushChannel now c)) (s, []) (map_keys (un_timers s))"

definition scheduleSend :: "int \<Rightarrow> int \<Rightarrow> int \<Rightarrow> bool \<Rightarrow> unread_state \<Rightarrow> unread_state \<times> unread_effect list" where
  "scheduleSend now c messageId force s =
     (if messageId \<le> map_get_or 0 (un_lastSent s) c then (s, [])
      else let s1 = s\<lparr>un_pending := map_set c messageId (un_pending s)\<rparr>;
               since = now - map_get_or 0 (un_lastSentAt s1) c
           in if force then flushChannel now c s1
              else if MARK_READ_THROTTLE_MS \<le> since then sendNow now c s1
              else if map_has c (un_timers s1) then (s1, [])
              else (s1\<lparr>un_timers := map_set c (now + (MARK_READ_THROTTLE_MS - since)) (un_timers s1)\<rparr>,
                    [ArmTimer c (MARK_READ_THROTTLE_MS - since)]))"

definition mark_timer_fire :: "int \<Rightarrow> int \<Rightarrow> unread_state \<Rightarrow> unread_state \<times> unread_effect list" where
  "mark_timer_fire now c s = sendNow now c (s\<lparr>un_timers := map_del c (un_timers s)\<rparr>)"

definition clear_count :: "int \<Rightarrow> unread_state \<Rightarrow> unread_state" where
  "clear_count c s = (if map_get_or 0 (un_unread s) c \<noteq> 0 then s\<lparr>un_unread := map_set c 0 (un_unread s)\<rparr> else s)"

definition markChannelRead :: "int \<Rightarrow> int \<Rightarrow> int \<Rightarrow> bool \<Rightarrow> unread_state \<Rightarrow> unread_state \<times> unread_effect list" where
  "markChannelRead now c messageId force s =
     (if c \<le> 0 \<or> messageId \<le> 0 then (s, [])
      else let s1 = clear_count c s;
               s2 = (if map_get (un_mention s1) c = Some True
                     then s1\<lparr>un_mention := map_set c False (un_mention s1)\<rparr> else s1)
           in scheduleSend now c messageId force s2)"

section \<open>Events\<close>

text \<open>The answer of \<^verbatim>\<open>getUnread\<close>: the counters are replaced, a failed call changes nothing.\<close>

definition refreshUnread_done :: "string + ChannelUnread list \<Rightarrow> unread_state \<Rightarrow> unread_state" where
  "refreshUnread_done res s = (case res of
     Inl _ \<Rightarrow> s
   | Inr cs \<Rightarrow> s\<lparr>
       un_unread := foldl (\<lambda>m c. map_set (cu_channel_id c) (cu_unread_count c) m) [] cs,
       un_serverId := foldl (\<lambda>m c. if 0 < cu_server_id c then map_set (cu_channel_id c) (cu_server_id c) m else m)
         (un_serverId s) cs\<rparr>)"

definition mentions_user :: "Message \<Rightarrow> int option \<Rightarrow> bool" where
  "mentions_user msg user = (case user of
     None \<Rightarrow> False
   | Some u \<Rightarrow> (case m_mentions msg of Some us \<Rightarrow> u \<in> set us | None \<Rightarrow> False) \<or> m_mentions_everyone msg = Some True)"

definition unread_on_message :: "int \<Rightarrow> int option \<Rightarrow> int \<Rightarrow> bool \<Rightarrow> Message \<Rightarrow> unread_state \<Rightarrow>
    unread_state \<times> unread_effect list" where
  "unread_on_message now currentUserId selected visible incoming s0 =
     (let c = m_channel_id incoming;
          s = (if map_get_or 0 (un_lastMessageId s0) c < m_id incoming
               then s0\<lparr>un_lastMessageId := map_set c (m_id incoming) (un_lastMessageId s0)\<rparr> else s0)
      in if currentUserId = Some (m_author_id incoming) then (s, [])
         else if c = selected \<and> visible then markChannelRead now c (m_id incoming) False s
         else let s1 = s\<lparr>un_unread := map_set c (map_get_or 0 (un_unread s) c + 1) (un_unread s)\<rparr>
              in (if mentions_user incoming currentUserId
                  then s1\<lparr>un_mention := map_set c True (un_mention s1)\<rparr> else s1, []))"

text \<open>The effect that marks the open channel read while the tab is visible; \<open>loadedLast\<close> is the id of the last
  message loaded, \<open>0\<close> for none.\<close>

definition mark_open_channel :: "int \<Rightarrow> int \<Rightarrow> bool \<Rightarrow> int \<Rightarrow> unread_state \<Rightarrow> unread_state \<times> unread_effect list" where
  "mark_open_channel now c visible loadedLast s =
     (if c \<le> 0 \<or> \<not> visible then (s, [])
      else let messageId = max (map_get_or 0 (un_lastMessageId s) c) loadedLast
           in if 0 < messageId
              then markChannelRead now c messageId False (s\<lparr>un_lastMessageId := map_set c messageId (un_lastMessageId s)\<rparr>)
              else (clear_count c s, []))"

definition leave_channel :: "int \<Rightarrow> int \<Rightarrow> unread_state \<Rightarrow> unread_state \<times> unread_effect list" where
  "leave_channel now c s = (if 0 < c then flushChannel now c s else (s, []))"

section \<open>Totals\<close>

definition server_ids :: "int record_map \<Rightarrow> ChannelsByServer \<Rightarrow> int record_map" where
  "server_ids known channelsByServer =
     foldl (\<lambda>m (sid, cs). foldl (\<lambda>m ch. map_set (ch_id ch) sid m) m cs) known (record_entries channelsByServer)"

definition add_unread :: "int record_map \<Rightarrow> UnreadByServer \<Rightarrow> int \<times> int \<Rightarrow> UnreadByServer" where
  "add_unread serverIds acc entry = (case entry of (c, n) \<Rightarrow>
     (if n \<le> 0 then acc
      else case map_get serverIds c of
        None \<Rightarrow> acc
      | Some sid \<Rightarrow> (if sid = 0 then acc else map_set sid (map_get_or 0 acc sid + n) acc)))"

definition unreadByServer :: "ChannelsByServer \<Rightarrow> unread_state \<Rightarrow> UnreadByServer" where
  "unreadByServer channelsByServer s =
     foldl (add_unread (server_ids (un_serverId s) channelsByServer)) [] (record_entries (un_unread s))"

definition totalUnread :: "unread_state \<Rightarrow> int" where
  "totalUnread s = sum_list (map snd (record_entries (un_unread s)))"

definition hasUnreadMention :: "unread_state \<Rightarrow> bool" where
  "hasUnreadMention s \<longleftrightarrow> (\<exists>(c, flagged) \<in> set (un_mention s). flagged \<and> 0 < map_get_or 0 (un_unread s) c)"

section \<open>The hook as a machine\<close>

datatype unread_input =
    UnMessage int "int option" int bool Message
  | UnOpen int int bool int
  | UnLeave int int
  | UnHide int
  | UnTimer int int
  | UnRefresh "string + ChannelUnread list"

fun unread_step :: "unread_state \<Rightarrow> unread_input \<Rightarrow> unread_state \<times> unread_effect list" where
  "unread_step s (UnMessage now u sel vis m) = unread_on_message now u sel vis m s"
| "unread_step s (UnOpen now c vis l) = mark_open_channel now c vis l s"
| "unread_step s (UnLeave now c) = leave_channel now c s"
| "unread_step s (UnHide now) = flushAll now s"
| "unread_step s (UnTimer now c) = mark_timer_fire now c s"
| "unread_step s (UnRefresh r) = (refreshUnread_done r s, [])"

fun unread_enabled :: "unread_state \<Rightarrow> unread_input \<Rightarrow> bool" where
  "unread_enabled s (UnTimer now c) = (case map_get (un_timers s) c of Some due \<Rightarrow> due \<le> now | None \<Rightarrow> False)"
| "unread_enabled s _ = True"

text \<open>A receipt that waits is newer than the last one sent, and has a timer that will send it.\<close>

definition unread_inv :: "unread_state \<Rightarrow> bool" where
  "unread_inv s \<longleftrightarrow> distinct (map_keys (un_timers s)) \<and> distinct (map_keys (un_pending s))
     \<and> (\<forall>c m. map_get (un_pending s) c = Some m \<longrightarrow> map_get_or 0 (un_lastSent s) c < m \<and> map_has c (un_timers s))"

text \<open>Without the timer of channel \<open>c\<close>, for the states between the steps of a flush.\<close>

definition unread_inv_but :: "int \<Rightarrow> unread_state \<Rightarrow> bool" where
  "unread_inv_but c s \<longleftrightarrow> distinct (map_keys (un_timers s)) \<and> distinct (map_keys (un_pending s))
     \<and> (\<forall>d m. map_get (un_pending s) d = Some m \<longrightarrow> map_get_or 0 (un_lastSent s) d < m \<and> (d \<noteq> c \<longrightarrow> map_has d (un_timers s)))"

lemma map_has_simps [simp]:
  "map_has c (map_set d v m) \<longleftrightarrow> c = d \<or> map_has c m" "map_has c (map_del d m) \<longleftrightarrow> c \<noteq> d \<and> map_has c m"
  by (auto simp: map_has_def)

lemma sendNow_inv:
  assumes "unread_inv_but c s"
  shows "unread_inv (fst (sendNow now c s))"
proof (cases "map_get (un_pending s) c")
  case None
  then have "d \<noteq> c" if "map_get (un_pending s) d = Some m" for d m using that by auto
  with None assms show ?thesis by (auto simp: sendNow_def unread_inv_but_def unread_inv_def)
next
  case (Some m)
  with assms show ?thesis by (auto simp: sendNow_def unread_inv_but_def unread_inv_def)
qed

lemma inv_but: "unread_inv s \<Longrightarrow> unread_inv_but c s"
  by (simp add: unread_inv_def unread_inv_but_def)

lemma fst_then_do [simp]: "fst (then_do r f) = fst (f (fst r))"
  by (simp add: then_do_def split: prod.split)

lemma snd_then_do [simp]: "snd (then_do r f) = snd r @ snd (f (fst r))"
  by (simp add: then_do_def split: prod.split)

lemma unread_flush_inv: "unread_inv_but c s \<Longrightarrow> unread_inv (fst (flushChannel now c s))"
  by (auto simp: flushChannel_def unread_inv_but_def intro!: sendNow_inv)

lemma flush_all_inv:
  "unread_inv (fst r) \<Longrightarrow> unread_inv (fst (foldl (\<lambda>r c. then_do r (flushChannel now c)) r cs))"
proof (induction cs arbitrary: r)
  case (Cons c cs)
  have "unread_inv (fst (then_do r (flushChannel now c)))" using Cons.prems by (simp add: unread_flush_inv inv_but)
  from Cons.IH [OF this] show ?case by simp
qed simp

lemma unread_schedule_inv:
  assumes "unread_inv s"
  shows "unread_inv (fst (scheduleSend now c m force s))"
proof (cases "m \<le> map_get_or 0 (un_lastSent s) c")
  case False
  let ?s = "s\<lparr>un_pending := map_set c m (un_pending s)\<rparr>"
  have b: "unread_inv_but c ?s" using assms False by (auto simp: unread_inv_def unread_inv_but_def)
  show ?thesis using False unread_flush_inv [OF b] sendNow_inv [OF b] assms
    by (auto simp: scheduleSend_def Let_def unread_inv_def)
qed (simp add: assms scheduleSend_def)

lemma unread_inv_frame:
  "unread_inv (s\<lparr>un_unread := u\<rparr>) = unread_inv s" "unread_inv (s\<lparr>un_mention := v\<rparr>) = unread_inv s"
  "unread_inv (s\<lparr>un_lastMessageId := l\<rparr>) = unread_inv s" "unread_inv (s\<lparr>un_serverId := i\<rparr>) = unread_inv s"
  by (simp_all add: unread_inv_def)

lemma mark_inv: "unread_inv s \<Longrightarrow> unread_inv (fst (markChannelRead now c m force s))"
  by (auto simp: markChannelRead_def clear_count_def Let_def unread_inv_frame intro!: unread_schedule_inv)

lemma unread_step_inv: "unread_inv s \<Longrightarrow> unread_inv (fst (unread_step s e))"
proof (cases e)
  case (UnTimer now c)
  assume "unread_inv s"
  then have "unread_inv_but c (s\<lparr>un_timers := map_del c (un_timers s)\<rparr>)"
    by (auto simp: unread_inv_def unread_inv_but_def)
  with UnTimer show ?thesis by (simp add: mark_timer_fire_def sendNow_inv)
qed (auto simp: unread_on_message_def mark_open_channel_def leave_channel_def flushAll_def refreshUnread_done_def
    clear_count_def Let_def unread_inv_frame intro!: mark_inv unread_flush_inv flush_all_inv inv_but split: sum.split)

interpretation receipts: machine_invariant unread_enabled unread_step unread_inv
  by unfold_locales (rule unread_step_inv)

lemma new_unread_inv: "unread_inv new_unread"
  by (simp add: unread_inv_def new_unread_def map_keys_def)

end
