(* ===== verification/UnreadProps.thy ===== *)
theory UnreadProps
  imports Unread SocketCore
begin

text \<open>
  The properties of unread counters and read receipts (\<^verbatim>\<open>hooks/useUnread.ts\<close>).
\<close>

section \<open>Receipts of a channel\<close>

definition receipts_of :: "int \<Rightarrow> unread_effect list \<Rightarrow> int list" where
  "receipts_of c os = List.map_filter (\<lambda>x. case x of SendMarkRead d m \<Rightarrow> if d = c then Some m else None | _ \<Rightarrow> None) os"

lemma receipts_of_simps [simp]:
  "receipts_of c [] = []" "receipts_of c (os @ os') = receipts_of c os @ receipts_of c os'"
  "receipts_of c (SendMarkRead d m # os) = (if d = c then m # receipts_of c os else receipts_of c os)"
  "receipts_of c (ArmTimer d t # os) = receipts_of c os" "receipts_of c (DisarmTimer d # os) = receipts_of c os"
  by (simp_all add: receipts_of_def List.map_filter_def)

abbreviation last_sent :: "int \<Rightarrow> unread_state \<Rightarrow> int" where
  "last_sent c s \<equiv> map_get_or 0 (un_lastSent s) c"

definition advances :: "int \<Rightarrow> unread_state \<Rightarrow> unread_state \<times> unread_effect list \<Rightarrow> bool" where
  "advances c s r \<longleftrightarrow> sorted_wrt (<) (receipts_of c (snd r)) \<and> last_sent c s \<le> last_sent c (fst r)
     \<and> (\<forall>m \<in> set (receipts_of c (snd r)). last_sent c s < m \<and> m \<le> last_sent c (fst r))"

lemma advances_refl: "last_sent c t = last_sent c s \<Longrightarrow> receipts_of c os = [] \<Longrightarrow> advances c s (t, os)"
  by (simp add: advances_def)

lemma advances_then: "advances c s r \<Longrightarrow> advances c (fst r) (f (fst r)) \<Longrightarrow> advances c s (then_do r f)"
  by (auto simp: advances_def sorted_wrt_append intro: le_less_trans less_le_trans)

lemma advances_start: "last_sent c s' = last_sent c s \<Longrightarrow> advances c s' r \<Longrightarrow> advances c s r"
  by (simp add: advances_def)

lemma sendNow_advances: "advances c s (sendNow now d s)"
  by (auto simp: sendNow_def advances_def split: option.split)

lemma flush_advances: "advances c s (flushChannel now d s)"
  unfolding flushChannel_def
  by (rule advances_then) (auto intro: advances_refl sendNow_advances)

lemma flush_all_advances: "advances c s r \<Longrightarrow> advances c s (foldl (\<lambda>r d. then_do r (flushChannel now d)) r ds)"
  by (induction ds arbitrary: r) (simp_all add: advances_then flush_advances)

lemma schedule_advances: "advances c s (scheduleSend now d m force s)"
proof -
  let ?s = "s\<lparr>un_pending := map_set d m (un_pending s)\<rparr>"
  have "advances c s (flushChannel now d ?s)" "advances c s (sendNow now d ?s)"
    by (rule advances_start [where s' = ?s], simp, rule flush_advances)
      (rule advances_start [where s' = ?s], simp, rule sendNow_advances)
  then show ?thesis by (auto simp: scheduleSend_def Let_def intro: advances_refl)
qed

lemma mark_advances: "advances c s (markChannelRead now d m force s)"
  by (auto simp: markChannelRead_def clear_count_def Let_def intro: advances_refl
      intro!: advances_start [OF _ schedule_advances])

lemma step_advances: "advances c s (unread_step s e)"
proof (cases e)
  case (UnHide now)
  have "advances c s (s, [])" by (simp add: advances_refl)
  with UnHide show ?thesis by (simp add: flushAll_def flush_all_advances)
qed (auto simp: unread_on_message_def mark_open_channel_def leave_channel_def mark_timer_fire_def refreshUnread_done_def
    clear_count_def Let_def intro: advances_refl flush_advances
    intro!: advances_start [OF _ mark_advances] advances_start [OF _ sendNow_advances] split: sum.split)

lemma run_advances:
  "run unread_enabled unread_step s es t os \<Longrightarrow> advances c s (t, os)"
proof (induction rule: run.induct)
  case (run_nil s)
  then show ?case by (simp add: advances_refl)
next
  case (run_snoc s es t os e u os')
  then have "advances c t (u, os')" using step_advances [of c t e] by simp
  with run_snoc.IH show ?case
    by (auto simp: advances_def sorted_wrt_append intro: le_less_trans less_le_trans)
qed

section \<open>Flushing\<close>

lemma flush_one:
  "map_get (un_pending (fst (flushChannel now c s))) d = (if d = c then None else map_get (un_pending s) d)"
  "d \<noteq> c \<Longrightarrow> last_sent d (fst (flushChannel now c s)) = last_sent d s"
  "map_get (un_pending s) c = Some m \<Longrightarrow> last_sent c s < m \<Longrightarrow> SendMarkRead c m \<in> set (snd (flushChannel now c s))"
  by (auto simp: flushChannel_def sendNow_def split: option.split)

abbreviation flush_fold where
  "flush_fold now r cs \<equiv> foldl (\<lambda>r c. then_do r (flushChannel now c)) r cs"

lemma flush_many:
  fixes r :: "unread_state \<times> unread_effect list"
  shows "map_get (un_pending (fst (flush_fold now r cs))) d = (if d \<in> set cs then None else map_get (un_pending (fst r)) d)"
    and "set (snd r) \<subseteq> set (snd (flush_fold now r cs))"
    and "d \<in> set cs \<Longrightarrow> map_get (un_pending (fst r)) d = Some m \<Longrightarrow> last_sent d (fst r) < m
      \<Longrightarrow> SendMarkRead d m \<in> set (snd (flush_fold now r cs))"
proof -
  show pend: "map_get (un_pending (fst (flush_fold now r cs))) d = (if d \<in> set cs then None else map_get (un_pending (fst r)) d)"
    by (induction cs arbitrary: r) (auto simp: flush_one)
  have mono: "set (snd r) \<subseteq> set (snd (flush_fold now r cs))" for r cs
  proof (induction cs arbitrary: r)
    case (Cons c cs)
    from Cons.IH [of "then_do r (flushChannel now c)"] show ?case by auto
  qed simp
  then show "set (snd r) \<subseteq> set (snd (flush_fold now r cs))" .
  show "SendMarkRead d m \<in> set (snd (flush_fold now r cs))"
    if "d \<in> set cs" "map_get (un_pending (fst r)) d = Some m" "last_sent d (fst r) < m"
    using that
  proof (induction cs arbitrary: r)
    case (Cons c cs)
    let ?r = "then_do r (flushChannel now c)"
    have step: "flush_fold now r (c # cs) = flush_fold now ?r cs" by simp
    show ?case
    proof (cases "d = c")
      case True
      then have "SendMarkRead d m \<in> set (snd ?r)" using Cons.prems flush_one(3) by simp
      with mono [of ?r cs] show ?thesis by (auto simp: step)
    next
      case False
      with Cons.prems have "d \<in> set cs" "map_get (un_pending (fst ?r)) d = Some m" "last_sent d (fst ?r) < m"
        by (simp_all add: flush_one)
      from Cons.IH [OF this] show ?thesis by (simp add: step)
    qed
  qed simp
qed

lemma map_empty: "(\<And>k. map_get m k = None) \<Longrightarrow> m = []"
proof (cases m)
  case (Cons x xs)
  then have "map_get m (fst x) = Some (snd x)" by (cases x) (simp add: map_get_def)
  moreover assume "\<And>k. map_get m k = None"
  ultimately show ?thesis by simp
qed

section \<open>Properties\<close>

text \<open>Receipts only move forward. In any run of the hook the message ids it reports as read for a channel are
  strictly increasing: no receipt is sent twice and none goes back.\<close>

theorem receipts_increase:
  assumes "run unread_enabled unread_step new_unread es t os"
  shows "sorted_wrt (<) (receipts_of c os)"
  using run_advances [OF assms, of c] by (simp add: advances_def)

definition seen_message :: "int \<Rightarrow> Message" where
  "seen_message i = \<lparr>m_id = i, m_channel_id = 3, m_author_id = 9, m_author_first_name = JStr [],
     m_author_last_name = JStr [], m_author_nickname = JStr [], m_author_avatar_url = [], m_content = [],
     m_attachments = None, m_reply_to_id = Absent, m_reply_to = Absent, m_mentions = None,
     m_mentions_everyone = None, m_embeds = [], m_created_at = [], m_edited_at = None\<rparr>"

definition reading_run :: "unread_input list" where
  "reading_run = [UnMessage 5000 (Some 7) 3 True (seen_message 4), UnMessage 5100 (Some 7) 3 True (seen_message 5),
     UnMessage 5200 (Some 7) 3 True (seen_message 6)]"

lemma reading_run:
  "run unread_enabled unread_step new_unread reading_run (fst (exec_run unread_step new_unread reading_run))
     (snd (exec_run unread_step new_unread reading_run))"
  by (rule exec_run_run) (code_simp, simp)

theorem receipts_increase_witness:
  "receipts_of 3 (snd (exec_run unread_step new_unread (reading_run @ [UnTimer 7000 3]))) = [4, 6] \<and> (4::int) < 6"
proof -
  let ?es = "reading_run @ [UnTimer 7000 3]"
  have r: "run unread_enabled unread_step new_unread ?es (fst (exec_run unread_step new_unread ?es))
      (snd (exec_run unread_step new_unread ?es))"
    by (rule exec_run_run) (code_simp, simp)
  have "receipts_of 3 (snd (exec_run unread_step new_unread ?es)) = [4, 6]" by code_simp
  with receipts_increase [OF r, of 3] show ?thesis by simp
qed

text \<open>Nothing is lost when the tab hides. In every reachable state each receipt that waits has a timer, so
  \<^verbatim>\<open>flushAll\<close>, which walks over the timers, sends every one of them and leaves none waiting.\<close>

theorem flush_all_sends:
  assumes "run unread_enabled unread_step new_unread es s os"
  shows "un_pending (fst (flushAll now s)) = []
    \<and> (\<forall>c m. map_get (un_pending s) c = Some m \<longrightarrow> map_has c (un_timers s)
         \<and> SendMarkRead c m \<in> set (snd (flushAll now s)))"
proof -
  have inv: "unread_inv s" using receipts.inv_run [OF assms new_unread_inv] .
  have timers: "c \<in> set (map_keys (un_timers s))" if "map_get (un_pending s) c = Some m" for c m
    using inv that by (auto simp: unread_inv_def map_has_def map_get_keys [symmetric])
  have "map_get (un_pending (fst (flushAll now s))) c = None" for c
    using timers [of c] by (cases "map_get (un_pending s) c") (auto simp: flushAll_def flush_many)
  then have "un_pending (fst (flushAll now s)) = []" by (rule map_empty)
  moreover have "SendMarkRead c m \<in> set (snd (flushAll now s))" if "map_get (un_pending s) c = Some m" for c m
    unfolding flushAll_def
    by (rule flush_many(3)) (use inv that timers in \<open>auto simp: unread_inv_def\<close>)
  ultimately show ?thesis using inv by (auto simp: unread_inv_def)
qed

theorem flush_all_sends_witness:
  "SendMarkRead 3 6 \<in> set (snd (flushAll 5300 (fst (exec_run unread_step new_unread reading_run))))"
proof -
  have "map_get (un_pending (fst (exec_run unread_step new_unread reading_run))) 3 = Some 6" by code_simp
  with flush_all_sends [OF reading_run] show ?thesis by blast
qed

text \<open>Counting messages. A message of the user's own changes no counter; one for the channel on screen clears
  it; any other raises the counter of its channel by one. Counters of other channels never change, and the
  newest id known never goes back.\<close>

theorem unread_counts:
  assumes "0 < m_channel_id msg" and "0 < m_id msg"
  shows "let r = fst (unread_on_message now user selected visible msg s); c = m_channel_id msg in
    map_get_or 0 (un_unread r) c =
      (if user = Some (m_author_id msg) then map_get_or 0 (un_unread s) c
       else if c = selected \<and> visible then 0 else map_get_or 0 (un_unread s) c + 1)
    \<and> (\<forall>d. d \<noteq> c \<longrightarrow> map_get_or 0 (un_unread r) d = map_get_or 0 (un_unread s) d)
    \<and> map_get_or 0 (un_lastMessageId r) c = max (map_get_or 0 (un_lastMessageId s) c) (m_id msg)"
proof -
  have sched: "un_unread (fst (scheduleSend now c m force t)) = un_unread t"
    "un_lastMessageId (fst (scheduleSend now c m force t)) = un_lastMessageId t" for c m force t
    by (auto simp: scheduleSend_def flushChannel_def sendNow_def Let_def split: option.split)
  show ?thesis using assms
    by (auto simp: unread_on_message_def markChannelRead_def clear_count_def Let_def sched max_def)
qed

theorem unread_counts_witness:
  "map_get_or 0 (un_unread (fst (unread_on_message 0 (Some 7) 8 True (seen_message 4) new_unread))) 3 = 1"
  using unread_counts [of "seen_message 4" 0 "Some 7" 8 True new_unread]
  by (simp add: seen_message_def new_unread_def Let_def map_get_or_def)

text \<open>Totals per server. The count of a server is the sum of the positive counters of the channels that
  belong to it, and when no counter is negative it is at most the total.\<close>

theorem server_totals:
  assumes "sid \<noteq> 0"
  shows "map_get_or 0 (unreadByServer cs s) sid
      = (\<Sum>(c, n) \<leftarrow> record_entries (un_unread s).
           if 0 < n \<and> map_get (server_ids (un_serverId s) cs) c = Some sid then n else 0)
    \<and> ((\<forall>(c, n) \<in> set (un_unread s). 0 \<le> n) \<longrightarrow> map_get_or 0 (unreadByServer cs s) sid \<le> totalUnread s)"
proof -
  let ?ids = "server_ids (un_serverId s) cs"
  let ?part = "\<lambda>(c, n). if 0 < n \<and> map_get ?ids c = Some sid then n else 0"
  have fold: "map_get_or 0 (foldl (add_unread ?ids) acc xs) sid = map_get_or 0 acc sid + sum_list (map ?part xs)" for acc xs
  proof (induction xs arbitrary: acc)
    case (Cons x xs)
    have "map_get_or 0 (add_unread ?ids acc x) sid = map_get_or 0 acc sid + ?part x"
      using assms by (auto simp: add_unread_def split: option.split prod.split)
    with Cons show ?case by simp
  qed simp
  have eq: "map_get_or 0 (unreadByServer cs s) sid = sum_list (map ?part (record_entries (un_unread s)))"
    by (simp add: unreadByServer_def fold) (simp add: map_get_or_def)
  have "sum_list (map ?part xs) \<le> sum_list (map snd xs)" if "\<forall>(c, n) \<in> set xs. 0 \<le> n" for xs :: "(int \<times> int) list"
    using that by (induction xs) auto
  then show ?thesis using eq by (auto simp: totalUnread_def case_prod_unfold)
qed

theorem server_totals_witness:
  "map_get_or 0 (unreadByServer [(5, [\<lparr>ch_id = 3, ch_server_id = 5, ch_name = [], ch_type = TextChannel\<rparr>])]
     (new_unread\<lparr>un_unread := [(3, 2), (4, 6)]\<rparr>)) 5 \<le> 8"
  using server_totals [of 5 "[(5, [\<lparr>ch_id = 3, ch_server_id = 5, ch_name = [], ch_type = TextChannel\<rparr>])]"
      "new_unread\<lparr>un_unread := [(3, 2), (4, 6)]\<rparr>"]
  by (simp add: totalUnread_def record_entries_def)

text \<open>A receipt for a closed socket is gone. \<^verbatim>\<open>sendMarkRead\<close> drops the frame while the socket is not open, but
  the hook notes it as sent: the same message is never reported again, whatever happens later.\<close>

theorem dropped_receipt:
  assumes "0 < c" and "0 < m" and "last_sent c s < m" and "\<not> isOpen sock"
  shows "let r = markChannelRead now c m True s in
    receipts_of c (snd r) = [m] \<and> sendMarkRead c m sock = (sock, [])
    \<and> receipts_of c (snd (markChannelRead later c m force (fst r))) = []"
proof -
  let ?r = "markChannelRead now c m True s"
  have r: "receipts_of c (snd ?r) = [m]" and l: "last_sent c (fst ?r) = m"
    using assms(1-3) by (auto simp: markChannelRead_def scheduleSend_def flushChannel_def sendNow_def clear_count_def Let_def)
  have "receipts_of c (snd (markChannelRead later c m force t)) = []" if "last_sent c t = m" for t
    using that by (auto simp: markChannelRead_def scheduleSend_def clear_count_def Let_def)
  with r l assms(4) show ?thesis by (simp add: Let_def sendMarkRead_def)
qed

theorem dropped_receipt_witness:
  "sendMarkRead 3 4 new_socket = (new_socket, [])
   \<and> receipts_of 3 (snd (markChannelRead 9000 3 4 True (fst (markChannelRead 100 3 4 True new_unread)))) = []"
proof -
  have "last_sent 3 new_unread < 4" by (simp add: new_unread_def map_get_or_def)
  moreover have "\<not> isOpen new_socket" by (simp add: isOpen_def new_socket_def)
  ultimately show ?thesis using dropped_receipt [of 3 4 new_unread new_socket 100 9000 True] by (simp add: Let_def)
qed

end
