(* ===== verification/Typing.thy ===== *)
theory Typing
  imports Prelude
begin

text \<open>
  Typing indicators: what others see (\<^verbatim>\<open>hooks/useTypingIndicator.ts\<close>, one timer per channel and user) and what
  the user's own input sends (\<^verbatim>\<open>hooks/useTypingEmitter.ts\<close>, throttled, with an inactivity timer).
\<close>

definition TYPING_THROTTLE_MS :: int where "TYPING_THROTTLE_MS = 3000"
definition TYPING_INACTIVITY_MS :: int where "TYPING_INACTIVITY_MS = 5000"
definition TYPING_RECEIVER_TTL_MS :: int where "TYPING_RECEIVER_TTL_MS = 6000"

section \<open>The indicator\<close>

record typing_state =
  ty_byChannel :: "int list record_map"
  ty_timers :: "(string \<times> (int \<times> int)) list"

definition no_typing :: typing_state where
  "no_typing = \<lparr>ty_byChannel = [], ty_timers = []\<rparr>"

text \<open>The key of a timer; the entry keeps the channel and the user its callback closes over.\<close>

definition typing_key :: "int \<Rightarrow> int \<Rightarrow> string" where
  "typing_key c u = show_int c @ '':'' @ show_int u"

definition clearUser :: "int \<Rightarrow> int \<Rightarrow> typing_state \<Rightarrow> typing_state" where
  "clearUser c u s = (case map_get (ty_byChannel s) c of
     None \<Rightarrow> s
   | Some us \<Rightarrow>
       (if u \<notin> set us then s
        else let next = filter (\<lambda>x. x \<noteq> u) us
             in s\<lparr>ty_byChannel := (if next \<noteq> [] then map_set c next (ty_byChannel s) else map_del c (ty_byChannel s))\<rparr>))"

definition on_typing :: "int option \<Rightarrow> int \<Rightarrow> int \<Rightarrow> bool \<Rightarrow> typing_state \<Rightarrow> typing_state" where
  "on_typing currentUserId c u isTyping s0 =
     (if currentUserId = Some u then s0
      else let s = s0\<lparr>ty_timers := map_del (typing_key c u) (ty_timers s0)\<rparr>
           in if \<not> isTyping then clearUser c u s
              else let us = map_get_or [] (ty_byChannel s) c;
                       s1 = (if u \<in> set us then s else s\<lparr>ty_byChannel := map_set c (us @ [u]) (ty_byChannel s)\<rparr>)
                   in s1\<lparr>ty_timers := map_set (typing_key c u) (c, u) (ty_timers s1)\<rparr>)"

definition typing_timer_fire :: "string \<Rightarrow> typing_state \<Rightarrow> typing_state" where
  "typing_timer_fire k s = (case map_get (ty_timers s) k of
     None \<Rightarrow> s
   | Some (c, u) \<Rightarrow> (clearUser c u s)\<lparr>ty_timers := map_del k (ty_timers s)\<rparr>)"

text \<open>The cleanup of the effect: when the connection goes, or the user changes.\<close>

definition typing_cleanup :: "typing_state \<Rightarrow> typing_state" where
  "typing_cleanup s = s\<lparr>ty_timers := []\<rparr>"

definition typing_users :: "typing_state \<Rightarrow> int \<Rightarrow> int set" where
  "typing_users s c = set (map_get_or [] (ty_byChannel s) c)"

datatype typing_input = TyEvent "int option" int int bool | TyTimer string

fun typing_step :: "typing_state \<Rightarrow> typing_input \<Rightarrow> typing_state \<times> unit list" where
  "typing_step s (TyEvent me c u b) = (on_typing me c u b s, [])"
| "typing_step s (TyTimer k) = (typing_timer_fire k s, [])"

fun typing_enabled :: "typing_state \<Rightarrow> typing_input \<Rightarrow> bool" where
  "typing_enabled s (TyEvent _ _ _ _) = True"
| "typing_enabled s (TyTimer k) = map_has k (ty_timers s)"

text \<open>Someone is shown as typing exactly while their timer runs.\<close>

definition typing_inv :: "typing_state \<Rightarrow> bool" where
  "typing_inv s \<longleftrightarrow> (\<forall>c u. u \<in> typing_users s c \<longleftrightarrow> map_get (ty_timers s) (typing_key c u) = Some (c, u))
     \<and> (\<forall>k c u. map_get (ty_timers s) k = Some (c, u) \<longrightarrow> k = typing_key c u)"

lemma typing_key_inject [simp]: "typing_key c u = typing_key d v \<longleftrightarrow> c = d \<and> u = v"
  by (simp add: typing_key_def)

lemma clearUser_list: "map_get_or [] (ty_byChannel (clearUser c u s)) d
    = (if d = c then filter (\<lambda>x. x \<noteq> u) (map_get_or [] (ty_byChannel s) d) else map_get_or [] (ty_byChannel s) d)"
proof (cases "map_get (ty_byChannel s) c")
  case (Some us)
  show ?thesis
  proof (cases "u \<in> set us")
    case True
    then show ?thesis using Some
      by (cases "filter (\<lambda>x. x \<noteq> u) us") (simp_all add: clearUser_def map_get_or_def Let_def)
  next
    case False
    then have "filter (\<lambda>x. x \<noteq> u) us = us" by (auto simp: filter_id_conv)
    with False Some show ?thesis by (simp add: clearUser_def map_get_or_def)
  qed
qed (simp add: clearUser_def map_get_or_def)

lemma clearUser_users: "typing_users (clearUser c u s) d = (if d = c then typing_users s c - {u} else typing_users s d)"
  by (auto simp: typing_users_def clearUser_list)

lemma add_users:
  "typing_users (s\<lparr>ty_timers := t, ty_byChannel := map_set c (map_get_or [] (ty_byChannel s) c @ [u]) (ty_byChannel s)\<rparr>) d
    = (if d = c then insert u (typing_users s c) else typing_users s d)"
  by (auto simp: typing_users_def)

lemma clearUser_timers [simp]: "ty_timers (clearUser c u s) = ty_timers s"
  by (auto simp: clearUser_def Let_def split: option.split)

lemma typing_users_timers [simp]: "typing_users (s\<lparr>ty_timers := t\<rparr>) = typing_users s"
  by (simp add: typing_users_def fun_eq_iff)

lemma typing_invI:
  assumes "\<And>c u. u \<in> typing_users s c \<longleftrightarrow> map_get (ty_timers s) (typing_key c u) = Some (c, u)"
    and "\<And>k c u. map_get (ty_timers s) k = Some (c, u) \<Longrightarrow> k = typing_key c u"
  shows "typing_inv s"
  using assms unfolding typing_inv_def by blast

lemma typing_invD:
  assumes "typing_inv s"
  shows "u \<in> typing_users s c \<longleftrightarrow> map_get (ty_timers s) (typing_key c u) = Some (c, u)"
    and "map_get (ty_timers s) k = Some (c, u) \<Longrightarrow> k = typing_key c u"
    and "map_get (ty_timers s) (typing_key c u) = Some q \<Longrightarrow> q = (c, u)"
proof -
  show "u \<in> typing_users s c \<longleftrightarrow> map_get (ty_timers s) (typing_key c u) = Some (c, u)"
    and key: "\<And>k c u. map_get (ty_timers s) k = Some (c, u) \<Longrightarrow> k = typing_key c u"
    using assms unfolding typing_inv_def by blast+
  show "q = (c, u)" if "map_get (ty_timers s) (typing_key c u) = Some q"
    using key [of "typing_key c u" "fst q" "snd q"] that by (cases q) simp
qed

lemma clear_inv:
  assumes "typing_inv s"
  shows "typing_inv ((clearUser c u s)\<lparr>ty_timers := map_del (typing_key c u) (ty_timers s)\<rparr>)"
  by (rule typing_invI) (auto simp: clearUser_users typing_invD(1) [OF assms] split: if_splits intro: typing_invD(2) [OF assms])

lemma on_typing_inv:
  assumes "typing_inv s"
  shows "typing_inv (on_typing me c u b s)"
proof (cases "me = Some u")
  case False
  let ?s = "s\<lparr>ty_timers := map_del (typing_key c u) (ty_timers s)\<rparr>"
  show ?thesis
  proof (cases b)
    case True
    define t where "t = on_typing me c u True s"
    have users: "typing_users t d = (if d = c then insert u (typing_users s c) else typing_users s d)" for d
      using False by (auto simp: t_def on_typing_def Let_def typing_users_def)
    have timers: "map_get (ty_timers t) k = (if k = typing_key c u then Some (c, u) else map_get (ty_timers s) k)" for k
      using False by (auto simp: t_def on_typing_def Let_def)
    have "typing_inv t"
      by (rule typing_invI) (auto simp: users timers typing_invD(1) [OF assms] split: if_splits intro: typing_invD(2) [OF assms])
    with True show ?thesis by (simp add: t_def)
  next
    case False
    have "clearUser c u ?s = (clearUser c u s)\<lparr>ty_timers := map_del (typing_key c u) (ty_timers s)\<rparr>"
      by (auto simp: clearUser_def Let_def split: option.split)
    with False \<open>me \<noteq> Some u\<close> clear_inv [OF assms] show ?thesis by (simp add: on_typing_def Let_def)
  qed
qed (simp add: assms on_typing_def)

lemma fire_inv:
  assumes "typing_inv s"
  shows "typing_inv (typing_timer_fire k s)"
proof (cases "map_get (ty_timers s) k")
  case (Some q)
  obtain c u where q: "q = (c, u)" by fastforce
  with Some have "k = typing_key c u" using typing_invD(2) [OF assms] by simp
  with Some q clear_inv [OF assms] show ?thesis by (simp add: typing_timer_fire_def)
qed (simp add: assms typing_timer_fire_def)

interpretation typing: machine_invariant typing_enabled typing_step typing_inv
proof unfold_locales
  fix s e assume "typing_inv s" and "typing_enabled s e"
  then show "typing_inv (fst (typing_step s e))" by (cases e) (simp_all add: on_typing_inv fire_inv)
qed

section \<open>The emitter\<close>

record emitter =
  em_lastSent :: int
  em_inactivity :: "int option"
  em_active :: bool

definition idle_emitter :: emitter where
  "idle_emitter = \<lparr>em_lastSent = 0, em_inactivity = None, em_active = False\<rparr>"

datatype typing_effect = SendTyping int int bool

text \<open>\<open>now\<close> in the effect is the time of the call; the inactivity timer is the time it is due.\<close>

definition emitter_stop :: "int \<Rightarrow> int \<Rightarrow> emitter \<Rightarrow> emitter \<times> typing_effect list" where
  "emitter_stop now channelId e0 =
     (let e = e0\<lparr>em_inactivity := None\<rparr>
      in if \<not> em_active e then (e, [])
         else (e\<lparr>em_active := False, em_lastSent := 0\<rparr>, if 0 < channelId then [SendTyping now channelId False] else []))"

definition emitter_input :: "int \<Rightarrow> int \<Rightarrow> string \<Rightarrow> emitter \<Rightarrow> emitter \<times> typing_effect list" where
  "emitter_input now channelId value e =
     (if channelId \<le> 0 then (e, [])
      else if trim value = [] then emitter_stop now channelId e
      else let send = (\<not> em_active e \<or> TYPING_THROTTLE_MS \<le> now - em_lastSent e);
               e1 = (if send then e\<lparr>em_active := True, em_lastSent := now\<rparr> else e)
           in (e1\<lparr>em_inactivity := Some (now + TYPING_INACTIVITY_MS)\<rparr>, if send then [SendTyping now channelId True] else []))"

datatype emitter_event = EmInput int string | EmStop int | EmTimeout int

fun emitter_step :: "int \<Rightarrow> emitter \<Rightarrow> emitter_event \<Rightarrow> emitter \<times> typing_effect list" where
  "emitter_step c e (EmInput now v) = emitter_input now c v e"
| "emitter_step c e (EmStop now) = emitter_stop now c e"
| "emitter_step c e (EmTimeout now) = emitter_stop now c e"

fun emitter_enabled :: "emitter \<Rightarrow> emitter_event \<Rightarrow> bool" where
  "emitter_enabled e (EmTimeout now) = (case em_inactivity e of Some due \<Rightarrow> due \<le> now | None \<Rightarrow> False)"
| "emitter_enabled e _ = True"

definition emitter_inv :: "emitter \<Rightarrow> bool" where
  "emitter_inv e \<longleftrightarrow> (em_active e \<longrightarrow> em_inactivity e \<noteq> None)"

interpretation emitters: machine_invariant emitter_enabled "emitter_step c" emitter_inv for c
proof unfold_locales
  fix e ev assume "emitter_inv e" and "emitter_enabled e ev"
  then show "emitter_inv (fst (emitter_step c e ev))"
    by (cases ev) (auto simp: emitter_inv_def emitter_stop_def emitter_input_def Let_def)
qed

text \<open>What a run sends: every start but the first of a burst comes at least the throttle after the one before
  it, and a stop follows a start. \<open>f\<close> is the time of the start in force.\<close>

fun well_spaced :: "int option \<Rightarrow> typing_effect list \<Rightarrow> bool" where
  "well_spaced f [] = True"
| "well_spaced f (SendTyping t c True # os) =
     ((case f of Some l \<Rightarrow> l + TYPING_THROTTLE_MS \<le> t | None \<Rightarrow> True) \<and> well_spaced (Some t) os)"
| "well_spaced f (SendTyping t c False # os) = (f \<noteq> None \<and> well_spaced None os)"

definition in_force :: "emitter \<Rightarrow> int option" where
  "in_force e = (if em_active e then Some (em_lastSent e) else None)"

fun after_effects :: "int option \<Rightarrow> typing_effect list \<Rightarrow> int option" where
  "after_effects l [] = l"
| "after_effects l (SendTyping t c b # os) = after_effects (if b then Some t else None) os"

lemma well_spaced_append: "well_spaced l (os @ os') \<longleftrightarrow> well_spaced l os \<and> well_spaced (after_effects l os) os'"
  by (induction l os rule: well_spaced.induct) auto

lemma after_effects_append: "after_effects l (os @ os') = after_effects (after_effects l os) os'"
  by (induction l os rule: after_effects.induct) auto

lemma step_spaced:
  assumes "0 < c"
  shows "well_spaced (in_force e) (snd (emitter_step c e ev))
    \<and> after_effects (in_force e) (snd (emitter_step c e ev)) = in_force (fst (emitter_step c e ev))"
  using assms by (cases ev) (auto simp: emitter_stop_def emitter_input_def in_force_def Let_def)

lemma run_spaced:
  "run emitter_enabled (emitter_step c) e es t os \<Longrightarrow> 0 < c
    \<Longrightarrow> well_spaced (in_force e) os \<and> after_effects (in_force e) os = in_force t"
proof (induction rule: run.induct)
  case (run_snoc e es t os ev u os')
  from step_spaced [OF run_snoc.prems, of t ev] run_snoc show ?case
    by (simp add: well_spaced_append after_effects_append)
qed simp

section \<open>Properties\<close>

text \<open>Typing indicators expire. While the connection lasts, a user is shown as typing in a channel exactly
  while the timer of that channel and user runs, and the timer ends the indication.\<close>

theorem typing_expires:
  assumes "run typing_enabled typing_step no_typing es s os"
  shows "(u \<in> typing_users s c \<longleftrightarrow> map_has (typing_key c u) (ty_timers s))
    \<and> u \<notin> typing_users (typing_timer_fire (typing_key c u) s) c"
proof -
  have "typing_inv no_typing" by (simp add: typing_inv_def no_typing_def typing_users_def map_get_or_def)
  then have inv: "typing_inv s" using typing.inv_run [OF assms] by blast
  have "u \<in> typing_users s c \<longleftrightarrow> map_has (typing_key c u) (ty_timers s)"
    unfolding typing_invD(1) [OF inv] map_has_def using typing_invD(3) [OF inv] by blast
  moreover have "u \<notin> typing_users (typing_timer_fire (typing_key c u) s) c"
  proof (cases "map_get (ty_timers s) (typing_key c u)")
    case None
    then show ?thesis by (simp add: typing_timer_fire_def typing_invD(1) [OF inv])
  next
    case (Some q)
    with typing_invD(3) [OF inv Some] show ?thesis by (simp add: typing_timer_fire_def clearUser_users)
  qed
  ultimately show ?thesis by blast
qed

definition typing_sample :: "typing_input list" where
  "typing_sample = [TyEvent (Some 1) 3 5 True, TyEvent (Some 1) 3 1 True, TyEvent (Some 1) 4 6 True, TyEvent (Some 1) 4 6 False]"

lemma typing_sample_run:
  "run typing_enabled typing_step no_typing typing_sample (fst (exec_run typing_step no_typing typing_sample))
     (snd (exec_run typing_step no_typing typing_sample))"
  by (rule exec_run_run) (code_simp, simp)

theorem typing_expires_witness:
  "5 \<in> typing_users (fst (exec_run typing_step no_typing typing_sample)) 3"
proof -
  have "map_has (typing_key 3 5) (ty_timers (fst (exec_run typing_step no_typing typing_sample)))" by code_simp
  with typing_expires [OF typing_sample_run] show ?thesis by blast
qed

text \<open>A lost connection freezes the indicators. The cleanup stops the timers and keeps the users: afterwards
  no timer is left that could end an indication, so every user shown as typing stays so until an event about
  that very user arrives.\<close>

theorem typing_frozen:
  assumes "run typing_enabled typing_step (typing_cleanup s) es t os"
    and "\<forall>me b. TyEvent me c u b \<notin> set es" and "u \<in> typing_users s c"
  shows "u \<in> typing_users t c"
proof -
  define frozen where "frozen t \<longleftrightarrow> u \<in> typing_users t c \<and> (\<forall>k. map_get (ty_timers t) k \<noteq> Some (c, u))" for t
  have step: "frozen (fst (typing_step t e))" if "frozen t" "\<forall>me b. e \<noteq> TyEvent me c u b" for t e
  proof (cases e)
    case (TyEvent me d v b)
    from TyEvent that show ?thesis
      by (auto simp: frozen_def on_typing_def Let_def clearUser_users add_users)
  next
    case (TyTimer k)
    with that(1) show ?thesis
      by (auto simp: frozen_def typing_timer_fire_def clearUser_users split: option.split)
  qed
  have "frozen t" if "run typing_enabled typing_step x es t os" "frozen x" "\<forall>me b. TyEvent me c u b \<notin> set es" for x
    using that
  proof (induction rule: run.induct)
    case (run_snoc x es t os e y os')
    then have "frozen (fst (typing_step t e))" by (intro step) auto
    with run_snoc.hyps show ?case by simp
  qed
  moreover have "frozen (typing_cleanup s)" using assms(3) by (simp add: frozen_def typing_cleanup_def)
  ultimately show ?thesis using assms(1,2) by (auto simp: frozen_def)
qed

theorem typing_frozen_witness:
  "5 \<in> typing_users (fst (exec_run typing_step (typing_cleanup (fst (exec_run typing_step no_typing typing_sample)))
     [TyEvent (Some 1) 4 6 True, TyTimer ''4:6''])) 3"
proof -
  let ?s = "fst (exec_run typing_step no_typing typing_sample)"
  let ?es = "[TyEvent (Some 1) 4 6 True, TyTimer ''4:6'']"
  have r: "run typing_enabled typing_step (typing_cleanup ?s) ?es (fst (exec_run typing_step (typing_cleanup ?s) ?es))
      (snd (exec_run typing_step (typing_cleanup ?s) ?es))"
    by (rule exec_run_run) (code_simp, simp)
  have n: "\<forall>me b. TyEvent me 3 5 b \<notin> set ?es" by simp
  have "map_get_or [] (ty_byChannel ?s) 3 = [5]" by code_simp
  then have u: "5 \<in> typing_users ?s 3" by (simp add: typing_users_def)
  from typing_frozen [OF r n u] show ?thesis .
qed

text \<open>The emitter is throttled and tidy. In a channel, the emitter sends a start at most once per
  throttle interval while it is active, a stop only after a start, and as long as the last one was a start
  the inactivity timer is set that will send the stop.\<close>

theorem emitter_throttled:
  assumes "run emitter_enabled (emitter_step c) idle_emitter es e os" and "0 < c"
  shows "well_spaced None os
    \<and> (after_effects None os \<noteq> None \<longrightarrow> em_inactivity e \<noteq> None
         \<and> snd (emitter_step c e (EmTimeout now)) = [SendTyping now c False])"
proof -
  have "in_force idle_emitter = None" by (simp add: in_force_def idle_emitter_def)
  with run_spaced [OF assms] have w: "well_spaced None os" "after_effects None os = in_force e" by simp_all
  have "emitter_inv e"
    by (rule emitters.inv_run [OF assms(1)]) (simp add: emitter_inv_def idle_emitter_def)
  with w assms(2) show ?thesis
    by (auto simp: in_force_def emitter_inv_def emitter_stop_def Let_def split: if_splits)
qed

theorem emitter_throttled_witness:
  "snd (exec_run (emitter_step 3) idle_emitter [EmInput 100 ''a'', EmInput 900 ''ab'', EmInput 3200 ''abc''])
     = [SendTyping 100 3 True, SendTyping 3200 3 True]
   \<and> well_spaced None (snd (exec_run (emitter_step 3) idle_emitter [EmInput 100 ''a'', EmInput 900 ''ab'', EmInput 3200 ''abc'']))"
proof -
  let ?es = "[EmInput 100 ''a'', EmInput 900 ''ab'', EmInput 3200 ''abc'']"
  have r: "run emitter_enabled (emitter_step 3) idle_emitter ?es (fst (exec_run (emitter_step 3) idle_emitter ?es))
      (snd (exec_run (emitter_step 3) idle_emitter ?es))"
    by (rule exec_run_run) (code_simp, simp)
  have "snd (exec_run (emitter_step 3) idle_emitter ?es) = [SendTyping 100 3 True, SendTyping 3200 3 True]" by code_simp
  with emitter_throttled [OF r] show ?thesis by simp
qed

end
