(* ===== verification/Call.thy ===== *)
theory Call
  imports ChatTypes Quality
begin

text \<open>
  The media of a voice call (\<^verbatim>\<open>services/sfuCallClient.ts\<close>, first half): who is in the channel, the stream of
  each of them and which of their videos it shows, the video subscriptions and their quality. A \<open>MediaStream\<close>
  is an object of the store \<open>sc_streams\<close>, named by a number, because the \<open>onended\<close> callback of a track keeps
  the stream it was added to. The calls of the listeners given to the constructor, the commands sent and the
  timers armed are the effects.
\<close>

section \<open>State\<close>

record media_track =
  tk_object :: nat
  tk_id :: string
  tk_kind :: string

record video_slots =
  vs_camera :: "media_track option"
  vs_screen :: "media_track option"

record JoinVoiceResponse =
  jr_channel_id :: int
  jr_participants :: "VoiceParticipant list"
  jr_session_id :: "string option"
  jr_publish_slots :: "(string \<times> string) list option"

record SfuCandidatePayload =
  sc_session_id :: string
  sc_candidate :: string
  sc_sdp_mid :: "string option"
  sc_sdp_mline_index :: "int option"

datatype CallStatus = Connected | Reconnecting | Lost

datatype connection_state = PcNew | PcConnecting | PcConnected | PcDisconnected | PcFailed | PcClosed

record peer_connection =
  pc_state :: connection_state
  pc_remoteDescription :: bool

record call_client =
  cc_selfUserID :: int
  cc_participants :: "(int \<times> VoiceParticipant) list"
  cc_remoteStreams :: "(int \<times> nat) list"
  cc_streams :: "(nat \<times> media_track list) list"
  cc_nextStream :: nat
  cc_remoteVideoTracks :: "(int \<times> video_slots) list"
  cc_hiddenRemoteVideo :: "string list"
  cc_endedTracks :: "nat list"
  cc_onended :: "(nat \<times> (media_track \<times> int \<times> VoiceParticipant \<times> string \<times> nat)) list"
  cc_pc :: "peer_connection option"
  cc_sessionID :: string
  cc_currentChannelID :: int
  cc_publishSlots :: "(string \<times> string) list"
  cc_senders :: "(string \<times> media_track option) list"
  cc_pendingCandidates :: "SfuCandidatePayload list"
  cc_subscribedVideo :: "string list"
  cc_pendingVideoSubscriptions :: "(string \<times> (int \<times> string)) list"
  cc_subscribeDebounceTimer :: bool
  cc_activeSpeakers :: "int list"
  cc_sessionLostHandled :: bool
  cc_recoveryGeneration :: nat
  cc_localStream :: "media_track list option"
  cc_screenStream :: "media_track list option"
  cc_cameraEnabled :: bool
  cc_qualitySampleTimer :: bool
  cc_qualityTracker :: QualityTracker
  cc_lastQualitySignature :: string

definition new_client :: "int \<Rightarrow> call_client" where
  "new_client self = \<lparr>cc_selfUserID = self, cc_participants = [], cc_remoteStreams = [], cc_streams = [],
     cc_nextStream = 0, cc_remoteVideoTracks = [], cc_hiddenRemoteVideo = [], cc_endedTracks = [], cc_onended = [],
     cc_pc = None, cc_sessionID = [], cc_currentChannelID = 0, cc_publishSlots = [], cc_senders = [],
     cc_pendingCandidates = [], cc_subscribedVideo = [], cc_pendingVideoSubscriptions = [],
     cc_subscribeDebounceTimer = False, cc_activeSpeakers = [], cc_sessionLostHandled = False,
     cc_recoveryGeneration = 0, cc_localStream = None, cc_screenStream = None, cc_cameraEnabled = False,
     cc_qualitySampleTimer = False, cc_qualityTracker = createQualityTracker, cc_lastQualitySignature = []\<rparr>"

datatype call_effect =
    RemoteStream VoiceParticipant nat
  | RemoteLeft int
  | LocalStream "media_track list option"
  | LocalScreenStream "media_track list option"
  | CallError string
  | StatusChange CallStatus
  | SubscribeVideo string int string string
  | PublishState string string bool
  | ArmSubscribeFlush int
  | DisarmSubscribeFlush
  | AddIceCandidate SfuCandidatePayload
  | SendAnswer string
  | SendOffer string "(string \<times> string \<times> string) list"
  | LeaveChannel
  | QualityChange "PeerQuality record_map"
  | StartQualityTimer int
  | StopQualityTimer
  | StopTrack media_track
  | ClosePeer

definition SUBSCRIBE_DEBOUNCE_MS :: int where "SUBSCRIBE_DEBOUNCE_MS = 300"

text \<open>The object \<^verbatim>\<open>{ user_id: userID }\<close> made for someone the client has not heard of.\<close>

definition bare_participant :: "int \<Rightarrow> VoiceParticipant" where
  "bare_participant u = \<lparr>vp_user_id = u, vp_first_name = None, vp_last_name = None, vp_nickname = None,
     vp_avatar_url = None, vp_mic_enabled = None, vp_deafened = None, vp_detached = None\<rparr>"

definition participant_or_bare :: "int \<Rightarrow> call_client \<Rightarrow> VoiceParticipant" where
  "participant_or_bare u s = map_get_or (bare_participant u) (cc_participants s) u"

definition video_key :: "int \<Rightarrow> string \<Rightarrow> string" where
  "video_key u source = show_int u @ CHR '':'' # source"

section \<open>Which video a tile shows\<close>

definition stream_tracks :: "nat \<Rightarrow> call_client \<Rightarrow> media_track list" where
  "stream_tracks r s = map_get_or [] (cc_streams s) r"

definition set_stream :: "nat \<Rightarrow> media_track list \<Rightarrow> call_client \<Rightarrow> call_client" where
  "set_stream r ts s = s\<lparr>cc_streams := map_set r ts (cc_streams s)\<rparr>"

definition slots_of :: "int \<Rightarrow> call_client \<Rightarrow> video_slots" where
  "slots_of u s = map_get_or \<lparr>vs_camera = None, vs_screen = None\<rparr> (cc_remoteVideoTracks s) u"

definition available :: "int \<Rightarrow> string \<Rightarrow> media_track option \<Rightarrow> call_client \<Rightarrow> bool" where
  "available u source t s = (case t of None \<Rightarrow> False
     | Some tr \<Rightarrow> tk_object tr \<notin> set (cc_endedTracks s) \<and> video_key u source \<notin> set (cc_hiddenRemoteVideo s))"

definition desired_video :: "int \<Rightarrow> call_client \<Rightarrow> media_track option" where
  "desired_video u s =
     (if available u ''screen'' (vs_screen (slots_of u s)) s then vs_screen (slots_of u s)
      else if available u ''camera'' (vs_camera (slots_of u s)) s then vs_camera (slots_of u s)
      else None)"

definition is_video :: "media_track \<Rightarrow> bool" where
  "is_video t \<longleftrightarrow> tk_kind t = ''video''"

definition reconcileRemoteVideo :: "int \<Rightarrow> nat \<Rightarrow> call_client \<Rightarrow> call_client" where
  "reconcileRemoteVideo u r s =
     (let desired = desired_video u s;
          kept = filter (\<lambda>t. is_video t \<longrightarrow> Some t = desired) (stream_tracks r s)
      in set_stream r (case desired of
           Some d \<Rightarrow> (if d \<in> set kept then kept else kept @ [d])
         | None \<Rightarrow> kept) s)"

definition refreshRemoteVideo :: "int \<Rightarrow> call_client \<Rightarrow> call_client \<times> call_effect list" where
  "refreshRemoteVideo u s = (case map_get (cc_remoteStreams s) u of
     None \<Rightarrow> (s, [])
   | Some r \<Rightarrow> (reconcileRemoteVideo u r s, [RemoteStream (participant_or_bare u s) r]))"

definition hideRemoteVideo :: "int \<Rightarrow> string \<Rightarrow> call_client \<Rightarrow> call_client \<times> call_effect list" where
  "hideRemoteVideo u source s =
     refreshRemoteVideo u (s\<lparr>cc_hiddenRemoteVideo := set_add (video_key u source) (cc_hiddenRemoteVideo s)\<rparr>)"

definition reappearRemoteVideo :: "int \<Rightarrow> string \<Rightarrow> call_client \<Rightarrow> call_client \<times> call_effect list" where
  "reappearRemoteVideo u source s =
     refreshRemoteVideo u (s\<lparr>cc_hiddenRemoteVideo := set_del (video_key u source) (cc_hiddenRemoteVideo s)\<rparr>)"

text \<open>Stream ids are \<^verbatim>\<open>/^u(\d+)-(.+)$/\<close>: the digits end at the first character that is none, a dot does not
  match a line end.\<close>

definition is_digit :: "char \<Rightarrow> bool" where
  "is_digit c \<longleftrightarrow> 48 \<le> (of_char c :: nat) \<and> (of_char c :: nat) \<le> 57"

definition is_line_end :: "char \<Rightarrow> bool" where
  "is_line_end c \<longleftrightarrow> (of_char c :: nat) = 10 \<or> (of_char c :: nat) = 13"

definition parse_stream_id :: "string \<Rightarrow> (int \<times> string) option" where
  "parse_stream_id streamID = (case streamID of
     CHR ''u'' # rest \<Rightarrow>
       (let digits = takeWhile is_digit rest
        in case dropWhile is_digit rest of
             CHR ''-'' # source \<Rightarrow>
               (if digits = [] \<or> source = [] \<or> (\<exists>c \<in> set source. is_line_end c) then None
                else Some (int (read_nat digits), source))
           | _ \<Rightarrow> None)
   | _ \<Rightarrow> None)"

definition set_slot :: "string \<Rightarrow> media_track option \<Rightarrow> video_slots \<Rightarrow> video_slots" where
  "set_slot source t v = (if source = ''camera'' then v\<lparr>vs_camera := t\<rparr> else v\<lparr>vs_screen := t\<rparr>)"

definition slot_of :: "string \<Rightarrow> video_slots \<Rightarrow> media_track option" where
  "slot_of source v = (if source = ''camera'' then vs_camera v else vs_screen v)"

text \<open>The stream of a user, made on the first track of theirs.\<close>

definition ensure_stream :: "int \<Rightarrow> call_client \<Rightarrow> nat \<times> call_client" where
  "ensure_stream u s = (case map_get (cc_remoteStreams s) u of
     Some r \<Rightarrow> (r, s)
   | None \<Rightarrow> (cc_nextStream s, s\<lparr>cc_remoteStreams := map_set u (cc_nextStream s) (cc_remoteStreams s),
         cc_streams := map_set (cc_nextStream s) [] (cc_streams s), cc_nextStream := Suc (cc_nextStream s)\<rparr>))"

definition handleTrack :: "string \<Rightarrow> media_track \<Rightarrow> call_client \<Rightarrow> call_client \<times> call_effect list" where
  "handleTrack streamID t s0 = (case parse_stream_id streamID of
     None \<Rightarrow> (s0, [])
   | Some (u, source) \<Rightarrow>
       (if u = cc_selfUserID s0 then (s0, [])
        else let participant = participant_or_bare u s0;
                 (r, s) = ensure_stream u (s0\<lparr>cc_participants := map_set u participant (cc_participants s0)\<rparr>)
             in if is_video t \<and> source \<in> {''camera'', ''screen''}
                then let s1 = s\<lparr>cc_remoteVideoTracks := map_set u (set_slot source (Some t) (slots_of u s)) (cc_remoteVideoTracks s),
                              cc_onended := map_set (tk_object t) (t, u, participant, source, r) (cc_onended s)\<rparr>
                     in (reconcileRemoteVideo u r s1, [RemoteStream participant r])
                else let tracks = stream_tracks r s;
                         s1 = (if tk_id t \<in> tk_id ` set tracks then s else set_stream r (tracks @ [t]) s)
                     in (s1\<lparr>cc_onended := map_set (tk_object t) (t, u, participant, source, r) (cc_onended s1)\<rparr>,
                         [RemoteStream participant r])))"

text \<open>The browser ends a track, then runs the callback \<open>handleTrack\<close> put on it.\<close>

definition ended_slot :: "int \<Rightarrow> string \<Rightarrow> media_track \<Rightarrow> call_client \<Rightarrow> call_client" where
  "ended_slot u source t s = (case map_get (cc_remoteVideoTracks s) u of
     None \<Rightarrow> s
   | Some v \<Rightarrow> (if slot_of source v = Some t
       then s\<lparr>cc_remoteVideoTracks := map_set u (set_slot source None v) (cc_remoteVideoTracks s)\<rparr> else s))"

fun remove_first :: "('a \<Rightarrow> bool) \<Rightarrow> 'a list \<Rightarrow> 'a list" where
  "remove_first P [] = []"
| "remove_first P (x # xs) = (if P x then xs else x # remove_first P xs)"

definition track_ended :: "nat \<Rightarrow> call_client \<Rightarrow> call_client \<times> call_effect list" where
  "track_ended object s0 =
     (let s = s0\<lparr>cc_endedTracks := set_add object (cc_endedTracks s0)\<rparr>
      in case map_get (cc_onended s) object of
           None \<Rightarrow> (s, [])
         | Some (t, u, participant, source, r) \<Rightarrow>
             (if is_video t \<and> source \<in> {''camera'', ''screen''}
              then (reconcileRemoteVideo u r (ended_slot u source t s), [RemoteStream participant r])
              else (set_stream r (remove_first (\<lambda>x. tk_id x = tk_id t) (stream_tracks r s)) s,
                    [RemoteStream participant r])))"

section \<open>Video subscriptions\<close>

definition qualityFor :: "int \<Rightarrow> string \<Rightarrow> call_client \<Rightarrow> string" where
  "qualityFor u source s =
     (if source \<noteq> ''camera'' then ''high'' else if u \<in> set (cc_activeSpeakers s) then ''high'' else ''low'')"

definition scheduleSubscribeFlush :: "call_client \<Rightarrow> call_client \<times> call_effect list" where
  "scheduleSubscribeFlush s =
     (if cc_subscribeDebounceTimer s then (s, [])
      else (s\<lparr>cc_subscribeDebounceTimer := True\<rparr>, [ArmSubscribeFlush SUBSCRIBE_DEBOUNCE_MS]))"

definition subscribe_one :: "int \<times> string \<Rightarrow> call_client \<Rightarrow> call_client \<times> call_effect list" where
  "subscribe_one p s = (case p of (u, source) \<Rightarrow>
     (s\<lparr>cc_subscribedVideo := set_add (video_key u source) (cc_subscribedVideo s)\<rparr>,
      [SubscribeVideo (cc_sessionID s) u source (qualityFor u source s)]))"

fun subscribe_all :: "(int \<times> string) list \<Rightarrow> call_client \<Rightarrow> call_client \<times> call_effect list" where
  "subscribe_all [] s = (s, [])"
| "subscribe_all (p # ps) s = (let (s1, os) = subscribe_one p s; (s2, os') = subscribe_all ps s1 in (s2, os @ os'))"

definition flushPendingSubscriptions :: "call_client \<Rightarrow> call_client \<times> call_effect list" where
  "flushPendingSubscriptions s =
     (if cc_sessionID s = [] then (s\<lparr>cc_pendingVideoSubscriptions := []\<rparr>, [])
      else subscribe_all (map snd (cc_pendingVideoSubscriptions s)) (s\<lparr>cc_pendingVideoSubscriptions := []\<rparr>))"

definition subscribe_timer_fire :: "call_client \<Rightarrow> call_client \<times> call_effect list" where
  "subscribe_timer_fire s = flushPendingSubscriptions (s\<lparr>cc_subscribeDebounceTimer := False\<rparr>)"

text \<open>The \<open>catch\<close> of a subscription that the server refused or that timed out.\<close>

definition subscribe_failed :: "int \<Rightarrow> string \<Rightarrow> call_client \<Rightarrow> call_client" where
  "subscribe_failed u source s = s\<lparr>cc_subscribedVideo := set_del (video_key u source) (cc_subscribedVideo s)\<rparr>"

definition handleTrackPublished :: "int \<Rightarrow> int \<Rightarrow> string \<Rightarrow> string option \<Rightarrow> call_client \<Rightarrow> call_client \<times> call_effect list" where
  "handleTrackPublished c u source kind s =
     (if c \<noteq> cc_currentChannelID s \<or> u = cc_selfUserID s then (s, [])
      else let (s1, os) = (if source \<in> {''screen'', ''camera''} then reappearRemoteVideo u source s else (s, []))
           in if kind \<noteq> Some ''video'' \<or> video_key u source \<in> set (cc_subscribedVideo s1) then (s1, os)
              else let (s2, os') = scheduleSubscribeFlush
                         (s1\<lparr>cc_pendingVideoSubscriptions := map_set (video_key u source) (u, source) (cc_pendingVideoSubscriptions s1)\<rparr>)
                   in (s2, os @ os'))"

definition handleTrackUnpublished :: "int \<Rightarrow> int \<Rightarrow> string \<Rightarrow> call_client \<Rightarrow> call_client \<times> call_effect list" where
  "handleTrackUnpublished c u source s =
     (if c \<noteq> cc_currentChannelID s \<or> u = cc_selfUserID s then (s, [])
      else if source \<in> {''screen'', ''camera''} then hideRemoteVideo u source s else (s, []))"

definition as_set :: "int list \<Rightarrow> int list" where
  "as_set xs = foldl (\<lambda>acc x. set_add x acc) [] xs"

definition handleActiveSpeakers :: "int \<Rightarrow> int list \<Rightarrow> call_client \<Rightarrow> call_client \<times> call_effect list" where
  "handleActiveSpeakers c user_ids s =
     (if c \<noteq> cc_currentChannelID s then (s, [])
      else let new = as_set user_ids;
               affected = filter (\<lambda>u. u \<notin> set (cc_activeSpeakers s)) new @ filter (\<lambda>u. u \<notin> set new) (cc_activeSpeakers s)
           in if affected = [] then (s, [])
              else let s1 = s\<lparr>cc_activeSpeakers := new\<rparr>
                   in if cc_sessionID s1 = [] then (s1, [])
                      else (s1, map (\<lambda>u. SubscribeVideo (cc_sessionID s1) u ''camera'' (qualityFor u ''camera'' s1))
                             (filter (\<lambda>u. video_key u ''camera'' \<in> set (cc_subscribedVideo s1)) affected)))"

section \<open>Participants\<close>

definition handleVoiceUserJoined :: "int \<Rightarrow> VoiceParticipant \<Rightarrow> call_client \<Rightarrow> call_client" where
  "handleVoiceUserJoined c user s =
     (if c \<noteq> cc_currentChannelID s \<or> vp_user_id user = cc_selfUserID s then s
      else s\<lparr>cc_participants := map_set (vp_user_id user) user (cc_participants s)\<rparr>)"

definition starts_with :: "string \<Rightarrow> string \<Rightarrow> bool" where
  "starts_with p k \<longleftrightarrow> prefix p k"

definition user_prefix :: "int \<Rightarrow> string" where
  "user_prefix u = show_int u @ '':''"

definition handleVoiceUserLeft :: "int \<Rightarrow> int \<Rightarrow> call_client \<Rightarrow> call_client \<times> call_effect list" where
  "handleVoiceUserLeft c u s =
     (if c \<noteq> cc_currentChannelID s then (s, [])
      else let gone = (\<lambda>k. starts_with (user_prefix u) k);
               had = map_has u (cc_remoteStreams s)
           in (s\<lparr>cc_participants := map_del u (cc_participants s),
                 cc_remoteVideoTracks := map_del u (cc_remoteVideoTracks s),
                 cc_remoteStreams := map_del u (cc_remoteStreams s),
                 cc_subscribedVideo := filter (\<lambda>k. \<not> gone k) (cc_subscribedVideo s),
                 cc_pendingVideoSubscriptions := filter (\<lambda>(k, v). \<not> gone k) (cc_pendingVideoSubscriptions s),
                 cc_hiddenRemoteVideo := filter (\<lambda>k. \<not> gone k) (cc_hiddenRemoteVideo s)\<rparr>,
               if had then [RemoteLeft u] else []))"

text \<open>\<^verbatim>\<open>{...old, ...new}\<close>: a field that \<open>new\<close> spells out wins, even as \<open>undefined\<close>. An object straight from the
  wire lacks what it does not say; one that \<open>getServerChannelsState\<close> built has all fields but \<open>detached\<close>
  (\<open>spelled\<close>).\<close>

definition spread_field :: "bool \<Rightarrow> 'a option \<Rightarrow> 'a option \<Rightarrow> 'a option" where
  "spread_field spelled old new = (if spelled then new else case new of None \<Rightarrow> old | Some v \<Rightarrow> Some v)"

definition spread_participant :: "bool \<Rightarrow> VoiceParticipant \<Rightarrow> VoiceParticipant \<Rightarrow> VoiceParticipant" where
  "spread_participant spelled old new = \<lparr>
     vp_user_id = vp_user_id new,
     vp_first_name = spread_field spelled (vp_first_name old) (vp_first_name new),
     vp_last_name = spread_field spelled (vp_last_name old) (vp_last_name new),
     vp_nickname = spread_field spelled (vp_nickname old) (vp_nickname new),
     vp_avatar_url = spread_field spelled (vp_avatar_url old) (vp_avatar_url new),
     vp_mic_enabled = spread_field spelled (vp_mic_enabled old) (vp_mic_enabled new),
     vp_deafened = spread_field spelled (vp_deafened old) (vp_deafened new),
     vp_detached = spread_field False (vp_detached old) (vp_detached new)\<rparr>"

definition sync_one :: "int \<Rightarrow> (int \<times> VoiceParticipant) list \<Rightarrow> bool \<times> VoiceParticipant \<Rightarrow> (int \<times> VoiceParticipant) list" where
  "sync_one self ps q = (case q of (spelled, p) \<Rightarrow>
     (if vp_user_id p = self then ps
      else map_set (vp_user_id p) (spread_participant spelled (map_get_or (bare_participant (vp_user_id p)) ps (vp_user_id p)) p) ps))"

definition syncParticipants :: "int \<Rightarrow> (bool \<times> VoiceParticipant) list \<Rightarrow> call_client \<Rightarrow> call_client" where
  "syncParticipants c participants s =
     (if c \<noteq> cc_currentChannelID s \<or> cc_currentChannelID s \<le> 0 then s
      else s\<lparr>cc_participants := foldl (sync_one (cc_selfUserID s)) (cc_participants s) participants\<rparr>)"

end
