(* ===== verification/CallSession.thy ===== *)
theory CallSession
  imports Call
begin

text \<open>
  The session of a voice call (\<^verbatim>\<open>services/sfuCallClient.ts\<close>, second half): joining, the peer connection and
  its signals, the recovery of a lost session, leaving, the own camera and screen, the quality samples. What
  the browser and the server answer (tracks, the ids of the transceivers, the acknowledgements) are arguments.
\<close>

section \<open>Session\<close>

definition applySession :: "JoinVoiceResponse \<Rightarrow> call_client \<Rightarrow> (string + call_client) \<times> call_effect list" where
  "applySession response s = (case jr_session_id response of
     Some (x # xs) \<Rightarrow>
       (Inr (s\<lparr>cc_sessionLostHandled := False, cc_sessionID := x # xs,
          cc_publishSlots := (case jr_publish_slots response of Some slots \<Rightarrow> slots | None \<Rightarrow> []),
          cc_currentChannelID := jr_channel_id response,
          cc_participants := foldl (\<lambda>ps p. map_set (vp_user_id p) p ps) [] (jr_participants response)\<rparr>),
        [StatusChange Connected])
   | _ \<Rightarrow> (Inl ''SFU response is missing session_id'', []))"

definition first_of_kind :: "string \<Rightarrow> media_track list \<Rightarrow> media_track option" where
  "first_of_kind kind ts = find (\<lambda>t. tk_kind t = kind) ts"

definition localTrackForSource :: "string \<Rightarrow> call_client \<Rightarrow> media_track option" where
  "localTrackForSource source s = (case cc_localStream s of
     None \<Rightarrow> None
   | Some ts \<Rightarrow> (if source = ''mic'' then first_of_kind ''audio'' ts
       else if source = ''camera'' then first_of_kind ''video'' ts else None))"

text \<open>One transceiver per publish slot, in the order of the server; their mids are known once the offer is set.\<close>

definition slot_declarations :: "(nat \<Rightarrow> string option) \<Rightarrow> (string \<times> string) list \<Rightarrow> (string \<times> string \<times> string) list" where
  "slot_declarations mid slots = map (\<lambda>i. (case mid i of Some m \<Rightarrow> m | None \<Rightarrow> show_int (int i),
     fst (slots ! i), snd (slots ! i))) [0..<length slots]"

definition openPeerConnection :: "(nat \<Rightarrow> string option) \<Rightarrow> call_client \<Rightarrow> call_client \<times> call_effect list" where
  "openPeerConnection mid s =
     (s\<lparr>cc_pc := Some \<lparr>pc_state = PcNew, pc_remoteDescription = False\<rparr>,
        cc_senders := foldl (\<lambda>m slot. map_set (snd slot) (localTrackForSource (snd slot) s) m) [] (cc_publishSlots s)\<rparr>,
      [SendOffer (cc_sessionID s) (slot_declarations mid (cc_publishSlots s))])"

definition QUALITY_SAMPLE_INTERVAL_MS :: int where "QUALITY_SAMPLE_INTERVAL_MS = 2000"

definition startQualityMonitor :: "call_client \<Rightarrow> call_client \<times> call_effect list" where
  "startQualityMonitor s =
     (if cc_qualitySampleTimer s then (s, [])
      else (s\<lparr>cc_qualitySampleTimer := True\<rparr>, [StartQualityTimer QUALITY_SAMPLE_INTERVAL_MS]))"

definition stopQualityMonitor :: "call_client \<Rightarrow> call_client \<times> call_effect list" where
  "stopQualityMonitor s =
     (s\<lparr>cc_qualitySampleTimer := False, cc_qualityTracker := createQualityTracker, cc_lastQualitySignature := []\<rparr>,
      (if cc_qualitySampleTimer s then [StopQualityTimer] else []) @ [QualityChange []])"

definition teardownPeerConnection :: "call_client \<Rightarrow> call_client \<times> call_effect list" where
  "teardownPeerConnection s0 =
     (let s = s0\<lparr>cc_recoveryGeneration := Suc (cc_recoveryGeneration s0), cc_pc := None, cc_sessionID := [],
            cc_senders := [], cc_pendingCandidates := [], cc_subscribeDebounceTimer := False,
            cc_subscribedVideo := [], cc_pendingVideoSubscriptions := [], cc_activeSpeakers := [],
            cc_remoteStreams := [], cc_remoteVideoTracks := [], cc_hiddenRemoteVideo := [],
            cc_currentChannelID := 0\<rparr>;
          (t, os) = stopQualityMonitor s
      in (t, (if cc_pc s0 \<noteq> None then [ClosePeer] else [])
             @ (if cc_subscribeDebounceTimer s0 then [DisarmSubscribeFlush] else [])
             @ map RemoteLeft (map_keys (cc_remoteStreams s0)) @ os))"

text \<open>\<open>leave\<close> after the answer to \<open>leave_voice_channel\<close>, which it ignores.\<close>

definition leave :: "call_client \<Rightarrow> call_client \<times> call_effect list" where
  "leave s0 =
     (let (s, os) = teardownPeerConnection s0
      in (s\<lparr>cc_participants := [], cc_screenStream := None, cc_cameraEnabled := False, cc_localStream := None\<rparr>,
          (if 0 < cc_currentChannelID s0 then [LeaveChannel] else []) @ os
          @ (case cc_screenStream s of Some ts \<Rightarrow> map StopTrack ts | None \<Rightarrow> [])
          @ [LocalScreenStream None]
          @ (case cc_localStream s of Some ts \<Rightarrow> map StopTrack ts | None \<Rightarrow> [])
          @ [LocalStream None]))"

definition announcePublishState :: "string \<Rightarrow> bool \<Rightarrow> call_client \<Rightarrow> call_effect list" where
  "announcePublishState source active s =
     (if cc_sessionID s = [] then [] else [PublishState (cc_sessionID s) source active])"

definition local_video :: "call_client \<Rightarrow> media_track option" where
  "local_video s = (case cc_localStream s of Some ts \<Rightarrow> first_of_kind ''video'' ts | None \<Rightarrow> None)"

definition set_sender :: "string \<Rightarrow> media_track option \<Rightarrow> call_client \<Rightarrow> call_client" where
  "set_sender source t s =
     (if map_has source (cc_senders s) then s\<lparr>cc_senders := map_set source t (cc_senders s)\<rparr> else s)"

definition restoreCameraState :: "call_client \<Rightarrow> call_client \<times> call_effect list" where
  "restoreCameraState s =
     (let track = local_video s;
          s1 = (if cc_cameraEnabled s \<and> track \<noteq> None then set_sender ''camera'' track s else s)
      in (s1, announcePublishState ''camera'' (cc_cameraEnabled s \<and> track \<noteq> None) s1))"

section \<open>Rejoining and recovery\<close>

text \<open>The answers one \<open>rejoin\<close> meets: to \<open>sfu_resume\<close>, to \<open>join_voice_channel\<close>, to the offer.\<close>

record rejoin_answers =
  ra_resume :: "string + VoiceParticipant list"
  ra_join :: "string + JoinVoiceResponse"
  ra_offer :: "string + unit"
  ra_mid :: "nat \<Rightarrow> string option"

definition resumed :: "VoiceParticipant list \<Rightarrow> call_client \<Rightarrow> call_client \<times> call_effect list" where
  "resumed participants s =
     (let (t, os) = restoreCameraState (s\<lparr>cc_sessionLostHandled := False,
            cc_participants := foldl (\<lambda>ps p. map_set (vp_user_id p) p ps) [] participants\<rparr>)
      in (t, StatusChange Connected # os))"

definition fresh_session :: "rejoin_answers \<Rightarrow> call_client \<Rightarrow> (string option \<times> call_client) \<times> call_effect list" where
  "fresh_session a s0 =
     (let (s1, os1) = teardownPeerConnection s0
      in case ra_join a of
           Inl e \<Rightarrow> ((Some e, s1), os1)
         | Inr response \<Rightarrow> (case applySession response s1 of
             (Inl e, os2) \<Rightarrow> ((Some e, s1), os1 @ os2)
           | (Inr s2, os2) \<Rightarrow>
               (let (s3, os3) = openPeerConnection (ra_mid a) s2
                in case ra_offer a of
                     Inl e \<Rightarrow> ((Some e, s3), os1 @ os2 @ os3)
                   | Inr _ \<Rightarrow>
                       (let (s4, os4) = startQualityMonitor s3; (s5, os5) = restoreCameraState s4
                        in ((None, s5), os1 @ os2 @ os3 @ os4 @ os5)))))"

text \<open>\<open>rejoin\<close>: the error it throws, if any, and the state it leaves.\<close>

definition rejoin :: "int \<Rightarrow> rejoin_answers \<Rightarrow> call_client \<Rightarrow> (string option \<times> call_client) \<times> call_effect list" where
  "rejoin channelID a s =
     (if channelID \<le> 0 then ((None, s), [])
      else if cc_pc s \<noteq> None \<and> cc_sessionID s \<noteq> [] \<and> cc_currentChannelID s = channelID
      then (case ra_resume a of
              Inr participants \<Rightarrow> (let (t, os) = resumed participants s in ((None, t), os))
            | Inl _ \<Rightarrow> fresh_session a s)
      else fresh_session a s)"

definition RECOVERY_DELAYS_MS :: "int list" where "RECOVERY_DELAYS_MS = [1000, 3000, 7000]"

text \<open>What happens during one backoff sleep: the state it ends in, whether the socket is open then, and the
  answers to the attempt that follows.\<close>

record recovery_round =
  rr_meanwhile :: "call_client \<Rightarrow> call_client"
  rr_open :: bool
  rr_answers :: rejoin_answers

fun recovery_loop :: "int \<Rightarrow> nat \<Rightarrow> int list \<Rightarrow> nat \<Rightarrow> (nat \<Rightarrow> recovery_round) \<Rightarrow> call_client \<Rightarrow>
    call_client \<times> call_effect list" where
  "recovery_loop channelID generation [] i rounds s =
     (if generation = cc_recoveryGeneration s
      then let (t, os) = leave s in (t, StatusChange Lost # os) else (s, []))"
| "recovery_loop channelID generation (d # delays) i rounds s0 =
     (let r = rounds i; s = rr_meanwhile r s0
      in if generation \<noteq> cc_recoveryGeneration s \<or> \<not> rr_open r then (s, [])
         else case rejoin channelID (rr_answers r) s of
           ((None, t), os) \<Rightarrow> (t, os)
         | ((Some e, t), os) \<Rightarrow>
             (let (u, os') = recovery_loop channelID generation delays (Suc i) rounds t in (u, os @ os')))"

definition runSessionRecovery :: "bool \<Rightarrow> int \<Rightarrow> nat \<Rightarrow> (nat \<Rightarrow> recovery_round) \<Rightarrow> call_client \<Rightarrow> call_client \<times> call_effect list" where
  "runSessionRecovery opened channelID generation rounds s =
     (if \<not> opened then (s, [])
      else let (t, os) = recovery_loop channelID generation RECOVERY_DELAYS_MS 0 rounds s
           in (t, StatusChange Reconnecting # os))"

definition handleSessionLost :: "bool \<Rightarrow> (nat \<Rightarrow> recovery_round) \<Rightarrow> call_client \<Rightarrow> call_client \<times> call_effect list" where
  "handleSessionLost opened rounds s =
     (if cc_sessionLostHandled s \<or> cc_currentChannelID s \<le> 0 then (s, [])
      else runSessionRecovery opened (cc_currentChannelID s) (cc_recoveryGeneration s) rounds
             (s\<lparr>cc_sessionLostHandled := True\<rparr>))"

definition handleSfuSessionClosed :: "string \<Rightarrow> bool \<Rightarrow> (nat \<Rightarrow> recovery_round) \<Rightarrow> call_client \<Rightarrow> call_client \<times> call_effect list" where
  "handleSfuSessionClosed sessionID opened rounds s =
     (if sessionID \<noteq> cc_sessionID s then (s, []) else handleSessionLost opened rounds s)"

definition onconnectionstatechange :: "connection_state \<Rightarrow> bool \<Rightarrow> (nat \<Rightarrow> recovery_round) \<Rightarrow> call_client \<Rightarrow> call_client \<times> call_effect list" where
  "onconnectionstatechange st opened rounds s = (case cc_pc s of
     None \<Rightarrow> (s, [])
   | Some pc \<Rightarrow>
       (let s1 = s\<lparr>cc_pc := Some (pc\<lparr>pc_state := st\<rparr>)\<rparr>
        in if st = PcFailed \<or> st = PcClosed then handleSessionLost opened rounds s1 else (s1, [])))"

definition handleSfuError :: "string \<Rightarrow> string \<Rightarrow> call_client \<Rightarrow> call_effect list" where
  "handleSfuError sessionID message s =
     (if sessionID \<noteq> [] \<and> sessionID \<noteq> cc_sessionID s then []
      else [CallError (''Voice connection error: '' @ message)])"

text \<open>\<open>join\<close>: the microphone is acquired first (\<open>capture\<close>); a failure only means that nothing is sent.\<close>

definition join_call :: "int \<Rightarrow> string + media_track list \<Rightarrow> rejoin_answers \<Rightarrow> call_client \<Rightarrow>
    (string option \<times> call_client) \<times> call_effect list" where
  "join_call channelID capture a s0 =
     (if cc_currentChannelID s0 = channelID then ((None, s0), [])
      else let (s1, os) = leave s0;
               os1 = os @ (case capture of Inl e \<Rightarrow> [CallError (e @ ''. Joined voice in listen-only mode.'')] | Inr _ \<Rightarrow> []);
               stream = (case capture of Inl _ \<Rightarrow> None | Inr ts \<Rightarrow> Some ts)
           in case ra_join a of
                Inl e \<Rightarrow> ((Some e, s1), os1)
              | Inr response \<Rightarrow>
                  (if cc_currentChannelID s1 = jr_channel_id response then ((None, s1), os1)
                   else let s2 = s1\<lparr>cc_cameraEnabled := False, cc_localStream := stream\<rparr>
                        in case applySession response s2 of
                             (Inl e, os3) \<Rightarrow> ((Some e, s2), os1 @ LocalStream stream # os3)
                           | (Inr s3, os3) \<Rightarrow>
                               (let (s4, os4) = openPeerConnection (ra_mid a) s3
                                in case ra_offer a of
                                     Inl e \<Rightarrow> ((Some e, s4), os1 @ LocalStream stream # os3 @ os4)
                                   | Inr _ \<Rightarrow>
                                       (let (s5, os5) = startQualityMonitor s4; (s6, os6) = restoreCameraState s5
                                        in ((None, s6), os1 @ LocalStream stream # os3 @ os4 @ os5 @ os6)))))"

section \<open>Signals\<close>

text \<open>The signals of the server run one after the other (\<open>enqueueSignal\<close>); \<open>ok\<close> says whether the browser
  accepts the description, an error of \<open>addIceCandidate\<close> is only logged.\<close>

definition flushPendingCandidates :: "call_client \<Rightarrow> call_client \<times> call_effect list" where
  "flushPendingCandidates s =
     (if cc_pc s = None \<or> cc_pendingCandidates s = [] then (s, [])
      else (s\<lparr>cc_pendingCandidates := []\<rparr>, map AddIceCandidate (cc_pendingCandidates s)))"

definition set_remote_description :: "call_client \<Rightarrow> call_client" where
  "set_remote_description s = s\<lparr>cc_pc := map_option (\<lambda>pc. pc\<lparr>pc_remoteDescription := True\<rparr>) (cc_pc s)\<rparr>"

definition handleServerOffer :: "string \<Rightarrow> bool \<Rightarrow> call_client \<Rightarrow> call_client \<times> call_effect list" where
  "handleServerOffer sessionID ok s =
     (if cc_pc s = None \<or> sessionID \<noteq> cc_sessionID s \<or> \<not> ok then (s, [])
      else let (t, os) = flushPendingCandidates (set_remote_description s)
           in (t, os @ [SendAnswer (cc_sessionID t)]))"

definition handleServerAnswer :: "string \<Rightarrow> bool \<Rightarrow> call_client \<Rightarrow> call_client \<times> call_effect list" where
  "handleServerAnswer sessionID ok s =
     (if cc_pc s = None \<or> sessionID \<noteq> cc_sessionID s \<or> \<not> ok then (s, [])
      else flushPendingCandidates (set_remote_description s))"

definition handleServerCandidate :: "SfuCandidatePayload \<Rightarrow> call_client \<Rightarrow> call_client \<times> call_effect list" where
  "handleServerCandidate c s =
     (if sc_session_id c \<noteq> cc_sessionID s then (s, [])
      else case cc_pc s of
        Some pc \<Rightarrow> (if pc_remoteDescription pc then (s, [AddIceCandidate c])
                    else (s\<lparr>cc_pendingCandidates := cc_pendingCandidates s @ [c]\<rparr>, []))
      | None \<Rightarrow> (s\<lparr>cc_pendingCandidates := cc_pendingCandidates s @ [c]\<rparr>, []))"

section \<open>Camera and screen\<close>

definition audio_tracks :: "media_track list \<Rightarrow> media_track list" where
  "audio_tracks ts = filter (\<lambda>t. tk_kind t = ''audio'') ts"

definition releaseCameraTrack :: "call_client \<Rightarrow> call_client \<times> call_effect list" where
  "releaseCameraTrack s0 =
     (let s = set_sender ''camera'' None s0;
          stop = (case local_video s of Some t \<Rightarrow> [StopTrack t] | None \<Rightarrow> [])
      in case cc_localStream s of
           None \<Rightarrow> (s, stop)
         | Some ts \<Rightarrow> (s\<lparr>cc_localStream := Some (audio_tracks ts)\<rparr>, stop @ [LocalStream (Some (audio_tracks ts))]))"

text \<open>\<open>startCamera\<close> up to the request for the device, and once it has answered with a track.\<close>

definition startCamera_start :: "call_client \<Rightarrow> string option" where
  "startCamera_start s =
     (if cc_localStream s = None then Some ''Join voice channel before enabling camera''
      else if \<not> map_has ''camera'' (cc_senders s) then Some ''Camera slot is not available in this session''
      else None)"

definition startCamera_done :: "media_track \<Rightarrow> call_client \<Rightarrow> call_client \<times> call_effect list" where
  "startCamera_done track s0 = (case cc_localStream s0 of
     None \<Rightarrow> (s0, [StopTrack track])
   | Some ts \<Rightarrow>
       (if \<not> map_has ''camera'' (cc_senders s0) then (s0, [StopTrack track])
        else let new = audio_tracks ts @ [track];
                 s = (set_sender ''camera'' (Some track) s0)\<lparr>cc_localStream := Some new, cc_cameraEnabled := True\<rparr>
             in (s, LocalStream (Some new) # announcePublishState ''camera'' True s)))"

text \<open>\<open>setCameraEnabled\<close>, with no other start of the camera in flight; \<open>device\<close> is what the device answers.\<close>

definition setCameraEnabled :: "bool \<Rightarrow> string + media_track \<Rightarrow> call_client \<Rightarrow> (string option \<times> call_client) \<times> call_effect list" where
  "setCameraEnabled enabled device s0 =
     (if enabled = cc_cameraEnabled s0 then ((None, s0), [])
      else if \<not> enabled
      then let (s, os) = releaseCameraTrack (s0\<lparr>cc_cameraEnabled := False\<rparr>)
           in ((None, s), os @ announcePublishState ''camera'' False s)
      else case startCamera_start s0 of
        Some e \<Rightarrow> ((Some e, s0), [])
      | None \<Rightarrow> (case device of
          Inl e \<Rightarrow> ((Some e, s0), [])
        | Inr track \<Rightarrow> (let (s, os) = startCamera_done track s0 in ((None, s), os))))"

definition isScreenShareActive :: "nat list \<Rightarrow> call_client \<Rightarrow> bool" where
  "isScreenShareActive endedTracks s = (case cc_screenStream s of
     None \<Rightarrow> False
   | Some ts \<Rightarrow> (case first_of_kind ''video'' ts of None \<Rightarrow> True | Some t \<Rightarrow> tk_object t \<notin> set endedTracks))"

definition startScreenShare :: "nat list \<Rightarrow> string + media_track list \<Rightarrow> call_client \<Rightarrow> (string option \<times> call_client) \<times> call_effect list" where
  "startScreenShare endedTracks display s =
     (if isScreenShareActive endedTracks s then ((None, s), [])
      else if \<not> map_has ''screen'' (cc_senders s)
      then ((Some ''Screen sharing is not available for this call'', s), [])
      else case display of
        Inl e \<Rightarrow> ((Some e, s), [])
      | Inr ts \<Rightarrow> (case first_of_kind ''video'' ts of
          None \<Rightarrow> ((Some ''No display video track found'', s), [])
        | Some t \<Rightarrow>
            (let s1 = set_sender ''screen'' (Some t) (s\<lparr>cc_screenStream := Some ts\<rparr>)
             in ((None, s1), LocalScreenStream (Some ts) # announcePublishState ''screen'' True s1))))"

definition stopScreenShare :: "call_client \<Rightarrow> call_client \<times> call_effect list" where
  "stopScreenShare s = (case cc_screenStream s of
     None \<Rightarrow> (s, [])
   | Some ts \<Rightarrow>
       (let s1 = set_sender ''screen'' None (s\<lparr>cc_screenStream := None\<rparr>)
        in (s1, map StopTrack (filter (\<lambda>t. tk_kind t = ''video'') ts) @ LocalScreenStream None
              # announcePublishState ''screen'' False s1)))"

definition toggleScreenShare :: "nat list \<Rightarrow> string + media_track list \<Rightarrow> call_client \<Rightarrow> ((string + bool) \<times> call_client) \<times> call_effect list" where
  "toggleScreenShare endedTracks display s =
     (if cc_localStream s = None then ((Inl ''Join voice channel before sharing screen'', s), [])
      else if isScreenShareActive endedTracks s
      then (let (t, os) = stopScreenShare s in ((Inr False, t), os))
      else (case startScreenShare endedTracks display s of
              ((Some e, t), os) \<Rightarrow> ((Inl e, t), os)
            | ((None, t), os) \<Rightarrow> ((Inr True, t), os)))"

section \<open>Quality\<close>

fun serviceLevelOf :: "connection_state \<Rightarrow> QualityLevel option" where
  "serviceLevelOf PcNew = Some Connecting"
| "serviceLevelOf PcConnecting = Some Connecting"
| "serviceLevelOf PcDisconnected = Some Disconnected"
| "serviceLevelOf PcFailed = Some Disconnected"
| "serviceLevelOf PcClosed = Some Disconnected"
| "serviceLevelOf PcConnected = None"

definition settled_quality :: "QualityTracker \<Rightarrow> QualityLevel \<Rightarrow> QualityMetrics \<Rightarrow> QualityDirection option \<Rightarrow>
    QualityTracker \<times> PeerQuality" where
  "settled_quality tracker level metrics direction =
     (let (t, l) = applyHysteresis tracker level in (t, buildQuality l metrics direction PeerScope))"

definition sampleConnection :: "QualityLevel option \<Rightarrow> unit + RawStat list \<Rightarrow> peer_connection option \<Rightarrow> QualityTracker \<Rightarrow>
    QualityTracker \<times> PeerQuality" where
  "sampleConnection forcedLevel report pc tracker = (case forcedLevel of
     Some l \<Rightarrow> (tracker\<lparr>qt_level := l\<rparr>, buildQuality l EMPTY_METRICS None PeerScope)
   | None \<Rightarrow> (case pc of
       None \<Rightarrow> settled_quality tracker Disconnected EMPTY_METRICS None
     | Some p \<Rightarrow> (case serviceLevelOf (pc_state p) of
         Some l \<Rightarrow> settled_quality tracker l EMPTY_METRICS None
       | None \<Rightarrow> (case report of
           Inl _ \<Rightarrow> settled_quality tracker Connecting EMPTY_METRICS None
         | Inr stats \<Rightarrow> (case readQualitySample stats tracker of
             (t, metrics, None, direction) \<Rightarrow> settled_quality t Connecting metrics None
           | (t, metrics, Some l, direction) \<Rightarrow> settled_quality t (Measured l) metrics direction)))))"

text \<open>A round of the quality timer, with no \<open>leave\<close> while the report is awaited.\<close>

definition sampleQuality :: "QualityLevel option \<Rightarrow> unit + RawStat list \<Rightarrow> call_client \<Rightarrow> call_client \<times> call_effect list" where
  "sampleQuality forcedLevel report s =
     (if cc_currentChannelID s \<le> 0 then (s, [])
      else let (tracker, quality) = sampleConnection forcedLevel report (cc_pc s) (cc_qualityTracker s);
               snapshot = map (\<lambda>u. (u, quality)) (map_keys (cc_participants s));
               signature = qualitySignature snapshot;
               s1 = s\<lparr>cc_qualityTracker := tracker\<rparr>
           in if signature = cc_lastQualitySignature s1 then (s1, [])
              else (s1\<lparr>cc_lastQualitySignature := signature\<rparr>, [QualityChange snapshot]))"

end
