(* ===== verification/CallMachine.thy ===== *)
theory CallMachine
  imports CallSession
begin

text \<open>
  The call as a machine: its inputs are the events of the server and of the browser and the calls of the
  application; an \<open>await\<close> counts as answered at once.
\<close>

section \<open>The machine\<close>

datatype call_input =
    CallTrack string media_track
  | CallEnded nat
  | CallPublished int int string "string option"
  | CallUnpublished int int string
  | CallSubscribeTimer
  | CallSubscribeFailed int string
  | CallSpeakers int "int list"
  | CallJoined int VoiceParticipant
  | CallLeft int int
  | CallSync int "(bool \<times> VoiceParticipant) list"
  | CallJoin int "string + media_track list" rejoin_answers
  | CallRejoin int rejoin_answers
  | CallLeave
  | CallOffer string bool
  | CallAnswer string bool
  | CallCandidate SfuCandidatePayload
  | CallCamera bool "string + media_track"
  | CallSample "QualityLevel option" "unit + RawStat list"

fun call_step :: "call_client \<Rightarrow> call_input \<Rightarrow> call_client \<times> call_effect list" where
  "call_step s (CallTrack sid t) = handleTrack sid t s"
| "call_step s (CallEnded n) = track_ended n s"
| "call_step s (CallPublished c u src k) = handleTrackPublished c u src k s"
| "call_step s (CallUnpublished c u src) = handleTrackUnpublished c u src s"
| "call_step s CallSubscribeTimer = subscribe_timer_fire s"
| "call_step s (CallSubscribeFailed u src) = (subscribe_failed u src s, [])"
| "call_step s (CallSpeakers c us) = handleActiveSpeakers c us s"
| "call_step s (CallJoined c p) = (handleVoiceUserJoined c p s, [])"
| "call_step s (CallLeft c u) = handleVoiceUserLeft c u s"
| "call_step s (CallSync c ps) = (syncParticipants c ps s, [])"
| "call_step s (CallJoin c capture a) = (let ((e, t), os) = join_call c capture a s in (t, os))"
| "call_step s (CallRejoin c a) = (let ((e, t), os) = rejoin c a s in (t, os))"
| "call_step s CallLeave = leave s"
| "call_step s (CallOffer sid ok) = handleServerOffer sid ok s"
| "call_step s (CallAnswer sid ok) = handleServerAnswer sid ok s"
| "call_step s (CallCandidate c) = handleServerCandidate c s"
| "call_step s (CallCamera enabled device) = (let ((e, t), os) = setCameraEnabled enabled device s in (t, os))"
| "call_step s (CallSample forced report) = sampleQuality forced report s"

text \<open>A track the browser delivers is a new object; the server names it after its kind
  (\<^verbatim>\<open>u%d-%s-%s\<close> in \<^verbatim>\<open>internal/service/sfu/track.go\<close>) and sends video for the camera and the screen only.\<close>

definition named_by_kind :: "media_track \<Rightarrow> bool" where
  "named_by_kind t \<longleftrightarrow> (tk_kind t = ''audio'' \<or> tk_kind t = ''video'') \<and> suffix (tk_kind t) (tk_id t)"

fun call_enabled :: "call_client \<Rightarrow> call_input \<Rightarrow> bool" where
  "call_enabled s (CallTrack sid t) \<longleftrightarrow> \<not> map_has (tk_object t) (cc_onended s) \<and> named_by_kind t
     \<and> (case parse_stream_id sid of None \<Rightarrow> True | Some (u, src) \<Rightarrow> is_video t \<longrightarrow> src \<in> {''camera'', ''screen''})"
| "call_enabled s CallSubscribeTimer \<longleftrightarrow> cc_subscribeDebounceTimer s"
| "call_enabled s _ \<longleftrightarrow> True"

end
