(* ===== verification/CallTiles.thy ===== *)
theory CallTiles
  imports CallMachine
begin

text \<open>
  The part of the call's invariant that says what the tiles show: the stream of everyone holds exactly the video
  the policy picks, each slot belongs to the closure that will clear it, and no two people share a stream.
\<close>

section \<open>Tiles\<close>

definition tile_shows :: "int \<Rightarrow> nat \<Rightarrow> call_client \<Rightarrow> bool" where
  "tile_shows u r s \<longleftrightarrow> filter is_video (stream_tracks r s)
     = (case desired_video u s of None \<Rightarrow> [] | Some d \<Rightarrow> [d])"

definition slot_ok :: "int \<Rightarrow> string \<Rightarrow> media_track \<Rightarrow> call_client \<Rightarrow> bool" where
  "slot_ok u src t s \<longleftrightarrow> is_video t \<and> (\<exists>p r. map_get (cc_remoteStreams s) u = Some r
     \<and> map_get (cc_onended s) (tk_object t) = Some (t, u, p, src, r))"

definition tiles_right :: "call_client \<Rightarrow> bool" where
  "tiles_right s \<longleftrightarrow> (\<forall>u r. map_get (cc_remoteStreams s) u = Some r \<longrightarrow> r < cc_nextStream s \<and> tile_shows u r s)"

definition streams_apart :: "call_client \<Rightarrow> bool" where
  "streams_apart s \<longleftrightarrow> (\<forall>u v r. map_get (cc_remoteStreams s) u = Some r \<longrightarrow> map_get (cc_remoteStreams s) v = Some r \<longrightarrow> u = v)"

definition slots_ok :: "call_client \<Rightarrow> bool" where
  "slots_ok s \<longleftrightarrow> (\<forall>u src t. src \<in> {''camera'', ''screen''} \<longrightarrow> slot_of src (slots_of u s) = Some t \<longrightarrow> slot_ok u src t s)"

definition closure_ok :: "nat \<Rightarrow> nat \<Rightarrow> media_track \<times> int \<times> VoiceParticipant \<times> string \<times> nat \<Rightarrow> bool" where
  "closure_ok bound n k = (case k of (t, u, p, src, r) \<Rightarrow>
     tk_object t = n \<and> r < bound \<and> named_by_kind t \<and> (is_video t \<longrightarrow> src \<in> {''camera'', ''screen''}))"

definition owner_ok :: "(int \<times> nat) list \<Rightarrow> media_track \<times> int \<times> VoiceParticipant \<times> string \<times> nat \<Rightarrow> bool" where
  "owner_ok streams k = (case k of (t, u, p, src, r) \<Rightarrow> \<forall>v. map_get streams v = Some r \<longrightarrow> v = u)"

definition closures_ok :: "call_client \<Rightarrow> bool" where
  "closures_ok s \<longleftrightarrow> (\<forall>n k. map_get (cc_onended s) n = Some k \<longrightarrow>
     closure_ok (cc_nextStream s) n k \<and> owner_ok (cc_remoteStreams s) k)"

definition names_ok :: "call_client \<Rightarrow> bool" where
  "names_ok s \<longleftrightarrow> (\<forall>r. \<forall>t \<in> set (stream_tracks r s). named_by_kind t)"

definition tile_inv :: "call_client \<Rightarrow> bool" where
  "tile_inv s \<longleftrightarrow> tiles_right s \<and> streams_apart s \<and> slots_ok s \<and> closures_ok s \<and> names_ok s"

definition tile_view :: "call_client \<Rightarrow> _" where
  "tile_view s = (cc_remoteStreams s, cc_streams s, cc_nextStream s, cc_remoteVideoTracks s,
     cc_hiddenRemoteVideo s, cc_endedTracks s, cc_onended s)"

lemma tile_view_cong: "tile_view t = tile_view s \<Longrightarrow> tile_inv t = tile_inv s"
  by (simp add: tile_view_def tile_inv_def tiles_right_def streams_apart_def slots_ok_def closures_ok_def names_ok_def
      tile_shows_def slot_ok_def slots_of_def stream_tracks_def desired_video_def available_def split: option.split)

lemma desired_cong:
  assumes "slots_of u t = slots_of u s" "cc_endedTracks t = cc_endedTracks s"
    and "\<And>y. video_key u y \<in> set (cc_hiddenRemoteVideo t) \<longleftrightarrow> video_key u y \<in> set (cc_hiddenRemoteVideo s)"
  shows "desired_video u t = desired_video u s"
  using assms by (simp add: desired_video_def available_def split: option.split)

lemma desired_set_stream [simp]: "desired_video u (set_stream r ts s) = desired_video u s"
  by (simp add: desired_video_def available_def slots_of_def set_stream_def split: option.split)

lemma stream_set_stream [simp]: "stream_tracks r' (set_stream r ts s) = (if r' = r then ts else stream_tracks r' s)"
  by (simp add: stream_tracks_def set_stream_def)

lemma set_stream_fields [simp]:
  "cc_remoteStreams (set_stream r ts s) = cc_remoteStreams s" "cc_onended (set_stream r ts s) = cc_onended s"
  "cc_nextStream (set_stream r ts s) = cc_nextStream s" "slots_of u (set_stream r ts s) = slots_of u s"
  "slot_ok u src t (set_stream r ts s) = slot_ok u src t s"
  by (simp_all add: set_stream_def slots_of_def slot_ok_def)

lemma reconcile_set_stream: "\<exists>ts. reconcileRemoteVideo u r s = set_stream r ts s"
  by (auto simp: reconcileRemoteVideo_def Let_def)

lemma desired_slot: "desired_video u s = Some d \<Longrightarrow> \<exists>src \<in> {''camera'', ''screen''}. slot_of src (slots_of u s) = Some d"
  by (auto simp: desired_video_def slot_of_def split: if_splits)

lemma reconcile_shows:
  assumes few: "length (filter is_video (stream_tracks r s)) \<le> 1"
    and video: "\<And>d. desired_video u s = Some d \<Longrightarrow> is_video d"
  shows "tile_shows u r (reconcileRemoteVideo u r s)"
proof -
  let ?d = "desired_video u s" and ?ts = "stream_tracks r s"
  let ?kept = "filter (\<lambda>t. is_video t \<longrightarrow> Some t = ?d) ?ts"
  have sub: "filter is_video ?kept = filter (\<lambda>t. Some t = ?d) (filter is_video ?ts)"
    by (auto intro!: filter_cong)
  have one: "filter (\<lambda>t. Some t = ?d) ys = (case ?d of Some d \<Rightarrow> (if d \<in> set ys then [d] else []) | None \<Rightarrow> [])"
    if "length ys \<le> 1" for ys
    using that by (cases ys) (auto split: option.split)
  show ?thesis
  proof (cases ?d)
    case None
    with sub one [OF few] show ?thesis by (simp add: tile_shows_def reconcileRemoteVideo_def Let_def)
  next
    case (Some d)
    with video have v: "is_video d" by blast
    with Some have mem: "d \<in> set ?kept \<longleftrightarrow> d \<in> set (filter is_video ?ts)" by auto
    have "filter is_video ?kept = (if d \<in> set ?kept then [d] else [])"
      unfolding mem sub using one [OF few] Some by simp
    with Some v show ?thesis by (simp add: tile_shows_def reconcileRemoteVideo_def Let_def)
  qed
qed

lemma tiles_rightD: "tiles_right s \<Longrightarrow> map_get (cc_remoteStreams s) u = Some r \<Longrightarrow> r < cc_nextStream s \<and> tile_shows u r s"
  by (simp add: tiles_right_def)

lemma streams_apartD:
  "streams_apart s \<Longrightarrow> map_get (cc_remoteStreams s) u = Some r \<Longrightarrow> map_get (cc_remoteStreams s) v = Some r \<Longrightarrow> u = v"
  unfolding streams_apart_def by blast

lemma slots_okD: "slots_ok s \<Longrightarrow> src \<in> {''camera'', ''screen''} \<Longrightarrow> slot_of src (slots_of u s) = Some t \<Longrightarrow> slot_ok u src t s"
  unfolding slots_ok_def by blast

lemma closures_okD: "closures_ok s \<Longrightarrow> map_get (cc_onended s) n = Some k \<Longrightarrow> closure_ok (cc_nextStream s) n k"
  unfolding closures_ok_def by blast

lemma closures_mine:
  "closures_ok s \<Longrightarrow> map_get (cc_onended s) n = Some (t, u, p, src, r) \<Longrightarrow> map_get (cc_remoteStreams s) v = Some r \<Longrightarrow> v = u"
  unfolding closures_ok_def owner_ok_def by blast

lemma names_okD: "names_ok s \<Longrightarrow> t \<in> set (stream_tracks r s) \<Longrightarrow> named_by_kind t"
  by (simp add: names_ok_def)

lemma shows_few: "tile_shows u r s \<Longrightarrow> length (filter is_video (stream_tracks r s)) \<le> 1"
  by (simp add: tile_shows_def split: option.splits)

lemma desired_ok:
  assumes "slots_ok s" "closures_ok s" "desired_video u s = Some d"
  shows "is_video d \<and> named_by_kind d"
proof -
  from assms(3) obtain src where "src \<in> {''camera'', ''screen''}" "slot_of src (slots_of u s) = Some d"
    using desired_slot by blast
  with assms(1) have "slot_ok u src d s" by (rule slots_okD)
  then obtain p r where "is_video d" "map_get (cc_onended s) (tk_object d) = Some (d, u, p, src, r)"
    unfolding slot_ok_def by blast
  with closures_okD [OF assms(2)] show ?thesis by (fastforce simp: closure_ok_def)
qed

lemma reconcile_names:
  assumes "names_ok s" and "\<And>d. desired_video u s = Some d \<Longrightarrow> named_by_kind d"
  shows "names_ok (reconcileRemoteVideo u r s)"
  using assms by (auto simp: names_ok_def reconcileRemoteVideo_def Let_def split: if_splits option.splits)

text \<open>Reconciling a stream puts the tile of its user right and touches no other.\<close>

lemma reconcile_tile_inv:
  assumes inv: "streams_apart s" "slots_ok s" "closures_ok s" "names_ok s"
    and streams: "\<And>v q. map_get (cc_remoteStreams s) v = Some q \<Longrightarrow> q < cc_nextStream s
        \<and> (if q = r then v = u \<and> length (filter is_video (stream_tracks q s)) \<le> 1 else tile_shows v q s)"
  shows "tile_inv (reconcileRemoteVideo u r s)"
proof -
  let ?s = "reconcileRemoteVideo u r s"
  obtain ts where set: "?s = set_stream r ts s" using reconcile_set_stream by blast
  note video = desired_ok [OF inv(2,3)]
  have "tile_shows v q ?s" if m: "map_get (cc_remoteStreams s) v = Some q" for v q
  proof (cases "q = r")
    case True
    with streams [OF m] video show ?thesis by (auto intro!: reconcile_shows)
  next
    case False
    with streams [OF m] set show ?thesis by (simp add: tile_shows_def)
  qed
  then have "tiles_right ?s" using streams by (simp add: tiles_right_def set)
  moreover have "names_ok ?s" using inv(4) video by (blast intro: reconcile_names)
  moreover have "streams_apart ?s \<and> slots_ok ?s \<and> closures_ok ?s"
    using inv by (simp add: set streams_apart_def slots_ok_def closures_ok_def)
  ultimately show ?thesis by (simp add: tile_inv_def)
qed


lemma tile_invI:
  assumes "tiles_right s" "streams_apart s" "slots_ok s" "closures_ok s" "names_ok s"
  shows "tile_inv s"
  using assms by (simp add: tile_inv_def)

lemma tile_invD:
  assumes "tile_inv s"
  shows "tiles_right s" "streams_apart s" "slots_ok s" "closures_ok s" "names_ok s"
  using assms by (simp_all add: tile_inv_def)

text \<open>Hiding a video, or showing it again, is a change that only \<open>reconcileRemoteVideo\<close> has to answer.\<close>

lemma refresh_tile_inv:
  assumes inv: "tile_inv s" and other: "\<And>k. k \<noteq> video_key u src \<Longrightarrow> k \<in> set hs \<longleftrightarrow> k \<in> set (cc_hiddenRemoteVideo s)"
  shows "tile_inv (fst (refreshRemoteVideo u (s\<lparr>cc_hiddenRemoteVideo := hs\<rparr>)))"
proof -
  let ?s = "s\<lparr>cc_hiddenRemoteVideo := hs\<rparr>"
  have key: "video_key v x \<noteq> video_key u src" if "v \<noteq> u" for v x using that by (simp add: video_key_def)
  have same: "slots_of v ?s = slots_of v s" "stream_tracks r ?s = stream_tracks r s" for v r
    by (simp_all add: slots_of_def stream_tracks_def)
  have des: "desired_video v ?s = desired_video v s" if "v \<noteq> u" for v
    using other key [OF that] by (simp add: desired_video_def available_def same split: option.split)
  have parts: "streams_apart ?s" "slots_ok ?s" "closures_ok ?s" "names_ok ?s"
    using tile_invD [OF inv]
    by (simp_all add: streams_apart_def slots_ok_def closures_ok_def names_ok_def same slot_ok_def)
  have right: "tile_shows v q ?s \<and> q < cc_nextStream s" if "map_get (cc_remoteStreams s) v = Some q" "v \<noteq> u" for v q
    using tiles_rightD [OF tile_invD(1) [OF inv] that(1)] des [OF that(2)] by (simp add: tile_shows_def same)
  show ?thesis
  proof (cases "map_get (cc_remoteStreams s) u")
    case None
    then have "v \<noteq> u" if "map_get (cc_remoteStreams s) v = Some q" for v q using that by auto
    then have "tiles_right ?s" using right by (simp add: tiles_right_def)
    with parts None show ?thesis by (simp add: refreshRemoteVideo_def tile_inv_def)
  next
    case (Some r)
    have "q < cc_nextStream ?s \<and> (if q = r then v = u \<and> length (filter is_video (stream_tracks q ?s)) \<le> 1 else tile_shows v q ?s)"
      if m: "map_get (cc_remoteStreams ?s) v = Some q" for v q
    proof (cases "v = u")
      case True
      with m Some tiles_rightD [OF tile_invD(1) [OF inv] Some] shows_few [of u r s] show ?thesis by (simp add: same)
    next
      case False
      with m Some streams_apartD [OF tile_invD(2) [OF inv]] have "q \<noteq> r" by auto
      with False m right [of v q] show ?thesis by simp
    qed
    from reconcile_tile_inv [OF parts this] Some show ?thesis by (simp add: refreshRemoteVideo_def)
  qed
qed

lemma ensure_tile_inv:
  assumes "tile_inv s" and "ensure_stream u s = (r, t)"
  shows "tile_inv t \<and> map_get (cc_remoteStreams t) u = Some r \<and> cc_onended t = cc_onended s \<and> slots_of v t = slots_of v s"
proof (cases "map_get (cc_remoteStreams s) u")
  case (Some q)
  with assms show ?thesis by (simp add: ensure_stream_def)
next
  case None
  let ?n = "cc_nextStream s"
  from None assms(2) have r: "r = ?n" and t: "t = s\<lparr>cc_remoteStreams := map_set u ?n (cc_remoteStreams s),
      cc_streams := map_set ?n [] (cc_streams s), cc_nextStream := Suc ?n\<rparr>"
    by (auto simp: ensure_stream_def)
  note inv = tile_invD [OF assms(1)]
  have below: "q < ?n" if "map_get (cc_remoteStreams s) v = Some q" for v q
    using tiles_rightD [OF inv(1) that] by simp
  have none: "slot_of src (slots_of u s) = None" if "src \<in> {''camera'', ''screen''}" for src
    using slots_okD [OF inv(3) that, of u] None unfolding slot_ok_def by fastforce
  have nodes: "desired_video u t = None"
    using none [of "''camera''"] none [of "''screen''"]
    by (simp add: desired_video_def slots_of_def t slot_of_def available_def)
  have same: "slots_of v t = slots_of v s" "desired_video v t = desired_video v s" for v
    by (simp_all add: slots_of_def t desired_video_def available_def split: option.split)
  have tr: "stream_tracks q t = (if q = ?n then [] else stream_tracks q s)" for q
    by (simp add: stream_tracks_def t)
  have 1: "tiles_right t"
    unfolding tiles_right_def
  proof (intro allI impI)
    fix v q assume m: "map_get (cc_remoteStreams t) v = Some q"
    show "q < cc_nextStream t \<and> tile_shows v q t"
    proof (cases "v = u")
      case True
      with m have "q = ?n" by (simp add: t)
      with True nodes show ?thesis by (simp add: t [symmetric] tile_shows_def tr) (simp add: t)
    next
      case False
      with m have m': "map_get (cc_remoteStreams s) v = Some q" by (simp add: t)
      with tiles_rightD [OF inv(1) m'] show ?thesis by (simp add: tile_shows_def tr same) (simp add: t)
    qed
  qed
  have 2: "streams_apart t" using inv(2) below by (fastforce simp: streams_apart_def t)
  have 3: "slots_ok t"
    unfolding slots_ok_def
  proof (intro allI impI)
    fix v src x assume a: "src \<in> {''camera'', ''screen''}" "slot_of src (slots_of v t) = Some x"
    with same none have "v \<noteq> u" by auto
    with slots_okD [OF inv(3) a(1)] a(2) same show "slot_ok v src x t" by (simp add: slot_ok_def t)
  qed
  have 4: "closures_ok t"
    unfolding closures_ok_def
  proof (intro allI impI)
    fix n k assume k: "map_get (cc_onended t) n = Some k"
    then have k': "map_get (cc_onended s) n = Some k" by (simp add: t)
    obtain x w p src q where kk: "k = (x, w, p, src, q)" by (cases k) auto
    from closures_okD [OF inv(4) k'] kk have c: "closure_ok ?n n k" and q: "q < ?n" by (auto simp: closure_ok_def)
    have "owner_ok (cc_remoteStreams t) k"
      using closures_mine [OF inv(4) k' [unfolded kk]] q by (auto simp: owner_ok_def kk t)
    with c kk show "closure_ok (cc_nextStream t) n k \<and> owner_ok (cc_remoteStreams t) k"
      by (auto simp: t closure_ok_def)
  qed
  have 5: "names_ok t" using inv(5) by (simp add: names_ok_def tr)
  from 1 2 3 4 5 same r show ?thesis by (simp add: tile_inv_def) (simp add: t)
qed


lemma slot_simps [simp]:
  "slot_of src (set_slot src' x v) = (if (src = ''camera'') = (src' = ''camera'') then x else slot_of src v)"
  by (simp add: slot_of_def set_slot_def)

text \<open>A new track of someone: its closure and, for video, its slot.\<close>

definition new_track :: "media_track \<Rightarrow> int \<Rightarrow> string \<Rightarrow> nat \<Rightarrow> call_client \<Rightarrow> bool" where
  "new_track t u src r s \<longleftrightarrow> map_get (cc_remoteStreams s) u = Some r \<and> map_get (cc_onended s) (tk_object t) = None
     \<and> named_by_kind t \<and> (is_video t \<longrightarrow> src \<in> {''camera'', ''screen''})"

lemma closure_added:
  assumes "tile_inv s" "new_track t u src r s"
  shows "closures_ok (s\<lparr>cc_onended := map_set (tk_object t) (t, u, p, src, r) (cc_onended s)\<rparr>)"
proof -
  note parts = tile_invD [OF assms(1)]
  from assms(2) have mine: "map_get (cc_remoteStreams s) u = Some r" by (simp add: new_track_def)
  have "owner_ok (cc_remoteStreams s) (t, u, p, src, r)"
    using streams_apartD [OF parts(2) _ mine] by (auto simp: owner_ok_def)
  moreover have "closure_ok (cc_nextStream s) (tk_object t) (t, u, p, src, r)"
    using tiles_rightD [OF parts(1) mine] assms(2) by (simp add: closure_ok_def new_track_def)
  ultimately show ?thesis using parts(4) unfolding closures_ok_def by simp
qed

lemma closure_kept:
  assumes "tile_inv s" "new_track t u src r s"
    and "slot_of y (slots_of v s) = Some x" "y \<in> {''camera'', ''screen''}"
  shows "slot_ok v y x s" "tk_object x \<noteq> tk_object t"
  using slots_okD [OF tile_invD(3) [OF assms(1)] assms(4,3)] assms(2) by (auto simp: slot_ok_def new_track_def)

lemma add_video_tile_inv:
  assumes inv: "tile_inv s" and new: "new_track t u src r s" and v: "is_video t"
  shows "tile_inv (reconcileRemoteVideo u r (s\<lparr>cc_remoteVideoTracks := map_set u (set_slot src (Some t) (slots_of u s)) (cc_remoteVideoTracks s),
      cc_onended := map_set (tk_object t) (t, u, p, src, r) (cc_onended s)\<rparr>))" (is "tile_inv (reconcileRemoteVideo u r ?s)")
proof -
  note parts = tile_invD [OF inv]
  from new v have src: "src \<in> {''camera'', ''screen''}" and mine: "map_get (cc_remoteStreams s) u = Some r"
    by (simp_all add: new_track_def)
  have sl: "slots_of w ?s = (if w = u then set_slot src (Some t) (slots_of u s) else slots_of w s)" for w
    by (simp add: slots_of_def)
  have tr: "stream_tracks q ?s = stream_tracks q s" for q by (simp add: stream_tracks_def)
  have "slots_ok ?s"
    unfolding slots_ok_def
  proof (intro allI impI)
    fix w y x assume y: "y \<in> {''camera'', ''screen''}" and x: "slot_of y (slots_of w ?s) = Some x"
    show "slot_ok w y x ?s"
    proof (cases "w = u \<and> y = src")
      case True
      with x sl mine v show ?thesis by (simp add: slot_ok_def)
    next
      case False
      with x sl src y have "slot_of y (slots_of w s) = Some x" by (auto split: if_splits)
      from closure_kept [OF inv new this y] show ?thesis by (simp add: slot_ok_def)
    qed
  qed
  moreover have "closures_ok ?s" using closure_added [OF inv new] by (simp add: closures_ok_def)
  moreover have "streams_apart ?s" "names_ok ?s" using parts(2,5) by (simp_all add: streams_apart_def names_ok_def tr)
  moreover have "q < cc_nextStream ?s
        \<and> (if q = r then w = u \<and> length (filter is_video (stream_tracks q ?s)) \<le> 1 else tile_shows w q ?s)"
    if "map_get (cc_remoteStreams ?s) w = Some q" for w q
  proof -
    from that have m: "map_get (cc_remoteStreams s) w = Some q" by simp
    note tv = tiles_rightD [OF parts(1) m]
    show ?thesis
    proof (cases "q = r")
      case True
      with m mine streams_apartD [OF parts(2)] have "w = u" by blast
      with True tv shows_few [of w q s] show ?thesis by (simp add: tr)
    next
      case False
      with m mine have "w \<noteq> u" by auto
      then have "desired_video w ?s = desired_video w s" by (intro desired_cong) (simp_all add: sl)
      with False tv show ?thesis by (simp add: tile_shows_def tr)
    qed
  qed
  ultimately show ?thesis by (intro reconcile_tile_inv)
qed

lemma add_audio_tile_inv:
  assumes inv: "tile_inv s" and new: "new_track t u src r s" and nv: "\<not> is_video t"
    and s2: "s2 = s \<or> s2 = set_stream r (stream_tracks r s @ [t]) s"
  shows "tile_inv (s2\<lparr>cc_onended := map_set (tk_object t) (t, u, p, src, r) (cc_onended s2)\<rparr>)" (is "tile_inv ?s")
proof -
  note parts = tile_invD [OF inv]
  have sl: "slots_of w ?s = slots_of w s" "desired_video w ?s = desired_video w s" for w
    using s2 by (elim disjE; simp add: slots_of_def desired_video_def available_def set_stream_def split: option.split)+
  have tr: "filter is_video (stream_tracks q ?s) = filter is_video (stream_tracks q s)" for q
    using nv s2 by (auto simp: stream_tracks_def set_stream_def)
  have same: "cc_remoteStreams ?s = cc_remoteStreams s" "cc_nextStream ?s = cc_nextStream s"
    "cc_onended ?s = map_set (tk_object t) (t, u, p, src, r) (cc_onended s)"
    using s2 by auto
  have "tiles_right ?s" using parts(1) by (simp add: tiles_right_def tile_shows_def sl tr same)
  moreover have "streams_apart ?s" using parts(2) by (simp add: streams_apart_def same)
  moreover have "slots_ok ?s"
    unfolding slots_ok_def
  proof (intro allI impI)
    fix w y x assume y: "y \<in> {''camera'', ''screen''}" and "slot_of y (slots_of w ?s) = Some x"
    then have "slot_of y (slots_of w s) = Some x" by (simp add: sl)
    from closure_kept [OF inv new this y] show "slot_ok w y x ?s" by (simp add: slot_ok_def same)
  qed
  moreover have "closures_ok ?s" using closure_added [OF inv new, of p] by (simp add: closures_ok_def same)
  moreover have "names_ok ?s"
    using parts(5) new s2 by (auto simp: names_ok_def stream_tracks_def set_stream_def new_track_def split: if_splits)
  ultimately show ?thesis by (rule tile_invI)
qed

lemma handleTrack_tile_inv:
  assumes inv: "tile_inv s" and new: "call_enabled s (CallTrack sid t)"
  shows "tile_inv (fst (handleTrack sid t s))"
proof (cases "parse_stream_id sid")
  case (Some us)
  obtain u src where us: "us = (u, src)" by fastforce
  let ?s0 = "s\<lparr>cc_participants := map_set u (participant_or_bare u s) (cc_participants s)\<rparr>"
  obtain r s1 where e: "ensure_stream u ?s0 = (r, s1)" by fastforce
  have "tile_inv ?s0" using inv tile_view_cong [of ?s0 s] by (simp add: tile_view_def)
  from ensure_tile_inv [OF this e] have i1: "tile_inv s1" and mr: "map_get (cc_remoteStreams s1) u = Some r"
    and cl: "cc_onended s1 = cc_onended s" by simp_all
  have n: "new_track t u src r s1"
    using new Some us mr cl by (cases "map_get (cc_onended s) (tk_object t)") (auto simp: new_track_def map_has_def)
  show ?thesis
  proof (cases "is_video t")
    case True
    with n have "src \<in> {''camera'', ''screen''}" by (simp add: new_track_def)
    with add_video_tile_inv [OF i1 n True] True Some us e inv show ?thesis by (simp add: handleTrack_def Let_def)
  next
    case False
    with add_audio_tile_inv [OF i1 n False] Some us e inv show ?thesis by (simp add: handleTrack_def Let_def)
  qed
qed (simp add: inv handleTrack_def)

lemma remove_first_filter: "(\<And>x. x \<in> set xs \<Longrightarrow> P x \<Longrightarrow> \<not> Q x) \<Longrightarrow> filter Q (remove_first P xs) = filter Q xs"
  by (induction xs) auto

lemma set_remove_first: "set (remove_first P xs) \<subseteq> set xs"
  by (induction xs) auto

lemma same_name_kind: "named_by_kind x \<Longrightarrow> named_by_kind y \<Longrightarrow> tk_id x = tk_id y \<Longrightarrow> is_video x = is_video y"
  by (auto simp: named_by_kind_def is_video_def suffix_def)


text \<open>A track that ends changes the tile its own stream shows, and no other one: the slots of the others hold
  other tracks.\<close>

lemma end_unslotted:
  assumes "\<And>x y. slot_of y (slots_of v s) = Some x \<Longrightarrow> y \<in> {''camera'', ''screen''} \<Longrightarrow> tk_object x \<noteq> n"
  shows "desired_video v (s\<lparr>cc_endedTracks := set_add n (cc_endedTracks s)\<rparr>) = desired_video v s"
  using assms [of "''camera''"] assms [of "''screen''"]
  by (simp add: desired_video_def available_def slots_of_def slot_of_def split: option.split)

lemma end_other:
  assumes inv: "tile_inv s" and cl: "map_get (cc_onended s) n = Some (t, u, p, src, r)"
    and other: "\<not> (v = u \<and> map_get (cc_remoteStreams s) u = Some r)"
  shows "desired_video v (s\<lparr>cc_endedTracks := set_add n (cc_endedTracks s)\<rparr>) = desired_video v s"
proof -
  have "tk_object x \<noteq> n" if x: "slot_of y (slots_of v s) = Some x" "y \<in> {''camera'', ''screen''}" for x y
    using slots_okD [OF tile_invD(3) [OF inv] x(2,1)] cl other by (auto simp: slot_ok_def)
  then show ?thesis by (rule end_unslotted)
qed

lemma ended_slot_slots: "slots_of v (ended_slot u src t s)
    = (if v = u \<and> map_get (cc_remoteVideoTracks s) u \<noteq> None \<and> slot_of src (slots_of u s) = Some t
       then set_slot src None (slots_of u s) else slots_of v s)"
  by (auto simp: ended_slot_def slots_of_def map_get_or_def split: option.split)

lemma ended_slot_fields [simp]:
  "cc_remoteStreams (ended_slot u src t s) = cc_remoteStreams s" "cc_onended (ended_slot u src t s) = cc_onended s"
  "cc_nextStream (ended_slot u src t s) = cc_nextStream s" "cc_streams (ended_slot u src t s) = cc_streams s"
  "cc_endedTracks (ended_slot u src t s) = cc_endedTracks s"
  "cc_hiddenRemoteVideo (ended_slot u src t s) = cc_hiddenRemoteVideo s"
  by (auto simp: ended_slot_def split: option.split)

lemma end_video_tile_inv:
  assumes inv: "tile_inv s" and cl: "map_get (cc_onended s) n = Some (t, u, p, src, r)"
    and src: "src \<in> {''camera'', ''screen''}"
  shows "tile_inv (reconcileRemoteVideo u r (ended_slot u src t (s\<lparr>cc_endedTracks := set_add n (cc_endedTracks s)\<rparr>)))"
    (is "tile_inv (reconcileRemoteVideo u r (ended_slot u src t ?e))")
proof -
  let ?s = "ended_slot u src t ?e"
  note parts = tile_invD [OF inv]
  have tr: "stream_tracks q ?s = stream_tracks q s" for q by (simp add: stream_tracks_def)
  have sl: "slots_of v ?e = slots_of v s" for v by (simp add: slots_of_def)
  have sub: "slot_of y (slots_of v s) = Some x" if "slot_of y (slots_of v ?s) = Some x" "y \<in> {''camera'', ''screen''}" for v x y
    using that src by (auto simp: ended_slot_slots sl split: if_splits)
  have "slots_ok ?s"
    unfolding slots_ok_def
  proof (intro allI impI)
    fix v y x assume y: "y \<in> {''camera'', ''screen''}" and "slot_of y (slots_of v ?s) = Some x"
    with sub have "slot_of y (slots_of v s) = Some x" by blast
    from slots_okD [OF parts(3) y this] show "slot_ok v y x ?s" by (simp add: slot_ok_def)
  qed
  moreover have "closures_ok ?s" "streams_apart ?s" "names_ok ?s"
    using parts(2,4,5) by (simp_all add: closures_ok_def streams_apart_def names_ok_def tr)
  moreover have "q < cc_nextStream ?s
        \<and> (if q = r then v = u \<and> length (filter is_video (stream_tracks q ?s)) \<le> 1 else tile_shows v q ?s)"
    if "map_get (cc_remoteStreams ?s) v = Some q" for v q
  proof -
    from that have m: "map_get (cc_remoteStreams s) v = Some q" by simp
    note tv = tiles_rightD [OF parts(1) m]
    show ?thesis
    proof (cases "q = r")
      case True
      with m closures_mine [OF parts(4) cl] have "v = u" by blast
      with True tv shows_few [of v q s] show ?thesis by (simp add: tr)
    next
      case False
      have "slot_of src (slots_of u s) \<noteq> Some t" if "v = u"
        using slots_okD [OF parts(3) src, of u t] cl m that False closures_okD [OF parts(4) cl]
        by (auto simp: slot_ok_def closure_ok_def)
      then have "slots_of v ?s = slots_of v ?e" by (auto simp: ended_slot_slots sl)
      then have "desired_video v ?s = desired_video v ?e" by (intro desired_cong) simp_all
      also have "\<dots> = desired_video v s" using end_other [OF inv cl, of v] m False by fastforce
      finally show ?thesis using tv False by (simp add: tile_shows_def tr)
    qed
  qed
  ultimately show ?thesis by (intro reconcile_tile_inv)
qed


lemma unslotted_end_tile_inv:
  assumes inv: "tile_inv s"
    and none: "\<And>v x y. slot_of y (slots_of v s) = Some x \<Longrightarrow> y \<in> {''camera'', ''screen''} \<Longrightarrow> tk_object x \<noteq> n"
  shows "tile_inv (s\<lparr>cc_endedTracks := set_add n (cc_endedTracks s)\<rparr>)" (is "tile_inv ?e")
proof -
  note parts = tile_invD [OF inv]
  have same: "slots_of v ?e = slots_of v s" "stream_tracks q ?e = stream_tracks q s" for v q
    by (simp_all add: slots_of_def stream_tracks_def)
  have "desired_video v ?e = desired_video v s" for v using none by (rule end_unslotted)
  then have "tiles_right ?e" using parts(1) by (simp add: tiles_right_def tile_shows_def same)
  moreover have "slots_ok ?e" using parts(3) unfolding slots_ok_def slot_ok_def same by simp
  moreover have "streams_apart ?e" "closures_ok ?e" "names_ok ?e"
    using parts by (simp_all add: streams_apart_def closures_ok_def names_ok_def same)
  ultimately show ?thesis by (intro tile_invI)
qed

lemma drop_audio_tile_inv:
  assumes inv: "tile_inv s" and audio: "\<And>x. x \<in> set (stream_tracks r s) \<Longrightarrow> P x \<Longrightarrow> \<not> is_video x"
  shows "tile_inv (set_stream r (remove_first P (stream_tracks r s)) s)" (is "tile_inv ?s")
proof -
  note parts = tile_invD [OF inv]
  have "filter is_video (stream_tracks q ?s) = filter is_video (stream_tracks q s)" for q
    using audio by (auto intro!: remove_first_filter)
  then have "tiles_right ?s" using parts(1) by (simp add: tiles_right_def tile_shows_def del: stream_set_stream)
  moreover have "names_ok ?s"
    using parts(5) set_remove_first [of P "stream_tracks r s"] by (fastforce simp: names_ok_def)
  moreover have "slots_ok ?s" "streams_apart ?s" "closures_ok ?s"
    using parts by (simp_all add: slots_ok_def streams_apart_def closures_ok_def)
  ultimately show ?thesis by (intro tile_invI)
qed

lemma track_ended_tile_inv:
  assumes inv: "tile_inv s"
  shows "tile_inv (fst (track_ended n s))"
proof (cases "map_get (cc_onended s) n")
  case None
  then have "tk_object x \<noteq> n" if "slot_of y (slots_of v s) = Some x" "y \<in> {''camera'', ''screen''}" for v x y
    using slots_okD [OF tile_invD(3) [OF inv] that(2,1)] by (auto simp: slot_ok_def)
  from unslotted_end_tile_inv [OF inv this] None show ?thesis by (simp add: track_ended_def)
next
  case (Some k)
  obtain t u p src r where k: "k = (t, u, p, src, r)" by (cases k) auto
  with Some have cl: "map_get (cc_onended s) n = Some (t, u, p, src, r)" by simp
  from closures_okD [OF tile_invD(4) [OF inv] cl] have name: "named_by_kind t"
    and src: "is_video t \<Longrightarrow> src \<in> {''camera'', ''screen''}" by (simp_all add: closure_ok_def)
  show ?thesis
  proof (cases "is_video t")
    case True
    with end_video_tile_inv [OF inv cl src] src cl show ?thesis by (simp add: track_ended_def)
  next
    case False
    then have "tk_object x \<noteq> n" if "slot_of y (slots_of v s) = Some x" "y \<in> {''camera'', ''screen''}" for v x y
      using slots_okD [OF tile_invD(3) [OF inv] that(2,1)] cl by (auto simp: slot_ok_def)
    from unslotted_end_tile_inv [OF inv this] have e: "tile_inv (s\<lparr>cc_endedTracks := set_add n (cc_endedTracks s)\<rparr>)"
      (is "tile_inv ?e") .
    have "\<not> is_video x" if "x \<in> set (stream_tracks r ?e)" "tk_id x = tk_id t" for x
      using same_name_kind [OF names_okD [OF tile_invD(5) [OF e] that(1)] name that(2)] False by simp
    from drop_audio_tile_inv [OF e this, where P = "\<lambda>x. tk_id x = tk_id t"] False cl
    show ?thesis by (simp add: track_ended_def Let_def)
  qed
qed

text \<open>Whoever leaves takes their stream and their slots along; what is kept is a part of what was there.\<close>

lemma forget_tile_inv:
  assumes inv: "tile_inv s"
    and streams: "\<And>v q. map_get (cc_remoteStreams t) v = Some q \<Longrightarrow> map_get (cc_remoteStreams s) v = Some q \<and> desired_video v t = desired_video v s"
    and slots: "\<And>v y x. slot_of y (slots_of v t) = Some x \<Longrightarrow> slot_of y (slots_of v s) = Some x \<and> map_get (cc_remoteStreams t) v = map_get (cc_remoteStreams s) v"
    and same: "cc_streams t = cc_streams s" "cc_onended t = cc_onended s" "cc_nextStream t = cc_nextStream s"
  shows "tile_inv t"
proof -
  note parts = tile_invD [OF inv]
  have tr: "stream_tracks q t = stream_tracks q s" for q by (simp add: stream_tracks_def same)
  have "tiles_right t"
    using tiles_rightD [OF parts(1)] streams by (auto simp: tiles_right_def tile_shows_def tr same)
  moreover have "streams_apart t"
    using streams_apartD [OF parts(2)] streams unfolding streams_apart_def by blast
  moreover have "slots_ok t"
    unfolding slots_ok_def
  proof (intro allI impI)
    fix v y x assume y: "y \<in> {''camera'', ''screen''}" and "slot_of y (slots_of v t) = Some x"
    then have "slot_of y (slots_of v s) = Some x" and g: "map_get (cc_remoteStreams t) v = map_get (cc_remoteStreams s) v"
      using slots by blast+
    from slots_okD [OF parts(3) y this(1)] g show "slot_ok v y x t" by (simp add: slot_ok_def same)
  qed
  moreover have "closures_ok t"
    unfolding closures_ok_def
  proof (intro allI impI)
    fix n k assume "map_get (cc_onended t) n = Some k"
    then have k: "map_get (cc_onended s) n = Some k" by (simp add: same)
    with parts(4) have "closure_ok (cc_nextStream s) n k \<and> owner_ok (cc_remoteStreams s) k"
      unfolding closures_ok_def by blast
    with streams show "closure_ok (cc_nextStream t) n k \<and> owner_ok (cc_remoteStreams t) k"
      by (auto simp: same owner_ok_def)
  qed
  moreover have "names_ok t" using parts(5) by (simp add: names_ok_def tr)
  ultimately show ?thesis by (rule tile_invI)
qed


lemma left_tile_inv: "tile_inv s \<Longrightarrow> tile_inv (fst (handleVoiceUserLeft c u s))"
proof (cases "c = cc_currentChannelID s")
  case True
  assume inv: "tile_inv s"
  let ?t = "fst (handleVoiceUserLeft c u s)"
  have hid: "video_key v y \<in> set (cc_hiddenRemoteVideo ?t) \<longleftrightarrow> video_key v y \<in> set (cc_hiddenRemoteVideo s)" if "v \<noteq> u" for v y
    using that by (auto simp: handleVoiceUserLeft_def Let_def True starts_with_def user_prefix_def video_key_def prefix_def)
  have sl: "slots_of v ?t = (if v = u then \<lparr>vs_camera = None, vs_screen = None\<rparr> else slots_of v s)" for v
    by (simp add: handleVoiceUserLeft_def Let_def True slots_of_def map_get_or_def)
  have st: "map_get (cc_remoteStreams ?t) v = (if v = u then None else map_get (cc_remoteStreams s) v)" for v
    by (simp add: handleVoiceUserLeft_def Let_def True)
  have "cc_endedTracks ?t = cc_endedTracks s" by (simp add: handleVoiceUserLeft_def Let_def True)
  then have des: "desired_video v ?t = desired_video v s" if "v \<noteq> u" for v
    using hid [OF that] sl [of v] that by (intro desired_cong) simp_all
  show ?thesis
  proof (rule forget_tile_inv [OF inv])
    show "map_get (cc_remoteStreams s) v = Some q \<and> desired_video v ?t = desired_video v s"
      if "map_get (cc_remoteStreams ?t) v = Some q" for v q
      using that des [of v] by (simp add: st split: if_splits)
    show "slot_of y (slots_of v s) = Some x \<and> map_get (cc_remoteStreams ?t) v = map_get (cc_remoteStreams s) v"
      if "slot_of y (slots_of v ?t) = Some x" for v y x
      using that by (auto simp: st sl slot_of_def split: if_splits)
  qed (simp_all add: handleVoiceUserLeft_def Let_def True)
qed (simp add: handleVoiceUserLeft_def)

lemma empty_tile_inv:
  assumes "tile_inv s" and "cc_remoteStreams t = []" "cc_remoteVideoTracks t = []"
    and "cc_streams t = cc_streams s" "cc_onended t = cc_onended s" "cc_nextStream t = cc_nextStream s"
  shows "tile_inv t"
  using assms by (intro forget_tile_inv [OF assms(1)]) (simp_all add: slots_of_def map_get_or_def slot_of_def split: if_splits)

lemma teardown_tile_inv: "tile_inv s \<Longrightarrow> tile_inv (fst (teardownPeerConnection s))"
  by (erule empty_tile_inv) (simp_all add: teardownPeerConnection_def stopQualityMonitor_def Let_def)

lemma leave_tile_inv: "tile_inv s \<Longrightarrow> tile_inv (fst (leave s))"
  by (erule empty_tile_inv) (simp_all add: leave_def teardownPeerConnection_def stopQualityMonitor_def Let_def)

text \<open>The other operations leave the tiles alone.\<close>

lemma view_set_sender [simp]: "tile_view (set_sender x t s) = tile_view s"
  by (simp add: set_sender_def tile_view_def)

lemma view_restore [simp]: "tile_view (fst (restoreCameraState s)) = tile_view s"
  by (simp add: restoreCameraState_def Let_def)

lemma view_monitor [simp]: "tile_view (fst (startQualityMonitor s)) = tile_view s"
  by (simp add: startQualityMonitor_def tile_view_def)

lemma view_open [simp]: "tile_view (fst (openPeerConnection mid s)) = tile_view s"
  by (simp add: openPeerConnection_def tile_view_def)

lemma view_apply: "fst (applySession r s) = Inr t \<Longrightarrow> tile_view t = tile_view s"
  by (auto simp: applySession_def tile_view_def split: option.splits list.splits)

end
