(* ===== verification/CallInv.thy ===== *)
theory CallInv
  imports CallTiles
begin

text \<open>
  The invariant of the call: the tiles, the keys of the subscriptions, the waiting candidates. Every input keeps it.
\<close>

section \<open>Keys and candidates\<close>

definition key_ok :: "string \<Rightarrow> bool" where
  "key_ok k \<longleftrightarrow> (\<exists>u src. k = video_key u src)"

definition keys_inv :: "call_client \<Rightarrow> bool" where
  "keys_inv s \<longleftrightarrow> (\<forall>k \<in> set (cc_subscribedVideo s) \<union> set (cc_hiddenRemoteVideo s). key_ok k)
     \<and> (\<forall>(k, u, src) \<in> set (cc_pendingVideoSubscriptions s). k = video_key u src)
     \<and> (cc_subscribedVideo s \<noteq> [] \<longrightarrow> cc_sessionID s \<noteq> [])
     \<and> (cc_pendingVideoSubscriptions s \<noteq> [] \<longrightarrow> cc_subscribeDebounceTimer s)"

definition ice_inv :: "call_client \<Rightarrow> bool" where
  "ice_inv s \<longleftrightarrow> (case cc_pc s of Some pc \<Rightarrow> pc_remoteDescription pc \<longrightarrow> cc_pendingCandidates s = [] | None \<Rightarrow> True)"

definition call_inv :: "call_client \<Rightarrow> bool" where
  "call_inv s \<longleftrightarrow> tile_inv s \<and> keys_inv s \<and> ice_inv s"

text \<open>What \<open>keys_inv\<close> and \<open>ice_inv\<close> look at.\<close>

definition keys_view :: "call_client \<Rightarrow> _" where
  "keys_view s = (cc_subscribedVideo s, cc_hiddenRemoteVideo s, cc_pendingVideoSubscriptions s, cc_sessionID s,
     cc_subscribeDebounceTimer s)"

definition ice_view :: "call_client \<Rightarrow> _" where
  "ice_view s = (cc_pc s, cc_pendingCandidates s)"

lemma keys_view_cong: "keys_view t = keys_view s \<Longrightarrow> keys_inv t = keys_inv s"
  by (simp add: keys_view_def keys_inv_def)

lemma ice_view_cong: "ice_view t = ice_view s \<Longrightarrow> ice_inv t = ice_inv s"
  by (auto simp: ice_view_def ice_inv_def split: option.splits)

lemma key_ok_video [simp]: "key_ok (video_key u src)"
  by (auto simp: key_ok_def)

lemma views_set_sender [simp]:
  "keys_view (set_sender x t s) = keys_view s" "ice_view (set_sender x t s) = ice_view s"
  by (simp_all add: set_sender_def keys_view_def ice_view_def)

lemma views_restore [simp]:
  "keys_view (fst (restoreCameraState s)) = keys_view s" "ice_view (fst (restoreCameraState s)) = ice_view s"
  by (simp_all add: restoreCameraState_def Let_def)

lemma views_monitor [simp]:
  "keys_view (fst (startQualityMonitor s)) = keys_view s" "ice_view (fst (startQualityMonitor s)) = ice_view s"
  by (simp_all add: startQualityMonitor_def keys_view_def ice_view_def)

lemma views_reconcile [simp]:
  "keys_view (reconcileRemoteVideo u r s) = keys_view s" "ice_view (reconcileRemoteVideo u r s) = ice_view s"
  by (simp_all add: reconcileRemoteVideo_def Let_def set_stream_def keys_view_def ice_view_def)

lemma views_refresh [simp]:
  "keys_view (fst (refreshRemoteVideo u s)) = keys_view s" "ice_view (fst (refreshRemoteVideo u s)) = ice_view s"
  by (simp_all add: refreshRemoteVideo_def split: option.split)

section \<open>Each operation keeps the invariant\<close>

lemma ensure_views:
  "keys_view (snd (ensure_stream u s)) = keys_view s" "ice_view (snd (ensure_stream u s)) = ice_view s"
  by (auto simp: ensure_stream_def keys_view_def ice_view_def split: option.split)

lemma handleTrack_views:
  "keys_view (fst (handleTrack sid t s)) = keys_view s" "ice_view (fst (handleTrack sid t s)) = ice_view s"
proof -
  have "keys_view (fst (handleTrack sid t s)) = keys_view s \<and> ice_view (fst (handleTrack sid t s)) = ice_view s"
  proof (cases "parse_stream_id sid")
    case (Some us)
    obtain u src where us: "us = (u, src)" by fastforce
    let ?s0 = "s\<lparr>cc_participants := map_set u (participant_or_bare u s) (cc_participants s)\<rparr>"
    obtain r s1 where e: "ensure_stream u ?s0 = (r, s1)" by fastforce
    with ensure_views [of u ?s0] have "keys_view s1 = keys_view s" "ice_view s1 = ice_view s"
      by (simp_all add: keys_view_def ice_view_def)
    with Some us e show ?thesis
      by (simp add: handleTrack_def Let_def) (simp add: keys_view_def ice_view_def set_stream_def)
  qed (simp add: handleTrack_def)
  then show "keys_view (fst (handleTrack sid t s)) = keys_view s" "ice_view (fst (handleTrack sid t s)) = ice_view s"
    by simp_all
qed

lemma track_ended_views:
  "keys_view (fst (track_ended n s)) = keys_view s" "ice_view (fst (track_ended n s)) = ice_view s"
proof -
  have e: "keys_view (ended_slot u src t s) = keys_view s" "ice_view (ended_slot u src t s) = ice_view s" for u src t s
    by (auto simp: ended_slot_def keys_view_def ice_view_def split: option.split)
  have "keys_view (s\<lparr>cc_endedTracks := x\<rparr>) = keys_view s" "ice_view (s\<lparr>cc_endedTracks := x\<rparr>) = ice_view s"
    "keys_view (set_stream r ts s) = keys_view s" "ice_view (set_stream r ts s) = ice_view s" for x r ts s
    by (simp_all add: keys_view_def ice_view_def set_stream_def)
  with e show "keys_view (fst (track_ended n s)) = keys_view s" "ice_view (fst (track_ended n s)) = ice_view s"
    by (auto simp: track_ended_def Let_def split: option.split)
qed

lemma call_inv_parts: "tile_inv s \<Longrightarrow> keys_inv s \<Longrightarrow> ice_inv s \<Longrightarrow> call_inv s"
  by (simp add: call_inv_def)

lemma call_invD: "call_inv s \<Longrightarrow> tile_inv s" "call_inv s \<Longrightarrow> keys_inv s" "call_inv s \<Longrightarrow> ice_inv s"
  by (simp_all add: call_inv_def)

lemma view_inv:
  assumes "call_inv s" "tile_view t = tile_view s" "keys_view t = keys_view s" "ice_view t = ice_view s"
  shows "call_inv t"
  using assms(1) tile_view_cong [OF assms(2)] keys_view_cong [OF assms(3)] ice_view_cong [OF assms(4)]
  by (simp add: call_inv_def)

lemma handleTrack_inv: "call_inv s \<Longrightarrow> call_enabled s (CallTrack sid t) \<Longrightarrow> call_inv (fst (handleTrack sid t s))"
  using handleTrack_tile_inv handleTrack_views keys_view_cong ice_view_cong unfolding call_inv_def by metis

lemma track_ended_inv: "call_inv s \<Longrightarrow> call_inv (fst (track_ended n s))"
  using track_ended_tile_inv track_ended_views keys_view_cong ice_view_cong unfolding call_inv_def by metis

text \<open>Hiding and showing again.\<close>

lemma refresh_inv:
  assumes inv: "call_inv s" and other: "\<And>k. k \<noteq> video_key u src \<Longrightarrow> k \<in> set hs \<longleftrightarrow> k \<in> set (cc_hiddenRemoteVideo s)"
  shows "call_inv (fst (refreshRemoteVideo u (s\<lparr>cc_hiddenRemoteVideo := hs\<rparr>)))"
proof (rule call_inv_parts)
  show "tile_inv (fst (refreshRemoteVideo u (s\<lparr>cc_hiddenRemoteVideo := hs\<rparr>)))"
    using refresh_tile_inv [OF call_invD(1) [OF inv] other] .
  have "key_ok k" if "k \<in> set hs" for k
    using other [of k] that call_invD(2) [OF inv] by (cases "k = video_key u src") (auto simp: keys_inv_def)
  then have "keys_inv (s\<lparr>cc_hiddenRemoteVideo := hs\<rparr>)" using call_invD(2) [OF inv] by (auto simp: keys_inv_def)
  then show "keys_inv (fst (refreshRemoteVideo u (s\<lparr>cc_hiddenRemoteVideo := hs\<rparr>)))"
    using keys_view_cong views_refresh(1) by blast
  have "ice_view (s\<lparr>cc_hiddenRemoteVideo := hs\<rparr>) = ice_view s" by (simp add: ice_view_def)
  then show "ice_inv (fst (refreshRemoteVideo u (s\<lparr>cc_hiddenRemoteVideo := hs\<rparr>)))"
    using ice_view_cong views_refresh(2) call_invD(3) [OF inv] by metis
qed

lemma hide_inv: "call_inv s \<Longrightarrow> call_inv (fst (hideRemoteVideo u src s))"
  unfolding hideRemoteVideo_def by (rule refresh_inv) auto

lemma reappear_inv: "call_inv s \<Longrightarrow> call_inv (fst (reappearRemoteVideo u src s))"
  unfolding reappearRemoteVideo_def by (rule refresh_inv) auto


text \<open>Subscriptions.\<close>

lemma subscribe_all_frame:
  "tile_view (fst (subscribe_all ps s)) = tile_view s \<and> ice_view (fst (subscribe_all ps s)) = ice_view s
   \<and> cc_hiddenRemoteVideo (fst (subscribe_all ps s)) = cc_hiddenRemoteVideo s
   \<and> cc_pendingVideoSubscriptions (fst (subscribe_all ps s)) = cc_pendingVideoSubscriptions s
   \<and> cc_sessionID (fst (subscribe_all ps s)) = cc_sessionID s
   \<and> cc_activeSpeakers (fst (subscribe_all ps s)) = cc_activeSpeakers s
   \<and> set (cc_subscribedVideo (fst (subscribe_all ps s)))
       = set (cc_subscribedVideo s) \<union> (\<lambda>(u, src). video_key u src) ` set ps"
proof (induction ps arbitrary: s)
  case (Cons p ps)
  obtain u src where p: "p = (u, src)" by fastforce
  show ?case
    using Cons.IH [of "s\<lparr>cc_subscribedVideo := set_add (video_key u src) (cc_subscribedVideo s)\<rparr>"]
    by (auto simp: subscribe_one_def p Let_def split_beta tile_view_def ice_view_def)
qed simp

lemma subscribe_timer_inv:
  assumes inv: "call_inv s"
  shows "call_inv (fst (subscribe_timer_fire s))"
proof (cases "cc_sessionID s = []")
  case True
  let ?t = "s\<lparr>cc_subscribeDebounceTimer := False, cc_pendingVideoSubscriptions := []\<rparr>"
  have "tile_inv ?t" using tile_view_cong [of ?t s] call_invD(1) [OF inv] by (simp add: tile_view_def)
  moreover have "keys_inv ?t" using call_invD(2) [OF inv] by (simp add: keys_inv_def)
  moreover have "ice_inv ?t" using ice_view_cong [of ?t s] call_invD(3) [OF inv] by (simp add: ice_view_def)
  ultimately show ?thesis
    using True by (simp add: subscribe_timer_fire_def flushPendingSubscriptions_def call_inv_def)
next
  case False
  let ?s = "s\<lparr>cc_subscribeDebounceTimer := False, cc_pendingVideoSubscriptions := []\<rparr>"
  let ?t = "fst (subscribe_all (map snd (cc_pendingVideoSubscriptions s)) ?s)"
  note f = subscribe_all_frame [of "map snd (cc_pendingVideoSubscriptions s)" ?s]
  have "keys_inv ?t" using f call_invD(2) [OF inv] False by (auto simp: keys_inv_def)
  moreover have "tile_inv ?t" using f call_invD(1) [OF inv] tile_view_cong [of ?t s] by (simp add: tile_view_def)
  moreover have "ice_inv ?t" using f call_invD(3) [OF inv] ice_view_cong [of ?t s] by (simp add: ice_view_def)
  ultimately show ?thesis
    using False by (simp add: subscribe_timer_fire_def flushPendingSubscriptions_def call_inv_def)
qed

lemma subscribe_failed_inv: "call_inv s \<Longrightarrow> call_inv (subscribe_failed u src s)"
  using tile_view_cong [of "subscribe_failed u src s" s] ice_view_cong [of "subscribe_failed u src s" s]
  by (auto simp: call_inv_def subscribe_failed_def tile_view_def ice_view_def keys_inv_def set_del_def)

lemma schedule_call_inv:
  assumes inv: "call_inv s"
  shows "call_inv (fst (scheduleSubscribeFlush
      (s\<lparr>cc_pendingVideoSubscriptions := map_set (video_key u src) (u, src) (cc_pendingVideoSubscriptions s)\<rparr>)))" (is "call_inv ?t")
proof -
  have "set (map_set k v m) \<subseteq> insert (k, v) (set m)" for k v and m :: "(string \<times> (int \<times> string)) list"
    by (induction m) (auto simp: map_set_def)
  then have "\<forall>(k, w, x) \<in> set (map_set (video_key u src) (u, src) (cc_pendingVideoSubscriptions s)). k = video_key w x"
    using call_invD(2) [OF inv] by (fastforce simp: keys_inv_def)
  then have "keys_inv ?t"
    using call_invD(2) [OF inv] by (simp add: scheduleSubscribeFlush_def keys_inv_def)
  moreover have "tile_inv ?t" using tile_view_cong [of ?t s] call_invD(1) [OF inv]
    by (simp add: scheduleSubscribeFlush_def tile_view_def)
  moreover have "ice_inv ?t" using ice_view_cong [of ?t s] call_invD(3) [OF inv]
    by (simp add: scheduleSubscribeFlush_def ice_view_def)
  ultimately show ?thesis by (intro call_inv_parts)
qed

lemma published_inv: "call_inv s \<Longrightarrow> call_inv (fst (handleTrackPublished c u src k s))"
proof -
  assume inv: "call_inv s"
  obtain s1 os where 1: "(if src \<in> {''screen'', ''camera''} then reappearRemoteVideo u src s else (s, [])) = (s1, os)"
    by fastforce
  have "call_inv s1" using reappear_inv [OF inv, of u src] inv 1 by (cases "src \<in> {''screen'', ''camera''}") auto
  with schedule_call_inv [OF this, of u src] inv 1 show ?thesis
    by (simp add: handleTrackPublished_def Let_def split_beta)
qed

lemma unpublished_inv: "call_inv s \<Longrightarrow> call_inv (fst (handleTrackUnpublished c u src s))"
  by (simp add: handleTrackUnpublished_def hide_inv)


lemma speakers_inv: "call_inv s \<Longrightarrow> call_inv (fst (handleActiveSpeakers c us s))"
  by (erule view_inv) (auto simp: handleActiveSpeakers_def Let_def tile_view_def keys_view_def ice_view_def)

text \<open>Participants.\<close>

lemma joined_inv: "call_inv s \<Longrightarrow> call_inv (handleVoiceUserJoined c p s)"
  by (erule view_inv) (auto simp: handleVoiceUserJoined_def tile_view_def keys_view_def ice_view_def)

lemma sync_inv: "call_inv s \<Longrightarrow> call_inv (syncParticipants c ps s)"
  by (erule view_inv) (auto simp: syncParticipants_def tile_view_def keys_view_def ice_view_def)

lemma left_inv:
  assumes inv: "call_inv s"
  shows "call_inv (fst (handleVoiceUserLeft c u s))"
proof (rule call_inv_parts)
  show "tile_inv (fst (handleVoiceUserLeft c u s))" using left_tile_inv [OF call_invD(1) [OF inv]] .
  show "keys_inv (fst (handleVoiceUserLeft c u s))"
    using call_invD(2) [OF inv]
    by (cases "cc_subscribedVideo s = []"; cases "cc_pendingVideoSubscriptions s = []")
      (auto simp: handleVoiceUserLeft_def keys_inv_def Let_def)
  have "ice_view (fst (handleVoiceUserLeft c u s)) = ice_view s"
    by (simp add: handleVoiceUserLeft_def ice_view_def Let_def)
  then show "ice_inv (fst (handleVoiceUserLeft c u s))" using ice_view_cong call_invD(3) [OF inv] by blast
qed

text \<open>Sessions.\<close>

lemma teardown_inv: "call_inv s \<Longrightarrow> call_inv (fst (teardownPeerConnection s))"
  using teardown_tile_inv call_invD(1)
  by (auto simp: call_inv_def keys_inv_def ice_inv_def)
    (simp_all add: teardownPeerConnection_def stopQualityMonitor_def Let_def)

lemma leave_inv: "call_inv s \<Longrightarrow> call_inv (fst (leave s))"
  using leave_tile_inv call_invD(1)
  by (auto simp: call_inv_def keys_inv_def ice_inv_def)
    (simp_all add: leave_def teardownPeerConnection_def stopQualityMonitor_def Let_def)

lemma apply_inv:
  assumes inv: "call_inv s" and a: "applySession r s = (Inr t, os)"
  shows "call_inv t"
proof -
  from a have same: "cc_pc t = cc_pc s" "cc_pendingCandidates t = cc_pendingCandidates s" "cc_sessionID t \<noteq> []"
    "cc_subscribedVideo t = cc_subscribedVideo s" "cc_hiddenRemoteVideo t = cc_hiddenRemoteVideo s"
    "cc_pendingVideoSubscriptions t = cc_pendingVideoSubscriptions s"
    "cc_subscribeDebounceTimer t = cc_subscribeDebounceTimer s"
    by (auto simp: applySession_def split: option.splits list.splits)
  from a have "tile_view t = tile_view s" by (intro view_apply [of r]) simp
  then have "tile_inv t" using tile_view_cong call_invD(1) [OF inv] by blast
  moreover have "keys_inv t" using call_invD(2) [OF inv] by (simp add: keys_inv_def same)
  moreover have "ice_inv t" using ice_view_cong [of t s] call_invD(3) [OF inv] by (simp add: ice_view_def same)
  ultimately show ?thesis by (rule call_inv_parts)
qed

lemma open_inv:
  assumes inv: "call_inv s"
  shows "call_inv (fst (openPeerConnection mid s))" (is "call_inv ?t")
proof (rule call_inv_parts)
  show "tile_inv ?t" using tile_view_cong [OF view_open] call_invD(1) [OF inv] by blast
  have "keys_view ?t = keys_view s" by (simp add: openPeerConnection_def keys_view_def)
  then show "keys_inv ?t" using keys_view_cong call_invD(2) [OF inv] by blast
  show "ice_inv ?t" by (simp add: openPeerConnection_def ice_inv_def)
qed

lemma restore_inv: "call_inv s \<Longrightarrow> call_inv (fst (restoreCameraState s))"
  by (erule view_inv) simp_all

lemma monitor_inv: "call_inv s \<Longrightarrow> call_inv (fst (startQualityMonitor s))"
  by (erule view_inv) simp_all

text \<open>The end of \<open>join\<close> and of \<open>rejoin\<close>: from a session to a monitored connection.\<close>

lemma fst_let_pair [simp]: "fst (let (x, y) = p in f x y) = fst (f (fst p) (snd p))"
  by (simp add: split_beta)

lemma fresh_inv: "call_inv s \<Longrightarrow> call_inv (snd (fst (fresh_session a s)))"
proof -
  assume inv: "call_inv s"
  obtain s1 os1 where 1: "teardownPeerConnection s = (s1, os1)" by fastforce
  have i1: "call_inv s1" using teardown_inv [OF inv] 1 by simp
  show ?thesis
  proof (cases "ra_join a")
    case (Inr response)
    obtain q os2 where 2: "applySession response s1 = (q, os2)" by fastforce
    show ?thesis
    proof (cases q)
      case q: (Inr s2)
      have "call_inv (fst (openPeerConnection (ra_mid a) s2))"
        using apply_inv [OF i1] 2 q by (simp add: open_inv)
      then show ?thesis using 1 2 q Inr monitor_inv restore_inv
        by (auto simp: fresh_session_def split_beta Let_def split: sum.split)
    qed (use 1 2 Inr i1 in \<open>simp add: fresh_session_def\<close>)
  qed (use 1 i1 in \<open>simp add: fresh_session_def\<close>)
qed

lemma resumed_inv: "call_inv s \<Longrightarrow> call_inv (fst (resumed ps s))"
  by (erule view_inv) (simp_all add: resumed_def split_beta, simp_all add: tile_view_def keys_view_def ice_view_def)

lemma rejoin_inv: "call_inv s \<Longrightarrow> call_inv (snd (fst (rejoin c a s)))"
  using resumed_inv fresh_inv by (auto simp: rejoin_def split_beta Let_def split: sum.split)


lemma join_inv: "call_inv s \<Longrightarrow> call_inv (snd (fst (join_call c capture a s)))"
proof -
  assume inv: "call_inv s"
  obtain s1 os where 1: "leave s = (s1, os)" by fastforce
  have i1: "call_inv s1" using leave_inv [OF inv] 1 by simp
  let ?s2 = "s1\<lparr>cc_cameraEnabled := False, cc_localStream := (case capture of Inl _ \<Rightarrow> None | Inr ts \<Rightarrow> Some ts)\<rparr>"
  have i2: "call_inv ?s2" using i1 by (rule view_inv) (simp_all add: tile_view_def keys_view_def ice_view_def)
  show ?thesis
  proof (cases "cc_currentChannelID s = c")
    case False
    show ?thesis
    proof (cases "ra_join a")
      case (Inr response)
      obtain q os3 where 3: "applySession response ?s2 = (q, os3)" by fastforce
      show ?thesis
      proof (cases q)
        case q: (Inr s3)
        have "call_inv (fst (openPeerConnection (ra_mid a) s3))" using apply_inv [OF i2] 3 q by (simp add: open_inv)
        then show ?thesis using 1 3 q Inr False i1 monitor_inv restore_inv
          by (auto simp: join_call_def split_beta Let_def split: sum.split)
      qed (use 1 3 Inr False i1 i2 in \<open>simp add: join_call_def Let_def\<close>)
    qed (use 1 False i1 in \<open>simp add: join_call_def Let_def\<close>)
  qed (simp add: join_call_def inv)
qed

text \<open>Signals.\<close>

lemma flush_candidates_inv: "call_inv s \<Longrightarrow> call_inv (fst (flushPendingCandidates (set_remote_description s)))"
proof (rule call_inv_parts)
  let ?t = "fst (flushPendingCandidates (set_remote_description s))"
  assume inv: "call_inv s"
  have "tile_view ?t = tile_view s" by (simp add: flushPendingCandidates_def set_remote_description_def tile_view_def)
  then show "tile_inv ?t" using tile_view_cong call_invD(1) [OF inv] by blast
  have "keys_view ?t = keys_view s" by (simp add: flushPendingCandidates_def set_remote_description_def keys_view_def)
  then show "keys_inv ?t" using keys_view_cong call_invD(2) [OF inv] by blast
  show "ice_inv ?t"
    by (auto simp: flushPendingCandidates_def set_remote_description_def ice_inv_def split: option.split)
qed

lemma offer_inv: "call_inv s \<Longrightarrow> call_inv (fst (handleServerOffer sid ok s))"
  using flush_candidates_inv by (simp add: handleServerOffer_def split_beta)

lemma answer_inv: "call_inv s \<Longrightarrow> call_inv (fst (handleServerAnswer sid ok s))"
  using flush_candidates_inv by (simp add: handleServerAnswer_def)

lemma candidate_inv: "call_inv s \<Longrightarrow> call_inv (fst (handleServerCandidate c s))"
proof (rule call_inv_parts)
  let ?t = "fst (handleServerCandidate c s)"
  assume inv: "call_inv s"
  have "tile_view ?t = tile_view s \<and> keys_view ?t = keys_view s"
    by (simp add: handleServerCandidate_def tile_view_def keys_view_def split: option.split)
  then show "tile_inv ?t" "keys_inv ?t" using tile_view_cong keys_view_cong call_invD [OF inv] by blast+
  show "ice_inv ?t" using call_invD(3) [OF inv] by (auto simp: handleServerCandidate_def ice_inv_def split: option.splits)
qed

text \<open>Camera and quality.\<close>

lemma release_views:
  "tile_view (fst (releaseCameraTrack s)) = tile_view s \<and> keys_view (fst (releaseCameraTrack s)) = keys_view s
   \<and> ice_view (fst (releaseCameraTrack s)) = ice_view s"
  by (auto simp: releaseCameraTrack_def Let_def set_sender_def tile_view_def keys_view_def ice_view_def split: option.split)

lemma start_camera_views:
  "tile_view (fst (startCamera_done t s)) = tile_view s \<and> keys_view (fst (startCamera_done t s)) = keys_view s
   \<and> ice_view (fst (startCamera_done t s)) = ice_view s"
  by (auto simp: startCamera_done_def Let_def set_sender_def tile_view_def keys_view_def ice_view_def split: option.split)

lemma camera_inv:
  assumes inv: "call_inv s"
  shows "call_inv (snd (fst (setCameraEnabled enabled device s)))"
proof -
  let ?off = "s\<lparr>cc_cameraEnabled := False\<rparr>"
  have "call_inv ?off" using inv by (rule view_inv) (simp_all add: tile_view_def keys_view_def ice_view_def)
  then have "call_inv (fst (releaseCameraTrack ?off))" using release_views by (blast intro: view_inv)
  moreover have "call_inv (fst (startCamera_done t s))" for t using inv start_camera_views by (blast intro: view_inv)
  ultimately show ?thesis using inv
    by (auto simp: setCameraEnabled_def split_beta Let_def split: option.split sum.split)
qed

lemma sample_inv: "call_inv s \<Longrightarrow> call_inv (fst (sampleQuality forced report s))"
  by (erule view_inv) (simp_all add: sampleQuality_def split_beta Let_def tile_view_def keys_view_def ice_view_def)

section \<open>The machine keeps the invariant\<close>

lemma call_step_inv: "call_inv s \<Longrightarrow> call_enabled s e \<Longrightarrow> call_inv (fst (call_step s e))"
proof (cases e)
  case (CallTrack sid t)
  assume "call_inv s" "call_enabled s e"
  with handleTrack_inv [of s sid t] CallTrack show ?thesis by simp
qed (auto simp: split_beta track_ended_inv published_inv unpublished_inv subscribe_timer_inv subscribe_failed_inv
    speakers_inv joined_inv left_inv sync_inv join_inv rejoin_inv leave_inv offer_inv answer_inv candidate_inv
    camera_inv sample_inv)

interpretation calls: machine_invariant call_enabled call_step call_inv
  by unfold_locales (rule call_step_inv)

lemma new_client_inv: "call_inv (new_client self)"
  by (simp add: call_inv_def tile_inv_def tiles_right_def streams_apart_def slots_ok_def closures_ok_def names_ok_def
      keys_inv_def ice_inv_def new_client_def slots_of_def stream_tracks_def map_get_or_def slot_of_def)

end
