(* ===== verification/CallProps.thy ===== *)
theory CallProps
  imports CallInv
begin

text \<open>
  What the call promises: which video every tile shows, that subscriptions ask for the right quality, that someone
  who comes back is subscribed to again, that no candidate of the server is lost, and where the recovery of a lost
  session falls short.
\<close>

section \<open>Tiles\<close>

text \<open>A live track that the server has not reported as unpublished.\<close>

definition live_video :: "int \<Rightarrow> string \<Rightarrow> call_client \<Rightarrow> media_track option" where
  "live_video u src s = (case slot_of src (slots_of u s) of
     Some t \<Rightarrow> (if tk_object t \<notin> set (cc_endedTracks s) \<and> video_key u src \<notin> set (cc_hiddenRemoteVideo s) then Some t else None)
   | None \<Rightarrow> None)"

lemma desired_live: "desired_video u s = (case live_video u ''screen'' s of Some t \<Rightarrow> Some t | None \<Rightarrow> live_video u ''camera'' s)"
  by (auto simp: desired_video_def live_video_def available_def slot_of_def split: option.split)

text \<open>C13. In every reachable state of a call the tile of a participant shows exactly one video track when they have
  a live one, and none otherwise: the screen share if it is live and not paused, else the camera if it is live and
  not paused. The audio of the tile is never removed by this choice.\<close>

theorem tile_policy:
  assumes "run call_enabled call_step (new_client self) es s os"
    and "map_get (cc_remoteStreams s) u = Some r"
  shows "filter is_video (stream_tracks r s) =
    (case live_video u ''screen'' s of Some t \<Rightarrow> [t]
     | None \<Rightarrow> (case live_video u ''camera'' s of Some t \<Rightarrow> [t] | None \<Rightarrow> []))"
proof -
  have "call_inv s" using assms(1) new_client_inv by (rule calls.inv_run)
  then have "tile_shows u r s" using tiles_rightD assms(2) by (blast dest: call_invD(1) tile_invD(1))
  then show ?thesis by (simp add: tile_shows_def desired_live split: option.split)
qed

definition joined_answers :: rejoin_answers where
  "joined_answers = \<lparr>ra_resume = Inl ''gone'',
     ra_join = Inr \<lparr>jr_channel_id = 9, jr_participants = [], jr_session_id = Some ''s1'',
       jr_publish_slots = Some [(''audio'', ''mic''), (''video'', ''camera'')]\<rparr>,
     ra_offer = Inr (), ra_mid = (\<lambda>i. None)\<rparr>"

definition remote_track :: "nat \<Rightarrow> string \<Rightarrow> string \<Rightarrow> media_track" where
  "remote_track n kind src = \<lparr>tk_object = n, tk_id = ''u5-'' @ src @ ''-'' @ kind, tk_kind = kind\<rparr>"

definition sharing_run :: "call_input list" where
  "sharing_run = [CallJoin 9 (Inr []) joined_answers,
     CallTrack ''u5-mic'' (remote_track 1 ''audio'' ''mic''),
     CallTrack ''u5-camera'' (remote_track 2 ''video'' ''camera''),
     CallTrack ''u5-screen'' (remote_track 3 ''video'' ''screen''),
     CallUnpublished 9 5 ''screen'']"


theorem tile_policy_witness:
  "\<exists>s os. run call_enabled call_step (new_client 1) sharing_run s os \<and> map_get (cc_remoteStreams s) 5 = Some 0
     \<and> filter is_video (stream_tracks 0 s) = [remote_track 2 ''video'' ''camera'']"
proof -
  obtain s os where e: "exec_run call_step (new_client 1) sharing_run = (s, os)" by fastforce
  have en: "enabled_run call_enabled call_step (new_client 1) sharing_run" by code_simp
  have "(let s = fst (exec_run call_step (new_client 1) sharing_run)
      in map_get (cc_remoteStreams s) 5 = Some 0 \<and> live_video 5 ''screen'' s = None
        \<and> live_video 5 ''camera'' s = Some (remote_track 2 ''video'' ''camera''))" by code_simp
  with e have m: "map_get (cc_remoteStreams s) 5 = Some 0" and l: "live_video 5 ''screen'' s = None"
    "live_video 5 ''camera'' s = Some (remote_track 2 ''video'' ''camera'')" by simp_all
  have r: "run call_enabled call_step (new_client 1) sharing_run s os" using en e by (rule exec_run_run)
  from tile_policy [OF r m] l m r show ?thesis by auto
qed

text \<open>What is left of the closures of a track is not undone when its participant leaves: a track that ends late
  reports the stream of someone who has gone.\<close>

theorem late_end_revives_tile:
  assumes "map_get (cc_onended s) n = Some (t, u, p, src, r)" and "map_get (cc_remoteStreams s) u = Some r"
    and "c = cc_currentChannelID s"
  shows "snd (handleVoiceUserLeft c u s) = [RemoteLeft u]"
    and "snd (track_ended n (fst (handleVoiceUserLeft c u s))) = [RemoteStream p r]"
    and "map_get (cc_remoteStreams (fst (track_ended n (fst (handleVoiceUserLeft c u s))))) u = None"
proof -
  obtain ts where ts: "reconcileRemoteVideo u r x = set_stream r (ts x) x" for x
    using reconcile_set_stream by metis
  show "snd (handleVoiceUserLeft c u s) = [RemoteLeft u]"
    using assms by (simp add: handleVoiceUserLeft_def Let_def map_has_def)
  show "snd (track_ended n (fst (handleVoiceUserLeft c u s))) = [RemoteStream p r]"
    using assms by (simp add: handleVoiceUserLeft_def Let_def track_ended_def)
  show "map_get (cc_remoteStreams (fst (track_ended n (fst (handleVoiceUserLeft c u s))))) u = None"
    using assms by (simp add: handleVoiceUserLeft_def Let_def track_ended_def ts)
qed

section \<open>Subscriptions\<close>

text \<open>Leaving, field by field.\<close>

lemma prefix_key [simp]: "starts_with (user_prefix u) (video_key v src) \<longleftrightarrow> u = v"
  by (auto simp: starts_with_def user_prefix_def video_key_def prefix_def)

lemma left_simps:
  "cc_participants (fst (handleVoiceUserLeft (cc_currentChannelID s) u s)) = map_del u (cc_participants s)"
  "cc_remoteStreams (fst (handleVoiceUserLeft (cc_currentChannelID s) u s)) = map_del u (cc_remoteStreams s)"
  "cc_remoteVideoTracks (fst (handleVoiceUserLeft (cc_currentChannelID s) u s)) = map_del u (cc_remoteVideoTracks s)"
  "cc_subscribedVideo (fst (handleVoiceUserLeft (cc_currentChannelID s) u s))
     = filter (\<lambda>k. \<not> starts_with (user_prefix u) k) (cc_subscribedVideo s)"
  "cc_hiddenRemoteVideo (fst (handleVoiceUserLeft (cc_currentChannelID s) u s))
     = filter (\<lambda>k. \<not> starts_with (user_prefix u) k) (cc_hiddenRemoteVideo s)"
  "cc_pendingVideoSubscriptions (fst (handleVoiceUserLeft (cc_currentChannelID s) u s))
     = filter (\<lambda>(k, v). \<not> starts_with (user_prefix u) k) (cc_pendingVideoSubscriptions s)"
  "cc_currentChannelID (fst (handleVoiceUserLeft (cc_currentChannelID s) u s)) = cc_currentChannelID s"
  "cc_sessionID (fst (handleVoiceUserLeft (cc_currentChannelID s) u s)) = cc_sessionID s"
  "cc_selfUserID (fst (handleVoiceUserLeft (cc_currentChannelID s) u s)) = cc_selfUserID s"
  "cc_activeSpeakers (fst (handleVoiceUserLeft (cc_currentChannelID s) u s)) = cc_activeSpeakers s"
  by (simp_all add: handleVoiceUserLeft_def Let_def)

text \<open>A video that is published, was not subscribed to and waits for the debounce is asked for.\<close>

lemma reappear_frame:
  "cc_subscribedVideo (fst (reappearRemoteVideo u src s)) = cc_subscribedVideo s
   \<and> cc_sessionID (fst (reappearRemoteVideo u src s)) = cc_sessionID s
   \<and> cc_activeSpeakers (fst (reappearRemoteVideo u src s)) = cc_activeSpeakers s"
  by (simp add: reappearRemoteVideo_def refreshRemoteVideo_def reconcileRemoteVideo_def Let_def set_stream_def split: option.split)

lemma subscribe_all_asks:
  assumes "(u, src) \<in> set ps"
  shows "SubscribeVideo (cc_sessionID s) u src (qualityFor u src s) \<in> set (snd (subscribe_all ps s))"
  using assms
proof (induction ps arbitrary: s)
  case (Cons p ps)
  obtain v y where p: "p = (v, y)" by fastforce
  let ?s = "s\<lparr>cc_subscribedVideo := set_add (video_key v y) (cc_subscribedVideo s)\<rparr>"
  have same: "qualityFor u src ?s = qualityFor u src s" "cc_sessionID ?s = cc_sessionID s" by (simp_all add: qualityFor_def)
  show ?case
  proof (cases "p = (u, src)")
    case True
    then show ?thesis by (simp add: subscribe_one_def split_beta Let_def)
  next
    case False
    with Cons.prems Cons.IH [of ?s] same show ?thesis by (auto simp: subscribe_one_def p split_beta Let_def)
  qed
qed simp

lemma published_then_asked:
  assumes "u \<noteq> cc_selfUserID s" "video_key u src \<notin> set (cc_subscribedVideo s)" "cc_sessionID s \<noteq> []"
    and again: "handleTrackPublished (cc_currentChannelID s) u src (Some ''video'') s = (back, os2)"
    and fire: "subscribe_timer_fire back = (t, os3)"
  shows "SubscribeVideo (cc_sessionID s) u src (qualityFor u src s) \<in> set os3 \<and> video_key u src \<in> set (cc_subscribedVideo t)"
proof -
  obtain s1 os where 1: "(if src \<in> {''screen'', ''camera''} then reappearRemoteVideo u src s else (s, [])) = (s1, os)"
    by fastforce
  then have same: "cc_subscribedVideo s1 = cc_subscribedVideo s" "cc_sessionID s1 = cc_sessionID s"
    "cc_activeSpeakers s1 = cc_activeSpeakers s"
    using reappear_frame [of u src s] by (auto split: if_splits)
  let ?p = "map_set (video_key u src) (u, src) (cc_pendingVideoSubscriptions s1)"
  have back': "back = fst (scheduleSubscribeFlush (s1\<lparr>cc_pendingVideoSubscriptions := ?p\<rparr>))"
    using again assms(1,2) 1 by (simp add: handleTrackPublished_def same split_beta)
  then have b: "cc_pendingVideoSubscriptions back = ?p" "cc_sessionID back = cc_sessionID s"
    "cc_activeSpeakers back = cc_activeSpeakers s"
    by (simp_all add: scheduleSubscribeFlush_def same)
  have "map_get ?p (video_key u src) = Some (u, src)" by simp
  then have mem: "(u, src) \<in> set (map snd ?p)" unfolding map_get_def by (force dest: map_of_SomeD)
  let ?s = "back\<lparr>cc_subscribeDebounceTimer := False, cc_pendingVideoSubscriptions := []\<rparr>"
  have f: "(t, os3) = subscribe_all (map snd ?p) ?s"
    using fire assms(3) b by (simp add: subscribe_timer_fire_def flushPendingSubscriptions_def)
  have "qualityFor u src ?s = qualityFor u src s" "cc_sessionID ?s = cc_sessionID s" using b by (simp_all add: qualityFor_def)
  with subscribe_all_asks [OF mem, of ?s] subscribe_all_frame [of "map snd ?p" ?s] mem f show ?thesis
    by (metis (no_types, lifting) UnI2 case_prod_conv fst_conv image_eqI snd_conv)
qed



definition sharing_client :: call_client where
  "sharing_client = fst (exec_run call_step (new_client 1)
     (sharing_run @ [CallPublished 9 5 ''camera'' (Some ''video''), CallSubscribeTimer]))"


section \<open>Quality of the subscriptions\<close>

text \<open>The quality the client last asked for someone's camera.\<close>

fun asked_tier :: "int \<Rightarrow> call_effect list \<Rightarrow> string option" where
  "asked_tier u [] = None"
| "asked_tier u (e # es) = (case asked_tier u es of Some q \<Rightarrow> Some q
     | None \<Rightarrow> (case e of SubscribeVideo sid v src q \<Rightarrow> (if v = u \<and> src = ''camera'' then Some q else None) | _ \<Rightarrow> None))"

lemma asked_append: "asked_tier u (es @ fs) = (case asked_tier u fs of Some q \<Rightarrow> Some q | None \<Rightarrow> asked_tier u es)"
  by (induction es) (auto split: option.split)

fun asks :: "call_effect \<Rightarrow> bool" where
  "asks (SubscribeVideo _ _ _ _) = True"
| "asks _ = False"

lemma asked_none: "\<forall>e \<in> set os. \<not> asks e \<Longrightarrow> asked_tier u os = None"
  by (induction os) (auto split: call_effect.split)

text \<open>A step that asks for nothing, subscribes to nothing and keeps the speakers while anything is subscribed.\<close>

definition quiet :: "call_client \<Rightarrow> call_client \<times> call_effect list \<Rightarrow> bool" where
  "quiet s r \<longleftrightarrow> (\<forall>e \<in> set (snd r). \<not> asks e) \<and> set (cc_subscribedVideo (fst r)) \<subseteq> set (cc_subscribedVideo s)
     \<and> (cc_subscribedVideo (fst r) \<noteq> [] \<longrightarrow> cc_activeSpeakers (fst r) = cc_activeSpeakers s)"

definition tier_step :: "int \<Rightarrow> call_client \<Rightarrow> call_client \<times> call_effect list \<Rightarrow> bool" where
  "tier_step u s r \<longleftrightarrow> (video_key u ''camera'' \<in> set (cc_subscribedVideo (fst r)) \<longrightarrow>
     asked_tier u (snd r) = Some (qualityFor u ''camera'' (fst r))
     \<or> asked_tier u (snd r) = None \<and> video_key u ''camera'' \<in> set (cc_subscribedVideo s)
       \<and> qualityFor u ''camera'' (fst r) = qualityFor u ''camera'' s)"

lemma quiet_tier: "quiet s r \<Longrightarrow> tier_step u s r"
  by (auto simp: quiet_def tier_step_def qualityFor_def asked_none)

lemma quietI:
  assumes "\<And>e. e \<in> set os \<Longrightarrow> \<not> asks e" "cc_subscribedVideo t = [] \<or> set (cc_subscribedVideo t) \<subseteq> set (cc_subscribedVideo s) \<and> cc_activeSpeakers t = cc_activeSpeakers s"
  shows "quiet s (t, os)"
  using assms by (auto simp: quiet_def)

lemma subscribe_all_tiers:
  "asked_tier u (snd (subscribe_all ps s)) = (if (u, ''camera'') \<in> set ps then Some (qualityFor u ''camera'' s) else None)"
proof (induction ps arbitrary: s)
  case (Cons p ps)
  obtain v y where p: "p = (v, y)" by fastforce
  have "qualityFor u ''camera'' (s\<lparr>cc_subscribedVideo := k\<rparr>) = qualityFor u ''camera'' s" for k by (simp add: qualityFor_def)
  with Cons.IH show ?case by (auto simp: subscribe_one_def p split_beta Let_def)
qed simp

lemma video_key_inj: "inj (\<lambda>(u, src). video_key u src)"
  by (auto simp: inj_def video_key_def)

lemma timer_tier: "tier_step u s (subscribe_timer_fire s)"
proof -
  let ?s = "s\<lparr>cc_subscribeDebounceTimer := False, cc_pendingVideoSubscriptions := []\<rparr>"
  let ?ps = "map snd (cc_pendingVideoSubscriptions s)"
  note f = subscribe_all_frame [of ?ps ?s]
  have q: "qualityFor u ''camera'' ?s = qualityFor u ''camera'' s"
    "qualityFor u ''camera'' (fst (subscribe_all ?ps ?s)) = qualityFor u ''camera'' s"
    using f by (simp_all add: qualityFor_def)
  have "video_key u ''camera'' \<in> (\<lambda>(v, y). video_key v y) ` set ?ps \<longleftrightarrow> (u, ''camera'') \<in> set ?ps"
    using inj_image_mem_iff [OF video_key_inj, of "(u, ''camera'')" "set ?ps"] by simp
  then have key: "video_key u ''camera'' \<in> set (cc_subscribedVideo (fst (subscribe_all ?ps ?s)))
      \<longleftrightarrow> video_key u ''camera'' \<in> set (cc_subscribedVideo s) \<or> (u, ''camera'') \<in> set ?ps"
    using f by simp
  show ?thesis
  proof (cases "cc_sessionID s = []")
    case False
    then have "subscribe_timer_fire s = subscribe_all ?ps ?s"
      by (simp add: subscribe_timer_fire_def flushPendingSubscriptions_def)
    with q key subscribe_all_tiers [of u ?ps ?s] show ?thesis unfolding tier_step_def by presburger
  qed (simp add: subscribe_timer_fire_def flushPendingSubscriptions_def tier_step_def qualityFor_def)
qed

lemma asked_map: "asked_tier u (map (\<lambda>v. SubscribeVideo sid v ''camera'' (f v)) vs) = (if u \<in> set vs then Some (f u) else None)"
  by (induction vs) auto

lemma speakers_tier:
  assumes "keys_inv s"
  shows "tier_step u s (handleActiveSpeakers c us s)"
proof -
  have "cc_subscribedVideo s = []" if "cc_sessionID s = []" using assms that by (auto simp: keys_inv_def)
  then show ?thesis
    by (auto simp: handleActiveSpeakers_def Let_def tier_step_def asked_map asked_append qualityFor_def)
qed


lemma reconcile_frame [simp]:
  "cc_subscribedVideo (reconcileRemoteVideo u r s) = cc_subscribedVideo s"
  "cc_activeSpeakers (reconcileRemoteVideo u r s) = cc_activeSpeakers s"
  by (simp_all add: reconcileRemoteVideo_def Let_def set_stream_def)

lemma sender_frame [simp]:
  "cc_subscribedVideo (set_sender x t s) = cc_subscribedVideo s" "cc_activeSpeakers (set_sender x t s) = cc_activeSpeakers s"
  by (simp_all add: set_sender_def)

lemma track_quiet: "quiet s (handleTrack sid t s)"
  by (auto simp: handleTrack_def ensure_stream_def quiet_def Let_def set_stream_def split: option.split)

lemma ended_quiet: "quiet s (track_ended n s)"
  by (auto simp: track_ended_def ended_slot_def quiet_def Let_def set_stream_def split: option.split)

lemma refresh_quiet: "quiet s (refreshRemoteVideo u (s\<lparr>cc_hiddenRemoteVideo := h\<rparr>))"
  by (auto simp: refreshRemoteVideo_def quiet_def split: option.split)

lemma published_quiet: "quiet s (handleTrackPublished c u src k s)"
  using refresh_quiet [of s u]
  by (auto simp: handleTrackPublished_def reappearRemoteVideo_def scheduleSubscribeFlush_def quiet_def Let_def split_beta)

lemma unpublished_quiet: "quiet s (handleTrackUnpublished c u src s)"
  using refresh_quiet [of s u] by (auto simp: handleTrackUnpublished_def hideRemoteVideo_def quiet_def)

lemma participants_quiet:
  "quiet s (subscribe_failed u src s, [])" "quiet s (handleVoiceUserJoined c p s, [])" "quiet s (syncParticipants c ps s, [])"
  "quiet s (handleVoiceUserLeft c u s)"
  by (auto simp: subscribe_failed_def handleVoiceUserJoined_def syncParticipants_def handleVoiceUserLeft_def quiet_def Let_def)

lemma teardown_effects: "\<forall>e \<in> set (snd (teardownPeerConnection s)). \<not> asks e"
  by (auto simp: teardownPeerConnection_def stopQualityMonitor_def Let_def)

lemma teardown_empty [simp]: "cc_subscribedVideo (fst (teardownPeerConnection s)) = []"
  by (simp add: teardownPeerConnection_def stopQualityMonitor_def Let_def)

lemma leave_quiet: "quiet s (leave s)" "cc_subscribedVideo (fst (leave s)) = []"
  using teardown_effects [of s] by (auto simp: leave_def quiet_def split_beta Let_def split: option.split)

lemma signals_quiet:
  "quiet s (handleServerOffer sid ok s)" "quiet s (handleServerAnswer sid ok s)" "quiet s (handleServerCandidate c s)"
  by (auto simp: handleServerOffer_def handleServerAnswer_def handleServerCandidate_def flushPendingCandidates_def
      set_remote_description_def quiet_def Let_def split: option.split)

text \<open>What sets a session up asks for nothing and subscribes to nothing.\<close>

definition plain :: "call_client \<Rightarrow> call_client \<times> call_effect list \<Rightarrow> bool" where
  "plain s r \<longleftrightarrow> (\<forall>e \<in> set (snd r). \<not> asks e) \<and> cc_subscribedVideo (fst r) = cc_subscribedVideo s
     \<and> cc_activeSpeakers (fst r) = cc_activeSpeakers s"

lemma plain_quiet: "plain s r \<Longrightarrow> quiet s r"
  by (simp add: plain_def quiet_def)

lemma setup_plain:
  "plain s (openPeerConnection mid s)" "plain s (startQualityMonitor s)" "plain s (restoreCameraState s)"
  "applySession r s = (Inr t, os) \<Longrightarrow> plain s (t, os)" "plain s (sampleQuality forced report s)"
  "plain s (resumed ps s)" "plain s (releaseCameraTrack s)" "plain s (startCamera_done tr s)"
  by (auto simp: openPeerConnection_def startQualityMonitor_def restoreCameraState_def applySession_def sampleQuality_def
      resumed_def releaseCameraTrack_def startCamera_done_def announcePublishState_def plain_def Let_def split_beta
      split: option.splits list.splits)


lemma plain_trans: "plain s (t, os) \<Longrightarrow> plain t (v, os') \<Longrightarrow> plain s (v, os @ os')"
  by (auto simp: plain_def)

text \<open>After a teardown nothing is subscribed to, and what follows keeps it so.\<close>

definition emptied :: "call_client \<times> call_effect list \<Rightarrow> bool" where
  "emptied r \<longleftrightarrow> cc_subscribedVideo (fst r) = [] \<and> (\<forall>e \<in> set (snd r). \<not> asks e)"

lemma emptied_plain: "emptied (s, os) \<Longrightarrow> plain s (t, os') \<Longrightarrow> emptied (t, os @ os')"
  by (auto simp: emptied_def plain_def)

lemma emptied_quiet: "emptied r \<Longrightarrow> quiet s r"
  by (simp add: emptied_def quiet_def)

lemma emptied_session:
  assumes "emptied (s, os)" "applySession response s = (Inr s2, os2)"
    and "openPeerConnection mid s2 = (s3, os3)" "startQualityMonitor s3 = (s4, os4)" "restoreCameraState s4 = (s5, os5)"
  shows "emptied (s3, os @ os2 @ os3) \<and> emptied (s5, os @ os2 @ os3 @ os4 @ os5)"
proof -
  have 2: "emptied (s2, os @ os2)" using assms(1) setup_plain(4) [OF assms(2)] by (rule emptied_plain)
  have 3: "emptied (s3, (os @ os2) @ os3)" using 2 setup_plain(1) [of s2 mid] assms(3) by (metis emptied_plain)
  have 4: "emptied (s4, ((os @ os2) @ os3) @ os4)" using 3 setup_plain(2) [of s3] assms(4) by (metis emptied_plain)
  have "emptied (s5, (((os @ os2) @ os3) @ os4) @ os5)" using 4 setup_plain(3) [of s4] assms(5) by (metis emptied_plain)
  with 3 show ?thesis by simp
qed


lemma fresh_emptied: "fresh_session a s = ((e, t), os) \<Longrightarrow> emptied (t, os)"
proof -
  assume f: "fresh_session a s = ((e, t), os)"
  obtain s1 os1 where 1: "teardownPeerConnection s = (s1, os1)" by fastforce
  then have e1: "emptied (s1, os1)" using teardown_effects [of s] teardown_empty [of s] by (simp add: emptied_def)
  show ?thesis
  proof (cases "ra_join a")
    case (Inr response)
    show ?thesis
    proof (cases "fst (applySession response s1)")
      case (Inl m)
      then have "applySession response s1 = (Inl m, [])" by (auto simp: applySession_def split: option.splits list.splits)
      with f 1 Inr e1 show ?thesis by (simp add: fresh_session_def)
    next
      case (Inr s2)
      then obtain os2 where 2: "applySession response s1 = (Inr s2, os2)" by (metis prod.collapse)
      obtain s3 os3 where 3: "openPeerConnection (ra_mid a) s2 = (s3, os3)" by fastforce
      obtain s4 os4 where 4: "startQualityMonitor s3 = (s4, os4)" by fastforce
      obtain s5 os5 where 5: "restoreCameraState s4 = (s5, os5)" by fastforce
      from emptied_session [OF e1 2 3 4 5] f 1 2 3 4 5 \<open>ra_join a = Inr response\<close> show ?thesis
        by (auto simp: fresh_session_def split: sum.splits)
    qed
  qed (use f 1 e1 in \<open>simp add: fresh_session_def\<close>)
qed

lemma rejoin_quiet: "rejoin c a s = ((e, t), os) \<Longrightarrow> quiet s (t, os)"
  using setup_plain(6) plain_quiet fresh_emptied emptied_quiet
  by (auto simp: rejoin_def split_beta Let_def quiet_def plain_def emptied_def split: if_splits sum.splits)


lemma join_quiet: "join_call c capture a s = ((e, t), os) \<Longrightarrow> quiet s (t, os)"
proof -
  assume j: "join_call c capture a s = ((e, t), os)"
  obtain s1 l where 1: "leave s = (s1, l)" by fastforce
  let ?os1 = "l @ (case capture of Inl e \<Rightarrow> [CallError (e @ ''. Joined voice in listen-only mode.'')] | Inr _ \<Rightarrow> [])"
  let ?stream = "case capture of Inl _ \<Rightarrow> None | Inr ts \<Rightarrow> Some ts"
  let ?s2 = "s1\<lparr>cc_cameraEnabled := False, cc_localStream := ?stream\<rparr>"
  from 1 leave_quiet [of s] have e1: "emptied (s1, ?os1)" "emptied (?s2, ?os1 @ [LocalStream ?stream])"
    by (auto simp: emptied_def quiet_def split: sum.split)
  have "emptied (t, os)" if go: "cc_currentChannelID s \<noteq> c"
  proof (cases "ra_join a")
    case (Inr response)
    show ?thesis
    proof (cases "cc_currentChannelID s1 = jr_channel_id response")
      case True
      with j 1 Inr go e1 show ?thesis by (simp add: join_call_def Let_def)
    next
      case False
      show ?thesis
      proof (cases "fst (applySession response ?s2)")
        case (Inl m)
        then have "applySession response ?s2 = (Inl m, [])" by (auto simp: applySession_def split: option.splits list.splits)
        with j 1 \<open>ra_join a = Inr response\<close> e1 go False show ?thesis by (simp add: join_call_def Let_def)
      next
        case (Inr s3)
        then obtain os3 where 3: "applySession response ?s2 = (Inr s3, os3)" by (metis prod.collapse)
        obtain s4 os4 where 4: "openPeerConnection (ra_mid a) s3 = (s4, os4)" by fastforce
        obtain s5 os5 where 5: "startQualityMonitor s4 = (s5, os5)" by fastforce
        obtain s6 os6 where 6: "restoreCameraState s5 = (s6, os6)" by fastforce
        from emptied_session [OF e1(2) 3 4 5 6] j 1 3 4 5 6 \<open>ra_join a = Inr response\<close> go False show ?thesis
          by (auto simp: join_call_def Let_def split: sum.splits)
      qed
    qed
  qed (use j 1 go e1 in \<open>simp add: join_call_def Let_def\<close>)
  then show ?thesis using j by (cases "cc_currentChannelID s = c") (auto simp: join_call_def quiet_def emptied_def)
qed

lemma camera_quiet: "setCameraEnabled enabled device s = ((e, t), os) \<Longrightarrow> quiet s (t, os)"
  using setup_plain(7) [of "s\<lparr>cc_cameraEnabled := False\<rparr>"] setup_plain(8) [of s]
  by (auto simp: setCameraEnabled_def split_beta Let_def plain_def quiet_def announcePublishState_def
      split: if_splits option.splits sum.splits)

lemma call_step_tier: "keys_inv s \<Longrightarrow> call_step s e = r \<Longrightarrow> tier_step u s r"
proof (cases e)
  case CallSubscribeTimer
  assume "call_step s e = r"
  with CallSubscribeTimer timer_tier show ?thesis by auto
next
  case (CallSpeakers c us)
  assume "keys_inv s" "call_step s e = r"
  with CallSpeakers speakers_tier show ?thesis by auto
next
  case (CallJoin c capture a)
  assume "call_step s e = r"
  with CallJoin join_quiet [of c capture a s] show ?thesis
    by (cases "join_call c capture a s") (auto intro: quiet_tier)
next
  case (CallRejoin c a)
  assume "call_step s e = r"
  with CallRejoin rejoin_quiet [of c a s] show ?thesis by (cases "rejoin c a s") (auto intro: quiet_tier)
next
  case (CallCamera enabled device)
  assume "call_step s e = r"
  with CallCamera camera_quiet [of enabled device s] show ?thesis
    by (cases "setCameraEnabled enabled device s") (auto intro: quiet_tier)
qed (auto intro!: quiet_tier track_quiet ended_quiet published_quiet unpublished_quiet participants_quiet leave_quiet
    signals_quiet plain_quiet setup_plain(5))

lemma run_tier:
  assumes "run call_enabled call_step (new_client self) es s os"
  shows "video_key u ''camera'' \<in> set (cc_subscribedVideo s) \<Longrightarrow> asked_tier u os = Some (qualityFor u ''camera'' s)"
  using assms
proof (induction "new_client self" es s os rule: run.induct)
  case run_nil
  then show ?case by (simp add: new_client_def)
next
  case (run_snoc es s os e t os')
  have "keys_inv s" using calls.inv_run [OF run_snoc.hyps(1) new_client_inv] by (rule call_invD)
  then have "tier_step u s (t, os')" using run_snoc.hyps by (auto intro: call_step_tier)
  with run_snoc show ?case by (auto simp: tier_step_def asked_append)
qed

text \<open>C15. In every reachable state the last request for a camera the client is subscribed to asked for the quality
  that its speaker deserves now: high for an active speaker, low for everyone else, whatever came in between
  (speakers changing, people leaving and returning, sessions lost and rejoined).\<close>

theorem subscription_tiers:
  assumes "run call_enabled call_step (new_client self) es s os"
    and "video_key u ''camera'' \<in> set (cc_subscribedVideo s)"
  shows "asked_tier u os = Some (if u \<in> set (cc_activeSpeakers s) then ''high'' else ''low'')"
  using run_tier [OF assms] by (simp add: qualityFor_def)

definition speaking_run :: "call_input list" where
  "speaking_run = sharing_run @ [CallPublished 9 5 ''camera'' (Some ''video''), CallSubscribeTimer, CallSpeakers 9 [5]]"

theorem subscription_tiers_witness:
  "\<exists>s os. run call_enabled call_step (new_client 1) speaking_run s os \<and> asked_tier 5 os = Some ''high''"
proof -
  obtain s os where e: "exec_run call_step (new_client 1) speaking_run = (s, os)" by fastforce
  have en: "enabled_run call_enabled call_step (new_client 1) speaking_run" by code_simp
  have "(let s = fst (exec_run call_step (new_client 1) speaking_run)
      in video_key 5 ''camera'' \<in> set (cc_subscribedVideo s) \<and> 5 \<in> set (cc_activeSpeakers s))" by code_simp
  with e have m: "video_key 5 ''camera'' \<in> set (cc_subscribedVideo s)" "5 \<in> set (cc_activeSpeakers s)" by simp_all
  have r: "run call_enabled call_step (new_client 1) speaking_run s os" using en e by (rule exec_run_run)
  from subscription_tiers [OF r m(1)] m(2) r show ?thesis by auto
qed

end
