(* ===== verification/CallRecovery.thy ===== *)
theory CallRecovery
  imports CallInv
begin

text \<open>
  The signals and the recovery of a call: every candidate of the server reaches the peer connection once and in
  order, the ids of the streams are read back as the server writes them, and the recovery of a lost session ends
  with its first failed attempt.
\<close>

section \<open>Candidates\<close>

fun ice_of :: "call_effect list \<Rightarrow> SfuCandidatePayload list" where
  "ice_of [] = []"
| "ice_of (AddIceCandidate c # os) = c # ice_of os"
| "ice_of (_ # os) = ice_of os"

lemma ice_of_append [simp]: "ice_of (os @ os') = ice_of os @ ice_of os'"
  by (induction os rule: ice_of.induct) auto

lemma ice_of_map [simp]: "ice_of (map AddIceCandidate cs) = cs" "ice_of (map RemoteLeft us) = []"
  "ice_of (map (\<lambda>u. SubscribeVideo (a u) (b u) (c u) (d u)) vs) = []" "ice_of (map StopTrack ts) = []"
  by (induction cs, simp_all) (induction us, simp_all, induction vs, simp_all, induction ts, simp_all)

fun stays :: "call_input \<Rightarrow> bool" where
  "stays (CallJoin _ _ _) = False"
| "stays (CallRejoin _ _) = False"
| "stays CallLeave = False"
| "stays _ = True"

fun offered :: "string \<Rightarrow> call_input list \<Rightarrow> SfuCandidatePayload list" where
  "offered sid [] = []"
| "offered sid (CallCandidate c # es) = (if sc_session_id c = sid then c # offered sid es else offered sid es)"
| "offered sid (_ # es) = offered sid es"

lemma offered_append [simp]: "offered sid (es @ es') = offered sid es @ offered sid es'"
  by (induction sid es rule: offered.induct) auto

text \<open>A step that has nothing to do with candidates.\<close>

definition no_ice :: "call_client \<Rightarrow> call_client \<times> call_effect list \<Rightarrow> bool" where
  "no_ice s r \<longleftrightarrow> cc_sessionID (fst r) = cc_sessionID s \<and> cc_pendingCandidates (fst r) = cc_pendingCandidates s
     \<and> ice_of (snd r) = []"

lemma views_no_ice:
  "keys_view t = keys_view s \<Longrightarrow> ice_view t = ice_view s \<Longrightarrow> ice_of os = [] \<Longrightarrow> no_ice s (t, os)"
  by (simp add: no_ice_def keys_view_def ice_view_def)

lemma frame_no_ice:
  "no_ice s (handleTrack sid t s)" "no_ice s (track_ended n s)" 
  "no_ice s (subscribe_failed u src s, [])" "no_ice s (handleActiveSpeakers c us s)"
  "no_ice s (handleVoiceUserJoined c p s, [])" "no_ice s (handleVoiceUserLeft c u s)" "no_ice s (syncParticipants c ps s, [])"
  "no_ice s (sampleQuality forced report s)"
proof -
  show "no_ice s (handleTrack sid t s)"
    using handleTrack_views [of sid t s]
    by (cases "handleTrack sid t s") (auto intro!: views_no_ice simp: handleTrack_def Let_def split_beta split: option.splits if_splits)
  show "no_ice s (track_ended n s)"
    using track_ended_views [of n s]
    by (cases "track_ended n s") (auto intro!: views_no_ice simp: track_ended_def Let_def split: option.splits if_splits)
qed (auto simp: no_ice_def subscribe_failed_def handleActiveSpeakers_def handleVoiceUserJoined_def handleVoiceUserLeft_def
    syncParticipants_def sampleQuality_def Let_def split_beta)

lemma refresh_no_ice: "no_ice s (refreshRemoteVideo u (s\<lparr>cc_hiddenRemoteVideo := h\<rparr>))"
  by (simp add: refreshRemoteVideo_def reconcileRemoteVideo_def set_stream_def no_ice_def Let_def split: option.split)

lemma published_no_ice: "no_ice s (handleTrackPublished c u src k s)"
  using refresh_no_ice [of s u]
  by (auto simp: handleTrackPublished_def reappearRemoteVideo_def scheduleSubscribeFlush_def no_ice_def Let_def split_beta)

lemma unpublished_no_ice: "no_ice s (handleTrackUnpublished c u src s)"
  using refresh_no_ice [of s u] by (auto simp: handleTrackUnpublished_def hideRemoteVideo_def no_ice_def)

lemma subscribe_no_ice: "no_ice s (subscribe_all ps s)"
  by (induction ps arbitrary: s) (simp_all add: no_ice_def subscribe_one_def split_beta Let_def)

lemma timer_no_ice: "no_ice s (subscribe_timer_fire s)"
  using subscribe_no_ice [of "s\<lparr>cc_subscribeDebounceTimer := False, cc_pendingVideoSubscriptions := []\<rparr>"]
  by (simp add: subscribe_timer_fire_def flushPendingSubscriptions_def no_ice_def)

lemma camera_no_ice: "setCameraEnabled enabled device s = ((e, t), os) \<Longrightarrow> no_ice s (t, os)"
  by (auto simp: setCameraEnabled_def split_beta Let_def releaseCameraTrack_def startCamera_done_def set_sender_def
      no_ice_def announcePublishState_def split: if_splits option.splits sum.splits)

fun is_signal :: "call_input \<Rightarrow> bool" where
  "is_signal (CallOffer _ _) = True"
| "is_signal (CallAnswer _ _) = True"
| "is_signal (CallCandidate _) = True"
| "is_signal _ = False"

lemma no_ice_step: "stays e \<Longrightarrow> \<not> is_signal e \<Longrightarrow> no_ice s (call_step s e)"
proof (cases e)
  case (CallCamera enabled device)
  then show ?thesis using camera_no_ice [of enabled device s] by (cases "setCameraEnabled enabled device s") auto
qed (simp_all add: frame_no_ice published_no_ice unpublished_no_ice timer_no_ice)

lemma offered_no_signal: "\<not> is_signal e \<Longrightarrow> offered sid [e] = []"
  by (cases e) simp_all

text \<open>The account of the candidates: what was added and what waits is what was offered.\<close>

lemma signal_account:
  assumes "ice_inv s" and st: "call_step s e = (t, os)" and "stays e"
  shows "cc_sessionID t = cc_sessionID s
    \<and> ice_of os @ cc_pendingCandidates t = cc_pendingCandidates s @ offered (cc_sessionID s) [e]"
proof (cases "is_signal e")
  case False
  with no_ice_step [OF assms(3), of s] offered_no_signal st show ?thesis by (simp add: no_ice_def)
next
  case True
  then show ?thesis
  proof (cases e)
    case (CallOffer sid ok)
    with st show ?thesis
      by (auto simp: handleServerOffer_def flushPendingCandidates_def set_remote_description_def Let_def split: if_splits)
  next
    case (CallAnswer sid ok)
    with st show ?thesis
      by (auto simp: handleServerAnswer_def flushPendingCandidates_def set_remote_description_def split: if_splits)
  next
    case (CallCandidate c)
    with st assms show ?thesis
      by (auto simp: handleServerCandidate_def ice_inv_def split: if_splits option.splits)
  qed simp_all
qed

lemma run_account:
  assumes "run call_enabled call_step s es t os" and "call_inv s" and "\<forall>e \<in> set es. stays e"
  shows "call_inv t \<and> cc_sessionID t = cc_sessionID s
    \<and> ice_of os @ cc_pendingCandidates t = cc_pendingCandidates s @ offered (cc_sessionID s) es"
  using assms
proof (induction rule: run.induct)
  case (run_nil s)
  then show ?case by simp
next
  case (run_snoc s es t os e u os')
  then have IH: "call_inv t" "cc_sessionID t = cc_sessionID s"
    "ice_of os @ cc_pendingCandidates t = cc_pendingCandidates s @ offered (cc_sessionID s) es" by simp_all
  have "call_inv u" using call_step_inv [OF IH(1) run_snoc.hyps(2)] run_snoc.hyps(3) by simp
  moreover have "stays e" using run_snoc.prems by simp
  note acc = signal_account [OF call_invD(3) [OF IH(1)] run_snoc.hyps(3) this]
  then have "ice_of (os @ os') @ cc_pendingCandidates u = ice_of os @ cc_pendingCandidates t @ offered (cc_sessionID s) [e]"
    using IH(2) by simp
  then have "ice_of (os @ os') @ cc_pendingCandidates u = cc_pendingCandidates s @ offered (cc_sessionID s) (es @ [e])"
    using IH(3) by (metis append.assoc offered_append)
  ultimately show ?case using acc IH(2) by simp
qed

text \<open>C16. While a session lasts, every candidate the server sends for it is handed to the peer connection exactly
  once and in the order of arrival, after those that were waiting; those that come before the remote description are
  kept, and none is kept once it is set. Candidates of other sessions are ignored.\<close>

theorem candidates_in_order:
  assumes "run call_enabled call_step (new_client self) es0 s os0" and "run call_enabled call_step s es t os"
    and "\<forall>e \<in> set es. stays e"
  shows "ice_of os @ cc_pendingCandidates t = cc_pendingCandidates s @ offered (cc_sessionID s) es
    \<and> (\<forall>pc. cc_pc t = Some pc \<longrightarrow> pc_remoteDescription pc \<longrightarrow> cc_pendingCandidates t = [])"
proof -
  have "call_inv s" using assms(1) new_client_inv by (rule calls.inv_run)
  from run_account [OF assms(2) this assms(3)] show ?thesis by (auto simp: call_inv_def ice_inv_def)
qed

definition session_answers :: rejoin_answers where
  "session_answers = \<lparr>ra_resume = Inl ''gone'',
     ra_join = Inr \<lparr>jr_channel_id = 9, jr_participants = [], jr_session_id = Some ''s1'',
       jr_publish_slots = Some [(''audio'', ''mic'')]\<rparr>,
     ra_offer = Inr (), ra_mid = (\<lambda>i. None)\<rparr>"

definition candidate :: "string \<Rightarrow> string \<Rightarrow> SfuCandidatePayload" where
  "candidate sid c = \<lparr>sc_session_id = sid, sc_candidate = c, sc_sdp_mid = None, sc_sdp_mline_index = Some 0\<rparr>"

definition signal_run :: "call_input list" where
  "signal_run = [CallCandidate (candidate ''s1'' ''a''), CallCandidate (candidate ''s0'' ''x''),
     CallCandidate (candidate ''s1'' ''b''), CallAnswer ''s1'' True, CallCandidate (candidate ''s1'' ''c'')]"

theorem candidates_in_order_witness:
  "\<exists>s os0 t os. run call_enabled call_step (new_client 1) [CallJoin 9 (Inr []) session_answers] s os0
     \<and> run call_enabled call_step s signal_run t os \<and> cc_pendingCandidates t = []
     \<and> ice_of os = [candidate ''s1'' ''a'', candidate ''s1'' ''b'', candidate ''s1'' ''c'']"
proof -
  define s where "s = fst (exec_run call_step (new_client 1) [CallJoin 9 (Inr []) session_answers])"
  obtain os0 where e0: "exec_run call_step (new_client 1) [CallJoin 9 (Inr []) session_answers] = (s, os0)"
    unfolding s_def by (metis prod.collapse)
  obtain t os where e: "exec_run call_step s signal_run = (t, os)" by fastforce
  have en0: "enabled_run call_enabled call_step (new_client 1) [CallJoin 9 (Inr []) session_answers]" by code_simp
  have en: "enabled_run call_enabled call_step s signal_run" unfolding s_def by code_simp
  have "cc_pendingCandidates s = [] \<and> cc_sessionID s = ''s1'' \<and> cc_pendingCandidates (fst (exec_run call_step s signal_run)) = []"
    unfolding s_def by code_simp
  with e have v: "cc_pendingCandidates s = []" "cc_sessionID s = ''s1''" "cc_pendingCandidates t = []" by simp_all
  have off: "offered ''s1'' signal_run = [candidate ''s1'' ''a'', candidate ''s1'' ''b'', candidate ''s1'' ''c'']" by code_simp
  have r0: "run call_enabled call_step (new_client 1) [CallJoin 9 (Inr []) session_answers] s os0"
    using en0 e0 by (rule exec_run_run)
  have r: "run call_enabled call_step s signal_run t os" using en e by (rule exec_run_run)
  have "\<forall>e \<in> set signal_run. stays e" by code_simp
  from candidates_in_order [OF r0 r this] v off r0 r show ?thesis by auto
qed

section \<open>Recovery\<close>

lemma fresh_generation:
  "cc_recoveryGeneration (snd (fst (fresh_session a s))) = Suc (cc_recoveryGeneration s)
   \<and> StatusChange Lost \<notin> set (snd (fresh_session a s))
   \<and> cc_localStream (snd (fst (fresh_session a s))) = cc_localStream s"
  by (auto simp: fresh_session_def teardownPeerConnection_def stopQualityMonitor_def applySession_def
      openPeerConnection_def startQualityMonitor_def restoreCameraState_def set_sender_def announcePublishState_def
      Let_def split_beta split: sum.split option.split list.split)

lemma rejoin_failed:
  assumes "rejoin c a s = ((Some e, t), os)"
  shows "cc_recoveryGeneration t = Suc (cc_recoveryGeneration s) \<and> cc_localStream t = cc_localStream s"
  using assms fresh_generation [of a s] by (auto simp: rejoin_def split_beta Let_def split: if_splits sum.splits)

lemma rejoin_not_lost: "StatusChange Lost \<notin> set (snd (rejoin c a s))"
  using fresh_generation [of a s]
  by (auto simp: rejoin_def resumed_def restoreCameraState_def announcePublishState_def Let_def split_beta split: sum.split)

text \<open>No handler that runs during a backoff takes the generation back: only \<open>teardownPeerConnection\<close> changes it, by one.\<close>

definition never_back :: "(nat \<Rightarrow> recovery_round) \<Rightarrow> bool" where
  "never_back rounds \<longleftrightarrow> (\<forall>i s. cc_recoveryGeneration s \<le> cc_recoveryGeneration (rr_meanwhile (rounds i) s))"

text \<open>A failed attempt leaves a state the loop no longer recognises as its own.\<close>

lemma loop_superseded:
  assumes "never_back rounds"
    and "generation < cc_recoveryGeneration s"
  shows "recovery_loop c generation delays i rounds s = ((if delays = [] then s else rr_meanwhile (rounds i) s), [])"
proof (cases delays)
  case (Cons d ds)
  have "generation \<noteq> cc_recoveryGeneration (rr_meanwhile (rounds i) s)" using assms unfolding never_back_def by (metis leD)
  with Cons show ?thesis by (simp add: Let_def)
qed (use assms(2) in simp)

lemma loop_first_failure:
  assumes mono: "never_back rounds"
    and f: "rejoin c (rr_answers (rounds i)) (rr_meanwhile (rounds i) s) = ((Some e, t), os)"
    and "rr_open (rounds i)" "generation = cc_recoveryGeneration (rr_meanwhile (rounds i) s)"
  shows "recovery_loop c generation (d # delays) i rounds s
    = ((if delays = [] then t else rr_meanwhile (rounds (Suc i)) t), os)"
proof -
  have "generation < cc_recoveryGeneration t" using rejoin_failed [OF f] assms(4) by simp
  from loop_superseded [OF mono this] f assms(3,4) show ?thesis by (simp add: Let_def)
qed

lemma loop_not_lost:
  assumes mono: "never_back rounds"
  shows "StatusChange Lost \<notin> set (snd (recovery_loop c generation (d # delays) i rounds s))"
proof (cases "generation \<noteq> cc_recoveryGeneration (rr_meanwhile (rounds i) s) \<or> \<not> rr_open (rounds i)")
  case False
  obtain e t os where r: "rejoin c (rr_answers (rounds i)) (rr_meanwhile (rounds i) s) = ((e, t), os)"
    by (metis prod.collapse)
  then have no: "StatusChange Lost \<notin> set os" using rejoin_not_lost [of c "rr_answers (rounds i)"] by (metis snd_conv)
  show ?thesis
  proof (cases e)
    case (Some m)
    with r have f: "rejoin c (rr_answers (rounds i)) (rr_meanwhile (rounds i) s) = ((Some m, t), os)" by simp
    have "rr_open (rounds i)" "generation = cc_recoveryGeneration (rr_meanwhile (rounds i) s)" using False by simp_all
    from loop_first_failure [OF mono f this] no show ?thesis by simp
  qed (use r no False in \<open>simp add: Let_def\<close>)
qed (simp add: Let_def)

text \<open>C17. The recovery of a lost session never reports that the call is lost, whatever the server answers: as soon as
  one attempt to rejoin fails, its teardown has moved the generation on, so the second and third attempt and the final
  \<open>lost\<close> with its \<open>leave\<close> never happen. The status stays at \<open>reconnecting\<close> (or what the failed attempt reported)
  and the microphone stays captured.\<close>

theorem recovery_never_lost:
  assumes "never_back rounds"
    and "\<not> cc_sessionLostHandled s" and "0 < cc_currentChannelID s"
    and "rr_meanwhile (rounds 0) (s\<lparr>cc_sessionLostHandled := True\<rparr>) = s1"
    and "cc_recoveryGeneration s1 = cc_recoveryGeneration s" and "rr_open (rounds 0)"
    and "rejoin (cc_currentChannelID s) (rr_answers (rounds 0)) s1 = ((Some e, t), os)"
  shows "handleSessionLost True rounds s = (rr_meanwhile (rounds 1) t, StatusChange Reconnecting # os)
    \<and> (\<forall>opened rounds' s'. never_back rounds' \<longrightarrow>
         StatusChange Lost \<notin> set (snd (handleSessionLost opened rounds' s')))
    \<and> cc_localStream t = cc_localStream s1"
proof -
  have "recovery_loop (cc_currentChannelID s) (cc_recoveryGeneration s) RECOVERY_DELAYS_MS 0 rounds
      (s\<lparr>cc_sessionLostHandled := True\<rparr>) = (rr_meanwhile (rounds 1) t, os)"
    using loop_first_failure [OF assms(1), of "cc_currentChannelID s" "0::nat" "s\<lparr>cc_sessionLostHandled := True\<rparr>" e t os] assms
    by (simp add: RECOVERY_DELAYS_MS_def del: recovery_loop.simps)
  moreover have "StatusChange Lost \<notin> set (snd (handleSessionLost opened rounds' s'))"
    if "never_back rounds'" for opened rounds' s'
    using loop_not_lost [OF that]
    by (simp add: handleSessionLost_def runSessionRecovery_def RECOVERY_DELAYS_MS_def split_beta del: recovery_loop.simps)
  ultimately show ?thesis
    using rejoin_failed [OF assms(7)] assms(2,3) by (simp add: handleSessionLost_def runSessionRecovery_def)
qed


definition failing_rounds :: "nat \<Rightarrow> recovery_round" where
  "failing_rounds = (\<lambda>i. \<lparr>rr_meanwhile = (\<lambda>s. s), rr_open = True,
     rr_answers = session_answers\<lparr>ra_join := Inl ''Chat response timeout''\<rparr>\<rparr>)"

theorem recovery_never_lost_witness:
  "\<exists>s t os. cc_currentChannelID s = 9 \<and> cc_localStream s = Some [] \<and> never_back failing_rounds
     \<and> handleSessionLost True failing_rounds s = (t, StatusChange Reconnecting # os)
     \<and> cc_currentChannelID t = 0 \<and> cc_localStream t = Some [] \<and> StatusChange Lost \<notin> set os"
proof -
  define s where "s = fst (exec_run call_step (new_client 1) [CallJoin 9 (Inr []) session_answers])"
  have nb: "never_back failing_rounds" by (simp add: never_back_def failing_rounds_def)
  have s: "cc_currentChannelID s = 9 \<and> \<not> cc_sessionLostHandled s \<and> cc_localStream s = Some []" unfolding s_def by code_simp
  let ?s1 = "s\<lparr>cc_sessionLostHandled := True\<rparr>"
  obtain e t os where r: "rejoin 9 (rr_answers (failing_rounds 0)) ?s1 = ((e, t), os)" by (metis prod.collapse)
  have "fst (fst (rejoin 9 (rr_answers (failing_rounds 0)) ?s1)) = Some ''Chat response timeout''
    \<and> cc_currentChannelID (snd (fst (rejoin 9 (rr_answers (failing_rounds 0)) ?s1))) = 0" unfolding s_def by code_simp
  with r have e: "e = Some ''Chat response timeout''" and z: "cc_currentChannelID t = 0" by simp_all
  have m: "rr_meanwhile (failing_rounds i) x = x" "rr_open (failing_rounds i)" for i x by (simp_all add: failing_rounds_def)
  have h: "handleSessionLost True failing_rounds s = (rr_meanwhile (failing_rounds 1) t, StatusChange Reconnecting # os)
    \<and> (\<forall>opened rounds' s'. never_back rounds' \<longrightarrow> StatusChange Lost \<notin> set (snd (handleSessionLost opened rounds' s')))
    \<and> cc_localStream t = cc_localStream ?s1"
    by (rule recovery_never_lost [OF nb]) (use s r e m in simp_all)
  then have "StatusChange Lost \<notin> set (snd (handleSessionLost True failing_rounds s))" using nb by blast
  with h s z m nb show ?thesis by auto
qed

section \<open>Stream ids\<close>

lemma digits_of_nat: "takeWhile is_digit (show_nat n @ CHR ''-'' # x) = show_nat n"
  "dropWhile is_digit (show_nat n @ CHR ''-'' # x) = CHR ''-'' # x"
proof -
  have "\<forall>c \<in> set (show_nat n). is_digit c" using show_nat_digits by (auto simp: is_digit_def)
  then show "takeWhile is_digit (show_nat n @ CHR ''-'' # x) = show_nat n"
    "dropWhile is_digit (show_nat n @ CHR ''-'' # x) = CHR ''-'' # x"
    by (simp_all add: is_digit_def)
qed

text \<open>The id \<^verbatim>\<open>fmt.Sprintf("u%d-%s", userID, source)\<close> that \<^verbatim>\<open>internal/service/sfu/track.go\<close> gives a stream.\<close>

definition server_stream_id :: "nat \<Rightarrow> string \<Rightarrow> string" where
  "server_stream_id userID source = CHR ''u'' # show_nat userID @ CHR ''-'' # source"

theorem stream_id_round_trip:
  assumes "source \<noteq> []" and "\<forall>c \<in> set source. \<not> is_line_end c"
  shows "parse_stream_id (server_stream_id userID source) = Some (int userID, source)"
  using assms by (simp add: parse_stream_id_def server_stream_id_def digits_of_nat Let_def)

end
