(* ===== verification/DMs.thy ===== *)
theory DMs
  imports ChatTypes
begin

text \<open>
  The list of direct conversations (\<^verbatim>\<open>hooks/useDMs.ts\<close>): newest first, one entry per channel. \<open>parse\<close> is
  \<^verbatim>\<open>Date.parse\<close>, on the timestamps the server writes. The list refines a map from channels to conversations.
\<close>

section \<open>State and operations\<close>

record dm_state =
  dms_channels :: "DMChannel list"
  dms_loading :: bool

definition no_dms :: dm_state where
  "no_dms = \<lparr>dms_channels = [], dms_loading = False\<rparr>"

definition dm_time :: "(string \<Rightarrow> int) \<Rightarrow> DMChannel \<Rightarrow> int" where
  "dm_time parse dm = (case dm_last_message_at dm of
     Some t \<Rightarrow> (if t \<noteq> [] then parse t else 0)
   | None \<Rightarrow> 0)"

definition sortDMChannels :: "(string \<Rightarrow> int) \<Rightarrow> DMChannel list \<Rightarrow> DMChannel list" where
  "sortDMChannels parse channels = sort_key (\<lambda>dm. - dm_time parse dm) channels"

definition upsert_dm :: "(string \<Rightarrow> int) \<Rightarrow> DMChannel \<Rightarrow> dm_state \<Rightarrow> dm_state" where
  "upsert_dm parse dm s =
     (let prev = dms_channels s;
          next = (if \<exists>c \<in> set prev. dm_channel_id c = dm_channel_id dm
            then map (\<lambda>c. if dm_channel_id c = dm_channel_id dm then dm else c) prev else prev @ [dm])
      in s\<lparr>dms_channels := sortDMChannels parse next\<rparr>)"

definition refresh_dms_start :: "dm_state \<Rightarrow> dm_state" where
  "refresh_dms_start s = s\<lparr>dms_loading := True\<rparr>"

definition refresh_dms_done :: "(string \<Rightarrow> int) \<Rightarrow> string + DMChannel list \<Rightarrow> dm_state \<Rightarrow> dm_state" where
  "refresh_dms_done parse res s = (case res of
     Inr channels \<Rightarrow> s\<lparr>dms_channels := sortDMChannels parse channels, dms_loading := False\<rparr>
   | Inl _ \<Rightarrow> s\<lparr>dms_loading := False\<rparr>)"

definition openDM_done :: "(string \<Rightarrow> int) \<Rightarrow> string + DMChannel \<Rightarrow> dm_state \<Rightarrow> dm_state" where
  "openDM_done parse res s = (case res of Inr dm \<Rightarrow> upsert_dm parse dm s | Inl _ \<Rightarrow> s)"

definition closeDM_done :: "int \<Rightarrow> string + unit \<Rightarrow> dm_state \<Rightarrow> dm_state" where
  "closeDM_done channelId res s = (case res of
     Inr _ \<Rightarrow> s\<lparr>dms_channels := filter (\<lambda>c. dm_channel_id c \<noteq> channelId) (dms_channels s)\<rparr>
   | Inl _ \<Rightarrow> s)"

text \<open>The effect on the connection: a refresh when it comes up, an empty list when it goes.\<close>

definition dm_connection :: "bool \<Rightarrow> dm_state \<Rightarrow> dm_state" where
  "dm_connection isConnected s = (if isConnected then refresh_dms_start s else s\<lparr>dms_channels := []\<rparr>)"

section \<open>The hook as a machine\<close>

datatype dm_input =
    DmOpened DMChannel
  | DmOpenDone "string + DMChannel"
  | DmCloseDone int "string + unit"
  | DmRefreshDone "string + DMChannel list"
  | DmConnection bool

fun dm_step :: "(string \<Rightarrow> int) \<Rightarrow> dm_state \<Rightarrow> dm_input \<Rightarrow> dm_state \<times> unit list" where
  "dm_step parse s (DmOpened dm) = (upsert_dm parse dm s, [])"
| "dm_step parse s (DmOpenDone r) = (openDM_done parse r s, [])"
| "dm_step parse s (DmCloseDone c r) = (closeDM_done c r s, [])"
| "dm_step parse s (DmRefreshDone r) = (refresh_dms_done parse r s, [])"
| "dm_step parse s (DmConnection b) = (dm_connection b s, [])"

text \<open>A channel has one peer: \<open>list_dms\<close> answers with one entry per channel.\<close>

fun dm_enabled :: "dm_state \<Rightarrow> dm_input \<Rightarrow> bool" where
  "dm_enabled s (DmRefreshDone (Inr channels)) = distinct (map dm_channel_id channels)"
| "dm_enabled s _ = True"

section \<open>The specification: a map\<close>

definition dm_map :: "dm_state \<Rightarrow> (int, DMChannel) map" where
  "dm_map s = map_of (map (\<lambda>dm. (dm_channel_id dm, dm)) (dms_channels s))"

fun dm_spec :: "(int, DMChannel) map \<Rightarrow> dm_input \<Rightarrow> (int, DMChannel) map" where
  "dm_spec m (DmOpened dm) = m(dm_channel_id dm \<mapsto> dm)"
| "dm_spec m (DmOpenDone (Inr dm)) = m(dm_channel_id dm \<mapsto> dm)"
| "dm_spec m (DmCloseDone c (Inr _)) = m(c := None)"
| "dm_spec m (DmRefreshDone (Inr channels)) = map_of (map (\<lambda>dm. (dm_channel_id dm, dm)) channels)"
| "dm_spec m (DmConnection b) = (if b then m else Map.empty)"
| "dm_spec m _ = m"

definition dm_inv :: "(string \<Rightarrow> int) \<Rightarrow> dm_state \<Rightarrow> bool" where
  "dm_inv parse s \<longleftrightarrow> distinct (map dm_channel_id (dms_channels s))
     \<and> sorted_wrt (\<lambda>a b. dm_time parse b \<le> dm_time parse a) (dms_channels s)"

lemma sort_dms_set [simp]: "set (sortDMChannels parse xs) = set xs"
  by (simp add: sortDMChannels_def)

lemma sort_dms_distinct [simp]: "distinct (map dm_channel_id (sortDMChannels parse xs)) = distinct (map dm_channel_id xs)"
proof -
  have "mset (map dm_channel_id (sortDMChannels parse xs)) = mset (map dm_channel_id xs)"
    by (simp add: sortDMChannels_def)
  then show ?thesis by (rule mset_eq_imp_distinct_iff)
qed

lemma sort_dms_sorted: "sorted_wrt (\<lambda>a b. dm_time parse b \<le> dm_time parse a) (sortDMChannels parse xs)"
proof -
  have "sorted (map (\<lambda>dm. - dm_time parse dm) (sortDMChannels parse xs))" by (simp add: sortDMChannels_def)
  then show ?thesis by (simp add: sorted_map)
qed

text \<open>With one entry per channel the map depends on the entries only, not on their order.\<close>

lemma map_of_entries:
  "distinct (map dm_channel_id xs) \<Longrightarrow> map_of (map (\<lambda>dm. (dm_channel_id dm, dm)) xs) c = Some dm
    \<longleftrightarrow> dm \<in> set xs \<and> dm_channel_id dm = c"
  by (subst map_of_eq_Some_iff) (auto simp: comp_def)

lemma map_of_same_set:
  assumes "distinct (map dm_channel_id xs)" "distinct (map dm_channel_id ys)" "set xs = set ys"
  shows "map_of (map (\<lambda>dm. (dm_channel_id dm, dm)) xs) = map_of (map (\<lambda>dm. (dm_channel_id dm, dm)) ys)"
proof
  fix c
  show "map_of (map (\<lambda>dm. (dm_channel_id dm, dm)) xs) c = map_of (map (\<lambda>dm. (dm_channel_id dm, dm)) ys) c"
  proof (cases "map_of (map (\<lambda>dm. (dm_channel_id dm, dm)) xs) c")
    case None
    then have "c \<notin> dm_channel_id ` set ys" using assms(3) by (simp add: map_of_eq_None_iff image_image)
    then have "map_of (map (\<lambda>dm. (dm_channel_id dm, dm)) ys) c = None" by (simp add: map_of_eq_None_iff image_image)
    with None show ?thesis by simp
  next
    case (Some dm)
    with map_of_entries [OF assms(1)] map_of_entries [OF assms(2), of c dm] assms(3) show ?thesis by simp
  qed
qed

lemma sort_dms_map: "distinct (map dm_channel_id xs) \<Longrightarrow>
    map_of (map (\<lambda>dm. (dm_channel_id dm, dm)) (sortDMChannels parse xs)) = map_of (map (\<lambda>dm. (dm_channel_id dm, dm)) xs)"
  by (intro map_of_same_set) simp_all

lemma replace_ids: "map dm_channel_id (map (\<lambda>c. if dm_channel_id c = dm_channel_id dm then dm else c) xs) = map dm_channel_id xs"
  by (induction xs) auto

lemma replace_map:
  assumes "\<exists>c \<in> set xs. dm_channel_id c = dm_channel_id dm"
  shows "map_of (map (\<lambda>dm. (dm_channel_id dm, dm)) (map (\<lambda>c. if dm_channel_id c = dm_channel_id dm then dm else c) xs))
    = (map_of (map (\<lambda>dm. (dm_channel_id dm, dm)) xs))(dm_channel_id dm \<mapsto> dm)"
  using assms
proof (induction xs)
  case (Cons x xs)
  show ?case
  proof (cases "\<exists>c \<in> set xs. dm_channel_id c = dm_channel_id dm")
    case False
    then have "map (\<lambda>c. if dm_channel_id c = dm_channel_id dm then dm else c) xs = xs" by (intro map_idI) auto
    with Cons.prems False show ?thesis by auto
  qed (use Cons.IH in \<open>auto simp: fun_upd_twist\<close>)
qed simp

lemma append_map:
  assumes "\<not> (\<exists>c \<in> set xs. dm_channel_id c = dm_channel_id dm)"
  shows "map_of (map (\<lambda>dm. (dm_channel_id dm, dm)) (xs @ [dm])) = (map_of (map (\<lambda>dm. (dm_channel_id dm, dm)) xs))(dm_channel_id dm \<mapsto> dm)"
  using assms by (induction xs) (auto simp: fun_upd_twist)

lemma resorted:
  assumes "distinct (map dm_channel_id xs)"
  shows "dm_inv parse (s\<lparr>dms_channels := sortDMChannels parse xs\<rparr>)
    \<and> dm_map (s\<lparr>dms_channels := sortDMChannels parse xs\<rparr>) = map_of (map (\<lambda>dm. (dm_channel_id dm, dm)) xs)"
  using assms by (simp add: dm_inv_def dm_map_def sort_dms_sorted sort_dms_map)

lemma upsert_refines:
  assumes "dm_inv parse s"
  shows "dm_inv parse (upsert_dm parse dm s) \<and> dm_map (upsert_dm parse dm s) = (dm_map s)(dm_channel_id dm \<mapsto> dm)"
proof -
  let ?xs = "dms_channels s"
  let ?next = "if \<exists>c \<in> set ?xs. dm_channel_id c = dm_channel_id dm
    then map (\<lambda>c. if dm_channel_id c = dm_channel_id dm then dm else c) ?xs else ?xs @ [dm]"
  have d: "distinct (map dm_channel_id ?next)"
    using assms by (auto simp only: dm_inv_def replace_ids split: if_split) (auto simp: dm_inv_def)
  have "map_of (map (\<lambda>dm. (dm_channel_id dm, dm)) ?next) = (dm_map s)(dm_channel_id dm \<mapsto> dm)"
    using replace_map [of ?xs dm] append_map [of ?xs dm] by (auto simp only: dm_map_def split: if_split)
  with d show ?thesis
    using resorted [OF d, of parse s] by (simp only: upsert_dm_def Let_def simp_thms)
qed

lemma filter_dm_map:
  "map_of (map (\<lambda>dm. (dm_channel_id dm, dm)) (filter (\<lambda>d. dm_channel_id d \<noteq> c) xs))
    = (map_of (map (\<lambda>dm. (dm_channel_id dm, dm)) xs))(c := None)"
  by (induction xs) (auto simp: fun_upd_twist)

lemma dm_step_refines:
  assumes inv: "dm_inv parse s" and en: "dm_enabled s e"
  shows "dm_inv parse (fst (dm_step parse s e)) \<and> dm_map (fst (dm_step parse s e)) = dm_spec (dm_map s) e"
proof (cases e)
  case (DmOpened dm)
  with upsert_refines [OF inv] show ?thesis by simp
next
  case (DmOpenDone r)
  with upsert_refines [OF inv] inv show ?thesis by (cases r) (simp_all add: openDM_done_def)
next
  case (DmCloseDone c r)
  with inv show ?thesis
    by (cases r) (simp_all add: closeDM_done_def dm_inv_def dm_map_def filter_dm_map distinct_map_filter sorted_wrt_filter)
next
  case (DmRefreshDone r)
  with inv en show ?thesis
    by (cases r) (simp_all add: refresh_dms_done_def dm_inv_def dm_map_def sort_dms_sorted sort_dms_map)
next
  case (DmConnection b)
  with inv show ?thesis by (simp add: dm_connection_def refresh_dms_start_def dm_inv_def dm_map_def)
qed

interpretation dms: machine_invariant dm_enabled "dm_step parse" "dm_inv parse" for parse
  by unfold_locales (use dm_step_refines in blast)


section \<open>The list refines the map\<close>

fun dm_specs :: "(int, DMChannel) map \<Rightarrow> dm_input list \<Rightarrow> (int, DMChannel) map" where
  "dm_specs m [] = m"
| "dm_specs m (e # es) = dm_specs (dm_spec m e) es"

lemma dm_specs_snoc: "dm_specs m (es @ [e]) = dm_spec (dm_specs m es) e"
  by (induction es arbitrary: m) simp_all

text \<open>C18. Whatever happens to the list of direct conversations (messages in them, opening, closing, refreshing, losing
  the connection), it stays newest first with one entry per channel and represents exactly the map that the same
  events build when an event sets, removes or replaces the entry of its channel.\<close>

theorem dm_list_refines:
  assumes "run dm_enabled (dm_step parse) no_dms es s os"
  shows "dm_map s = dm_specs Map.empty es \<and> distinct (map dm_channel_id (dms_channels s))
    \<and> sorted_wrt (\<lambda>a b. dm_time parse b \<le> dm_time parse a) (dms_channels s)"
proof -
  have start: "dm_inv parse no_dms" "dm_map no_dms = Map.empty" by (simp_all add: dm_inv_def dm_map_def no_dms_def)
  have "dm_map s = dm_specs (dm_map no_dms) es"
    using assms
  proof (induction "no_dms :: dm_state" es s os rule: run.induct)
    case (run_snoc es s os e t os')
    have "dm_inv parse s" using run_snoc.hyps(1) start(1) by (rule dms.inv_run)
    with dm_step_refines run_snoc.hyps have "dm_map t = dm_spec (dm_map s) e" by (metis fst_conv)
    with run_snoc show ?case by (simp add: dm_specs_snoc)
  qed simp
  moreover have "dm_inv parse s" using assms start(1) by (rule dms.inv_run)
  ultimately show ?thesis by (simp add: start dm_inv_def)
qed

definition a_dm :: "int \<Rightarrow> string \<Rightarrow> DMChannel" where
  "a_dm c t = \<lparr>dm_channel_id = c, dm_peer_user_id = c + 10, dm_peer_nickname = ''n'', dm_peer_avatar_url = None,
     dm_last_message_at = Some t\<rparr>"

definition dm_events :: "dm_input list" where
  "dm_events = [DmConnection True, DmRefreshDone (Inr [a_dm 1 ''a'', a_dm 2 ''bb'']), DmOpened (a_dm 1 ''ccc''),
     DmOpenDone (Inr (a_dm 3 ''a'')), DmCloseDone 2 (Inr ())]"

theorem dm_list_refines_witness:
  "\<exists>s os. run dm_enabled (dm_step (\<lambda>t. int (length t))) no_dms dm_events s os
     \<and> dms_channels s = [a_dm 1 ''ccc'', a_dm 3 ''a''] \<and> dm_map s 1 = Some (a_dm 1 ''ccc'') \<and> dm_map s 2 = None"
proof -
  obtain s os where e: "exec_run (dm_step (\<lambda>t. int (length t))) no_dms dm_events = (s, os)" by fastforce
  have en: "enabled_run dm_enabled (dm_step (\<lambda>t. int (length t))) no_dms dm_events" by code_simp
  have "dms_channels (fst (exec_run (dm_step (\<lambda>t. int (length t))) no_dms dm_events)) = [a_dm 1 ''ccc'', a_dm 3 ''a'']"
    by code_simp
  with e have c: "dms_channels s = [a_dm 1 ''ccc'', a_dm 3 ''a'']" by simp
  have r: "run dm_enabled (dm_step (\<lambda>t. int (length t))) no_dms dm_events s os" using en e by (rule exec_run_run)
  have "dm_specs Map.empty dm_events 1 = Some (a_dm 1 ''ccc'') \<and> dm_specs Map.empty dm_events 2 = None"
    by (simp add: dm_events_def a_dm_def)
  with dm_list_refines [OF r] c r show ?thesis by auto
qed

end
