(* ===== verification/Servers.thy ===== *)
theory Servers
  imports Messages
begin

text \<open>
  The servers and their channels (\<^verbatim>\<open>hooks/useServers.ts\<close>). The record holds the state of the hook and the states
  it is given setters for; what it writes to \<^verbatim>\<open>localStorage\<close> is part of it. A handler that awaits is split:
  \<open>_start\<close> runs before, \<open>_done\<close> with the answers (\<open>Inl\<close> the text of the error).
\<close>

section \<open>State\<close>

record servers_state =
  sv_servers :: "Server list"
  sv_channels :: ChannelsByServer
  sv_voice :: VoiceParticipantsByChannel
  sv_messages :: MessagesByChannel
  sv_selectedServer :: int
  sv_selectedChannel :: int
  sv_connected :: bool
  sv_error :: string
  sv_storedServers :: "Server list"
  sv_storedChannels :: ChannelsByServer
  sv_storedSelected :: "int option"
  sv_creatingServer :: bool
  sv_creatingChannel :: bool
  sv_serverModal :: bool
  sv_channelModal :: bool
  sv_newServerName :: string
  sv_newChannelName :: string
  sv_newChannelType :: channel_type

definition no_servers :: servers_state where
  "no_servers = \<lparr>sv_servers = [], sv_channels = [], sv_voice = [], sv_messages = [], sv_selectedServer = 0,
     sv_selectedChannel = 0, sv_connected = False, sv_error = [], sv_storedServers = [], sv_storedChannels = [],
     sv_storedSelected = None, sv_creatingServer = False, sv_creatingChannel = False, sv_serverModal = False,
     sv_channelModal = False, sv_newServerName = [], sv_newChannelName = [], sv_newChannelType = TextChannel\<rparr>"

section \<open>Synchronising with the server\<close>

type_synonym channels_state = "Channel list \<times> VoiceChannelParticipants list"

text \<open>\<^verbatim>\<open>Object.fromEntries\<close>: a later entry of the same server wins.\<close>

definition channels_by_server :: "(int \<times> channels_state) list \<Rightarrow> ChannelsByServer" where
  "channels_by_server entries = foldl (\<lambda>m (serverId, state). map_set serverId (fst state) m) [] entries"

definition all_channels :: "ChannelsByServer \<Rightarrow> Channel list" where
  "all_channels m = concat (map snd (record_entries m))"

definition next_voice :: "int set \<Rightarrow> (int \<times> channels_state) list \<Rightarrow> VoiceParticipantsByChannel" where
  "next_voice valid entries = foldl (\<lambda>m entry. if vcp_channel_id entry \<in> valid
       then map_set (vcp_channel_id entry) (vcp_participants entry) m else m)
     [] (concat (map (\<lambda>(serverId, state). snd state) entries))"

definition active_server :: "int option \<Rightarrow> int \<Rightarrow> Server list \<Rightarrow> int" where
  "active_server preferred fromState servers = (case preferred of
     Some p \<Rightarrow> (if p \<noteq> 0 \<and> p \<in> srv_id ` set servers then p
       else if 0 < fromState \<and> fromState \<in> srv_id ` set servers then fromState else srv_id (hd servers))
   | None \<Rightarrow> (if 0 < fromState \<and> fromState \<in> srv_id ` set servers then fromState else srv_id (hd servers)))"

definition next_selected :: "Channel list \<Rightarrow> int set \<Rightarrow> int \<Rightarrow> int" where
  "next_selected activeChannels dmChannelIds prev =
     (if prev \<in> ch_id ` set activeChannels \<or> prev \<in> dmChannelIds then prev
      else case activeChannels of ch # _ \<Rightarrow> ch_id ch | [] \<Rightarrow> 0)"

definition add_missing :: "Channel list \<Rightarrow> MessagesByChannel \<Rightarrow> MessagesByChannel" where
  "add_missing channels prev = foldl (\<lambda>m ch. if map_has (ch_id ch) m then m else map_set (ch_id ch) [] m) prev channels"

text \<open>\<open>syncServersAndChannels\<close> once \<open>get_servers\<close> and \<open>get_server_channels\<close> of each server have answered;
  \<open>entries\<close> has the answer for each server. When a request fails nothing changes here. \<open>sv_selectedServer\<close> and
  \<open>dmChannelIds\<close> are read when the answers are there.\<close>

definition sync_done :: "int option \<Rightarrow> int set \<Rightarrow> Server list \<Rightarrow> (int \<times> channels_state) list \<Rightarrow> servers_state \<Rightarrow> servers_state" where
  "sync_done preferred dmChannelIds remoteServers entries s =
     (if remoteServers = []
      then s\<lparr>sv_servers := [], sv_channels := [], sv_voice := [], sv_selectedServer := 0, sv_selectedChannel := 0,
             sv_messages := [], sv_storedServers := [], sv_storedChannels := [], sv_storedSelected := None\<rparr>
      else let remoteChannels = channels_by_server entries;
               valid = ch_id ` set (all_channels remoteChannels);
               active = active_server preferred (sv_selectedServer s) remoteServers;
               activeChannels = map_get_or [] remoteChannels active
           in s\<lparr>sv_servers := remoteServers, sv_channels := remoteChannels, sv_voice := next_voice valid entries,
                sv_selectedServer := active,
                sv_selectedChannel := next_selected activeChannels dmChannelIds (sv_selectedChannel s),
                sv_messages := add_missing (all_channels remoteChannels) (sv_messages s),
                sv_storedServers := remoteServers, sv_storedChannels := remoteChannels, sv_storedSelected := Some active\<rparr>)"

text \<open>The effects that persist what changed.\<close>

definition persist :: "servers_state \<Rightarrow> servers_state" where
  "persist s = s\<lparr>sv_storedServers := sv_servers s, sv_storedChannels := sv_channels s,
     sv_storedSelected := (if 0 < sv_selectedServer s then Some (sv_selectedServer s) else sv_storedSelected s)\<rparr>"

section \<open>Events of the socket\<close>

definition servers_on_message :: "int set \<Rightarrow> Message \<Rightarrow> servers_state \<Rightarrow> servers_state" where
  "servers_on_message dmChannelIds incoming s =
     (let c = m_channel_id incoming; sel = sv_selectedServer s
      in if (\<exists>(k, cs) \<in> set (sv_channels s). \<exists>ch \<in> set cs. ch_id ch = c) \<or> sel \<le> 0 \<or> c \<in> dmChannelIds then s
         else s\<lparr>sv_channels := map_set sel (map_get_or [] (sv_channels s) sel @
             [\<lparr>ch_id = c, ch_server_id = sel, ch_name = show_int c, ch_type = TextChannel\<rparr>]) (sv_channels s)\<rparr>)"

datatype servers_effect =
    AuthFailure string
  | RestoreVoice
  | StartSync "int option"
  | Toast bool string
  | CreateServer string
  | CreateChannel int string channel_type
  | DeleteServer int
  | DeleteChannel int
  | JoinServer int

definition servers_on_error :: "string \<Rightarrow> servers_state \<Rightarrow> servers_state \<times> servers_effect list" where
  "servers_on_error msg s =
     (if str_includes (to_lower msg) ''permission denied'' then (s, [AuthFailure ''Timed out, try again later''])
      else (s\<lparr>sv_error := msg\<rparr>, []))"

definition servers_on_reconnect :: "bool \<Rightarrow> servers_state \<Rightarrow> servers_state \<times> servers_effect list" where
  "servers_on_reconnect restored s =
     (if restored then (s\<lparr>sv_connected := True, sv_error := []\<rparr>, [RestoreVoice, StartSync None])
      else (s\<lparr>sv_connected := False\<rparr>, []))"

text \<open>The first connection: \<open>stored\<close> is the number read from \<^verbatim>\<open>localStorage\<close>, zero when there is none. A
  synchronisation that then fails ends in the same handler, as a second \<open>Inl\<close>.\<close>

definition connect_done :: "string + unit \<Rightarrow> servers_state \<Rightarrow> servers_state \<times> servers_effect list" where
  "connect_done res s = (case res of
     Inr _ \<Rightarrow> (let stored = (case sv_storedSelected s of Some i \<Rightarrow> i | None \<Rightarrow> 0)
       in (s\<lparr>sv_connected := True, sv_error := []\<rparr>, [StartSync (if 0 < stored then Some stored else None)]))
   | Inl message \<Rightarrow>
       (if str_includes (to_lower message) ''re-entry required'' \<or> str_includes (to_lower message) ''re-login required''
           \<or> str_includes (to_lower message) ''permission denied''
        then (s, [AuthFailure ''Session expired, please log in again'']) else (s\<lparr>sv_error := message\<rparr>, [])))"

section \<open>Actions\<close>

definition MAX_SERVER_CHANNEL_NAME_LENGTH :: nat where "MAX_SERVER_CHANNEL_NAME_LENGTH = 16"

text \<open>The name that a form submits: an error, or the trimmed name.\<close>

definition checked_name :: "string \<Rightarrow> string \<Rightarrow> string \<Rightarrow> string + string" where
  "checked_name missing subject name =
     (let trimmed = trim name
      in if trimmed = [] then Inl missing
         else if MAX_SERVER_CHANNEL_NAME_LENGTH < length trimmed
         then Inl (subject @ '' name must be at most '' @ show_nat MAX_SERVER_CHANNEL_NAME_LENGTH @ '' characters'')
         else Inr trimmed)"

definition openCreateServerModal :: "servers_state \<Rightarrow> servers_state" where
  "openCreateServerModal s = s\<lparr>sv_error := [], sv_newServerName := [], sv_serverModal := True\<rparr>"

definition openCreateChannelModal :: "servers_state \<Rightarrow> servers_state" where
  "openCreateChannelModal s =
     s\<lparr>sv_error := [], sv_newChannelName := [], sv_newChannelType := TextChannel, sv_channelModal := True\<rparr>"

text \<open>\<open>CreateServer\<close> asks for the server, then for its channels Main and Voice, then synchronises; the first of these to
  fail is the answer, and so for the other requests.\<close>

definition handleAddServerSubmit_start :: "servers_state \<Rightarrow> servers_state \<times> servers_effect list" where
  "handleAddServerSubmit_start s =
     (if \<not> sv_connected s then (s\<lparr>sv_error := ''No connection''\<rparr>, [])
      else case checked_name ''Enter the server name'' ''Server'' (sv_newServerName s) of
        Inl e \<Rightarrow> (s\<lparr>sv_error := e\<rparr>, [])
      | Inr name \<Rightarrow> (if sv_creatingServer s then (s, []) else (s\<lparr>sv_creatingServer := True\<rparr>, [CreateServer name])))"

definition handleAddServerSubmit_done :: "string \<Rightarrow> string + unit \<Rightarrow> servers_state \<Rightarrow> servers_state \<times> servers_effect list" where
  "handleAddServerSubmit_done name res s = (case res of
     Inr _ \<Rightarrow> (s\<lparr>sv_error := [], sv_serverModal := False, sv_newServerName := [], sv_creatingServer := False\<rparr>,
       [Toast True (''Server '' @ CHR 0x22 # name @ CHR 0x22 # '' created'')])
   | Inl e \<Rightarrow> (s\<lparr>sv_error := e, sv_creatingServer := False\<rparr>, [Toast False e]))"

definition handleAddChannelSubmit_start :: "servers_state \<Rightarrow> servers_state \<times> servers_effect list" where
  "handleAddChannelSubmit_start s =
     (if \<not> sv_connected s \<or> sv_selectedServer s \<le> 0 then (s\<lparr>sv_error := ''No connection to chat''\<rparr>, [])
      else case checked_name ''Enter the channel name'' ''Channel'' (sv_newChannelName s) of
        Inl e \<Rightarrow> (s\<lparr>sv_error := e\<rparr>, [])
      | Inr name \<Rightarrow> (if sv_creatingChannel s then (s, [])
          else (s\<lparr>sv_creatingChannel := True\<rparr>, [CreateChannel (sv_selectedServer s) name (sv_newChannelType s)])))"

definition handleAddChannelSubmit_done :: "string \<Rightarrow> string + unit \<Rightarrow> servers_state \<Rightarrow> servers_state \<times> servers_effect list" where
  "handleAddChannelSubmit_done name res s = (case res of
     Inr _ \<Rightarrow> (s\<lparr>sv_error := [], sv_channelModal := False, sv_newChannelName := [], sv_creatingChannel := False\<rparr>,
       [Toast True (''Channel '' @ CHR 0x22 # name @ CHR 0x22 # '' created'')])
   | Inl e \<Rightarrow> (s\<lparr>sv_error := e, sv_creatingChannel := False\<rparr>, [Toast False e]))"

definition handleDeleteServer_start :: "bool \<Rightarrow> servers_state \<Rightarrow> servers_state \<times> servers_effect list" where
  "handleDeleteServer_start confirmed s =
     (if \<not> sv_connected s \<or> sv_selectedServer s \<le> 0 then (s\<lparr>sv_error := ''No connection''\<rparr>, [])
      else if \<not> confirmed then (s, []) else (s, [DeleteServer (sv_selectedServer s)]))"

definition handleDeleteServer_done :: "string + unit \<Rightarrow> servers_state \<Rightarrow> servers_state \<times> servers_effect list" where
  "handleDeleteServer_done res s = (case res of
     Inr _ \<Rightarrow> (s\<lparr>sv_error := []\<rparr>, [Toast True ''Server deleted''])
   | Inl e \<Rightarrow> (s\<lparr>sv_error := e\<rparr>, [Toast False e]))"

definition handleDeleteChannel_start :: "int \<Rightarrow> bool \<Rightarrow> servers_state \<Rightarrow> servers_state \<times> servers_effect list" where
  "handleDeleteChannel_start channelId confirmed s =
     (if \<not> sv_connected s \<or> sv_selectedServer s \<le> 0 \<or> channelId \<le> 0 then (s\<lparr>sv_error := ''No connection''\<rparr>, [])
      else if \<not> confirmed then (s, []) else (s, [DeleteChannel channelId]))"

definition handleDeleteChannel_done :: "string + unit \<Rightarrow> servers_state \<Rightarrow> servers_state \<times> servers_effect list" where
  "handleDeleteChannel_done res s = (case res of
     Inr _ \<Rightarrow> (s\<lparr>sv_error := []\<rparr>, [Toast True ''Channel deleted''])
   | Inl e \<Rightarrow> (s\<lparr>sv_error := e\<rparr>, [Toast False e]))"

definition handleSelectServer_start :: "int \<Rightarrow> servers_state \<Rightarrow> servers_state \<times> servers_effect list" where
  "handleSelectServer_start serverId s0 =
     (let s = s0\<lparr>sv_selectedServer := serverId, sv_error := []\<rparr>
      in if \<not> sv_connected s
         then (s\<lparr>sv_selectedChannel := (case map_get_or [] (sv_channels s) serverId of ch # _ \<Rightarrow> ch_id ch | [] \<Rightarrow> 0)\<rparr>, [])
         else (s, [StartSync (Some serverId)]))"

section \<open>Who is online\<close>

definition normalize_user :: "string option \<Rightarrow> string option \<Rightarrow> OnlineUser \<Rightarrow> OnlineUser" where
  "normalize_user profileEmail profileNickname user =
     (let email = map_option (\<lambda>e. to_lower (trim e)) profileEmail; nickname = map_option trim profileNickname;
          userEmail = map_option (\<lambda>e. to_lower (trim e)) (ou_email user)
      in if (case ou_nickname user of Some n \<Rightarrow> trim n \<noteq> [] | None \<Rightarrow> False) then user
         else case (email, nickname) of
           (Some (e # es), Some (n # ns)) \<Rightarrow> (if userEmail = Some (e # es) then user\<lparr>ou_nickname := Some (n # ns)\<rparr> else user)
         | _ \<Rightarrow> user)"

record online_users =
  ou_users :: "OnlineUser list"
  ou_loading :: bool
  ou_panelOpen :: bool

definition refreshOnlineUsers_start :: "bool \<Rightarrow> int \<Rightarrow> online_users \<Rightarrow> online_users \<times> bool" where
  "refreshOnlineUsers_start isConnected selectedServerId u =
     (if \<not> isConnected \<or> selectedServerId \<le> 0 then (u\<lparr>ou_users := []\<rparr>, False) else (u\<lparr>ou_loading := True\<rparr>, True))"

definition refreshOnlineUsers_done :: "string option \<Rightarrow> string option \<Rightarrow> string + OnlineUser list \<Rightarrow> online_users
    \<Rightarrow> online_users \<times> string option" where
  "refreshOnlineUsers_done profileEmail profileNickname res u = (case res of
     Inr users \<Rightarrow> (u\<lparr>ou_users := map (normalize_user profileEmail profileNickname) users, ou_loading := False\<rparr>, None)
   | Inl e \<Rightarrow> (u\<lparr>ou_loading := False\<rparr>, Some e))"

text \<open>The effects on a change of the connection, the server or the page, and on a change of the panel; the second
  component says whether a refresh is started at once. The first also refreshes every ten seconds while it is set up.\<close>

definition online_effect :: "bool \<Rightarrow> int \<Rightarrow> bool \<Rightarrow> online_users \<Rightarrow> online_users \<times> bool" where
  "online_effect isConnected selectedServerId isPageVisible u =
     (if \<not> isConnected \<or> selectedServerId \<le> 0 then (u\<lparr>ou_users := [], ou_panelOpen := False\<rparr>, False)
      else if \<not> isPageVisible then (u, False) else refreshOnlineUsers_start isConnected selectedServerId u)"

definition panel_effect :: "bool \<Rightarrow> int \<Rightarrow> online_users \<Rightarrow> online_users \<times> bool" where
  "panel_effect isConnected selectedServerId u =
     (if ou_panelOpen u then refreshOnlineUsers_start isConnected selectedServerId (u\<lparr>ou_users := []\<rparr>) else (u, False))"

section \<open>The search for servers to join\<close>

record server_search =
  ss_open :: bool
  ss_query :: string
  ss_results :: "(int \<times> string) list"
  ss_searching :: bool
  ss_requestId :: nat
  ss_timer :: "string option"
  ss_error :: string

definition no_search :: server_search where
  "no_search = \<lparr>ss_open = False, ss_query = [], ss_results = [], ss_searching = False, ss_requestId = 0, ss_timer = None, ss_error = []\<rparr>"

text \<open>The effect on a change of the query, of the modal or of the connection: it first clears the timer of the
  change before.\<close>

definition search_changed :: "bool \<Rightarrow> server_search \<Rightarrow> server_search" where
  "search_changed isConnected s0 =
     (let s = s0\<lparr>ss_timer := None\<rparr>; query = trim (ss_query s)
      in if \<not> ss_open s \<or> \<not> isConnected \<or> length query < 2 then s\<lparr>ss_results := [], ss_searching := False\<rparr>
         else s\<lparr>ss_searching := True, ss_timer := Some query\<rparr>)"

definition openJoinServerModal :: "server_search \<Rightarrow> server_search" where
  "openJoinServerModal s = s\<lparr>ss_error := [], ss_query := [], ss_results := [], ss_open := True\<rparr>"

definition search_fire :: "server_search \<Rightarrow> server_search \<times> (nat \<times> string) list" where
  "search_fire s = (case ss_timer s of
     None \<Rightarrow> (s, [])
   | Some query \<Rightarrow> (s\<lparr>ss_timer := None, ss_requestId := Suc (ss_requestId s)\<rparr>, [(Suc (ss_requestId s), query)]))"

definition search_done :: "nat \<Rightarrow> string + (int \<times> string) list \<Rightarrow> server_search \<Rightarrow> server_search" where
  "search_done requestId res s =
     (if requestId \<noteq> ss_requestId s then s
      else case res of
        Inr results \<Rightarrow> s\<lparr>ss_results := results, ss_error := [], ss_searching := False\<rparr>
      | Inl e \<Rightarrow> s\<lparr>ss_error := e, ss_results := [], ss_searching := False\<rparr>)"

definition handleJoinServer_start :: "int \<Rightarrow> servers_state \<Rightarrow> servers_state \<times> servers_effect list" where
  "handleJoinServer_start serverId s =
     (if \<not> sv_connected s then (s\<lparr>sv_error := ''No connection''\<rparr>, []) else (s, [JoinServer serverId]))"

definition handleJoinServer_done :: "string + unit \<Rightarrow> server_search \<Rightarrow> server_search" where
  "handleJoinServer_done res s = (case res of
     Inr _ \<Rightarrow> s\<lparr>ss_query := [], ss_results := [], ss_open := False, ss_error := []\<rparr>
   | Inl e \<Rightarrow> s\<lparr>ss_error := e\<rparr>)"

end
