(* ===== verification/ServersProps.thy ===== *)
theory ServersProps
  imports Servers
begin

text \<open>
  What a synchronisation leaves selected and loaded, what it does to a user without servers, and which answers the
  search for servers shows.
\<close>

section \<open>Folds of maps\<close>

lemma add_missing_get: "map_get (add_missing chs m) c
    = (if map_has c m then map_get m c else if c \<in> ch_id ` set chs then Some [] else None)"
proof (induction chs arbitrary: m)
  case Nil
  then show ?case by (simp add: add_missing_def map_has_def)
next
  case (Cons ch chs)
  let ?m = "if map_has (ch_id ch) m then m else map_set (ch_id ch) [] m"
  have "add_missing (ch # chs) m = add_missing chs ?m" by (simp add: add_missing_def)
  with Cons.IH [of ?m] show ?case by (auto simp: map_has_def)
qed

lemma next_voice_fold:
  "map_has c (foldl (\<lambda>m entry. if vcp_channel_id entry \<in> valid
      then map_set (vcp_channel_id entry) (vcp_participants entry) m else m) m xs) \<Longrightarrow> map_has c m \<or> c \<in> valid"
proof (induction xs arbitrary: m)
  case Nil
  then show ?case by simp
next
  case (Cons entry xs)
  let ?m = "if vcp_channel_id entry \<in> valid then map_set (vcp_channel_id entry) (vcp_participants entry) m else m"
  from Cons.prems have "map_has c ?m \<or> c \<in> valid" by (intro Cons.IH [of ?m]) simp
  then show ?case by (auto simp: map_has_def split: if_splits)
qed

lemma next_voice_valid: "map_has c (next_voice valid entries) \<Longrightarrow> c \<in> valid"
  unfolding next_voice_def by (drule next_voice_fold) (simp add: map_has_def)

lemma active_server_known: "servers \<noteq> [] \<Longrightarrow> active_server preferred fromState servers \<in> srv_id ` set servers"
  by (auto simp: active_server_def split: option.split)

lemma active_server_preferred: "p \<noteq> 0 \<Longrightarrow> p \<in> srv_id ` set servers \<Longrightarrow> active_server (Some p) fromState servers = p"
  by (simp add: active_server_def)

lemma next_selected_cases:
  "next_selected chs D prev \<in> ch_id ` set chs \<or> (next_selected chs D prev = prev \<and> next_selected chs D prev \<in> D)
     \<or> (next_selected chs D prev = 0 \<and> chs = [])"
  by (cases chs) (auto simp: next_selected_def)


definition a_server :: "int \<Rightarrow> Server" where
  "a_server i = \<lparr>srv_id = i, srv_name = ''s'', srv_owner_id = 1\<rparr>"

definition a_channel :: "int \<Rightarrow> int \<Rightarrow> Channel" where
  "a_channel i srv = \<lparr>ch_id = i, ch_server_id = srv, ch_name = ''c'', ch_type = TextChannel\<rparr>"

definition dm_open :: servers_state where
  "dm_open = no_servers\<lparr>sv_selectedServer := 4, sv_selectedChannel := 77, sv_messages := [(77, [])]\<rparr>"


text \<open>A synchronisation that finds servers leaves an open direct conversation and its messages alone. One that
  finds none closes the conversation and drops every loaded message; and as the channel still counts as loaded, its
  messages are not fetched again. The periodic synchronisation does this to a user without servers every few seconds.\<close>

theorem no_servers_evicts_dm:
  assumes "c \<in> dms" and "sv_selectedChannel s = c" and "map_get (sv_messages s) c = Some ms"
    and "map_get (mv_loaded v) c = Some True" and "remoteServers \<noteq> []"
  shows "sv_selectedChannel (sync_done preferred dms remoteServers entries s) = c
    \<and> map_get (sv_messages (sync_done preferred dms remoteServers entries s)) c = Some ms
    \<and> sv_selectedChannel (sync_done preferred dms [] entries s) = 0
    \<and> sv_messages (sync_done preferred dms [] entries s) = [] \<and> \<not> lazy_load_start online c v"
  using assms by (simp add: sync_done_def Let_def next_selected_def add_missing_get map_has_def lazy_load_start_def)

theorem no_servers_evicts_dm_witness:
  "sv_selectedChannel (sync_done None {77} [] [] dm_open) = 0
   \<and> sv_selectedChannel (sync_done None {77} [a_server 4] [] dm_open) = 77
   \<and> \<not> lazy_load_start True 77 (new_view\<lparr>mv_loaded := [(77, True)]\<rparr>)"
proof -
  have "map_get (sv_messages dm_open) 77 = Some []" "sv_selectedChannel dm_open = 77" by code_simp+
  from no_servers_evicts_dm [of 77 "{77}" dm_open "[]" "new_view\<lparr>mv_loaded := [(77, True)]\<rparr>" "[a_server 4]" None "[]" True] this
  show ?thesis by (simp add: map_get_def)
qed

text \<open>A message for a channel nobody has listed adds one placeholder, though two hooks subscribe; a direct
  conversation never becomes a channel of a server.\<close>

theorem placeholder_once:
  "sv_channels (servers_on_message (set dms) m s)
     = add_unknown_channel (m_channel_id m) (sv_selectedServer s) dms (sv_channels s)"
  "add_unknown_channel c sel dms (add_unknown_channel c sel dms prev) = add_unknown_channel c sel dms prev"
  "c \<in> set dms \<Longrightarrow> add_unknown_channel c sel dms prev = prev"
proof -
  show "sv_channels (servers_on_message (set dms) m s)
     = add_unknown_channel (m_channel_id m) (sv_selectedServer s) dms (sv_channels s)"
    by (simp add: servers_on_message_def add_unknown_channel_def Let_def)
  have "\<exists>(k, cs) \<in> set (map_set sel (xs @ [ch]) prev). \<exists>ch' \<in> set cs. ch_id ch' = ch_id ch" for xs ch
  proof -
    have "map_get (map_set sel (xs @ [ch]) prev) sel = Some (xs @ [ch])" by simp
    then have "(sel, xs @ [ch]) \<in> set (map_set sel (xs @ [ch]) prev)" unfolding map_get_def by (rule map_of_SomeD)
    then show ?thesis by force
  qed
  from this [of _ "\<lparr>ch_id = c, ch_server_id = sel, ch_name = show_int c, ch_type = TextChannel\<rparr>"]
  show "add_unknown_channel c sel dms (add_unknown_channel c sel dms prev) = add_unknown_channel c sel dms prev"
    unfolding add_unknown_channel_def by (auto split: if_split)
  show "c \<in> set dms \<Longrightarrow> add_unknown_channel c sel dms prev = prev" by (simp add: add_unknown_channel_def)
qed

section \<open>The search for servers\<close>

text \<open>The search shows no answer but the one to the last request it sent. But a request is only outdated by the
  next one, not by clearing the query or closing the form: the answer that comes after that fills the results again,
  for a query that is no longer there.\<close>

theorem search_answers:
  assumes "ss_timer s = Some query" and "search_fire s = (s1, [(r, query)])"
  shows "(\<forall>r' res. r' < r \<longrightarrow> search_done r' res s1 = s1)
    \<and> (\<forall>q. length (trim q) < 2 \<longrightarrow> ss_results (search_changed True (s1\<lparr>ss_query := q\<rparr>)) = []
         \<and> ss_results (search_done r (Inr found) (search_changed True (s1\<lparr>ss_query := q\<rparr>))) = found)"
  using assms by (auto simp: search_fire_def search_done_def search_changed_def Let_def)

theorem search_answers_witness:
  "ss_results (search_done 1 (Inr [(3, ''abba'')]) (search_changed True ((fst (search_fire
     (search_changed True (no_search\<lparr>ss_open := True, ss_query := ''ab''\<rparr>))))\<lparr>ss_query := []\<rparr>))) = [(3, ''abba'')]"
proof -
  let ?s = "search_changed True (no_search\<lparr>ss_open := True, ss_query := ''ab''\<rparr>)"
  have "ss_timer ?s = Some ''ab''" and "search_fire ?s = (fst (search_fire ?s), [(1, ''ab'')])" by code_simp+
  from search_answers [OF this, of "[(3, ''abba'')]"] show ?thesis by simp
qed

end
