(* ===== verification/Voice.thy ===== *)
theory Voice
  imports Call Servers
begin

text \<open>
  The voice controls (\<^verbatim>\<open>hooks/useVoice.ts\<close>). The record is the state of the hook with its refs; a media stream is its
  number. Calls of the voice client, of the socket and of the sounds are effects. The handlers read the state of the
  last render, taken to be the current one: an effect of React runs before the next event.
\<close>

section \<open>State\<close>

datatype NoiseSuppressionMode = NoiseOff | NoiseBrowser | NoiseRnnoise

record voice_env =
  ve_currentUserId :: "int option"
  ve_first_name :: "string option"
  ve_last_name :: "string option"
  ve_nickname :: "string option"
  ve_avatarUrl :: string
  ve_client :: bool
  ve_socket :: bool

record voice_state =
  vo_channel :: int
  vo_localStream :: "nat option"
  vo_localScreen :: "nat option"
  vo_remote :: "(int \<times> string \<times> nat) list"
  vo_participants :: VoiceParticipantsByChannel
  vo_quality :: "(int \<times> PeerQuality) list"
  vo_detached :: "int set"
  vo_status :: CallStatus
  vo_speakers :: "int set"
  vo_volume :: "(int \<times> rat) list"
  vo_deafened :: bool
  vo_mic :: bool
  vo_camera :: bool
  vo_cameraStarting :: bool
  vo_screen :: bool
  vo_switching :: bool
  vo_togglingScreen :: bool
  vo_noise :: NoiseSuppressionMode
  vo_micBeforeDeafen :: bool
  vo_error :: string

definition no_voice :: voice_state where
  "no_voice = \<lparr>vo_channel = 0, vo_localStream = None, vo_localScreen = None, vo_remote = [], vo_participants = [],
     vo_quality = [], vo_detached = {}, vo_status = Connected, vo_speakers = {}, vo_volume = [], vo_deafened = False,
     vo_mic = True, vo_camera = False, vo_cameraStarting = False, vo_screen = False, vo_switching = False,
     vo_togglingScreen = False, vo_noise = NoiseRnnoise, vo_micBeforeDeafen = True, vo_error = []\<rparr>"

datatype voice_effect =
    SetMicrophone bool
  | SendVoiceStatus int bool bool
  | AudioEnabled nat bool
  | JoinCall int
  | RejoinCall int
  | LeaveCall
  | SetCamera bool
  | ToggleFacing
  | ToggleScreen
  | SetNoiseMode NoiseSuppressionMode
  | SyncParticipants int "VoiceParticipant list"
  | JoinSound
  | LeaveSound

text \<open>\<^verbatim>\<open>if (currentUserId)\<close>: neither null nor zero.\<close>

definition current_user :: "voice_env \<Rightarrow> int option" where
  "current_user env = (case ve_currentUserId env of Some u \<Rightarrow> (if u = 0 then None else Some u) | None \<Rightarrow> None)"

section \<open>Noise suppression setting\<close>

definition noise_mode_of :: "string \<Rightarrow> NoiseSuppressionMode option" where
  "noise_mode_of v = (if v = ''off'' then Some NoiseOff else if v = ''browser'' then Some NoiseBrowser
     else if v = ''rnnoise'' then Some NoiseRnnoise else None)"

definition noise_mode_name :: "NoiseSuppressionMode \<Rightarrow> string" where
  "noise_mode_name mode = (case mode of NoiseOff \<Rightarrow> ''off'' | NoiseBrowser \<Rightarrow> ''browser'' | NoiseRnnoise \<Rightarrow> ''rnnoise'')"

definition loadNoiseSuppressionMode :: "string option \<Rightarrow> NoiseSuppressionMode" where
  "loadNoiseSuppressionMode stored = (case stored of None \<Rightarrow> NoiseRnnoise
   | Some v \<Rightarrow> (case noise_mode_of v of Some mode \<Rightarrow> mode | None \<Rightarrow> NoiseRnnoise))"

section \<open>Effects of React\<close>

definition onReconnectRestored :: "voice_env \<Rightarrow> voice_state \<Rightarrow> voice_state \<times> voice_effect list" where
  "onReconnectRestored env s =
     (s, if vo_channel s \<le> 0 \<or> \<not> ve_client env then [] else [RejoinCall (vo_channel s)])"

definition deafen_effect :: "voice_state \<Rightarrow> voice_effect list" where
  "deafen_effect s = map (\<lambda>(userId, label, stream). AudioEnabled stream (\<not> vo_deafened s)) (vo_remote s)"

definition sync_effect :: "voice_env \<Rightarrow> voice_state \<Rightarrow> voice_effect list" where
  "sync_effect env s = (if vo_channel s \<le> 0 \<or> \<not> ve_client env then []
     else [SyncParticipants (vo_channel s) (map_get_or [] (vo_participants s) (vo_channel s))])"

section \<open>Callbacks of the voice client\<close>

definition toParticipantLabel :: "VoiceParticipant \<Rightarrow> string" where
  "toParticipantLabel p =
     (let nickname = (case vp_nickname p of Some n \<Rightarrow> trim n | None \<Rightarrow> []);
          truthy_names = filter (\<lambda>n. n \<noteq> []) (List.map_filter id [vp_first_name p, vp_last_name p]);
          fullName = trim (join_with '' '' truthy_names)
      in if nickname \<noteq> [] then nickname else if fullName \<noteq> [] then fullName
         else ''User '' @ show_int (vp_user_id p))"

definition onParticipantStream :: "VoiceParticipant \<Rightarrow> nat \<Rightarrow> voice_state \<Rightarrow> voice_state" where
  "onParticipantStream p stream s = s\<lparr>
     vo_remote := filter (\<lambda>item. fst item \<noteq> vp_user_id p) (vo_remote s) @ [(vp_user_id p, toParticipantLabel p, stream)],
     vo_volume := (if map_has (vp_user_id p) (vo_volume s) then vo_volume s else map_set (vp_user_id p) 1 (vo_volume s))\<rparr>"

definition onParticipantLeft :: "int \<Rightarrow> voice_state \<Rightarrow> voice_state" where
  "onParticipantLeft userId s = s\<lparr>vo_remote := filter (\<lambda>item. fst item \<noteq> userId) (vo_remote s)\<rparr>"

text \<open>\<open>screenActive\<close> is the answer of \<open>isScreenShareActive\<close>, false without a client.\<close>

definition onLocalStream :: "bool \<Rightarrow> nat option \<Rightarrow> voice_state \<Rightarrow> voice_state" where
  "onLocalStream screenActive stream s0 =
     (let s = s0\<lparr>vo_localStream := stream, vo_screen := screenActive\<rparr>
      in if stream = None
         then s\<lparr>vo_camera := False, vo_remote := [], vo_switching := False, vo_togglingScreen := False,
                vo_localScreen := None\<rparr>
         else s)"

definition onLocalScreenStream :: "nat option \<Rightarrow> voice_state \<Rightarrow> voice_state" where
  "onLocalScreenStream stream s = s\<lparr>vo_localScreen := stream, vo_screen := (stream \<noteq> None)\<rparr>"

section \<open>Events of the socket\<close>

definition onVoiceUserJoined :: "VoiceUserEvent \<Rightarrow> voice_state \<Rightarrow> voice_state" where
  "onVoiceUserJoined e s =
     (let current = map_get_or [] (vo_participants s) (vue_channel_id e)
      in if vp_user_id (vue_user e) \<in> vp_user_id ` set current then s
         else s\<lparr>vo_participants := map_set (vue_channel_id e) (current @ [vue_user e]) (vo_participants s)\<rparr>)"

definition without_user :: "int \<Rightarrow> VoiceParticipant list \<Rightarrow> VoiceParticipant list" where
  "without_user u ps = filter (\<lambda>p. vp_user_id p \<noteq> u) ps"

definition set_or_drop :: "int \<Rightarrow> VoiceParticipant list \<Rightarrow> VoiceParticipantsByChannel \<Rightarrow> VoiceParticipantsByChannel" where
  "set_or_drop c ps m = (if ps = [] then map_del c m else map_set c ps m)"

definition onVoiceUserLeft :: "VoiceUserEvent \<Rightarrow> voice_state \<Rightarrow> voice_state" where
  "onVoiceUserLeft e s =
     (let c = vue_channel_id e; u = vp_user_id (vue_user e); current = map_get_or [] (vo_participants s) c;
          next = without_user u current
      in s\<lparr>vo_participants := (if current = [] \<or> length next = length current then vo_participants s
                              else set_or_drop c next (vo_participants s)),
           vo_detached := vo_detached s - {u}, vo_speakers := vo_speakers s - {u}\<rparr>)"

fun update_first :: "('a \<Rightarrow> bool) \<Rightarrow> ('a \<Rightarrow> 'a) \<Rightarrow> 'a list \<Rightarrow> 'a list" where
  "update_first P f [] = []"
| "update_first P f (x # xs) = (if P x then f x # xs else x # update_first P f xs)"

definition onVoiceStatusChanged :: "VoiceUserEvent \<Rightarrow> voice_state \<Rightarrow> voice_state" where
  "onVoiceStatusChanged e s =
     (let c = vue_channel_id e; u = vp_user_id (vue_user e); current = map_get_or [] (vo_participants s) c
      in if u \<notin> vp_user_id ` set current then s
         else s\<lparr>vo_participants := map_set c (update_first (\<lambda>p. vp_user_id p = u)
                (\<lambda>p. spread_participant False p (vue_user e)) current) (vo_participants s)\<rparr>)"

definition onVoiceUserDetached :: "VoiceUserEvent \<Rightarrow> voice_state \<Rightarrow> voice_state" where
  "onVoiceUserDetached e s = (if vue_channel_id e \<noteq> vo_channel s then s
     else s\<lparr>vo_detached := insert (vp_user_id (vue_user e)) (vo_detached s)\<rparr>)"

definition onVoiceUserResumed :: "VoiceUserEvent \<Rightarrow> voice_state \<Rightarrow> voice_state" where
  "onVoiceUserResumed e s = (if vue_channel_id e \<noteq> vo_channel s then s
     else s\<lparr>vo_detached := vo_detached s - {vp_user_id (vue_user e)}\<rparr>)"

definition onSfuActiveSpeakers :: "int \<Rightarrow> int list \<Rightarrow> voice_state \<Rightarrow> voice_state" where
  "onSfuActiveSpeakers c userIds s = (if c \<noteq> vo_channel s then s else s\<lparr>vo_speakers := set userIds\<rparr>)"

section \<open>Joining and leaving\<close>

definition handleJoinVoice_start :: "voice_env \<Rightarrow> int \<Rightarrow> voice_state \<Rightarrow> voice_state \<times> voice_effect list" where
  "handleJoinVoice_start env selectedChannelId s =
     (if \<not> ve_client env \<or> selectedChannelId \<le> 0 then (s\<lparr>vo_error := ''Voice call is unavailable''\<rparr>, [])
      else (s, [JoinCall selectedChannelId]))"

definition or_undefined :: "string option \<Rightarrow> string option" where
  "or_undefined x = (if x = Some [] then None else x)"

definition self_participant :: "voice_env \<Rightarrow> int \<Rightarrow> VoiceParticipant" where
  "self_participant env u = \<lparr>vp_user_id = u, vp_first_name = or_undefined (ve_first_name env),
     vp_last_name = or_undefined (ve_last_name env), vp_nickname = or_undefined (ve_nickname env),
     vp_avatar_url = or_undefined (Some (ve_avatarUrl env)), vp_mic_enabled = Some True, vp_deafened = Some False,
     vp_detached = None\<rparr>"

definition leave_previous :: "int \<Rightarrow> int \<Rightarrow> int \<Rightarrow> VoiceParticipantsByChannel \<Rightarrow> VoiceParticipantsByChannel" where
  "leave_previous u previous c m = (if 0 < previous \<and> previous \<noteq> c
     then (case map_get m previous of None \<Rightarrow> m | Some ps \<Rightarrow> set_or_drop previous (without_user u ps) m) else m)"

definition joined_participants :: "voice_env \<Rightarrow> int \<Rightarrow> JoinVoiceResponse \<Rightarrow> VoiceParticipantsByChannel
    \<Rightarrow> VoiceParticipantsByChannel" where
  "joined_participants env previous response m = (case current_user env of None \<Rightarrow> m
   | Some u \<Rightarrow> map_set (jr_channel_id response) (self_participant env u # without_user u (jr_participants response))
       (leave_previous u previous (jr_channel_id response) m))"

text \<open>\<open>previous\<close> is the channel of the render in which the button was pressed.\<close>

definition handleJoinVoice_done :: "voice_env \<Rightarrow> int \<Rightarrow> string + JoinVoiceResponse \<Rightarrow> voice_state
    \<Rightarrow> voice_state \<times> voice_effect list" where
  "handleJoinVoice_done env previous res s = (case res of
     Inl message \<Rightarrow> (s\<lparr>vo_error := message\<rparr>, [])
   | Inr response \<Rightarrow> (s\<lparr>vo_channel := jr_channel_id response, vo_mic := True, vo_deafened := False, vo_camera := False,
       vo_cameraStarting := False, vo_switching := False, vo_screen := False, vo_togglingScreen := False,
       vo_detached := {}, vo_speakers := {}, vo_status := Connected, vo_error := [],
       vo_participants := joined_participants env previous response (vo_participants s)\<rparr>, [JoinSound]))"

definition left_participants :: "voice_env \<Rightarrow> int \<Rightarrow> VoiceParticipantsByChannel \<Rightarrow> VoiceParticipantsByChannel" where
  "left_participants env c m = (case current_user env of None \<Rightarrow> m
   | Some u \<Rightarrow> if 0 < c then set_or_drop c (without_user u (map_get_or [] m c)) m else m)"

text \<open>\<open>left\<close>: whether \<open>leave\<close> of the client succeeded; a failure skips the sound only.\<close>

definition handleLeaveVoice :: "voice_env \<Rightarrow> bool \<Rightarrow> voice_state \<Rightarrow> voice_state \<times> voice_effect list" where
  "handleLeaveVoice env left s =
     (s\<lparr>vo_channel := 0, vo_remote := [], vo_quality := [], vo_detached := {}, vo_speakers := {}, vo_status := Connected,
        vo_mic := True, vo_deafened := False, vo_camera := False, vo_cameraStarting := False, vo_switching := False,
        vo_screen := False, vo_togglingScreen := False,
        vo_participants := left_participants env (vo_channel s) (vo_participants s)\<rparr>,
      (if ve_client env then [LeaveCall] else []) @ (if left then [LeaveSound] else []))"

section \<open>Microphone and deafening\<close>

definition update_own :: "voice_env \<Rightarrow> (VoiceParticipant \<Rightarrow> VoiceParticipant) \<Rightarrow> voice_state \<Rightarrow> voice_state" where
  "update_own env f s = (case current_user env of None \<Rightarrow> s
   | Some u \<Rightarrow> (if vo_channel s \<le> 0 then s else case map_get (vo_participants s) (vo_channel s) of None \<Rightarrow> s
     | Some channel \<Rightarrow> (if u \<notin> vp_user_id ` set channel then s
         else s\<lparr>vo_participants := map_set (vo_channel s) (update_first (\<lambda>p. vp_user_id p = u) f channel)
           (vo_participants s)\<rparr>)))"

definition set_microphone :: "voice_env \<Rightarrow> bool \<Rightarrow> voice_effect list" where
  "set_microphone env on = (if ve_client env then [SetMicrophone on] else [])"

definition send_status :: "voice_env \<Rightarrow> bool \<Rightarrow> bool \<Rightarrow> voice_state \<Rightarrow> voice_effect list" where
  "send_status env mic deafened s = (case current_user env of None \<Rightarrow> []
   | Some u \<Rightarrow> if 0 < vo_channel s \<and> ve_socket env then [SendVoiceStatus u mic deafened] else [])"

definition toggleMicrophone :: "voice_env \<Rightarrow> voice_state \<Rightarrow> voice_state \<times> voice_effect list" where
  "toggleMicrophone env s =
     (if vo_deafened s then (s, [])
      else let next = (\<not> vo_mic s)
           in (update_own env (\<lambda>p. p\<lparr>vp_mic_enabled := Some next\<rparr>) (s\<lparr>vo_mic := next\<rparr>),
               set_microphone env next @ send_status env next (vo_deafened s) s))"

definition toggleDeafen :: "voice_env \<Rightarrow> voice_state \<Rightarrow> voice_state \<times> voice_effect list" where
  "toggleDeafen env s =
     (if \<not> vo_deafened s
      then (update_own env (\<lambda>p. p\<lparr>vp_mic_enabled := Some False, vp_deafened := Some True\<rparr>)
              (s\<lparr>vo_micBeforeDeafen := vo_mic s, vo_deafened := True, vo_mic := False\<rparr>),
            set_microphone env False @ send_status env False True s)
      else let restoreMic = vo_micBeforeDeafen s
           in (update_own env (\<lambda>p. p\<lparr>vp_mic_enabled := Some restoreMic, vp_deafened := Some False\<rparr>)
                 (s\<lparr>vo_deafened := False, vo_mic := restoreMic\<rparr>),
               set_microphone env restoreMic @ send_status env restoreMic False s))"

section \<open>Camera, screen and noise suppression\<close>

definition toggleCamera_start :: "voice_env \<Rightarrow> voice_state \<Rightarrow> voice_state \<times> voice_effect list" where
  "toggleCamera_start env s =
     (if \<not> ve_client env \<or> vo_cameraStarting s \<or> vo_switching s then (s, [])
      else (s\<lparr>vo_cameraStarting := (\<not> vo_camera s), vo_error := []\<rparr>, [SetCamera (\<not> vo_camera s)]))"

definition toggleCamera_done :: "bool \<Rightarrow> string + unit \<Rightarrow> voice_state \<Rightarrow> voice_state" where
  "toggleCamera_done next res s = (case res of
     Inr _ \<Rightarrow> s\<lparr>vo_camera := next, vo_cameraStarting := False\<rparr>
   | Inl message \<Rightarrow> s\<lparr>vo_camera := False, vo_error := message, vo_cameraStarting := False\<rparr>)"

definition switchCameraFacingMode_start :: "voice_env \<Rightarrow> voice_state \<Rightarrow> voice_state \<times> voice_effect list" where
  "switchCameraFacingMode_start env s = (if \<not> ve_client env \<or> vo_switching s then (s, [])
     else (s\<lparr>vo_switching := True, vo_error := []\<rparr>, [ToggleFacing]))"

definition switchCameraFacingMode_done :: "string + unit \<Rightarrow> voice_state \<Rightarrow> voice_state" where
  "switchCameraFacingMode_done res s = (case res of
     Inr _ \<Rightarrow> s\<lparr>vo_switching := False\<rparr> | Inl message \<Rightarrow> s\<lparr>vo_error := message, vo_switching := False\<rparr>)"

definition toggleScreenShare_start :: "voice_env \<Rightarrow> voice_state \<Rightarrow> voice_state \<times> voice_effect list" where
  "toggleScreenShare_start env s = (if \<not> ve_client env \<or> vo_togglingScreen s \<or> vo_switching s then (s, [])
     else (s\<lparr>vo_togglingScreen := True, vo_error := []\<rparr>, [ToggleScreen]))"

definition toggleScreenShare_done :: "string + bool \<Rightarrow> voice_state \<Rightarrow> voice_state" where
  "toggleScreenShare_done res s = (case res of
     Inr nextState \<Rightarrow> s\<lparr>vo_screen := nextState, vo_togglingScreen := False\<rparr>
   | Inl message \<Rightarrow> s\<lparr>vo_error := message, vo_togglingScreen := False\<rparr>)"

definition setNoiseSuppression :: "voice_env \<Rightarrow> NoiseSuppressionMode \<Rightarrow> voice_state \<Rightarrow> voice_state \<times> voice_effect list" where
  "setNoiseSuppression env mode s = (s\<lparr>vo_noise := mode\<rparr>, if ve_client env then [SetNoiseMode mode] else [])"

definition toggleNoiseSuppression :: "voice_env \<Rightarrow> voice_state \<Rightarrow> voice_state \<times> voice_effect list" where
  "toggleNoiseSuppression env s =
     setNoiseSuppression env (if vo_noise s = NoiseRnnoise then NoiseBrowser else NoiseRnnoise) s"

section \<open>What the page shows\<close>

definition voiceParticipantsInChannel :: "voice_state \<Rightarrow> VoiceParticipant list" where
  "voiceParticipantsInChannel s = map_get_or [] (vo_participants s) (vo_channel s)"

definition detachedUserIds :: "voice_state \<Rightarrow> int set" where
  "detachedUserIds s = vo_detached s
     \<union> vp_user_id ` set (filter (\<lambda>p. vp_detached p = Some True) (voiceParticipantsInChannel s))"

definition connectionQuality :: "voice_state \<Rightarrow> PeerQuality option" where
  "connectionQuality s = aggregateQuality (map snd (record_entries (vo_quality s)))"

section \<open>The machine\<close>

datatype voice_input =
    VToggleMicrophone
  | VToggleDeafen
  | VJoin int
  | VJoinDone int "string + JoinVoiceResponse"
  | VLeave bool
  | VRestored
  | VUserJoined VoiceUserEvent
  | VUserLeft VoiceUserEvent
  | VStatusChanged VoiceUserEvent
  | VDetached VoiceUserEvent
  | VResumed VoiceUserEvent
  | VSpeakers int "int list"
  | VSynced VoiceParticipantsByChannel
  | VStream VoiceParticipant nat
  | VStreamGone int
  | VLocalStream bool "nat option"
  | VLocalScreen "nat option"
  | VQuality "(int \<times> PeerQuality) list"
  | VCallStatus CallStatus
  | VError string
  | VCamera
  | VCameraDone bool "string + unit"
  | VFacing
  | VFacingDone "string + unit"
  | VScreen
  | VScreenDone "string + bool"
  | VNoise NoiseSuppressionMode
  | VNoiseToggle
  | VNoiseEffective NoiseSuppressionMode

fun voice_step :: "voice_env \<Rightarrow> voice_state \<Rightarrow> voice_input \<Rightarrow> voice_state \<times> voice_effect list" where
  "voice_step env s VToggleMicrophone = toggleMicrophone env s"
| "voice_step env s VToggleDeafen = toggleDeafen env s"
| "voice_step env s (VJoin c) = handleJoinVoice_start env c s"
| "voice_step env s (VJoinDone previous res) = handleJoinVoice_done env previous res s"
| "voice_step env s (VLeave left) = handleLeaveVoice env left s"
| "voice_step env s VRestored = onReconnectRestored env s"
| "voice_step env s (VUserJoined e) = (onVoiceUserJoined e s, [])"
| "voice_step env s (VUserLeft e) = (onVoiceUserLeft e s, [])"
| "voice_step env s (VStatusChanged e) = (onVoiceStatusChanged e s, [])"
| "voice_step env s (VDetached e) = (onVoiceUserDetached e s, [])"
| "voice_step env s (VResumed e) = (onVoiceUserResumed e s, [])"
| "voice_step env s (VSpeakers c userIds) = (onSfuActiveSpeakers c userIds s, [])"
| "voice_step env s (VSynced m) = (s\<lparr>vo_participants := m\<rparr>, [])"
| "voice_step env s (VStream p stream) = (onParticipantStream p stream s, [])"
| "voice_step env s (VStreamGone u) = (onParticipantLeft u s, [])"
| "voice_step env s (VLocalStream screenActive stream) = (onLocalStream screenActive stream s, [])"
| "voice_step env s (VLocalScreen stream) = (onLocalScreenStream stream s, [])"
| "voice_step env s (VQuality quality) = (s\<lparr>vo_quality := quality\<rparr>, [])"
| "voice_step env s (VCallStatus status) = (s\<lparr>vo_status := status\<rparr>, [])"
| "voice_step env s (VError message) = (s\<lparr>vo_error := message\<rparr>, [])"
| "voice_step env s VCamera = toggleCamera_start env s"
| "voice_step env s (VCameraDone next res) = (toggleCamera_done next res s, [])"
| "voice_step env s VFacing = switchCameraFacingMode_start env s"
| "voice_step env s (VFacingDone res) = (switchCameraFacingMode_done res s, [])"
| "voice_step env s VScreen = toggleScreenShare_start env s"
| "voice_step env s (VScreenDone res) = (toggleScreenShare_done res s, [])"
| "voice_step env s (VNoise mode) = setNoiseSuppression env mode s"
| "voice_step env s VNoiseToggle = toggleNoiseSuppression env s"
| "voice_step env s (VNoiseEffective mode) = (s\<lparr>vo_noise := mode\<rparr>, [])"

end
