(* ===== verification/VoiceProps.thy ===== *)
theory VoiceProps
  imports Voice
begin

text \<open>
  The voice controls against the server: what the others are told of the microphone, what is forgotten when a session
  is opened anew, who is listed as a participant, and who is shown as detached.
\<close>

section \<open>Inputs that leave the controls alone\<close>

text \<open>Every input but the two buttons, a successful join and leaving.\<close>

fun quiet :: "voice_input \<Rightarrow> bool" where
  "quiet VToggleMicrophone = False"
| "quiet VToggleDeafen = False"
| "quiet (VJoinDone previous res) = (case res of Inl _ \<Rightarrow> True | Inr _ \<Rightarrow> False)"
| "quiet (VLeave left) = False"
| "quiet _ = True"

definition controls :: "voice_state \<Rightarrow> bool \<times> bool \<times> bool \<times> int" where
  "controls s = (vo_mic s, vo_deafened s, vo_micBeforeDeafen s, vo_channel s)"

named_theorems voice_defs \<open>the handlers of the voice controls\<close>

lemmas [voice_defs] = toggleMicrophone_def toggleDeafen_def handleJoinVoice_start_def handleJoinVoice_done_def
  handleLeaveVoice_def onReconnectRestored_def onVoiceUserJoined_def onVoiceUserLeft_def onVoiceStatusChanged_def
  onVoiceUserDetached_def onVoiceUserResumed_def onSfuActiveSpeakers_def onParticipantStream_def onParticipantLeft_def
  onLocalStream_def onLocalScreenStream_def toggleCamera_start_def toggleCamera_done_def
  switchCameraFacingMode_start_def switchCameraFacingMode_done_def toggleScreenShare_start_def
  toggleScreenShare_done_def setNoiseSuppression_def toggleNoiseSuppression_def

lemma controls_update_own [simp]: "controls (update_own env f s) = controls s"
  by (simp add: update_own_def controls_def split: option.split)

lemma update_own_fields [simp]:
  "vo_mic (update_own env f s) = vo_mic s" "vo_deafened (update_own env f s) = vo_deafened s"
  "vo_micBeforeDeafen (update_own env f s) = vo_micBeforeDeafen s" "vo_channel (update_own env f s) = vo_channel s"
  using controls_update_own [of env f s] by (simp_all add: controls_def)

lemma quiet_step: "quiet e \<Longrightarrow> controls (fst (voice_step env s e)) = controls s"
  by (cases e) (auto simp: voice_defs controls_def Let_def split: sum.splits)

text \<open>What the server and the track hold: the microphone and deafening as others see them, and whether the captured
  track is enabled. A session that is opened starts with the microphone on.\<close>

type_synonym told = "bool \<times> bool \<times> bool"

fun told_of :: "told \<Rightarrow> voice_effect \<Rightarrow> told" where
  "told_of (m, d, t) (SendVoiceStatus u mic deafened) = (mic, deafened, t)"
| "told_of (m, d, t) (SetMicrophone on) = (m, d, on)"
| "told_of (m, d, t) (RejoinCall c) = (True, False, t)"
| "told_of (m, d, t) e = (m, d, t)"

lemma quiet_tells: "quiet e \<Longrightarrow> e \<noteq> VRestored \<Longrightarrow> foldl told_of x (snd (voice_step env s e)) = x"
  by (cases x; cases e) (auto simp: voice_defs Let_def split: sum.splits)

text \<open>While deafened, the button of the microphone does nothing either.\<close>

lemma idle_step:
  assumes "quiet e \<and> e \<noteq> VRestored \<or> e = VToggleMicrophone \<and> vo_deafened s"
  shows "controls (fst (voice_step env s e)) = controls s \<and> foldl told_of x (snd (voice_step env s e)) = x"
  using assms quiet_step [of e env s] quiet_tells [of e x env s] by (auto simp: toggleMicrophone_def)

lemma idle_run:
  "\<forall>e \<in> set es. quiet e \<and> e \<noteq> VRestored \<or> e = VToggleMicrophone \<and> vo_deafened s \<Longrightarrow>
     exec_run (voice_step env) s es = (t, os) \<Longrightarrow> controls t = controls s \<and> foldl told_of x os = x"
proof (induction es arbitrary: s t os)
  case Nil
  then show ?case by simp
next
  case (Cons e es)
  obtain s1 os1 where 1: "voice_step env s e = (s1, os1)" by fastforce
  obtain t2 os2 where 2: "exec_run (voice_step env) s1 es = (t2, os2)" by fastforce
  have s1: "controls s1 = controls s \<and> foldl told_of x os1 = x" using idle_step [of e s env x] 1 Cons.prems(1) by auto
  then have "vo_deafened s1 = vo_deafened s" by (simp add: controls_def)
  with Cons.IH [OF _ 2] Cons.prems(1) have "controls t2 = controls s1 \<and> foldl told_of x os2 = x" by simp
  with s1 1 2 Cons.prems(2) show ?case by auto
qed
section \<open>The microphone and the server\<close>

text \<open>The phase of the call: outside, between the request to join and its answer, or in a session. A toggle is only
  taken when no join is under way; a reconnection resumes the session.\<close>

datatype call_phase = Outside | Joining | InCall

type_synonym tracked = "voice_state \<times> call_phase \<times> told"

fun tracked_enabled :: "tracked \<Rightarrow> voice_input \<Rightarrow> bool" where
  "tracked_enabled (s, ph, x) VToggleMicrophone = (ph \<noteq> Joining)"
| "tracked_enabled (s, ph, x) VToggleDeafen = (ph \<noteq> Joining)"
| "tracked_enabled (s, ph, x) (VJoinDone previous res) =
     (ph = Joining \<and> (case res of Inl _ \<Rightarrow> True | Inr r \<Rightarrow> 0 < jr_channel_id r))"
| "tracked_enabled (s, ph, x) (VLeave left) = (ph \<noteq> Joining)"
| "tracked_enabled (s, ph, x) e = True"

fun phase_after :: "call_phase \<Rightarrow> voice_input \<Rightarrow> voice_effect list \<Rightarrow> call_phase" where
  "phase_after ph (VJoin c) os = (if os = [] then ph else Joining)"
| "phase_after ph (VJoinDone previous res) os = (case res of Inl _ \<Rightarrow> Outside | Inr _ \<Rightarrow> InCall)"
| "phase_after ph (VLeave left) os = Outside"
| "phase_after ph e os = ph"

fun told_after :: "told \<Rightarrow> voice_input \<Rightarrow> voice_effect list \<Rightarrow> told" where
  "told_after x (VJoinDone previous res) os = (case res of Inl _ \<Rightarrow> x | Inr _ \<Rightarrow> (True, False, True))"
| "told_after x VRestored os = x"
| "told_after x e os = foldl told_of x os"

fun tracked_step :: "voice_env \<Rightarrow> tracked \<Rightarrow> voice_input \<Rightarrow> tracked \<times> voice_effect list" where
  "tracked_step env (s, ph, x) e = (let (t, os) = voice_step env s e in ((t, phase_after ph e os, told_after x e os), os))"

definition in_step :: "tracked \<Rightarrow> bool" where
  "in_step = (\<lambda>(s, ph, x). (vo_deafened s \<longrightarrow> \<not> vo_mic s)
     \<and> (ph = InCall \<longrightarrow> 0 < vo_channel s \<and> x = (vo_mic s, vo_deafened s, vo_mic s)))"

lemma in_step_quiet:
  "in_step (s, ph, x) \<Longrightarrow> quiet e \<Longrightarrow> in_step (fst (tracked_step env (s, ph, x) e))"
proof -
  assume inv: "in_step (s, ph, x)" and p: "quiet e"
  obtain t os where st: "voice_step env s e = (t, os)" by fastforce
  have c: "controls t = controls s" using quiet_step [OF p, of env s] st by simp
  have tl: "told_after x e os = x"
    using quiet_tells [OF p, of x env s] st p by (cases e) (auto split: sum.splits)
  have "phase_after ph e os = InCall \<Longrightarrow> ph = InCall" using p by (cases e) (auto split: sum.splits if_splits)
  with inv c tl st show ?thesis by (auto simp: in_step_def controls_def)
qed

lemma in_step_step:
  assumes env: "current_user env = Some u" "ve_client env" "ve_socket env"
    and inv: "in_step g" and en: "tracked_enabled g e"
  shows "in_step (fst (tracked_step env g e))"
proof -
  obtain s ph x where g: "g = (s, ph, x)" by (cases g) auto
  show ?thesis
  proof (cases "quiet e")
    case True
    with inv g in_step_quiet show ?thesis by blast
  next
    case False
    then show ?thesis using env inv en unfolding g
      by (cases e; cases x; cases ph)
        (auto simp: in_step_def voice_defs set_microphone_def send_status_def Let_def split: sum.splits)
  qed
qed

definition speaks :: "voice_env \<Rightarrow> bool" where
  "speaks env \<longleftrightarrow> current_user env \<noteq> None \<and> ve_client env \<and> ve_socket env"

interpretation voice: machine_invariant tracked_enabled "tracked_step env" "\<lambda>g. speaks env \<longrightarrow> in_step g" for env
  by unfold_locales (auto simp: speaks_def intro: in_step_step)


definition me :: voice_env where
  "me = \<lparr>ve_currentUserId = Some 7, ve_first_name = None, ve_last_name = None, ve_nickname = Some ''me'',
     ve_avatarUrl = [], ve_client = True, ve_socket = True\<rparr>"

definition voice_answer :: JoinVoiceResponse where
  "voice_answer = \<lparr>jr_channel_id = 3, jr_participants = [(bare_participant 8)\<lparr>vp_detached := Some True\<rparr>],
     jr_session_id = Some ''s'', jr_publish_slots = None\<rparr>"

definition muted_call :: "voice_input list" where
  "muted_call = [VJoin 3, VJoinDone 0 (Inr voice_answer), VToggleMicrophone, VToggleDeafen]"


text \<open>When the reconnection opens a new session instead (\<open>RejoinCall\<close> resets what the server holds), a muted or
  deafened user is announced to the others with the microphone on and not deafened, and stays so: nothing but a toggle
  or another join tells the server better, while the buttons still show the old state.\<close>

theorem rejoin_forgets_mute:
  assumes "vo_deafened s \<or> \<not> vo_mic s" and "ve_client env" and "0 < vo_channel s"
    and "\<forall>e \<in> set es. quiet e \<and> e \<noteq> VRestored"
    and "exec_run (voice_step env) s (VRestored # es) = (t, os)"
  shows "\<exists>track'. foldl told_of (vo_mic s, vo_deafened s, track) os = (True, False, track')
    \<and> (vo_mic t, vo_deafened t) \<noteq> (True, False)"
proof -
  obtain os1 where 1: "exec_run (voice_step env) s es = (t, os1)" and os: "os = RejoinCall (vo_channel s) # os1"
    using assms(2,3,5) by (auto simp: onReconnectRestored_def split: prod.splits)
  have "controls t = controls s" "foldl told_of (True, False, track) os1 = (True, False, track)"
    using idle_run [OF _ 1, of "(True, False, track)"] assms(4) by auto
  with assms(1) show ?thesis by (auto simp: os controls_def)
qed

definition deaf_call :: voice_state where
  "deaf_call = no_voice\<lparr>vo_channel := 3, vo_deafened := True, vo_mic := False\<rparr>"

theorem rejoin_forgets_mute_witness:
  "\<exists>track'. foldl told_of (False, True, False)
     (snd (exec_run (voice_step me) deaf_call [VRestored, VCallStatus Connected])) = (True, False, track')"
proof -
  obtain t os where "exec_run (voice_step me) deaf_call (VRestored # [VCallStatus Connected]) = (t, os)" by fastforce
  moreover have "vo_deafened deaf_call" "\<not> vo_mic deaf_call" "0 < vo_channel deaf_call" "ve_client me"
    by (simp_all add: deaf_call_def me_def)
  ultimately show ?thesis using rejoin_forgets_mute [of deaf_call me "[VCallStatus Connected]" t os False] by auto
qed

text \<open>Deafening and undeafening puts the microphone back as it was, whatever happens in between short of joining or
  leaving, and the button of the microphone does nothing meanwhile; both toggles tell the server and the track.\<close>

theorem deafen_restores_microphone:
  assumes "\<not> vo_deafened s" and "current_user env = Some u" and "ve_client env" and "ve_socket env" and "0 < vo_channel s"
    and "\<forall>e \<in> set es. quiet e \<and> e \<noteq> VRestored \<or> e = VToggleMicrophone"
    and "exec_run (voice_step env) (fst (toggleDeafen env s)) es = (d, os)"
  shows "vo_deafened d \<and> \<not> vo_mic d \<and> foldl told_of x os = x
    \<and> snd (toggleDeafen env s) = [SetMicrophone False, SendVoiceStatus u False True]
    \<and> \<not> vo_deafened (fst (toggleDeafen env d)) \<and> vo_mic (fst (toggleDeafen env d)) = vo_mic s
    \<and> snd (toggleDeafen env d) = [SetMicrophone (vo_mic s), SendVoiceStatus u (vo_mic s) False]"
proof -
  have "vo_deafened (fst (toggleDeafen env s))" using assms(1) by (simp add: toggleDeafen_def)
  with idle_run [OF _ assms(7), of x] assms(6)
  have "controls d = controls (fst (toggleDeafen env s))" "foldl told_of x os = x" by auto
  moreover have "controls (fst (toggleDeafen env s)) = (False, True, vo_mic s, vo_channel s)"
    using assms(1) by (simp add: toggleDeafen_def) (simp add: controls_def)
  ultimately show ?thesis using assms(1-5)
    by (auto simp: controls_def toggleDeafen_def set_microphone_def send_status_def)
qed

theorem deafen_restores_microphone_witness:
  "vo_mic (fst (toggleDeafen me (fst (exec_run (voice_step me)
     (fst (toggleDeafen me (no_voice\<lparr>vo_channel := 3\<rparr>))) [VToggleMicrophone, VSpeakers 3 [8]]))))"
proof -
  let ?s = "no_voice\<lparr>vo_channel := 3\<rparr>"
  obtain d os where r: "exec_run (voice_step me) (fst (toggleDeafen me ?s)) [VToggleMicrophone, VSpeakers 3 [8]] = (d, os)"
    by fastforce
  have "\<not> vo_deafened ?s" "0 < vo_channel ?s" "vo_mic ?s" "current_user me = Some 7" "ve_client me" "ve_socket me"
    by (simp_all add: no_voice_def me_def current_user_def)
  with deafen_restores_microphone [OF _ _ _ _ _ _ r, of 7] r show ?thesis by simp
qed

end
