(* ===== verification/VoicePeople.thy ===== *)
theory VoicePeople
  imports VoiceProps ServersProps
begin

text \<open>Who is listed in the voice channels, and who is shown as detached.\<close>

section \<open>Lists of participants\<close>

definition ids_of :: "VoiceParticipant list \<Rightarrow> int list" where
  "ids_of ps = map vp_user_id ps"

definition listed_once :: "VoiceParticipantsByChannel \<Rightarrow> bool" where
  "listed_once m \<longleftrightarrow> (\<forall>c \<in> set (map_keys m). distinct (ids_of (map_get_or [] m c)))"

lemma listed_once_iff: "listed_once m \<longleftrightarrow> (\<forall>c. distinct (ids_of (map_get_or [] m c)))"
proof -
  have "distinct (ids_of (map_get_or [] m c))" if "c \<notin> set (map_keys m)" for c
  proof -
    from that have "map_get m c = None" using map_get_keys by metis
    then show ?thesis by (simp add: map_get_or_def ids_of_def)
  qed
  then show ?thesis unfolding listed_once_def by blast
qed

lemma ids_without [simp]: "ids_of (without_user u ps) = filter (\<lambda>i. i \<noteq> u) (ids_of ps)"
  by (induction ps) (simp_all add: ids_of_def without_user_def)

lemma ids_update_first: "(\<And>p. P p \<Longrightarrow> vp_user_id (f p) = vp_user_id p) \<Longrightarrow> ids_of (update_first P f ps) = ids_of ps"
  by (induction ps) (simp_all add: ids_of_def)

lemma spread_user_id [simp]: "vp_user_id (spread_participant spelled old new) = vp_user_id new"
  by (simp add: spread_participant_def)

lemma ids_spread: "vp_user_id q = u \<Longrightarrow>
    ids_of (update_first (\<lambda>p. vp_user_id p = u) (\<lambda>p. spread_participant False p q) ps) = ids_of ps"
  by (rule ids_update_first) simp

lemma get_set_or_drop: "map_get_or [] (set_or_drop c ps m) c' = (if c' = c then ps else map_get_or [] m c')"
  by (simp add: set_or_drop_def map_get_or_def)

lemma get_set_or_drop_Some: "map_get (set_or_drop c ps m) c \<noteq> Some []"
  by (simp add: set_or_drop_def)

lemma listed_once_set: "listed_once m \<Longrightarrow> distinct (ids_of ps) \<Longrightarrow> listed_once (map_set c ps m)"
  by (simp add: listed_once_iff)

lemma listed_once_drop: "listed_once m \<Longrightarrow> distinct (ids_of ps) \<Longrightarrow> listed_once (set_or_drop c ps m)"
  by (simp add: listed_once_iff get_set_or_drop)

lemma listed_once_get: "listed_once m \<Longrightarrow> map_get m c = Some ps \<Longrightarrow> distinct (ids_of ps)"
  unfolding listed_once_iff by (drule spec [of _ c]) (simp add: map_get_or_def)

lemma distinct_without: "distinct (ids_of ps) \<Longrightarrow> distinct (ids_of (without_user u ps))"
  by simp

lemma listed_once_update:
  assumes "listed_once m" and "map_get m c = Some ps" and "\<And>p. P p \<Longrightarrow> vp_user_id (f p) = vp_user_id p"
  shows "listed_once (map_set c (update_first P f ps) m)"
  using assms(1,2) by (intro listed_once_set) (simp_all add: ids_update_first [OF assms(3)] listed_once_get)

lemma listed_once_own:
  assumes "listed_once (vo_participants s)" and "\<And>p. vp_user_id (f p) = vp_user_id p"
  shows "listed_once (vo_participants (update_own env f s))"
  using assms by (auto simp: update_own_def intro: listed_once_update split: option.split)

lemma listed_once_left: "listed_once m \<Longrightarrow> listed_once (left_participants env c m)"
  by (auto simp: left_participants_def listed_once_iff get_set_or_drop split: option.split)

lemma listed_once_joined:
  assumes "listed_once m" and "distinct (ids_of (jr_participants r))"
  shows "listed_once (joined_participants env previous r m)"
proof -
  have "listed_once (leave_previous u previous c m)" for u c
    using assms(1) by (auto simp: leave_previous_def intro!: listed_once_drop dest: listed_once_get split: option.split)
  moreover have "distinct (ids_of (self_participant env u # without_user u (jr_participants r)))" for u
    using assms(2) by (auto simp: ids_of_def self_participant_def without_user_def distinct_map_filter)
  ultimately show ?thesis using assms(1)
    by (auto simp: joined_participants_def intro: listed_once_set split: option.split)
qed

fun lists_once :: "voice_state \<Rightarrow> voice_input \<Rightarrow> bool" where
  "lists_once s (VJoinDone previous res) = (case res of Inl _ \<Rightarrow> True | Inr r \<Rightarrow> distinct (ids_of (jr_participants r)))"
| "lists_once s (VSynced m) = listed_once m"
| "lists_once s e = True"

lemma listed_once_step:
  assumes "listed_once (vo_participants s)" and "lists_once s e"
  shows "listed_once (vo_participants (fst (voice_step env s e)))"
proof (cases e)
  case (VUserJoined ev)
  let ?ps = "map_get_or [] (vo_participants s) (vue_channel_id ev)"
  have "distinct (ids_of ?ps)" using assms(1) by (simp add: listed_once_iff)
  then show ?thesis using assms(1) VUserJoined
    by (auto simp: onVoiceUserJoined_def Let_def ids_of_def intro!: listed_once_set)
next
  case (VUserLeft ev)
  have "distinct (ids_of (map_get_or [] (vo_participants s) (vue_channel_id ev)))"
    using assms(1) by (simp add: listed_once_iff)
  then show ?thesis using assms(1) VUserLeft
    by (simp add: onVoiceUserLeft_def Let_def listed_once_drop)
next
  case (VStatusChanged ev)
  have "distinct (ids_of (map_get_or [] (vo_participants s) (vue_channel_id ev)))"
    using assms(1) by (simp add: listed_once_iff)
  then show ?thesis using assms(1) VStatusChanged
    by (auto simp: onVoiceStatusChanged_def Let_def ids_spread intro!: listed_once_set)
next
  case VToggleMicrophone
  with assms(1) show ?thesis by (simp add: toggleMicrophone_def Let_def listed_once_own)
next
  case VToggleDeafen
  with assms(1) show ?thesis by (simp add: toggleDeafen_def Let_def listed_once_own)
next
  case (VJoinDone previous res)
  with assms show ?thesis by (cases res) (simp_all add: handleJoinVoice_done_def listed_once_joined)
qed (use assms in \<open>simp_all add: voice_defs listed_once_left Let_def split: sum.split\<close>)

interpretation people: machine_invariant lists_once "voice_step env" "\<lambda>s. listed_once (vo_participants s)" for env
  by unfold_locales (rule listed_once_step)

text \<open>In every channel each user is listed once: joins and leaves that arrive more than once, in any order, or about
  users that are not there, one's own join and leave, toggles and synchronisations all keep that, provided the lists of
  the server have each user once.\<close>

theorem participants_listed_once:
  assumes "run lists_once (voice_step env) no_voice es t os" and "map_get (vo_participants t) c = Some ps"
  shows "distinct (map vp_user_id ps)"
  using people.inv_run [OF assms(1)] listed_once_get [OF _ assms(2)]
  by (simp add: no_voice_def listed_once_iff map_get_or_def ids_of_def)

definition joined_twice :: "voice_input list" where
  "joined_twice = [VUserJoined \<lparr>vue_channel_id = 3, vue_user = bare_participant 8\<rparr>,
     VUserJoined \<lparr>vue_channel_id = 3, vue_user = bare_participant 8\<rparr>, VJoin 3, VJoinDone 0 (Inr voice_answer)]"

theorem participants_listed_once_witness:
  "\<exists>t os ps. run lists_once (voice_step me) no_voice joined_twice t os \<and> map_get (vo_participants t) 3 = Some ps
     \<and> length ps = 2 \<and> distinct (map vp_user_id ps)"
proof -
  let ?r = "exec_run (voice_step me) no_voice joined_twice"
  have "enabled_run lists_once (voice_step me) no_voice joined_twice" by code_simp
  then have r: "run lists_once (voice_step me) no_voice joined_twice (fst ?r) (snd ?r)" by (rule exec_run_run) simp
  have "map_option length (map_get (vo_participants (fst ?r)) 3) = Some 2" by code_simp
  then obtain ps where ps: "map_get (vo_participants (fst ?r)) 3 = Some ps" "length ps = 2" by auto
  from participants_listed_once [OF r ps(1)] r ps show ?thesis by blast
qed

lemma get_leave_previous:
  assumes "0 < previous" and "previous \<noteq> c"
  shows "map_get_or [] (leave_previous u previous c m) previous = without_user u (map_get_or [] m previous)"
    and "map_get (leave_previous u previous c m) previous \<noteq> Some []"
proof -
  have "map_get_or [] m previous = (case map_get m previous of None \<Rightarrow> [] | Some ps \<Rightarrow> ps)" by (simp add: map_get_or_def)
  with assms show "map_get_or [] (leave_previous u previous c m) previous = without_user u (map_get_or [] m previous)"
    and "map_get (leave_previous u previous c m) previous \<noteq> Some []"
    by (simp_all add: leave_previous_def get_set_or_drop get_set_or_drop_Some without_user_def split: option.split)
qed

text \<open>Joining from another channel moves the user: out of the old channel, which disappears when empty, and first
  in the new one, before the others of the answer. No other channel changes, and leaving then takes the user out of
  the new one again.\<close>

theorem join_moves_self:
  assumes "current_user env = Some u" and "jr_channel_id r = c" and "0 < c" and "0 < previous" and "previous \<noteq> c"
    and "fst (handleJoinVoice_done env previous (Inr r) s) = t" and "fst (handleLeaveVoice env left t) = w"
  shows "vo_channel t = c \<and> map_get (vo_participants t) c
       = Some (self_participant env u # without_user u (jr_participants r))
    \<and> map_get_or [] (vo_participants t) previous = without_user u (map_get_or [] (vo_participants s) previous)
    \<and> map_get (vo_participants t) previous \<noteq> Some []
    \<and> (\<forall>c'. c' \<noteq> c \<and> c' \<noteq> previous \<longrightarrow> map_get (vo_participants t) c' = map_get (vo_participants s) c')
    \<and> map_get_or [] (vo_participants w) c = without_user u (jr_participants r)"
proof -
  let ?own = "self_participant env u # without_user u (jr_participants r)"
  have t: "vo_channel t = c" "vo_participants t = map_set c ?own (leave_previous u previous c (vo_participants s))"
    using assms(1,2,6) by (auto simp: handleJoinVoice_done_def joined_participants_def)
  have w: "vo_participants w = set_or_drop c (without_user u (map_get_or [] (vo_participants t) c)) (vo_participants t)"
    using assms(1,3,7) t(1) by (auto simp: handleLeaveVoice_def left_participants_def)
  have prev: "map_get_or [] (leave_previous u previous c m) previous = without_user u (map_get_or [] m previous)"
    "map_get (leave_previous u previous c m) previous \<noteq> Some []" for m
    using assms(4,5) by (simp_all add: get_leave_previous)
  have other: "c' \<noteq> previous \<Longrightarrow> map_get (leave_previous u previous c m) c' = map_get m c'" for c' m
    by (auto simp: leave_previous_def set_or_drop_def split: option.split)
  have "map_get_or [] (vo_participants t) c = ?own" by (simp add: t)
  then have "map_get_or [] (vo_participants w) c = without_user u ?own" by (simp add: w get_set_or_drop)
  also have "\<dots> = without_user u (jr_participants r)" by (simp add: without_user_def self_participant_def)
  finally show ?thesis using assms(5) prev other by (simp add: t)
qed

theorem join_moves_self_witness:
  "let s = no_voice\<lparr>vo_participants := [(2, [self_participant me 7])]\<rparr>; t = fst (handleJoinVoice_done me 2 (Inr voice_answer) s)
   in vo_channel t = 3 \<and> map_get_or [] (vo_participants t) 2 = [] \<and> map_get (vo_participants t) 2 \<noteq> Some []"
proof -
  let ?s = "no_voice\<lparr>vo_participants := [(2, [self_participant me 7])]\<rparr>"
  have "current_user me = Some 7" "jr_channel_id voice_answer = 3"
    by (simp_all add: me_def current_user_def voice_answer_def)
  moreover have "without_user 7 (map_get_or [] (vo_participants ?s) 2) = []" by code_simp
  ultimately show ?thesis
    using join_moves_self [of me 7 voice_answer 3 2 ?s _ True, OF _ _ _ _ _ refl refl] by (simp add: Let_def)
qed

lemma next_voice_from:
  assumes "map_get (next_voice valid entries) c = Some ps"
  shows "\<exists>(sid, st) \<in> set entries. ps \<in> vcp_participants ` set (snd st)"
proof -
  have "map_get (foldl (\<lambda>m entry. if vcp_channel_id entry \<in> valid
      then map_set (vcp_channel_id entry) (vcp_participants entry) m else m) m xs) c = Some ps
      \<Longrightarrow> map_get m c = Some ps \<or> ps \<in> vcp_participants ` set xs" for xs m
  proof (induction xs arbitrary: m)
    case (Cons x xs)
    from Cons.IH [of "if vcp_channel_id x \<in> valid then map_set (vcp_channel_id x) (vcp_participants x) m else m"]
      Cons.prems show ?case by (auto split: if_splits)
  qed simp
  from this [of "[]"] assms have "ps \<in> vcp_participants ` set (concat (map (\<lambda>(sid, st). snd st) entries))"
    unfolding next_voice_def by fastforce
  then show ?thesis by fastforce
qed

lemma collect_from: "q \<in> set (collect conv raw) \<Longrightarrow> \<exists>v. conv v = Some q"
  by (auto simp: collect_def List.map_filter_def split: option.splits)

lemma getServerChannelsState_voice:
  "getServerChannelsState_ack payload = Inr st \<Longrightarrow> snd st = collect channel_participants_of (js_get payload ''voice_participants'')"
  by (auto simp: getServerChannelsState_ack_def split: sum.splits)

lemma channel_participants_list:
  "channel_participants_of v = Some e \<Longrightarrow> vcp_participants e = collect participant_of (js_get v ''participants'')"
  by (auto simp: channel_participants_of_def split: option.splits)

lemma participant_not_detached: "participant_of v = Some q \<Longrightarrow> vp_detached q = None"
  by (auto simp: participant_of_def split: option.splits)

lemma parsed_not_detached:
  assumes "getServerChannelsState_ack payload = Inr st" and "e \<in> set (snd st)" and "p \<in> set (vcp_participants e)"
  shows "vp_detached p = None"
proof -
  from assms(2) obtain v where "channel_participants_of v = Some e"
    unfolding getServerChannelsState_voice [OF assms(1)] by (blast dest: collect_from)
  with assms(3) have "p \<in> set (collect participant_of (js_get v ''participants''))" by (simp add: channel_participants_list)
  then show ?thesis by (blast dest: collect_from participant_not_detached)
qed

text \<open>Joining during someone's grace period shows them as detached, from the flag in the answer. The next
  synchronisation, whatever the server says in it, keeps only what events have told: the parser of
  \<open>get_server_channels\<close> drops the flag.\<close>

theorem poll_drops_detached:
  assumes "p \<in> set (jr_participants r)" and "vp_detached p = Some True" and "current_user env = Some u"
    and "vp_user_id p \<noteq> u"
    and "remoteServers \<noteq> []" and "\<forall>(sid, st) \<in> set entries. \<exists>payload. getServerChannelsState_ack payload = Inr st"
    and "fst (handleJoinVoice_done env previous (Inr r) s) = t"
    and "fst (voice_step env t (VSynced (sv_voice (sync_done preferred dms remoteServers entries sv)))) = w"
  shows "vp_user_id p \<in> detachedUserIds t \<and> detachedUserIds w = {}"
proof -
  have t: "vo_detached t = {}" "vo_channel t = jr_channel_id r"
    "map_get (vo_participants t) (jr_channel_id r) = Some (self_participant env u # without_user u (jr_participants r))"
    using assms(3,7) by (auto simp: handleJoinVoice_done_def joined_participants_def)
  then have "p \<in> set (voiceParticipantsInChannel t)"
    using assms(1,4) by (simp add: voiceParticipantsInChannel_def map_get_or_def without_user_def)
  with assms(2) have shown: "vp_user_id p \<in> detachedUserIds t" by (auto simp: detachedUserIds_def)
  have "vp_detached q = None" if q: "q \<in> set (voiceParticipantsInChannel w)" for q
  proof -
    have "sv_voice (sync_done preferred dms remoteServers entries sv)
        = next_voice (ch_id ` set (all_channels (channels_by_server entries))) entries"
      using assms(5) by (simp add: sync_done_def Let_def)
    then obtain c ps valid where "map_get (next_voice valid entries) c = Some ps" "q \<in> set ps"
      using q assms(8) by (auto simp: voiceParticipantsInChannel_def map_get_or_def eq_commute [of "Some _"] split: option.splits)
    with next_voice_from [of valid entries c ps] obtain sid st e where
      e: "(sid, st) \<in> set entries" "e \<in> set (snd st)" "q \<in> set (vcp_participants e)" by force
    with assms(6) obtain payload where "getServerChannelsState_ack payload = Inr st" by fastforce
    with e(2,3) show ?thesis by (blast intro: parsed_not_detached)
  qed
  moreover have "vo_detached w = {}" using assms(8) t by auto
  ultimately have "detachedUserIds w = {}" by (auto simp: detachedUserIds_def)
  with shown show ?thesis by simp
qed

definition polled :: jsval where
  "polled = JObj [(''channels'', JArr [JObj [(''id'', JNum 3), (''server_id'', JNum 4), (''name'', JStr ''v'')]]),
     (''voice_participants'', JArr [JObj [(''channel_id'', JNum 3), (''participants'', JArr
        [JObj [(''user_id'', JNum 8), (''detached'', JBool True)]])]])]"

theorem poll_drops_detached_witness:
  "let t = fst (handleJoinVoice_done me 0 (Inr voice_answer) no_voice);
       st = (case getServerChannelsState_ack polled of Inr st \<Rightarrow> st | Inl _ \<Rightarrow> ([], []));
       w = fst (voice_step me t (VSynced (sv_voice (sync_done None {} [a_server 4] [(4, st)] no_servers))))
   in 8 \<in> detachedUserIds t \<and> detachedUserIds w = {} \<and> 8 \<in> set (ids_of (voiceParticipantsInChannel w))"
proof -
  let ?t = "fst (handleJoinVoice_done me 0 (Inr voice_answer) no_voice)"
    and ?st = "case getServerChannelsState_ack polled of Inr st \<Rightarrow> st | Inl _ \<Rightarrow> ([], [])"
  let ?w = "fst (voice_step me ?t (VSynced (sv_voice (sync_done None {} [a_server 4] [(4, ?st)] no_servers))))"
  let ?p = "(bare_participant 8)\<lparr>vp_detached := Some True\<rparr>"
  have "isl (getServerChannelsState_ack polled) = False" by code_simp
  then have "getServerChannelsState_ack polled = Inr ?st" by (cases "getServerChannelsState_ack polled") simp_all
  then have "\<forall>(sid, st) \<in> set [(4, ?st)]. \<exists>payload. getServerChannelsState_ack payload = Inr st" by auto
  moreover have "?p \<in> set (jr_participants voice_answer)" "current_user me = Some 7" "vp_user_id ?p = 8"
    by (simp_all add: voice_answer_def me_def current_user_def bare_participant_def)
  moreover have "8 \<in> set (ids_of (voiceParticipantsInChannel ?w))" by code_simp
  ultimately show ?thesis
    using poll_drops_detached [of ?p voice_answer me 7 "[a_server 4]" "[(4, ?st)]" 0 no_voice ?t None "{}" no_servers ?w]
    by (simp add: Let_def)
qed

end
