(* ===== verification/MessageText.thy ===== *)
theory MessageText
  imports Call "HOL-Library.While_Combinator"
begin

text \<open>
  What the client makes of the text of a message: links and their tails (\<^verbatim>\<open>services/links.ts\<close>), mentions being typed
  (\<^verbatim>\<open>services/mentions.ts\<close>, \<^verbatim>\<open>components/MessageInput.tsx\<close>), the length limit (\<^verbatim>\<open>services/messageLimits.ts\<close>), and the
  rendering of a text with its tokens (\<^verbatim>\<open>renderMessageContent\<close> in \<^verbatim>\<open>components/MessageList.tsx\<close>). A \<open>while\<close> loop of
  the code is \<open>while_option\<close>: \<open>None\<close> would be a loop that does not end.
\<close>

section \<open>Links\<close>

definition TRAILING_PUNCTUATION :: string where
  "TRAILING_PUNCTUATION = ''.,!?;:'' @ [CHR 0x27, CHR 0x22]"

definition countChar :: "string \<Rightarrow> char \<Rightarrow> nat" where
  "countChar value c = length (filter (\<lambda>current. current = c) value)"

definition trimUrlTail :: "string \<Rightarrow> string option" where
  "trimUrlTail raw = Option.bind
     (while_option (\<lambda>url. url \<noteq> [] \<and> last url \<in> set TRAILING_PUNCTUATION) butlast raw)
     (while_option (\<lambda>url. suffix '')'' url \<and> countChar url CHR '')'' > countChar url CHR ''('') butlast)"

section \<open>Rendering\<close>

datatype text_token = EveryoneToken | MentionToken string | LinkToken

text \<open>\<^verbatim>\<open>[^\s<>"']\<close>, and the token at the head of a text with what it matches: the alternatives of \<open>TOKEN_PATTERN\<close> in
  their order.\<close>

definition url_char :: "char \<Rightarrow> bool" where
  "url_char c \<longleftrightarrow> \<not> is_space c \<and> c \<notin> set [CHR ''<'', CHR ''>'', CHR 0x22, CHR 0x27]"

definition url_prefix :: "string \<Rightarrow> string option" where
  "url_prefix s = (if prefix ''https://'' s then Some ''https://'' else if prefix ''http://'' s then Some ''http://'' else None)"

definition match_here :: "string \<Rightarrow> (text_token \<times> string) option" where
  "match_here s =
     (let digits = takeWhile is_digit (drop 2 s)
      in if prefix ''<@'' s \<and> digits \<noteq> [] \<and> prefix ''>'' (drop (2 + length digits) s)
         then Some (MentionToken digits, ''<@'' @ digits @ ''>'')
         else if prefix ''@everyone'' s then Some (EveryoneToken, ''@everyone'')
         else case url_prefix s of
             None \<Rightarrow> None
           | Some scheme \<Rightarrow> (let rest = takeWhile url_char (drop (length scheme) s)
               in if rest = [] then None else Some (LinkToken, scheme @ rest)))"

fun next_match :: "nat \<Rightarrow> string \<Rightarrow> (nat \<times> text_token \<times> string) option" where
  "next_match i [] = None"
| "next_match i (c # s) = (case match_here (c # s) of
     Some (kind, token) \<Rightarrow> Some (i, kind, token)
   | None \<Rightarrow> next_match (Suc i) s)"

definition memberDisplayName :: "ServerMember \<Rightarrow> string" where
  "memberDisplayName member =
     (let nickname = (case mem_nickname member of Some n \<Rightarrow> trim n | None \<Rightarrow> []);
          orEmpty = (\<lambda>x. case x of Some n \<Rightarrow> n | None \<Rightarrow> []);
          fullName = trim (orEmpty (mem_first_name member) @ '' '' @ orEmpty (mem_last_name member))
      in if nickname \<noteq> [] then nickname else if fullName \<noteq> [] then fullName
         else ''User '' @ show_int (mem_user_id member))"

datatype text_part = PlainText string | EveryoneChip | MentionChip nat string | Anchor string

definition mention_label :: "(int \<times> ServerMember) list \<Rightarrow> nat \<Rightarrow> string" where
  "mention_label membersById userId = (case map_get membersById (int userId) of
     Some member \<Rightarrow> memberDisplayName member | None \<Rightarrow> ''user '' @ show_nat userId)"

definition plain_part :: "string \<Rightarrow> text_part list" where
  "plain_part s = (if s = [] then [] else [PlainText s])"

text \<open>One match of the loop: the part it makes, and how far the text is then used up. The next search starts behind the
  whole token, also when the tail of a link goes back to the text.\<close>

definition token_part :: "(int \<times> ServerMember) list \<Rightarrow> text_token \<Rightarrow> string \<Rightarrow> (text_part \<times> nat) option" where
  "token_part membersById kind token = (case kind of
     EveryoneToken \<Rightarrow> Some (EveryoneChip, length token)
   | MentionToken digits \<Rightarrow> Some (MentionChip (read_nat digits) (mention_label membersById (read_nat digits)), length token)
   | LinkToken \<Rightarrow> map_option (\<lambda>href. (Anchor href, length href)) (trimUrlTail token))"

lemma prefix_drop: "prefix a s \<Longrightarrow> prefix b (drop (length a) s) \<Longrightarrow> prefix (a @ b) s"
  by (auto simp: prefix_def)

lemma prefix_takeWhile: "prefix (takeWhile P s) s"
  by (metis prefix_def takeWhile_dropWhile_id)

lemma match_here_token: "match_here s = Some (kind, token) \<Longrightarrow> token \<noteq> [] \<and> prefix token s"
proof -
  assume m: "match_here s = Some (kind, token)"
  let ?d = "takeWhile is_digit (drop 2 s)"
  have mention: "prefix (''<@'' @ ?d @ ''>'') s" if "prefix ''<@'' s" "prefix ''>'' (drop (2 + length ?d) s)"
  proof -
    have "prefix ?d (drop (length ''<@'') s)" using prefix_takeWhile [of is_digit "drop 2 s"] by (simp add: eval_nat_numeral)
    with that(1) have "prefix (''<@'' @ ?d) s" by (rule prefix_drop)
    moreover have "prefix ''>'' (drop (length (''<@'' @ ?d)) s)" using that(2) by simp
    ultimately show ?thesis using prefix_drop by fastforce
  qed
  have link: "prefix (scheme @ takeWhile url_char (drop (length scheme) s)) s" if "url_prefix s = Some scheme" for scheme
    using that by (intro prefix_drop prefix_takeWhile) (auto simp: url_prefix_def split: if_splits)
  show ?thesis using m mention link by (auto simp: match_here_def Let_def split: if_splits option.splits)
qed

lemma next_match_within: "next_match i s = Some (j, kind, token)
    \<Longrightarrow> i \<le> j \<and> match_here (drop (j - i) s) = Some (kind, token) \<and> (\<forall>k < j - i. match_here (drop k s) = None)"
proof (induction i s rule: next_match.induct)
  case (1 i)
  then show ?case by simp
next
  case (2 i c s)
  show ?case
  proof (cases "match_here (c # s)")
    case None
    with 2 have "Suc i \<le> j \<and> match_here (drop (j - Suc i) s) = Some (kind, token)
        \<and> (\<forall>k < j - Suc i. match_here (drop k s) = None)" by simp
    moreover from this have "j - i = Suc (j - Suc i)" by linarith
    ultimately show ?thesis using None by (auto simp: less_Suc_eq_0_disj)
  next
    case (Some p)
    with "2.prems" show ?thesis by (cases p) auto
  qed
qed

lemma next_match_token:
  assumes "next_match i (drop i content) = Some (j, kind, token)"
  shows "i \<le> j" and "token \<noteq> []" and "prefix token (drop j content)" and "j + length token \<le> length content"
proof -
  from next_match_within [OF assms] have *: "i \<le> j" "match_here (drop (j - i) (drop i content)) = Some (kind, token)" by auto
  then have m: "match_here (drop j content) = Some (kind, token)" by simp
  from *(1) show "i \<le> j" .
  from match_here_token [OF m] show t: "token \<noteq> []" "prefix token (drop j content)" by auto
  with prefix_length_le [OF t(2)] show "j + length token \<le> length content" by (cases token) auto
qed

function render_loop :: "(int \<times> ServerMember) list \<Rightarrow> string \<Rightarrow> nat \<Rightarrow> nat \<Rightarrow> text_part list option" where
  "render_loop membersById content pos lastIndex = (case next_match pos (drop pos content) of
     None \<Rightarrow> Some (plain_part (drop lastIndex content))
   | Some (index, kind, token) \<Rightarrow> Option.bind (token_part membersById kind token) (\<lambda>(part, used).
       map_option (\<lambda>parts. plain_part (take (index - lastIndex) (drop lastIndex content)) @ part # parts)
         (render_loop membersById content (index + length token) (index + used))))"
  by auto
termination
proof (relation "measure (\<lambda>(m, content, pos, lastIndex). length content - pos)", goal_cases)
  case (2 m content pos lastIndex p index q kind token)
  then have "next_match pos (drop pos content) = Some (index, kind, token)" by simp
  from next_match_token [OF this] have "pos \<le> index" "0 < length token" "index + length token \<le> length content" by auto
  then have "length content - (index + length token) < length content - pos" by linarith
  then show ?case by simp
qed simp

definition renderMessageContent :: "string \<Rightarrow> (int \<times> ServerMember) list \<Rightarrow> text_part list option" where
  "renderMessageContent content membersById = render_loop membersById content 0 0"

section \<open>Typing a mention\<close>

record MentionMatch =
  mm_triggerIndex :: nat
  mm_query :: string

definition detectMentionQuery :: "string \<Rightarrow> nat \<Rightarrow> MentionMatch option" where
  "detectMentionQuery text caretIndex =
     (let upto = take caretIndex text; query = rev (takeWhile (\<lambda>c. c \<noteq> CHR ''@'') (rev upto))
      in if CHR ''@'' \<notin> set upto then None
         else let trigger = length upto - length query - 1
              in if 0 < trigger \<and> \<not> is_space (upto ! (trigger - 1)) then None
                 else if \<exists>c \<in> set query. is_space c then None
                 else Some \<lparr>mm_triggerIndex = trigger, mm_query = query\<rparr>)"

definition insertMentionToken :: "MentionMatch \<Rightarrow> string \<Rightarrow> string \<Rightarrow> string \<times> nat" where
  "insertMentionToken mm token text =
     (let caretEnd = mm_triggerIndex mm + 1 + length (mm_query mm)
      in (take (mm_triggerIndex mm) text @ token @ '' '' @ drop caretEnd text, mm_triggerIndex mm + length token + 1))"

definition selectMentionMember :: "MentionMatch \<Rightarrow> ServerMember \<Rightarrow> string \<Rightarrow> string \<times> nat" where
  "selectMentionMember mm member text = insertMentionToken mm (''<@'' @ show_int (mem_user_id member) @ ''>'') text"

definition selectMentionEveryone :: "MentionMatch \<Rightarrow> string \<Rightarrow> string \<times> nat" where
  "selectMentionEveryone mm text = insertMentionToken mm ''@everyone'' text"

definition MAX_RESULTS :: nat where "MAX_RESULTS = 8"

record MentionResults =
  mr_showEveryone :: bool
  mr_members :: "ServerMember list"
  mr_total :: nat

definition computeMentionResults :: "ServerMember list \<Rightarrow> string \<Rightarrow> MentionResults" where
  "computeMentionResults allMembers query =
     (let normalized = to_lower (trim query);
          showEveryone = prefix normalized ''everyone'';
          orEmpty = (\<lambda>x. case x of Some n \<Rightarrow> n | None \<Rightarrow> []);
          matches = (\<lambda>member. str_includes (to_lower (orEmpty (mem_nickname member))) normalized
            \<or> str_includes (to_lower (orEmpty (mem_first_name member) @ '' '' @ orEmpty (mem_last_name member))) normalized);
          members = take MAX_RESULTS (if normalized \<noteq> [] then filter matches allMembers else allMembers)
      in \<lparr>mr_showEveryone = showEveryone, mr_members = members,
          mr_total = length members + (if showEveryone then 1 else 0)\<rparr>)"

section \<open>The length limit\<close>

definition MAX_MESSAGE_CONTENT_LEN :: nat where "MAX_MESSAGE_CONTENT_LEN = 4000"

definition isMessageContentTooLong :: "string \<Rightarrow> bool" where
  "isMessageContentTooLong text \<longleftrightarrow> MAX_MESSAGE_CONTENT_LEN < length (trim text)"


declare render_loop.simps [simp del]

end
