(* ===== verification/TextProps.thy ===== *)
theory TextProps
  imports MessageText
begin

text \<open>Rendering ends, loses nothing and makes only web links; a mention that is picked is rendered as that member.\<close>

section \<open>The tail of a link\<close>

lemma strip_loop:
  assumes "\<not> P []"
  shows "\<exists>t. while_option P butlast s = Some t \<and> prefix t s \<and> \<not> P t
    \<and> (\<forall>u. prefix u s \<and> length t < length u \<longrightarrow> P u)"
proof -
  let ?inv = "\<lambda>t. prefix t s \<and> (\<forall>u. prefix u s \<and> length t < length u \<longrightarrow> P u)"
  have inv: "?inv (butlast t)" if "?inv t" and "P t" for t
  proof (intro conjI allI impI)
    from that assms have "t \<noteq> []" by auto
    show "prefix (butlast t) s" using that(1) by (meson prefix_order.trans prefixeq_butlast)
    fix u assume u: "prefix u s \<and> length (butlast t) < length u"
    with \<open>t \<noteq> []\<close> consider "length t < length u" | "length u = length t" by fastforce
    then show "P u"
    proof cases
      case 1
      with u that(1) show ?thesis by blast
    next
      case 2
      with u that(1) have "u = t" by (metis prefix_length_prefix prefix_order.antisym order_refl)
      with that(2) show ?thesis by simp
    qed
  qed
  have "?inv s" by (auto dest: prefix_length_le)
  moreover have "\<exists>t. while_option P butlast s = Some t"
  proof (rule measure_while_option_Some [where P = "\<lambda>_. True" and f = length])
    show "True \<and> length (butlast u) < length u" if "P u" for u using that assms by (cases u) auto
  qed simp
  then obtain t where t: "while_option P butlast s = Some t" by blast
  ultimately show ?thesis
    using while_option_rule [where P = ?inv, OF inv t] while_option_stop [OF t] t by blast
qed

lemma trimUrlTail_spec:
  "\<exists>t. trimUrlTail raw = Some t \<and> prefix t raw \<and> (\<forall>u. prefix u raw \<and> u \<noteq> [] \<and> last u \<notin> insert CHR '')'' (set TRAILING_PUNCTUATION)
     \<longrightarrow> prefix u t)"
proof -
  let ?P = "\<lambda>url. url \<noteq> [] \<and> last url \<in> set TRAILING_PUNCTUATION"
    and ?Q = "\<lambda>url. suffix '')'' url \<and> countChar url CHR '')'' > countChar url CHR ''(''"
  obtain a where a: "while_option ?P butlast raw = Some a" "prefix a raw"
    "\<forall>u. prefix u raw \<and> length a < length u \<longrightarrow> ?P u"
    using strip_loop [of ?P raw] by blast
  obtain t where t: "while_option ?Q butlast a = Some t" "prefix t a"
    "\<forall>u. prefix u a \<and> length t < length u \<longrightarrow> ?Q u"
    using strip_loop [of ?Q a] by auto
  have "prefix u t" if u: "prefix u raw" "u \<noteq> []" "last u \<notin> insert CHR '')'' (set TRAILING_PUNCTUATION)" for u
  proof -
    from a(3) u have "length u \<le> length a" by (meson insertCI not_le)
    with u(1) a(2) have "prefix u a" by (rule prefix_length_prefix)
    moreover have "\<not> suffix '')'' u" using u(2,3) by (auto simp: suffix_def)
    ultimately have "length u \<le> length t" using t(3) by (meson not_le)
    with \<open>prefix u a\<close> t(2) show ?thesis by (rule prefix_length_prefix)
  qed
  with a t have "trimUrlTail raw = Some t \<and> prefix t raw \<and> (\<forall>u. prefix u raw \<and> u \<noteq> []
      \<and> last u \<notin> insert CHR '')'' (set TRAILING_PUNCTUATION) \<longrightarrow> prefix u t)"
    unfolding trimUrlTail_def by auto
  then show ?thesis by blast
qed

section \<open>Rendering\<close>

lemma token_part_total: "\<exists>part used. token_part members kind token = Some (part, used)"
  using trimUrlTail_spec [of token] by (cases kind) (auto simp: token_part_def)

text \<open>What a part of the rendered message stands for in the text.\<close>

fun spells :: "text_part \<Rightarrow> string \<Rightarrow> bool" where
  "spells (PlainText t) s \<longleftrightarrow> s = t"
| "spells EveryoneChip s \<longleftrightarrow> s = ''@everyone''"
| "spells (MentionChip userId label) s \<longleftrightarrow> (let digits = takeWhile is_digit (drop 2 s)
     in s = ''<@'' @ digits @ ''>'' \<and> userId = read_nat digits)"
| "spells (Anchor href) s \<longleftrightarrow> s = href"

lemma not_digit_gt: "\<not> is_digit CHR ''>''"
  by (simp add: is_digit_def)

lemma take_while_all: "(\<forall>c \<in> set s. P c) \<Longrightarrow> \<not> P d \<Longrightarrow> takeWhile P (s @ d # t) = s"
  by (simp add: takeWhile_append)

lemma match_here_kinds:
  assumes "match_here s = Some (kind, token)"
  shows "(case kind of EveryoneToken \<Rightarrow> token = ''@everyone''
      | MentionToken digits \<Rightarrow> token = ''<@'' @ digits @ ''>'' \<and> (\<forall>c \<in> set digits. is_digit c)
      | LinkToken \<Rightarrow> \<exists>scheme rest. url_prefix s = Some scheme \<and> token = scheme @ rest \<and> (\<forall>c \<in> set rest. url_char c))"
  using assms set_takeWhileD by (fastforce simp: match_here_def Let_def split: if_splits option.splits)

lemma token_part_spells:
  assumes "match_here s = Some (kind, token)" and "token_part members kind token = Some (part, used)"
  shows "spells part (take used token) \<and> used \<le> length token"
proof (cases kind)
  case EveryoneToken
  with assms match_here_kinds [OF assms(1)] show ?thesis by (auto simp: token_part_def)
next
  case (MentionToken digits)
  with match_here_kinds [OF assms(1)] have t: "token = ''<@'' @ digits @ ''>''" "\<forall>c \<in> set digits. is_digit c" by auto
  then have "takeWhile is_digit (drop 2 token) = digits" using take_while_all [OF t(2) not_digit_gt] by simp
  with t assms(2) MentionToken show ?thesis by (auto simp: token_part_def Let_def)
next
  case LinkToken
  with assms(2) trimUrlTail_spec [of token] show ?thesis
    by (auto simp: token_part_def prefix_length_le elim: prefixE)
qed

lemma plain_spells: "\<exists>ss. list_all2 spells (plain_part s) ss \<and> concat ss = s"
  by (intro exI [of _ "if s = [] then [] else [s]"]) (simp add: plain_part_def)

lemma render_loop_lossless:
  "lastIndex \<le> pos \<Longrightarrow> \<exists>parts sources. render_loop members content pos lastIndex = Some parts
     \<and> list_all2 spells parts sources \<and> concat sources = drop lastIndex content"
proof (induction members content pos lastIndex rule: render_loop.induct)
  case (1 members content pos lastIndex)
  show ?case
  proof (cases "next_match pos (drop pos content)")
    case None
    with plain_spells [of "drop lastIndex content"] show ?thesis by (subst render_loop.simps) auto
  next
    case (Some p)
    then obtain index kind token where m: "next_match pos (drop pos content) = Some (index, kind, token)" by (cases p) auto
    obtain part used where tp: "token_part members kind token = Some (part, used)" using token_part_total by blast
    from next_match_token [OF m] have t: "pos \<le> index" "prefix token (drop index content)" by auto
    from next_match_within [OF m] t(1) have "match_here (drop index content) = Some (kind, token)" by auto
    from token_part_spells [OF this tp] have sp: "spells part (take used token)" "used \<le> length token" by auto
    from sp(2) have "index + used \<le> index + length token" by simp
    from "1.IH" [OF m refl refl tp refl this] obtain parts sources where
      ih: "render_loop members content (index + length token) (index + used) = Some parts"
        "list_all2 spells parts sources" "concat sources = drop (index + used) content" by blast
    obtain ss where ss: "list_all2 spells (plain_part (take (index - lastIndex) (drop lastIndex content))) ss"
      "concat ss = take (index - lastIndex) (drop lastIndex content)" using plain_spells by blast
    have "take used token = take used (drop index content)" using t(2) sp(2) by (auto elim: prefixE)
    then have "take used token @ drop (index + used) content = drop index content"
      by (metis add.commute append_take_drop_id drop_drop)
    moreover have "take (index - lastIndex) (drop lastIndex content) @ drop index content = drop lastIndex content"
      using "1.prems" t(1) by (metis append_take_drop_id drop_drop le_add_diff_inverse2 le_trans)
    ultimately have "concat (ss @ take used token # sources) = drop lastIndex content" using ss(2) ih(3) by simp
    moreover have "render_loop members content pos lastIndex
        = Some (plain_part (take (index - lastIndex) (drop lastIndex content)) @ part # parts)"
      using m tp ih(1) by (subst render_loop.simps) simp
    moreover have "list_all2 spells (plain_part (take (index - lastIndex) (drop lastIndex content)) @ part # parts)
        (ss @ take used token # sources)" using ss(1) sp(1) ih(2) by (simp add: list_all2_appendI)
    ultimately show ?thesis by blast
  qed
qed

lemma rendering_ends: "\<exists>parts. renderMessageContent content membersById = Some parts"
  using render_loop_lossless [of 0 0 membersById content] by (auto simp: renderMessageContent_def)

text \<open>C21. Rendering a message ends, whatever its text is, and shows all of it: text, mentions and links read one after
  the other are the content, with each character once. So the punctuation that is cut off a link goes back to the
  text, and the search for the next token starting behind it loses nothing.\<close>

theorem rendering_ends_lossless:
  "\<exists>parts sources. renderMessageContent content membersById = Some parts
     \<and> list_all2 spells parts sources \<and> concat sources = content"
  using render_loop_lossless [of 0 0 membersById content] by (simp add: renderMessageContent_def)

section \<open>Links\<close>

lemma url_prefix_trim:
  assumes "url_prefix s = Some scheme" and "prefix token s" and "prefix scheme token" and "trimUrlTail token = Some href"
  shows "prefix scheme href"
proof -
  from assms(1) have "scheme \<noteq> []" "last scheme \<notin> insert CHR '')'' (set TRAILING_PUNCTUATION)"
    by (auto simp: url_prefix_def TRAILING_PUNCTUATION_def split: if_splits)
  with trimUrlTail_spec [of token] assms(3,4) show ?thesis by auto
qed

lemma anchor_of_token:
  assumes "match_here s = Some (kind, token)" and "token_part members kind token = Some (Anchor href, used)"
  shows "prefix ''http://'' href \<or> prefix ''https://'' href"
proof (cases kind)
  case LinkToken
  with match_here_kinds [OF assms(1)] obtain scheme where sch: "url_prefix s = Some scheme" "prefix scheme token" by auto
  from LinkToken assms(2) have "trimUrlTail token = Some href" by (auto simp: token_part_def)
  from url_prefix_trim [OF sch(1) _ sch(2) this] match_here_token [OF assms(1)] have "prefix scheme href" by simp
  with sch(1) show ?thesis by (auto simp: url_prefix_def split: if_splits)
qed (use assms in \<open>auto simp: token_part_def\<close>)

lemma render_loop_parts:
  assumes "render_loop members content pos lastIndex = Some parts" and "part \<in> set parts"
  shows "(\<exists>t. part = PlainText t) \<or> (\<exists>index kind token used. match_here (drop index content) = Some (kind, token)
      \<and> token_part members kind token = Some (part, used))"
  using assms
proof (induction members content pos lastIndex arbitrary: parts rule: render_loop.induct)
  case (1 members content pos lastIndex)
  show ?case
  proof (cases "next_match pos (drop pos content)")
    case None
    with "1.prems" show ?thesis by (subst (asm) render_loop.simps) (auto simp: plain_part_def split: if_splits)
  next
    case (Some p)
    then obtain index kind token where m: "next_match pos (drop pos content) = Some (index, kind, token)" by (cases p) auto
    obtain part' used where tp: "token_part members kind token = Some (part', used)" using token_part_total by blast
    from "1.prems"(1) m tp obtain parts' where r: "render_loop members content (index + length token) (index + used) = Some parts'"
      "parts = plain_part (take (index - lastIndex) (drop lastIndex content)) @ part' # parts'"
      by (subst (asm) render_loop.simps) auto
    from next_match_within [OF m] have "match_here (drop index content) = Some (kind, token)" by auto
    with "1.IH" [OF m refl refl tp refl r(1)] "1.prems"(2) r(2) tp show ?thesis
      by (auto simp: plain_part_def split: if_splits)
  qed
qed

text \<open>Every link of a rendered message points to \<open>http://\<close> or \<open>https://\<close>, also after its tail is cut off, so no
  text can smuggle in another scheme.\<close>

theorem links_are_web_links:
  assumes "renderMessageContent content membersById = Some parts" and "Anchor href \<in> set parts"
  shows "prefix ''http://'' href \<or> prefix ''https://'' href"
  using render_loop_parts [OF assms [unfolded renderMessageContent_def]] anchor_of_token by blast

theorem links_are_web_links_witness:
  "renderMessageContent ''see http://a.b/c).'' [] = Some [PlainText ''see '', Anchor ''http://a.b/c'', PlainText '').'']
   \<and> prefix ''http://'' ''http://a.b/c''"
proof -
  have "renderMessageContent ''see http://a.b/c).'' [] = Some [PlainText ''see '', Anchor ''http://a.b/c'', PlainText '').'']"
    by code_simp
  with links_are_web_links [OF this, of "''http://a.b/c''"] show ?thesis by simp
qed

section \<open>Mentions\<close>

lemma scheme_no_space: "\<forall>c \<in> set ''http://''. \<not> is_space c" "\<forall>c \<in> set ''https://''. \<not> is_space c"
    "\<forall>c \<in> set ''@everyone''. \<not> is_space c" "\<not> is_space CHR ''<''" "\<not> is_space CHR ''@''" "\<not> is_space CHR ''>''"
  by code_simp+

lemma digit_no_space: "is_digit c \<Longrightarrow> \<not> is_space c"
  by (auto simp: is_space_def is_digit_def Let_def)

lemma token_no_space:
  assumes "match_here s = Some (kind, token)"
  shows "\<forall>c \<in> set token. \<not> is_space c"
proof (cases kind)
  case EveryoneToken
  with match_here_kinds [OF assms] scheme_no_space(3) show ?thesis by auto
next
  case (MentionToken digits)
  with match_here_kinds [OF assms] have t: "token = ''<@'' @ digits @ ''>''" "\<forall>c \<in> set digits. is_digit c" by auto
  show ?thesis unfolding t(1) using t(2) digit_no_space scheme_no_space(4-6) by auto
next
  case LinkToken
  with match_here_kinds [OF assms] obtain scheme rest where t: "url_prefix s = Some scheme" "token = scheme @ rest"
    "\<forall>c \<in> set rest. url_char c" by auto
  from t(1) scheme_no_space(1,2) have "\<forall>c \<in> set scheme. \<not> is_space c" by (auto simp only: url_prefix_def split: if_splits)
  with t show ?thesis by (auto simp: url_char_def)
qed

lemma next_match_exists:
  "match_here (drop k s) \<noteq> None \<Longrightarrow> k < length s \<Longrightarrow> \<exists>j kind token. next_match i s = Some (j, kind, token) \<and> j \<le> i + k"
proof (induction i s arbitrary: k rule: next_match.induct)
  case (1 i)
  then show ?case by simp
next
  case (2 i c s)
  show ?case
  proof (cases "match_here (c # s)")
    case None
    with "2.prems" obtain k' where "k = Suc k'" by (cases k) auto
    with "2.IH" [OF None, of k'] "2.prems" None show ?thesis by auto
  next
    case (Some p)
    then show ?thesis by (cases p) auto
  qed
qed

lemma token_after_space_rendered:
  assumes "render_loop members content pos lastIndex = Some parts"
    and "match_here (drop k content) = Some (kind, token)" and "token_part members kind token = Some (part, used)"
    and "k = 0 \<or> is_space (content ! (k - 1))" and "pos \<le> k"
  shows "part \<in> set parts"
  using assms
proof (induction members content pos lastIndex arbitrary: parts rule: render_loop.induct)
  case (1 members content pos lastIndex)
  have k: "k < length content" using "1.prems"(2) match_here_token by (metis drop_all leI prefix_bot.extremum_uniqueI)
  from "1.prems"(2,5) k obtain index kind' token' where
    m: "next_match pos (drop pos content) = Some (index, kind', token')" and "index \<le> k"
    using next_match_exists [of "k - pos" "drop pos content" pos] by (auto dest: diff_less_mono)
  obtain part' used' where tp: "token_part members kind' token' = Some (part', used')" using token_part_total by blast
  from "1.prems"(1) m tp obtain parts' where r: "render_loop members content (index + length token') (index + used') = Some parts'"
    "parts = plain_part (take (index - lastIndex) (drop lastIndex content)) @ part' # parts'"
    by (subst (asm) render_loop.simps) auto
  from next_match_within [OF m] have i: "match_here (drop index content) = Some (kind', token')" by auto
  show ?case
  proof (cases "index = k")
    case True
    with i "1.prems"(2,3) tp r(2) show ?thesis by simp
  next
    case False
    with \<open>index \<le> k\<close> have "index < k" by simp
    have "index + length token' \<le> k"
    proof (rule ccontr)
      assume "\<not> index + length token' \<le> k"
      with \<open>index < k\<close> have "k - 1 - index < length token'" by simp
      moreover from match_here_token [OF i] obtain t where "drop index content = token' @ t" by (auto elim: prefixE)
      moreover have "index + (k - 1 - index) = k - 1" using \<open>index < k\<close> by simp
      ultimately have "content ! (k - 1) = token' ! (k - 1 - index)"
        using nth_drop [of index content "k - 1 - index"] \<open>index < k\<close> k by (simp add: nth_append)
      with \<open>k - 1 - index < length token'\<close> have "content ! (k - 1) \<in> set token'" by simp
      with token_no_space [OF i] "1.prems"(4) \<open>index < k\<close> show False by auto
    qed
    from "1.IH" [OF m refl refl tp refl r(1) "1.prems"(2,3,4) this] r(2) show ?thesis by simp
  qed
qed

lemma detected_at:
  assumes "detectMentionQuery text caretIndex = Some mm"
  shows "mm_triggerIndex mm = 0 \<or> is_space (text ! (mm_triggerIndex mm - 1))" and "mm_triggerIndex mm < length text"
    and "take (length (mm_query mm)) (drop (mm_triggerIndex mm + 1) text) = mm_query mm"
    and "text ! mm_triggerIndex mm = CHR ''@''"
proof -
  let ?upto = "take caretIndex text"
  let ?q = "rev (takeWhile (\<lambda>c. c \<noteq> CHR ''@'') (rev ?upto))"
  have "CHR ''@'' \<in> set ?upto" using assms by (auto simp: detectMentionQuery_def Let_def split: if_splits)
  then have ne: "dropWhile (\<lambda>c. c \<noteq> CHR ''@'') (rev ?upto) \<noteq> []" by (simp add: dropWhile_eq_Nil_conv)
  then obtain rest where r: "dropWhile (\<lambda>c. c \<noteq> CHR ''@'') (rev ?upto) = CHR ''@'' # rest"
    using hd_dropWhile [OF ne] by (cases "dropWhile (\<lambda>c. c \<noteq> CHR ''@'') (rev ?upto)") auto
  have "rev (rev ?upto) = rev (CHR ''@'' # rest) @ ?q"
    by (subst takeWhile_dropWhile_id [of "\<lambda>c. c \<noteq> CHR ''@''" "rev ?upto", symmetric]) (simp only: r rev_append)
  then have u: "?upto = rev rest @ CHR ''@'' # ?q"
    by simp
  have len: "length ?upto - length ?q - 1 = length rest" using arg_cong [OF u, of length] by simp
  have mm: "mm = \<lparr>mm_triggerIndex = length rest, mm_query = ?q\<rparr>"
    and space: "length rest = 0 \<or> is_space (?upto ! (length rest - 1))"
    using assms unfolding detectMentionQuery_def Let_def len by (simp_all only: option.inject option.distinct split: if_splits) simp_all
  have t: "text = rev rest @ CHR ''@'' # ?q @ drop caretIndex text"
    by (metis append.assoc append_Cons append_take_drop_id u)
  have n: "mm_triggerIndex mm = length (rev rest)" "mm_query mm = ?q" by (simp_all add: mm)
  show "mm_triggerIndex mm < length text" unfolding n(1) by (subst t) simp
  show "text ! mm_triggerIndex mm = CHR ''@''" unfolding n(1) by (subst t) (simp del: length_rev)
  show "take (length (mm_query mm)) (drop (mm_triggerIndex mm + 1) text) = mm_query mm"
    unfolding n by (subst (2) t) (simp del: length_rev)
  have "length rest < length ?upto" by (subst u) simp
  then have "length rest - 1 < caretIndex" by (simp add: less_imp_diff_less)
  then have "?upto ! (length rest - 1) = text ! (length rest - 1)" by (rule nth_take)
  with space show "mm_triggerIndex mm = 0 \<or> is_space (text ! (mm_triggerIndex mm - 1))" by (auto simp: n)
qed

lemma match_mention:
  "prefix (''<@'' @ show_nat n @ ''>'') s \<Longrightarrow> match_here s = Some (MentionToken (show_nat n), ''<@'' @ show_nat n @ ''>'')"
proof (elim prefixE)
  fix t assume s: "s = (''<@'' @ show_nat n @ ''>'') @ t"
  have "\<forall>c \<in> set (show_nat n). is_digit c" using show_nat_digits by (auto simp: is_digit_def)
  from take_while_all [OF this not_digit_gt, of t] have "takeWhile is_digit (drop 2 s) = show_nat n" by (simp add: s)
  then show ?thesis by (simp add: match_here_def s Let_def)
qed

text \<open>A mention that is typed and picked reaches the reader: wherever \<open>@query\<close> is completed to a member, the text
  that is then sent renders a chip for exactly that member, whatever surrounds it.\<close>

theorem picked_mention_is_rendered:
  assumes "detectMentionQuery text caretIndex = Some mm" and "0 \<le> mem_user_id member"
    and "selectMentionMember mm member text = (nextText, nextCaret)"
  shows "\<exists>parts. renderMessageContent nextText membersById = Some parts
    \<and> MentionChip (nat (mem_user_id member)) (mention_label membersById (nat (mem_user_id member))) \<in> set parts
    \<and> take nextCaret nextText = take (mm_triggerIndex mm) text @ ''<@'' @ show_int (mem_user_id member) @ ''> ''"
proof -
  let ?k = "mm_triggerIndex mm" and ?n = "nat (mem_user_id member)"
  let ?token = "''<@'' @ show_nat ?n @ ''>''"
  note d = detected_at [OF assms(1)]
  have si: "show_int (mem_user_id member) = show_nat ?n" using assms(2) by (simp add: show_int_def)
  obtain rest where nt: "nextText = take ?k text @ ?token @ '' '' @ rest" and nc: "nextCaret = ?k + length ?token + 1"
    using assms(3) by (auto simp: selectMentionMember_def insertMentionToken_def si Let_def)
  have k: "length (take ?k text) = ?k" using d(2) by simp
  have "drop ?k nextText = ?token @ '' '' @ rest" unfolding nt using k by simp
  then have m: "match_here (drop ?k nextText) = Some (MentionToken (show_nat ?n), ?token)" by (intro match_mention) simp
  have sp: "?k = 0 \<or> is_space (nextText ! (?k - 1))" using d(1,2) by (auto simp: nt nth_append)
  obtain parts where p: "renderMessageContent nextText membersById = Some parts"
    using rendering_ends by blast
  have "token_part membersById (MentionToken (show_nat ?n)) ?token
      = Some (MentionChip ?n (mention_label membersById ?n), length ?token)" by (simp add: token_part_def)
  from token_after_space_rendered [OF p [unfolded renderMessageContent_def] m this sp] p
  moreover have "take nextCaret nextText = take ?k text @ ?token @ '' ''"
  proof -
    have "nextText = (take ?k text @ ?token @ '' '') @ rest" by (simp add: nt)
    moreover have "nextCaret = length (take ?k text @ ?token @ '' '')" using k by (simp add: nc)
    ultimately show ?thesis by (metis append_eq_conv_conj)
  qed
  ultimately show ?thesis by (auto simp: si)
qed

definition a_member :: ServerMember where
  "a_member = \<lparr>mem_user_id = 42, mem_first_name = None, mem_last_name = None, mem_nickname = Some ''bob'', mem_avatar_url = None\<rparr>"

theorem picked_mention_is_rendered_witness:
  "\<exists>parts. renderMessageContent ''hi <@42> !'' [(42, a_member)] = Some parts \<and> MentionChip 42 ''bob'' \<in> set parts"
proof -
  let ?mm = "\<lparr>mm_triggerIndex = 3, mm_query = ''bo''\<rparr>"
  have "detectMentionQuery ''hi @bo!'' 6 = Some ?mm" by code_simp
  moreover have "selectMentionMember ?mm a_member ''hi @bo!'' = (''hi <@42> !'', 9)" by code_simp
  moreover have "mention_label [(42, a_member)] 42 = ''bob''" by code_simp
  moreover have "mem_user_id a_member = 42" by (simp add: a_member_def)
  ultimately show ?thesis using picked_mention_is_rendered [of "''hi @bo!''" 6 ?mm a_member _ _ "[(42, a_member)]"] by auto
qed

end
