(* ===== verification/Media.thy ===== *)
theory Media
  imports Quality
begin

text \<open>
  The media player: the order of a queue and the history (\<^verbatim>\<open>services/playlistService.ts\<close>) and the state of a player
  (\<^verbatim>\<open>hooks/useMediaPlayer.ts\<close>). Times and volumes are rationals. The media element is a part of the state (its time and
  its duration) and a list of effects; the audio graph is only whether it has been built.
\<close>

section \<open>Tracks and queues\<close>

datatype LoopMode = LoopOff | LoopOne | LoopAll

datatype track_id = StringId string | NumberId int

record Track =
  tr_id :: track_id
  tr_title :: string
  tr_artist :: "string option"
  tr_album :: "string option"
  tr_duration :: rat
  tr_url :: string
  tr_albumArt :: "string option"
  tr_format :: "string option"

text \<open>\<open>shuffleTracks\<close>: \<open>random i\<close> is the \<^verbatim>\<open>Math.random()\<close> of the round with index \<open>i\<close>.\<close>

definition swap :: "nat \<Rightarrow> nat \<Rightarrow> 'a list \<Rightarrow> 'a list" where
  "swap i j xs = xs[i := xs ! j, j := xs ! i]"

fun shuffle_from :: "(nat \<Rightarrow> rat) \<Rightarrow> nat \<Rightarrow> 'a list \<Rightarrow> 'a list" where
  "shuffle_from random 0 result = result"
| "shuffle_from random (Suc i) result =
     shuffle_from random i (swap (Suc i) (nat \<lfloor>random (Suc i) * of_nat (Suc i + 1)\<rfloor>) result)"

definition shuffleTracks :: "(nat \<Rightarrow> rat) \<Rightarrow> 'a list \<Rightarrow> 'a list" where
  "shuffleTracks random items = shuffle_from random (length items - 1) items"

fun index_of :: "int \<Rightarrow> int list \<Rightarrow> int" where
  "index_of x [] = -1"
| "index_of x (y # ys) = (if y = x then 0 else let i = index_of x ys in if i < 0 then -1 else i + 1)"

definition active_order :: "nat \<Rightarrow> int list option \<Rightarrow> int list" where
  "active_order queueLength order = (case order of
     Some xs \<Rightarrow> (if length xs = queueLength then xs else map int [0..<queueLength])
   | None \<Rightarrow> map int [0..<queueLength])"

definition getNextIndex :: "nat \<Rightarrow> int \<Rightarrow> LoopMode \<Rightarrow> int list option \<Rightarrow> int option" where
  "getNextIndex queueLength currentIndex loopMode order =
     (if queueLength = 0 then None
      else let activeOrder = active_order queueLength order; nextPos = index_of currentIndex activeOrder + 1
           in if nextPos < int (length activeOrder) then Some (activeOrder ! nat nextPos)
              else if loopMode = LoopAll then Some (activeOrder ! 0) else None)"

definition getPreviousIndex :: "nat \<Rightarrow> int \<Rightarrow> LoopMode \<Rightarrow> int list option \<Rightarrow> int option" where
  "getPreviousIndex queueLength currentIndex loopMode order =
     (if queueLength = 0 then None
      else let activeOrder = active_order queueLength order; prevPos = index_of currentIndex activeOrder - 1
           in if 0 \<le> prevPos then Some (activeOrder ! nat prevPos)
              else if loopMode = LoopAll then Some (activeOrder ! (length activeOrder - 1)) else None)"

definition MAX_HISTORY :: nat where "MAX_HISTORY = 50"

definition addToHistory :: "Track \<Rightarrow> Track list \<Rightarrow> Track list" where
  "addToHistory track history = take MAX_HISTORY (track # filter (\<lambda>t. tr_id t \<noteq> tr_id track) history)"

definition formatTime :: "rat option \<Rightarrow> string" where
  "formatTime seconds = (case seconds of None \<Rightarrow> ''0:00''
   | Some s \<Rightarrow> (if s < 0 then ''0:00''
       else let mins = \<lfloor>s / 60\<rfloor>; secs = show_int (\<lfloor>s\<rfloor> mod 60)
            in show_int mins @ '':'' @ (if length secs < 2 then ''0'' @ secs else secs)))"

section \<open>The player\<close>

record media_player =
  mp_playing :: bool
  mp_currentTime :: rat
  mp_duration :: rat
  mp_buffered :: rat
  mp_volume :: rat
  mp_boost :: rat
  mp_muted :: bool
  mp_playbackRate :: rat
  mp_loopMode :: LoopMode
  mp_shuffle :: bool
  mp_index :: int
  mp_isLoading :: bool
  mp_error :: "string option"
  mp_queue :: "Track list"
  mp_shuffleOrder :: "int list"
  mp_eqEnabled :: bool
  mp_visualizerEnabled :: bool
  mp_graph :: bool
  mp_history :: "Track list"
  mp_elTime :: rat
  mp_elDuration :: "rat option"
  mp_elVolume :: rat
  mp_elMuted :: bool
  mp_gain :: rat
  mp_volumeDeps :: "(rat \<times> rat \<times> bool \<times> bool \<times> bool) option"
  mp_shown :: "(int \<times> string option) option"

definition initial_media :: "Track list \<Rightarrow> int \<Rightarrow> rat \<Rightarrow> LoopMode \<Rightarrow> media_player" where
  "initial_media tracks initialIndex initialVolume loopMode = \<lparr>mp_playing = False, mp_currentTime = 0, mp_duration = 0,
     mp_buffered = 0, mp_volume = initialVolume, mp_boost = 1, mp_muted = False, mp_playbackRate = 1,
     mp_loopMode = loopMode, mp_shuffle = False, mp_index = initialIndex, mp_isLoading = False, mp_error = None,
     mp_queue = tracks, mp_shuffleOrder = [], mp_eqEnabled = False, mp_visualizerEnabled = False, mp_graph = False,
     mp_history = [], mp_elTime = 0, mp_elDuration = None, mp_elVolume = 1,
     mp_elMuted = False, mp_gain = 1, mp_volumeDeps = None, mp_shown = None\<rparr>"

datatype media_effect = PlayElement | PauseElement | SetTime rat | TrackChange "Track option" int

definition currentTrack :: "media_player \<Rightarrow> Track option" where
  "currentTrack s = (if 0 \<le> mp_index s \<and> nat (mp_index s) < length (mp_queue s)
     then Some (mp_queue s ! nat (mp_index s)) else None)"

text \<open>The effect on a change of the volume, the boost, muting, the equalizer or the visualizer. The graph is built when
  it is first needed and a browser has one (\<open>graphOk\<close>), and stays; a new gain is one. \<open>heard\<close> is the factor that the
  element and the graph make together.\<close>

definition needs_graph :: "media_player \<Rightarrow> bool" where
  "needs_graph s \<longleftrightarrow> mp_graph s \<or> 1 < mp_boost s \<or> mp_eqEnabled s \<or> mp_visualizerEnabled s"

definition volume_effect :: "bool \<Rightarrow> media_player \<Rightarrow> media_player" where
  "volume_effect graphOk s =
     (let now = (mp_volume s, mp_boost s, mp_muted s, mp_eqEnabled s, mp_visualizerEnabled s)
      in if mp_volumeDeps s = Some now then s
         else if needs_graph s \<and> (mp_graph s \<or> graphOk)
         then s\<lparr>mp_volumeDeps := Some now, mp_graph := True, mp_elVolume := 1,
                mp_gain := (if mp_muted s then 0 else mp_volume s * mp_boost s)\<rparr>
         else s\<lparr>mp_volumeDeps := Some now, mp_elVolume := min 1 (max 0 (mp_volume s)), mp_elMuted := mp_muted s\<rparr>)"

definition heard :: "media_player \<Rightarrow> rat" where
  "heard s = (if mp_elMuted s then 0 else mp_elVolume s) * (if mp_graph s then mp_gain s else 1)"

section \<open>Controls\<close>

definition stop_media :: "media_player \<Rightarrow> media_player \<times> media_effect list" where
  "stop_media s = (s\<lparr>mp_elTime := 0\<rparr>, [PauseElement, SetTime 0])"

definition seek_to :: "rat \<Rightarrow> media_player \<Rightarrow> media_player \<times> media_effect list" where
  "seek_to time s =
     (let bound = (case mp_elDuration s of Some d \<Rightarrow> (if d = 0 then time else d) | None \<Rightarrow> time); t = min (max 0 time) bound
      in (s\<lparr>mp_elTime := t\<rparr>, [SetTime t]))"

definition set_volume :: "rat \<Rightarrow> media_player \<Rightarrow> media_player" where
  "set_volume volume s = s\<lparr>mp_volume := min 1 (max 0 volume), mp_muted := (if volume = 0 then mp_muted s else False)\<rparr>"

definition set_boost :: "rat \<Rightarrow> media_player \<Rightarrow> media_player" where
  "set_boost boost s = s\<lparr>mp_boost := min 2 (max 1 boost)\<rparr>"

definition playTrackAt :: "int \<Rightarrow> media_player \<Rightarrow> media_player" where
  "playTrackAt index s = (if index < 0 \<or> int (length (mp_queue s)) \<le> index then s
     else s\<lparr>mp_index := index, mp_currentTime := 0, mp_error := None\<rparr>)"

definition toggleShuffle :: "(nat \<Rightarrow> rat) \<Rightarrow> media_player \<Rightarrow> media_player" where
  "toggleShuffle random s =
     (if \<not> mp_shuffle s
      then s\<lparr>mp_shuffle := True, mp_shuffleOrder := mp_index s # shuffleTracks random
             (filter (\<lambda>i. i \<noteq> mp_index s) (map int [0..<length (mp_queue s)]))\<rparr>
      else s\<lparr>mp_shuffle := False, mp_shuffleOrder := []\<rparr>)"

definition play_order :: "media_player \<Rightarrow> int list option" where
  "play_order s = (if mp_shuffle s then Some (mp_shuffleOrder s) else None)"

definition next_track :: "media_player \<Rightarrow> media_player \<times> media_effect list" where
  "next_track s = (case getNextIndex (length (mp_queue s)) (mp_index s) (mp_loopMode s) (play_order s) of
     None \<Rightarrow> stop_media s | Some idx \<Rightarrow> (playTrackAt idx s, []))"

definition previous_track :: "media_player \<Rightarrow> media_player \<times> media_effect list" where
  "previous_track s = (if 3 < mp_elTime s then seek_to 0 s
     else case getPreviousIndex (length (mp_queue s)) (mp_index s) (mp_loopMode s) (play_order s) of
       None \<Rightarrow> (s, []) | Some idx \<Rightarrow> (playTrackAt idx s, []))"

definition on_ended :: "media_player \<Rightarrow> media_player \<times> media_effect list" where
  "on_ended s0 =
     (let s = (case currentTrack s0 of Some t \<Rightarrow> s0\<lparr>mp_history := addToHistory t (mp_history s0)\<rparr> | None \<Rightarrow> s0)
      in if mp_loopMode s = LoopOne then (s\<lparr>mp_elTime := 0\<rparr>, [SetTime 0, PlayElement]) else next_track s)"

text \<open>The effect on a change of the index or of the url of the current track.\<close>

definition track_effect :: "bool \<Rightarrow> media_player \<Rightarrow> media_player \<times> media_effect list" where
  "track_effect autoPlay s =
     (let now = (mp_index s, map_option tr_url (currentTrack s))
      in if mp_shown s = Some now then (s, [])
         else (s\<lparr>mp_currentTime := 0, mp_isLoading := True, mp_shown := Some now\<rparr>,
               (if mp_shown s = None \<and> \<not> autoPlay then [] else [PlayElement]) @ [TrackChange (currentTrack s) (mp_index s)]))"

section \<open>The machine\<close>

datatype media_input =
    MMount
  | MTracks "Track list"
  | MTogglePlay
  | MPlayFailed string
  | MStop
  | MSeek rat
  | MSeekBy rat
  | MVolume rat
  | MBoost rat
  | MMute
  | MRate rat
  | MLoop LoopMode
  | MEqualizer
  | MVisualizer
  | MAnalyser bool
  | MTrackAt int
  | MShuffle "nat \<Rightarrow> rat"
  | MNext
  | MPrevious
  | MTimeUpdate rat
  | MMetadata "rat option"
  | MEnded
  | MErrored
  | MWaiting
  | MCanPlay
  | MPlay
  | MPause
  | MProgress "rat option"

fun media_handle :: "media_player \<Rightarrow> media_input \<Rightarrow> media_player \<times> media_effect list" where
  "media_handle s MMount = (s, [])"
| "media_handle s (MTracks tracks) = (s\<lparr>mp_queue := tracks\<rparr>, [])"
| "media_handle s MTogglePlay = (s, if mp_playing s then [PauseElement] else [PlayElement])"
| "media_handle s (MPlayFailed message) = (s\<lparr>mp_error := Some message\<rparr>, [])"
| "media_handle s MStop = stop_media s"
| "media_handle s (MSeek time) = seek_to time s"
| "media_handle s (MSeekBy delta) = seek_to (mp_elTime s + delta) s"
| "media_handle s (MVolume volume) = (set_volume volume s, [])"
| "media_handle s (MBoost boost) = (set_boost boost s, [])"
| "media_handle s MMute = (s\<lparr>mp_muted := \<not> mp_muted s\<rparr>, [])"
| "media_handle s (MRate rate) = (s\<lparr>mp_playbackRate := rate\<rparr>, [])"
| "media_handle s (MLoop mode) = (s\<lparr>mp_loopMode := mode\<rparr>, [])"
| "media_handle s MEqualizer = (s\<lparr>mp_eqEnabled := \<not> mp_eqEnabled s\<rparr>, [])"
| "media_handle s MVisualizer = (s\<lparr>mp_visualizerEnabled := \<not> mp_visualizerEnabled s\<rparr>, [])"
| "media_handle s (MAnalyser graphOk) = (s\<lparr>mp_graph := mp_graph s \<or> graphOk\<rparr>, [])"
| "media_handle s (MTrackAt index) = (playTrackAt index s, [])"
| "media_handle s (MShuffle random) = (toggleShuffle random s, [])"
| "media_handle s MNext = next_track s"
| "media_handle s MPrevious = previous_track s"
| "media_handle s (MTimeUpdate time) = (s\<lparr>mp_elTime := time, mp_currentTime := time\<rparr>, [])"
| "media_handle s (MMetadata d) = (s\<lparr>mp_elDuration := d, mp_duration := (case d of Some x \<Rightarrow> x | None \<Rightarrow> 0), mp_isLoading := False\<rparr>, [])"
| "media_handle s MEnded = on_ended s"
| "media_handle s MErrored = (s\<lparr>mp_error := Some ''Failed to load media'', mp_isLoading := False, mp_playing := False\<rparr>, [])"
| "media_handle s MWaiting = (s\<lparr>mp_isLoading := True\<rparr>, [])"
| "media_handle s MCanPlay = (s\<lparr>mp_isLoading := False\<rparr>, [])"
| "media_handle s MPlay = (s\<lparr>mp_playing := True, mp_error := None\<rparr>, [])"
| "media_handle s MPause = (s\<lparr>mp_playing := False\<rparr>, [])"
| "media_handle s (MProgress until) = (s\<lparr>mp_buffered := (case until of Some t \<Rightarrow> t | None \<Rightarrow> mp_buffered s)\<rparr>, [])"

text \<open>A handler, and the effects of the render that follows.\<close>

definition media_step :: "bool \<Rightarrow> bool \<Rightarrow> media_player \<Rightarrow> media_input \<Rightarrow> media_player \<times> media_effect list" where
  "media_step autoPlay graphOk s e =
     (let (t, os) = media_handle s e; (u, os') = track_effect autoPlay (volume_effect graphOk t) in (u, os @ os'))"

end
