(* ===== verification/MediaProps.thy ===== *)
theory MediaProps
  imports Media
begin

text \<open>The order in which a player goes through its queue, its history, and what of it is heard.\<close>

section \<open>Shuffling\<close>

lemma swap_mset: "i < length xs \<Longrightarrow> j < length xs \<Longrightarrow> mset (swap i j xs) = mset xs"
  by (simp add: swap_def mset_swap)

lemma random_index:
  assumes "0 \<le> r" and "r < (1::rat)"
  shows "nat \<lfloor>r * of_nat (Suc i + 1)\<rfloor> \<le> Suc i"
proof -
  have "r * of_nat (Suc i + 1) < of_nat (Suc i + 1)" using assms(2) by simp
  then have "\<lfloor>r * of_nat (Suc i + 1)\<rfloor> < int (Suc i + 1)" by (simp add: floor_less_iff)
  then show ?thesis by linarith
qed

lemma shuffle_from_mset:
  "(\<And>k. 0 \<le> random k \<and> random k < 1) \<Longrightarrow> i < length xs \<or> i = 0 \<Longrightarrow> mset (shuffle_from random i xs) = mset xs"
proof (induction random i xs rule: shuffle_from.induct)
  case (2 random i xs)
  let ?j = "nat \<lfloor>random (Suc i) * of_nat (Suc i + 1)\<rfloor>"
  have "?j \<le> Suc i" using "2.prems"(1) by (intro random_index) auto
  then have "mset (swap (Suc i) ?j xs) = mset xs" using "2.prems"(2) by (intro swap_mset) auto
  moreover from this have "length (swap (Suc i) ?j xs) = length xs" by (metis size_mset)
  ultimately show ?case using "2.IH" "2.prems" by simp
qed simp

lemma shuffleTracks_mset: "(\<And>k. 0 \<le> random k \<and> random k < 1) \<Longrightarrow> mset (shuffleTracks random xs) = mset xs"
  unfolding shuffleTracks_def by (rule shuffle_from_mset) auto

section \<open>Positions\<close>

lemma index_of_nth: "distinct xs \<Longrightarrow> k < length xs \<Longrightarrow> index_of (xs ! k) xs = int k"
proof (induction xs arbitrary: k)
  case (Cons y ys)
  show ?case
  proof (cases k)
    case (Suc k')
    then have "index_of (ys ! k') ys = int k'" using Cons by simp
    moreover have "ys ! k' \<noteq> y" using Cons.prems Suc by auto
    ultimately show ?thesis using Suc by (auto simp: Let_def)
  qed simp
qed simp

lemma active_order_some: "length xs = n \<Longrightarrow> active_order n (Some xs) = xs"
  by (simp add: active_order_def)

lemma next_of_order:
  assumes "distinct xs" and "k < length xs"
  shows "getNextIndex (length xs) (xs ! k) loopMode (Some xs)
    = (if Suc k < length xs then Some (xs ! Suc k) else if loopMode = LoopAll then Some (xs ! 0) else None)"
  using assms by (auto simp: getNextIndex_def active_order_some index_of_nth Let_def nat_add_distrib)

lemma previous_of_order:
  assumes "distinct xs" and "k < length xs"
  shows "getPreviousIndex (length xs) (xs ! k) loopMode (Some xs)
    = (if 0 < k then Some (xs ! (k - 1)) else if loopMode = LoopAll then Some (xs ! (length xs - 1)) else None)"
  using assms by (auto simp: getPreviousIndex_def active_order_some index_of_nth Let_def nat_diff_distrib)

section \<open>The tour of a shuffled queue\<close>

definition no_random :: "nat \<Rightarrow> rat" where "no_random i = 0"

lemma toggleShuffle_order:
  assumes "\<not> mp_shuffle s" and "0 \<le> mp_index s" and "mp_index s < int (length (mp_queue s))"
    and "\<And>k. 0 \<le> random k \<and> random k < 1"
  shows "distinct (mp_shuffleOrder (toggleShuffle random s))"
    and "set (mp_shuffleOrder (toggleShuffle random s)) = {0..<int (length (mp_queue s))}"
    and "length (mp_shuffleOrder (toggleShuffle random s)) = length (mp_queue s)"
proof -
  let ?n = "length (mp_queue s)" and ?order = "mp_shuffleOrder (toggleShuffle random s)"
  let ?others = "filter (\<lambda>i. i \<noteq> mp_index s) (map int [0..<?n])"
  have m: "mset (shuffleTracks random ?others) = mset ?others" using assms(4) by (rule shuffleTracks_mset)
  have od: "?order = mp_index s # shuffleTracks random ?others" using assms(1) by (simp add: toggleShuffle_def)
  have d: "distinct (map int [0..<?n])" by (simp add: distinct_map)
  have set: "set (map int [0..<?n]) = {0..<int ?n}" using image_int_atLeastLessThan [of 0 ?n] by simp
  have "set ?order = insert (mp_index s) (set ?others)" using mset_eq_setD [OF m] by (simp add: od)
  moreover have "distinct ?order" using mset_eq_setD [OF m] mset_eq_imp_distinct_iff [OF m] d by (simp add: od)
  moreover have "insert (mp_index s) (set ?others) = {0..<int ?n}" using assms(2,3) set by auto
  ultimately show "distinct ?order" and so: "set ?order = {0..<int ?n}" by auto
  show "length ?order = ?n" using distinct_card [OF \<open>distinct ?order\<close>] so by simp
qed

fun skip_tracks :: "nat \<Rightarrow> media_player \<Rightarrow> media_player" where
  "skip_tracks 0 s = s"
| "skip_tracks (Suc k) s = skip_tracks k (fst (next_track s))"

lemma skip_tracks_order:
  assumes "distinct order" and "length order = length (mp_queue s)" and "set order = {0..<int (length order)}"
    and "play_order s = Some order" and "mp_index s = order ! j" and "j + k < length order"
  shows "mp_index (skip_tracks k s) = order ! (j + k) \<and> play_order (skip_tracks k s) = Some order
    \<and> mp_queue (skip_tracks k s) = mp_queue s \<and> mp_loopMode (skip_tracks k s) = mp_loopMode s"
  using assms(2,4-6)
proof (induction k arbitrary: s j)
  case 0
  then show ?case by simp
next
  case (Suc k)
  have "getNextIndex (length (mp_queue s)) (mp_index s) (mp_loopMode s) (play_order s) = Some (order ! Suc j)"
    using next_of_order [OF assms(1), of j "mp_loopMode s"] Suc.prems by simp
  moreover have "order ! Suc j \<in> {0..<int (length order)}"
    using Suc.prems(4) nth_mem [of "Suc j" order] unfolding assms(3) by simp
  ultimately have n: "fst (next_track s) = s\<lparr>mp_index := order ! Suc j, mp_currentTime := 0, mp_error := None\<rparr>"
    using Suc.prems(1) by (simp add: next_track_def playTrackAt_def)
  then have "play_order (fst (next_track s)) = Some order" using Suc.prems(2) by (simp add: play_order_def split: if_splits)
  with Suc.IH [of "fst (next_track s)" "Suc j"] Suc.prems n show ?case by simp
qed

text \<open>C22. Shuffling starts from the track that plays and then plays every other track of the queue exactly once, in an
  order that is a permutation whatever the random numbers are; after the last one it stops, unless the queue loops.\<close>

theorem shuffle_tour:
  assumes "\<not> mp_shuffle s" and "0 \<le> mp_index s" and "mp_index s < int (length (mp_queue s))"
    and "\<And>k. 0 \<le> random k \<and> random k < 1" and "toggleShuffle random s = t" and "length (mp_queue s) = Suc n"
  shows "mset (map (\<lambda>k. mp_index (skip_tracks k t)) [0..<Suc n]) = mset (map int [0..<Suc n])
    \<and> mp_index t = mp_index s
    \<and> getNextIndex (Suc n) (mp_index (skip_tracks n t)) LoopOff (play_order (skip_tracks n t)) = None
    \<and> getNextIndex (Suc n) (mp_index (skip_tracks n t)) LoopAll (play_order (skip_tracks n t)) = Some (mp_index s)"
proof -
  let ?order = "mp_shuffleOrder t"
  note ord = toggleShuffle_order [of s random, OF assms(1-4), unfolded assms(5,6)]
  have t: "mp_shuffle t" "mp_index t = mp_index s" "mp_queue t = mp_queue s" "?order ! 0 = mp_index s"
    using assms(1,5) by (auto simp: toggleShuffle_def)
  have po: "play_order t = Some ?order" using t(1) by (simp add: play_order_def)
  have skip: "mp_index (skip_tracks k t) = ?order ! k \<and> play_order (skip_tracks k t) = Some ?order" if "k < Suc n" for k
    using skip_tracks_order [of ?order t 0 k] ord t that assms(6) po by simp
  have "map (\<lambda>k. mp_index (skip_tracks k t)) [0..<Suc n] = ?order"
    using skip ord(3) by (intro nth_equalityI) (auto simp del: upt_Suc)
  moreover have "mset ?order = mset (map int [0..<Suc n])"
    using ord(1,2) by (intro set_eq_iff_mset_eq_distinct [THEN iffD1])
      (auto simp: distinct_map image_int_atLeastLessThan [of 0 "Suc n", simplified, symmetric])
  ultimately show ?thesis
    using skip [of n] next_of_order [OF ord(1), of n] ord(3) t(2,4) by (simp del: upt_Suc)
qed

definition track :: "int \<Rightarrow> Track" where
  "track i = \<lparr>tr_id = NumberId i, tr_title = ''t'', tr_artist = None, tr_album = None, tr_duration = 0, tr_url = show_int i,
     tr_albumArt = None, tr_format = None\<rparr>"

definition three_tracks :: media_player where
  "three_tracks = (initial_media [track 10, track 11, track 12] 1 1 LoopOff)\<lparr>mp_shown := Some (1, Some ''11'')\<rparr>"

theorem shuffle_tour_witness:
  "let t = toggleShuffle (\<lambda>_. 1 / 2) three_tracks
   in mset (map (\<lambda>k. mp_index (skip_tracks k t)) [0..<Suc 2]) = mset (map int [0..<Suc 2]) \<and> mp_index t = 1"
proof -
  have "\<not> mp_shuffle three_tracks" "mp_index three_tracks = 1" "length (mp_queue three_tracks) = Suc 2" by code_simp+
  then show ?thesis using shuffle_tour [of three_tracks "\<lambda>_. 1 / 2" _ 2, OF _ _ _ _ refl] by (simp del: upt_Suc)
qed

text \<open>In a queue that loops, going to the next track and back is to stay, in the order of the queue and in a
  shuffled one alike; the other way round as well.\<close>

theorem next_previous:
  assumes "distinct order" and "length order = n" and "i \<in> set order"
  shows "(\<exists>j. getNextIndex n i LoopAll (Some order) = Some j \<and> getPreviousIndex n j LoopAll (Some order) = Some i)
    \<and> (\<exists>j. getPreviousIndex n i LoopAll (Some order) = Some j \<and> getNextIndex n j LoopAll (Some order) = Some i)"
proof -
  obtain k where k: "k < length order" "i = order ! k" using assms(3) by (metis in_set_conv_nth)
  note nx = next_of_order [OF assms(1), where loopMode = LoopAll] and pv = previous_of_order [OF assms(1), where loopMode = LoopAll]
  have "\<exists>j. getNextIndex n i LoopAll (Some order) = Some j \<and> getPreviousIndex n j LoopAll (Some order) = Some i"
  proof (cases "Suc k < length order")
    case True
    with nx [OF k(1)] pv [of "Suc k"] k(2) assms(2) show ?thesis by auto
  next
    case False
    with k(1) have "k = length order - 1" "0 < length order" by auto
    with nx [OF k(1)] pv [of 0] k(2) assms(2) show ?thesis by auto
  qed
  moreover have "\<exists>j. getPreviousIndex n i LoopAll (Some order) = Some j \<and> getNextIndex n j LoopAll (Some order) = Some i"
  proof (cases "0 < k")
    case True
    with pv [OF k(1)] nx [of "k - 1"] k assms(2) show ?thesis by auto
  next
    case False
    with k(1) have "k = 0" "length order - 1 < length order" "Suc (length order - 1) = length order" by auto
    with pv [OF k(1)] nx [of "length order - 1"] k(2) assms(2) show ?thesis by auto
  qed
  ultimately show ?thesis by simp
qed

theorem next_previous_witness:
  "\<exists>j. getNextIndex 3 1 LoopAll (Some [2, 0, 1]) = Some j \<and> getPreviousIndex 3 j LoopAll (Some [2, 0, 1]) = Some 1"
  using next_previous [of "[2, 0, 1]" 3 1] by simp

section \<open>A queue of one track\<close>

text \<open>A player of one track whose queue loops does not play it again: at the end the next track is the one shown, so
  nothing about the index or the url changes and no effect starts the element. Looping the track itself does.\<close>

theorem one_track_ends:
  assumes "mp_queue s = [tr]" and "mp_index s = 0" and "mp_shuffle s = False" and "mp_shown s = Some (0, Some (tr_url tr))"
  shows "snd (media_step autoPlay graphOk (s\<lparr>mp_loopMode := LoopAll\<rparr>) MEnded) = []
    \<and> snd (media_step autoPlay graphOk (s\<lparr>mp_loopMode := LoopOne\<rparr>) MEnded) = [SetTime 0, PlayElement]
    \<and> mp_playing (fst (media_step autoPlay graphOk (s\<lparr>mp_loopMode := LoopAll\<rparr>) MEnded)) = mp_playing s"
proof -
  have idle: "track_effect autoPlay (volume_effect graphOk t) = (volume_effect graphOk t, [])"
    "mp_playing (volume_effect graphOk t) = mp_playing t"
    if "mp_queue t = [tr]" "mp_index t = 0" "mp_shown t = Some (0, Some (tr_url tr))" for t
    using that by (auto simp: track_effect_def volume_effect_def currentTrack_def Let_def)
  have "getNextIndex 1 0 LoopAll None = Some 0" by (simp add: getNextIndex_def active_order_def Let_def)
  then show ?thesis using assms
    by (auto simp: media_step_def on_ended_def next_track_def play_order_def playTrackAt_def currentTrack_def idle Let_def)
qed

theorem one_track_ends_witness:
  "snd (media_step True True ((initial_media [track 10] 0 1 LoopOff)\<lparr>mp_shown := Some (0, Some ''10''), mp_loopMode := LoopAll\<rparr>) MEnded) = []"
proof -
  let ?s = "(initial_media [track 10] 0 1 LoopOff)\<lparr>mp_shown := Some (0, Some ''10'')\<rparr>"
  have "mp_queue ?s = [track 10]" "mp_index ?s = 0" "mp_shuffle ?s = False" "mp_shown ?s = Some (0, Some ''10'')"
    "tr_url (track 10) = ''10''" by code_simp+
  then show ?thesis using one_track_ends [of ?s "track 10" True True] by simp
qed

section \<open>What is heard\<close>

definition stuck :: "media_player \<Rightarrow> bool" where
  "stuck s \<longleftrightarrow> mp_elMuted s \<and> mp_graph s"

lemma stuck_track_effect [simp]: "stuck (fst (track_effect autoPlay s)) = stuck s"
  by (simp add: track_effect_def stuck_def Let_def)

lemma stuck_volume_effect: "stuck s \<Longrightarrow> stuck (volume_effect graphOk s)"
  by (simp add: volume_effect_def stuck_def needs_graph_def Let_def)

lemma stuck_next [simp]: "stuck (fst (next_track s)) = stuck s"
  by (simp add: next_track_def stop_media_def playTrackAt_def stuck_def split: option.split)

lemma stuck_handle: "stuck s \<Longrightarrow> stuck (fst (media_handle s e))"
proof (cases e)
  case MEnded
  assume "stuck s"
  then have "stuck (s\<lparr>mp_history := h\<rparr>)" for h by (simp add: stuck_def)
  with \<open>stuck s\<close> MEnded show ?thesis by (auto simp: on_ended_def Let_def split: option.split) (simp_all add: stuck_def)
qed (auto simp: stuck_def stop_media_def seek_to_def set_volume_def set_boost_def playTrackAt_def toggleShuffle_def
    previous_track_def next_track_def Let_def split: option.split)

lemma media_step_fst: "fst (media_step autoPlay graphOk s e) = fst (track_effect autoPlay (volume_effect graphOk (fst (media_handle s e))))"
  by (simp add: media_step_def split: prod.split)

interpretation silent: machine_invariant "\<lambda>_ _. True" "media_step autoPlay graphOk" stuck for autoPlay graphOk
  by unfold_locales (simp add: media_step_fst stuck_volume_effect stuck_handle)

lemma track_effect_audio [simp]:
  "mp_muted (fst (track_effect autoPlay s)) = mp_muted s" "mp_elMuted (fst (track_effect autoPlay s)) = mp_elMuted s"
  "mp_graph (fst (track_effect autoPlay s)) = mp_graph s" "mp_eqEnabled (fst (track_effect autoPlay s)) = mp_eqEnabled s"
  "mp_visualizerEnabled (fst (track_effect autoPlay s)) = mp_visualizerEnabled s"
  "mp_volume (fst (track_effect autoPlay s)) = mp_volume s" "mp_boost (fst (track_effect autoPlay s)) = mp_boost s"
  "mp_elVolume (fst (track_effect autoPlay s)) = mp_elVolume s" "mp_gain (fst (track_effect autoPlay s)) = mp_gain s"
  "mp_volumeDeps (fst (track_effect autoPlay s)) = mp_volumeDeps s"
  by (simp_all add: track_effect_def Let_def)

lemma volume_effect_fields [simp]:
  "mp_muted (volume_effect graphOk s) = mp_muted s" "mp_volume (volume_effect graphOk s) = mp_volume s"
  by (simp_all add: volume_effect_def Let_def)

lemma always_enabled: "enabled_run (\<lambda>_ _. True) st s es"
  by (induction es arbitrary: s) simp_all

definition settled :: "media_player \<Rightarrow> bool" where
  "settled s \<longleftrightarrow> mp_volumeDeps s = Some (mp_volume s, mp_boost s, mp_muted s, mp_eqEnabled s, mp_visualizerEnabled s)"

text \<open>A player that is muted, then boosted, then unmuted again is silent from then on, whatever is done with its
  volume, its boost or its tracks: muting was a property of the element, and once the audio graph is in use nothing sets
  it back. Without the boost, muting and unmuting gives the volume back.\<close>

theorem unmute_stays_silent:
  assumes "settled s" and "\<not> needs_graph s" and "\<not> mp_muted s" and "1 < b" and "0 \<le> mp_volume s" and "mp_volume s \<le> 1"
    and "exec_run (media_step autoPlay True) s [MMute, MBoost b, MMute] = (u, os)"
    and "exec_run (media_step autoPlay True) u es = (t, os')"
  shows "heard t = 0 \<and> \<not> mp_muted u \<and> mp_volume u = mp_volume s
    \<and> heard (fst (exec_run (media_step autoPlay True) s [MMute, MMute])) = mp_volume s"
proof -
  let ?st = "\<lambda>s e. fst (media_step autoPlay True s e)"
  let ?a = "?st s MMute" and ?b = "?st (?st s MMute) (MBoost b)"
  note st = media_step_fst volume_effect_def needs_graph_def Let_def
  have a: "mp_elMuted ?a" "mp_muted ?a" "mp_volume ?a = mp_volume s" "\<not> mp_graph ?a" "\<not> mp_eqEnabled ?a"
    "\<not> mp_visualizerEnabled ?a" "mp_boost ?a = mp_boost s" "settled ?a" "\<not> 1 < mp_boost s"
    using assms(1-3) by (simp_all add: st settled_def)
  have b: "stuck ?b" "mp_muted ?b" "mp_volume ?b = mp_volume s"
    using a assms(4) by (auto simp: st settled_def set_boost_def stuck_def)
  have u: "u = ?st ?b MMute" using assms(7) by (simp split: prod.splits)
  have "stuck u" unfolding u by (rule silent.inv_step [OF b(1) TrueI])
  moreover have "\<not> mp_muted u" "mp_volume u = mp_volume s" using b(2,3) by (simp_all add: u media_step_fst)
  moreover have "run (\<lambda>_ _. True) (media_step autoPlay True) u es t os'" using assms(8) by (rule exec_run_run [OF always_enabled])
  then have "stuck t" using \<open>stuck u\<close> by (rule silent.inv_run)
  then have "heard t = 0" by (simp add: heard_def stuck_def)
  moreover have "heard (?st ?a MMute) = mp_volume s"
    using a assms(5,6) by (simp add: st settled_def heard_def)
  moreover have "fst (exec_run (media_step autoPlay True) s [MMute, MMute]) = ?st ?a MMute" by (simp split: prod.split)
  ultimately show ?thesis by simp
qed

theorem unmute_stays_silent_witness:
  "let s = fst (media_step False True (initial_media [track 10] 0 1 LoopOff) MMount);
       u = fst (exec_run (media_step False True) s [MMute, MBoost 2, MMute])
   in heard s = 1 \<and> heard (fst (exec_run (media_step False True) u [MVolume 1, MNext])) = 0"
proof -
  let ?s = "fst (media_step False True (initial_media [track 10] 0 1 LoopOff) MMount)"
  have "settled ?s" "\<not> needs_graph ?s" "\<not> mp_muted ?s" "mp_volume ?s = 1" "heard ?s = 1" by code_simp+
  then show ?thesis
    using unmute_stays_silent [of ?s 2 False _ _ "[MVolume 1, MNext]", OF _ _ _ _ _ _ prod.collapse [symmetric] prod.collapse [symmetric]]
    by (simp only: Let_def) simp
qed

section \<open>The history\<close>

text \<open>The history never has a track twice and never more than fifty, the one that ended last comes first, and one that
  falls out is the oldest.\<close>

theorem history_recent_first:
  assumes "distinct (map tr_id h)" and "length h \<le> MAX_HISTORY"
  shows "distinct (map tr_id (addToHistory tr h)) \<and> length (addToHistory tr h) \<le> MAX_HISTORY
    \<and> hd (addToHistory tr h) = tr
    \<and> (length h < MAX_HISTORY \<or> tr_id tr \<in> tr_id ` set h \<longrightarrow>
        tr_id ` set (addToHistory tr h) = insert (tr_id tr) (tr_id ` set h))"
proof -
  let ?rest = "filter (\<lambda>t. tr_id t \<noteq> tr_id tr) h"
  have "distinct (map tr_id (tr # ?rest))" using assms(1) by (auto simp: distinct_map_filter)
  then have d: "distinct (map tr_id (addToHistory tr h))" by (simp add: addToHistory_def take_map [symmetric] distinct_take)
  have "length (tr # ?rest) \<le> MAX_HISTORY" if "length h < MAX_HISTORY \<or> tr_id tr \<in> tr_id ` set h"
  proof (cases "tr_id tr \<in> tr_id ` set h")
    case True
    then have "length ?rest < length h" by (auto intro!: length_filter_less)
    with assms(2) show ?thesis by simp
  next
    case False
    with that have "length h < MAX_HISTORY" by simp
    then show ?thesis by (simp add: Suc_le_eq le_less_trans [OF length_filter_le])
  qed
  then have "length h < MAX_HISTORY \<or> tr_id tr \<in> tr_id ` set h \<Longrightarrow> addToHistory tr h = tr # ?rest"
    by (simp add: addToHistory_def)
  with d show ?thesis by (auto simp: addToHistory_def MAX_HISTORY_def)
qed

theorem history_recent_first_witness:
  "distinct (map tr_id (addToHistory (track 2) [track 1, track 2])) \<and> hd (addToHistory (track 2) [track 1, track 2]) = track 2"
  using history_recent_first [of "[track 1, track 2]" "track 2"] by (simp add: track_def MAX_HISTORY_def)

end
