(* ===== verification/SearchPanel.thy ===== *)
theory SearchPanel
  imports Messages
begin

text \<open>
  The message search (\<^verbatim>\<open>hooks/useMessageSearch.ts\<close>). The state of the hook with the requests that are on their way: a
  request carries the number that \<open>requestSeqRef\<close> had, and its answer may come at any time after.
\<close>

record search_panel =
  sp_query :: string
  sp_scope :: SearchScope
  sp_filters :: SearchFilters
  sp_hits :: "SearchHit list"
  sp_cursor :: string
  sp_hasMore :: bool
  sp_isLoading :: bool
  sp_isLoadingMore :: bool
  sp_error :: string
  sp_hasSearched :: bool
  sp_seq :: nat
  sp_channelId :: int
  sp_serverId :: int

record search_request_sent =
  sr_more :: bool
  sr_seq :: nat
  sr_query :: string
  sr_scope :: SearchScope
  sr_scopeId :: int
  sr_filters :: SearchFilters
  sr_cursor :: string

definition new_search :: "SearchFilters \<Rightarrow> int \<Rightarrow> int \<Rightarrow> search_panel" where
  "new_search filters channelId serverId = \<lparr>sp_query = [], sp_scope = ChannelScope, sp_filters = filters, sp_hits = [], sp_cursor = [],
     sp_hasMore = False, sp_isLoading = False, sp_isLoadingMore = False, sp_error = [], sp_hasSearched = False,
     sp_seq = 0, sp_channelId = channelId, sp_serverId = serverId\<rparr>"

definition MIN_QUERY_LENGTH :: nat where "MIN_QUERY_LENGTH = 2"

definition scope_id :: "search_panel \<Rightarrow> int" where
  "scope_id s = (if sp_scope s = ServerScope then sp_serverId s else sp_channelId s)"

definition can_search :: "bool \<Rightarrow> search_panel \<Rightarrow> bool" where
  "can_search isConnected s \<longleftrightarrow> \<not> (length (trim (sp_query s)) < MIN_QUERY_LENGTH \<or> \<not> isConnected \<or> scope_id s \<le> 0)"

definition request_of :: "bool \<Rightarrow> search_panel \<Rightarrow> search_request_sent" where
  "request_of isMore s = \<lparr>sr_more = isMore, sr_seq = sp_seq s, sr_query = trim (sp_query s), sr_scope = sp_scope s,
     sr_scopeId = scope_id s, sr_filters = sp_filters s, sr_cursor = (if isMore then sp_cursor s else [])\<rparr>"

definition channel_changed :: "int \<Rightarrow> search_panel \<Rightarrow> search_panel" where
  "channel_changed c s = (if c = sp_channelId s then s
     else if sp_scope s \<noteq> ChannelScope then s\<lparr>sp_channelId := c\<rparr>
     else s\<lparr>sp_channelId := c, sp_hits := [], sp_cursor := [], sp_hasMore := False, sp_hasSearched := False, sp_error := []\<rparr>)"

definition submit_search :: "bool \<Rightarrow> search_panel \<Rightarrow> search_panel \<times> search_request_sent list" where
  "submit_search isConnected s =
     (if \<not> can_search isConnected s then (s, [])
      else let t = s\<lparr>sp_seq := Suc (sp_seq s), sp_isLoading := True, sp_error := []\<rparr> in (t, [request_of False t]))"

definition load_more :: "bool \<Rightarrow> search_panel \<Rightarrow> search_panel \<times> search_request_sent list" where
  "load_more isConnected s =
     (if \<not> can_search isConnected s \<or> sp_isLoadingMore s \<or> \<not> sp_hasMore s \<or> sp_cursor s = [] then (s, [])
      else (s\<lparr>sp_isLoadingMore := True\<rparr>, [request_of True s]))"

definition search_answer :: "search_request_sent \<Rightarrow> string + SearchHit page \<Rightarrow> search_panel \<Rightarrow> search_panel" where
  "search_answer r res s =
     (if sr_seq r \<noteq> sp_seq s then s
      else if sr_more r then (case res of
          Inr p \<Rightarrow> s\<lparr>sp_hits := sp_hits s @ page_items p, sp_cursor := page_nextCursor p, sp_hasMore := page_hasMore p,
            sp_isLoadingMore := False\<rparr>
        | Inl e \<Rightarrow> s\<lparr>sp_error := e, sp_isLoadingMore := False\<rparr>)
      else (case res of
          Inr p \<Rightarrow> s\<lparr>sp_hits := page_items p, sp_cursor := page_nextCursor p, sp_hasMore := page_hasMore p,
            sp_hasSearched := True, sp_isLoading := False\<rparr>
        | Inl e \<Rightarrow> s\<lparr>sp_error := e, sp_isLoading := False\<rparr>))"

datatype search_input =
    SetQuery string
  | SetScope SearchScope
  | SetFilters SearchFilters
  | ChannelChanged int
  | ServerChanged int
  | Submit bool
  | LoadMore bool
  | Answer search_request_sent "string + SearchHit page"

fun search_step :: "search_panel \<Rightarrow> search_input \<Rightarrow> search_panel \<times> search_request_sent list" where
  "search_step s (SetQuery q) = (s\<lparr>sp_query := q\<rparr>, [])"
| "search_step s (SetScope scope) = (s\<lparr>sp_scope := scope\<rparr>, [])"
| "search_step s (SetFilters filters) = (s\<lparr>sp_filters := filters\<rparr>, [])"
| "search_step s (ChannelChanged c) = (channel_changed c s, [])"
| "search_step s (ServerChanged i) = (s\<lparr>sp_serverId := i\<rparr>, [])"
| "search_step s (Submit isConnected) = submit_search isConnected s"
| "search_step s (LoadMore isConnected) = load_more isConnected s"
| "search_step s (Answer r res) = (search_answer r res s, [])"

section \<open>What may go wrong\<close>

text \<open>The answers that can still come when the number was \<open>n\<close>: to requests for more sent by then, and to any submit.\<close>

fun answers_sent_by :: "nat \<Rightarrow> search_panel \<Rightarrow> search_input \<Rightarrow> bool" where
  "answers_sent_by n s (Answer r res) = (sr_more r \<longrightarrow> sr_seq r \<le> n)"
| "answers_sent_by n s e = True"

definition more_stuck :: "nat \<Rightarrow> search_panel \<Rightarrow> bool" where
  "more_stuck n s \<longleftrightarrow> sp_isLoadingMore s \<and> n < sp_seq s"

lemma more_stuck_step: "more_stuck n s \<Longrightarrow> answers_sent_by n s e \<Longrightarrow> more_stuck n (fst (search_step s e))"
  by (cases e) (auto simp: more_stuck_def channel_changed_def submit_search_def load_more_def search_answer_def Let_def
      split: sum.split)

interpretation stuck_search: machine_invariant "answers_sent_by n" search_step "more_stuck n" for n
  by unfold_locales (rule more_stuck_step)

lemma more_stuck_silent: "more_stuck n s \<Longrightarrow> filter sr_more (snd (search_step s e)) = []"
  by (cases e) (auto simp: more_stuck_def submit_search_def load_more_def request_of_def Let_def)

text \<open>Submitting a search while more results are being loaded ends the loading of more for good: the answer to the
  older request is outdated and does not reset the flag, so from then on no request for more is sent, whatever is
  typed, submitted or answered.\<close>

theorem loading_more_stuck:
  assumes "load_more True s = (s1, [r])" and "can_search True s1"
    and "run (answers_sent_by (sp_seq s)) search_step (fst (submit_search True s1)) es t os"
  shows "sp_isLoadingMore t \<and> filter sr_more os = []"
proof -
  have "more_stuck (sp_seq s) (fst (submit_search True s1))"
    using assms(1,2) by (auto simp: more_stuck_def submit_search_def load_more_def Let_def split: if_splits)
  with assms(3) have "more_stuck (sp_seq s) t \<and> filter sr_more os = []"
  proof (induction rule: run.induct)
    case (run_nil u)
    then show ?case by simp
  next
    case (run_snoc u es v os e w os')
    then have v: "more_stuck (sp_seq s) v" "filter sr_more os = []" by auto
    with more_stuck_step [OF v(1), of e] more_stuck_silent [OF v(1), of e] run_snoc.hyps show ?case by simp
  qed
  then show ?thesis by (simp add: more_stuck_def)
qed

definition no_filters :: SearchFilters where
  "no_filters = \<lparr>sf_authorId = None, sf_hasFile = None, sf_hasLink = None, sf_before = None, sf_after = None\<rparr>"

definition searched :: search_panel where
  "searched = (new_search no_filters 5 1)\<lparr>sp_query := ''abba'', sp_seq := 1, sp_hasSearched := True, sp_hasMore := True, sp_cursor := ''c1''\<rparr>"

definition empty_page :: "SearchHit page" where
  "empty_page = \<lparr>page_items = [], page_nextCursor = ''c2'', page_hasMore = True\<rparr>"

theorem loading_more_stuck_witness:
  "let s1 = fst (load_more True searched); u = fst (submit_search True s1);
       es = [Answer (request_of True searched) (Inr empty_page), Answer (request_of False u) (Inr empty_page), LoadMore True]
   in sp_isLoadingMore (fst (exec_run search_step u es)) \<and> snd (load_more True searched) = [request_of True searched]"
proof -
  let ?s1 = "fst (load_more True searched)"
  let ?u = "fst (submit_search True ?s1)"
  let ?es = "[Answer (request_of True searched) (Inr empty_page), Answer (request_of False ?u) (Inr empty_page), LoadMore True]"
  have l: "load_more True searched = (?s1, [request_of True searched])" and c: "can_search True ?s1" by code_simp+
  have "sp_seq searched = 1" "sr_seq (request_of True searched) = 1" "\<not> sr_more (request_of False ?u)" by code_simp+
  then have "enabled_run (answers_sent_by (sp_seq searched)) search_step ?u ?es" by simp
  from loading_more_stuck [OF l c exec_run_run [OF this prod.collapse [symmetric]]] arg_cong [OF l, of snd]
  show ?thesis unfolding Let_def snd_conv by blast
qed

text \<open>A result list is that of the last submit: answers to earlier ones change nothing. But changing the channel does
  not outdate the submit that is on its way, so its results, from the channel just left, fill the list that the change
  had cleared, and count as results of the new one.\<close>

theorem left_channel_results:
  assumes "submit_search True s = (s1, [r])" and "sp_scope s = ChannelScope" and "c \<noteq> sp_channelId s"
  shows "(\<forall>q res. sr_seq q < sr_seq r \<longrightarrow> search_answer q res s1 = s1)
    \<and> sp_hits (channel_changed c s1) = []
    \<and> sp_hits (search_answer r (Inr p) (channel_changed c s1)) = page_items p
    \<and> sp_hasSearched (search_answer r (Inr p) (channel_changed c s1))
    \<and> sr_scopeId r = sp_channelId s \<and> sp_channelId (search_answer r (Inr p) (channel_changed c s1)) = c"
proof -
  from assms(1) have r: "s1 = s\<lparr>sp_seq := Suc (sp_seq s), sp_isLoading := True, sp_error := []\<rparr>" "r = request_of False s1"
    by (auto simp: submit_search_def Let_def split: if_splits)
  have c: "channel_changed c s1 = s1\<lparr>sp_channelId := c, sp_hits := [], sp_cursor := [], sp_hasMore := False,
      sp_hasSearched := False, sp_error := []\<rparr>"
    using assms(2,3) by (simp add: channel_changed_def r(1))
  have "sr_seq r = sp_seq s1" "\<not> sr_more r" "sr_scopeId r = sp_channelId s"
    using assms(2) by (simp_all add: r request_of_def scope_id_def)
  then show ?thesis unfolding c by (simp add: search_answer_def)
qed

theorem left_channel_results_witness:
  "let s1 = fst (submit_search True searched); r = hd (snd (submit_search True searched))
   in sr_scopeId r = 5 \<and> sp_hasSearched (search_answer r (Inr empty_page) (channel_changed 6 s1))"
proof -
  have s: "submit_search True searched = (fst (submit_search True searched), [hd (snd (submit_search True searched))])"
    "sp_scope searched = ChannelScope" "sp_channelId searched = 5" by code_simp+
  from left_channel_results [OF s(1,2), of 6 empty_page] s(3) show ?thesis by (simp add: Let_def)
qed

end
