(* ===== verification/Capture.thy ===== *)
theory Capture
  imports Quality
begin

text \<open>
  The microphone of a call (\<^verbatim>\<open>services/localCapture.ts\<close> and the part of \<^verbatim>\<open>services/sfuCallClient.ts\<close> that uses it). A
  media track is a number; which tracks are enabled and which are stopped is kept in a store, as several owners hold the
  same track. A stream is its audio track (\<open>None\<close>: no stream, or none with audio); its video tracks are passed on
  unchanged and left out. The audio graph of the noise suppression is its input track and the track it makes. What the
  browser does is an argument: whether a device is given, constraints are applied, the graph can be built.
\<close>

section \<open>State\<close>

datatype capture_mode = ModeOff | ModeBrowser | ModeRnnoise

record local_capture =
  lc_mode :: capture_mode
  lc_effective :: capture_mode
  lc_stream :: "nat option"
  lc_rawStream :: "nat option"
  lc_graph :: "(nat \<times> nat) option"
  lc_suspendedSince :: "nat option"

record mic_client =
  mc_capture :: "local_capture option"
  mc_noiseMode :: capture_mode
  mc_localStream :: "nat option"
  mc_sender :: "nat option"
  mc_enabled :: "(nat \<times> bool) list"
  mc_stopped :: "nat list"
  mc_nextTrack :: nat
  mc_openContexts :: nat

definition new_mic :: "capture_mode \<Rightarrow> mic_client" where
  "new_mic mode = \<lparr>mc_capture = None, mc_noiseMode = mode, mc_localStream = None, mc_sender = None, mc_enabled = [],
     mc_stopped = [], mc_nextTrack = 0, mc_openContexts = 0\<rparr>"

datatype mic_effect = MicError string | ModeChanged capture_mode | LocalStreamIs "nat option"

definition track_enabled :: "mic_client \<Rightarrow> nat \<Rightarrow> bool" where
  "track_enabled s t = map_get_or True (mc_enabled s) t"

definition set_enabled :: "nat \<Rightarrow> bool \<Rightarrow> mic_client \<Rightarrow> mic_client" where
  "set_enabled t b s = s\<lparr>mc_enabled := map_set t b (mc_enabled s)\<rparr>"

definition stop_track :: "nat \<Rightarrow> mic_client \<Rightarrow> mic_client" where
  "stop_track t s = s\<lparr>mc_stopped := t # mc_stopped s\<rparr>"

text \<open>A new track of a device or of a graph: enabled and live.\<close>

definition new_track_id :: "mic_client \<Rightarrow> nat \<times> mic_client" where
  "new_track_id s = (mc_nextTrack s, s\<lparr>mc_nextTrack := Suc (mc_nextTrack s)\<rparr>)"

section \<open>Constraints\<close>

record audio_constraints =
  ac_echoCancellation :: bool
  ac_noiseSuppression :: bool
  ac_autoGainControl :: bool

definition audioConstraintsFor :: "capture_mode \<Rightarrow> audio_constraints" where
  "audioConstraintsFor mode = (case mode of
     ModeOff \<Rightarrow> \<lparr>ac_echoCancellation = True, ac_noiseSuppression = False, ac_autoGainControl = True\<rparr>
   | ModeBrowser \<Rightarrow> \<lparr>ac_echoCancellation = True, ac_noiseSuppression = True, ac_autoGainControl = True\<rparr>
   | ModeRnnoise \<Rightarrow> \<lparr>ac_echoCancellation = True, ac_noiseSuppression = False, ac_autoGainControl = False\<rparr>)"

definition formatMediaError :: "string option \<Rightarrow> string" where
  "formatMediaError name = (case name of
     None \<Rightarrow> ''Failed to access microphone/camera''
   | Some n \<Rightarrow>
       (if n = ''NotAllowedError'' then ''Access to microphone/camera is denied in browser settings''
        else if n = ''NotFoundError'' then ''Microphone or camera device was not found''
        else if n = ''NotReadableError'' then ''Microphone/camera is already used by another app''
        else if n = ''OverconstrainedError'' then ''Requested media settings are not supported on this device''
        else if n = ''SecurityError'' then ''Media access is blocked: open the app via HTTPS or localhost''
        else ''Failed to access microphone/camera ('' @ n @ '')''))"

section \<open>The graph of the noise suppression\<close>

datatype graph_outcome = GraphUnsupported | GraphFailed bool string | GraphBuilt

definition disposeRnnoiseProcessing :: "local_capture \<Rightarrow> mic_client \<Rightarrow> local_capture \<times> mic_client" where
  "disposeRnnoiseProcessing c s =
     (c\<lparr>lc_graph := None, lc_suspendedSince := None\<rparr>,
      if lc_graph c = None then s else s\<lparr>mc_openContexts := mc_openContexts s - 1\<rparr>)"

text \<open>\<open>applyRnnoiseProcessing\<close>: the audio track of the stream it returns. A failure may come before or after the audio
  context is open (\<open>GraphFailed opened message\<close>); one that is open then is not closed, as it is not yet kept.\<close>

definition applyRnnoiseProcessing :: "graph_outcome \<Rightarrow> nat \<Rightarrow> local_capture \<Rightarrow> mic_client
    \<Rightarrow> nat \<times> local_capture \<times> mic_client \<times> mic_effect list" where
  "applyRnnoiseProcessing g source c s = (case g of
     GraphUnsupported \<Rightarrow> (source, c\<lparr>lc_rawStream := Some source, lc_effective := ModeBrowser\<rparr>, s, [])
   | GraphFailed opened message \<Rightarrow>
       (let s1 = (if opened then s\<lparr>mc_openContexts := Suc (mc_openContexts s)\<rparr> else s);
            (c2, s2) = disposeRnnoiseProcessing c s1
        in (source, c2\<lparr>lc_rawStream := Some source, lc_effective := ModeBrowser\<rparr>, s2,
            [MicError (''RNNoise unavailable ('' @ message @ ''). Using standard microphone processing.'')]))
   | GraphBuilt \<Rightarrow>
       (let (p, s1) = new_track_id s; (c2, s2) = disposeRnnoiseProcessing c s1
        in (p, c2\<lparr>lc_graph := Some (source, p), lc_rawStream := Some source, lc_effective := ModeRnnoise\<rparr>,
            s2\<lparr>mc_openContexts := Suc (mc_openContexts s2)\<rparr>, [])))"

section \<open>Capturing and switching\<close>

definition new_capture :: "capture_mode \<Rightarrow> local_capture" where
  "new_capture mode = \<lparr>lc_mode = mode, lc_effective = mode, lc_stream = None, lc_rawStream = None, lc_graph = None,
     lc_suspendedSince = None\<rparr>"

definition acquire :: "string + unit \<Rightarrow> graph_outcome \<Rightarrow> local_capture \<Rightarrow> mic_client
    \<Rightarrow> string + (local_capture \<times> mic_client \<times> mic_effect list)" where
  "acquire device g c s = (case device of
     Inl e \<Rightarrow> Inl e
   | Inr _ \<Rightarrow>
       (let (t, s1) = new_track_id s
        in if lc_mode c = ModeRnnoise
           then (let (p, c2, s2, os) = applyRnnoiseProcessing g t c s1 in Inr (c2\<lparr>lc_stream := Some p\<rparr>, s2, os))
           else Inr (c\<lparr>lc_rawStream := Some t, lc_effective := lc_mode c, lc_stream := Some t\<rparr>, s1, [])))"

definition stopAll :: "local_capture \<Rightarrow> mic_client \<Rightarrow> local_capture \<times> mic_client" where
  "stopAll c s =
     (let s1 = (case lc_stream c of Some t \<Rightarrow> stop_track t s | None \<Rightarrow> s);
          s2 = (case lc_rawStream c of Some t \<Rightarrow> stop_track t s1 | None \<Rightarrow> s1)
      in disposeRnnoiseProcessing (c\<lparr>lc_rawStream := None, lc_stream := None\<rparr>) s2)"

text \<open>\<open>setMode\<close>: the microphone is asked for again when it does not take the constraints. The state is also returned
  with an error: the mode is already the new one then.\<close>

definition setMode :: "capture_mode \<Rightarrow> bool \<Rightarrow> string + unit \<Rightarrow> graph_outcome \<Rightarrow> local_capture \<Rightarrow> mic_client
    \<Rightarrow> (string + nat option) \<times> local_capture \<times> mic_client \<times> mic_effect list" where
  "setMode next constraintsOk device g c0 s =
     (if next = lc_mode c0 then (Inr None, c0, s, [])
      else let c = c0\<lparr>lc_mode := next\<rparr>
           in case lc_rawStream c of
                None \<Rightarrow> (Inr None, c, s, [])
              | Some raw \<Rightarrow>
                  (let swapped = (if constraintsOk then Inr (raw, c, s)
                         else (case device of Inl e \<Rightarrow> Inl e
                               | Inr _ \<Rightarrow> (let (t, s1) = new_track_id s in Inr (t, c\<lparr>lc_rawStream := Some t\<rparr>, stop_track raw s1))))
                   in case swapped of
                        Inl e \<Rightarrow> (Inl e, c, s, [])
                      | Inr (t, c1, s1) \<Rightarrow>
                          (let (c2, s2) = disposeRnnoiseProcessing c1 s1
                           in if next = ModeRnnoise
                              then (let (p, c3, s3, os) = applyRnnoiseProcessing g t c2 s2
                                    in (Inr (Some p), c3\<lparr>lc_stream := Some p\<rparr>, s3, os))
                              else (Inr (Some t), c2\<lparr>lc_effective := next, lc_stream := Some t\<rparr>, s2, []))))"

definition RNNOISE_SUSPENDED_FALLBACK_MS :: nat where "RNNOISE_SUSPENDED_FALLBACK_MS = 3000"

definition context_state :: "bool \<Rightarrow> nat \<Rightarrow> local_capture \<Rightarrow> local_capture" where
  "context_state suspended now c =
     (if suspended then (if lc_suspendedSince c = None then c\<lparr>lc_suspendedSince := Some now\<rparr> else c)
      else c\<lparr>lc_suspendedSince := None\<rparr>)"

definition checkWatchdogFallback :: "nat \<Rightarrow> local_capture \<Rightarrow> mic_client
    \<Rightarrow> nat option \<times> local_capture \<times> mic_client \<times> mic_effect list" where
  "checkWatchdogFallback now c s = (case (lc_graph c, lc_suspendedSince c, lc_rawStream c) of
     (Some g, Some since, Some raw) \<Rightarrow>
       (if now - since < RNNOISE_SUSPENDED_FALLBACK_MS then (None, c, s, [])
        else let (c2, s2) = disposeRnnoiseProcessing (c\<lparr>lc_effective := ModeBrowser\<rparr>) s
             in (Some raw, c2, s2,
                 [MicError ''Noise suppression stalled; switched to unfiltered microphone audio so you stay audible.'']))
   | _ \<Rightarrow> (None, c, s, []))"

text \<open>\<open>acquireVideoTrack\<close>: the profiles are tried in turn. An attempt gives an error or the video and audio tracks of a
  stream; the result is the track kept, or the message, with the tracks stopped. \<open>videoConstraints\<close> is the facing mode asked
  for, if any, and whether it must be met.\<close>

datatype facing_mode = FacingUser | FacingEnvironment

definition video_attempts :: "facing_mode \<Rightarrow> (facing_mode \<times> bool) option list" where
  "video_attempts f = [Some (f, True), Some (f, False), None]"

fun acquire_attempts :: "((facing_mode \<times> bool) option \<Rightarrow> string option + nat list \<times> nat list) \<Rightarrow> (facing_mode \<times> bool) option list
    \<Rightarrow> string option \<Rightarrow> (string + nat) \<times> nat list" where
  "acquire_attempts device [] lastErr = (Inl (formatMediaError lastErr), [])"
| "acquire_attempts device (a # as) lastErr = (case device a of
     Inl e \<Rightarrow> acquire_attempts device as e
   | Inr (video, audio) \<Rightarrow> (case video of
       t # ts \<Rightarrow> (Inr t, audio @ filter (\<lambda>u. u \<noteq> t) video)
     | [] \<Rightarrow> (let (res, stopped) = acquire_attempts device as lastErr in (res, audio @ stopped))))"

definition acquireVideoTrack :: "((facing_mode \<times> bool) option \<Rightarrow> string option + nat list \<times> nat list) \<Rightarrow> facing_mode
    \<Rightarrow> (string + nat) \<times> nat list" where
  "acquireVideoTrack device f = acquire_attempts device (video_attempts f) None"

section \<open>The client\<close>

text \<open>Joining: the capture of \<open>join\<close> and the sender that \<open>openPeerConnection\<close> gives the microphone. Leaving stops all.\<close>

definition join_mic :: "string + unit \<Rightarrow> graph_outcome \<Rightarrow> mic_client \<Rightarrow> mic_client \<times> mic_effect list" where
  "join_mic device g s =
     (let c = new_capture (mc_noiseMode s);
          (c1, s1, os) = (case acquire device g c s of
             Inl e \<Rightarrow> (c, s, [MicError (e @ ''. Joined voice in listen-only mode.'')])
           | Inr (c1, s1, os) \<Rightarrow> (c1, s1, os @ [ModeChanged (lc_effective c1)]))
      in (s1\<lparr>mc_capture := Some c1, mc_localStream := lc_stream c1, mc_sender := lc_stream c1\<rparr>,
          os @ [LocalStreamIs (lc_stream c1)]))"

definition leave_mic :: "mic_client \<Rightarrow> mic_client \<times> mic_effect list" where
  "leave_mic s = (let s1 = (case mc_capture s of Some c \<Rightarrow> snd (stopAll c s) | None \<Rightarrow> s)
     in (s1\<lparr>mc_capture := None, mc_localStream := None, mc_sender := None\<rparr>, [LocalStreamIs None]))"

definition setMicrophoneEnabled :: "bool \<Rightarrow> mic_client \<Rightarrow> mic_client" where
  "setMicrophoneEnabled b s = (case mc_localStream s of Some t \<Rightarrow> set_enabled t b s | None \<Rightarrow> s)"

text \<open>\<open>replaced\<close>: whether the sender takes the track; a refusal is only logged.\<close>

definition swapMicTrack :: "bool \<Rightarrow> nat \<Rightarrow> mic_client \<Rightarrow> mic_client \<times> mic_effect list" where
  "swapMicTrack replaced nextTrack s =
     (let previous = mc_localStream s;
          s1 = set_enabled nextTrack (case previous of Some t \<Rightarrow> track_enabled s t | None \<Rightarrow> True) s;
          s2 = s1\<lparr>mc_sender := (if replaced \<and> mc_sender s1 \<noteq> None then Some nextTrack else mc_sender s1),
                 mc_capture := map_option (\<lambda>c. c\<lparr>lc_stream := Some nextTrack\<rparr>) (mc_capture s1),
                 mc_localStream := Some nextTrack\<rparr>
      in (case previous of
            Some t \<Rightarrow> (if t \<noteq> nextTrack \<and> Some t \<noteq> Option.bind (mc_capture s2) lc_rawStream then stop_track t s2 else s2)
          | None \<Rightarrow> s2, [LocalStreamIs (Some nextTrack)]))"

text \<open>\<open>setNoiseSuppressionMode\<close>: a switch that is under way is awaited first, so switches come one after the other.\<close>

definition setNoiseSuppressionMode :: "capture_mode \<Rightarrow> bool \<Rightarrow> string + unit \<Rightarrow> graph_outcome \<Rightarrow> bool \<Rightarrow> mic_client
    \<Rightarrow> mic_client \<times> mic_effect list" where
  "setNoiseSuppressionMode mode constraintsOk device g replaced s0 =
     (let s = s0\<lparr>mc_noiseMode := mode\<rparr>
      in case mc_capture s of
           None \<Rightarrow> (s, [])
         | Some c \<Rightarrow>
             (let (res, c1, s1, os) = setMode mode constraintsOk device g c s;
                  s2 = s1\<lparr>mc_capture := Some c1\<rparr>;
                  (s3, os3) = (case res of
                     Inl e \<Rightarrow> (s2, [MicError e])
                   | Inr None \<Rightarrow> (s2, [])
                   | Inr (Some t) \<Rightarrow> swapMicTrack replaced t s2)
              in (s3, os @ os3 @ [ModeChanged (lc_effective c1)])))"

definition getEffectiveNoiseSuppressionMode :: "mic_client \<Rightarrow> capture_mode" where
  "getEffectiveNoiseSuppressionMode s = (case mc_capture s of Some c \<Rightarrow> lc_effective c | None \<Rightarrow> mc_noiseMode s)"

definition applyCaptureWatchdog :: "nat \<Rightarrow> bool \<Rightarrow> mic_client \<Rightarrow> mic_client \<times> mic_effect list" where
  "applyCaptureWatchdog now replaced s = (case mc_capture s of
     None \<Rightarrow> (s, [])
   | Some c \<Rightarrow>
       (let (res, c1, s1, os) = checkWatchdogFallback now c s; s2 = s1\<lparr>mc_capture := Some c1\<rparr>
        in case res of
             None \<Rightarrow> (s2, os)
           | Some t \<Rightarrow> (let (s3, os3) = swapMicTrack replaced t s2 in (s3, os @ os3 @ [ModeChanged ModeBrowser]))))"

section \<open>What is sent\<close>

definition live :: "mic_client \<Rightarrow> nat \<Rightarrow> bool" where
  "live s t \<longleftrightarrow> track_enabled s t \<and> t \<notin> set (mc_stopped s)"

text \<open>The sender is heard when its track is live, and, for the track of the graph, the input of the graph is.\<close>

definition audible :: "mic_client \<Rightarrow> bool" where
  "audible s = (case mc_sender s of
     None \<Rightarrow> False
   | Some t \<Rightarrow> live s t \<and> (case Option.bind (mc_capture s) lc_graph of
       Some (source, p) \<Rightarrow> p = t \<longrightarrow> live s source
     | None \<Rightarrow> True))"

section \<open>The machine\<close>

datatype mic_input =
    MicSet bool
  | MicMode capture_mode bool "string + unit" graph_outcome bool
  | MicContext bool nat
  | MicWatchdog nat bool

fun mic_step :: "mic_client \<Rightarrow> mic_input \<Rightarrow> mic_client \<times> mic_effect list" where
  "mic_step s (MicSet b) = (setMicrophoneEnabled b s, [])"
| "mic_step s (MicMode mode constraintsOk device g replaced) = setNoiseSuppressionMode mode constraintsOk device g replaced s"
| "mic_step s (MicContext suspended now) =
     (s\<lparr>mc_capture := map_option (\<lambda>c. if lc_graph c = None then c else context_state suspended now c) (mc_capture s)\<rparr>, [])"
| "mic_step s (MicWatchdog now replaced) = applyCaptureWatchdog now replaced s"

end
