(* ===== verification/CaptureProps.thy ===== *)
theory CaptureProps
  imports Capture
begin

text \<open>What a muted and an unmuted microphone sends, over switches of the noise suppression and the watchdog.\<close>

section \<open>The tracks of a call\<close>

definition fresh_ids :: "mic_client \<Rightarrow> bool" where
  "fresh_ids s \<longleftrightarrow> (\<forall>t. map_get (mc_enabled s) t \<noteq> None \<longrightarrow> t < mc_nextTrack s) \<and> (\<forall>t \<in> set (mc_stopped s). t < mc_nextTrack s)"

text \<open>A capture whose raw track is \<open>r\<close> and whose track for the call is \<open>t\<close>: the raw one, or that of the graph.\<close>

definition capture_ok :: "nat \<Rightarrow> nat \<Rightarrow> local_capture \<Rightarrow> mic_client \<Rightarrow> bool" where
  "capture_ok r t c s \<longleftrightarrow> lc_rawStream c = Some r \<and> r \<notin> set (mc_stopped s) \<and> t \<notin> set (mc_stopped s)
     \<and> r < mc_nextTrack s \<and> t < mc_nextTrack s
     \<and> (t = r \<and> lc_graph c = None \<or> t \<noteq> r \<and> lc_graph c = Some (r, t))"

definition mic_inv :: "bool \<Rightarrow> mic_client \<Rightarrow> bool" where
  "mic_inv on s \<longleftrightarrow> fresh_ids s \<and> (\<exists>c r t. mc_capture s = Some c \<and> capture_ok r t c s \<and> lc_stream c = Some t
     \<and> mc_localStream s = Some t \<and> mc_sender s = Some t \<and> track_enabled s t = on)"

lemma mic_invE:
  assumes "mic_inv on s"
  obtains c r t where "fresh_ids s" "mc_capture s = Some c" "capture_ok r t c s" "lc_stream c = Some t"
    "mc_localStream s = Some t" "mc_sender s = Some t" "track_enabled s t = on"
  using assms unfolding mic_inv_def by blast

lemma track_enabled_set [simp]: "track_enabled (set_enabled t b s) t' = (if t' = t then b else track_enabled s t')"
  by (simp add: track_enabled_def set_enabled_def)

lemma set_enabled_fields [simp]:
  "mc_capture (set_enabled t b s) = mc_capture s" "mc_localStream (set_enabled t b s) = mc_localStream s"
  "mc_sender (set_enabled t b s) = mc_sender s" "mc_stopped (set_enabled t b s) = mc_stopped s"
  "mc_nextTrack (set_enabled t b s) = mc_nextTrack s" "mc_noiseMode (set_enabled t b s) = mc_noiseMode s"
  by (simp_all add: set_enabled_def)

lemma fresh_set_enabled: "fresh_ids s \<Longrightarrow> t < mc_nextTrack s \<Longrightarrow> fresh_ids (set_enabled t b s)"
  by (auto simp: fresh_ids_def set_enabled_def)

text \<open>Swapping to a track of the capture, raw or of its graph, when the old one is stopped or not as the raw track says.\<close>

lemma swap_inv:
  assumes "fresh_ids s" and "mc_capture s = Some c" and "capture_ok r t c s" and "mc_localStream s = Some old"
    and "mc_sender s \<noteq> None" and "track_enabled s old = on" and "old < mc_nextTrack s"
  shows "mic_inv on (fst (swapMicTrack True t s))"
proof -
  let ?s1 = "set_enabled t on s"
  let ?s2 = "?s1\<lparr>mc_sender := Some t, mc_capture := Some (c\<lparr>lc_stream := Some t\<rparr>), mc_localStream := Some t\<rparr>"
  have raw: "lc_rawStream c = Some r" using assms(3) by (simp add: capture_ok_def)
  have sw: "fst (swapMicTrack True t s) = (if old \<noteq> t \<and> old \<noteq> r then stop_track old ?s2 else ?s2)"
    using assms(2,4-6) raw by (auto simp: swapMicTrack_def Let_def)
  have "fresh_ids ?s1" using assms(1,3) by (intro fresh_set_enabled) (simp_all add: capture_ok_def)
  then have f: "fresh_ids (fst (swapMicTrack True t s))" unfolding sw using assms(7)
    by (auto simp: fresh_ids_def stop_track_def)
  have "capture_ok r t (c\<lparr>lc_stream := Some t\<rparr>) (fst (swapMicTrack True t s))"
    unfolding sw using assms(3) by (auto simp: capture_ok_def stop_track_def)
  moreover have "track_enabled (fst (swapMicTrack True t s)) t = on" "mc_sender (fst (swapMicTrack True t s)) = Some t"
    "mc_localStream (fst (swapMicTrack True t s)) = Some t"
    "mc_capture (fst (swapMicTrack True t s)) = Some (c\<lparr>lc_stream := Some t\<rparr>)"
    unfolding sw by (simp_all add: track_enabled_def stop_track_def set_enabled_def)
  moreover have "lc_stream (c\<lparr>lc_stream := Some t\<rparr>) = Some t" by simp
  ultimately show ?thesis unfolding mic_inv_def using f by blast
qed

section \<open>Switching keeps the microphone as it was\<close>

text \<open>What a switch does not touch in the client while it prepares the new track.\<close>

definition same_call :: "mic_client \<Rightarrow> mic_client \<Rightarrow> bool" where
  "same_call s s' \<longleftrightarrow> mc_localStream s' = mc_localStream s \<and> mc_sender s' = mc_sender s \<and> mc_enabled s' = mc_enabled s
     \<and> mc_nextTrack s \<le> mc_nextTrack s'"

lemma same_call_refl [simp]: "same_call s s"
  by (simp add: same_call_def)

lemma same_call_trans: "same_call s s' \<Longrightarrow> same_call s' s'' \<Longrightarrow> same_call s s''"
  by (auto simp: same_call_def)

lemma dispose_graph:
  assumes "disposeRnnoiseProcessing c s = (c', s')" and "fresh_ids s"
  shows "c' = c\<lparr>lc_graph := None, lc_suspendedSince := None\<rparr>" and "same_call s s'" and "fresh_ids s'"
    and "mc_stopped s' = mc_stopped s" and "mc_nextTrack s' = mc_nextTrack s"
  using assms by (auto simp: disposeRnnoiseProcessing_def same_call_def fresh_ids_def)

lemma apply_graph:
  assumes "applyRnnoiseProcessing g source c s = (p, c', s', os)" and "fresh_ids s" and "lc_graph c = None"
    and "source < mc_nextTrack s" and "source \<notin> set (mc_stopped s)"
  shows "capture_ok source p c' s' \<and> fresh_ids s' \<and> same_call s s'"
proof (cases g)
  case GraphUnsupported
  with assms show ?thesis by (auto simp: applyRnnoiseProcessing_def capture_ok_def)
next
  case (GraphFailed opened message)
  with assms show ?thesis
    by (cases opened) (auto simp: applyRnnoiseProcessing_def disposeRnnoiseProcessing_def capture_ok_def fresh_ids_def
        same_call_def)
next
  case GraphBuilt
  have "mc_nextTrack s \<notin> set (mc_stopped s)" using assms(2) by (auto simp: fresh_ids_def)
  with GraphBuilt assms show ?thesis
    by (auto simp: applyRnnoiseProcessing_def disposeRnnoiseProcessing_def new_track_id_def capture_ok_def fresh_ids_def
        same_call_def Let_def less_Suc_eq)
qed

lemma setMode_ready:
  assumes "setMode next constraintsOk device g c s = (res, c', s', os)" and "fresh_ids s" and "capture_ok r t c s"
  shows "fresh_ids s' \<and> same_call s s' \<and> (case res of
      Inr (Some t') \<Rightarrow> \<exists>r'. capture_ok r' t' c' s' | _ \<Rightarrow> capture_ok r t c' s' \<and> lc_stream c' = lc_stream c)"
proof (cases "next = lc_mode c \<or> (\<not> constraintsOk \<and> isl device)")
  case True
  with assms show ?thesis by (auto simp: setMode_def capture_ok_def Let_def split: sum.splits if_splits)
next
  case False
  let ?t = "if constraintsOk then r else mc_nextTrack s"
    and ?c = "(if constraintsOk then c\<lparr>lc_mode := next\<rparr> else c\<lparr>lc_mode := next, lc_rawStream := Some (mc_nextTrack s)\<rparr>)"
    and ?s = "if constraintsOk then s else stop_track r (s\<lparr>mc_nextTrack := Suc (mc_nextTrack s)\<rparr>)"
  obtain c2 s2 where d: "disposeRnnoiseProcessing ?c ?s = (c2, s2)" by fastforce
  have raw: "lc_rawStream c = Some r" "r < mc_nextTrack s" "r \<notin> set (mc_stopped s)" using assms(3) by (auto simp: capture_ok_def)
  have fs: "fresh_ids ?s" using assms(2) raw(2) by (auto simp: fresh_ids_def stop_track_def less_Suc_eq)
  have sc: "same_call s ?s" by (simp add: same_call_def stop_track_def)
  have tn: "?t < mc_nextTrack ?s" "?t \<notin> set (mc_stopped ?s)"
    using raw assms(2) by (auto simp: fresh_ids_def stop_track_def)
  note dg = dispose_graph [OF d fs]
  have c2: "lc_graph c2 = None" "lc_rawStream c2 = Some ?t" using dg(1) raw(1) by auto
  have m: "setMode next constraintsOk device g c s = (if next = ModeRnnoise
      then (let (p, c3, s3, os) = applyRnnoiseProcessing g ?t c2 s2 in (Inr (Some p), c3\<lparr>lc_stream := Some p\<rparr>, s3, os))
      else (Inr (Some ?t), c2\<lparr>lc_effective := next, lc_stream := Some ?t\<rparr>, s2, []))"
    using False raw(1) d by (cases device) (auto simp: setMode_def new_track_id_def Let_def)
  show ?thesis
  proof (cases "next = ModeRnnoise")
    case True
    obtain p c3 s3 os3 where a: "applyRnnoiseProcessing g ?t c2 s2 = (p, c3, s3, os3)" by (metis prod_cases4)
    have "?t < mc_nextTrack s2" "?t \<notin> set (mc_stopped s2)" using tn dg(4,5) by auto
    from apply_graph [OF a dg(3) c2(1) this] have "capture_ok ?t p c3 s3 \<and> fresh_ids s3 \<and> same_call s2 s3" .
    with True m a assms(1) same_call_trans [OF same_call_trans [OF sc dg(2)], of s3] show ?thesis
      by (auto simp: capture_ok_def)
  next
    case False
    have "capture_ok ?t ?t (c2\<lparr>lc_effective := next, lc_stream := Some ?t\<rparr>) s2"
      using tn dg(4,5) c2 by (simp add: capture_ok_def)
    with False m assms(1) dg(3) same_call_trans [OF sc dg(2)] show ?thesis by auto
  qed
qed


section \<open>Every event keeps the microphone as the button says\<close>

text \<open>The microphone with the last state of its button: what is shown as on is to be what is sent.\<close>

definition button_step :: "bool \<times> mic_client \<Rightarrow> mic_input \<Rightarrow> (bool \<times> mic_client) \<times> mic_effect list" where
  "button_step g e = (let (s', os) = mic_step (snd g) e in ((case e of MicSet b \<Rightarrow> b | _ \<Rightarrow> fst g, s'), os))"

text \<open>The events at which the sender takes the track it is given.\<close>

fun sender_takes :: "mic_input \<Rightarrow> bool" where
  "sender_takes (MicMode _ _ _ _ replaced) = replaced"
| "sender_takes (MicWatchdog _ replaced) = replaced"
| "sender_takes _ = True"

lemma mode_step_inv:
  assumes "mic_inv on s"
  shows "mic_inv on (fst (setNoiseSuppressionMode mode constraintsOk device g True s))"
proof -
  from assms obtain c r t where f: "fresh_ids s" and c: "mc_capture s = Some c" and ok: "capture_ok r t c s"
    and t: "lc_stream c = Some t" "mc_localStream s = Some t" "mc_sender s = Some t" "track_enabled s t = on"
    by (rule mic_invE)
  let ?s = "s\<lparr>mc_noiseMode := mode\<rparr>"
  have f': "fresh_ids ?s" and ok': "capture_ok r t c ?s" using f ok by (auto simp: fresh_ids_def capture_ok_def)
  obtain res c1 s1 os where m: "setMode mode constraintsOk device g c ?s = (res, c1, s1, os)" by (metis prod_cases4)
  let ?s2 = "s1\<lparr>mc_capture := Some c1\<rparr>"
  note ready = setMode_ready [OF m f' ok']
  from ready have f1: "fresh_ids s1" and sc: "same_call ?s s1" by blast+
  have f2: "fresh_ids ?s2" using f1 by (auto simp: fresh_ids_def)
  have keep: "mc_localStream ?s2 = Some t" "mc_sender ?s2 = Some t" "track_enabled ?s2 t = on" "t < mc_nextTrack ?s2"
    using sc t ok by (auto simp: same_call_def track_enabled_def capture_ok_def)
  have stays: "mic_inv on ?s2" if "capture_ok r t c1 s1 \<and> lc_stream c1 = lc_stream c"
  proof -
    have "capture_ok r t c1 ?s2" "lc_stream c1 = Some t" using that t(1) by (simp_all add: capture_ok_def)
    with f2 keep show ?thesis unfolding mic_inv_def by fastforce
  qed
  show ?thesis
  proof (cases res)
    case (Inl e)
    with ready stays c m show ?thesis by (simp add: setNoiseSuppressionMode_def Let_def)
  next
    case (Inr x)
    show ?thesis
    proof (cases x)
      case None
      with Inr ready stays c m show ?thesis by (simp add: setNoiseSuppressionMode_def Let_def)
    next
      case (Some t')
      with Inr ready obtain r' where "capture_ok r' t' c1 ?s2" by (auto simp: capture_ok_def)
      from swap_inv [OF f2 _ this keep(1) _ keep(3,4)] keep(2) have "mic_inv on (fst (swapMicTrack True t' ?s2))" by simp
      with Some Inr c m show ?thesis by (simp add: setNoiseSuppressionMode_def Let_def split_beta)
    qed
  qed
qed

lemma watchdog_step_inv:
  assumes "mic_inv on s"
  shows "mic_inv on (fst (applyCaptureWatchdog now True s))"
proof -
  from assms obtain c r t where f: "fresh_ids s" and c: "mc_capture s = Some c" and ok: "capture_ok r t c s"
    and t: "lc_stream c = Some t" "mc_localStream s = Some t" "mc_sender s = Some t" "track_enabled s t = on"
    by (rule mic_invE)
  show ?thesis
  proof (cases "lc_graph c = None \<or> lc_suspendedSince c = None \<or>
      now - the (lc_suspendedSince c) < RNNOISE_SUSPENDED_FALLBACK_MS")
    case True
    then have "checkWatchdogFallback now c s = (None, c, s, [])"
      by (auto simp: checkWatchdogFallback_def split: option.splits)
    moreover have "s\<lparr>mc_capture := Some c\<rparr> = s" using c by (cases s) simp
    then have "mic_inv on (s\<lparr>mc_capture := Some c\<rparr>)" by (rule ssubst) (rule assms)
    ultimately show ?thesis using c by (simp add: applyCaptureWatchdog_def Let_def)
  next
    case False
    have raw: "lc_rawStream c = Some r" using ok by (simp add: capture_ok_def)
    obtain c2 s2 where d: "disposeRnnoiseProcessing (c\<lparr>lc_effective := ModeBrowser\<rparr>) s = (c2, s2)" by fastforce
    let ?s2 = "s2\<lparr>mc_capture := Some c2\<rparr>"
    note dg = dispose_graph [OF d f]
    have f2: "fresh_ids ?s2" using dg(3) by (auto simp: fresh_ids_def)
    have ok2: "capture_ok r r c2 ?s2" using ok dg by (simp add: capture_ok_def)
    have keep: "mc_localStream ?s2 = Some t" "mc_sender ?s2 = Some t" "track_enabled ?s2 t = on" "t < mc_nextTrack ?s2"
      using dg(2) t ok by (auto simp: same_call_def track_enabled_def capture_ok_def)
    from swap_inv [OF f2 _ ok2 keep(1) _ keep(3,4)] keep(2) have "mic_inv on (fst (swapMicTrack True r ?s2))" by simp
    with False c d raw show ?thesis
      by (auto simp: applyCaptureWatchdog_def checkWatchdogFallback_def Let_def split: prod.splits option.splits)
  qed
qed

lemma button_inv_step:
  assumes "mic_inv (fst g) (snd g)" and "sender_takes e"
  shows "mic_inv (fst (fst (button_step g e))) (snd (fst (button_step g e)))"
proof (cases e)
  case (MicSet b)
  from assms(1) obtain c r t where i: "fresh_ids (snd g)" "mc_capture (snd g) = Some c" "capture_ok r t c (snd g)"
    "lc_stream c = Some t" "mc_localStream (snd g) = Some t" "mc_sender (snd g) = Some t" by (rule mic_invE)
  have "fresh_ids (set_enabled t b (snd g))" using i(1,3) by (intro fresh_set_enabled) (simp_all add: capture_ok_def)
  moreover have "capture_ok r t c (set_enabled t b (snd g))" using i(3) by (simp add: capture_ok_def)
  ultimately have "mic_inv b (set_enabled t b (snd g))" unfolding mic_inv_def using i(2,4-6) by fastforce
  with MicSet i(5) show ?thesis by (simp add: button_step_def setMicrophoneEnabled_def)
next
  case (MicMode mode constraintsOk device gr replaced)
  with assms mode_step_inv [OF assms(1)] show ?thesis by (simp add: button_step_def split_beta Let_def)
next
  case (MicContext suspended now)
  from assms(1) obtain c r t where i: "fresh_ids (snd g)" "mc_capture (snd g) = Some c" "capture_ok r t c (snd g)"
    "lc_stream c = Some t" "mc_localStream (snd g) = Some t" "mc_sender (snd g) = Some t" "track_enabled (snd g) t = fst g"
    by (rule mic_invE)
  let ?c = "if lc_graph c = None then c else context_state suspended now c"
  let ?s = "snd g\<lparr>mc_capture := Some ?c\<rparr>"
  have "fresh_ids ?s" "capture_ok r t ?c ?s" "lc_stream ?c = Some t" "track_enabled ?s t = fst g"
    using i(1,3,4,7) by (auto simp: fresh_ids_def capture_ok_def context_state_def track_enabled_def)
  then have "mic_inv (fst g) ?s" unfolding mic_inv_def using i(5,6) by fastforce
  with MicContext i(2) show ?thesis by (simp add: button_step_def)
next
  case (MicWatchdog now replaced)
  with assms watchdog_step_inv [OF assms(1)] show ?thesis by (simp add: button_step_def split_beta Let_def)
qed

interpretation button: machine_invariant "\<lambda>_ e. sender_takes e" button_step "\<lambda>g. mic_inv (fst g) (snd g)"
  by unfold_locales (rule button_inv_step)

lemma mic_join_inv: "mic_inv True (fst (join_mic (Inr ()) g (new_mic mode)))"
proof -
  have "track_enabled (new_mic mode) t" for t by (simp add: track_enabled_def new_mic_def map_get_or_def)
  then show ?thesis
    by (cases g; cases mode) (auto simp: join_mic_def acquire_def new_capture_def new_mic_def new_track_id_def
        applyRnnoiseProcessing_def disposeRnnoiseProcessing_def mic_inv_def fresh_ids_def capture_ok_def track_enabled_def
        map_get_or_def)
qed


section \<open>What the others hear\<close>


text \<open>The input of the graph was muted before the graph was built: the button does not reach it any more.\<close>

definition input_muted :: "mic_client \<Rightarrow> bool" where
  "input_muted s \<longleftrightarrow> (\<exists>c r t. mc_capture s = Some c \<and> lc_graph c = Some (r, t) \<and> r \<noteq> t \<and> mc_sender s = Some t
     \<and> mc_localStream s = Some t \<and> \<not> track_enabled s r)"

fun button_or_context :: "mic_input \<Rightarrow> bool" where
  "button_or_context (MicSet _) = True"
| "button_or_context (MicContext _ _) = True"
| "button_or_context _ = False"

interpretation muted_input: machine_invariant "\<lambda>_ e. button_or_context e" mic_step input_muted
proof unfold_locales
  fix s e assume i: "input_muted s" "button_or_context e"
  then obtain c r t where c: "mc_capture s = Some c" "lc_graph c = Some (r, t)" "r \<noteq> t" "mc_sender s = Some t"
    "mc_localStream s = Some t" "\<not> track_enabled s r" unfolding input_muted_def by blast
  show "input_muted (fst (mic_step s e))"
  proof (cases e)
    case (MicSet b)
    with c show ?thesis by (simp add: input_muted_def setMicrophoneEnabled_def)
  next
    case (MicContext suspended now)
    with c show ?thesis by (simp add: input_muted_def context_state_def track_enabled_def)
  qed (use i in simp_all)
qed

lemma switch_muted:
  assumes "mic_inv on s" and "mc_capture s = Some c" and "lc_mode c \<noteq> ModeRnnoise" and "lc_graph c = None" and "\<not> on"
  shows "input_muted (fst (setNoiseSuppressionMode ModeRnnoise True device GraphBuilt True s))"
proof -
  from assms obtain r t where f: "fresh_ids s" and ok: "capture_ok r t c s"
    and t: "lc_stream c = Some t" "mc_localStream s = Some t" "mc_sender s = Some t" "track_enabled s t = on"
    by (elim mic_invE) simp
  then have r: "lc_rawStream c = Some r" "t = r" "r < mc_nextTrack s" using assms(4) by (auto simp: capture_ok_def)
  with assms t show ?thesis
    by (simp add: setNoiseSuppressionMode_def setMode_def applyRnnoiseProcessing_def disposeRnnoiseProcessing_def
        new_track_id_def swapMicTrack_def input_muted_def track_enabled_def set_enabled_def map_get_or_def stop_track_def)
qed

text \<open>Who mutes the microphone and then turns the RNNoise suppression on is not heard after unmuting: the input of the
  graph is the old track, still disabled, and the button acts on the new one only. Nothing is heard until the next switch,
  however often the button is pressed.\<close>

theorem muted_then_switched_stays_silent:
  assumes "mic_inv on s" and "mc_capture s = Some c" and "lc_mode c \<noteq> ModeRnnoise" and "lc_graph c = None"
    and "mic_step (setMicrophoneEnabled False s) (MicMode ModeRnnoise True device GraphBuilt True) = (s1, os1)"
    and "run (\<lambda>_ e. button_or_context e) mic_step s1 es s2 os2"
  shows "\<not> audible s2 \<and> (\<forall>b. audible (setMicrophoneEnabled b s2) = False
    \<and> (\<exists>t. mc_localStream s2 = Some t \<and> track_enabled (setMicrophoneEnabled b s2) t = b))"
proof -
  have "mic_inv False (setMicrophoneEnabled False s)"
    using button_inv_step [of "(on, s)" "MicSet False"] assms(1) by (simp add: button_step_def)
  moreover have "mc_capture (setMicrophoneEnabled False s) = Some c"
    using assms(2) by (simp add: setMicrophoneEnabled_def split: option.splits)
  ultimately have "input_muted s1" using switch_muted assms(3-5) by (metis fst_conv mic_step.simps(2))
  then have i: "input_muted s2" by (rule muted_input.inv_run [OF assms(6)])
  then have "input_muted (setMicrophoneEnabled b s2)" for b using muted_input.inv_step [of s2 "MicSet b"] by simp
  moreover have "input_muted s \<Longrightarrow> \<not> audible s" for s by (auto simp: input_muted_def audible_def live_def)
  ultimately show ?thesis using i by (auto simp: input_muted_def setMicrophoneEnabled_def)
qed

text \<open>When the sender refuses the track of the graph, the refusal is only logged: the sender goes on with the old
  track, which is the input of the graph and is not stopped, while the button acts on the new one. A microphone shown as
  muted is heard.\<close>

theorem refused_track_cannot_be_muted:
  assumes "mic_inv True s" and "mc_capture s = Some c" and "lc_mode c \<noteq> ModeRnnoise" and "lc_graph c = None"
    and "mic_step s (MicMode ModeRnnoise True device GraphBuilt False) = (s1, os1)"
  shows "\<forall>b. audible (setMicrophoneEnabled b s1)
    \<and> (\<exists>t. mc_localStream s1 = Some t \<and> track_enabled (setMicrophoneEnabled b s1) t = b)"
proof -
  from assms obtain r t where f: "fresh_ids s" and ok: "capture_ok r t c s"
    and t: "lc_stream c = Some t" "mc_localStream s = Some t" "mc_sender s = Some t" "track_enabled s t = True"
    by (elim mic_invE) simp
  then have r: "lc_rawStream c = Some r" "t = r" "r < mc_nextTrack s" "r \<notin> set (mc_stopped s)"
    using assms(4) by (auto simp: capture_ok_def)
  with assms t show ?thesis
    by (auto simp: setNoiseSuppressionMode_def setMode_def applyRnnoiseProcessing_def disposeRnnoiseProcessing_def
        new_track_id_def swapMicTrack_def setMicrophoneEnabled_def track_enabled_def set_enabled_def map_get_or_def
        stop_track_def audible_def live_def)
qed

text \<open>A mode that was asked for is remembered even when the switch failed, or the watchdog gave it up: asking again does
  nothing.\<close>

lemma failed_mode_is_stuck:
  assumes "setMode next False (Inl e) g c s = (Inl e', c', s', os)"
  shows "setMode next constraintsOk device g' c' s' = (Inr None, c', s', [])" and "lc_effective c' = lc_effective c"
  using assms by (auto simp: setMode_def Let_def split: if_splits option.splits)

lemma given_up_mode_is_stuck:
  assumes "checkWatchdogFallback now c s = (Some t, c', s', os)" and "lc_mode c = ModeRnnoise"
  shows "setMode ModeRnnoise constraintsOk device g c' s' = (Inr None, c', s', [])" and "lc_effective c' = ModeBrowser"
  using assms by (auto simp: checkWatchdogFallback_def disposeRnnoiseProcessing_def setMode_def Let_def
      split: option.splits if_splits)

section \<open>The camera\<close>

text \<open>The camera keeps the one track it returns and stops every other track the attempts opened.\<close>

lemma camera_keeps_one:
  assumes "acquire_attempts device as e = (res, stopped)"
    and "\<And>a video audio. device a = Inr (video, audio) \<Longrightarrow> distinct video \<and> set video \<inter> set audio = {}"
    and "\<And>a b v v' u u'. a \<noteq> b \<Longrightarrow> device a = Inr (v, u) \<Longrightarrow> device b = Inr (v', u') \<Longrightarrow> (set v \<union> set u) \<inter> (set v' \<union> set u') = {}"
    and "distinct as"
  shows "\<And>t. res = Inr t \<Longrightarrow> t \<notin> set stopped \<and> (\<exists>a \<in> set as. \<exists>v u. device a = Inr (v, u) \<and> t \<in> set v)"
  using assms(1,4)
proof (induction as arbitrary: e res stopped)
  case (Cons a as)
  show ?case
  proof (cases "device a")
    case (Inl x)
    with Cons show ?thesis by fastforce
  next
    case (Inr y)
    obtain v u where y: "y = (v, u)" by fastforce
    show ?thesis
    proof (cases v)
      case Nil
      obtain r st where r: "acquire_attempts device as e = (r, st)" by fastforce
      with Nil Inr y Cons.prems have s: "res = r" "stopped = u @ st" by auto
      with Cons.IH [OF _ r] Cons.prems have i: "t \<notin> set st" "\<exists>a \<in> set as. \<exists>v u. device a = Inr (v, u) \<and> t \<in> set v" by auto
      then obtain b v' u' where b: "b \<in> set as" "device b = Inr (v', u')" "t \<in> set v'" by blast
      with Cons.prems have "a \<noteq> b" by auto
      from assms(3) [OF this, of v u v' u'] Inr y b have "t \<notin> set u" by auto
      with i s b show ?thesis by auto
    next
      case (Cons w ws)
      with Inr y Cons.prems assms(2) [of a v u] show ?thesis by auto
    qed
  qed
qed simp

section \<open>At work\<close>

definition joined :: mic_client where "joined = fst (join_mic (Inr ()) GraphBuilt (new_mic ModeBrowser))"

lemma joined_parts: "mic_inv True joined" "mc_capture joined = Some \<lparr>lc_mode = ModeBrowser, lc_effective = ModeBrowser,
    lc_stream = Some 0, lc_rawStream = Some 0, lc_graph = None, lc_suspendedSince = None\<rparr>"
  unfolding joined_def by (rule mic_join_inv) code_simp


definition muted_switch :: mic_client where
  "muted_switch = fst (mic_step (setMicrophoneEnabled False joined) (MicMode ModeRnnoise True (Inr ()) GraphBuilt True))"

lemma muted_then_switched_stays_silent_witness:
  "\<not> audible (setMicrophoneEnabled True muted_switch) \<and> audible joined"
proof -
  have 1: "mic_step (setMicrophoneEnabled False joined) (MicMode ModeRnnoise True (Inr ()) GraphBuilt True) =
    (muted_switch, snd (mic_step (setMicrophoneEnabled False joined) (MicMode ModeRnnoise True (Inr ()) GraphBuilt True)))"
    by (simp add: muted_switch_def)
  have "audible joined" by code_simp
  with muted_then_switched_stays_silent [OF joined_parts _ _ 1 run_nil] show ?thesis by simp
qed

lemma refused_track_cannot_be_muted_witness:
  "audible (setMicrophoneEnabled False (fst (mic_step joined (MicMode ModeRnnoise True (Inr ()) GraphBuilt False))))"
proof -
  have 1: "mic_step joined (MicMode ModeRnnoise True (Inr ()) GraphBuilt False) =
    (fst (mic_step joined (MicMode ModeRnnoise True (Inr ()) GraphBuilt False)),
     snd (mic_step joined (MicMode ModeRnnoise True (Inr ()) GraphBuilt False)))" by simp
  from refused_track_cannot_be_muted [OF joined_parts _ _ 1] show ?thesis by simp
qed

end
