(* ===== verification/Account.thy ===== *)
theory Account
  imports ChatTypes
begin

text \<open>
  The account: the token and the profile kept in \<open>localStorage\<close> (\<^verbatim>\<open>services/authToken.ts\<close>), the requests that carry the
  token (\<^verbatim>\<open>api.ts\<close>), the pages that need one (\<^verbatim>\<open>App.tsx\<close>) and the pages that give one (\<^verbatim>\<open>pages/Login.tsx\<close>,
  \<^verbatim>\<open>Register.tsx\<close>, \<^verbatim>\<open>VerifyEmail.tsx\<close>). \<open>JSON.parse\<close> and \<open>JSON.stringify\<close> are arguments; times are in milliseconds.
\<close>

type_synonym storage = "string \<rightharpoonup> string"

section \<open>Base 64\<close>

text \<open>\<open>atob\<close> of the browser: ASCII white space is skipped, up to two \<open>=\<close> end a text whose length is a multiple of four, and
  a byte is a character below 256.\<close>

definition b64_value :: "char \<Rightarrow> nat option" where
  "b64_value c = (let n = of_char c :: nat in
     if 65 \<le> n \<and> n \<le> 90 then Some (n - 65)
     else if 97 \<le> n \<and> n \<le> 122 then Some (n - 71)
     else if 48 \<le> n \<and> n \<le> 57 then Some (n + 4)
     else if n = 43 then Some 62
     else if n = 47 then Some 63
     else None)"

fun b64_values :: "string \<Rightarrow> nat list option" where
  "b64_values [] = Some []"
| "b64_values (c # s) = (case (b64_value c, b64_values s) of (Some v, Some vs) \<Rightarrow> Some (v # vs) | _ \<Rightarrow> None)"

fun b64_bytes :: "nat list \<Rightarrow> nat list" where
  "b64_bytes (a # b # c # d # r) = (a * 4 + b div 16) # (b mod 16 * 16 + c div 4) # (c mod 4 * 64 + d) # b64_bytes r"
| "b64_bytes [a, b, c] = [a * 4 + b div 16, b mod 16 * 16 + c div 4]"
| "b64_bytes [a, b] = [a * 4 + b div 16]"
| "b64_bytes _ = []"

definition ascii_space :: "char \<Rightarrow> bool" where
  "ascii_space c \<longleftrightarrow> of_char c \<in> {9, 10, 12, 13, 32 :: nat}"

definition drop_padding :: "string \<Rightarrow> string" where
  "drop_padding s = (if length s mod 4 = 0
     then (if suffix ''=='' s then take (length s - 2) s else if suffix ''='' s then take (length s - 1) s else s) else s)"

definition atob :: "string \<Rightarrow> string option" where
  "atob s = (let t = drop_padding (filter (\<lambda>c. \<not> ascii_space c) s)
     in if length t mod 4 = 1 then None else map_option (\<lambda>vs. map char_of (b64_bytes vs)) (b64_values t))"

section \<open>Tokens\<close>

fun split_char :: "char \<Rightarrow> string \<Rightarrow> string list" where
  "split_char c [] = [[]]"
| "split_char c (x # xs) = (if x = c then [] # split_char c xs
     else (case split_char c xs of w # ws \<Rightarrow> (x # w) # ws | [] \<Rightarrow> [[x]]))"

definition JWT_SEGMENTS :: nat where "JWT_SEGMENTS = 3"

definition isJwtLike :: "string \<Rightarrow> bool" where
  "isJwtLike token \<longleftrightarrow> length (split_char CHR ''.'' token) = JWT_SEGMENTS"

definition quoted_by :: "char \<Rightarrow> string \<Rightarrow> bool" where
  "quoted_by q s \<longleftrightarrow> prefix [q] s \<and> suffix [q] s"

definition normalizeToken :: "string \<Rightarrow> string" where
  "normalizeToken raw =
     (let n1 = trim raw;
          n2 = (if prefix ''bearer '' (to_lower n1) then trim (drop 7 n1) else n1)
      in if quoted_by CHR 0x22 n2 \<or> quoted_by CHR 0x27 n2 then trim (butlast (tl n2)) else n2)"

definition url_safe :: "char \<Rightarrow> char" where
  "url_safe c = (if c = CHR ''-'' then CHR ''+'' else if c = CHR ''_'' then CHR ''/'' else c)"

definition padEnd :: "nat \<Rightarrow> char \<Rightarrow> string \<Rightarrow> string" where
  "padEnd n c s = s @ replicate (n - length s) c"

definition decodeJwtPayloadObject :: "(string \<Rightarrow> jsval option) \<Rightarrow> string \<Rightarrow> jsval option" where
  "decodeJwtPayloadObject parse token =
     (if \<not> isJwtLike token then None
      else let payload = split_char CHR ''.'' token ! 1
           in if payload = [] then None
              else let normalized = map url_safe payload;
                       padded = padEnd ((length normalized + 3) div 4 * 4) CHR ''='' normalized
                   in case Option.bind (atob padded) parse of
                        Some v \<Rightarrow> (if is_object v then Some v else None)
                      | None \<Rightarrow> None)"

definition USER_PROFILE_KEY :: string where "USER_PROFILE_KEY = ''current_user''"

definition clearAuthStorage :: "storage \<Rightarrow> storage" where
  "clearAuthStorage st = st(''token'' := None, ''refresh_token'' := None, USER_PROFILE_KEY := None)"

definition token_exp :: "(string \<Rightarrow> jsval option) \<Rightarrow> string \<Rightarrow> int option" where
  "token_exp parse token = Option.bind (decodeJwtPayloadObject parse token) (\<lambda>v. num_of (js_get v ''exp''))"

definition getValidAccessToken :: "(string \<Rightarrow> jsval option) \<Rightarrow> int \<Rightarrow> storage \<Rightarrow> string option \<times> storage" where
  "getValidAccessToken parse now st = (case st ''token'' of
     None \<Rightarrow> (None, st)
   | Some token \<Rightarrow>
       (if token = [] then (None, st)
        else let normalized = normalizeToken token
             in if normalized = [] \<or> \<not> isJwtLike normalized then (None, clearAuthStorage st)
                else if (case token_exp parse normalized of Some e \<Rightarrow> e \<le> now div 1000 | None \<Rightarrow> False)
                then (None, clearAuthStorage st)
                else (Some normalized, if normalized \<noteq> token then st(''token'' \<mapsto> normalized) else st)))"

section \<open>The profile of the user\<close>

record CurrentUserProfile =
  pf_first_name :: "string option"
  pf_last_name :: "string option"
  pf_nickname :: "string option"
  pf_email :: "string option"

definition given_name :: "string option \<Rightarrow> bool" where
  "given_name x \<longleftrightarrow> x \<noteq> None \<and> x \<noteq> Some []"

definition profile_of :: "jsval \<Rightarrow> CurrentUserProfile option" where
  "profile_of v =
     (let p = \<lparr>pf_first_name = str_of (js_get v ''first_name''), pf_last_name = str_of (js_get v ''last_name''),
               pf_nickname = str_of (js_get v ''nickname''), pf_email = str_of (js_get v ''email'')\<rparr>
      in if \<not> given_name (pf_first_name p) \<and> \<not> given_name (pf_last_name p) \<and> \<not> given_name (pf_nickname p)
            \<and> \<not> given_name (pf_email p) then None else Some p)"

definition parseStoredProfile :: "(string \<Rightarrow> jsval option) \<Rightarrow> string option \<Rightarrow> CurrentUserProfile option" where
  "parseStoredProfile parse raw = (case raw of
     None \<Rightarrow> None
   | Some r \<Rightarrow> (if r = [] then None
       else case parse r of Some v \<Rightarrow> (if is_object v then profile_of v else None) | None \<Rightarrow> None))"

definition decodeJwtPayload :: "(string \<Rightarrow> jsval option) \<Rightarrow> string \<Rightarrow> CurrentUserProfile option" where
  "decodeJwtPayload parse token = Option.bind (decodeJwtPayloadObject parse token) profile_of"

text \<open>What \<open>JSON.stringify\<close> sees of a profile: an undefined field is left out.\<close>

definition profile_json :: "CurrentUserProfile \<Rightarrow> jsval" where
  "profile_json p = JObj (List.map_filter (\<lambda>(k, v). map_option (\<lambda>s. (k, JStr s)) v)
     [(''first_name'', pf_first_name p), (''last_name'', pf_last_name p), (''nickname'', pf_nickname p),
      (''email'', pf_email p)])"

definition getCurrentUserProfile :: "(string \<Rightarrow> jsval option) \<Rightarrow> (jsval \<Rightarrow> string) \<Rightarrow> int \<Rightarrow> storage
    \<Rightarrow> CurrentUserProfile option \<times> storage" where
  "getCurrentUserProfile parse stringify now st = (case parseStoredProfile parse (st USER_PROFILE_KEY) of
     Some p \<Rightarrow> (Some p, st)
   | None \<Rightarrow> (case getValidAccessToken parse now st of
       (None, st1) \<Rightarrow> (None, st1)
     | (Some token, st1) \<Rightarrow> (case decodeJwtPayload parse token of
         Some p \<Rightarrow> (Some p, st1(USER_PROFILE_KEY \<mapsto> stringify (profile_json p)))
       | None \<Rightarrow> (None, st1))))"

text \<open>\<open>to_number\<close>: the number of a text when it is a whole one.\<close>

definition getCurrentUserId :: "(string \<Rightarrow> jsval option) \<Rightarrow> (string \<Rightarrow> int option) \<Rightarrow> int \<Rightarrow> storage
    \<Rightarrow> int option \<times> storage" where
  "getCurrentUserId parse to_number now st = (case getValidAccessToken parse now st of
     (None, st1) \<Rightarrow> (None, st1)
   | (Some token, st1) \<Rightarrow> (case decodeJwtPayloadObject parse token of
       None \<Rightarrow> (None, st1)
     | Some v \<Rightarrow> (case js_get v ''user_id'' of
         JNum n \<Rightarrow> (Some n, st1)
       | JStr s \<Rightarrow> ((case to_number s of Some n \<Rightarrow> (if 0 < n then Some n else None) | None \<Rightarrow> None), st1)
       | _ \<Rightarrow> (None, st1))))"

section \<open>Requests and routes\<close>

text \<open>The interceptor of \<^verbatim>\<open>api.ts\<close>: the header of a request, read when it is sent.\<close>

definition authorization :: "(string \<Rightarrow> jsval option) \<Rightarrow> int \<Rightarrow> storage \<Rightarrow> string option \<times> storage" where
  "authorization parse now st = (let (token, st1) = getValidAccessToken parse now st
     in (map_option (\<lambda>t. ''Bearer '' @ t) token, st1))"

datatype app_page = ChatPage | LoginPage | RegisterPage | VerifyEmailPage

datatype route_result = Render app_page | Navigate string

definition RequireAuth :: "(string \<Rightarrow> jsval option) \<Rightarrow> int \<Rightarrow> storage \<Rightarrow> app_page \<Rightarrow> route_result \<times> storage" where
  "RequireAuth parse now st p = (case getValidAccessToken parse now st of
     (Some _, st1) \<Rightarrow> (Render p, st1) | (None, st1) \<Rightarrow> (Navigate ''/login'', st1))"

definition GuestOnly :: "(string \<Rightarrow> jsval option) \<Rightarrow> int \<Rightarrow> storage \<Rightarrow> app_page \<Rightarrow> route_result \<times> storage" where
  "GuestOnly parse now st p = (case getValidAccessToken parse now st of
     (Some _, st1) \<Rightarrow> (Navigate ''/chat'', st1) | (None, st1) \<Rightarrow> (Render p, st1))"

text \<open>Each rendering of \<open>App\<close> reads the token once more for the element of the route \<open>/\<close>.\<close>

definition app_route :: "(string \<Rightarrow> jsval option) \<Rightarrow> int \<Rightarrow> storage \<Rightarrow> string \<Rightarrow> route_result \<times> storage" where
  "app_route parse now st0 path =
     (let (token, st) = getValidAccessToken parse now st0
      in if path = ''/'' then (Navigate (if token \<noteq> None then ''/chat'' else ''/login''), st)
         else if path = ''/register'' then GuestOnly parse now st RegisterPage
         else if path = ''/login'' then GuestOnly parse now st LoginPage
         else if path = ''/verify-email'' then (Render VerifyEmailPage, st)
         else if path = ''/chat'' then RequireAuth parse now st ChatPage
         else (Navigate ''/login'', st))"

fun follow_routes :: "nat \<Rightarrow> (string \<Rightarrow> jsval option) \<Rightarrow> int \<Rightarrow> storage \<Rightarrow> string \<Rightarrow> app_page option" where
  "follow_routes 0 parse now st path = None"
| "follow_routes (Suc n) parse now st path = (case app_route parse now st path of
     (Render p, _) \<Rightarrow> Some p
   | (Navigate path', st') \<Rightarrow> follow_routes n parse now st' path')"

end
