(* ===== verification/Profile.thy ===== *)
theory Profile
  imports Account
begin

text \<open>
  The pages that log in and register (\<^verbatim>\<open>pages/Login.tsx\<close>, \<^verbatim>\<open>Register.tsx\<close>, \<^verbatim>\<open>VerifyEmail.tsx\<close>), the profile of the
  user and of others (\<^verbatim>\<open>hooks/useProfile.ts\<close>), and the end of the push subscription (\<^verbatim>\<open>services/notifications/push.ts\<close>). A
  handler that awaits a request is split at the await: its start sends the request, its end is given the answer.
\<close>

section \<open>Answers\<close>

datatype api_body = NoBody | BodyText string | BodyObject "string option" "string option" "string option"

datatype 'd http = HttpOk nat 'd | HttpError "nat option" api_body

definition extractApiError :: "api_body \<Rightarrow> string \<Rightarrow> string" where
  "extractApiError data fallback = (case data of
     NoBody \<Rightarrow> fallback
   | BodyText t \<Rightarrow> (if trim t \<noteq> [] then t else fallback)
   | BodyObject e d msg \<Rightarrow>
       (if given_name e then the e else if given_name d then the d else if given_name msg then the msg else fallback))"

datatype page_effect =
    PostLogin string string
  | PostResend string
  | PostRegister string string string string string
  | PostVerify string
  | GetUserInfo int
  | PostUpdateUser string string string
  | UploadAvatar
  | DeleteUser string
  | OpenAvatarPicker
  | ResetAvatarInput
  | ShowAlert string
  | ShowToast bool string
  | DisposeClient
  | CloseSocket
  | UnsubscribePush
  | GoTo string

section \<open>Logging in\<close>

record login_page =
  lg_email :: string
  lg_password :: string
  lg_error :: string
  lg_loading :: bool
  lg_needsVerification :: bool
  lg_resendStatus :: string

record LoginResponse =
  lr_access_token :: "string option"
  lr_refresh_token :: "string option"
  lr_token :: "string option"
  lr_user :: jsval

definition CHAT_STORAGE_KEYS :: "string list" where
  "CHAT_STORAGE_KEYS = [''chat_servers'', ''chat_channels_by_server'', ''chat_selected_server_id'']"

definition remove_items :: "string list \<Rightarrow> storage \<Rightarrow> storage" where
  "remove_items ks st = fold (\<lambda>k s. s(k := None)) ks st"

definition login_change :: "bool \<Rightarrow> string \<Rightarrow> login_page \<Rightarrow> login_page" where
  "login_change isEmail v s = (if isEmail then s\<lparr>lg_email := v\<rparr> else s\<lparr>lg_password := v\<rparr>)\<lparr>lg_error := ''''\<rparr>"

definition login_validate :: "login_page \<Rightarrow> string option" where
  "login_validate s =
     (if lg_email s = [] \<or> lg_password s = [] then Some ''Please fill all fields.''
      else if length (lg_email s) < 5 \<or> CHR ''@'' \<notin> set (lg_email s) then Some ''Please enter a valid email address.''
      else None)"

definition login_submit :: "login_page \<Rightarrow> login_page \<times> page_effect list" where
  "login_submit s = (case login_validate s of
     Some e \<Rightarrow> (s\<lparr>lg_error := e\<rparr>, [])
   | None \<Rightarrow> (s\<lparr>lg_error := '''', lg_needsVerification := False, lg_resendStatus := '''', lg_loading := True\<rparr>,
              [PostLogin (lg_email s) (lg_password s)]))"

definition access_token_of :: "LoginResponse \<Rightarrow> string option" where
  "access_token_of r = (case lr_access_token r of Some t \<Rightarrow> Some t | None \<Rightarrow> lr_token r)"

definition login_done :: "(jsval \<Rightarrow> string) \<Rightarrow> LoginResponse http \<Rightarrow> login_page \<Rightarrow> storage
    \<Rightarrow> login_page \<times> storage \<times> page_effect list" where
  "login_done stringify answer s0 st =
     (let s = s0\<lparr>lg_loading := False\<rparr>
      in case answer of
           HttpError status body \<Rightarrow>
             (s\<lparr>lg_needsVerification := (lg_needsVerification s \<or> status = Some 403),
                lg_error := extractApiError body ''Error logging in. Try again later.''\<rparr>, st, [])
         | HttpOk status r \<Rightarrow>
             (if status \<noteq> 200 then (s, st, [])
              else if \<not> given_name (access_token_of r)
              then (s\<lparr>lg_error := ''The server did not return an access token.''\<rparr>, st, [])
              else let st1 = st(''token'' := access_token_of r);
                       st2 = (if truthy (lr_user r) then st1(USER_PROFILE_KEY \<mapsto> stringify (lr_user r)) else st1);
                       st3 = (if given_name (lr_refresh_token r) then st2(''refresh_token'' := lr_refresh_token r) else st2)
                   in (s, remove_items CHAT_STORAGE_KEYS st3, [GoTo ''/chat''])))"

definition resend_submit :: "login_page \<Rightarrow> login_page \<times> page_effect list" where
  "resend_submit s = (s\<lparr>lg_resendStatus := ''''\<rparr>, [PostResend (lg_email s)])"

definition resend_done :: "string option http \<Rightarrow> login_page \<Rightarrow> login_page" where
  "resend_done answer s = (case answer of
     HttpOk _ msg \<Rightarrow> s\<lparr>lg_resendStatus := (case msg of Some t \<Rightarrow> t | None \<Rightarrow> ''Verification email sent.'')\<rparr>
   | HttpError _ body \<Rightarrow> s\<lparr>lg_resendStatus := extractApiError body ''Could not resend verification email.''\<rparr>)"

section \<open>Registering\<close>

record register_page =
  rg_firstName :: string
  rg_lastName :: string
  rg_email :: string
  rg_password :: string
  rg_confirmPassword :: string
  rg_nickname :: string
  rg_error :: string
  rg_loading :: bool

definition register_validate :: "register_page \<Rightarrow> string option" where
  "register_validate s =
     (if rg_firstName s = [] \<or> rg_lastName s = [] \<or> rg_email s = [] \<or> rg_password s = [] \<or> rg_confirmPassword s = []
         \<or> rg_nickname s = [] then Some ''Please fill all fields''
      else if length (rg_email s) < 5 \<or> CHR ''@'' \<notin> set (rg_email s) then Some ''Please enter a valid email address.''
      else if length (rg_password s) < 6 then Some ''The password must be at least 6 characters long.''
      else if rg_password s \<noteq> rg_confirmPassword s then Some ''The passwords don't match''
      else if length (rg_nickname s) < 5 then Some ''The nickname must be at least 5 characters long''
      else None)"

definition register_submit :: "register_page \<Rightarrow> register_page \<times> page_effect list" where
  "register_submit s = (case register_validate s of
     Some e \<Rightarrow> (s\<lparr>rg_error := e\<rparr>, [])
   | None \<Rightarrow> (s\<lparr>rg_loading := True\<rparr>,
              [PostRegister (rg_firstName s) (rg_lastName s) (rg_email s) (rg_password s) (rg_nickname s)]))"

definition register_done :: "string option http \<Rightarrow> register_page \<Rightarrow> register_page \<times> page_effect list" where
  "register_done answer s0 =
     (let s = s0\<lparr>rg_loading := False\<rparr>
      in case answer of
           HttpOk status msg \<Rightarrow>
             (s, if status = 200 \<or> status = 201
                 then [ShowAlert (case msg of Some t \<Rightarrow> t
                         | None \<Rightarrow> ''Registration successful! Please check your email to verify your account before logging in.''),
                       GoTo ''/login'']
                 else [])
         | HttpError _ body \<Rightarrow> (s\<lparr>rg_error := extractApiError body ''Registration error. Try again later''\<rparr>, []))"

section \<open>Verifying the email\<close>

datatype verify_status = Verifying | VerifySuccess | VerifyError

record verify_page =
  ve_status :: verify_status
  ve_message :: string
  ve_requested :: bool

definition new_verify :: "string \<Rightarrow> verify_page" where
  "new_verify token = \<lparr>ve_status = (if token \<noteq> [] then Verifying else VerifyError),
     ve_message = (if token \<noteq> [] then '''' else ''This verification link is missing a token.''), ve_requested = False\<rparr>"

definition verify_effect :: "string \<Rightarrow> verify_page \<Rightarrow> verify_page \<times> page_effect list" where
  "verify_effect token s = (if token = [] \<or> ve_requested s then (s, []) else (s\<lparr>ve_requested := True\<rparr>, [PostVerify token]))"

definition verify_done :: "string option http \<Rightarrow> verify_page \<Rightarrow> verify_page" where
  "verify_done answer s = (case answer of
     HttpOk _ msg \<Rightarrow> s\<lparr>ve_status := VerifySuccess,
       ve_message := (case msg of Some t \<Rightarrow> t | None \<Rightarrow> ''Email verified successfully. You can now log in.'')\<rparr>
   | HttpError _ body \<Rightarrow> s\<lparr>ve_status := VerifyError,
       ve_message := extractApiError body ''This verification link is invalid or has expired.''\<rparr>)"

section \<open>The end of the push subscription\<close>

text \<open>\<open>unsubscribeFromPush\<close>: it asks for the registration, then for its subscription, ends that and tells the server; each step
  runs when the one before has been answered. \<open>None\<close> for the subscription: there is no registration or no subscription.\<close>

datatype push_effect = AskRegistration | AskSubscription | EndSubscription string | PostUnsubscribe string "string option"

definition unsubscribe_start :: "bool \<Rightarrow> push_effect list" where
  "unsubscribe_start hasServiceWorker = (if hasServiceWorker then [AskRegistration] else [])"

definition unsubscribe_subscription :: "string option \<Rightarrow> push_effect list" where
  "unsubscribe_subscription endpoint = (case endpoint of Some e \<Rightarrow> [EndSubscription e] | None \<Rightarrow> [])"

definition unsubscribe_post :: "(string \<Rightarrow> jsval option) \<Rightarrow> int \<Rightarrow> string \<Rightarrow> storage \<Rightarrow> push_effect list \<times> storage" where
  "unsubscribe_post parse now endpoint st = (let (header, st1) = authorization parse now st
     in ([PostUnsubscribe endpoint header], st1))"

section \<open>The profile\<close>

record profile_page =
  pp_storage :: storage
  pp_socket :: bool
  pp_client :: bool
  pp_profile :: "CurrentUserProfile option"
  pp_avatarUrl :: string
  pp_modalOpen :: bool
  pp_selectedUserId :: "int option"
  pp_selected :: "UserProfile option"
  pp_selectedError :: string
  pp_loading :: bool
  pp_nicknameDraft :: string
  pp_updateError :: string
  pp_savingNickname :: bool
  pp_deleteConfirmOpen :: bool
  pp_deletePassword :: string
  pp_deleting :: bool
  pp_deleteError :: string
  pp_avatarError :: string
  pp_avatarUploading :: bool

definition new_profile_page :: "storage \<Rightarrow> CurrentUserProfile option \<Rightarrow> profile_page" where
  "new_profile_page st p = \<lparr>pp_storage = st, pp_socket = True, pp_client = True, pp_profile = p, pp_avatarUrl = '''',
     pp_modalOpen = False, pp_selectedUserId = None, pp_selected = None, pp_selectedError = '''', pp_loading = False,
     pp_nicknameDraft = '''', pp_updateError = '''', pp_savingNickname = False, pp_deleteConfirmOpen = False,
     pp_deletePassword = '''', pp_deleting = False, pp_deleteError = '''', pp_avatarError = '''', pp_avatarUploading = False\<rparr>"

definition isSelfProfile :: "int option \<Rightarrow> profile_page \<Rightarrow> bool" where
  "isSelfProfile me s \<longleftrightarrow> pp_selectedUserId s = None \<or> pp_selectedUserId s = me"

definition profileAvatarUrl :: "int option \<Rightarrow> profile_page \<Rightarrow> string" where
  "profileAvatarUrl me s = (if isSelfProfile me s then pp_avatarUrl s
     else case pp_selected s of Some p \<Rightarrow> up_avatar_url p | None \<Rightarrow> '''')"

definition profileFirstName :: "int option \<Rightarrow> profile_page \<Rightarrow> string option" where
  "profileFirstName me s = (if isSelfProfile me s then Option.bind (pp_profile s) pf_first_name
     else map_option up_first_name (pp_selected s))"

definition profileLastName :: "int option \<Rightarrow> profile_page \<Rightarrow> string option" where
  "profileLastName me s = (if isSelfProfile me s then Option.bind (pp_profile s) pf_last_name
     else map_option up_last_name (pp_selected s))"

definition profileNickname :: "int option \<Rightarrow> profile_page \<Rightarrow> string option" where
  "profileNickname me s = (if isSelfProfile me s then Option.bind (pp_profile s) pf_nickname
     else Option.bind (pp_selected s) up_nickname)"

definition text_of :: "string option \<Rightarrow> string" where
  "text_of x = (case x of Some s \<Rightarrow> s | None \<Rightarrow> '''')"

definition join_names :: "string option \<Rightarrow> string option \<Rightarrow> string" where
  "join_names a b = trim (if given_name a \<and> given_name b then the a @ '' '' @ the b
     else if given_name a then the a else if given_name b then the b else '''')"

definition profileDisplayName :: "int option \<Rightarrow> profile_page \<Rightarrow> string" where
  "profileDisplayName me s = (if given_name (profileNickname me s) then the (profileNickname me s)
     else join_names (profileFirstName me s) (profileLastName me s))"

definition first_char :: "string option \<Rightarrow> char option" where
  "first_char x = (case x of Some (c # _) \<Rightarrow> Some c | _ \<Rightarrow> None)"

text \<open>The first letter of the profile, before it is made upper case.\<close>

definition profileInitial :: "int option \<Rightarrow> profile_page \<Rightarrow> char" where
  "profileInitial me s = (case first_char (profileNickname me s) of Some c \<Rightarrow> c
     | None \<Rightarrow> (case first_char (profileFirstName me s) of Some c \<Rightarrow> c
     | None \<Rightarrow> (case first_char (profileLastName me s) of Some c \<Rightarrow> c | None \<Rightarrow> CHR ''U'')))"

definition openSelfProfile :: "profile_page \<Rightarrow> profile_page" where
  "openSelfProfile s = s\<lparr>pp_selectedUserId := None, pp_selected := None, pp_selectedError := '''', pp_updateError := '''',
     pp_loading := False, pp_deleteError := '''', pp_deleteConfirmOpen := False, pp_deletePassword := '''',
     pp_nicknameDraft := text_of (Option.bind (pp_profile s) pf_nickname), pp_modalOpen := True\<rparr>"

text \<open>\<open>openUserProfile\<close>. The answer carries the id that was asked for; the messages and the participants are those of the
  rendering the handler belongs to.\<close>

definition openUserProfile_start :: "int option \<Rightarrow> int \<Rightarrow> profile_page \<Rightarrow> profile_page \<times> page_effect list" where
  "openUserProfile_start me userId s =
     (if me \<noteq> None \<and> me \<noteq> Some 0 \<and> me = Some userId then (openSelfProfile s, [])
      else let s1 = s\<lparr>pp_selectedUserId := Some userId, pp_selected := None, pp_selectedError := '''', pp_updateError := '''',
                      pp_loading := True, pp_nicknameDraft := '''', pp_modalOpen := True\<rparr>
           in if \<not> pp_socket s then (s1\<lparr>pp_selectedError := ''No connection'', pp_loading := False\<rparr>, [])
              else (s1, [GetUserInfo userId]))"

definition js_text_or :: "jsval option \<Rightarrow> string option \<Rightarrow> string" where
  "js_text_or a b = (case a of
     Some v \<Rightarrow> (if is_nullish v then text_of b else str_or '''' v) | None \<Rightarrow> text_of b)"

definition profile_fallback :: "int \<Rightarrow> Message list record_map \<Rightarrow> VoiceParticipant list record_map \<Rightarrow> UserProfile option" where
  "profile_fallback userId messages participants =
     (let mf = find (\<lambda>m. m_author_id m = userId) (concat (map snd (record_entries messages)));
          vf = find (\<lambda>p. vp_user_id p = userId) (concat (map snd (record_entries participants)))
      in if mf = None \<and> vf = None then None
         else Some \<lparr>up_user_id = userId,
           up_first_name = js_text_or (map_option m_author_first_name mf) (Option.bind vf vp_first_name),
           up_last_name = js_text_or (map_option m_author_last_name mf) (Option.bind vf vp_last_name),
           up_nickname = Some (js_text_or (map_option m_author_nickname mf) (Option.bind vf vp_nickname)),
           up_avatar_url = (case mf of Some m \<Rightarrow> m_author_avatar_url m | None \<Rightarrow> text_of (Option.bind vf vp_avatar_url))\<rparr>)"

definition openUserProfile_done :: "int \<Rightarrow> Message list record_map \<Rightarrow> VoiceParticipant list record_map
    \<Rightarrow> string + UserProfile \<Rightarrow> profile_page \<Rightarrow> profile_page" where
  "openUserProfile_done userId messages participants answer s =
     (case answer of
        Inr info \<Rightarrow> s\<lparr>pp_selected := Some info\<rparr>
      | Inl message \<Rightarrow>
          (case (if str_includes (to_lower message) ''unknown action'' then profile_fallback userId messages participants else None) of
             Some p \<Rightarrow> s\<lparr>pp_selected := Some p, pp_selectedError := ''''\<rparr>
           | None \<Rightarrow> s\<lparr>pp_selectedError := message\<rparr>))\<lparr>pp_loading := False\<rparr>"

definition handleSaveNickname_start :: "int option \<Rightarrow> profile_page \<Rightarrow> profile_page \<times> page_effect list" where
  "handleSaveNickname_start me s =
     (if pp_profile s = None then (s\<lparr>pp_updateError := ''Profile not loaded''\<rparr>, [])
      else let firstName = trim (text_of (profileFirstName me s)); lastName = trim (text_of (profileLastName me s));
               nickname = trim (pp_nicknameDraft s)
           in if firstName = [] \<or> lastName = [] \<or> nickname = []
              then (s\<lparr>pp_updateError := ''First name, last name, and nickname are required''\<rparr>, [])
              else if length nickname < 5
              then (s\<lparr>pp_updateError := ''Nickname must be at least 5 characters long''\<rparr>, [])
              else if pp_savingNickname s then (s, [])
              else (s\<lparr>pp_savingNickname := True, pp_updateError := ''''\<rparr>, [PostUpdateUser firstName lastName nickname]))"

text \<open>The names are those of the request; \<open>seen\<close> is the profile of the rendering the handler belongs to.\<close>

definition handleSaveNickname_done :: "(jsval \<Rightarrow> string) \<Rightarrow> CurrentUserProfile \<Rightarrow> string \<Rightarrow> string \<Rightarrow> string \<Rightarrow> unit http
    \<Rightarrow> profile_page \<Rightarrow> profile_page \<times> page_effect list" where
  "handleSaveNickname_done stringify seen firstName lastName nickname answer s0 =
     (let s = s0\<lparr>pp_savingNickname := False\<rparr>
      in case answer of
           HttpOk _ _ \<Rightarrow>
             (let p = seen\<lparr>pf_first_name := Some firstName, pf_last_name := Some lastName, pf_nickname := Some nickname\<rparr>
              in (s\<lparr>pp_storage := (pp_storage s)(USER_PROFILE_KEY \<mapsto> stringify (profile_json p)), pp_profile := Some p,
                   pp_nicknameDraft := nickname\<rparr>, [ShowToast True ''Profile updated'']))
         | HttpError _ body \<Rightarrow> (s\<lparr>pp_updateError := extractApiError body ''Failed to update profile''\<rparr>, []))"

definition MAX_AVATAR_SIZE_BYTES :: nat where "MAX_AVATAR_SIZE_BYTES = 1024 * 1024"

definition ALLOWED_AVATAR_TYPES :: "string list" where
  "ALLOWED_AVATAR_TYPES = [''image/png'', ''image/jpeg'', ''image/webp'']"

definition openAvatarPicker :: "profile_page \<Rightarrow> profile_page \<times> page_effect list" where
  "openAvatarPicker s = (s\<lparr>pp_avatarError := ''''\<rparr>, [OpenAvatarPicker])"

definition handleAvatarChange_start :: "(string \<times> nat) option \<Rightarrow> profile_page \<Rightarrow> profile_page \<times> page_effect list" where
  "handleAvatarChange_start file s = (case file of
     None \<Rightarrow> (s, [])
   | Some (mime, bytes) \<Rightarrow>
       (if mime \<notin> set ALLOWED_AVATAR_TYPES
        then (s\<lparr>pp_avatarError := ''Unsupported file type. Please select a PNG, JPEG, or WEBP image.''\<rparr>, [ResetAvatarInput])
        else if MAX_AVATAR_SIZE_BYTES < bytes
        then (s\<lparr>pp_avatarError := ''File is too large. Please select an image smaller than 1 MB.''\<rparr>, [ResetAvatarInput])
        else (s\<lparr>pp_avatarUploading := True, pp_avatarError := ''''\<rparr>, [UploadAvatar])))"

definition handleAvatarChange_done :: "string + string \<Rightarrow> profile_page \<Rightarrow> profile_page \<times> page_effect list" where
  "handleAvatarChange_done answer s0 =
     (let s = s0\<lparr>pp_avatarUploading := False\<rparr>
      in case answer of
           Inr url \<Rightarrow> (s\<lparr>pp_avatarUrl := url\<rparr>, [ShowToast True ''Profile photo updated'', ResetAvatarInput])
         | Inl e \<Rightarrow> (s\<lparr>pp_avatarError := e\<rparr>, [ResetAvatarInput]))"

definition close_connections :: "profile_page \<Rightarrow> profile_page \<times> page_effect list" where
  "close_connections s = (s\<lparr>pp_client := False, pp_socket := False\<rparr>,
     (if pp_client s then [DisposeClient] else []) @ (if pp_socket s then [CloseSocket] else []))"

definition handleLogout :: "profile_page \<Rightarrow> profile_page \<times> page_effect list" where
  "handleLogout s0 = (let (s, os) = close_connections s0
     in (s\<lparr>pp_storage := remove_items CHAT_STORAGE_KEYS (clearAuthStorage (pp_storage s)), pp_modalOpen := False\<rparr>,
         os @ [UnsubscribePush, GoTo ''/login'']))"

definition handleDeleteAccount_start :: "profile_page \<Rightarrow> profile_page \<times> page_effect list" where
  "handleDeleteAccount_start s =
     (if pp_deletePassword s = [] then (s\<lparr>pp_deleteError := ''Enter your password to confirm''\<rparr>, [])
      else if pp_deleting s then (s, [])
      else (s\<lparr>pp_deleting := True, pp_deleteError := ''''\<rparr>, [DeleteUser (pp_deletePassword s)]))"

definition handleDeleteAccount_done :: "unit http \<Rightarrow> profile_page \<Rightarrow> profile_page \<times> page_effect list" where
  "handleDeleteAccount_done answer s0 =
     (let s = s0\<lparr>pp_deleting := False\<rparr>
      in case answer of
           HttpOk _ _ \<Rightarrow> (let (s1, os) = close_connections s
             in (s1\<lparr>pp_storage := remove_items CHAT_STORAGE_KEYS (clearAuthStorage (pp_storage s1)), pp_modalOpen := False\<rparr>,
                 os @ [GoTo ''/login'']))
         | HttpError _ body \<Rightarrow> (s\<lparr>pp_deleteError := extractApiError body ''Failed to delete account''\<rparr>, []))"

end
