(* ===== verification/AccountProps.thy ===== *)
theory AccountProps
  imports Account
begin

text \<open>Reading a token: what is kept, what is dropped, and that the tokens the server issues are read as it wrote them.\<close>

section \<open>Segments\<close>

lemma split_not_Nil [simp]: "split_char c s \<noteq> []"
  by (induction s) (auto split: list.splits)

lemma split_add_front: "c \<notin> set a \<Longrightarrow> split_char c (a @ s) = (a @ hd (split_char c s)) # tl (split_char c s)"
  by (induction a) (auto simp: list.case_eq_if)

lemma split_add_back: "c \<notin> set b \<Longrightarrow> split_char c (s @ b) = butlast (split_char c s) @ [last (split_char c s) @ b]"
proof (induction s)
  case Nil
  then show ?case using split_add_front [of c b "[]"] by simp
next
  case (Cons x s)
  obtain w ws where "split_char c s = w # ws" by (cases "split_char c s") auto
  with Cons show ?case by (cases ws) auto
qed

lemma split_three: "c \<notin> set a \<Longrightarrow> c \<notin> set b \<Longrightarrow> c \<notin> set d \<Longrightarrow> split_char c (a @ c # b @ c # d) = [a, b, d]"
  using split_add_front [of c d "[]"] by (simp add: split_add_front)

text \<open>A token inside another text that adds no dots has the same middle segment.\<close>

definition wraps :: "string \<Rightarrow> string \<Rightarrow> bool" where
  "wraps s t \<longleftrightarrow> (\<exists>a b. s = a @ t @ b \<and> CHR ''.'' \<notin> set a \<and> CHR ''.'' \<notin> set b)"

lemma wrapsI: "s = a @ t @ b \<Longrightarrow> CHR ''.'' \<notin> set a \<Longrightarrow> CHR ''.'' \<notin> set b \<Longrightarrow> wraps s t"
  by (auto simp: wraps_def)

lemma wraps_refl: "wraps s s"
  by (rule wrapsI [of _ "[]" _ "[]"]) simp_all

lemma wraps_trans: "wraps s t \<Longrightarrow> wraps t u \<Longrightarrow> wraps s u"
proof -
  assume "wraps s t" "wraps t u"
  then obtain a b c d where "s = a @ t @ b" "t = c @ u @ d"
    "CHR ''.'' \<notin> set a" "CHR ''.'' \<notin> set b" "CHR ''.'' \<notin> set c" "CHR ''.'' \<notin> set d" unfolding wraps_def by blast
  then show ?thesis by (intro wrapsI [of _ "a @ c" _ "d @ b"]) auto
qed

lemma wraps_segments:
  assumes "wraps s t"
  shows "isJwtLike t = isJwtLike s" and "isJwtLike s \<Longrightarrow> split_char CHR ''.'' t ! 1 = split_char CHR ''.'' s ! 1"
proof -
  obtain a b where s: "s = a @ t @ b" and nd: "CHR ''.'' \<notin> set a" "CHR ''.'' \<notin> set b" using assms unfolding wraps_def by blast
  let ?t = "split_char CHR ''.'' t" and ?tb = "split_char CHR ''.'' (t @ b)"
  have tb: "?tb = butlast ?t @ [last ?t @ b]" by (rule split_add_back [OF nd(2)])
  have sp: "split_char CHR ''.'' s = (a @ hd ?tb) # tl ?tb" unfolding s by (rule split_add_front [OF nd(1)])
  have len: "length (split_char CHR ''.'' s) = length ?t" using tb by (simp add: sp)
  then show "isJwtLike t = isJwtLike s" by (simp add: isJwtLike_def)
  assume "isJwtLike s"
  with len have "length ?t = 3" by (simp add: isJwtLike_def JWT_SEGMENTS_def)
  then obtain p q r where "?t = [p, q, r]" by (auto simp: length_Suc_conv numeral_3_eq_3)
  with tb sp show "?t ! 1 = split_char CHR ''.'' s ! 1" by simp
qed

section \<open>Normalising\<close>

lemma trim_wraps: "wraps s (trim s)"
proof -
  let ?u = "dropWhile is_space s"
  have sp: "CHR ''.'' \<notin> set (takeWhile is_space x)" for x by (auto dest: set_takeWhileD simp: is_space_def)
  have "?u = trim s @ rev (takeWhile is_space (rev ?u))"
    by (metis rev_append rev_rev_ident takeWhile_dropWhile_id trim_def)
  then have "s = takeWhile is_space s @ trim s @ rev (takeWhile is_space (rev ?u))" by (metis takeWhile_dropWhile_id)
  then show ?thesis by (rule wrapsI) (simp_all add: sp)
qed

lemma drop_bearer_wraps:
  assumes "prefix ''bearer '' (to_lower s)"
  shows "wraps s (drop 7 s)"
proof -
  from assms have "take 7 (map lower_char s) = ''bearer ''" by (auto simp: prefix_def to_lower_def)
  then have "map lower_char (take 7 s) = ''bearer ''" by (simp add: take_map)
  moreover have "lower_char CHR ''.'' \<notin> set ''bearer ''" by code_simp
  ultimately have "CHR ''.'' \<notin> set (take 7 s)" by (metis image_eqI list.set_map)
  then show ?thesis by (intro wrapsI [of _ "take 7 s" _ "[]"]) simp_all
qed

lemma unquote_wraps:
  assumes "quoted_by q s" and "q \<noteq> CHR ''.''"
  shows "wraps s (butlast (tl s))"
proof -
  from assms(1) obtain v where v: "s = q # v" by (auto simp: quoted_by_def prefix_def)
  from assms(1) obtain u where u: "s = u @ [q]" unfolding quoted_by_def suffix_def by blast
  show ?thesis
  proof (cases u)
    case Nil
    with u assms(2) show ?thesis by (intro wrapsI [of _ "[q]" _ "[]"]) auto
  next
    case (Cons x w)
    with u v have "s = [q] @ butlast (tl s) @ [q]" by simp
    with assms(2) show ?thesis by (intro wrapsI [of _ "[q]" _ "[q]"]) auto
  qed
qed

lemma normalize_wraps: "wraps s (normalizeToken s)"
proof -
  let ?n1 = "trim s"
  let ?n2 = "if prefix ''bearer '' (to_lower ?n1) then trim (drop 7 ?n1) else ?n1"
  have 1: "wraps s ?n2" using trim_wraps drop_bearer_wraps [of ?n1] by (auto intro: wraps_trans)
  have "wraps ?n2 (trim (butlast (tl ?n2)))" if "quoted_by q ?n2" "q \<noteq> CHR ''.''" for q
    using unquote_wraps [OF that] trim_wraps by (rule wraps_trans)
  then have "wraps ?n2 (normalizeToken s)" unfolding normalizeToken_def Let_def by (auto intro: wraps_refl)
  with 1 show ?thesis by (rule wraps_trans)
qed

lemma normalize_payload: "isJwtLike s \<Longrightarrow> decodeJwtPayloadObject parse (normalizeToken s) = decodeJwtPayloadObject parse s"
  using wraps_segments [OF normalize_wraps, of s] by (simp add: decodeJwtPayloadObject_def)

lemma normalize_jwt [simp]: "isJwtLike (normalizeToken s) = isJwtLike s"
  using wraps_segments(1) [OF normalize_wraps, of s] .

lemma jwt_not_Nil: "isJwtLike s \<Longrightarrow> s \<noteq> []"
  by (auto simp: isJwtLike_def JWT_SEGMENTS_def)

text \<open>A token that is read is valid, and what the storage then holds is valid for as long and holds the same claims.\<close>

lemma read_token_iff:
  "getValidAccessToken parse now st = (Some t, st1) \<longleftrightarrow> (\<exists>raw. st ''token'' = Some raw \<and> t = normalizeToken raw
     \<and> isJwtLike raw \<and> (\<forall>e. token_exp parse raw = Some e \<longrightarrow> now div 1000 < e) \<and> st1 = st(''token'' \<mapsto> t))"
proof -
  have "st(''token'' \<mapsto> raw) = st" if "st ''token'' = Some raw" for raw using that by (auto simp: fun_eq_iff)
  then show ?thesis using normalize_payload [of _ parse] jwt_not_Nil
    by (auto simp: getValidAccessToken_def Let_def token_exp_def split: option.splits if_splits)
qed

section \<open>The encoding of a token\<close>

text \<open>Base 64 as a token has it: the alphabet safe for URLs, no padding (RFC 7515). The server's library writes it so.\<close>

fun b64_digits :: "nat list \<Rightarrow> nat list" where
  "b64_digits (x # y # z # r) = (x div 4) # (x mod 4 * 16 + y div 16) # (y mod 16 * 4 + z div 64) # (z mod 64) # b64_digits r"
| "b64_digits [x, y] = [x div 4, x mod 4 * 16 + y div 16, y mod 16 * 4]"
| "b64_digits [x] = [x div 4, x mod 4 * 16]"
| "b64_digits [] = []"

definition url_digit :: "nat \<Rightarrow> char" where
  "url_digit v = (if v < 26 then char_of (65 + v) else if v < 52 then char_of (71 + v) else if v < 62 then char_of (v - 4)
     else if v = 62 then CHR ''-'' else CHR ''_'')"

definition base64url :: "string \<Rightarrow> string" where
  "base64url s = map url_digit (b64_digits (map of_char s))"

lemma byte_parts:
  fixes x :: nat
  assumes "x < 256"
  shows "x div 4 < 64" and "x div 16 < 16" and "x div 64 < 4"
  using assms by auto

lemma sextets:
  fixes x y z :: nat
  assumes "x < 256" and "y < 256" and "z < 256"
  shows "x div 4 < 64" and "x mod 4 * 16 < 64" and "x mod 4 * 16 + y div 16 < 64" and "y mod 16 * 4 < 64"
    and "y mod 16 * 4 + z div 64 < 64" and "z mod 64 < 64"
proof -
  have "x mod 4 \<le> 3" "y mod 16 \<le> 15" using mod_less_divisor [of 4 x] mod_less_divisor [of 16 y] by linarith+
  with byte_parts assms show "x div 4 < 64" "x mod 4 * 16 < 64" "x mod 4 * 16 + y div 16 < 64" "y mod 16 * 4 < 64"
    "y mod 16 * 4 + z div 64 < 64" "z mod 64 < 64" by (simp_all add: add_le_less_mono [of _ "48" _ "16"] add_le_less_mono [of _ "60" _ "4"])
qed

lemma digits_small: "\<forall>x \<in> set bs. x < 256 \<Longrightarrow> \<forall>d \<in> set (b64_digits bs). d < 64"
proof (induction bs rule: b64_digits.induct)
  case (1 x y z r)
  with sextets [of x y z] show ?case by simp
next
  case (2 x y)
  with sextets [of x y 0] show ?case by simp
next
  case (3 x)
  with sextets [of x 0 0] show ?case by simp
qed simp

lemma unpack: "b < k \<Longrightarrow> (a * k + b) div k = (a :: nat)" "b < k \<Longrightarrow> (a * k + b) mod k = b"
  by simp_all

lemma octets:
  fixes x y z :: nat
  assumes "x < 256" and "y < 256" and "z < 256"
  shows "x div 4 * 4 + (x mod 4 * 16 + y div 16) div 16 = x"
    and "(x mod 4 * 16 + y div 16) mod 16 * 16 + (y mod 16 * 4 + z div 64) div 4 = y"
    and "(y mod 16 * 4 + z div 64) mod 4 * 64 + z mod 64 = z"
  using byte_parts [OF assms(2)] byte_parts [OF assms(3)] by (simp_all only: unpack div_mult_mod_eq)

lemma bytes_digits: "\<forall>x \<in> set bs. x < 256 \<Longrightarrow> b64_bytes (b64_digits bs) = bs"
proof (induction bs rule: b64_digits.induct)
  case (1 x y z r)
  then have "x < 256" "y < 256" "z < 256" "b64_bytes (b64_digits r) = r" by simp_all
  with octets [of x y z] show ?case by (simp only: b64_digits.simps b64_bytes.simps)
next
  case (2 x y)
  then have "x < 256" "y < 256" by simp_all
  with octets [of x y 0] show ?case by (simp only: b64_digits.simps b64_bytes.simps) simp
next
  case (3 x)
  then have "x < 256" by simp
  with octets [of x 0 0] show ?case by (simp only: b64_digits.simps b64_bytes.simps) simp
qed simp

lemma digits_length: "length (b64_digits bs) mod 4 \<noteq> 1"
proof (induction bs rule: b64_digits.induct)
  case (1 x y z r)
  have "length (b64_digits (x # y # z # r)) = length (b64_digits r) + 4" by simp
  then have "length (b64_digits (x # y # z # r)) mod 4 = length (b64_digits r) mod 4" by presburger
  with 1 show ?case by simp
qed simp_all

text \<open>Characters that no step of the reading takes away or treats in a way of its own.\<close>

definition plain_char :: "char \<Rightarrow> bool" where
  "plain_char c \<longleftrightarrow> (let n = of_char c :: nat in 33 \<le> n \<and> n \<le> 126 \<and> n \<noteq> 34 \<and> n \<noteq> 39 \<and> n \<noteq> 46 \<and> n \<noteq> 61)"

lemma plain_charD:
  assumes "plain_char c"
  shows "\<not> is_space c" and "\<not> ascii_space c" and "c \<noteq> CHR ''=''" and "c \<noteq> CHR ''.''" and "c \<noteq> CHR 0x22" and "c \<noteq> CHR 0x27"
  using assms by (auto simp: plain_char_def is_space_def ascii_space_def Let_def)

lemma of_url_digit:
  "v < 64 \<Longrightarrow> of_char (url_digit v) = (if v < 26 then 65 + v else if v < 52 then 71 + v else if v < 62 then v - 4
     else if v = 62 then 45 else (95 :: nat))"
  by (simp add: url_digit_def)

lemma of_url_safe: "of_char (url_safe c) = (let n = of_char c in if n = 45 then 43 else if n = 95 then 47 else (n :: nat))"
proof -
  have "c = CHR ''-'' \<longleftrightarrow> of_char c = (45 :: nat)" "c = CHR ''_'' \<longleftrightarrow> of_char c = (95 :: nat)"
    by (simp_all flip: of_char_eq_iff [where 'a = nat])
  then show ?thesis by (auto simp: url_safe_def Let_def)
qed

lemma digit_facts:
  assumes "v < 64"
  shows "b64_value (url_safe (url_digit v)) = Some v" and "plain_char (url_safe (url_digit v))" and "plain_char (url_digit v)"
  using assms by (auto simp: b64_value_def plain_char_def of_url_safe of_url_digit Let_def)

lemma values_digits: "(\<And>d. d \<in> set ds \<Longrightarrow> d < 64) \<Longrightarrow> b64_values (map (\<lambda>v. url_safe (url_digit v)) ds) = Some ds"
  by (induction ds) (simp_all add: digit_facts)

lemma drop_padding_pad:
  assumes "length s mod 4 \<noteq> 1" and "CHR ''='' \<notin> set s"
  shows "drop_padding (padEnd ((length s + 3) div 4 * 4) CHR ''='' s) = s"
proof -
  have no: "\<not> suffix (w @ [CHR ''='']) s" for w using assms(2) by (auto simp: suffix_def)
  have no1: "\<not> suffix ''=='' (s @ ''='')" using assms(2) by (auto simp: suffix_def)
  consider "length s mod 4 = 0" | "length s mod 4 = 3" | "length s mod 4 = 2" using assms(1) by linarith
  then show ?thesis
  proof cases
    case 1
    then have "(length s + 3) div 4 * 4 = length s" by presburger
    with no [of "''=''"] no [of "[]"] show ?thesis by (simp add: padEnd_def drop_padding_def)
  next
    case 2
    then have "(length s + 3) div 4 * 4 - length s = 1" "(length s + 1) mod 4 = 0" by presburger+
    with no1 show ?thesis by (simp add: padEnd_def drop_padding_def)
  next
    case 3
    then have "(length s + 3) div 4 * 4 - length s = 2" "(length s + 2) mod 4 = 0" by presburger+
    then show ?thesis by (simp add: padEnd_def drop_padding_def numeral_2_eq_2 suffix_def)
  qed
qed

lemma char_small: "of_char (c :: char) < (256 :: nat)"
  by (rule nat_of_char_less_256)

lemma base64url_plain: "c \<in> set (base64url s) \<Longrightarrow> plain_char c"
  using digits_small [of "map of_char s"] digit_facts(3) by (auto simp: base64url_def char_small)

lemma atob_base64url:
  "atob (padEnd ((length (map url_safe (base64url s)) + 3) div 4 * 4) CHR ''='' (map url_safe (base64url s))) = Some s"
proof -
  let ?bs = "map of_char s :: nat list"
  let ?u = "map (\<lambda>v. url_safe (url_digit v)) (b64_digits ?bs)"
  have small: "d < 64" if "d \<in> set (b64_digits ?bs)" for d using digits_small [of ?bs] that char_small by auto
  then have pl: "plain_char c" if "c \<in> set ?u" for c using that digit_facts(2) by auto
  have len: "length ?u mod 4 \<noteq> 1" using digits_length [of ?bs] by simp
  have u: "map url_safe (base64url s) = ?u" by (simp add: base64url_def)
  let ?p = "padEnd ((length ?u + 3) div 4 * 4) CHR ''='' ?u"
  have "filter (\<lambda>c. \<not> ascii_space c) ?p = ?p"
    using pl plain_charD(2) by (intro filter_True) (auto simp: padEnd_def ascii_space_def)
  moreover have "drop_padding ?p = ?u" using len pl plain_charD(3) by (intro drop_padding_pad) blast+
  moreover have "b64_values ?u = Some (b64_digits ?bs)" using small by (intro values_digits)
  moreover have "b64_bytes (b64_digits ?bs) = ?bs" by (intro bytes_digits) (simp add: char_small)
  ultimately have "atob ?p = Some (map char_of ?bs)" using len by (simp add: atob_def)
  then show ?thesis unfolding u by (simp add: map_idI o_def)
qed

text \<open>A token of a header, claims and a signature.\<close>

definition token_of :: "string \<Rightarrow> string \<Rightarrow> string \<Rightarrow> string" where
  "token_of header claims signature = base64url header @ CHR ''.'' # base64url claims @ CHR ''.'' # base64url signature"

lemma token_segments: "split_char CHR ''.'' (token_of h p sg) = [base64url h, base64url p, base64url sg]"
proof -
  have "CHR ''.'' \<notin> set (base64url x)" for x using base64url_plain plain_charD(4) by blast
  then show ?thesis unfolding token_of_def by (intro split_three)
qed

lemma base64url_Nil: "base64url p = [] \<longleftrightarrow> p = []"
proof -
  have "b64_digits bs = [] \<longleftrightarrow> bs = []" for bs by (cases bs rule: b64_digits.cases) simp_all
  then show ?thesis by (simp add: base64url_def)
qed

lemma decode_token:
  "p \<noteq> [] \<Longrightarrow> decodeJwtPayloadObject parse (token_of h p sg) =
     (case parse p of Some v \<Rightarrow> (if is_object v then Some v else None) | None \<Rightarrow> None)"
  using atob_base64url [of p]
  by (simp add: decodeJwtPayloadObject_def isJwtLike_def token_segments JWT_SEGMENTS_def Let_def base64url_Nil)

lemma trim_id:
  assumes "s \<noteq> [] \<Longrightarrow> \<not> is_space (hd s) \<and> \<not> is_space (last s)"
  shows "trim s = s"
proof -
  have d: "dropWhile is_space x = x" if "x \<noteq> [] \<Longrightarrow> \<not> is_space (hd x)" for x using that by (cases x) auto
  have "dropWhile is_space s = s" "dropWhile is_space (rev s) = rev s" using assms by (intro d; simp add: hd_rev)+
  then show ?thesis by (simp add: trim_def)
qed

lemma normalize_plain:
  assumes "\<And>c. c \<in> set s \<Longrightarrow> plain_char c \<or> c = CHR ''.''"
  shows "normalizeToken s = s"
proof -
  have ns: "\<not> is_space c" "c \<noteq> CHR 0x22" "c \<noteq> CHR 0x27" if "c \<in> set s" for c
    using assms [OF that] plain_charD [of c] by (auto simp: is_space_def)
  have "dropWhile is_space t = t" if "set t \<subseteq> set s" for t using that ns(1) by (cases t) auto
  then have tr: "trim s = s" by (simp add: trim_def)
  have "\<not> prefix ''bearer '' (to_lower s)"
  proof
    assume "prefix ''bearer '' (to_lower s)"
    then have "CHR '' '' \<in> set (to_lower s)" by (auto simp: prefix_def)
    then obtain c where "c \<in> set s" "lower_char c = CHR '' ''" by (auto simp: to_lower_def)
    moreover have "is_space c" if "lower_char c = CHR '' ''" for c
    proof -
      from that have "of_char (lower_char c) = (32 :: nat)" by simp
      then show ?thesis by (auto simp: lower_char_def is_space_def Let_def split: if_splits)
    qed
    ultimately show False using ns(1) by blast
  qed
  moreover have "q \<in> set s" if "quoted_by q s" for q using that by (auto simp: quoted_by_def prefix_def)
  ultimately show ?thesis using tr ns(2,3) by (auto simp: normalizeToken_def)
qed

lemma normalize_token: "normalizeToken (token_of h p sg) = token_of h p sg"
  by (rule normalize_plain) (auto simp: token_of_def dest: base64url_plain)

section \<open>Reading twice\<close>

lemma read_none:
  assumes "getValidAccessToken parse now st = (None, st1)"
  shows "fst (getValidAccessToken parse now st1) = None"
  using assms by (auto simp: getValidAccessToken_def clearAuthStorage_def USER_PROFILE_KEY_def Let_def split: option.splits if_splits)

lemma valid_again:
  "fst (getValidAccessToken parse now (snd (getValidAccessToken parse now st))) = None
     \<longleftrightarrow> fst (getValidAccessToken parse now st) = None"
proof (cases "getValidAccessToken parse now st")
  case (Pair r st1)
  show ?thesis
  proof (cases r)
    case None
    with Pair read_none show ?thesis by simp
  next
    case (Some t)
    with Pair have "getValidAccessToken parse now st = (Some t, st1)" by simp
    from this [unfolded read_token_iff] obtain raw where r: "st ''token'' = Some raw" "t = normalizeToken raw" "isJwtLike raw"
      "\<forall>e. token_exp parse raw = Some e \<longrightarrow> now div 1000 < e" "st1 = st(''token'' \<mapsto> t)"
      by blast
    then have "\<forall>e. token_exp parse t = Some e \<longrightarrow> now div 1000 < e" by (simp add: token_exp_def normalize_payload)
    with r have "getValidAccessToken parse now st1 = (Some (normalizeToken t), st1(''token'' \<mapsto> normalizeToken t))"
      by (simp add: read_token_iff)
    with Pair Some show ?thesis by simp
  qed
qed

text \<open>A token in quotes with the scheme inside: the first reading only takes the quotes off, and the header of the request
  names the scheme twice; the next reading takes the scheme off.\<close>

lemma quoted_bearer:
  assumes "st ''token'' = Some (CHR 0x22 # ''Bearer '' @ token_of h p sg @ [CHR 0x22])"
    and "token_exp parse (token_of h p sg) = None"
  shows "fst (authorization parse now st) = Some (''Bearer Bearer '' @ token_of h p sg)"
    and "fst (authorization parse now (snd (authorization parse now st))) = Some (''Bearer '' @ token_of h p sg)"
proof -
  let ?t = "token_of h p sg" and ?raw = "CHR 0x22 # ''Bearer '' @ token_of h p sg @ [CHR 0x22]"
  have pl: "plain_char c \<or> c = CHR ''.''" if "c \<in> set ?t" for c using that by (auto simp: token_of_def dest: base64url_plain)
  have jwt: "isJwtLike ?t" by (simp add: isJwtLike_def token_segments JWT_SEGMENTS_def)
  have tne: "?t \<noteq> []" using jwt_not_Nil [OF jwt] .
  have ns: "\<not> is_space (last ?t)" using pl [of "last ?t"] tne plain_charD(1) by (auto simp: is_space_def)
  have nh: "\<not> is_space (hd ?t)" using pl [of "hd ?t"] tne plain_charD(1) by (auto simp: is_space_def)
  have tr_t: "trim ?t = ?t" using ns nh by (intro trim_id) simp
  have B: "trim (''Bearer '' @ ?t) = ''Bearer '' @ ?t" using ns tne by (intro trim_id) (simp add: is_space_def)
  have Q: "trim ?raw = ?raw" by (intro trim_id) (simp add: is_space_def)
  have nb: "\<not> prefix ''bearer '' (to_lower ?raw)" by (simp add: to_lower_def lower_char_def)
  have n1: "normalizeToken ?raw = ''Bearer '' @ ?t"
    using Q nb B by (simp add: normalizeToken_def quoted_by_def butlast_append suffix_def)
  have "to_lower ''Bearer '' = ''bearer ''" by code_simp
  then have pb: "prefix ''bearer '' (to_lower (''Bearer '' @ ?t))" by (simp only: to_lower_def map_append prefixI)
  have nq: "\<not> quoted_by q ?t" if "q = CHR 0x22 \<or> q = CHR 0x27" for q
  proof
    assume "quoted_by q ?t"
    then have "q \<in> set ?t" by (auto simp: quoted_by_def prefix_def)
    with pl that plain_charD(5,6) show False by fastforce
  qed
  have n2: "normalizeToken (''Bearer '' @ ?t) = ?t" using B pb tr_t nq by (simp add: normalizeToken_def)
  have w: "wraps ?raw ?t" by (rule wrapsI [of _ "CHR 0x22 # ''Bearer ''" _ "[CHR 0x22]"]) simp_all
  have w2: "wraps (''Bearer '' @ ?t) ?t" by (rule wrapsI [of _ "''Bearer ''" _ "[]"]) simp_all
  have e: "isJwtLike s \<and> token_exp parse s = None" if "wraps s ?t" for s
    using wraps_segments [OF that] jwt assms(2) by (simp add: token_exp_def decodeJwtPayloadObject_def)
  have 1: "getValidAccessToken parse now st = (Some (''Bearer '' @ ?t), st(''token'' \<mapsto> ''Bearer '' @ ?t))"
    unfolding read_token_iff using assms(1) n1 e [OF w] by auto
  have 2: "getValidAccessToken parse now (st(''token'' \<mapsto> ''Bearer '' @ ?t)) = (Some ?t, st(''token'' \<mapsto> ?t))"
    unfolding read_token_iff using n2 e [OF w2] by auto
  show "fst (authorization parse now st) = Some (''Bearer Bearer '' @ ?t)"
    "fst (authorization parse now (snd (authorization parse now st))) = Some (''Bearer '' @ ?t)"
    unfolding authorization_def Let_def 1 prod.case snd_conv 2 by simp_all
qed

section \<open>Tokens and pages\<close>

lemma read_issued:
  assumes "st ''token'' = Some (token_of h claims sg)" and "claims \<noteq> []" and "parse claims = Some (JObj fs)"
    and "js_get (JObj fs) ''exp'' = JNum e"
  shows "getValidAccessToken parse now st = (if now div 1000 < e then (Some (token_of h claims sg), st) else (None, clearAuthStorage st))"
    and "decodeJwtPayloadObject parse (token_of h claims sg) = Some (JObj fs)"
proof -
  let ?t = "token_of h claims sg"
  have jwt: "isJwtLike ?t" by (simp add: isJwtLike_def token_segments JWT_SEGMENTS_def)
  show d: "decodeJwtPayloadObject parse ?t = Some (JObj fs)" using assms(2,3) by (simp add: decode_token)
  then have x: "token_exp parse ?t = Some e" using assms(4) by (simp add: token_exp_def)
  show "getValidAccessToken parse now st = (if now div 1000 < e then (Some ?t, st) else (None, clearAuthStorage st))"
    using assms(1) jwt x normalize_token jwt_not_Nil [OF jwt] by (simp add: getValidAccessToken_def)
qed

text \<open>C24. A token as the server issues it (three segments in base 64 for URLs, the claims with a user id and an expiry) gives
  that user id until the second it expires; from then on reading it clears the token, the refresh token and the profile.\<close>

theorem issued_token_is_read:
  assumes "st ''token'' = Some (token_of h claims sg)" and "claims \<noteq> []" and "parse claims = Some (JObj fs)"
    and "js_get (JObj fs) ''exp'' = JNum e" and "js_get (JObj fs) ''user_id'' = JNum u"
  shows "getCurrentUserId parse to_number now st = (if now div 1000 < e then (Some u, st) else (None, clearAuthStorage st))"
  using read_issued [where st = st and h = h and claims = claims and sg = sg and parse = parse and fs = fs and e = e,
      OF assms(1-4)] assms(5) by (simp add: getCurrentUserId_def)

lemma pages_reached:
  "follow_routes 3 parse now st path = Some (if path = ''/verify-email'' then VerifyEmailPage
     else if fst (getValidAccessToken parse now st) \<noteq> None then ChatPage
     else if path = ''/register'' then RegisterPage else LoginPage)"
proof -
  define v where "v = (\<lambda>st. fst (getValidAccessToken parse now st) = None)"
  define r where "r = (\<lambda>st. snd (getValidAccessToken parse now st))"
  have keep: "v (r st) = v st" for st using valid_again by (simp add: v_def r_def)
  have guard: "GuestOnly parse now s p = (if v s then Render p else Navigate ''/chat'', r s)"
    "RequireAuth parse now s p = (if v s then Navigate ''/login'' else Render p, r s)" for s p
    by (simp_all add: GuestOnly_def RequireAuth_def v_def r_def split: prod.split option.split)
  have route: "app_route parse now s p = (if p = ''/'' then (Navigate (if v s then ''/login'' else ''/chat''), r s)
      else if p = ''/register'' then (if v s then Render RegisterPage else Navigate ''/chat'', r (r s))
      else if p = ''/login'' then (if v s then Render LoginPage else Navigate ''/chat'', r (r s))
      else if p = ''/verify-email'' then (Render VerifyEmailPage, r s)
      else if p = ''/chat'' then (if v s then Navigate ''/login'' else Render ChatPage, r (r s))
      else (Navigate ''/login'', r s))" for s p
    unfolding app_route_def Let_def split_beta guard by (simp add: v_def [THEN fun_cong] r_def [THEN fun_cong] keep [unfolded v_def r_def])
  have vv: "fst (getValidAccessToken parse now st) = None \<longleftrightarrow> v st" by (simp add: v_def)
  consider "path = ''/''" | "path = ''/register''" | "path = ''/login''" | "path = ''/verify-email''" | "path = ''/chat''"
    | "path \<notin> {''/'', ''/register'', ''/login'', ''/verify-email'', ''/chat''}" by blast
  then show ?thesis unfolding vv numeral_3_eq_3 by cases (simp_all add: route keep)
qed

text \<open>Following the redirections from any address ends at a page after at most two: the chat exactly for who has a valid
  token, whatever the address (the verification page apart), and else the registration or the login.\<close>

theorem routes_settle:
  "follow_routes 3 parse now st path = Some (if path = ''/verify-email'' then VerifyEmailPage
     else if fst (getValidAccessToken parse now st) \<noteq> None then ChatPage
     else if path = ''/register'' then RegisterPage else LoginPage)"
  by (rule pages_reached)

section \<open>At work\<close>

definition some_claims :: "string \<Rightarrow> jsval option" where
  "some_claims s = (if s = ''{}'' then Some (JObj [(''user_id'', JNum 7), (''exp'', JNum 100)]) else None)"

lemma issued_token_is_read_witness:
  "fst (getCurrentUserId some_claims (\<lambda>_. None) 99999 [''token'' \<mapsto> token_of ''h'' ''{}'' ''s'']) = Some 7
     \<and> fst (getCurrentUserId some_claims (\<lambda>_. None) 100000 [''token'' \<mapsto> token_of ''h'' ''{}'' ''s'']) = None"
  using issued_token_is_read [of "[''token'' \<mapsto> token_of ''h'' ''{}'' ''s'']" "''h''" "''{}''" "''s''" some_claims
      "[(''user_id'', JNum 7), (''exp'', JNum 100)]" 100 7 "\<lambda>_. None"]
  by (simp add: some_claims_def)

end
