(* ===== verification/ProfileProps.thy ===== *)
theory ProfileProps
  imports Profile AccountProps
begin

text \<open>Logging in and out, and what the profile shows.\<close>

section \<open>The storage\<close>

lemma remove_items_at: "remove_items ks st k = (if k \<in> set ks then None else st k)"
  unfolding remove_items_def by (induction ks arbitrary: st) auto

text \<open>The entries of the account are not those of the lists of servers and channels.\<close>

lemma account_keys [simp]: "''token'' \<notin> set CHAT_STORAGE_KEYS" "''refresh_token'' \<notin> set CHAT_STORAGE_KEYS"
    "USER_PROFILE_KEY \<notin> set CHAT_STORAGE_KEYS" "USER_PROFILE_KEY \<noteq> ''token''" "USER_PROFILE_KEY \<noteq> ''refresh_token''"
    "''token'' \<noteq> USER_PROFILE_KEY" "''refresh_token'' \<noteq> USER_PROFILE_KEY"
  by (simp_all add: CHAT_STORAGE_KEYS_def USER_PROFILE_KEY_def)

lemma no_token: "st ''token'' = None \<Longrightarrow> getValidAccessToken parse now st = (None, st)"
  by (simp add: getValidAccessToken_def)

lemma handleLogout_storage:
  "pp_storage (fst (handleLogout s)) = remove_items CHAT_STORAGE_KEYS (clearAuthStorage (pp_storage s))"
  by (simp add: handleLogout_def close_connections_def)

section \<open>Logging in\<close>

text \<open>Logging in with a token as the server issues it ends on the chat page as the user of the token, and drops the lists
  of servers and channels of whoever used the browser before.\<close>

theorem login_leads_to_chat:
  assumes "login_done stringify (HttpOk 200 r) s st = (s', st', os)" and "access_token_of r = Some (token_of h claims sg)"
    and "claims \<noteq> []" and "parse claims = Some (JObj fs)" and "js_get (JObj fs) ''exp'' = JNum e"
    and "js_get (JObj fs) ''user_id'' = JNum u" and "now div 1000 < e"
  shows "os = [GoTo ''/chat''] \<and> follow_routes 3 parse now st' ''/chat'' = Some ChatPage
    \<and> getCurrentUserId parse to_number now st' = (Some u, st') \<and> (\<forall>k \<in> set CHAT_STORAGE_KEYS. st' k = None)
    \<and> lg_error s' = lg_error s \<and> \<not> lg_loading s'"
proof -
  let ?t = "token_of h claims sg"
  have given: "given_name (access_token_of r)" using assms(2) by (simp add: given_name_def token_of_def)
  have st': "st' ''token'' = Some ?t" "\<forall>k \<in> set CHAT_STORAGE_KEYS. st' k = None" "os = [GoTo ''/chat'']"
    "lg_error s' = lg_error s" "\<not> lg_loading s'"
    using assms(1) given assms(2) by (auto simp: login_done_def Let_def remove_items_at)
  have read: "getValidAccessToken parse now st' = (Some ?t, st')" "decodeJwtPayloadObject parse ?t = Some (JObj fs)"
    using read_issued [where st = st' and h = h and claims = claims and sg = sg and parse = parse and fs = fs and e = e,
        OF st'(1) assms(3-5)] assms(7) by simp_all
  then have "getCurrentUserId parse to_number now st' = (Some u, st')" using assms(6) by (simp add: getCurrentUserId_def)
  moreover have "follow_routes 3 parse now st' ''/chat'' = Some ChatPage" using read(1) by (simp add: pages_reached)
  ultimately show ?thesis using st' by simp
qed

section \<open>Logging out\<close>

text \<open>Logging out starts the end of the push subscription before the token is dropped, but the request that tells the
  server comes two answers later: it carries no token, so the server, which asks for one, keeps the subscription.\<close>

theorem logout_leaves_push:
  assumes "handleLogout s = (s', os)" and "fst (getValidAccessToken parse now (pp_storage s)) = Some t"
  shows "UnsubscribePush \<in> set os \<and> unsubscribe_start True = [AskRegistration]
    \<and> fst (unsubscribe_post parse now' endpoint (pp_storage s')) = [PostUnsubscribe endpoint None]
    \<and> fst (unsubscribe_post parse now endpoint (pp_storage s)) = [PostUnsubscribe endpoint (Some (''Bearer '' @ t))]"
proof -
  have "pp_storage s' ''token'' = None"
    using handleLogout_storage [of s] assms(1) by (simp add: remove_items_at clearAuthStorage_def)
  moreover have "UnsubscribePush \<in> set os" using assms(1) by (auto simp: handleLogout_def split: prod.splits)
  ultimately show ?thesis using assms(2)
    by (auto simp: unsubscribe_start_def unsubscribe_post_def no_token authorization_def split: prod.splits)
qed

text \<open>Deleting the account does not even start it.\<close>

lemma delete_keeps_push: "UnsubscribePush \<notin> set (snd (handleDeleteAccount_done answer s))"
  by (auto simp: handleDeleteAccount_done_def close_connections_def Let_def split: http.splits)

section \<open>The profile shown\<close>

text \<open>Whoever opens a second profile before the first is answered may be shown the first under the id of the second: the
  last answer wins, whoever it is about.\<close>

theorem late_profile_wins:
  assumes "a \<noteq> me_id" and "b \<noteq> me_id" and "pp_socket s"
    and "openUserProfile_start (Some me_id) a s = (s1, os1)" and "openUserProfile_start (Some me_id) b s1 = (s2, os2)"
  shows "os1 = [GetUserInfo a] \<and> os2 = [GetUserInfo b]
    \<and> (let s3 = openUserProfile_done a ms ps (Inr pa) (openUserProfile_done b ms ps (Inr pb) s2)
       in pp_selectedUserId s3 = Some b \<and> pp_selected s3 = Some pa \<and> profileFirstName (Some me_id) s3 = Some (up_first_name pa))"
  using assms by (auto simp: openUserProfile_start_def openUserProfile_done_def profileFirstName_def isSelfProfile_def Let_def)

text \<open>In the order of the requests the profile shown is that of the id.\<close>

lemma profile_in_order:
  assumes "openUserProfile_start me userId s = (s1, [GetUserInfo userId])" and "up_user_id info = userId"
  shows "let s2 = openUserProfile_done userId ms ps (Inr info) s1
     in pp_selectedUserId s2 = Some userId \<and> pp_selected s2 = Some info \<and> \<not> pp_loading s2 \<and> pp_selectedError s2 = []"
  using assms by (auto simp: openUserProfile_start_def openUserProfile_done_def Let_def split: if_splits)

section \<open>What is kept of the profile\<close>

text \<open>A JSON object as the types of the profile say: its fields are texts.\<close>

fun profile_typed :: "jsval \<Rightarrow> bool" where
  "profile_typed (JObj fs) \<longleftrightarrow> list_all (\<lambda>f. is_string (snd f)) fs"
| "profile_typed _ \<longleftrightarrow> False"

lemma typed_field: "profile_typed v \<Longrightarrow> js_get v k = JUndefined \<or> is_string (js_get v k)"
  by (cases v) (force simp: list_all_iff split: option.splits dest: map_of_SomeD)+

definition storage_typed :: "(string \<Rightarrow> jsval option) \<Rightarrow> storage \<Rightarrow> bool" where
  "storage_typed parse st = (case st USER_PROFILE_KEY of None \<Rightarrow> True
     | Some raw \<Rightarrow> raw \<noteq> [] \<and> (case parse raw of Some v \<Rightarrow> profile_typed v | None \<Rightarrow> False))"

text \<open>What writes the profile, or may drop it: the answers of the server and the readings.\<close>

datatype account_event =
    LoggedIn "LoginResponse http"
  | NicknameSaved CurrentUserProfile string string string "unit http"
  | ProfileRead int
  | IdRead int
  | LoggedOut
  | AccountDeleted "unit http"

definition account_step :: "(string \<Rightarrow> jsval option) \<Rightarrow> (jsval \<Rightarrow> string) \<Rightarrow> (string \<Rightarrow> int option) \<Rightarrow> login_page
    \<Rightarrow> profile_page \<Rightarrow> account_event \<Rightarrow> profile_page \<times> page_effect list" where
  "account_step parse stringify to_number lg s e = (case e of
     LoggedIn answer \<Rightarrow> (let (_, st, os) = login_done stringify answer lg (pp_storage s) in (s\<lparr>pp_storage := st\<rparr>, os))
   | NicknameSaved seen f l n answer \<Rightarrow> handleSaveNickname_done stringify seen f l n answer s
   | ProfileRead now \<Rightarrow> (s\<lparr>pp_storage := snd (getCurrentUserProfile parse stringify now (pp_storage s))\<rparr>, [])
   | IdRead now \<Rightarrow> (s\<lparr>pp_storage := snd (getCurrentUserId parse to_number now (pp_storage s))\<rparr>, [])
   | LoggedOut \<Rightarrow> handleLogout s
   | AccountDeleted answer \<Rightarrow> handleDeleteAccount_done answer s)"

text \<open>The server's user is an object of texts, or missing.\<close>

definition answer_typed :: "account_event \<Rightarrow> bool" where
  "answer_typed e = (case e of LoggedIn (HttpOk _ r) \<Rightarrow> lr_user r = JUndefined \<or> profile_typed (lr_user r) | _ \<Rightarrow> True)"

lemma storage_typed_other: "k \<noteq> USER_PROFILE_KEY \<Longrightarrow> storage_typed parse (st(k := x)) = storage_typed parse st"
  by (simp add: storage_typed_def)

lemma storage_typed_none: "st USER_PROFILE_KEY = None \<Longrightarrow> storage_typed parse st"
  by (simp add: storage_typed_def)

lemma storage_typed_remove: "storage_typed parse (remove_items CHAT_STORAGE_KEYS st) = storage_typed parse st"
  by (simp add: storage_typed_def remove_items_at)

lemma storage_typed_read: "storage_typed parse st \<Longrightarrow> storage_typed parse (snd (getValidAccessToken parse now st))"
  by (auto simp: getValidAccessToken_def Let_def clearAuthStorage_def storage_typed_other storage_typed_none split: option.splits)

lemma profile_json_typed: "profile_typed (profile_json p)"
  by (cases "pf_first_name p"; cases "pf_last_name p"; cases "pf_nickname p"; cases "pf_email p")
    (simp_all add: profile_json_def List.map_filter_def)

lemma storage_typed_write:
  "parse raw = Some v \<Longrightarrow> raw \<noteq> [] \<Longrightarrow> profile_typed v \<Longrightarrow> storage_typed parse (st(USER_PROFILE_KEY \<mapsto> raw))"
  by (simp add: storage_typed_def)

text \<open>The JSON library reads back the objects it wrote.\<close>

definition json_keeps :: "(string \<Rightarrow> jsval option) \<Rightarrow> (jsval \<Rightarrow> string) \<Rightarrow> bool" where
  "json_keeps parse stringify \<longleftrightarrow> (\<forall>v. profile_typed v \<longrightarrow> parse (stringify v) = Some v \<and> stringify v \<noteq> [])"

lemma storage_typed_json:
  "json_keeps parse stringify \<Longrightarrow> profile_typed v \<Longrightarrow> storage_typed parse (st(USER_PROFILE_KEY \<mapsto> stringify v))"
  using storage_typed_write by (auto simp: json_keeps_def)

lemma login_typed:
  assumes "json_keeps parse stringify" and "storage_typed parse st" and "answer_typed (LoggedIn answer)"
  shows "storage_typed parse (fst (snd (login_done stringify answer lg st)))"
proof (cases answer)
  case (HttpOk status r)
  with assms(3) have u: "truthy (lr_user r) \<Longrightarrow> profile_typed (lr_user r)" by (auto simp: answer_typed_def)
  show ?thesis
  proof (cases "status = 200 \<and> given_name (access_token_of r)")
    case True
    let ?st = "if truthy (lr_user r) then st(''token'' := access_token_of r, USER_PROFILE_KEY \<mapsto> stringify (lr_user r))
      else st(''token'' := access_token_of r)"
    have "storage_typed parse ?st" using u assms(1,2) by (simp add: storage_typed_json storage_typed_other)
    with True HttpOk show ?thesis by (auto simp: login_done_def Let_def storage_typed_remove storage_typed_other)
  next
    case False
    with HttpOk assms(2) show ?thesis by (auto simp: login_done_def Let_def)
  qed
next
  case (HttpError status body)
  with assms(2) show ?thesis by (simp add: login_done_def Let_def)
qed

lemma reading_typed:
  assumes "json_keeps parse stringify" and "storage_typed parse st"
  shows "storage_typed parse (snd (getCurrentUserProfile parse stringify now st))"
    and "storage_typed parse (snd (getCurrentUserId parse to_number now st))"
  using storage_typed_read [OF assms(2), of now] assms
  by (auto simp: getCurrentUserProfile_def getCurrentUserId_def storage_typed_json profile_json_typed
      split: option.splits prod.splits jsval.splits)

lemma cleared_typed: "storage_typed parse (remove_items CHAT_STORAGE_KEYS (clearAuthStorage st))"
  by (simp add: storage_typed_remove storage_typed_none clearAuthStorage_def)

lemma account_typed_step:
  assumes "json_keeps parse stringify" and "storage_typed parse (pp_storage s)" and "answer_typed e"
  shows "storage_typed parse (pp_storage (fst (account_step parse stringify to_number lg s e)))"
proof (cases e)
  case (LoggedIn answer)
  with login_typed [OF assms(1,2), of answer lg] assms(3) show ?thesis by (auto simp: account_step_def split: prod.splits)
next
  case (NicknameSaved seen f l n answer)
  with assms show ?thesis
    by (auto simp: account_step_def handleSaveNickname_done_def Let_def storage_typed_json profile_json_typed split: http.splits)
next
  case LoggedOut
  then show ?thesis by (simp add: account_step_def handleLogout_storage cleared_typed)
next
  case (AccountDeleted answer)
  with assms(2) show ?thesis
    by (auto simp: account_step_def handleDeleteAccount_done_def close_connections_def Let_def cleared_typed split: http.splits)
qed (use reading_typed [OF assms(1,2)] in \<open>simp_all add: account_step_def\<close>)

interpretation account: machine_invariant "\<lambda>_ e. answer_typed e" "account_step parse stringify to_number lg"
    "\<lambda>s. json_keeps parse stringify \<longrightarrow> storage_typed parse (pp_storage s)" for parse stringify to_number lg
  by unfold_locales (blast intro: account_typed_step)

text \<open>C25. What is stored as the profile is always an object whose fields are texts or missing, so that reading it back drops
  none of them: the log in, a new nickname, the readings, the log out and the deletion keep it so, for a JSON library that
  reads back what it wrote and a server whose users are such objects.\<close>

theorem stored_profile_typed:
  assumes "json_keeps parse stringify" and "storage_typed parse (pp_storage s)"
    and "run (\<lambda>_ e. answer_typed e) (account_step parse stringify to_number lg) s es s' os"
  shows "storage_typed parse (pp_storage s')
    \<and> (\<forall>raw v k. pp_storage s' USER_PROFILE_KEY = Some raw \<and> parse raw = Some v
         \<and> k \<in> {''first_name'', ''last_name'', ''nickname'', ''email''} \<longrightarrow> js_get v k = JUndefined \<or> is_string (js_get v k))"
proof -
  have "storage_typed parse (pp_storage s')" using account.inv_run [OF assms(3)] assms(1,2) by blast
  then show ?thesis using typed_field by (auto simp: storage_typed_def split: option.splits)
qed

section \<open>At work\<close>

text \<open>A JSON library of objects of texts: a double quote or a backslash in a text has a backslash before it.\<close>

fun put_text :: "string \<Rightarrow> string" where
  "put_text [] = [CHR 0x22]"
| "put_text (c # s) = (if c = CHR 0x22 \<or> c = CHR 0x5C then CHR 0x5C # c # put_text s else c # put_text s)"

fun take_text :: "string \<Rightarrow> string \<times> string" where
  "take_text [] = ([], [])"
| "take_text (c # s) = (if c = CHR 0x22 then ([], s)
     else if c = CHR 0x5C then (case s of [] \<Rightarrow> ([], []) | d # u \<Rightarrow> (let (t, r) = take_text u in (d # t, r)))
     else (let (t, r) = take_text s in (c # t, r)))"

lemma take_put: "take_text (put_text s @ r) = (s, r)"
  by (induction s) auto

definition put_field :: "string \<times> jsval \<Rightarrow> string" where
  "put_field f = CHR 0x22 # put_text (fst f) @ CHR '':'' # CHR 0x22 # put_text (str_or [] (snd f)) @ [CHR '','']"

definition put_json :: "jsval \<Rightarrow> string" where
  "put_json v = (case v of JObj fs \<Rightarrow> CHR ''{'' # concat (map put_field fs) @ ''}'' | _ \<Rightarrow> [])"

fun take_fields :: "nat \<Rightarrow> string \<Rightarrow> (string \<times> jsval) list option" where
  "take_fields 0 s = None"
| "take_fields (Suc n) s = (if s = ''}'' then Some []
     else let (k, r) = take_text (tl s); (v, r') = take_text (drop 2 r)
          in map_option (\<lambda>fs. (k, JStr v) # fs) (take_fields n (tl r')))"

definition take_json :: "string \<Rightarrow> jsval option" where
  "take_json s = map_option JObj (take_fields (length s) (tl s))"

lemma take_put_field:
  "take_fields n s = Some fs \<Longrightarrow> take_fields (Suc n) (put_field (k, JStr v) @ s) = Some ((k, JStr v) # fs)"
  by (simp add: put_field_def take_put)

lemma take_put_fields:
  "list_all (\<lambda>f. is_string (snd f)) fs \<Longrightarrow> length fs < n \<Longrightarrow> take_fields n (concat (map put_field fs) @ ''}'') = Some fs"
proof (induction fs arbitrary: n)
  case Nil
  then show ?case by (cases n) simp_all
next
  case (Cons f fs)
  then obtain m k v where "n = Suc m" "f = (k, JStr v)" by (cases n; cases f) (auto simp: is_string_iff)
  with Cons take_put_field [of m _ fs k v] show ?case by (simp del: take_fields.simps)
qed

lemma take_put_json: "json_keeps take_json put_json"
proof -
  have "length fs \<le> length (concat (map put_field fs))" for fs by (induction fs) (auto simp: put_field_def)
  then have len: "length fs < length (put_json (JObj fs))" for fs by (simp add: put_json_def le_imp_less_Suc le_SucI)
  have "take_json (put_json (JObj fs)) = Some (JObj fs)" if "list_all (\<lambda>f. is_string (snd f)) fs" for fs
    using take_put_fields [OF that len] by (simp add: take_json_def put_json_def)
  then show ?thesis unfolding json_keeps_def by (auto simp: put_json_def elim!: profile_typed.elims)
qed

definition walter :: CurrentUserProfile where
  "walter = \<lparr>pf_first_name = Some ''Walter'', pf_last_name = Some ''W'', pf_nickname = Some ''heisenberg'', pf_email = None\<rparr>"

definition no_login :: login_page where
  "no_login = \<lparr>lg_email = [], lg_password = [], lg_error = [], lg_loading = False, lg_needsVerification = False, lg_resendStatus = []\<rparr>"

lemma stored_profile_typed_witness:
  "storage_typed take_json (pp_storage (fst (exec_run (account_step take_json put_json (\<lambda>_. None) no_login)
     (new_profile_page Map.empty None) [NicknameSaved walter ''Walter'' ''White'' ''say my name'' (HttpOk 200 ()), ProfileRead 5])))"
  (is "storage_typed _ (pp_storage (fst (exec_run ?step ?s ?es)))")
proof -
  obtain s' os where e: "exec_run ?step ?s ?es = (s', os)" by fastforce
  have "run (\<lambda>_ e. answer_typed e) ?step ?s ?es s' os" by (rule exec_run_run [OF _ e]) (simp add: answer_typed_def)
  moreover have "storage_typed take_json (pp_storage ?s)" by (simp add: storage_typed_def new_profile_page_def)
  ultimately show ?thesis using stored_profile_typed [OF take_put_json] e by simp
qed

definition signed_in :: LoginResponse where
  "signed_in = \<lparr>lr_access_token = None, lr_refresh_token = Some ''r'', lr_token = Some (token_of ''h'' ''{}'' ''s''), lr_user = JUndefined\<rparr>"

lemma login_leads_to_chat_witness:
  "follow_routes 3 some_claims 5000 (fst (snd (login_done put_json (HttpOk 200 signed_in) no_login [''chat_servers'' \<mapsto> ''x''])))
     ''/chat'' = Some ChatPage"
proof -
  obtain s' st' os where r: "login_done put_json (HttpOk 200 signed_in) no_login [''chat_servers'' \<mapsto> ''x''] = (s', st', os)"
    by (metis prod_cases3)
  have "access_token_of signed_in = Some (token_of ''h'' ''{}'' ''s'')" by (simp add: access_token_of_def signed_in_def)
  from login_leads_to_chat [OF r this, of some_claims "[(''user_id'', JNum 7), (''exp'', JNum 100)]" 100 7 5000] r
  show ?thesis by (simp add: some_claims_def)
qed

lemma logout_leaves_push_witness:
  "fst (unsubscribe_post some_claims 6000 ''e'' (pp_storage (fst (handleLogout
     (new_profile_page [''token'' \<mapsto> token_of ''h'' ''{}'' ''s''] None))))) = [PostUnsubscribe ''e'' None]"
  (is "fst (unsubscribe_post _ _ _ (pp_storage (fst (handleLogout ?s)))) = _")
proof -
  obtain s' os where l: "handleLogout ?s = (s', os)" by fastforce
  have "getValidAccessToken some_claims 5000 (pp_storage ?s) = (Some (token_of ''h'' ''{}'' ''s''), pp_storage ?s)"
    by (subst read_issued(1) [where claims = "''{}''" and fs = "[(''user_id'', JNum 7), (''exp'', JNum 100)]" and e = 100])
      (simp_all add: new_profile_page_def some_claims_def)
  with logout_leaves_push [OF l, of some_claims 5000 _ 6000 "''e''"] l show ?thesis by simp
qed

definition someone :: "int \<Rightarrow> UserProfile" where
  "someone i = \<lparr>up_user_id = i, up_first_name = ''n'', up_last_name = [], up_nickname = None, up_avatar_url = []\<rparr>"

lemma late_profile_wins_witness:
  "let s1 = fst (openUserProfile_start (Some 1) 2 (new_profile_page Map.empty None));
       s2 = fst (openUserProfile_start (Some 1) 3 s1);
       s3 = openUserProfile_done 2 [] [] (Inr (someone 2)) (openUserProfile_done 3 [] [] (Inr (someone 3)) s2)
   in pp_selectedUserId s3 = Some 3 \<and> pp_selected s3 = Some (someone 2)"
proof -
  let ?s = "new_profile_page Map.empty None"
  obtain s1 os1 where 1: "openUserProfile_start (Some 1) 2 ?s = (s1, os1)" by fastforce
  obtain s2 os2 where 2: "openUserProfile_start (Some 1) 3 s1 = (s2, os2)" by fastforce
  have "pp_socket ?s" by (simp add: new_profile_page_def)
  from late_profile_wins [OF _ _ this 1 2, of "[]" "[]" "someone 2" "someone 3"] 1 2 show ?thesis by (simp add: Let_def)
qed

end
