(* ===== verification/Composer.thy ===== *)
theory Composer
  imports Messages Quality MessageText
begin

text \<open>
  The message input (\<^verbatim>\<open>components/MessageInput.tsx\<close>): its text and the list of mentions under it, the files to be attached,
  sending, dropping files and recording. \<open>handleSubmit\<close> awaits the uploads and then \<open>onSend\<close>: it is split there, and what it
  closes over (the text, the files and the reply of the rendering it belongs to) is a \<open>submission\<close>. A preview URL is named by
  the id of its file; ids are given by a counter.
\<close>

section \<open>State\<close>

record input_file =
  if_name :: string
  if_type :: string
  if_size :: nat

record PendingFile =
  pn_id :: nat
  pn_file :: input_file
  pn_preview :: bool

record composer_env =
  ce_disabled :: bool
  ce_isTouch :: bool
  ce_members :: "ServerMember list"
  ce_replyTo :: "int option"

record composer =
  co_text :: string
  co_pending :: "PendingFile list"
  co_progress :: "nat option"
  co_isDragOver :: bool
  co_dragCounter :: int
  co_mention :: "MentionMatch option"
  co_active :: nat
  co_isRecording :: bool
  co_duration :: nat
  co_recorder :: bool
  co_stream :: bool
  co_openStreams :: nat
  co_nextId :: nat

definition new_composer :: composer where
  "new_composer = \<lparr>co_text = [], co_pending = [], co_progress = None, co_isDragOver = False, co_dragCounter = 0,
     co_mention = None, co_active = 0, co_isRecording = False, co_duration = 0, co_recorder = False, co_stream = False,
     co_openStreams = 0, co_nextId = 0\<rparr>"

record submission =
  sb_value :: string
  sb_pending :: "PendingFile list"
  sb_replyTo :: "int option"
  sb_attachmentIds :: "int list option"
  sb_loaded :: "(nat \<times> nat) list"

datatype composer_effect =
    TypingInput string
  | TypingStop
  | CaretTo nat
  | RequestSubmit
  | SendMessage string "int list option" "int option"
  | UploadFiles "PendingFile list"
  | CreateUrl nat
  | RevokeUrl nat
  | ComposerToast bool string
  | RecorderStop

section \<open>Mentions\<close>

definition updateMentionState :: "string \<Rightarrow> nat \<Rightarrow> composer \<Rightarrow> composer" where
  "updateMentionState v caret s = s\<lparr>co_mention := detectMentionQuery v caret, co_active := 0\<rparr>"

definition closeMentionAutocomplete :: "composer \<Rightarrow> composer" where
  "closeMentionAutocomplete s = s\<lparr>co_mention := None, co_active := 0\<rparr>"

definition mentionResults :: "composer_env \<Rightarrow> composer \<Rightarrow> MentionResults option" where
  "mentionResults env s = map_option (\<lambda>mm. computeMentionResults (ce_members env) (mm_query mm)) (co_mention s)"

definition on_change :: "string \<Rightarrow> nat \<Rightarrow> composer \<Rightarrow> composer \<times> composer_effect list" where
  "on_change v caret s = (updateMentionState v caret (s\<lparr>co_text := v\<rparr>), [TypingInput v])"

definition on_blur :: "composer \<Rightarrow> composer \<times> composer_effect list" where
  "on_blur s = (closeMentionAutocomplete s, [TypingStop])"

definition insert_token :: "string \<Rightarrow> composer \<Rightarrow> composer \<times> composer_effect list" where
  "insert_token token s = (case co_mention s of
     None \<Rightarrow> (s, [])
   | Some mm \<Rightarrow> (let (nextText, nextCaret) = insertMentionToken mm token (co_text s)
       in (closeMentionAutocomplete (s\<lparr>co_text := nextText\<rparr>), [TypingInput nextText, CaretTo nextCaret])))"

definition member_token :: "ServerMember \<Rightarrow> string" where
  "member_token m = ''<@'' @ show_int (mem_user_id m) @ ''>''"

datatype input_key = ArrowDown | ArrowUp | EnterKey bool bool | TabKey | EscapeKey | OtherKey

text \<open>\<open>EnterKey shift composing\<close>.\<close>

definition handleMessageInputKeyDown :: "composer_env \<Rightarrow> input_key \<Rightarrow> composer \<Rightarrow> composer \<times> composer_effect list" where
  "handleMessageInputKeyDown env k s = (case mentionResults env s of
     None \<Rightarrow> (s, if k = EnterKey False False \<and> \<not> ce_isTouch env then [RequestSubmit] else [])
   | Some r \<Rightarrow>
       (if mr_total r = 0 then (s, if k = EnterKey False False \<and> \<not> ce_isTouch env then [RequestSubmit] else [])
        else case k of
          ArrowDown \<Rightarrow> (s\<lparr>co_active := (co_active s + 1) mod mr_total r\<rparr>, [])
        | ArrowUp \<Rightarrow> (s\<lparr>co_active := nat ((int (co_active s) - 1 + int (mr_total r)) mod int (mr_total r))\<rparr>, [])
        | EscapeKey \<Rightarrow> (closeMentionAutocomplete s, [])
        | OtherKey \<Rightarrow> (s, [])
        | _ \<Rightarrow>
            (if mr_showEveryone r \<and> co_active s = 0 then insert_token ''@everyone'' s
             else let i = co_active s - (if mr_showEveryone r then 1 else 0)
                  in if i < length (mr_members r) then insert_token (member_token (mr_members r ! i)) s else (s, []))))"

section \<open>Files\<close>

definition MAX_ATTACHMENT_SIZE_BYTES :: nat where "MAX_ATTACHMENT_SIZE_BYTES = 10 * 1024 * 1024"

definition ALLOWED_TYPES :: "string list" where
  "ALLOWED_TYPES = [''image/jpeg'', ''image/png'', ''image/gif'', ''image/webp'', ''image/avif'', ''video/mp4'', ''video/webm'',
     ''video/quicktime'', ''audio/mpeg'', ''audio/ogg'', ''audio/wav'', ''audio/webm'', ''audio/mp4'']"

definition quoted_name :: "input_file \<Rightarrow> string" where
  "quoted_name f = CHR 0x22 # if_name f @ [CHR 0x22]"

fun add_files :: "input_file list \<Rightarrow> nat \<Rightarrow> PendingFile list \<times> nat \<times> composer_effect list" where
  "add_files [] n = ([], n, [])"
| "add_files (f # fs) n =
     (if MAX_ATTACHMENT_SIZE_BYTES < if_size f
      then (let (ps, m, os) = add_files fs n in (ps, m, ComposerToast False (quoted_name f @ '' is too large (max 10 MB)'') # os))
      else if if_type f \<notin> set ALLOWED_TYPES
      then (let (ps, m, os) = add_files fs n in (ps, m, ComposerToast False (quoted_name f @ '' has an unsupported file type'') # os))
      else let preview = prefix ''image/'' (if_type f) \<or> prefix ''video/'' (if_type f);
               (ps, m, os) = add_files fs (Suc n)
           in (\<lparr>pn_id = n, pn_file = f, pn_preview = preview\<rparr> # ps, m, (if preview then [CreateUrl n] else []) @ os))"

definition addFiles :: "input_file list \<Rightarrow> composer \<Rightarrow> composer \<times> composer_effect list" where
  "addFiles fs s = (let (ps, m, os) = add_files fs (co_nextId s) in (s\<lparr>co_pending := co_pending s @ ps, co_nextId := m\<rparr>, os))"

text \<open>\<open>handlePaste\<close>: the items of the clipboard, a file or not, with its type.\<close>

definition handlePaste :: "(bool \<times> string \<times> input_file option) list \<Rightarrow> composer \<Rightarrow> composer \<times> composer_effect list" where
  "handlePaste items s =
     (let fs = List.map_filter (\<lambda>(isFile, kind, f). if isFile \<and> prefix ''image/'' kind then f else None) items
      in if fs = [] then (s, []) else addFiles fs s)"

definition removePendingFile :: "nat \<Rightarrow> composer \<Rightarrow> composer \<times> composer_effect list" where
  "removePendingFile i s =
     (s\<lparr>co_pending := filter (\<lambda>p. pn_id p \<noteq> i) (co_pending s)\<rparr>,
      case find (\<lambda>p. pn_id p = i) (co_pending s) of
        Some p \<Rightarrow> (if pn_preview p then [RevokeUrl i] else [])
      | None \<Rightarrow> [])"

definition handleDragEnter :: "composer \<Rightarrow> composer" where
  "handleDragEnter s = (let n = co_dragCounter s + 1
     in s\<lparr>co_dragCounter := n, co_isDragOver := (if n = 1 then True else co_isDragOver s)\<rparr>)"

definition handleDragLeave :: "composer \<Rightarrow> composer" where
  "handleDragLeave s = (let n = co_dragCounter s - 1
     in s\<lparr>co_dragCounter := n, co_isDragOver := (if n = 0 then False else co_isDragOver s)\<rparr>)"

definition handleDrop :: "input_file list \<Rightarrow> composer \<Rightarrow> composer \<times> composer_effect list" where
  "handleDrop fs s = (let s1 = s\<lparr>co_dragCounter := 0, co_isDragOver := False\<rparr>
     in if fs = [] then (s1, []) else addFiles fs s1)"

section \<open>Sending\<close>

definition handleSubmit_start :: "composer_env \<Rightarrow> composer \<Rightarrow> composer \<times> submission option \<times> composer_effect list" where
  "handleSubmit_start env s =
     (let value = trim (co_text s);
          sub = \<lparr>sb_value = value, sb_pending = co_pending s, sb_replyTo = ce_replyTo env, sb_attachmentIds = None,
                 sb_loaded = map (\<lambda>p. (pn_id p, 0)) (co_pending s)\<rparr>
      in if value = [] \<and> co_pending s = [] then (s, None, [])
         else if ce_disabled env then (s, None, [])
         else if isMessageContentTooLong (co_text s) then (s, None, [])
         else if co_pending s \<noteq> [] then (s\<lparr>co_progress := Some 0\<rparr>, Some sub, [UploadFiles (co_pending s)])
         else (s, Some sub, [SendMessage value None (ce_replyTo env)]))"

text \<open>\<open>Math.round\<close> of a share of a hundred.\<close>

definition percent_of :: "nat \<Rightarrow> nat \<Rightarrow> nat" where
  "percent_of loaded whole = (if 0 < whole then min 100 ((200 * loaded + whole) div (2 * whole)) else 0)"

definition handleProgress :: "nat \<Rightarrow> nat \<Rightarrow> submission \<Rightarrow> composer \<Rightarrow> composer \<times> submission" where
  "handleProgress i loaded sub s =
     (let m = map_set i loaded (sb_loaded sub); whole = sum_list (map (\<lambda>p. if_size (pn_file p)) (sb_pending sub))
      in (s\<lparr>co_progress := Some (percent_of (sum_list (map snd m)) whole)\<rparr>, sub\<lparr>sb_loaded := m\<rparr>))"

text \<open>The results of the uploads, in the order of the files; \<open>None\<close> is a failure. \<open>None\<close> for the submission: it ends here.\<close>

definition handleSubmit_uploaded :: "int option list \<Rightarrow> submission \<Rightarrow> composer
    \<Rightarrow> composer \<times> submission option \<times> composer_effect list" where
  "handleSubmit_uploaded results sub s0 =
     (let ids = List.map_filter id results;
          errors = map (\<lambda>(p, _). if_name (pn_file p)) (filter (\<lambda>(_, r). r = None) (zip (sb_pending sub) results));
          s = s0\<lparr>co_progress := None\<rparr>;
          os = (if errors \<noteq> [] then [ComposerToast False (''Failed to upload: '' @ join_with '', '' errors)] else [])
      in if errors \<noteq> [] \<and> ids = [] then (s, None, os)
         else let attachmentIds = (if ids \<noteq> [] then Some ids else None)
              in (s, Some (sub\<lparr>sb_attachmentIds := attachmentIds\<rparr>),
                  os @ map (\<lambda>p. RevokeUrl (pn_id p)) (filter pn_preview (sb_pending sub))
                     @ [SendMessage (sb_value sub) attachmentIds (sb_replyTo sub)]))"

text \<open>After \<open>await onSend\<close>, which never rejects: \<open>useMessages.handleSend\<close> keeps the error to itself.\<close>

definition handleSubmit_sent :: "submission \<Rightarrow> composer \<Rightarrow> composer \<times> composer_effect list" where
  "handleSubmit_sent sub s =
     (closeMentionAutocomplete (s\<lparr>co_text := [], co_pending := []\<rparr>),
      TypingStop # (if sb_attachmentIds sub \<noteq> None \<and> sb_attachmentIds sub \<noteq> Some [] then [ComposerToast True ''File sent''] else []))"

definition canSend :: "composer_env \<Rightarrow> composer \<Rightarrow> bool" where
  "canSend env s \<longleftrightarrow> \<not> ce_disabled env \<and> co_progress s = None \<and> \<not> co_isRecording s \<and> \<not> isMessageContentTooLong (co_text s)
     \<and> (trim (co_text s) \<noteq> [] \<or> co_pending s \<noteq> [])"

section \<open>Recording\<close>

definition recording_mime :: "(string \<Rightarrow> bool) \<Rightarrow> string" where
  "recording_mime isTypeSupported =
     (if isTypeSupported ''audio/webm;codecs=opus'' then ''audio/webm;codecs=opus''
      else if isTypeSupported ''audio/webm'' then ''audio/webm''
      else if isTypeSupported ''audio/ogg;codecs=opus'' then ''audio/ogg;codecs=opus''
      else ''audio/mp4'')"

definition recording_ext :: "string \<Rightarrow> string" where
  "recording_ext mime = (if prefix ''audio/webm'' mime then ''webm'' else if prefix ''audio/ogg'' mime then ''ogg'' else ''m4a'')"

text \<open>What the browser makes of a start: no microphone, a microphone but no recorder or no graph, or a recording. The stream
  of a failed start stays open, and one that is replaced is no longer known.\<close>

datatype recording_outcome = MicDenied | SetupFailed | RecorderStarted

definition startRecording_done :: "recording_outcome \<Rightarrow> composer \<Rightarrow> composer \<times> composer_effect list" where
  "startRecording_done r s = (case r of
     MicDenied \<Rightarrow> (s, [ComposerToast False ''Microphone access denied''])
   | SetupFailed \<Rightarrow> (s\<lparr>co_stream := True, co_openStreams := Suc (co_openStreams s)\<rparr>,
       [ComposerToast False ''Microphone access denied''])
   | RecorderStarted \<Rightarrow> (s\<lparr>co_stream := True, co_openStreams := Suc (co_openStreams s), co_recorder := True,
       co_isRecording := True, co_duration := 0\<rparr>, []))"

definition stopRecording :: "composer \<Rightarrow> composer \<times> composer_effect list" where
  "stopRecording s = (s\<lparr>co_recorder := False, co_isRecording := False\<rparr>, if co_recorder s then [RecorderStop] else [])"

definition recorder_onstop :: "string \<Rightarrow> nat \<Rightarrow> composer \<Rightarrow> composer \<times> composer_effect list" where
  "recorder_onstop mime bytes s0 =
     (let s = s0\<lparr>co_stream := False, co_openStreams := (if co_stream s0 then co_openStreams s0 - 1 else co_openStreams s0)\<rparr>;
          f = \<lparr>if_name = ''voice_'' @ show_nat (co_nextId s) @ ''.'' @ recording_ext mime, if_type = mime, if_size = bytes\<rparr>
      in if MAX_ATTACHMENT_SIZE_BYTES < bytes then (s, [ComposerToast False ''Voice message is too long (max 10 MB)''])
         else (s\<lparr>co_pending := co_pending s @ [\<lparr>pn_id = co_nextId s, pn_file = f, pn_preview = False\<rparr>],
                 co_nextId := Suc (co_nextId s)\<rparr>, []))"

definition recording_tick :: "composer \<Rightarrow> composer" where
  "recording_tick s = s\<lparr>co_duration := Suc (co_duration s)\<rparr>"

definition formatRecordingDuration :: "nat \<Rightarrow> string" where
  "formatRecordingDuration seconds =
     (let m = seconds div 60; r = seconds mod 60
      in show_nat m @ '':'' @ (if r < 10 then ''0'' else []) @ show_nat r)"

section \<open>The reply\<close>

definition getReplyAuthorLabel :: "Message \<Rightarrow> string" where
  "getReplyAuthorLabel msg =
     (let nickname = trim (str_or [] (m_author_nickname msg));
          fullName = trim (trim (str_or [] (m_author_first_name msg)) @ '' '' @ trim (str_or [] (m_author_last_name msg)))
      in if nickname \<noteq> [] then nickname else if fullName \<noteq> [] then fullName else ''User #'' @ show_int (m_author_id msg))"

section \<open>The machine\<close>

text \<open>The composer with its submissions under way, the oldest first.\<close>

datatype composer_input =
    Change string nat
  | Blur
  | Key input_key
  | PickMember ServerMember
  | PickEveryone
  | ChooseFiles "input_file list"
  | Paste "(bool \<times> string \<times> input_file option) list"
  | RemoveFile nat
  | DragEnter
  | DragLeave
  | DropFiles "input_file list"
  | Submit
  | Progress nat nat nat
  | Uploaded nat "int option list"
  | Sent nat
  | StartRecording recording_outcome
  | StopRecording
  | RecorderStopped string nat
  | RecordingTick

definition replace_at :: "nat \<Rightarrow> 'a option \<Rightarrow> 'a list \<Rightarrow> 'a list" where
  "replace_at i x xs = take i xs @ (case x of Some y \<Rightarrow> [y] | None \<Rightarrow> []) @ drop (Suc i) xs"

definition on_flight :: "nat \<Rightarrow> (submission \<Rightarrow> composer \<Rightarrow> composer \<times> submission option \<times> composer_effect list)
    \<Rightarrow> composer \<times> submission list \<Rightarrow> (composer \<times> submission list) \<times> composer_effect list" where
  "on_flight i f g = (if i < length (snd g)
     then (let (s, sub, os) = f (snd g ! i) (fst g) in ((s, replace_at i sub (snd g)), os)) else (g, []))"

definition plain_input :: "(composer \<Rightarrow> composer \<times> composer_effect list) \<Rightarrow> composer \<times> submission list
    \<Rightarrow> (composer \<times> submission list) \<times> composer_effect list" where
  "plain_input f g = (let (s, os) = f (fst g) in ((s, snd g), os))"

fun composer_step :: "composer_env \<Rightarrow> composer \<times> submission list \<Rightarrow> composer_input
    \<Rightarrow> (composer \<times> submission list) \<times> composer_effect list" where
  "composer_step env g (Change v caret) = plain_input (on_change v caret) g"
| "composer_step env g Blur = plain_input on_blur g"
| "composer_step env g (Key k) = plain_input (handleMessageInputKeyDown env k) g"
| "composer_step env g (PickMember m) = plain_input (insert_token (member_token m)) g"
| "composer_step env g PickEveryone = plain_input (insert_token ''@everyone'') g"
| "composer_step env g (ChooseFiles fs) = plain_input (addFiles fs) g"
| "composer_step env g (Paste items) = plain_input (handlePaste items) g"
| "composer_step env g (RemoveFile i) = plain_input (removePendingFile i) g"
| "composer_step env g DragEnter = plain_input (\<lambda>s. (handleDragEnter s, [])) g"
| "composer_step env g DragLeave = plain_input (\<lambda>s. (handleDragLeave s, [])) g"
| "composer_step env g (DropFiles fs) = plain_input (handleDrop fs) g"
| "composer_step env g Submit = (let (s, sub, os) = handleSubmit_start env (fst g)
     in ((s, snd g @ (case sub of Some x \<Rightarrow> [x] | None \<Rightarrow> [])), os))"
| "composer_step env g (Progress i f loaded) = on_flight i (\<lambda>sub s. let (s', sub') = handleProgress f loaded sub s in (s', Some sub', [])) g"
| "composer_step env g (Uploaded i results) = on_flight i (handleSubmit_uploaded results) g"
| "composer_step env g (Sent i) = on_flight i (\<lambda>sub s. let (s', os) = handleSubmit_sent sub s in (s', None, os)) g"
| "composer_step env g (StartRecording r) = plain_input (startRecording_done r) g"
| "composer_step env g StopRecording = plain_input stopRecording g"
| "composer_step env g (RecorderStopped mime bytes) = plain_input (recorder_onstop mime bytes) g"
| "composer_step env g RecordingTick = plain_input (\<lambda>s. (recording_tick s, [])) g"

end
