(* ===== verification/ComposerProps.thy ===== *)
theory ComposerProps
  imports Composer
begin

text \<open>What is sent, what the keys insert, and what is lost.\<close>

section \<open>What is sent\<close>

definition well_formed :: "string \<Rightarrow> int list option \<Rightarrow> bool" where
  "well_formed v ids \<longleftrightarrow> length v \<le> MAX_MESSAGE_CONTENT_LEN \<and> (v \<noteq> [] \<or> ids \<noteq> None \<and> ids \<noteq> Some [])"

definition sends_well :: "composer_effect list \<Rightarrow> bool" where
  "sends_well os \<longleftrightarrow> (\<forall>v ids r. SendMessage v ids r \<in> set os \<longrightarrow> well_formed v ids)"

text \<open>A submission under way has a text within the limit, and a text or files.\<close>

definition flight_ok :: "submission \<Rightarrow> bool" where
  "flight_ok sub \<longleftrightarrow> length (sb_value sub) \<le> MAX_MESSAGE_CONTENT_LEN \<and> (sb_value sub \<noteq> [] \<or> sb_pending sub \<noteq> [])"

definition flights_ok :: "composer \<times> submission list \<Rightarrow> bool" where
  "flights_ok g \<longleftrightarrow> (\<forall>sub \<in> set (snd g). flight_ok sub)"

text \<open>The uploads of a submission are answered one for each file.\<close>

fun answers_all :: "composer \<times> submission list \<Rightarrow> composer_input \<Rightarrow> bool" where
  "answers_all g (Uploaded i results) \<longleftrightarrow> (i < length (snd g) \<longrightarrow> length results = length (sb_pending (snd g ! i)))"
| "answers_all g _ \<longleftrightarrow> True"

fun is_send :: "composer_effect \<Rightarrow> bool" where
  "is_send (SendMessage _ _ _) \<longleftrightarrow> True"
| "is_send _ \<longleftrightarrow> False"

definition quiet_out :: "composer_effect list \<Rightarrow> bool" where
  "quiet_out os \<longleftrightarrow> list_all (\<lambda>x. \<not> is_send x) os"

lemma quiet_simps [simp]: "quiet_out []" "quiet_out (x # os) \<longleftrightarrow> \<not> is_send x \<and> quiet_out os"
    "quiet_out (a @ b) \<longleftrightarrow> quiet_out a \<and> quiet_out b"
  by (simp_all add: quiet_out_def)

lemma quiet_sends_well: "quiet_out os \<Longrightarrow> sends_well os"
  by (fastforce simp: quiet_out_def sends_well_def list_all_iff)

lemma quiet_add_files: "quiet_out (snd (snd (add_files fs n)))"
  by (induction fs n rule: add_files.induct) (simp_all add: split_beta Let_def)

lemma quiet_addFiles: "quiet_out (snd (addFiles fs s))"
  using quiet_add_files by (simp add: addFiles_def split_beta Let_def)

lemma quiet_insert: "quiet_out (snd (insert_token t s))"
  by (simp add: insert_token_def split_beta Let_def split: option.split)

lemma quiet_plain:
  "quiet_out (snd (on_change v caret s))" "quiet_out (snd (on_blur s))" "quiet_out (snd (handleMessageInputKeyDown env k s))"
  "quiet_out (snd (handlePaste items s))" "quiet_out (snd (removePendingFile i s))" "quiet_out (snd (handleDrop fs s))"
  "quiet_out (snd (startRecording_done r s))" "quiet_out (snd (stopRecording s))" "quiet_out (snd (recorder_onstop mime n s))"
  "quiet_out (snd (handleSubmit_sent sub s))"
  by (simp_all add: on_change_def on_blur_def handleMessageInputKeyDown_def quiet_insert handlePaste_def quiet_addFiles
      removePendingFile_def handleDrop_def startRecording_done_def stopRecording_def recorder_onstop_def handleSubmit_sent_def
      Let_def split: option.split input_key.split recording_outcome.split)

lemma plain_well:
  assumes "quiet_out (snd (f (fst g)))" and "flights_ok g"
  shows "flights_ok (fst (plain_input f g)) \<and> sends_well (snd (plain_input f g))"
  using assms by (simp add: plain_input_def split_beta flights_ok_def quiet_sends_well)

lemma set_replace_at: "set (replace_at i x xs) \<subseteq> set xs \<union> set_option x"
  using set_take_subset set_drop_subset by (fastforce simp: replace_at_def split: option.splits)

lemma submit_well:
  assumes "handleSubmit_start env s = (s', sub, os)"
  shows "sends_well os \<and> (\<forall>x \<in> set_option sub. flight_ok x)"
  using assms
  by (auto simp: handleSubmit_start_def Let_def sends_well_def well_formed_def flight_ok_def isMessageContentTooLong_def
      split: if_splits)

lemma uploaded_well:
  assumes "handleSubmit_uploaded results sub s = (s', sub', os)" and "flight_ok sub" and "length results = length (sb_pending sub)"
  shows "sends_well os \<and> (\<forall>x \<in> set_option sub'. flight_ok x)"
proof -
  let ?ids = "List.map_filter id results"
  let ?bad = "filter (\<lambda>(_, r). r = None) (zip (sb_pending sub) results)"
  have full: "sb_value sub \<noteq> [] \<or> ?ids \<noteq> []" if "\<not> (?bad \<noteq> [] \<and> ?ids = [])"
  proof (cases results)
    case Nil
    with assms(2,3) show ?thesis by (simp add: flight_ok_def)
  next
    case (Cons r rs)
    then obtain p ps where "sb_pending sub = p # ps" using assms(3) by (cases "sb_pending sub") auto
    with Cons that show ?thesis by (cases r) (auto simp: List.map_filter_def)
  qed
  show ?thesis
  proof (cases "?bad \<noteq> [] \<and> ?ids = []")
    case True
    with assms(1) show ?thesis by (auto simp: handleSubmit_uploaded_def Let_def sends_well_def)
  next
    case False
    with assms full show ?thesis
      by (auto simp: handleSubmit_uploaded_def Let_def sends_well_def well_formed_def flight_ok_def split: if_splits)
  qed
qed

lemma composer_step_well:
  assumes "flights_ok g" and "answers_all g e"
  shows "flights_ok (fst (composer_step env g e)) \<and> sends_well (snd (composer_step env g e))"
proof (cases e)
  case Submit
  obtain s' sub os where h: "handleSubmit_start env (fst g) = (s', sub, os)" by (metis prod_cases3)
  with submit_well [OF this] assms Submit show ?thesis by (auto simp: flights_ok_def split: option.splits)
next
  case (Uploaded i results)
  show ?thesis
  proof (cases "i < length (snd g)")
    case True
    obtain s' sub' os where h: "handleSubmit_uploaded results (snd g ! i) (fst g) = (s', sub', os)" by (metis prod_cases3)
    have "flight_ok (snd g ! i)" using assms(1) True by (simp add: flights_ok_def)
    moreover have "length results = length (sb_pending (snd g ! i))" using assms(2) True Uploaded by simp
    ultimately have "sends_well os \<and> (\<forall>x \<in> set_option sub'. flight_ok x)" by (rule uploaded_well [OF h])
    with h True Uploaded assms(1) set_replace_at [of i sub' "snd g"] show ?thesis
      by (auto simp: on_flight_def flights_ok_def)
  next
    case False
    with assms(1) Uploaded show ?thesis by (simp add: on_flight_def sends_well_def)
  qed
next
  case (Progress i f loaded)
  show ?thesis
  proof (cases "i < length (snd g)")
    case True
    obtain s' sub' where h: "handleProgress f loaded (snd g ! i) (fst g) = (s', sub')" by fastforce
    have "flight_ok (snd g ! i)" using assms(1) True by (simp add: flights_ok_def)
    with h have "flight_ok sub'" by (auto simp: handleProgress_def Let_def flight_ok_def)
    with h True Progress assms(1) set_replace_at [of i "Some sub'" "snd g"] show ?thesis
      by (auto simp: on_flight_def flights_ok_def sends_well_def)
  next
    case False
    with assms(1) Progress show ?thesis by (simp add: on_flight_def sends_well_def)
  qed
next
  case (Sent i)
  with assms(1) set_replace_at [of i None "snd g"] quiet_sends_well [OF quiet_plain(10)] show ?thesis
    by (auto simp: on_flight_def flights_ok_def split_beta quiet_sends_well)
qed (simp_all only: composer_step.simps, (rule plain_well [OF _ assms(1)], simp add: quiet_plain quiet_addFiles quiet_insert)+)

interpretation sending: machine_invariant answers_all "composer_step env" flights_ok for env
  by unfold_locales (blast dest: composer_step_well)

lemma sends_well_append: "sends_well (a @ b) \<longleftrightarrow> sends_well a \<and> sends_well b"
  unfolding sends_well_def set_append Un_iff by blast

lemma sends_well_run:
  "run answers_all (composer_step env) g es g' os \<Longrightarrow> flights_ok g \<Longrightarrow> sends_well os"
proof (induction rule: run.induct)
  case (run_nil g)
  then show ?case by (simp add: sends_well_def)
next
  case (run_snoc g es t os e u os')
  have "flights_ok t" using run_snoc.hyps(1) run_snoc.prems by (rule sending.inv_run)
  with run_snoc.hyps composer_step_well [of t e env] have "sends_well os'" by simp
  with run_snoc.IH run_snoc.prems show ?case by (simp add: sends_well_append)
qed

text \<open>C26. Whatever is typed, attached, dropped, recorded and submitted, in any order and with any failures of the uploads, a
  message that is sent has a text or at least one attachment, and its text is within the limit of the server.\<close>

theorem sent_messages_well_formed:
  assumes "run answers_all (composer_step env) (new_composer, []) es g os" and "SendMessage v ids r \<in> set os"
  shows "length v \<le> MAX_MESSAGE_CONTENT_LEN \<and> (v \<noteq> [] \<or> (\<exists>i is. ids = Some (i # is)))"
proof -
  have "sends_well os" by (rule sends_well_run [OF assms(1)]) (simp add: flights_ok_def)
  with assms(2) show ?thesis by (cases ids; cases "the ids") (auto simp: sends_well_def well_formed_def)
qed

section \<open>The highlighted mention\<close>

definition mention_options :: "MentionResults \<Rightarrow> string list" where
  "mention_options r = (if mr_showEveryone r then [''@everyone''] else []) @ map member_token (mr_members r)"

definition active_ok :: "composer_env \<Rightarrow> composer \<Rightarrow> bool" where
  "active_ok env s \<longleftrightarrow> (case mentionResults env s of Some r \<Rightarrow> mr_total r \<noteq> 0 \<longrightarrow> co_active s < mr_total r | None \<Rightarrow> True)"

lemma results_total: "mentionResults env s = Some r \<Longrightarrow> mr_total r = length (mention_options r)"
  by (auto simp: mentionResults_def computeMentionResults_def mention_options_def Let_def)

lemma active_same:
  assumes "co_mention s' = co_mention s" and "co_active s' = co_active s"
  shows "active_ok env s' = active_ok env s"
proof -
  have "mentionResults env s' = mentionResults env s" using assms by (simp add: mentionResults_def)
  with assms show ?thesis by (simp add: active_ok_def split: option.split)
qed

lemma active_zero: "co_active s = 0 \<Longrightarrow> active_ok env s"
  by (simp add: active_ok_def split: option.split)

lemma insert_token_closes:
  "co_mention s \<noteq> None \<Longrightarrow> co_active (fst (insert_token t s)) = 0 \<and> co_mention (fst (insert_token t s)) = None"
  by (auto simp: insert_token_def closeMentionAutocomplete_def split_beta)

lemma insert_token_active: "active_ok env s \<Longrightarrow> active_ok env (fst (insert_token t s))"
  by (cases "co_mention s") (auto simp: insert_token_def closeMentionAutocomplete_def active_zero split_beta)

lemma active_key: "active_ok env s \<Longrightarrow> active_ok env (fst (handleMessageInputKeyDown env k s))"
proof (cases "mentionResults env s")
  case None
  then show ?thesis if "active_ok env s" using that by (simp add: handleMessageInputKeyDown_def)
next
  case (Some r)
  assume a: "active_ok env s"
  show ?thesis
  proof (cases "mr_total r = 0")
    case True
    with Some a show ?thesis by (simp add: handleMessageInputKeyDown_def)
  next
    case False
    have "mentionResults env (s\<lparr>co_active := n\<rparr>) = Some r" for n using Some by (simp add: mentionResults_def)
    with False have upd: "n < mr_total r \<Longrightarrow> active_ok env (s\<lparr>co_active := n\<rparr>)" for n by (simp add: active_ok_def)
    from False have "nat (x mod int (mr_total r)) < mr_total r" for x by (simp add: nat_less_iff)
    with False Some a upd insert_token_active [OF a] show ?thesis
      by (cases k) (simp_all add: handleMessageInputKeyDown_def Let_def active_zero closeMentionAutocomplete_def)
  qed
qed

lemma active_files: "active_ok env (fst (addFiles fs s)) = active_ok env s"
  by (rule active_same) (simp_all add: addFiles_def split_beta Let_def)

text \<open>What neither opens nor moves in the list.\<close>

lemma mention_kept:
  "co_mention (fst (removePendingFile i s)) = co_mention s \<and> co_active (fst (removePendingFile i s)) = co_active s"
  "co_mention (handleDragEnter s) = co_mention s \<and> co_active (handleDragEnter s) = co_active s"
  "co_mention (handleDragLeave s) = co_mention s \<and> co_active (handleDragLeave s) = co_active s"
  "co_mention (fst (startRecording_done r s)) = co_mention s \<and> co_active (fst (startRecording_done r s)) = co_active s"
  "co_mention (fst (stopRecording s)) = co_mention s \<and> co_active (fst (stopRecording s)) = co_active s"
  "co_mention (fst (recorder_onstop mime n s)) = co_mention s \<and> co_active (fst (recorder_onstop mime n s)) = co_active s"
  "co_mention (recording_tick s) = co_mention s \<and> co_active (recording_tick s) = co_active s"
  "co_mention (fst (handleSubmit_start env' s)) = co_mention s \<and> co_active (fst (handleSubmit_start env' s)) = co_active s"
  "co_mention (fst (handleProgress i n sub s)) = co_mention s \<and> co_active (fst (handleProgress i n sub s)) = co_active s"
  "co_mention (fst (handleSubmit_uploaded results sub s)) = co_mention s \<and> co_active (fst (handleSubmit_uploaded results sub s)) = co_active s"
  by (simp_all add: removePendingFile_def handleDragEnter_def handleDragLeave_def startRecording_done_def stopRecording_def
      recorder_onstop_def recording_tick_def handleSubmit_start_def handleProgress_def handleSubmit_uploaded_def Let_def
      split: recording_outcome.split)

lemma active_kept: "co_mention s' = co_mention s \<and> co_active s' = co_active s \<Longrightarrow> active_ok env s \<Longrightarrow> active_ok env s'"
  using active_same by blast

lemma active_paste: "active_ok env (fst (handlePaste items s)) = active_ok env s"
  by (simp add: handlePaste_def active_files Let_def)

lemma active_closed: "active_ok env (fst (on_change v caret s))" "active_ok env (fst (on_blur s))"
    "active_ok env (fst (handleSubmit_sent sub s))"
  by (simp_all add: on_change_def on_blur_def updateMentionState_def handleSubmit_sent_def closeMentionAutocomplete_def active_zero)

lemma active_drop: "active_ok env s \<Longrightarrow> active_ok env (fst (handleDrop fs s))"
  by (simp add: handleDrop_def Let_def active_files active_same [of "s\<lparr>co_dragCounter := 0, co_isDragOver := False\<rparr>" s])

lemma active_step: "active_ok env (fst g) \<Longrightarrow> active_ok env (fst (fst (composer_step env g e)))"
  by (cases e) (simp_all add: plain_input_def on_flight_def split_beta active_kept [OF mention_kept(1)] active_kept [OF mention_kept(2)]
      active_kept [OF mention_kept(3)] active_kept [OF mention_kept(4)] active_kept [OF mention_kept(5)]
      active_kept [OF mention_kept(6)] active_kept [OF mention_kept(7)] active_kept [OF mention_kept(8)]
      active_kept [OF mention_kept(9)] active_kept [OF mention_kept(10)] active_paste active_closed active_key active_files active_drop
      insert_token_active)

interpretation mention: machine_invariant "\<lambda>_ _. True" "composer_step env" "\<lambda>g. active_ok env (fst g)" for env
  by unfold_locales (rule active_step)

text \<open>While the list of mentions is open and not empty, one of its entries is highlighted, and Enter (with or without
  Shift) and Tab insert that one: everyone, or the member at that place.\<close>

theorem keys_pick_the_highlighted:
  assumes "run (\<lambda>_ _. True) (composer_step env) (new_composer, []) es (s, fs) os" and "mentionResults env s = Some r"
    and "mention_options r \<noteq> []"
  shows "co_active s < length (mention_options r)
    \<and> handleMessageInputKeyDown env (EnterKey shift composing) s = insert_token (mention_options r ! co_active s) s
    \<and> handleMessageInputKeyDown env TabKey s = insert_token (mention_options r ! co_active s) s"
proof -
  have "active_ok env s" using mention.inv_run [OF assms(1)] by (simp add: new_composer_def active_zero)
  with assms results_total [OF assms(2)] have lt: "co_active s < length (mention_options r)" "mr_total r \<noteq> 0"
    by (simp_all add: active_ok_def)
  then show ?thesis using assms(2)
    by (cases "co_active s") (auto simp: handleMessageInputKeyDown_def mention_options_def nth_append Let_def)
qed

section \<open>What is lost\<close>

text \<open>\<open>onSend\<close> keeps the refusal of the server to itself, so the input cannot tell: the text and the files of a refused
  message are cleared all the same, with the notice that the file was sent.\<close>

theorem refused_message_is_lost:
  assumes "handleSubmit_sent sub s = (s', os)"
  shows "co_text s' = [] \<and> co_pending s' = [] \<and> mv_error (handleSend_done (Inl e) v) = e
    \<and> mv_replyTo (handleSend_done (Inl e) v) = mv_replyTo v
    \<and> (\<forall>i is. sb_attachmentIds sub = Some (i # is) \<longrightarrow> ComposerToast True ''File sent'' \<in> set os)"
  using assms by (auto simp: handleSubmit_sent_def closeMentionAutocomplete_def handleSend_done_def)

text \<open>Nothing tells that a message is on its way: a second Enter sends it again, and what is typed meanwhile is cleared
  by the answer of the first.\<close>

theorem sending_is_not_guarded:
  assumes "co_pending s = []" and "trim (co_text s) \<noteq> []" and "\<not> isMessageContentTooLong (co_text s)" and "\<not> ce_disabled env"
  shows "let (g1, os1) = composer_step env (s, []) Submit; (g2, os2) = composer_step env g1 Submit;
             (g3, os3) = composer_step env g2 (Change later caret); (g4, os4) = composer_step env g3 (Sent 0)
         in os1 = [SendMessage (trim (co_text s)) None (ce_replyTo env)] \<and> os2 = os1 \<and> co_text (fst g3) = later
            \<and> co_text (fst g4) = []"
  using assms
  by (simp add: handleSubmit_start_def Let_def plain_input_def on_change_def updateMentionState_def on_flight_def
      handleSubmit_sent_def closeMentionAutocomplete_def)

text \<open>Starting twice before the first microphone is given leaves one open that no stop reaches.\<close>

lemma second_start_leaves_a_microphone:
  assumes "co_openStreams s = 0"
  shows "let s1 = fst (startRecording_done RecorderStarted s); s2 = fst (startRecording_done RecorderStarted s1);
             (s3, os3) = stopRecording s2; (s4, os4) = recorder_onstop mime n s3
         in os3 = [RecorderStop] \<and> co_openStreams s4 = 1 \<and> \<not> co_isRecording s4 \<and> fst (stopRecording s4) = s4"
  using assms by (simp add: startRecording_done_def stopRecording_def recorder_onstop_def Let_def split_beta)

section \<open>At work\<close>

definition desktop :: composer_env where
  "desktop = \<lparr>ce_disabled = False, ce_isTouch = False, ce_members =
     [\<lparr>mem_user_id = 7, mem_first_name = None, mem_last_name = None, mem_nickname = Some ''eve'', mem_avatar_url = None\<rparr>],
     ce_replyTo = None\<rparr>"

definition a_picture :: input_file where
  "a_picture = \<lparr>if_name = ''p'', if_type = ''image/png'', if_size = 5\<rparr>"

text \<open>A picture without a text, evaluated once.\<close>

lemma picture_sent:
  "snd (exec_run (composer_step desktop) (new_composer, [])
     [ChooseFiles [a_picture], Submit, Progress 0 0 5, Uploaded 0 [Some 4], Sent 0])
   = [CreateUrl 0, UploadFiles [\<lparr>pn_id = 0, pn_file = a_picture, pn_preview = True\<rparr>], RevokeUrl 0, SendMessage [] (Some [4]) None,
      TypingStop, ComposerToast True ''File sent'']"
  by (simp add: plain_input_def addFiles_def new_composer_def desktop_def a_picture_def MAX_ATTACHMENT_SIZE_BYTES_def
      ALLOWED_TYPES_def handleSubmit_start_def trim_def isMessageContentTooLong_def MAX_MESSAGE_CONTENT_LEN_def on_flight_def
      handleProgress_def handleSubmit_uploaded_def handleSubmit_sent_def replace_at_def List.map_filter_def Let_def)

lemma sent_messages_well_formed_witness:
  "SendMessage [] (Some [4]) None \<in> set (snd (exec_run (composer_step desktop) (new_composer, [])
     [ChooseFiles [a_picture], Submit, Progress 0 0 5, Uploaded 0 [Some 4], Sent 0])) \<and> (\<exists>i is. Some [4 :: int] = Some (i # is))"
  (is "_ \<in> set (snd (exec_run ?step ?g ?es)) \<and> _")
proof -
  obtain g os where e: "exec_run ?step ?g ?es = (g, os)" by fastforce
  have en: "enabled_run answers_all ?step ?g ?es"
    by (simp add: plain_input_def addFiles_def new_composer_def desktop_def a_picture_def MAX_ATTACHMENT_SIZE_BYTES_def
      ALLOWED_TYPES_def handleSubmit_start_def trim_def isMessageContentTooLong_def MAX_MESSAGE_CONTENT_LEN_def on_flight_def
      handleProgress_def replace_at_def Let_def)
  have s: "SendMessage [] (Some [4]) None \<in> set (snd (exec_run ?step ?g ?es))" unfolding picture_sent by simp
  with sent_messages_well_formed [OF exec_run_run [OF en e]] e show ?thesis by simp
qed

lemma keys_pick_the_highlighted_witness:
  "\<exists>s r. mentionResults desktop s = Some r \<and> mention_options r = [''@everyone'', ''<@7>''] \<and> co_active s = 1
     \<and> handleMessageInputKeyDown desktop TabKey s = insert_token ''<@7>'' s"
proof -
  let ?es = "[Change ''@e'' 2, Key ArrowDown]"
  obtain s fs os where e: "exec_run (composer_step desktop) (new_composer, []) ?es = ((s, fs), os)" by (metis prod.exhaust)
  have "case exec_run (composer_step desktop) (new_composer, []) ?es of ((s, fs), os) \<Rightarrow>
      co_active s = 1 \<and> map_option mention_options (mentionResults desktop s) = Some [''@everyone'', ''<@7>'']" by code_simp
  with e obtain r where r: "mentionResults desktop s = Some r" "mention_options r = [''@everyone'', ''<@7>'']" "co_active s = 1"
    by auto
  have "run (\<lambda>_ _. True) (composer_step desktop) (new_composer, []) ?es (s, fs) os" by (rule exec_run_run [OF _ e]) simp
  from keys_pick_the_highlighted [OF this r(1)] r have "handleMessageInputKeyDown desktop TabKey s = insert_token ''<@7>'' s" by simp
  with r show ?thesis by blast
qed

lemma refused_message_is_lost_witness:
  "co_text (fst (handleSubmit_sent \<lparr>sb_value = ''hi'', sb_pending = [], sb_replyTo = None, sb_attachmentIds = Some [3], sb_loaded = []\<rparr>
     (new_composer\<lparr>co_text := ''hi''\<rparr>))) = []"
  by (metis prod.collapse refused_message_is_lost)

lemma sending_is_not_guarded_witness:
  "let (g1, os1) = composer_step desktop (new_composer\<lparr>co_text := ''hi''\<rparr>, []) Submit; (g2, os2) = composer_step desktop g1 Submit
   in os1 = [SendMessage ''hi'' None None] \<and> os2 = os1"
proof -
  let ?s = "new_composer\<lparr>co_text := ''hi''\<rparr>"
  have t: "trim (co_text ?s) = ''hi''" "co_pending ?s = []" "\<not> isMessageContentTooLong (co_text ?s)" "\<not> ce_disabled desktop"
    "ce_replyTo desktop = None"
    by (simp_all add: trim_def is_space_def new_composer_def isMessageContentTooLong_def MAX_MESSAGE_CONTENT_LEN_def desktop_def)
  from t(1) have "trim (co_text ?s) \<noteq> []" by simp
  from sending_is_not_guarded [OF t(2) this t(3,4), of "[]" 0] t(1,5) show ?thesis
    by (simp only: t(1,5) split_beta Let_def)
qed

end
