(* ===== verification/Scroll.thy ===== *)
theory Scroll
  imports ChatTypes
begin

text \<open>
  The scrolled list of messages (\<^verbatim>\<open>hooks/useJumpToLatest.ts\<close>, the layout effect of \<^verbatim>\<open>pages/ChatPage.tsx\<close> and the sentinel at
  the end of \<^verbatim>\<open>components/MessageList.tsx\<close>), and the members of a server (\<^verbatim>\<open>hooks/useServerMembers.ts\<close>). Heights and
  positions are in pixels; what the content measures after a change is an argument, and the browser keeps the position within
  the content.
\<close>

section \<open>State\<close>

definition STICK_THRESHOLD_PX :: int where "STICK_THRESHOLD_PX = 100"
definition SHOW_THRESHOLD_PX :: int where "SHOW_THRESHOLD_PX = 200"
definition SMOOTH_MAX_SCREENS :: int where "SMOOTH_MAX_SCREENS = 2"

record scroll_track =
  tr_channelId :: int
  tr_firstId :: "int option"
  tr_lastId :: "int option"
  tr_scrollHeight :: int

record scroll_view =
  sc_messages :: "Message list"
  sc_channel :: int
  sc_top :: int
  sc_height :: int
  sc_client :: int
  sc_isAtBottom :: bool
  sc_isVisible :: bool
  sc_lastSeenId :: int
  sc_tracked :: int
  sc_tailRef :: int
  sc_prevTrack :: "scroll_track option"
  sc_deps :: "(nat \<times> int) option"

definition new_scroll :: "int \<Rightarrow> int \<Rightarrow> scroll_view" where
  "new_scroll channel client = \<lparr>sc_messages = [], sc_channel = channel, sc_top = 0, sc_height = client, sc_client = client,
     sc_isAtBottom = True, sc_isVisible = False, sc_lastSeenId = 0, sc_tracked = channel, sc_tailRef = 0,
     sc_prevTrack = None, sc_deps = None\<rparr>"

definition scroll_to :: "int \<Rightarrow> scroll_view \<Rightarrow> scroll_view" where
  "scroll_to t s = s\<lparr>sc_top := max 0 (min t (sc_height s - sc_client s))\<rparr>"

definition distance :: "scroll_view \<Rightarrow> int" where
  "distance s = sc_height s - sc_top s - sc_client s"

definition tail_id :: "Message list \<Rightarrow> int" where
  "tail_id ms = (if ms = [] then 0 else m_id (last ms))"

definition first_id_of :: "Message list \<Rightarrow> int option" where
  "first_id_of ms = (case ms of [] \<Rightarrow> None | m # _ \<Rightarrow> Some (m_id m))"

definition last_id_of :: "Message list \<Rightarrow> int option" where
  "last_id_of ms = (if ms = [] then None else Some (m_id (last ms)))"

section \<open>Effects\<close>

definition measure_view :: "scroll_view \<Rightarrow> scroll_view" where
  "measure_view s =
     (let d = distance s; atBottom = d < STICK_THRESHOLD_PX
      in s\<lparr>sc_isAtBottom := atBottom,
           sc_lastSeenId := (if atBottom then sc_tailRef s else sc_lastSeenId s),
           sc_isVisible := (if sc_isVisible s then STICK_THRESHOLD_PX \<le> d else SHOW_THRESHOLD_PX < d)\<rparr>)"

text \<open>The layout effect of \<open>ChatPage\<close>.\<close>

definition track_of :: "scroll_view \<Rightarrow> scroll_track" where
  "track_of s = \<lparr>tr_channelId = sc_channel s, tr_firstId = first_id_of (sc_messages s), tr_lastId = last_id_of (sc_messages s),
     tr_scrollHeight = sc_height s\<rparr>"

definition layout_effect :: "scroll_view \<Rightarrow> scroll_view" where
  "layout_effect s =
     (let cur = track_of s;
          s1 = (case sc_prevTrack s of
              None \<Rightarrow> (scroll_to (sc_height s) s)\<lparr>sc_isAtBottom := True\<rparr>
            | Some prev \<Rightarrow>
                (if tr_channelId prev \<noteq> sc_channel s \<or> tr_lastId prev = None
                 then (scroll_to (sc_height s) s)\<lparr>sc_isAtBottom := True\<rparr>
                 else if tr_lastId prev = tr_lastId cur \<and> tr_firstId prev \<noteq> tr_firstId cur
                 then scroll_to (sc_top s + (sc_height s - tr_scrollHeight prev)) s
                 else if (tr_firstId prev = tr_firstId cur \<and> tr_lastId prev \<noteq> tr_lastId cur) \<and> sc_isAtBottom s
                 then scroll_to (sc_height s) s
                 else s))
      in s1\<lparr>sc_prevTrack := Some cur\<rparr>)"

text \<open>A rendering with its effects: the reset of another channel while rendering, the layout effect, the tail, the measure. The
  effects run when the number of messages or the channel changed.\<close>

definition commit :: "scroll_view \<Rightarrow> scroll_view" where
  "commit s =
     (let s1 = (if sc_channel s \<noteq> sc_tracked s
                then s\<lparr>sc_tracked := sc_channel s, sc_isVisible := False, sc_lastSeenId := 0\<rparr> else s);
          deps = (length (sc_messages s), sc_channel s);
          changed = (sc_deps s \<noteq> Some deps);
          s2 = (if changed then layout_effect s1 else s1);
          s3 = s2\<lparr>sc_tailRef := tail_id (sc_messages s)\<rparr>;
          s4 = (if changed then measure_view s3 else s3)
      in s4\<lparr>sc_deps := Some deps\<rparr>)"

section \<open>The count and the button\<close>

fun count_new :: "int \<Rightarrow> int option \<Rightarrow> Message list \<Rightarrow> nat" where
  "count_new seen me [] = 0"
| "count_new seen me (m # ms) =
     (if m_id m \<le> seen then 0 else (if Some (m_author_id m) \<noteq> me then 1 else 0) + count_new seen me ms)"

definition newCount :: "int option \<Rightarrow> scroll_view \<Rightarrow> nat" where
  "newCount me s = (if sc_lastSeenId s = 0 then 0 else count_new (sc_lastSeenId s) me (rev (sc_messages s)))"

definition jump_visible :: "bool \<Rightarrow> scroll_view \<Rightarrow> bool" where
  "jump_visible hasMoreNewer s \<longleftrightarrow> sc_isVisible s \<or> hasMoreNewer"

text \<open>A smooth jump sets out; it arrives by later scroll events.\<close>

definition jumpToLatest :: "bool \<Rightarrow> scroll_view \<Rightarrow> scroll_view" where
  "jumpToLatest prefersReducedMotion s =
     (let s1 = (if \<not> prefersReducedMotion \<and> distance s < sc_client s * SMOOTH_MAX_SCREENS then s else scroll_to (sc_height s) s)
      in s1\<lparr>sc_isAtBottom := True, sc_isVisible := False, sc_lastSeenId := sc_tailRef s1\<rparr>)"

section \<open>The machine\<close>

definition show_messages :: "Message list \<Rightarrow> int \<Rightarrow> scroll_view \<Rightarrow> scroll_view" where
  "show_messages ms height s = commit (scroll_to (sc_top s) (s\<lparr>sc_messages := ms, sc_height := height\<rparr>))"

text \<open>What happens to the view: a page of newer messages or one message at the end, a page of older ones in front, one message
  deleted, another channel, a scroll (measured in the next frame), content that grows (a picture is loaded), a jump.\<close>

datatype scroll_input =
    Append "Message list" int
  | Prepend "Message list" int
  | DeleteAt nat int
  | SwitchTo int "Message list" int
  | Scroll int
  | Grow int
  | Jump bool

definition remove_nth :: "nat \<Rightarrow> 'a list \<Rightarrow> 'a list" where
  "remove_nth i xs = take i xs @ drop (Suc i) xs"

fun scroll_step :: "scroll_view \<Rightarrow> scroll_input \<Rightarrow> scroll_view" where
  "scroll_step s (Append ms h) = show_messages (sc_messages s @ ms) h s"
| "scroll_step s (Prepend ms h) = show_messages (ms @ sc_messages s) h s"
| "scroll_step s (DeleteAt i h) = show_messages (remove_nth i (sc_messages s)) h s"
| "scroll_step s (SwitchTo c ms h) = show_messages ms h (s\<lparr>sc_channel := c\<rparr>)"
| "scroll_step s (Scroll t) = measure_view (scroll_to t s)"
| "scroll_step s (Grow h) = s\<lparr>sc_height := h\<rparr>"
| "scroll_step s (Jump reduced) = jumpToLatest reduced s"

text \<open>The sentinel at the end of a list that is not the live tail asks for the next page when it is within 200 pixels.\<close>

definition BOTTOM_MARGIN :: int where "BOTTOM_MARGIN = 200"

definition newer_wanted :: "bool \<Rightarrow> bool \<Rightarrow> scroll_view \<Rightarrow> bool" where
  "newer_wanted hasMoreNewer isLoadingNewer s \<longleftrightarrow> hasMoreNewer \<and> \<not> isLoadingNewer \<and> distance s \<le> BOTTOM_MARGIN"

section \<open>The members of a server\<close>

record member_cache =
  mb_members :: "ServerMember list record_map"
  mb_loading :: "int list"

definition ensureLoaded :: "bool \<Rightarrow> int \<Rightarrow> member_cache \<Rightarrow> member_cache \<times> int option" where
  "ensureLoaded online serverId s =
     (if serverId \<le> 0 \<or> \<not> online then (s, None)
      else if map_has serverId (mb_members s) \<or> serverId \<in> set (mb_loading s) then (s, None)
      else (s\<lparr>mb_loading := set_add serverId (mb_loading s)\<rparr>, Some serverId))"

definition members_loaded :: "int \<Rightarrow> ServerMember list option \<Rightarrow> member_cache \<Rightarrow> member_cache" where
  "members_loaded serverId answer s =
     (let s1 = (case answer of Some ms \<Rightarrow> s\<lparr>mb_members := map_set serverId ms (mb_members s)\<rparr> | None \<Rightarrow> s)
      in s1\<lparr>mb_loading := set_del serverId (mb_loading s1)\<rparr>)"

definition server_members :: "int \<Rightarrow> member_cache \<Rightarrow> ServerMember list" where
  "server_members serverId s = map_get_or [] (mb_members s) serverId"

end
