(* ===== verification/ScrollProps.thy ===== *)
theory ScrollProps
  imports Scroll
begin

text \<open>Where the list stands after a change, and what the count on the button counts.\<close>

section \<open>The count\<close>

lemma count_new_filter:
  "sorted_wrt (\<lambda>a b. m_id a > m_id b) ms \<Longrightarrow>
     count_new seen me ms = length (filter (\<lambda>m. seen < m_id m \<and> Some (m_author_id m) \<noteq> me) ms)"
proof (induction ms)
  case (Cons m ms)
  show ?case
  proof (cases "m_id m \<le> seen")
    case True
    with Cons.prems have "\<forall>x \<in> set ms. \<not> seen < m_id x" by fastforce
    then have "filter (\<lambda>m. seen < m_id m \<and> Some (m_author_id m) \<noteq> me) ms = []" by (simp add: filter_empty_conv)
    with True show ?thesis by simp
  next
    case False
    with Cons show ?thesis by simp
  qed
qed simp

text \<open>Messages are listed by growing ids, all positive.\<close>

definition listed :: "Message list \<Rightarrow> bool" where
  "listed ms \<longleftrightarrow> sorted_wrt (\<lambda>a b. m_id a < m_id b) ms \<and> (\<forall>m \<in> set ms. 0 < m_id m)"

lemma newCount_filter:
  assumes "listed (sc_messages s)"
  shows "newCount me s = (if sc_lastSeenId s = 0 then 0
    else length (filter (\<lambda>m. sc_lastSeenId s < m_id m \<and> Some (m_author_id m) \<noteq> me) (sc_messages s)))"
proof -
  have "sorted_wrt (\<lambda>a b. m_id a > m_id b) (rev (sc_messages s))" using assms by (simp add: listed_def sorted_wrt_rev)
  then have "count_new (sc_lastSeenId s) me (rev (sc_messages s))
      = length (filter (\<lambda>m. sc_lastSeenId s < m_id m \<and> Some (m_author_id m) \<noteq> me) (rev (sc_messages s)))"
    by (rule count_new_filter)
  then show ?thesis by (simp add: newCount_def rev_filter [symmetric])
qed

section \<open>A settled view\<close>

text \<open>After its effects a view knows its channel, its tail and its ends; who is not held at the bottom is at least the threshold
  away from it, and something was seen of a list that is not empty.\<close>

definition settled_view :: "scroll_view \<Rightarrow> bool" where
  "settled_view s \<longleftrightarrow> listed (sc_messages s) \<and> sc_tracked s = sc_channel s \<and> sc_tailRef s = tail_id (sc_messages s)
     \<and> sc_deps s = Some (length (sc_messages s), sc_channel s) \<and> 0 \<le> sc_client s \<and> 0 \<le> sc_top s
     \<and> (\<exists>h \<le> sc_height s. sc_prevTrack s = Some ((track_of s)\<lparr>tr_scrollHeight := h\<rparr>))
     \<and> (\<not> sc_isAtBottom s \<longrightarrow> STICK_THRESHOLD_PX \<le> distance s) \<and> (sc_isVisible s \<longrightarrow> STICK_THRESHOLD_PX \<le> distance s)
     \<and> (sc_messages s \<noteq> [] \<longrightarrow> 0 < sc_lastSeenId s)"

lemma tail_positive: "listed ms \<Longrightarrow> ms \<noteq> [] \<Longrightarrow> 0 < tail_id ms"
  by (simp add: listed_def tail_id_def)

lemma scroll_to_fields [simp]:
  "sc_messages (scroll_to t s) = sc_messages s" "sc_channel (scroll_to t s) = sc_channel s" "sc_height (scroll_to t s) = sc_height s"
  "sc_client (scroll_to t s) = sc_client s" "sc_isAtBottom (scroll_to t s) = sc_isAtBottom s"
  "sc_isVisible (scroll_to t s) = sc_isVisible s" "sc_lastSeenId (scroll_to t s) = sc_lastSeenId s"
  "sc_tracked (scroll_to t s) = sc_tracked s" "sc_tailRef (scroll_to t s) = sc_tailRef s"
  "sc_prevTrack (scroll_to t s) = sc_prevTrack s" "sc_deps (scroll_to t s) = sc_deps s"
  "sc_top (scroll_to t s) = max 0 (min t (sc_height s - sc_client s))"
  by (simp_all add: scroll_to_def)

lemma measure_fields [simp]:
  "sc_messages (measure_view s) = sc_messages s" "sc_channel (measure_view s) = sc_channel s"
  "sc_height (measure_view s) = sc_height s" "sc_client (measure_view s) = sc_client s" "sc_top (measure_view s) = sc_top s"
  "sc_tracked (measure_view s) = sc_tracked s" "sc_tailRef (measure_view s) = sc_tailRef s"
  "sc_prevTrack (measure_view s) = sc_prevTrack s" "sc_deps (measure_view s) = sc_deps s" "distance (measure_view s) = distance s"
  "sc_isAtBottom (measure_view s) = (distance s < STICK_THRESHOLD_PX)"
  "sc_lastSeenId (measure_view s) = (if distance s < STICK_THRESHOLD_PX then sc_tailRef s else sc_lastSeenId s)"
  by (simp_all add: measure_view_def distance_def Let_def)

lemma measure_visible: "sc_isVisible (measure_view s) \<Longrightarrow> STICK_THRESHOLD_PX \<le> distance (measure_view s)"
  by (simp add: measure_view_def distance_def Let_def STICK_THRESHOLD_PX_def SHOW_THRESHOLD_PX_def split: if_splits)

lemma layout_fields [simp]:
  "sc_messages (layout_effect s) = sc_messages s" "sc_channel (layout_effect s) = sc_channel s"
  "sc_height (layout_effect s) = sc_height s" "sc_client (layout_effect s) = sc_client s"
  "sc_isVisible (layout_effect s) = sc_isVisible s" "sc_lastSeenId (layout_effect s) = sc_lastSeenId s"
  "sc_tracked (layout_effect s) = sc_tracked s" "sc_tailRef (layout_effect s) = sc_tailRef s"
  "sc_prevTrack (layout_effect s) = Some (track_of s)" "sc_deps (layout_effect s) = sc_deps s"
  by (simp_all add: layout_effect_def Let_def split: option.split)

text \<open>The first rendering of a channel with messages, or of any after another channel, goes to the end.\<close>

definition fresh_track :: "scroll_view \<Rightarrow> bool" where
  "fresh_track s \<longleftrightarrow> (\<forall>tr. sc_prevTrack s = Some tr \<longrightarrow> tr_channelId tr \<noteq> sc_channel s \<or> tr_lastId tr = None)"

lemma layout_bottom: "fresh_track s \<Longrightarrow> 0 \<le> sc_client s \<Longrightarrow> sc_top (layout_effect s) = max 0 (sc_height s - sc_client s)"
  by (cases "sc_prevTrack s") (auto simp: layout_effect_def Let_def fresh_track_def)

lemma layout_top: "0 \<le> sc_top s \<Longrightarrow> 0 \<le> sc_top (layout_effect s)"
  by (simp add: layout_effect_def Let_def split: option.split)

text \<open>A list that changes its length, or a channel that changes, is settled by the effects.\<close>

lemma commit_settles:
  assumes "sc_deps s \<noteq> Some (length (sc_messages s), sc_channel s)" and "listed (sc_messages s)" and "0 \<le> sc_client s"
    and "0 \<le> sc_top s"
    and "sc_channel s = sc_tracked s \<longrightarrow> 0 < sc_lastSeenId s \<or> fresh_track s"
    and "sc_channel s \<noteq> sc_tracked s \<longrightarrow> fresh_track s"
  shows "settled_view (commit s)"
proof -
  define s1 where "s1 = (if sc_channel s \<noteq> sc_tracked s then s\<lparr>sc_tracked := sc_channel s, sc_isVisible := False, sc_lastSeenId := 0\<rparr> else s)"
  have s1: "sc_messages s1 = sc_messages s" "sc_channel s1 = sc_channel s" "sc_client s1 = sc_client s" "sc_top s1 = sc_top s"
    "sc_height s1 = sc_height s" "sc_prevTrack s1 = sc_prevTrack s" "sc_tracked s1 = sc_channel s" "track_of s1 = track_of s"
    "sc_channel s = sc_tracked s \<Longrightarrow> sc_lastSeenId s1 = sc_lastSeenId s"
    by (simp_all add: s1_def track_of_def)
  let ?s3 = "(layout_effect s1)\<lparr>sc_tailRef := tail_id (sc_messages s)\<rparr>"
  have c: "commit s = (measure_view ?s3)\<lparr>sc_deps := Some (length (sc_messages s), sc_channel s)\<rparr>"
    using assms(1) by (simp add: commit_def Let_def s1_def)
  have t: "track_of (commit s) = track_of s" by (simp add: c track_of_def s1)
  have seen: "0 < sc_lastSeenId (commit s)" if ne: "sc_messages s \<noteq> []"
  proof (cases "distance ?s3 < STICK_THRESHOLD_PX")
    case True
    with tail_positive [OF assms(2) ne] show ?thesis by (simp add: c)
  next
    case False
    then have "\<not> fresh_track s1" using layout_bottom [of s1] s1(3) assms(3) by (auto simp: distance_def STICK_THRESHOLD_PX_def)
    then have "sc_channel s = sc_tracked s" "0 < sc_lastSeenId s" using assms(5,6) s1(2,6) by (auto simp: fresh_track_def)
    with False s1(9) show ?thesis by (simp add: c)
  qed
  have vis: "sc_isVisible (commit s) \<longrightarrow> STICK_THRESHOLD_PX \<le> distance (commit s)"
    using measure_visible [of ?s3] by (simp add: c distance_def)
  have bot: "\<not> sc_isAtBottom (commit s) \<longrightarrow> STICK_THRESHOLD_PX \<le> distance (commit s)" by (simp add: c distance_def)
  have "0 \<le> sc_top (commit s)" using layout_top [of s1] assms(4) by (simp add: c s1)
  moreover have "sc_prevTrack (commit s) = Some (track_of (commit s))" unfolding t by (simp add: c s1)
  moreover have "sc_messages (commit s) = sc_messages s" "sc_tracked (commit s) = sc_channel (commit s)"
    "sc_tailRef (commit s) = tail_id (sc_messages s)" "sc_deps (commit s) = Some (length (sc_messages s), sc_channel s)"
    "sc_client (commit s) = sc_client s" "sc_channel (commit s) = sc_channel s" by (simp_all add: c s1)
  moreover have "track_of (commit s) = (track_of (commit s))\<lparr>tr_scrollHeight := sc_height (commit s)\<rparr>" by (simp add: track_of_def)
  ultimately show ?thesis unfolding settled_view_def using assms(2,3) vis bot seen by (metis order_refl)
qed

text \<open>What may happen to a view: newer messages have larger ids, older ones smaller, content only grows between changes.\<close>

fun scroll_enabled :: "scroll_view \<Rightarrow> scroll_input \<Rightarrow> bool" where
  "scroll_enabled s (Append ms h) \<longleftrightarrow> ms \<noteq> [] \<and> listed (sc_messages s @ ms) \<and> sc_height s \<le> h"
| "scroll_enabled s (Prepend ms h) \<longleftrightarrow> ms \<noteq> [] \<and> listed (ms @ sc_messages s) \<and> sc_height s \<le> h"
| "scroll_enabled s (DeleteAt i h) \<longleftrightarrow> i < length (sc_messages s)"
| "scroll_enabled s (SwitchTo c ms h) \<longleftrightarrow> c \<noteq> sc_channel s \<and> listed ms"
| "scroll_enabled s (Scroll t) \<longleftrightarrow> True"
| "scroll_enabled s (Grow h) \<longleftrightarrow> sc_height s \<le> h"
| "scroll_enabled s (Jump reduced) \<longleftrightarrow> True"

lemma listed_remove:
  assumes "listed ms"
  shows "listed (remove_nth i ms)"
proof -
  have "sorted_wrt (\<lambda>a b. m_id a < m_id b) (take i ms @ drop i ms)" using assms by (simp add: listed_def)
  moreover have "set (drop (Suc i) ms) \<subseteq> set (drop i ms)" by (rule set_drop_subset_set_drop) simp
  moreover have "sorted_wrt (\<lambda>a b. m_id a < m_id b) (drop (Suc i) ms)" using assms by (simp add: listed_def sorted_wrt_drop)
  ultimately have "sorted_wrt (\<lambda>a b. m_id a < m_id b) (remove_nth i ms)"
    unfolding remove_nth_def sorted_wrt_append by blast
  moreover have "set (remove_nth i ms) \<subseteq> set ms" using set_take_subset [of i ms] set_drop_subset [of "Suc i" ms] by (auto simp: remove_nth_def)
  ultimately show ?thesis using assms by (auto simp: listed_def)
qed

lemma first_id_of_hd: "ms \<noteq> [] \<Longrightarrow> first_id_of ms = Some (m_id (hd ms))"
  by (cases ms) (simp_all add: first_id_of_def)

text \<open>The ends of a list that gets messages behind or in front.\<close>

lemma ends_after:
  assumes "listed (xs @ ys)" and "xs \<noteq> []" and "ys \<noteq> []"
  shows "first_id_of (xs @ ys) = first_id_of xs" and "last_id_of (xs @ ys) = last_id_of ys" and "last_id_of xs \<noteq> last_id_of ys"
    and "first_id_of xs \<noteq> first_id_of ys" and "last_id_of xs \<noteq> None"
proof -
  have lt: "m_id x < m_id y" if "x \<in> set xs" "y \<in> set ys" for x y using assms(1) that by (simp add: listed_def sorted_wrt_append)
  have "m_id (last xs) < m_id (last ys)" "m_id (hd xs) < m_id (hd ys)" using assms(2,3) by (intro lt; simp)+
  then show "first_id_of (xs @ ys) = first_id_of xs" "last_id_of (xs @ ys) = last_id_of ys" "last_id_of xs \<noteq> last_id_of ys"
    "first_id_of xs \<noteq> first_id_of ys" "last_id_of xs \<noteq> None" using assms(2,3) by (simp_all add: first_id_of_hd last_id_of_def)
qed

lemma settled_same_channel:
  assumes "settled_view s" and "listed ms" and "length ms \<noteq> length (sc_messages s)"
  shows "settled_view (show_messages ms h s)"
proof -
  let ?s = "scroll_to (sc_top s) (s\<lparr>sc_messages := ms, sc_height := h\<rparr>)"
  obtain k where tr: "sc_prevTrack s = Some ((track_of s)\<lparr>tr_scrollHeight := k\<rparr>)" using assms(1) by (auto simp: settled_view_def)
  have "sc_lastSeenId s > 0 \<or> tr_lastId (track_of s) = None"
    using assms(1) by (auto simp: settled_view_def track_of_def last_id_of_def)
  with tr assms show ?thesis unfolding show_messages_def
    by (intro commit_settles) (auto simp: settled_view_def fresh_track_def)
qed

lemma settled_step:
  assumes "settled_view s" and "scroll_enabled s e"
  shows "settled_view (scroll_step s e)"
proof (cases e)
  case (Append ms h)
  with assms settled_same_channel [OF assms(1), of "sc_messages s @ ms" h] show ?thesis by simp
next
  case (Prepend ms h)
  with assms settled_same_channel [OF assms(1), of "ms @ sc_messages s" h] show ?thesis by simp
next
  case (DeleteAt i h)
  have "listed (remove_nth i (sc_messages s))" using assms(1) by (intro listed_remove) (simp add: settled_view_def)
  moreover have "length (remove_nth i (sc_messages s)) \<noteq> length (sc_messages s)"
    using DeleteAt assms(2) by (simp add: remove_nth_def)
  ultimately show ?thesis using DeleteAt settled_same_channel [OF assms(1)] by simp
next
  case (SwitchTo c ms h)
  let ?s = "scroll_to (sc_top s) (s\<lparr>sc_channel := c, sc_messages := ms, sc_height := h\<rparr>)"
  have "settled_view (commit ?s)" using assms SwitchTo
    by (intro commit_settles) (auto simp: settled_view_def track_of_def fresh_track_def)
  with SwitchTo show ?thesis by (simp add: show_messages_def)
next
  case (Scroll t)
  let ?s = "scroll_to t s"
  obtain k where k: "k \<le> sc_height s" "sc_prevTrack s = Some ((track_of s)\<lparr>tr_scrollHeight := k\<rparr>)"
    using assms(1) by (auto simp: settled_view_def)
  have "track_of (measure_view ?s) = track_of s" by (simp add: track_of_def)
  with k have "\<exists>h \<le> sc_height (measure_view ?s). sc_prevTrack (measure_view ?s)
      = Some ((track_of (measure_view ?s))\<lparr>tr_scrollHeight := h\<rparr>)" by auto
  then show ?thesis using assms(1) Scroll measure_visible [of ?s] tail_positive
    by (auto simp: settled_view_def)
next
  case (Grow h)
  obtain k where k: "k \<le> sc_height s" "sc_prevTrack s = Some ((track_of s)\<lparr>tr_scrollHeight := k\<rparr>)"
    using assms(1) by (auto simp: settled_view_def)
  let ?g = "s\<lparr>sc_height := h\<rparr>"
  have "(track_of ?g)\<lparr>tr_scrollHeight := k\<rparr> = (track_of s)\<lparr>tr_scrollHeight := k\<rparr>" by (simp add: track_of_def)
  moreover have h: "sc_height s \<le> h" using Grow assms(2) by simp
  ultimately have "\<exists>h' \<le> sc_height ?g. sc_prevTrack ?g = Some ((track_of ?g)\<lparr>tr_scrollHeight := h'\<rparr>)"
    using k by (intro exI [of _ k]) simp
  then show ?thesis using assms(1) h Grow by (auto simp: settled_view_def distance_def)
next
  case (Jump reduced)
  obtain k where k: "k \<le> sc_height s" "sc_prevTrack s = Some ((track_of s)\<lparr>tr_scrollHeight := k\<rparr>)"
    using assms(1) by (auto simp: settled_view_def)
  have "track_of (jumpToLatest reduced s) = track_of s" by (simp add: track_of_def jumpToLatest_def Let_def)
  with k have "\<exists>h \<le> sc_height (jumpToLatest reduced s). sc_prevTrack (jumpToLatest reduced s)
      = Some ((track_of (jumpToLatest reduced s))\<lparr>tr_scrollHeight := h\<rparr>)" by (auto simp: jumpToLatest_def Let_def)
  then show ?thesis using assms(1) Jump tail_positive
    by (auto simp: settled_view_def jumpToLatest_def Let_def)
qed

interpretation views: machine_invariant scroll_enabled "\<lambda>s e. (scroll_step s e, [] :: unit list)" settled_view
  by unfold_locales (simp add: settled_step)

lemma first_view: "0 \<le> client \<Longrightarrow> settled_view (commit (new_scroll c client))"
  by (rule commit_settles) (simp_all add: new_scroll_def listed_def fresh_track_def)

section \<open>New messages\<close>

lemma ids_below_tail: "listed ms \<Longrightarrow> x \<in> set ms \<Longrightarrow> m_id x \<le> tail_id ms"
proof (cases ms rule: rev_cases)
  case (snoc xs y)
  assume "listed ms" "x \<in> set ms"
  with snoc show ?thesis by (auto simp: listed_def tail_id_def sorted_wrt_append)
qed simp

lemma seen_all: "listed (sc_messages s) \<Longrightarrow> sc_lastSeenId s = tail_id (sc_messages s) \<Longrightarrow> newCount me s = 0"
  using ids_below_tail [of "sc_messages s"] by (fastforce simp: newCount_filter filter_empty_conv)

text \<open>What an append does to a settled view with messages.\<close>

lemma append_view:
  assumes s: "settled_view s" and ne: "sc_messages s \<noteq> []" "ms \<noteq> []" and l: "listed (sc_messages s @ ms)" and h: "sc_height s \<le> h"
  defines "t \<equiv> show_messages (sc_messages s @ ms) h s"
  shows "sc_messages t = sc_messages s @ ms" and "sc_height t = h" and "sc_client t = sc_client s"
    and "sc_isAtBottom s \<Longrightarrow> sc_top t = max 0 (h - sc_client s) \<and> sc_lastSeenId t = tail_id (sc_messages t) \<and> sc_isAtBottom t"
    and "\<not> sc_isAtBottom s \<Longrightarrow> sc_top t = sc_top s \<and> sc_lastSeenId t = sc_lastSeenId s \<and> \<not> sc_isAtBottom t"
proof -
  let ?s = "scroll_to (sc_top s) (s\<lparr>sc_messages := sc_messages s @ ms, sc_height := h\<rparr>)"
  obtain k where tr: "sc_prevTrack s = Some ((track_of s)\<lparr>tr_scrollHeight := k\<rparr>)" using s by (auto simp: settled_view_def)
  have ends: "first_id_of (sc_messages s @ ms) = first_id_of (sc_messages s)" "last_id_of (sc_messages s @ ms) \<noteq> last_id_of (sc_messages s)"
      "last_id_of (sc_messages s) \<noteq> None"
    using ends_after [OF l ne] by simp_all
  have lay: "layout_effect ?s = (if sc_isAtBottom s then scroll_to h ?s else ?s)\<lparr>sc_prevTrack := Some (track_of ?s)\<rparr>"
    using tr ends s by (auto simp: layout_effect_def Let_def track_of_def settled_view_def)
  have c: "t = (measure_view ((layout_effect ?s)\<lparr>sc_tailRef := tail_id (sc_messages s @ ms)\<rparr>))
      \<lparr>sc_deps := Some (length (sc_messages s @ ms), sc_channel s)\<rparr>"
    unfolding t_def show_messages_def using s ne(2) by (simp add: commit_def Let_def settled_view_def)
  show "sc_messages t = sc_messages s @ ms" "sc_height t = h" "sc_client t = sc_client s" by (simp_all add: c)
  {
    assume b: "sc_isAtBottom s"
    then have top: "sc_top (layout_effect ?s) = max 0 (h - sc_client s)" using lay s by (simp add: settled_view_def)
    then have "distance ((layout_effect ?s)\<lparr>sc_tailRef := tail_id (sc_messages s @ ms)\<rparr>) \<le> 0" by (simp add: distance_def)
    with top show "sc_top t = max 0 (h - sc_client s) \<and> sc_lastSeenId t = tail_id (sc_messages t) \<and> sc_isAtBottom t"
      by (simp add: c STICK_THRESHOLD_PX_def)
  }
  {
    assume b: "\<not> sc_isAtBottom s"
    then have far: "STICK_THRESHOLD_PX \<le> distance s" "0 \<le> sc_top s" using s by (simp_all add: settled_view_def)
    then have top: "sc_top (layout_effect ?s) = sc_top s" using b lay h by (simp add: distance_def STICK_THRESHOLD_PX_def)
    then have "STICK_THRESHOLD_PX \<le> distance ((layout_effect ?s)\<lparr>sc_tailRef := tail_id (sc_messages s @ ms)\<rparr>)"
      using far h by (simp add: distance_def)
    with top show "sc_top t = sc_top s \<and> sc_lastSeenId t = sc_lastSeenId s \<and> \<not> sc_isAtBottom t" by (simp add: c)
  }
qed

text \<open>A message that comes is either shown or counted. Who is held at the bottom is taken to the new bottom, and nothing
  counts as new; who reads further up stays where they are, and the count grows by one if the message is someone else's.\<close>

theorem new_message_shown_or_counted:
  assumes "run scroll_enabled (\<lambda>s e. (scroll_step s e, [] :: unit list)) (commit (new_scroll c client)) es s os" and "0 \<le> client"
    and "sc_messages s \<noteq> []" and "scroll_enabled s (Append [m] h)" and "sc_lastSeenId s < m_id m"
  shows "if sc_isAtBottom s
    then distance (scroll_step s (Append [m] h)) \<le> 0 \<and> newCount me (scroll_step s (Append [m] h)) = 0
    else sc_top (scroll_step s (Append [m] h)) = sc_top s
      \<and> newCount me (scroll_step s (Append [m] h)) = newCount me s + (if Some (m_author_id m) = me then 0 else 1)"
proof -
  have s: "settled_view s" using views.inv_run [OF assms(1)] first_view [OF assms(2)] by blast
  have l: "listed (sc_messages s @ [m])" and h: "sc_height s \<le> h" using assms(4) by simp_all
  note v = append_view [OF s assms(3) _ l h]
  have ls: "listed (sc_messages s)" "0 < sc_lastSeenId s" using s assms(3) by (simp_all add: settled_view_def)
  show ?thesis
  proof (cases "sc_isAtBottom s")
    case True
    then have "newCount me (scroll_step s (Append [m] h)) = 0" using v l by (intro seen_all) simp_all
    with True v show ?thesis by (simp add: distance_def)
  next
    case False
    let ?t = "scroll_step s (Append [m] h)"
    have t: "sc_messages ?t = sc_messages s @ [m]" "sc_lastSeenId ?t = sc_lastSeenId s" "sc_top ?t = sc_top s" using v False by simp_all
    then have "newCount me ?t = newCount me s + (if Some (m_author_id m) = me then 0 else 1)"
      using newCount_filter [of ?t me] newCount_filter [OF ls(1), of me] l ls(2) assms(5) by simp
    with False t show ?thesis by simp
  qed
qed

section \<open>Older messages\<close>

text \<open>A page of older messages in front keeps the distance to the end that the view had at its last rendering. If nothing
  grew since, what is read stays in place; if a picture grew the content by some pixels meanwhile, what is read is moved by as
  many.\<close>

theorem older_page_keeps_last_rendering:
  assumes "settled_view s" and "sc_prevTrack s = Some (track_of s)" and "sc_messages s \<noteq> []" and "0 \<le> distance s" and "0 \<le> g"
    and "scroll_enabled (scroll_step s (Grow (sc_height s + g))) (Prepend ms h)"
  shows "distance (scroll_step (scroll_step s (Grow (sc_height s + g))) (Prepend ms h)) = distance s
    \<and> distance (scroll_step s (Grow (sc_height s + g))) = distance s + g"
proof -
  let ?g = "s\<lparr>sc_height := sc_height s + g\<rparr>"
  let ?s = "scroll_to (sc_top s) (s\<lparr>sc_messages := ms @ sc_messages s, sc_height := h\<rparr>)"
  have h: "sc_height s + g \<le> h" and ne: "ms \<noteq> []" and l: "listed (ms @ sc_messages s)" using assms(6) by simp_all
  obtain y where ends: "last_id_of (ms @ sc_messages s) = last_id_of (sc_messages s)" "first_id_of (ms @ sc_messages s) \<noteq> first_id_of (sc_messages s)"
      "last_id_of (sc_messages s) = Some y"
    using ends_after [OF l ne assms(3)] assms(3) by (auto simp: last_id_of_def)
  have top: "0 \<le> sc_top s" "sc_top s \<le> h - sc_client s" using assms(1,4,5) h by (simp_all add: settled_view_def distance_def)
  have "sc_top (layout_effect ?s) = sc_top s + (h - sc_height s)"
    using assms(1,2,4,5) ends top h by (simp add: layout_effect_def Let_def track_of_def settled_view_def distance_def)
  then have "distance (commit ?s) = distance s"
    using assms(1) ne by (simp add: commit_def Let_def settled_view_def distance_def)
  moreover have "scroll_step ?g (Prepend ms h) = commit ?s" by (simp add: show_messages_def scroll_to_def)
  ultimately show ?thesis by (simp add: distance_def)
qed

section \<open>Newer pages\<close>

text \<open>Who reads on to the end of a window of the history that is not the live tail is carried to the tail: each page that
  comes takes them to its end at once, so that the next one is asked for, and what is between is never shown.\<close>

theorem reading_on_runs_to_the_tail:
  assumes "settled_view s" and "sc_messages s \<noteq> []" and "sc_isAtBottom s"
    and "enabled_run scroll_enabled (\<lambda>s e. (scroll_step s e, [] :: unit list)) s (map (\<lambda>(ms, h). Append ms h) pages)" and "pages \<noteq> []"
  shows "let t = foldl scroll_step s (map (\<lambda>(ms, h). Append ms h) pages)
    in sc_top t = max 0 (snd (last pages) - sc_client s) \<and> newer_wanted True False t \<and> newCount me t = 0
       \<and> sc_messages t = sc_messages s @ concat (map fst pages)"
  using assms
proof (induction pages arbitrary: s)
  case (Cons p pages)
  obtain ms h where p: "p = (ms, h)" by fastforce
  let ?t = "scroll_step s (Append ms h)"
  from Cons.prems(4) p have en: "ms \<noteq> []" "listed (sc_messages s @ ms)" "sc_height s \<le> h"
    and rest: "enabled_run scroll_enabled (\<lambda>s e. (scroll_step s e, [] :: unit list)) ?t (map (\<lambda>(ms, h). Append ms h) pages)" by simp_all
  note v = append_view [OF Cons.prems(1,2) en]
  have t: "settled_view ?t" using Cons.prems(1) en settled_step [of s "Append ms h"] by simp
  show ?case
  proof (cases "pages = []")
    case True
    have "newCount me ?t = 0" using v(1,4) Cons.prems(3) en(2) by (intro seen_all) simp_all
    with True p v Cons.prems(3) show ?thesis by (simp add: newer_wanted_def distance_def BOTTOM_MARGIN_def)
  next
    case False
    have "sc_messages ?t \<noteq> []" "sc_isAtBottom ?t" "sc_client ?t = sc_client s" "sc_messages ?t = sc_messages s @ ms"
      using v Cons.prems(2,3) by simp_all
    with Cons.IH [OF t _ _ rest False] p False show ?thesis by (simp add: Let_def)
  qed
qed simp

section \<open>At work\<close>

definition scrolled_message :: "int \<Rightarrow> Message" where
  "scrolled_message i = \<lparr>m_id = i, m_channel_id = 3, m_author_id = 9, m_author_first_name = JStr [],
     m_author_last_name = JStr [], m_author_nickname = JStr [], m_author_avatar_url = [], m_content = [],
     m_attachments = None, m_reply_to_id = Absent, m_reply_to = Absent, m_mentions = None,
     m_mentions_everyone = None, m_embeds = [], m_created_at = [], m_edited_at = None\<rparr>"

lemma scrolled_message_sel [simp]: "m_id (scrolled_message i) = i" "m_author_id (scrolled_message i) = 9"
  by (simp_all add: scrolled_message_def)

lemma new_message_shown_or_counted_witness:
  "case exec_run (\<lambda>s e. (scroll_step s e, [] :: unit list)) (commit (new_scroll 3 100))
      [Append [scrolled_message 4, scrolled_message 6] 900, Scroll 50] of
     (s, _) \<Rightarrow> \<not> sc_isAtBottom s \<and> newCount None (scroll_step s (Append [scrolled_message 7] 950)) = 1"
  (is "case exec_run ?st ?s0 ?es of (s, _) \<Rightarrow> _")
proof -
  obtain s out where e: "exec_run ?st ?s0 ?es = (s, out)" by fastforce
  have en: "enabled_run scroll_enabled ?st ?s0 ?es" by code_simp
  have at: "(case exec_run ?st ?s0 ?es of (s, _) \<Rightarrow> \<not> sc_isAtBottom s \<and> sc_messages s \<noteq> []
      \<and> scroll_enabled s (Append [scrolled_message 7] 950) \<and> sc_lastSeenId s < 7 \<and> newCount None s = 0)" by code_simp
  from new_message_shown_or_counted [OF exec_run_run [OF en e], of "scrolled_message 7" 950 None] e at show ?thesis by simp
qed

definition reading_view :: scroll_view where
  "reading_view = fst (exec_run (\<lambda>s e. (scroll_step s e, [] :: unit list)) (commit (new_scroll 3 100))
     [Append [scrolled_message 4, scrolled_message 6] 900])"

lemma reading_view_settled: "settled_view reading_view"
proof -
  obtain out where e: "exec_run (\<lambda>s e. (scroll_step s e, [] :: unit list)) (commit (new_scroll 3 100))
     [Append [scrolled_message 4, scrolled_message 6] 900] = (reading_view, out)" by (metis reading_view_def prod.collapse)
  have "enabled_run scroll_enabled (\<lambda>s e. (scroll_step s e, [] :: unit list)) (commit (new_scroll 3 100))
     [Append [scrolled_message 4, scrolled_message 6] 900]" by code_simp
  from views.inv_run [OF exec_run_run [OF this e]] show ?thesis by (simp add: first_view)
qed

lemma older_page_keeps_last_rendering_witness:
  "distance (scroll_step (scroll_step reading_view (Grow 930)) (Prepend [scrolled_message 2] 980)) = 0
    \<and> distance (scroll_step reading_view (Grow 930)) = 30"
proof -
  have v: "sc_prevTrack reading_view = Some (track_of reading_view) \<and> sc_messages reading_view \<noteq> [] \<and> distance reading_view = 0
    \<and> sc_height reading_view + 30 = 930 \<and> scroll_enabled (scroll_step reading_view (Grow 930)) (Prepend [scrolled_message 2] 980)" by code_simp
  with older_page_keeps_last_rendering [OF reading_view_settled, of 30 "[scrolled_message 2]" 980] show ?thesis by simp
qed

lemma reading_on_runs_to_the_tail_witness:
  "let t = foldl scroll_step reading_view [Append [scrolled_message 8] 1500, Append [scrolled_message 9] 2100]
    in sc_top t = 2000 \<and> newer_wanted True False t"
proof -
  have v: "sc_messages reading_view \<noteq> [] \<and> sc_isAtBottom reading_view \<and> sc_client reading_view = 100
    \<and> enabled_run scroll_enabled (\<lambda>s e. (scroll_step s e, [] :: unit list)) reading_view
         (map (\<lambda>(ms, h). Append ms h) [([scrolled_message 8], 1500), ([scrolled_message 9], 2100)])" by code_simp
  with reading_on_runs_to_the_tail [OF reading_view_settled, of "[([scrolled_message 8], 1500), ([scrolled_message 9], 2100)]" None]
  show ?thesis by (simp add: Let_def)
qed

end
