(* ===== verification/Gestures.thy ===== *)
theory Gestures
  imports Prelude
begin

text \<open>
  Touch and history: the overlays that the back button closes (\<^verbatim>\<open>hooks/useBackDismiss.ts\<close>), the horizontal swipe
  (\<^verbatim>\<open>hooks/useSwipe.ts\<close>) and the long press (\<^verbatim>\<open>hooks/useLongPress.ts\<close>). The history of the browser is the number of entries
  after that of the page; a traversal that was asked for ends later, with one \<open>popstate\<close>.
\<close>

section \<open>The stack of overlays\<close>

record back_state =
  bk_stack :: "nat list"
  bk_ignorePops :: nat
  bk_pendingBacks :: nat
  bk_backTimer :: bool
  bk_entries :: int
  bk_going :: "nat list"

definition new_back :: back_state where
  "new_back = \<lparr>bk_stack = [], bk_ignorePops = 0, bk_pendingBacks = 0, bk_backTimer = False, bk_entries = 0, bk_going = []\<rparr>"

text \<open>The overlay whose \<open>close\<close> is called. The stack has its top first.\<close>

definition onPopState :: "back_state \<Rightarrow> back_state \<times> nat list" where
  "onPopState s =
     (if 0 < bk_ignorePops s then (s\<lparr>bk_ignorePops := bk_ignorePops s - 1\<rparr>, [])
      else case bk_stack s of [] \<Rightarrow> (s, []) | e # st \<Rightarrow> (s\<lparr>bk_stack := st\<rparr>, [e]))"

definition acquireHistoryEntry :: "back_state \<Rightarrow> back_state" where
  "acquireHistoryEntry s =
     (if 0 < bk_pendingBacks s then s\<lparr>bk_pendingBacks := bk_pendingBacks s - 1\<rparr>
      else s\<lparr>bk_entries := bk_entries s + 1\<rparr>)"

definition releaseHistoryEntry :: "back_state \<Rightarrow> back_state" where
  "releaseHistoryEntry s = s\<lparr>bk_pendingBacks := Suc (bk_pendingBacks s), bk_backTimer := True\<rparr>"

definition back_timer_fire :: "back_state \<Rightarrow> back_state" where
  "back_timer_fire s =
     (let n = bk_pendingBacks s; s1 = s\<lparr>bk_backTimer := False, bk_pendingBacks := 0\<rparr>
      in if 0 < n then s1\<lparr>bk_ignorePops := Suc (bk_ignorePops s1), bk_going := bk_going s1 @ [n]\<rparr> else s1)"

text \<open>The effect of \<open>useBackDismiss\<close> when an overlay opens, and its clean-up when it closes.\<close>

definition overlay_open :: "nat \<Rightarrow> back_state \<Rightarrow> back_state" where
  "overlay_open e s = acquireHistoryEntry (s\<lparr>bk_stack := e # bk_stack s\<rparr>)"

definition overlay_close :: "nat \<Rightarrow> back_state \<Rightarrow> back_state" where
  "overlay_close e s =
     (if e \<in> set (bk_stack s) then releaseHistoryEntry (s\<lparr>bk_stack := remove1 e (bk_stack s)\<rparr>) else s)"

datatype back_input = OpenOverlay nat | CloseOverlay nat | BackTimer | TraversalDone | PressBack

text \<open>The browser goes back by the traversals asked for in their order, or by one when the user presses Back.\<close>

fun back_step :: "back_state \<Rightarrow> back_input \<Rightarrow> back_state \<times> nat list" where
  "back_step s (OpenOverlay e) = (overlay_open e s, [])"
| "back_step s (CloseOverlay e) = (overlay_close e s, [])"
| "back_step s BackTimer = (back_timer_fire s, [])"
| "back_step s TraversalDone = (case bk_going s of
     [] \<Rightarrow> (s, []) | n # ns \<Rightarrow> onPopState (s\<lparr>bk_going := ns, bk_entries := bk_entries s - int n\<rparr>))"
| "back_step s PressBack = onPopState (s\<lparr>bk_entries := bk_entries s - 1\<rparr>)"

section \<open>Swipes\<close>

definition THRESHOLD_PX :: int where "THRESHOLD_PX = 60"
definition LOCK_PX :: int where "LOCK_PX = 10"
definition EDGE_GUARD_PX :: int where "EDGE_GUARD_PX = 20"

datatype swipe_lock = Unlocked | LockX | LockY
datatype swipe_direction = SwipeRight | SwipeLeft

record swipe_state =
  sw_x :: int
  sw_y :: int
  sw_tracking :: bool
  sw_locked :: swipe_lock

definition new_swipe :: swipe_state where
  "new_swipe = \<lparr>sw_x = 0, sw_y = 0, sw_tracking = False, sw_locked = Unlocked\<rparr>"

text \<open>\<open>touches\<close>: how many fingers; \<open>noSwipe\<close>: the target scrolls sideways or opts out.\<close>

definition swipe_start :: "bool \<Rightarrow> int option \<Rightarrow> nat \<Rightarrow> bool \<Rightarrow> int \<Rightarrow> int \<Rightarrow> swipe_state \<Rightarrow> swipe_state" where
  "swipe_start enabled edgeGuard touches noSwipe x y s =
     (if \<not> enabled \<or> touches \<noteq> 1 then s\<lparr>sw_tracking := False\<rparr>
      else if x < (case edgeGuard of Some g \<Rightarrow> g | None \<Rightarrow> EDGE_GUARD_PX) then s\<lparr>sw_tracking := False\<rparr>
      else if noSwipe then s\<lparr>sw_tracking := False\<rparr>
      else s\<lparr>sw_x := x, sw_y := y, sw_tracking := True, sw_locked := Unlocked\<rparr>)"

definition swipe_move :: "int \<Rightarrow> int \<Rightarrow> swipe_state \<Rightarrow> swipe_state" where
  "swipe_move x y s =
     (if \<not> sw_tracking s then s
      else let dx = x - sw_x s; dy = y - sw_y s
           in if sw_locked s = Unlocked \<and> (LOCK_PX < \<bar>dx\<bar> \<or> LOCK_PX < \<bar>dy\<bar>)
              then (if \<bar>dy\<bar> < \<bar>dx\<bar> then s\<lparr>sw_locked := LockX\<rparr> else s\<lparr>sw_locked := LockY, sw_tracking := False\<rparr>)
              else s)"

definition swipe_end :: "int \<Rightarrow> int \<Rightarrow> swipe_state \<Rightarrow> swipe_state \<times> swipe_direction list" where
  "swipe_end x y s =
     (if \<not> sw_tracking s \<or> sw_locked s \<noteq> LockX then (s\<lparr>sw_tracking := False\<rparr>, [])
      else let dx = x - sw_x s; dy = y - sw_y s
           in (s\<lparr>sw_tracking := False\<rparr>,
               if THRESHOLD_PX < \<bar>dx\<bar> \<and> 2 * \<bar>dy\<bar> < \<bar>dx\<bar> then [if 0 < dx then SwipeRight else SwipeLeft] else []))"

definition swipe_cancel :: "swipe_state \<Rightarrow> swipe_state" where
  "swipe_cancel s = s\<lparr>sw_tracking := False\<rparr>"

datatype touch_input = TouchStart nat bool int int | TouchMove int int | TouchEnd int int | TouchCancel

fun swipe_step :: "bool \<Rightarrow> int option \<Rightarrow> swipe_state \<Rightarrow> touch_input \<Rightarrow> swipe_state \<times> swipe_direction list" where
  "swipe_step enabled guard s (TouchStart n noSwipe x y) = (swipe_start enabled guard n noSwipe x y s, [])"
| "swipe_step enabled guard s (TouchMove x y) = (swipe_move x y s, [])"
| "swipe_step enabled guard s (TouchEnd x y) = swipe_end x y s"
| "swipe_step enabled guard s TouchCancel = (swipe_cancel s, [])"

section \<open>Long presses\<close>

definition LONG_PRESS_MS :: nat where "LONG_PRESS_MS = 450"
definition MOVE_TOLERANCE_PX :: int where "MOVE_TOLERANCE_PX = 10"

text \<open>The timer holds the point and the target it was started with.\<close>

record press_state =
  pr_timer :: "(int \<times> int) option"
  pr_start :: "(int \<times> int) option"
  pr_fired :: bool

definition new_press :: press_state where
  "new_press = \<lparr>pr_timer = None, pr_start = None, pr_fired = False\<rparr>"

definition press_cancel :: "press_state \<Rightarrow> press_state" where
  "press_cancel s = s\<lparr>pr_timer := None, pr_start := None\<rparr>"

definition onPointerDown :: "bool \<Rightarrow> bool \<Rightarrow> bool \<Rightarrow> int \<times> int \<Rightarrow> press_state \<Rightarrow> press_state" where
  "onPointerDown enabled isMouse isPrimary point s =
     (if \<not> enabled \<or> isMouse \<or> \<not> isPrimary then s
      else s\<lparr>pr_fired := False, pr_start := Some point, pr_timer := Some point\<rparr>)"

definition press_timer_fire :: "press_state \<Rightarrow> press_state \<times> (int \<times> int) list" where
  "press_timer_fire s = (case pr_timer s of
     None \<Rightarrow> (s, []) | Some point \<Rightarrow> (s\<lparr>pr_timer := None, pr_fired := True\<rparr>, [point]))"

definition onPointerMove :: "int \<times> int \<Rightarrow> press_state \<Rightarrow> press_state" where
  "onPointerMove p s = (case pr_start s of
     None \<Rightarrow> s
   | Some q \<Rightarrow> (if MOVE_TOLERANCE_PX < \<bar>fst p - fst q\<bar> \<or> MOVE_TOLERANCE_PX < \<bar>snd p - snd q\<bar> then press_cancel s else s))"

text \<open>Whether the click is swallowed.\<close>

definition onClickCapture :: "press_state \<Rightarrow> press_state \<times> bool" where
  "onClickCapture s = (if pr_fired s then (s\<lparr>pr_fired := False\<rparr>, True) else (s, False))"

definition onContextMenu :: "bool \<Rightarrow> press_state \<Rightarrow> bool" where
  "onContextMenu enabled s \<longleftrightarrow> enabled \<and> pr_fired s"

end
