(* ===== verification/GestureProps.thy ===== *)
theory GestureProps
  imports Gestures
begin

text \<open>The back button closes overlays and never leaves the page; swipes and presses mean what the finger did.\<close>

section \<open>The back button\<close>

text \<open>Every entry of the history is that of an open overlay, or is about to be given back. A press of Back that was taken for the
  end of a traversal is owed an overlay.\<close>

definition owed :: "back_state \<Rightarrow> nat" where
  "owed s = length (bk_going s) - bk_ignorePops s"

text \<open>An overlay is opened once; the user presses Back, or closes an overlay otherwise, while one is open that is not owed
  already; the timer and the traversals are the browser's.\<close>

fun back_enabled :: "back_state \<Rightarrow> back_input \<Rightarrow> bool" where
  "back_enabled s (OpenOverlay e) \<longleftrightarrow> e \<notin> set (bk_stack s)"
| "back_enabled s (CloseOverlay e) \<longleftrightarrow> owed s < length (bk_stack s)"
| "back_enabled s BackTimer \<longleftrightarrow> bk_backTimer s"
| "back_enabled s TraversalDone \<longleftrightarrow> bk_going s \<noteq> []"
| "back_enabled s PressBack \<longleftrightarrow> owed s < length (bk_stack s)"

definition back_inv :: "back_state \<Rightarrow> bool" where
  "back_inv s \<longleftrightarrow> bk_ignorePops s \<le> length (bk_going s) \<and> owed s \<le> length (bk_stack s)
     \<and> bk_entries s + int (owed s) = int (length (bk_stack s) + bk_pendingBacks s + sum_list (bk_going s))
     \<and> distinct (bk_stack s) \<and> (0 < bk_pendingBacks s \<longrightarrow> bk_backTimer s) \<and> (\<forall>n \<in> set (bk_going s). 0 < n)"

lemma back_inv_step: "back_inv s \<Longrightarrow> back_enabled s e \<Longrightarrow> back_inv (fst (back_step s e))"
proof (cases e)
  case (OpenOverlay i)
  assume "back_inv s" "back_enabled s e"
  with OpenOverlay show ?thesis by (auto simp: back_inv_def owed_def overlay_open_def acquireHistoryEntry_def)
next
  case (CloseOverlay i)
  assume i: "back_inv s" "back_enabled s e"
  show ?thesis
  proof (cases "i \<in> set (bk_stack s)")
    case True
    then have "0 < length (bk_stack s)" "length (remove1 i (bk_stack s)) = length (bk_stack s) - 1"
      by (auto simp: length_remove1)
    with i True CloseOverlay show ?thesis
      by (auto simp: back_inv_def owed_def overlay_close_def releaseHistoryEntry_def)
  next
    case False
    with i CloseOverlay show ?thesis by (simp add: overlay_close_def)
  qed
next
  case BackTimer
  assume "back_inv s" "back_enabled s e"
  with BackTimer show ?thesis by (auto simp: back_inv_def owed_def back_timer_fire_def Let_def)
next
  case TraversalDone
  assume i: "back_inv s" "back_enabled s e"
  then obtain n ns where g: "bk_going s = n # ns" using TraversalDone by (cases "bk_going s") auto
  with i TraversalDone show ?thesis
    by (auto simp: back_inv_def owed_def onPopState_def split: list.splits)
next
  case PressBack
  assume "back_inv s" "back_enabled s e"
  with PressBack show ?thesis by (auto simp: back_inv_def owed_def onPopState_def split: list.splits)
qed

interpretation overlays: machine_invariant back_enabled back_step back_inv
  by unfold_locales (rule back_inv_step)


text \<open>In the instant between a close and its timer, with no other overlay open, Back leaves the page: the traversal that gives the
  entry back comes on top of it.\<close>

lemma back_in_the_gap_leaves_the_page:
  "bk_entries (fst (exec_run back_step new_back [OpenOverlay 1, CloseOverlay 1, PressBack, BackTimer, TraversalDone])) = -1"
  by code_simp

section \<open>Swipes\<close>

text \<open>The first point that is more than ten pixels away from where the finger was put down.\<close>

definition first_away :: "int \<Rightarrow> int \<Rightarrow> (int \<times> int) list \<Rightarrow> (int \<times> int) option" where
  "first_away x0 y0 ms = find (\<lambda>(x, y). LOCK_PX < \<bar>x - x0\<bar> \<or> LOCK_PX < \<bar>y - y0\<bar>) ms"

definition swipe_meant :: "int \<Rightarrow> int \<Rightarrow> (int \<times> int) list \<Rightarrow> int \<Rightarrow> int \<Rightarrow> swipe_direction list" where
  "swipe_meant x0 y0 ms x y = (case first_away x0 y0 ms of
     None \<Rightarrow> []
   | Some (a, b) \<Rightarrow> (if \<bar>b - y0\<bar> < \<bar>a - x0\<bar> \<and> THRESHOLD_PX < \<bar>x - x0\<bar> \<and> 2 * \<bar>y - y0\<bar> < \<bar>x - x0\<bar>
       then [if x0 < x then SwipeRight else SwipeLeft] else []))"

lemma moves_locked:
  "sw_locked s \<noteq> Unlocked \<or> \<not> sw_tracking s \<Longrightarrow> exec_run (swipe_step en guard) s (map (\<lambda>(x, y). TouchMove x y) ms) = (s, [])"
  by (induction ms) (auto simp: swipe_move_def split: prod.splits)

lemma exec_run_append:
  "exec_run st s (es @ es') = (let (t, os) = exec_run st s es; (u, os') = exec_run st t es' in (u, os @ os'))"
  by (induction es arbitrary: s) (simp_all add: split_beta Let_def)

lemma moves_swipe:
  assumes "sw_tracking s" and "sw_locked s = Unlocked"
  shows "snd (exec_run (swipe_step en guard) s (map (\<lambda>(x, y). TouchMove x y) ms @ [TouchEnd x y])) = swipe_meant (sw_x s) (sw_y s) ms x y"
  using assms
proof (induction ms)
  case Nil
  then show ?case by (simp add: swipe_end_def swipe_meant_def first_away_def split_beta)
next
  case (Cons m ms)
  obtain a b where m: "m = (a, b)" by fastforce
  let ?away = "LOCK_PX < \<bar>a - sw_x s\<bar> \<or> LOCK_PX < \<bar>b - sw_y s\<bar>"
  show ?case
  proof (cases ?away)
    case False
    then have "swipe_move a b s = s" using Cons.prems by (auto simp: swipe_move_def Let_def)
    with Cons m False show ?thesis by (simp add: swipe_meant_def first_away_def split_beta Let_def)
  next
    case True
    let ?t = "swipe_move a b s"
    have fa: "first_away (sw_x s) (sw_y s) (m # ms) = Some (a, b)" using True m by (simp add: first_away_def)
    have run: "exec_run (swipe_step en guard) u (map (\<lambda>(x, y). TouchMove x y) ms @ [TouchEnd x y]) = (let (t, os) = swipe_end x y u in (t, os))"
      if "sw_locked u \<noteq> Unlocked" for u
      using moves_locked [of u en guard ms] that by (simp add: exec_run_append split_beta)
    show ?thesis
    proof (cases "\<bar>b - sw_y s\<bar> < \<bar>a - sw_x s\<bar>")
      case x: True
      then have "?t = s\<lparr>sw_locked := LockX\<rparr>" using True Cons.prems by (simp add: swipe_move_def Let_def)
      moreover have "snd (exec_run (swipe_step en guard) s (map (\<lambda>(x, y). TouchMove x y) (m # ms) @ [TouchEnd x y])) = snd (swipe_end x y ?t)"
        using m run [of ?t] calculation by (simp add: split_beta Let_def)
      ultimately show ?thesis using fa x Cons.prems by (simp add: swipe_end_def swipe_meant_def Let_def)
    next
      case False
      then have "?t = s\<lparr>sw_locked := LockY, sw_tracking := False\<rparr>" using True Cons.prems by (simp add: swipe_move_def Let_def)
      moreover have "snd (exec_run (swipe_step en guard) s (map (\<lambda>(x, y). TouchMove x y) (m # ms) @ [TouchEnd x y])) = snd (swipe_end x y ?t)"
        using m run [of ?t] calculation by (simp add: split_beta Let_def)
      ultimately show ?thesis using fa False by (simp add: swipe_end_def swipe_meant_def Let_def)
    qed
  qed
qed

text \<open>A touch with one finger, away from the edge and from what scrolls sideways, is a swipe exactly if its first move of
  more than ten pixels was sideways rather than up or down, and it ended more than 60 pixels away and twice as far sideways as
  up or down; the direction is that of the end.\<close>

theorem swipes_are_meant:
  assumes "(case guard of Some g \<Rightarrow> g | None \<Rightarrow> EDGE_GUARD_PX) \<le> x0"
  shows "snd (exec_run (swipe_step True guard) s
      (TouchStart 1 False x0 y0 # map (\<lambda>(x, y). TouchMove x y) ms @ [TouchEnd x y])) = swipe_meant x0 y0 ms x y"
proof -
  let ?s = "s\<lparr>sw_x := x0, sw_y := y0, sw_tracking := True, sw_locked := Unlocked\<rparr>"
  have "swipe_start True guard 1 False x0 y0 s = ?s" using assms by (simp add: swipe_start_def split: option.splits)
  with moves_swipe [of ?s True guard ms x y] show ?thesis by (simp add: split_beta Let_def)
qed

section \<open>Long presses\<close>

lemma moves_cancelled: "pr_start s = None \<Longrightarrow> fold onPointerMove ms s = s"
  by (induction ms) (simp_all add: onPointerMove_def)

text \<open>A press is long exactly if the finger stayed within ten pixels of where it was put down.\<close>

lemma press_is_meant:
  "snd (press_timer_fire (fold onPointerMove ms (onPointerDown True False True p s)))
     = (if list_all (\<lambda>q. \<bar>fst q - fst p\<bar> \<le> MOVE_TOLERANCE_PX \<and> \<bar>snd q - snd p\<bar> \<le> MOVE_TOLERANCE_PX) ms then [p] else [])"
proof -
  let ?s = "onPointerDown True False True p s"
  have "pr_start ?s = Some p" "pr_timer ?s = Some p" by (simp_all add: onPointerDown_def)
  then show ?thesis
  proof (induction ms)
    case Nil
    then show ?case by (simp add: press_timer_fire_def)
  next
    case (Cons q ms)
    show ?case
    proof (cases "\<bar>fst q - fst p\<bar> \<le> MOVE_TOLERANCE_PX \<and> \<bar>snd q - snd p\<bar> \<le> MOVE_TOLERANCE_PX")
      case True
      with Cons.prems have "onPointerMove q ?s = ?s" by (simp add: onPointerMove_def)
      with True Cons show ?thesis by simp
    next
      case False
      with Cons.prems have "onPointerMove q ?s = press_cancel ?s" by (auto simp: onPointerMove_def)
      with False show ?thesis by (auto simp: moves_cancelled press_cancel_def press_timer_fire_def)
    qed
  qed
qed

text \<open>A mouse click after a long press that no click of the finger followed is swallowed: only another touch resets it.\<close>

lemma mouse_click_swallowed:
  assumes "pr_fired s"
  shows "snd (onClickCapture (onPointerDown enabled True isPrimary p (press_cancel s)))"
  using assms by (simp add: onClickCapture_def onPointerDown_def press_cancel_def)

section \<open>At work\<close>


lemma swipes_are_meant_witness:
  "snd (exec_run (swipe_step True None) new_swipe [TouchStart 1 False 30 5, TouchMove 35 5, TouchMove 60 8, TouchEnd 120 20]) = [SwipeRight]"
proof -
  have "swipe_meant 30 5 [(35, 5), (60, 8)] 120 20 = [SwipeRight]" by code_simp
  with swipes_are_meant [of None 30 new_swipe 5 "[(35, 5), (60, 8)]" 120 20] show ?thesis by (simp add: EDGE_GUARD_PX_def)
qed

end
