(* ===== verification/Settings.thy ===== *)
theory Settings
  imports Notifications Profile
begin

text \<open>
  The notification settings of the user: how the answers of the server are read (\<^verbatim>\<open>services/notificationsApi.ts\<close>), the hook that
  keeps them (\<^verbatim>\<open>hooks/useNotificationSettings.ts\<close>), the menus and the dialog that change them
  (\<^verbatim>\<open>hooks/useNotificationContextMenu.ts\<close>, \<^verbatim>\<open>components/ContextMenu.tsx\<close>, \<^verbatim>\<open>NotificationSettingsModal.tsx\<close>), and the server's
  side of it (\<^verbatim>\<open>internal/service/notification/routes.go\<close>, \<^verbatim>\<open>internal/storage/postgresql/notifications.go\<close>); the volume of the
  sounds, the prompt for the permission and the push subscription. \<open>ms\<close> reads an ISO time, \<open>to_iso\<close> writes one.
\<close>

section \<open>Answers\<close>

text \<open>The code tests what is raw here and trusts the declared types of the rest.\<close>

record RawOverride =
  ro_server_id :: jsval
  ro_channel_id :: jsval
  ro_level :: "NotificationLevel nullable"
  ro_muted_until :: "string nullable"

record RawSettings =
  rs_default_level :: jsval
  rs_hide_message_preview :: jsval
  rs_dnd_until :: "string nullable"
  rs_servers :: "RawOverride list option"
  rs_channels :: "RawOverride list option"

definition or_null :: "'a nullable \<Rightarrow> 'a option" where
  "or_null v = (case v of Val x \<Rightarrow> Some x | _ \<Rightarrow> None)"

definition level_text :: "NotificationLevel \<Rightarrow> string" where
  "level_text l = (case l of LevelAll \<Rightarrow> ''all'' | LevelMentions \<Rightarrow> ''mentions'' | LevelNone \<Rightarrow> ''none'')"

definition server_rows :: "RawOverride list \<Rightarrow> ServerNotificationOverride list" where
  "server_rows os = List.map_filter (\<lambda>ov. map_option
     (\<lambda>i. \<lparr>sno_server_id = i, sno_level = or_null (ro_level ov), sno_muted_until = or_null (ro_muted_until ov)\<rparr>)
     (num_of (ro_server_id ov))) os"

definition channel_rows :: "RawOverride list \<Rightarrow> ChannelNotificationOverride list" where
  "channel_rows os = List.map_filter (\<lambda>ov. map_option
     (\<lambda>i. \<lparr>cno_channel_id = i, cno_level = or_null (ro_level ov), cno_muted_until = or_null (ro_muted_until ov)\<rparr>)
     (num_of (ro_channel_id ov))) os"

definition toSettings :: "RawSettings \<Rightarrow> NotificationSettings" where
  "toSettings raw = \<lparr>
     ns_default_level = (if rs_default_level raw = JStr ''mentions'' then LevelMentions
       else if rs_default_level raw = JStr ''none'' then LevelNone else LevelAll),
     ns_hide_message_preview = (rs_hide_message_preview raw = JBool True),
     ns_dnd_until = or_null (rs_dnd_until raw),
     ns_servers = (case rs_servers raw of Some os \<Rightarrow> server_rows os | None \<Rightarrow> []),
     ns_channels = (case rs_channels raw of Some os \<Rightarrow> channel_rows os | None \<Rightarrow> [])\<rparr>"

section \<open>Requests\<close>

record GlobalSettingsPatch =
  gp_default_level :: "NotificationLevel option"
  gp_hide_message_preview :: "bool option"
  gp_dnd_until :: "string nullable"

record ScopedSettingPatch =
  ss_level :: "NotificationLevel option"
  ss_muted_until :: "string option"

datatype settings_request =
    GetSettings
  | PatchGlobal GlobalSettingsPatch
  | PutServer int ScopedSettingPatch
  | PutChannel int ScopedSettingPatch

definition request_failure :: "settings_request \<Rightarrow> string" where
  "request_failure r = (case r of
     GetSettings \<Rightarrow> ''Failed to load notification settings''
   | PatchGlobal _ \<Rightarrow> ''Failed to update notification settings''
   | PutServer _ _ \<Rightarrow> ''Failed to update server notification setting''
   | PutChannel _ _ \<Rightarrow> ''Failed to update channel notification setting'')"

section \<open>The hook\<close>

record settings_hook =
  sh_settings :: "NotificationSettings option"
  sh_isLoading :: bool
  sh_error :: string

definition new_settings_hook :: settings_hook where
  "new_settings_hook = \<lparr>sh_settings = None, sh_isLoading = False, sh_error = []\<rparr>"

text \<open>The effect that refreshes, and the three updates: the request that is sent.\<close>

definition refresh_settings :: "bool \<Rightarrow> settings_hook \<Rightarrow> settings_hook \<times> settings_request list" where
  "refresh_settings isAuthenticated s = (if isAuthenticated then (s\<lparr>sh_isLoading := True\<rparr>, [GetSettings]) else (s, []))"

definition updateGlobal :: "GlobalSettingsPatch \<Rightarrow> settings_request" where "updateGlobal p = PatchGlobal p"
definition updateServer :: "int \<Rightarrow> ScopedSettingPatch \<Rightarrow> settings_request" where "updateServer i p = PutServer i p"
definition updateChannel :: "int \<Rightarrow> ScopedSettingPatch \<Rightarrow> settings_request" where "updateChannel i p = PutChannel i p"

definition settings_answered :: "settings_request \<Rightarrow> RawSettings http \<Rightarrow> settings_hook \<Rightarrow> settings_hook" where
  "settings_answered r answer s =
     (let s1 = (case answer of
           HttpOk _ raw \<Rightarrow> s\<lparr>sh_settings := Some (toSettings raw), sh_error := []\<rparr>
         | HttpError _ body \<Rightarrow> s\<lparr>sh_error := extractApiError body (request_failure r)\<rparr>)
      in if r = GetSettings then s1\<lparr>sh_isLoading := False\<rparr> else s1)"

section \<open>The menus\<close>

datatype menu_item = MenuAction string bool "int \<Rightarrow> ScopedSettingPatch" | MenuSeparator | ExtraItem nat

definition level_labels :: "(NotificationLevel \<times> string) list" where
  "level_labels = [(LevelAll, ''All messages''), (LevelMentions, ''Only mentions''), (LevelNone, ''Nothing'')]"

definition HOUR_MS :: int where "HOUR_MS = 60 * 60 * 1000"

definition hoursFromNow :: "(int \<Rightarrow> string) \<Rightarrow> int \<Rightarrow> int \<Rightarrow> string" where
  "hoursFromNow to_iso now hours = to_iso (now + hours * HOUR_MS)"

text \<open>The action of an item is given the time of the click.\<close>

definition buildLevelItems :: "(string \<Rightarrow> int option) \<Rightarrow> (int \<Rightarrow> string) \<Rightarrow> int \<Rightarrow> NotificationLevel option \<Rightarrow> string option
    \<Rightarrow> menu_item list" where
  "buildLevelItems ms to_iso now currentLevel currentMutedUntil =
     (let muted = isTimeInFuture ms currentMutedUntil now
      in map (\<lambda>(l, label). MenuAction label (currentLevel = Some l) (\<lambda>_. \<lparr>ss_level = Some l, ss_muted_until = currentMutedUntil\<rparr>))
           level_labels
         @ [MenuSeparator]
         @ (if muted then [MenuAction ''Unmute'' False (\<lambda>_. \<lparr>ss_level = currentLevel, ss_muted_until = None\<rparr>)]
            else [MenuAction ''Mute for 1 hour'' False (\<lambda>t. \<lparr>ss_level = currentLevel, ss_muted_until = Some (hoursFromNow to_iso t 1)\<rparr>),
                  MenuAction ''Mute for 8 hours'' False (\<lambda>t. \<lparr>ss_level = currentLevel, ss_muted_until = Some (hoursFromNow to_iso t 8)\<rparr>)])
         @ (if currentLevel \<noteq> None \<or> muted
            then [MenuSeparator, MenuAction ''Reset to default'' False (\<lambda>_. \<lparr>ss_level = None, ss_muted_until = None\<rparr>)]
            else []))"

definition openServerMenu :: "(string \<Rightarrow> int option) \<Rightarrow> (int \<Rightarrow> string) \<Rightarrow> int \<Rightarrow> NotificationSettings option \<Rightarrow> int \<Rightarrow> menu_item list" where
  "openServerMenu ms to_iso now settings serverId =
     (let override = Option.bind settings (\<lambda>s. server_override s serverId)
      in buildLevelItems ms to_iso now (Option.bind override sno_level) (Option.bind override sno_muted_until))"

definition openChannelMenu :: "(string \<Rightarrow> int option) \<Rightarrow> (int \<Rightarrow> string) \<Rightarrow> int \<Rightarrow> NotificationSettings option \<Rightarrow> int
    \<Rightarrow> menu_item list \<Rightarrow> menu_item list" where
  "openChannelMenu ms to_iso now settings channelId extraItems =
     (let override = Option.bind settings (\<lambda>s. channel_override s channelId);
          items = buildLevelItems ms to_iso now (Option.bind override cno_level) (Option.bind override cno_muted_until)
      in if extraItems \<noteq> [] then extraItems @ [MenuSeparator] @ items else items)"

text \<open>Where the menu is put, given the size of the window.\<close>

definition MENU_WIDTH :: int where "MENU_WIDTH = 230"
definition ITEM_HEIGHT :: int where "ITEM_HEIGHT = 34"

definition menu_place :: "int \<Rightarrow> int \<Rightarrow> int \<Rightarrow> int \<Rightarrow> nat \<Rightarrow> int \<times> int" where
  "menu_place innerWidth innerHeight x y items =
     (let estimatedHeight = int items * ITEM_HEIGHT + 16
      in (max 8 (min x (innerWidth - MENU_WIDTH - 8)), max 8 (min y (innerHeight - estimatedHeight - 8))))"

section \<open>The dialog\<close>

definition formatDND :: "(string \<Rightarrow> int option) \<Rightarrow> (int \<Rightarrow> string) \<Rightarrow> int \<Rightarrow> string option \<Rightarrow> string option" where
  "formatDND ms toLocaleString now dnd = (case dnd of
     None \<Rightarrow> None
   | Some s \<Rightarrow> (if s = [] then None
       else case ms s of None \<Rightarrow> None | Some t \<Rightarrow> (if t \<le> now then None else Some (toLocaleString t))))"

definition findServerName :: "Server list \<Rightarrow> int \<Rightarrow> string" where
  "findServerName servers serverId = (case find (\<lambda>s. srv_id s = serverId) servers of
     Some s \<Rightarrow> srv_name s | None \<Rightarrow> ''Server #'' @ show_int serverId)"

definition findChannelName :: "ChannelsByServer \<Rightarrow> int \<Rightarrow> string" where
  "findChannelName m channelId = (case find_channel channelId m of
     Some (_, c) \<Rightarrow> ''#'' @ ch_name c | None \<Rightarrow> ''Channel #'' @ show_int channelId)"

definition override_detail :: "(string \<Rightarrow> int option) \<Rightarrow> int \<Rightarrow> NotificationLevel option \<Rightarrow> string option \<Rightarrow> string" where
  "override_detail ms now level muted =
     (case level of Some l \<Rightarrow> level_text l | None \<Rightarrow> ''inherit'')
     @ (if isTimeInFuture ms muted now then [CHR 0x20, CHR 0xC2, CHR 0xB7] @ '' muted'' else [])"

section \<open>The server\<close>

definition or_keep :: "'a option \<Rightarrow> 'a \<Rightarrow> 'a" where
  "or_keep v d = (case v of Some x \<Rightarrow> x | None \<Rightarrow> d)"

definition UpsertGlobal :: "GlobalSettingsPatch \<Rightarrow> NotificationSettings \<Rightarrow> NotificationSettings" where
  "UpsertGlobal p s = s\<lparr>ns_default_level := or_keep (gp_default_level p) (ns_default_level s),
     ns_hide_message_preview := or_keep (gp_hide_message_preview p) (ns_hide_message_preview s),
     ns_dnd_until := (case gp_dnd_until p of Absent \<Rightarrow> ns_dnd_until s | Null \<Rightarrow> None | Val t \<Rightarrow> Some t)\<rparr>"

text \<open>The upsert of a row by its id: a row with nothing set is deleted.\<close>

definition upsert_row :: "('r \<Rightarrow> int) \<Rightarrow> (int \<Rightarrow> ScopedSettingPatch \<Rightarrow> 'r) \<Rightarrow> int \<Rightarrow> ScopedSettingPatch \<Rightarrow> 'r list \<Rightarrow> 'r list" where
  "upsert_row key row i p rs =
     (if ss_level p = None \<and> ss_muted_until p = None then filter (\<lambda>r. key r \<noteq> i) rs
      else if i \<in> key ` set rs then map (\<lambda>r. if key r = i then row i p else r) rs
      else rs @ [row i p])"

definition server_row :: "int \<Rightarrow> ScopedSettingPatch \<Rightarrow> ServerNotificationOverride" where
  "server_row i p = \<lparr>sno_server_id = i, sno_level = ss_level p, sno_muted_until = ss_muted_until p\<rparr>"

definition channel_row :: "int \<Rightarrow> ScopedSettingPatch \<Rightarrow> ChannelNotificationOverride" where
  "channel_row i p = \<lparr>cno_channel_id = i, cno_level = ss_level p, cno_muted_until = ss_muted_until p\<rparr>"

definition UpsertServer :: "int \<Rightarrow> ScopedSettingPatch \<Rightarrow> NotificationSettings \<Rightarrow> NotificationSettings" where
  "UpsertServer i p s = s\<lparr>ns_servers := upsert_row sno_server_id server_row i p (ns_servers s)\<rparr>"

definition UpsertChannel :: "int \<Rightarrow> ScopedSettingPatch \<Rightarrow> NotificationSettings \<Rightarrow> NotificationSettings" where
  "UpsertChannel i p s = s\<lparr>ns_channels := upsert_row cno_channel_id channel_row i p (ns_channels s)\<rparr>"

definition server_apply :: "settings_request \<Rightarrow> NotificationSettings \<Rightarrow> NotificationSettings" where
  "server_apply r s = (case r of
     GetSettings \<Rightarrow> s | PatchGlobal p \<Rightarrow> UpsertGlobal p s | PutServer i p \<Rightarrow> UpsertServer i p s | PutChannel i p \<Rightarrow> UpsertChannel i p s)"

text \<open>What Go writes of the settings: a nil pointer is null.\<close>

definition json_of :: "'a option \<Rightarrow> 'a nullable" where
  "json_of v = (case v of Some x \<Rightarrow> Val x | None \<Rightarrow> Null)"

definition settings_json :: "NotificationSettings \<Rightarrow> RawSettings" where
  "settings_json s = \<lparr>rs_default_level = JStr (level_text (ns_default_level s)),
     rs_hide_message_preview = JBool (ns_hide_message_preview s), rs_dnd_until = json_of (ns_dnd_until s),
     rs_servers = Some (map (\<lambda>r. \<lparr>ro_server_id = JNum (sno_server_id r), ro_channel_id = JUndefined,
        ro_level = json_of (sno_level r), ro_muted_until = json_of (sno_muted_until r)\<rparr>) (ns_servers s)),
     rs_channels = Some (map (\<lambda>r. \<lparr>ro_server_id = JUndefined, ro_channel_id = JNum (cno_channel_id r),
        ro_level = json_of (cno_level r), ro_muted_until = json_of (cno_muted_until r)\<rparr>) (ns_channels s))\<rparr>"

section \<open>Client and server\<close>

text \<open>Requests reach the server and answers the client in their order; the server refuses a request or answers with the
  settings after it.\<close>

record settings_world =
  sg_hook :: settings_hook
  sg_db :: NotificationSettings
  sg_asked :: "settings_request list"
  sg_answers :: "(settings_request \<times> RawSettings http) list"

datatype settings_input = Refresh bool | Send settings_request | Serve "(nat option \<times> api_body) option" | Deliver

fun settings_step :: "settings_world \<Rightarrow> settings_input \<Rightarrow> settings_world \<times> unit list" where
  "settings_step w (Refresh auth) =
     (let (h, rs) = refresh_settings auth (sg_hook w) in (w\<lparr>sg_hook := h, sg_asked := sg_asked w @ rs\<rparr>, []))"
| "settings_step w (Send r) = (w\<lparr>sg_asked := sg_asked w @ [r]\<rparr>, [])"
| "settings_step w (Serve refusal) = (case sg_asked w of
     [] \<Rightarrow> (w, [])
   | r # rs \<Rightarrow> (case refusal of
       Some (status, body) \<Rightarrow> (w\<lparr>sg_asked := rs, sg_answers := sg_answers w @ [(r, HttpError status body)]\<rparr>, [])
     | None \<Rightarrow> (let db = server_apply r (sg_db w)
         in (w\<lparr>sg_asked := rs, sg_db := db, sg_answers := sg_answers w @ [(r, HttpOk 200 (settings_json db))]\<rparr>, []))))"
| "settings_step w Deliver = (case sg_answers w of
     [] \<Rightarrow> (w, []) | (r, a) # as \<Rightarrow> (w\<lparr>sg_hook := settings_answered r a (sg_hook w), sg_answers := as\<rparr>, []))"

section \<open>The volume\<close>

text \<open>\<open>to_rat\<close> is \<open>Number\<close> where that is finite, \<open>of_rat\<close> writes a number.\<close>

definition VOLUME_KEY :: string where "VOLUME_KEY = ''notif.volume''"
definition ENABLED_KEY :: string where "ENABLED_KEY = ''notif.soundEnabled''"
definition DEFAULT_VOLUME :: rat where "DEFAULT_VOLUME = 3 / 5"

definition getVolume :: "(string \<Rightarrow> rat option) \<Rightarrow> storage \<Rightarrow> rat" where
  "getVolume to_rat st = (case st VOLUME_KEY of
     None \<Rightarrow> DEFAULT_VOLUME
   | Some raw \<Rightarrow> (case to_rat raw of Some v \<Rightarrow> clamp_volume v | None \<Rightarrow> DEFAULT_VOLUME))"

definition setVolume :: "(rat \<Rightarrow> string) \<Rightarrow> rat \<Rightarrow> storage \<Rightarrow> storage" where
  "setVolume rat_text v st = st(VOLUME_KEY \<mapsto> rat_text (clamp_volume v))"

definition isSoundEnabled :: "storage \<Rightarrow> bool" where
  "isSoundEnabled st \<longleftrightarrow> st ENABLED_KEY \<noteq> Some ''false''"

definition setSoundEnabled :: "bool \<Rightarrow> storage \<Rightarrow> storage" where
  "setSoundEnabled enabled st = st(ENABLED_KEY \<mapsto> if enabled then ''true'' else ''false'')"

section \<open>The test notification\<close>

record notify_browser =
  nb_permission :: PermissionState
  nb_serviceWorker :: bool
  nb_registration :: bool
  nb_shows :: bool

definition sendTestNotification :: "int \<Rightarrow> notify_browser \<Rightarrow> sound_player \<Rightarrow> sound_player \<times> SoundName option \<times> string option" where
  "sendTestNotification now b p =
     (let (p1, played) = playSound now MessageSound \<lparr>po_channelId = Some (-1), po_bypassChannelLimit = True\<rparr> p
      in (p1, played,
          if nb_permission b \<noteq> PermGranted then Some ''Notifications are not enabled in this browser yet.''
          else if \<not> nb_serviceWorker b then Some ''This browser has no Service Worker support.''
          else if \<not> nb_registration b then Some ''No Service Worker is registered for this page yet.''
          else if nb_shows b then None
          else Some ''Failed to display the notification.''))"

section \<open>The prompt for the permission\<close>

definition SOFT_PROMPT_COOLDOWN_MS :: int where "SOFT_PROMPT_COOLDOWN_MS = 3 * 24 * 60 * 60 * 1000"
definition DISMISSED_UNTIL_KEY :: string where "DISMISSED_UNTIL_KEY = ''notif.softPromptDismissedUntil''"
definition MISSED_MESSAGE_KEY :: string where "MISSED_MESSAGE_KEY = ''notif.hasMissedMessage''"

definition markMessageMissed :: "storage \<Rightarrow> storage" where
  "markMessageMissed st = st(MISSED_MESSAGE_KEY \<mapsto> ''true'')"

definition clearMissedMessageFlag :: "storage \<Rightarrow> storage" where
  "clearMissedMessageFlag st = st(MISSED_MESSAGE_KEY := None)"

text \<open>\<open>Number\<close> of the stored time; what is no number is never reached by a clock.\<close>

definition soft_prompt_due :: "(string \<Rightarrow> int option) \<Rightarrow> PermissionState \<Rightarrow> int \<Rightarrow> storage \<Rightarrow> bool" where
  "soft_prompt_due to_number permission now st \<longleftrightarrow>
     permission = PermDefault \<and> st MISSED_MESSAGE_KEY = Some ''true''
     \<and> (case to_number (or_keep (st DISMISSED_UNTIL_KEY) ''0'') of Some t \<Rightarrow> t \<le> now | None \<Rightarrow> False)"

definition dismissSoftPrompt :: "int \<Rightarrow> storage \<Rightarrow> storage" where
  "dismissSoftPrompt now st = st(DISMISSED_UNTIL_KEY \<mapsto> show_int (now + SOFT_PROMPT_COOLDOWN_MS))"

record prompt_page =
  pt_storage :: storage
  pt_permission :: PermissionState
  pt_banner :: bool

datatype prompt_input = MissedMessage int | DismissPrompt int | EnablePrompt PermissionState

datatype prompt_effect = ShowBanner int | SubscribeToPush

text \<open>A message that the permission blocked, the two buttons of the banner; the answer of the browser to the second. The page
  subscribes to push in the handler, and in the effect that runs when the permission has become granted.\<close>

fun prompt_step :: "(string \<Rightarrow> int option) \<Rightarrow> prompt_page \<Rightarrow> prompt_input \<Rightarrow> prompt_page \<times> prompt_effect list" where
  "prompt_step to_number s (MissedMessage now) =
     (if pt_permission s = PermGranted then (s, [])
      else let st = markMessageMissed (pt_storage s)
           in if soft_prompt_due to_number (pt_permission s) now st
              then (s\<lparr>pt_storage := st, pt_banner := True\<rparr>, [ShowBanner now]) else (s\<lparr>pt_storage := st\<rparr>, []))"
| "prompt_step to_number s (DismissPrompt now) = (s\<lparr>pt_banner := False, pt_storage := dismissSoftPrompt now (pt_storage s)\<rparr>, [])"
| "prompt_step to_number s (EnablePrompt result) =
     (s\<lparr>pt_banner := False, pt_permission := result\<rparr>,
      (if result = PermGranted then [SubscribeToPush] else [])
      @ (if result = PermGranted \<and> pt_permission s \<noteq> PermGranted then [SubscribeToPush] else []))"

section \<open>The push subscription\<close>

definition urlBase64ToUint8Array :: "string \<Rightarrow> nat list option" where
  "urlBase64ToUint8Array s =
     (let padding = replicate ((4 - length s mod 4) mod 4) CHR ''=''
      in map_option (map of_char) (atob (map url_safe (s @ padding))))"

definition getPushPublicKey :: "string option http \<Rightarrow> string option" where
  "getPushPublicKey answer = (case answer of HttpOk _ key \<Rightarrow> key | HttpError _ _ \<Rightarrow> None)"

record subscription_json =
  sj_endpoint :: "string option"
  sj_p256dh :: "string option"
  sj_auth :: "string option"

text \<open>What the browser and the server answer, each step at once.\<close>

record push_browser =
  pb_serviceWorker :: bool
  pb_pushManager :: bool
  pb_registration :: bool
  pb_key :: "string option http"
  pb_subscription :: "subscription_json option"
  pb_subscribe :: "nat list \<Rightarrow> subscription_json option"
  pb_accepts :: bool

datatype subscribe_effect = SubscribeWith "nat list" | PostSubscribe string string string

definition register_subscription :: "bool \<Rightarrow> subscription_json \<Rightarrow> bool \<times> subscribe_effect list" where
  "register_subscription accepts j =
     (if \<not> given_name (sj_endpoint j) \<or> \<not> given_name (sj_p256dh j) \<or> \<not> given_name (sj_auth j) then (False, [])
      else (accepts, [PostSubscribe (the (sj_endpoint j)) (the (sj_p256dh j)) (the (sj_auth j))]))"

definition subscribeToPush :: "push_browser \<Rightarrow> bool \<times> subscribe_effect list" where
  "subscribeToPush b =
     (if \<not> pb_serviceWorker b \<or> \<not> pb_pushManager b then (False, [])
      else if \<not> pb_registration b then (False, [])
      else let key = getPushPublicKey (pb_key b)
           in if \<not> given_name key then (False, [])
              else case pb_subscription b of
                Some j \<Rightarrow> register_subscription (pb_accepts b) j
              | None \<Rightarrow> (case urlBase64ToUint8Array (the key) of
                  None \<Rightarrow> (False, [])
                | Some bytes \<Rightarrow> (case pb_subscribe b bytes of
                    None \<Rightarrow> (False, [SubscribeWith bytes])
                  | Some j \<Rightarrow> (let (ok, os) = register_subscription (pb_accepts b) j in (ok, SubscribeWith bytes # os)))))"

end
