(* ===== verification/SettingsProps.thy ===== *)
theory SettingsProps
  imports Settings NotifyProps AccountProps
begin

text \<open>The menus do what they say, the page shows the settings of the server, the prompt is not shown again too soon.\<close>

section \<open>Settings there and back\<close>

lemma or_null_json [simp]: "or_null (json_of v) = v"
  by (cases v) (simp_all add: or_null_def json_of_def)

lemma map_filter_map_id: "(\<And>x. x \<in> set xs \<Longrightarrow> f (g x) = Some x) \<Longrightarrow> List.map_filter f (map g xs) = xs"
  by (induction xs) (simp_all add: List.map_filter_simps)

lemma toSettings_json [simp]: "toSettings (settings_json s) = s"
proof -
  have "server_rows (map (\<lambda>r. \<lparr>ro_server_id = JNum (sno_server_id r), ro_channel_id = JUndefined,
      ro_level = json_of (sno_level r), ro_muted_until = json_of (sno_muted_until r)\<rparr>) rs) = rs" for rs
    unfolding server_rows_def by (rule map_filter_map_id) simp
  moreover have "channel_rows (map (\<lambda>r. \<lparr>ro_server_id = JUndefined, ro_channel_id = JNum (cno_channel_id r),
      ro_level = json_of (cno_level r), ro_muted_until = json_of (cno_muted_until r)\<rparr>) rs) = rs" for rs
    unfolding channel_rows_def by (rule map_filter_map_id) simp
  ultimately show ?thesis
    by (cases "ns_default_level s") (simp_all add: toSettings_def settings_json_def level_text_def)
qed

section \<open>Rows\<close>

lemma find_upsert:
  assumes "\<And>i p. key (row i p) = i"
  shows "find (\<lambda>r. key r = c) (upsert_row key row i p rs)
    = (if c = i then (if ss_level p = None \<and> ss_muted_until p = None then None else Some (row i p)) else find (\<lambda>r. key r = c) rs)"
proof -
  have f: "find (\<lambda>r. key r = d) (filter (\<lambda>r. key r \<noteq> i) rs) = (if d = i then None else find (\<lambda>r. key r = d) rs)" for d
    by (induction rs) auto
  have m: "find (\<lambda>r. key r = i) (map (\<lambda>r. if key r = i then row i p else r) rs) = Some (row i p)" if "i \<in> key ` set rs"
    using that assms by (induction rs) auto
  have m': "find (\<lambda>r. key r = c) (map (\<lambda>r. if key r = i then row i p else r) rs) = find (\<lambda>r. key r = c) rs" if "c \<noteq> i"
    using that assms by (induction rs) auto
  have a: "find (\<lambda>r. key r = d) (rs @ [row i p]) = (if d = i then Some (row i p) else find (\<lambda>r. key r = d) rs)"
    if "i \<notin> key ` set rs" for d
    using that assms by (induction rs) auto
  show ?thesis by (simp add: upsert_row_def f m m' a)
qed

lemma override_channel_upserted:
  "channel_override (UpsertChannel i p s) c = (if c = i
     then (if ss_level p = None \<and> ss_muted_until p = None then None else Some (channel_row i p)) else channel_override s c)"
  unfolding channel_override_def UpsertChannel_def by (simp add: find_upsert channel_row_def)

lemma override_server_upserted [simp]: "server_override (UpsertChannel i p s) c = server_override s c"
  by (simp add: server_override_def UpsertChannel_def)

lemma upserted_row:
  "Option.bind (channel_override (UpsertChannel c p s) c) cno_level = ss_level p"
  "Option.bind (channel_override (UpsertChannel c p s) c) cno_muted_until = ss_muted_until p"
  by (auto simp: override_channel_upserted channel_row_def)

lemma override_other_rows [simp]:
  "server_override (s\<lparr>ns_channels := rs\<rparr>) i = server_override s i" "channel_override (s\<lparr>ns_channels := []\<rparr>) c = None"
  by (simp_all add: server_override_def channel_override_def)

lemma upserted_default [simp]: "ns_default_level (UpsertChannel c p s) = ns_default_level s"
  by (simp add: UpsertChannel_def)

text \<open>The level and the muting of a channel after a change of its row, and of the others.\<close>

lemma level_upserted:
  "resolveLevel (Some (UpsertChannel c p s)) sid c = (case ss_level p of
     Some l \<Rightarrow> l | None \<Rightarrow> resolveLevel (Some (s\<lparr>ns_channels := []\<rparr>)) sid c)"
  by (simp add: resolveLevel_def upserted_row split: option.split)

lemma muted_upserted:
  "isMuted ms (Some (UpsertChannel c p s)) sid c now
     \<longleftrightarrow> isTimeInFuture ms (ss_muted_until p) now \<or> isTimeInFuture ms (Option.bind (server_override s sid) sno_muted_until) now"
  by (simp add: isMuted_def upserted_row)

lemma others_upserted:
  "c' \<noteq> c \<Longrightarrow> resolveLevel (Some (UpsertChannel c p s)) sid c' = resolveLevel (Some s) sid c'
     \<and> isMuted ms (Some (UpsertChannel c p s)) sid c' now = isMuted ms (Some s) sid c' now"
  by (simp add: resolveLevel_def isMuted_def override_channel_upserted split: option.split)

lemma level_kept:
  "ss_level p = Option.bind (channel_override s c) cno_level
     \<Longrightarrow> resolveLevel (Some (UpsertChannel c p s)) sid c = resolveLevel (Some s) sid c"
  by (simp add: resolveLevel_def upserted_row split: option.split)

lemma items_are:
  assumes "MenuAction label active f \<in> set (buildLevelItems ms to_iso t0 lv mu)"
  shows "(\<exists>l. (l, label) \<in> set level_labels \<and> f = (\<lambda>_. \<lparr>ss_level = Some l, ss_muted_until = mu\<rparr>))
    \<or> label = ''Unmute'' \<and> f = (\<lambda>_. \<lparr>ss_level = lv, ss_muted_until = None\<rparr>)
    \<or> label = ''Mute for 1 hour'' \<and> f = (\<lambda>t. \<lparr>ss_level = lv, ss_muted_until = Some (hoursFromNow to_iso t 1)\<rparr>)
    \<or> label = ''Mute for 8 hours'' \<and> f = (\<lambda>t. \<lparr>ss_level = lv, ss_muted_until = Some (hoursFromNow to_iso t 8)\<rparr>)
    \<or> label = ''Reset to default'' \<and> f = (\<lambda>_. \<lparr>ss_level = None, ss_muted_until = None\<rparr>)"
  using assms by (auto simp: buildLevelItems_def Let_def split: if_splits)

text \<open>What the page holds once the server has answered the item picked at the time \<open>t\<close>.\<close>

definition after_pick :: "int \<Rightarrow> (int \<Rightarrow> ScopedSettingPatch) \<Rightarrow> int \<Rightarrow> NotificationSettings \<Rightarrow> NotificationSettings option" where
  "after_pick c f t s = sh_settings (settings_answered (updateChannel c (f t))
     (HttpOk 200 (settings_json (server_apply (updateChannel c (f t)) s))) new_settings_hook)"

lemma after_pick_eq: "after_pick c f t s = Some (UpsertChannel c (f t) s)"
  by (simp add: after_pick_def settings_answered_def updateChannel_def server_apply_def Let_def)

lemma hours_future: "(\<And>t. ms (to_iso t) = Some t) \<Longrightarrow> ms [] = None \<Longrightarrow>
    isTimeInFuture ms (Some (hoursFromNow to_iso t h)) now \<longleftrightarrow> now < t + h * HOUR_MS"
proof -
  assume i: "\<And>t. ms (to_iso t) = Some t" and n: "ms [] = None"
  have "to_iso x \<noteq> []" for x using i [of x] n by auto
  then show ?thesis using i by (simp add: isTimeInFuture_def hoursFromNow_def)
qed


text \<open>The items hold the row that the menu was opened with: a level picked before the answer to a mute has come takes the mute
  away.\<close>

lemma menu_on_old_settings_unmutes:
  "\<exists>f g. MenuAction ''Mute for 1 hour'' False f \<in> set (openChannelMenu ms to_iso t0 (Some s) c [])
     \<and> MenuAction ''Only mentions'' False g \<in> set (openChannelMenu ms to_iso t0 (Some s) c [])
     \<and> Option.bind (channel_override (UpsertChannel c (g t2) (UpsertChannel c (f t1) s)) c) cno_muted_until = None"
  if "channel_override s c = None"
  using that by (intro exI [of _ "\<lambda>t. \<lparr>ss_level = None, ss_muted_until = Some (hoursFromNow to_iso t 1)\<rparr>"]
      exI [of _ "\<lambda>_. \<lparr>ss_level = Some LevelMentions, ss_muted_until = None\<rparr>"])
    (simp add: openChannelMenu_def buildLevelItems_def upserted_row level_labels_def isTimeInFuture_def)

text \<open>The dialog says until when exactly while nothing is notified.\<close>

lemma dnd_is_shown: "formatDND ms locale now (ns_dnd_until s) \<noteq> None \<longleftrightarrow> isDoNotDisturb ms (Some s) now"
  by (auto simp: formatDND_def isDoNotDisturb_def isTimeInFuture_def split: option.splits)

text \<open>The menu lies within a window that has room for it.\<close>

lemma menu_in_window:
  assumes "menu_place w h x y n = (l, t)"
  shows "8 \<le> l" and "8 \<le> t" and "MENU_WIDTH + 16 \<le> w \<Longrightarrow> l + MENU_WIDTH + 8 \<le> w"
    and "int n * ITEM_HEIGHT + 32 \<le> h \<Longrightarrow> t + (int n * ITEM_HEIGHT + 16) + 8 \<le> h"
  using assms by (auto simp: menu_place_def Let_def)

section \<open>Client and server\<close>

text \<open>The settings the page will hold once the answers on their way have come.\<close>

definition told :: "settings_world \<Rightarrow> NotificationSettings option" where
  "told w = sh_settings (fold (\<lambda>(r, a). settings_answered r a) (sg_answers w) (sg_hook w))"

lemma answered_settings [simp]:
  "sh_settings (settings_answered r (HttpError st b) h) = sh_settings h"
  "sh_settings (settings_answered r (HttpOk k raw) h) = Some (toSettings raw)"
  by (simp_all add: settings_answered_def Let_def)

lemma told_loading: "sh_settings (fold (\<lambda>(r, a). settings_answered r a) as h)
    = sh_settings (fold (\<lambda>(r, a). settings_answered r a) as (h\<lparr>sh_isLoading := b\<rparr>))"
proof (induction as arbitrary: h b)
  case (Cons ra as)
  obtain r a where ra: "ra = (r, a)" by fastforce
  have "\<exists>b'. settings_answered r a (h\<lparr>sh_isLoading := b\<rparr>) = (settings_answered r a h)\<lparr>sh_isLoading := b'\<rparr>"
    by (intro exI [of _ "if r = GetSettings then False else b"]) (simp add: settings_answered_def Let_def split: http.split)
  with Cons ra show ?case by fastforce
qed simp

definition told_inv :: "NotificationSettings \<Rightarrow> settings_world \<Rightarrow> bool" where
  "told_inv db0 w \<longleftrightarrow> told w = Some (sg_db w) \<or> told w = None \<and> sg_db w = db0"

lemma told_inv_step: "told_inv db0 w \<Longrightarrow> told_inv db0 (fst (settings_step w e))"
proof (cases e)
  case (Refresh auth)
  assume "told_inv db0 w"
  with Refresh show ?thesis
    using told_loading [of "sg_answers w" "sg_hook w" True] by (simp add: told_inv_def told_def refresh_settings_def Let_def)
qed (auto simp: told_inv_def told_def Let_def split: list.splits option.splits)

interpretation told: machine_invariant "\<lambda>_ _. True" settings_step "told_inv db0"
  by unfold_locales (rule told_inv_step)

definition settings_start :: "NotificationSettings \<Rightarrow> settings_world" where
  "settings_start db = \<lparr>sg_hook = new_settings_hook, sg_db = db, sg_asked = [], sg_answers = []\<rparr>"


section \<open>The prompt\<close>

definition held_until :: "(string \<Rightarrow> int option) \<Rightarrow> int \<Rightarrow> prompt_page \<Rightarrow> bool" where
  "held_until to_number t s \<longleftrightarrow> (\<exists>u. pt_storage s DISMISSED_UNTIL_KEY = Some u \<and> (\<exists>n. to_number u = Some n \<and> t \<le> n))"

fun not_before :: "int \<Rightarrow> prompt_page \<Rightarrow> prompt_input \<Rightarrow> bool" where
  "not_before t s (DismissPrompt now) \<longleftrightarrow> t \<le> now"
| "not_before t s _ \<longleftrightarrow> True"

lemma held_step:
  assumes "\<And>n. to_number (show_int n) = Some n" and "held_until to_number (t + SOFT_PROMPT_COOLDOWN_MS) s" and "not_before t s e"
  shows "held_until to_number (t + SOFT_PROMPT_COOLDOWN_MS) (fst (prompt_step to_number s e))"
  using assms by (cases e) (auto simp: held_until_def markMessageMissed_def dismissSoftPrompt_def DISMISSED_UNTIL_KEY_def
      MISSED_MESSAGE_KEY_def Let_def)

lemma held_shows:
  assumes "held_until to_number t s" and "ShowBanner now \<in> set (snd (prompt_step to_number s e))"
  shows "t \<le> now"
  using assms by (cases e) (auto simp: held_until_def soft_prompt_due_def markMessageMissed_def or_keep_def Let_def
      DISMISSED_UNTIL_KEY_def MISSED_MESSAGE_KEY_def split: if_splits option.splits)

text \<open>Once dismissed, the banner is not shown again for three days, whatever is missed meanwhile.\<close>

theorem prompt_rests:
  assumes "run (not_before t) (prompt_step to_number) (fst (prompt_step to_number s0 (DismissPrompt t))) es s os"
    and "\<And>n. to_number (show_int n) = Some n" and "ShowBanner now \<in> set os"
  shows "t + 3 * 24 * 3600 * 1000 \<le> now"
proof -
  have "held_until to_number (t + SOFT_PROMPT_COOLDOWN_MS) (fst (prompt_step to_number s0 (DismissPrompt t)))"
    using assms(2) by (auto simp: held_until_def dismissSoftPrompt_def)
  with assms(1) have "held_until to_number (t + SOFT_PROMPT_COOLDOWN_MS) s
      \<and> (\<forall>n. ShowBanner n \<in> set os \<longrightarrow> t + SOFT_PROMPT_COOLDOWN_MS \<le> n)"
  proof (induction rule: run.induct)
    case (run_snoc s es u os e w os')
    then have h: "held_until to_number (t + SOFT_PROMPT_COOLDOWN_MS) u" by blast
    moreover have "held_until to_number (t + SOFT_PROMPT_COOLDOWN_MS) w"
      using held_step [OF assms(2) h] run_snoc.hyps by (metis fst_conv)
    moreover have "t + SOFT_PROMPT_COOLDOWN_MS \<le> n" if "ShowBanner n \<in> set os'" for n
      using held_shows [OF h, of n e] run_snoc.hyps that by simp
    ultimately show ?case using run_snoc by auto
  qed simp
  with assms(3) have "t + SOFT_PROMPT_COOLDOWN_MS \<le> now" by blast
  then show ?thesis by (simp add: SOFT_PROMPT_COOLDOWN_MS_def)
qed

section \<open>The push subscription\<close>

text \<open>The browser is given the bytes of the key of the server.\<close>

lemma subscribed_with_the_key:
  "urlBase64ToUint8Array (base64url k) = Some (map of_char k)"
proof -
  let ?s = "map url_safe (base64url k)"
  have len: "length (base64url k) mod 4 \<noteq> 1" using digits_length by (simp add: base64url_def)
  have pad: "(4 - n mod 4) mod 4 = (n + 3) div 4 * 4 - n" for n :: nat
  proof -
    have n: "n = 4 * (n div 4) + n mod 4" and r: "n mod 4 < 4" by simp_all
    have "(n div 4 * 4 + (n mod 4 + 3)) div 4 = n div 4 + (n mod 4 + 3) div 4" by (rule div_mult_self3) simp
    moreover have "n div 4 * 4 + (n mod 4 + 3) = n + 3" using n by simp
    ultimately have "(n + 3) div 4 = n div 4 + (n mod 4 + 3) div 4" by simp
    moreover have "n mod 4 = 0 \<or> n mod 4 = 1 \<or> n mod 4 = 2 \<or> n mod 4 = 3" using r by linarith
    ultimately show ?thesis using n by (elim disjE) simp_all
  qed
  have e: "url_safe CHR ''='' = CHR ''=''" by (simp add: url_safe_def)
  have "map url_safe (base64url k @ replicate ((4 - length (base64url k) mod 4) mod 4) CHR ''='')
      = padEnd ((length ?s + 3) div 4 * 4) CHR ''='' ?s"
    by (simp add: padEnd_def pad e)
  with atob_base64url [of k] show ?thesis by (simp add: urlBase64ToUint8Array_def Let_def)
qed

text \<open>The volume that is stored is read back within its bounds.\<close>

lemma volume_read_back:
  "(\<And>r. to_rat (rat_text r) = Some r) \<Longrightarrow> getVolume to_rat (setVolume rat_text v st) = min 1 (max 0 v)"
  by (simp add: getVolume_def setVolume_def clamp_volume_def)

section \<open>At work\<close>

definition read_int :: "string \<Rightarrow> int option" where
  "read_int s = (case s of [] \<Rightarrow> None
     | c # r \<Rightarrow> Some (if c = CHR ''-'' then - int (read_nat r) else int (read_nat s)))"

lemma read_show_int [simp]: "read_int (show_int i) = Some i"
proof (cases "i < 0")
  case False
  have "CHR ''-'' \<notin> set (show_nat (nat i))" by (rule show_nat_not_char) simp
  moreover obtain c r where s: "show_nat (nat i) = c # r" by (cases "show_nat (nat i)") (simp_all add: show_nat.simps [of "nat i"] split: if_splits)
  ultimately have "c \<noteq> CHR ''-''" by auto
  moreover have "read_nat (c # r) = nat i" by (metis read_show_nat s)
  ultimately show ?thesis using False s by (simp add: read_int_def show_int_def)
qed (simp add: read_int_def show_int_def)

lemma read_int_Nil [simp]: "read_int [] = None"
  by (simp add: read_int_def)

definition quiet_settings :: NotificationSettings where
  "quiet_settings = \<lparr>ns_default_level = LevelMentions, ns_hide_message_preview = False, ns_dnd_until = None, ns_servers = [],
     ns_channels = [\<lparr>cno_channel_id = 5, cno_level = Some LevelAll, cno_muted_until = None\<rparr>]\<rparr>"



definition asking_page :: prompt_page where
  "asking_page = \<lparr>pt_storage = Map.empty, pt_permission = PermDefault, pt_banner = True\<rparr>"

lemma prompt_rests_witness:
  "snd (exec_run (prompt_step read_int) (fst (prompt_step read_int asking_page (DismissPrompt 7))) [MissedMessage 259200007])
     = [ShowBanner 259200007] \<and> (7 :: int) + 3 * 24 * 3600 * 1000 \<le> 259200007"
  (is "snd (exec_run ?st ?s0 ?es) = _ \<and> _")
proof -
  obtain s os where e: "exec_run ?st ?s0 ?es = (s, os)" by fastforce
  have en: "enabled_run (not_before 7) ?st ?s0 ?es" by simp
  have os: "snd (exec_run ?st ?s0 ?es) = [ShowBanner 259200007]"
    by (simp add: asking_page_def soft_prompt_due_def markMessageMissed_def dismissSoftPrompt_def or_keep_def Let_def
        MISSED_MESSAGE_KEY_def DISMISSED_UNTIL_KEY_def SOFT_PROMPT_COOLDOWN_MS_def)
  with e have "ShowBanner 259200007 \<in> set os" by simp
  from prompt_rests [OF exec_run_run [OF en e] read_show_int this] os show ?thesis by simp
qed

end
