(* ===== verification/MessageView.thy ===== *)
theory MessageView
  imports Messages MessageText Notifications
begin

text \<open>
  What is shown of messages and users: the list of messages with its menus and its editor (\<^verbatim>\<open>components/MessageList.tsx\<close>), the
  viewer of pictures (\<^verbatim>\<open>ImageViewerModal.tsx\<close>), the headlines of the search (\<^verbatim>\<open>services/searchHighlight.tsx\<close>), the line
  that says who types (\<^verbatim>\<open>TypingIndicator.tsx\<close>), the rows of users and conversations (\<^verbatim>\<open>OnlineUsersList.tsx\<close>,
  \<^verbatim>\<open>DMList.tsx\<close>) and the badges (\<^verbatim>\<open>useDocumentBadge.ts\<close>); with the handler of the server for edits (\<^verbatim>\<open>hub.go\<close>,
  \<^verbatim>\<open>storage/postgresql/websocket.go\<close>). The fixed Russian words of the interface are constructors; \<open>ms\<close> is
  \<open>new Date(iso).getTime()\<close>, \<open>upper\<close> is \<open>toUpperCase\<close>.
\<close>

section \<open>Names\<close>

fun words :: "string \<Rightarrow> string list" where
  "words [] = []"
| "words (c # s) = (if is_space c then words s
     else (case s of [] \<Rightarrow> [[c]] | d # _ \<Rightarrow> (if is_space d then [c] # words s
       else (case words s of w # ws \<Rightarrow> (c # w) # ws | [] \<Rightarrow> [[c]]))))"

definition word_initials :: "(string \<Rightarrow> string) \<Rightarrow> string \<Rightarrow> string" where
  "word_initials upper name =
     (let i = upper (take 2 (concat (map (\<lambda>w. take 1 w) (words name))))
      in if i \<noteq> [] then i else if upper (take 1 name) \<noteq> [] then upper (take 1 name) else ''U'')"

definition name_text :: "string option \<Rightarrow> string" where
  "name_text x = (case x of Some s \<Rightarrow> s | None \<Rightarrow> [])"

definition getAuthorLabel :: "Message \<Rightarrow> string" where
  "getAuthorLabel msg =
     (let nickname = trim (str_or [] (m_author_nickname msg));
          fullName = trim (trim (str_or [] (m_author_first_name msg)) @ '' '' @ trim (str_or [] (m_author_last_name msg)))
      in if nickname \<noteq> [] then nickname else if fullName \<noteq> [] then fullName else ''User #'' @ show_int (m_author_id msg))"

definition getAuthorInitials :: "(string \<Rightarrow> string) \<Rightarrow> Message \<Rightarrow> string" where
  "getAuthorInitials upper msg =
     (let nickname = trim (str_or [] (m_author_nickname msg));
          initials = upper (take 1 (trim (str_or [] (m_author_first_name msg))) @ take 1 (trim (str_or [] (m_author_last_name msg))))
      in if nickname \<noteq> [] then word_initials upper nickname
         else if initials \<noteq> [] then initials else CHR ''U'' # show_int (m_author_id msg))"

definition reply_author :: "ReplyPreview \<Rightarrow> string" where
  "reply_author reply =
     (let nickname = trim (name_text (rp_author_nickname reply));
          fullName = trim (rp_author_first_name reply @ '' '' @ rp_author_last_name reply)
      in if nickname \<noteq> [] then nickname else if fullName \<noteq> [] then fullName else ''User #'' @ show_int (rp_author_id reply))"

definition truncateContent :: "nat \<Rightarrow> string \<Rightarrow> string" where
  "truncateContent maxLen text =
     (let stripped = trim (map (\<lambda>c. if c = CHR 0x0A then CHR '' '' else c) text)
      in if length stripped \<le> maxLen then stripped else take maxLen stripped @ ''...'')"

section \<open>Attachments and pictures\<close>

definition isImageType :: "string \<Rightarrow> bool" where "isImageType t \<longleftrightarrow> prefix ''image/'' t"
definition isVideoType :: "string \<Rightarrow> bool" where "isVideoType t \<longleftrightarrow> prefix ''video/'' t"
definition isAudioType :: "string \<Rightarrow> bool" where "isAudioType t \<longleftrightarrow> prefix ''audio/'' t"

text \<open>\<open>toFixed(1)\<close> of \<open>n / d\<close>: the nearest tenth, the larger one of two.\<close>

definition toFixed1 :: "nat \<Rightarrow> nat \<Rightarrow> string" where
  "toFixed1 n d = (let t = (20 * n + d) div (2 * d) in show_nat (t div 10) @ ''.'' @ show_nat (t mod 10))"

definition formatFileSize :: "nat option \<Rightarrow> string" where
  "formatFileSize bytes = (case bytes of
     None \<Rightarrow> []
   | Some b \<Rightarrow> (if b = 0 then []
       else if b < 1024 then show_nat b @ '' B''
       else if b < 1024 * 1024 then toFixed1 b 1024 @ '' KB''
       else toFixed1 b (1024 * 1024) @ '' MB''))"

record ViewerImage =
  vi_url :: string
  vi_alt :: string

record ImageViewerState =
  iv_items :: "ViewerImage list"
  iv_index :: int

definition message_images :: "Message \<Rightarrow> ViewerImage list" where
  "message_images msg = map (\<lambda>att. \<lparr>vi_url = att_url att, vi_alt = att_file_name att\<rparr>)
     (filter (\<lambda>att. isImageType (att_content_type att)) (case m_attachments msg of Some as \<Rightarrow> as | None \<Rightarrow> []))"

fun find_index :: "('a \<Rightarrow> bool) \<Rightarrow> 'a list \<Rightarrow> int" where
  "find_index p [] = -1"
| "find_index p (x # xs) = (if p x then 0 else (let i = find_index p xs in if i < 0 then -1 else i + 1))"

datatype attachment_view = PictureView string int | VideoView string | AudioView string | FileView string string

definition renderAttachment :: "ViewerImage list \<Rightarrow> Attachment \<Rightarrow> attachment_view" where
  "renderAttachment images att =
     (if isImageType (att_content_type att)
      then (let index = find_index (\<lambda>img. vi_url img = att_url att) images
            in PictureView (att_url att) (if index < 0 then 0 else index))
      else if isVideoType (att_content_type att) then VideoView (att_url att)
      else if isAudioType (att_content_type att) then AudioView (att_url att)
      else FileView (att_url att) (att_file_name att))"

text \<open>A plain click on a picture; \<open>modified\<close>: with a modifier key the browser follows the link.\<close>

definition picture_click :: "bool \<Rightarrow> attachment_view \<Rightarrow> int option" where
  "picture_click modified v = (case v of PictureView _ i \<Rightarrow> (if modified then None else Some i) | _ \<Rightarrow> None)"

definition openImageViewer :: "ViewerImage list \<Rightarrow> int \<Rightarrow> ImageViewerState option \<Rightarrow> ImageViewerState option" where
  "openImageViewer items index st = (if items = [] then st
     else Some \<lparr>iv_items = items, iv_index = min (max index 0) (int (length items) - 1)\<rparr>)"

definition goPrev :: "ImageViewerState \<Rightarrow> ImageViewerState" where
  "goPrev s = s\<lparr>iv_index := (iv_index s + int (length (iv_items s)) - 1) mod int (length (iv_items s))\<rparr>"

definition goNext :: "ImageViewerState \<Rightarrow> ImageViewerState" where
  "goNext s = s\<lparr>iv_index := (iv_index s + 1) mod int (length (iv_items s))\<rparr>"

datatype viewer_key = ViewerEscape | ViewerLeft | ViewerRight | OtherViewerKey

definition viewer_keydown :: "viewer_key \<Rightarrow> ImageViewerState \<Rightarrow> ImageViewerState option" where
  "viewer_keydown k s = (case k of
     ViewerEscape \<Rightarrow> None
   | ViewerLeft \<Rightarrow> Some (if 1 < length (iv_items s) then goPrev s else s)
   | ViewerRight \<Rightarrow> Some (if 1 < length (iv_items s) then goNext s else s)
   | OtherViewerKey \<Rightarrow> Some s)"

section \<open>Rows\<close>

definition isOwn :: "int option \<Rightarrow> Message \<Rightarrow> bool" where
  "isOwn me msg \<longleftrightarrow> me \<noteq> None \<and> me = Some (m_author_id msg)"

definition row_mentioned :: "int option \<Rightarrow> Message \<Rightarrow> bool" where
  "row_mentioned me msg \<longleftrightarrow> \<not> isOwn me msg \<and> (case me of None \<Rightarrow> False
     | Some u \<Rightarrow> (case m_mentions msg of Some us \<Rightarrow> u \<in> set us | None \<Rightarrow> False) \<or> m_mentions_everyone msg = Some True)"

text \<open>The largest id when the list is mounted, and the rows shown as new.\<close>

definition initialMaxId :: "Message list \<Rightarrow> int" where
  "initialMaxId ms = fold (\<lambda>m mx. max mx (m_id m)) ms 0"

definition row_new :: "int \<Rightarrow> Message \<Rightarrow> bool" where
  "row_new initial msg \<longleftrightarrow> initial < m_id msg"

section \<open>Menus and deleting\<close>

definition EDIT_WINDOW_MS :: int where "EDIT_WINDOW_MS = 15 * 60 * 1000"

definition canEditMessage :: "(string \<Rightarrow> int option) \<Rightarrow> int \<Rightarrow> Message \<Rightarrow> int option \<Rightarrow> bool" where
  "canEditMessage ms now msg me \<longleftrightarrow> me = Some (m_author_id msg)
     \<and> (case ms (m_created_at msg) of None \<Rightarrow> False | Some t \<Rightarrow> now - t < EDIT_WINDOW_MS)"

datatype message_action = ReplyAction | CopyAction | EditAction | ActionSeparator | DeleteAction

definition buildMenuItems :: "(string \<Rightarrow> int option) \<Rightarrow> int \<Rightarrow> int option \<Rightarrow> Message \<Rightarrow> message_action list" where
  "buildMenuItems ms now me msg =
     [ReplyAction] @ (if m_content msg \<noteq> [] then [CopyAction] else [])
     @ (if canEditMessage ms now msg me then [EditAction] else [])
     @ (if isOwn me msg then [ActionSeparator, DeleteAction] else [])"

record list_ui =
  lu_confirmDeleteId :: "int option"
  lu_menu :: "Message option"
  lu_sheetDeleteTarget :: "Message option"
  lu_editingId :: "int option"

definition new_list_ui :: list_ui where
  "new_list_ui = \<lparr>lu_confirmDeleteId = None, lu_menu = None, lu_sheetDeleteTarget = None, lu_editingId = None\<rparr>"

datatype list_effect = ReplyTo Message | CopyText string | DeleteMessage int int

datatype list_input =
    OpenMenu Message
  | CloseMenu
  | PickAction int message_action
  | RowReply Message
  | RowDelete Message
  | ConfirmDelete Message
  | CancelDelete
  | SheetDelete
  | SheetCancel
  | EditorClosed

text \<open>What can be clicked: an item of the open menu at its time, the buttons of a row that shows them.\<close>

definition list_enabled :: "(string \<Rightarrow> int option) \<Rightarrow> int option \<Rightarrow> list_ui \<Rightarrow> list_input \<Rightarrow> bool" where
  "list_enabled ms me s e \<longleftrightarrow> (case e of
     PickAction now a \<Rightarrow> (case lu_menu s of Some m \<Rightarrow> a \<in> set (buildMenuItems ms now me m) | None \<Rightarrow> False)
   | RowReply m \<Rightarrow> \<not> (isOwn me m \<and> lu_confirmDeleteId s = Some (m_id m))
   | RowDelete m \<Rightarrow> isOwn me m \<and> lu_confirmDeleteId s \<noteq> Some (m_id m)
   | ConfirmDelete m \<Rightarrow> isOwn me m \<and> lu_confirmDeleteId s = Some (m_id m)
   | SheetDelete \<Rightarrow> lu_sheetDeleteTarget s \<noteq> None
   | _ \<Rightarrow> True)"

fun list_step :: "bool \<Rightarrow> list_ui \<Rightarrow> list_input \<Rightarrow> list_ui \<times> list_effect list" where
  "list_step isTouch s (OpenMenu m) = (s\<lparr>lu_menu := Some m\<rparr>, [])"
| "list_step isTouch s CloseMenu = (s\<lparr>lu_menu := None\<rparr>, [])"
| "list_step isTouch s (PickAction now a) = (case lu_menu s of
     None \<Rightarrow> (s, [])
   | Some m \<Rightarrow> (let s1 = s\<lparr>lu_menu := None\<rparr> in case a of
       ReplyAction \<Rightarrow> (s1, [ReplyTo m])
     | CopyAction \<Rightarrow> (s1, [CopyText (m_content m)])
     | EditAction \<Rightarrow> (s1\<lparr>lu_confirmDeleteId := None, lu_editingId := Some (m_id m)\<rparr>, [])
     | ActionSeparator \<Rightarrow> (s, [])
     | DeleteAction \<Rightarrow> ((if isTouch then s1\<lparr>lu_sheetDeleteTarget := Some m\<rparr> else s1\<lparr>lu_confirmDeleteId := Some (m_id m)\<rparr>), [])))"
| "list_step isTouch s (RowReply m) = (s, [ReplyTo m])"
| "list_step isTouch s (RowDelete m) = (s\<lparr>lu_confirmDeleteId := Some (m_id m)\<rparr>, [])"
| "list_step isTouch s (ConfirmDelete m) = (s\<lparr>lu_confirmDeleteId := None\<rparr>, [DeleteMessage (m_id m) (m_channel_id m)])"
| "list_step isTouch s CancelDelete = (s\<lparr>lu_confirmDeleteId := None\<rparr>, [])"
| "list_step isTouch s SheetDelete = (s\<lparr>lu_sheetDeleteTarget := None\<rparr>, (case lu_sheetDeleteTarget s of
     Some m \<Rightarrow> [DeleteMessage (m_id m) (m_channel_id m)] | None \<Rightarrow> []))"
| "list_step isTouch s SheetCancel = (s\<lparr>lu_sheetDeleteTarget := None\<rparr>, [])"
| "list_step isTouch s EditorClosed = (s\<lparr>lu_editingId := None\<rparr>, [])"

section \<open>The editor of a message\<close>

datatype edit_error_text =
    MessageGone | NotYours | WindowOver | EmptyMessage | TooLongMessage | TooOften | NotSaved | OtherEditError string

definition translateEditError :: "string \<Rightarrow> edit_error_text" where
  "translateEditError raw =
     (if raw = ''message not found'' then MessageGone
      else if raw = ''user is not message owner'' then NotYours
      else if raw = ''edit window expired'' then WindowOver
      else if raw = ''content is required'' then EmptyMessage
      else if raw = ''content is too long'' then TooLongMessage
      else if raw = ''rate limit exceeded for edit_message'' then TooOften
      else if raw = ''failed to edit message'' then NotSaved
      else OtherEditError raw)"

definition FATAL_EDIT_ERRORS :: "string list" where
  "FATAL_EDIT_ERRORS = [''message not found'', ''user is not message owner'', ''edit window expired'']"

record message_editor =
  me_message :: Message
  me_value :: string
  me_isSaving :: bool
  me_error :: "edit_error_text option"
  me_open :: bool

definition new_editor :: "Message \<Rightarrow> message_editor" where
  "new_editor m = \<lparr>me_message = m, me_value = m_content m, me_isSaving = False, me_error = None, me_open = True\<rparr>"

definition hasAttachments :: "Message \<Rightarrow> bool" where
  "hasAttachments m \<longleftrightarrow> (case m_attachments m of Some as \<Rightarrow> as \<noteq> [] | None \<Rightarrow> False)"

definition canSave :: "message_editor \<Rightarrow> bool" where
  "canSave s \<longleftrightarrow> \<not> me_isSaving s \<and> \<not> isMessageContentTooLong (me_value s)
     \<and> (trim (me_value s) \<noteq> [] \<or> hasAttachments (me_message s))"

datatype editor_effect = SubmitEdit int string | EditToast edit_error_text | CloseEditor

definition save_edit :: "message_editor \<Rightarrow> message_editor \<times> editor_effect list" where
  "save_edit s =
     (if \<not> canSave s then (s, [])
      else let next' = trim (me_value s)
           in if next' = m_content (me_message s) then (s\<lparr>me_open := False\<rparr>, [CloseEditor])
              else (s\<lparr>me_isSaving := True, me_error := None\<rparr>, [SubmitEdit (m_id (me_message s)) next']))"

definition edit_answered :: "string option \<Rightarrow> message_editor \<Rightarrow> message_editor \<times> editor_effect list" where
  "edit_answered failure s = (case failure of
     None \<Rightarrow> (s\<lparr>me_open := False\<rparr>, [CloseEditor])
   | Some raw \<Rightarrow> (if raw \<in> set FATAL_EDIT_ERRORS
       then (s\<lparr>me_open := False\<rparr>, [EditToast (translateEditError raw), CloseEditor])
       else (s\<lparr>me_error := Some (translateEditError raw), me_isSaving := False\<rparr>, [])))"

text \<open>While it saves the input and the buttons are disabled.\<close>

datatype editor_input = EditorType string | EditorSave | EditorCancel | EditAnswered "string option"

fun editor_enabled :: "message_editor \<Rightarrow> editor_input \<Rightarrow> bool" where
  "editor_enabled s (EditAnswered r) \<longleftrightarrow> me_open s \<and> me_isSaving s"
| "editor_enabled s _ \<longleftrightarrow> me_open s \<and> \<not> me_isSaving s"

fun editor_step :: "message_editor \<Rightarrow> editor_input \<Rightarrow> message_editor \<times> editor_effect list" where
  "editor_step s (EditorType v) = (s\<lparr>me_value := v\<rparr>, [])"
| "editor_step s EditorSave = save_edit s"
| "editor_step s EditorCancel = (s\<lparr>me_open := False\<rparr>, [CloseEditor])"
| "editor_step s (EditAnswered r) = edit_answered r s"

text \<open>The handler of the server: \<open>row\<close> is the message if it is there; its author, whether the window is over, whether it
  has attachments. The result is an error or the content that is stored.\<close>

record message_row =
  mr_author :: int
  mr_window_expired :: bool
  mr_has_attachments :: bool

definition EditMessage :: "int \<Rightarrow> string \<Rightarrow> message_row option \<Rightarrow> string + string" where
  "EditMessage userID content row = (case row of
     None \<Rightarrow> Inl ''message not found''
   | Some r \<Rightarrow> (if mr_author r \<noteq> userID then Inl ''user is not message owner''
       else if mr_window_expired r then Inl ''edit window expired''
       else if content = [] \<and> \<not> mr_has_attachments r then Inl ''content is required''
       else Inr (if content = [] then '' '' else content)))"

definition edit_handler :: "bool \<Rightarrow> int \<Rightarrow> int \<Rightarrow> string \<Rightarrow> message_row option \<Rightarrow> string + string" where
  "edit_handler allowed userID messageID content row =
     (if \<not> allowed then Inl ''rate limit exceeded for edit_message''
      else if messageID \<le> 0 then Inl ''message_id is required''
      else let content' = trim content
           in if MAX_MESSAGE_CONTENT_LEN < length content' then Inl ''content is too long''
              else EditMessage userID content' row)"

section \<open>Headlines of the search\<close>

fun cut_at :: "string \<Rightarrow> string \<Rightarrow> (string \<times> string) option" where
  "cut_at p [] = (if p = [] then Some ([], []) else None)"
| "cut_at p (c # s) = (if prefix p (c # s) then Some ([], drop (length p) (c # s))
     else map_option (\<lambda>(a, b). (c # a, b)) (cut_at p s))"

definition HL_START :: string where "HL_START = ''[[HL]]''"
definition HL_STOP :: string where "HL_STOP = ''[[/HL]]''"

datatype headline_part = HeadText string | Mark string

definition head_text :: "string \<Rightarrow> headline_part list" where
  "head_text s = (if s = [] then [] else [HeadText s])"

lemma cut_shorter: "cut_at p s = Some (a, b) \<Longrightarrow> length b + length p \<le> length s"
  by (induction p s arbitrary: a b rule: cut_at.induct) (auto split: if_splits dest!: prefix_length_le)

function renderHeadline :: "string \<Rightarrow> headline_part list" where
  "renderHeadline s = (case cut_at HL_START s of
     None \<Rightarrow> head_text s
   | Some (before, r) \<Rightarrow> (case cut_at HL_STOP r of
       None \<Rightarrow> head_text s
     | Some (marked, r') \<Rightarrow> head_text before @ Mark marked # renderHeadline r'))"
  by auto
termination
  by (relation "measure length") (auto dest!: cut_shorter simp: HL_START_def)

declare renderHeadline.simps [simp del]

section \<open>Who types\<close>

record typing_names =
  tn_resolvedNames :: "string record_map"
  tn_requested :: "int list"

definition new_typing_names :: typing_names where
  "new_typing_names = \<lparr>tn_resolvedNames = [], tn_requested = []\<rparr>"

definition name_or :: "string \<Rightarrow> string \<Rightarrow> string option" where
  "name_or nickname firstName = (if trim nickname \<noteq> [] then Some (trim nickname)
     else if trim firstName \<noteq> [] then Some (trim firstName) else None)"

definition resolveNameFromOnline :: "int \<Rightarrow> OnlineUser list \<Rightarrow> string option" where
  "resolveNameFromOnline userId us = (case find (\<lambda>u. ou_user_id u = Some userId) us of
     None \<Rightarrow> None | Some u \<Rightarrow> name_or (name_text (ou_nickname u)) (name_text (ou_first_name u)))"

definition resolveNameFromMessages :: "int \<Rightarrow> Message list \<Rightarrow> string option" where
  "resolveNameFromMessages userId ms = (case find (\<lambda>m. m_author_id m = userId) (rev ms) of
     None \<Rightarrow> None | Some m \<Rightarrow> name_or (str_or [] (m_author_nickname m)) (str_or [] (m_author_first_name m)))"

definition resolved :: "int \<Rightarrow> string record_map \<Rightarrow> bool" where
  "resolved userId names \<longleftrightarrow> map_get_or [] names userId \<noteq> []"

definition set_name :: "int \<Rightarrow> string \<Rightarrow> typing_names \<Rightarrow> typing_names" where
  "set_name userId name s = (if resolved userId (tn_resolvedNames s) then s
     else s\<lparr>tn_resolvedNames := map_set userId name (tn_resolvedNames s)\<rparr>)"

text \<open>One user in the effect: \<open>closure\<close> is what was resolved when the page was rendered; the users it asks the server for.\<close>

definition resolve_one :: "string record_map \<Rightarrow> OnlineUser list \<Rightarrow> Message list \<Rightarrow> int \<Rightarrow> typing_names \<Rightarrow> typing_names \<times> int list" where
  "resolve_one closure us ms userId s =
     (if resolved userId closure then (s, [])
      else case resolveNameFromOnline userId us of
        Some n \<Rightarrow> (set_name userId n s, [])
      | None \<Rightarrow> (case resolveNameFromMessages userId ms of
          Some n \<Rightarrow> (set_name userId n s, [])
        | None \<Rightarrow> (if userId \<in> set (tn_requested s) then (s, [])
            else (s\<lparr>tn_requested := set_add userId (tn_requested s)\<rparr>, [userId]))))"

fun resolve_all :: "string record_map \<Rightarrow> OnlineUser list \<Rightarrow> Message list \<Rightarrow> int list \<Rightarrow> typing_names \<Rightarrow> typing_names \<times> int list" where
  "resolve_all closure us ms [] s = (s, [])"
| "resolve_all closure us ms (i # is) s =
     (let (s1, r1) = resolve_one closure us ms i s; (s2, r2) = resolve_all closure us ms is s1 in (s2, r1 @ r2))"

definition user_info_answered :: "int \<Rightarrow> UserProfile option \<Rightarrow> typing_names \<Rightarrow> typing_names" where
  "user_info_answered userId answer s = (case answer of
     None \<Rightarrow> s
   | Some p \<Rightarrow> (case name_or (name_text (up_nickname p)) (up_first_name p) of Some n \<Rightarrow> set_name userId n s | None \<Rightarrow> s))"

datatype names_input = NamesEffect "int list" "OnlineUser list" "Message list" | UserInfo int "UserProfile option"

fun names_step :: "typing_names \<Rightarrow> names_input \<Rightarrow> typing_names \<times> int list" where
  "names_step s (NamesEffect is us ms) = resolve_all (tn_resolvedNames s) us ms is s"
| "names_step s (UserInfo i answer) = (user_info_answered i answer s, [])"

datatype typing_label =
    NoOneTypes | OneUnknownTypes | SomeUnknownType | OneTypes string | TwoType string string | ThreeType string string | SeveralType

definition typing_text :: "int list \<Rightarrow> typing_names \<Rightarrow> typing_label" where
  "typing_text userIds s =
     (let names = filter (\<lambda>n. n \<noteq> []) (map (map_get_or [] (tn_resolvedNames s)) userIds)
      in if userIds = [] then NoOneTypes
         else if 4 \<le> length userIds then SeveralType
         else if length names \<noteq> length userIds then (if length userIds = 1 then OneUnknownTypes else SomeUnknownType)
         else case names of
           [a] \<Rightarrow> OneTypes a
         | [a, b] \<Rightarrow> TwoType a b
         | [a, b, c] \<Rightarrow> ThreeType a b
         | _ \<Rightarrow> SeveralType)"

section \<open>Users, conversations and badges\<close>

definition online_initials :: "(string \<Rightarrow> string) \<Rightarrow> OnlineUser \<Rightarrow> string" where
  "online_initials upper user =
     (let nickname = trim (name_text (ou_nickname user));
          initials = upper (take 1 (name_text (ou_first_name user)) @ take 1 (name_text (ou_last_name user)))
      in if nickname \<noteq> [] then word_initials upper nickname else if initials \<noteq> [] then initials else ''U'')"

record online_row =
  or_name :: string
  or_initials :: string
  or_avatar :: string
  or_profile :: "int option"

definition online_user_row :: "(string \<Rightarrow> string) \<Rightarrow> (string \<rightharpoonup> string) \<Rightarrow> OnlineUser \<Rightarrow> online_row" where
  "online_user_row upper avatarByName user =
     (let displayName = (if trim (name_text (ou_nickname user)) \<noteq> [] then trim (name_text (ou_nickname user)) else ''User'');
          direct = trim (name_text (ou_avatar_url user))
      in \<lparr>or_name = displayName, or_initials = online_initials upper user,
          or_avatar = (if direct \<noteq> [] then direct else name_text (avatarByName (to_lower displayName))),
          or_profile = ou_user_id user\<rparr>)"

definition formatUnreadCount :: "int \<Rightarrow> string" where
  "formatUnreadCount n = (if 99 < n then ''99+'' else show_int n)"

record dm_row =
  dr_channel :: int
  dr_active :: bool
  dr_online :: bool
  dr_badge :: "string option"

definition dm_list_row :: "int \<Rightarrow> int list \<Rightarrow> int record_map \<Rightarrow> DMChannel \<Rightarrow> dm_row" where
  "dm_list_row selected online unread dm =
     (let n = map_get_or 0 unread (dm_channel_id dm)
      in \<lparr>dr_channel = dm_channel_id dm, dr_active = (selected = dm_channel_id dm), dr_online = (dm_peer_user_id dm \<in> set online),
          dr_badge = (if 0 < n then Some (formatUnreadCount n) else None)\<rparr>)"

definition document_title :: "int \<Rightarrow> bool \<Rightarrow> string" where
  "document_title totalUnread hasUnreadMention =
     (if totalUnread \<le> 0 then ''MuArAb''
      else (if hasUnreadMention then ''(@)'' else ''('' @ (if 99 < totalUnread then ''99+'' else show_int totalUnread) @ '')'') @ '' MuArAb'')"

definition app_badge :: "int \<Rightarrow> int option" where
  "app_badge totalUnread = (if 0 < totalUnread then Some totalUnread else None)"

definition favicon_dot :: "int \<Rightarrow> bool" where
  "favicon_dot totalUnread \<longleftrightarrow> 0 < totalUnread"

end
