(* ===== verification/MessageViewProps.thy ===== *)
theory MessageViewProps
  imports MessageView
begin

text \<open>Headlines are read back, pictures open themselves, edits that are sent are accepted, only own messages are deleted.\<close>

section \<open>Headlines\<close>

text \<open>A marker that does not overlap itself is found where it was put.\<close>

definition borderless :: "string \<Rightarrow> bool" where
  "borderless p \<longleftrightarrow> list_all (\<lambda>k. take k p \<noteq> drop (length p - k) p) [1..<length p]"

lemma markers_borderless: "borderless HL_START" "borderless HL_STOP"
  by code_simp+

lemma cut_at_found:
  assumes "\<not> sublist p a" and "borderless p" and "p \<noteq> []"
  shows "cut_at p (a @ p @ r) = Some (a, r)"
  using assms(1)
proof (induction a)
  case Nil
  then show ?case using assms(3) by (cases p) simp_all
next
  case (Cons c a)
  have "\<not> prefix p (c # a @ p @ r)"
  proof
    assume pre: "prefix p (c # a @ p @ r)"
    then obtain u where u: "p @ u = (c # a) @ p @ r" by (auto simp: prefix_def)
    show False
    proof (cases "length p \<le> length (c # a)")
      case True
      with u have "prefix p (c # a)" by (metis append_eq_append_conv_if prefixI append_take_drop_id)
      with Cons.prems show False by (simp add: prefix_imp_sublist)
    next
      case False
      let ?n = "length (c # a)"
      let ?k = "length p - ?n"
      have "drop ?n p @ u = p @ r" using arg_cong [OF u, of "drop ?n"] False by simp
      then have "drop ?n p = take ?k p" using False by (metis append_eq_append_conv_if length_drop append_eq_conv_conj diff_le_self)
      moreover have "?k \<in> set [1..<length p]" "length p - ?k = ?n" using False by auto
      ultimately show False using assms(2) unfolding borderless_def list_all_iff by metis
    qed
  qed
  moreover have "\<not> sublist p a" using Cons.prems by (simp add: sublist_Cons_right)
  ultimately show ?case using Cons.IH by simp
qed

lemma cut_at_none: "p \<noteq> [] \<Longrightarrow> \<not> sublist p s \<Longrightarrow> cut_at p s = None"
proof (induction s)
  case (Cons c s)
  then have "\<not> prefix p (c # s)" "\<not> sublist p s" by (simp_all add: sublist_Cons_right)
  with Cons show ?case by simp
qed simp

text \<open>What the database writes for the plain and marked pieces of a text.\<close>

definition headline_of :: "(string \<times> string) list \<Rightarrow> string \<Rightarrow> string" where
  "headline_of pieces rest = concat (map (\<lambda>(a, b). a @ HL_START @ b @ HL_STOP) pieces) @ rest"

text \<open>A headline of pieces that do not contain the markers is shown as exactly these pieces, the marked ones marked.\<close>

theorem headline_read_back:
  assumes "\<forall>(a, b) \<in> set pieces. \<not> sublist HL_START a \<and> \<not> sublist HL_STOP b" and "\<not> sublist HL_START rest"
  shows "renderHeadline (headline_of pieces rest) = concat (map (\<lambda>(a, b). head_text a @ [Mark b]) pieces) @ head_text rest"
  using assms(1)
proof (induction pieces)
  case Nil
  have "cut_at HL_START rest = None" using assms(2) by (intro cut_at_none) (simp_all add: HL_START_def)
  then show ?case by (simp add: headline_of_def renderHeadline.simps [of rest])
next
  case (Cons ab pieces)
  obtain a b where ab: "ab = (a, b)" by fastforce
  let ?r = "headline_of pieces rest"
  have h: "headline_of (ab # pieces) rest = a @ HL_START @ b @ HL_STOP @ ?r" by (simp add: headline_of_def ab)
  have "cut_at HL_START (a @ HL_START @ b @ HL_STOP @ ?r) = Some (a, b @ HL_STOP @ ?r)"
    using Cons.prems ab markers_borderless by (intro cut_at_found) (auto simp: HL_START_def)
  moreover have "cut_at HL_STOP (b @ HL_STOP @ ?r) = Some (b, ?r)"
    using Cons.prems ab markers_borderless by (intro cut_at_found) (auto simp: HL_STOP_def)
  moreover have "renderHeadline ?r = concat (map (\<lambda>(a, b). head_text a @ [Mark b]) pieces) @ head_text rest"
    using Cons by auto
  ultimately show ?case unfolding h by (simp add: renderHeadline.simps [of "a @ HL_START @ b @ HL_STOP @ ?r"] ab)
qed

section \<open>Pictures\<close>

lemma find_index_found:
  "x \<in> set xs \<Longrightarrow> p x \<Longrightarrow> 0 \<le> find_index p xs \<and> find_index p xs < int (length xs) \<and> p (xs ! nat (find_index p xs))"
proof (induction xs)
  case (Cons y ys)
  show ?case
  proof (cases "p y")
    case False
    with Cons have "0 \<le> find_index p ys \<and> find_index p ys < int (length ys) \<and> p (ys ! nat (find_index p ys))" by auto
    then show ?thesis using False by (simp add: Let_def nat_add_distrib)
  qed simp
qed simp

definition viewer_ok :: "ImageViewerState \<Rightarrow> bool" where
  "viewer_ok s \<longleftrightarrow> 0 \<le> iv_index s \<and> iv_index s < int (length (iv_items s))"

text \<open>A click on a picture of a message opens the viewer on that picture, whatever was shown before; the arrow keys then
  stay within the pictures of the message, and go back where they came from.\<close>

theorem pictures_open_themselves:
  assumes "m_attachments msg = Some as" and "att \<in> set as" and "isImageType (att_content_type att)"
    and "picture_click False (renderAttachment (message_images msg) att) = Some i"
    and "openImageViewer (message_images msg) i before = Some v"
  shows "vi_url (iv_items v ! nat (iv_index v)) = att_url att \<and> iv_items v = message_images msg \<and> viewer_ok v
    \<and> (viewer_keydown k v = Some v' \<longrightarrow> viewer_ok v' \<and> iv_items v' = iv_items v) \<and> goPrev (goNext v) = v \<and> goNext (goPrev v) = v"
proof -
  let ?p = "\<lambda>img. vi_url img = att_url att"
  let ?im = "message_images msg"
  have "\<lparr>vi_url = att_url att, vi_alt = att_file_name att\<rparr> \<in> set ?im"
    using assms(1-3) by (force simp: message_images_def)
  from find_index_found [where p = ?p, OF this]
  have f: "0 \<le> find_index ?p ?im" "find_index ?p ?im < int (length ?im)" "?p (?im ! nat (find_index ?p ?im))" by auto
  then have i: "i = find_index ?p ?im" using assms(3,4) by (simp add: renderAttachment_def picture_click_def Let_def)
  have pos: "0 < int (length ?im)" using f(1,2) by linarith
  then have "?im \<noteq> []" by fastforce
  with assms(5) have "v = \<lparr>iv_items = ?im, iv_index = min (max i 0) (int (length ?im) - 1)\<rparr>" by (simp add: openImageViewer_def)
  with f i have v: "iv_items v = ?im" "iv_index v = i" by simp_all
  have ok: "viewer_ok v" using v f i by (simp add: viewer_ok_def)
  define n where "n = int (length ?im)"
  have n: "0 < n" "0 \<le> i" "i < n" unfolding n_def i using pos f by blast+
  have "viewer_ok v' \<and> iv_items v' = iv_items v" if "viewer_keydown k v = Some v'"
    using that ok n v by (auto simp: viewer_keydown_def viewer_ok_def goPrev_def goNext_def n_def split: viewer_key.splits if_splits)
  moreover have "((i + 1) mod n + n - 1) mod n = i"
    using mod_add_left_eq [of "i + 1" n "n - 1"] n by (simp add: algebra_simps)
  moreover have "((i + n - 1) mod n + 1) mod n = i"
    using mod_add_left_eq [of "i + n - 1" n 1] n by simp
  ultimately show ?thesis using ok v f i unfolding n_def by (simp add: goPrev_def goNext_def)
qed

section \<open>Editing\<close>

lemma trim_trim [simp]: "trim (trim s) = trim s"
proof (cases "trim s = []")
  case False
  have d: "dropWhile is_space x = x" if "x \<noteq> [] \<Longrightarrow> \<not> is_space (hd x)" for x using that by (cases x) auto
  have "dropWhile is_space (trim s) = trim s" "dropWhile is_space (rev (trim s)) = rev (trim s)"
    using trim_ends [of s] False by (intro d; simp add: hd_rev)+
  then show ?thesis by (simp add: trim_def [of "trim s"])
qed simp

text \<open>An edit worth sending: another text than before, not too long, and not empty unless there are attachments.\<close>

definition worthwhile :: "Message \<Rightarrow> editor_effect \<Rightarrow> bool" where
  "worthwhile m eff \<longleftrightarrow> (case eff of SubmitEdit i c \<Rightarrow> i = m_id m \<and> c \<noteq> m_content m \<and> trim c = c
     \<and> length c \<le> MAX_MESSAGE_CONTENT_LEN \<and> (c \<noteq> [] \<or> hasAttachments m) | _ \<Rightarrow> True)"

lemma editor_keeps: "me_message s = m \<Longrightarrow> me_message (fst (editor_step s e)) = m \<and> (\<forall>eff \<in> set (snd (editor_step s e)). worthwhile m eff)"
  by (cases e) (auto simp: save_edit_def canSave_def edit_answered_def worthwhile_def isMessageContentTooLong_def Let_def
      split: option.splits)

lemma editor_run:
  "run editor_enabled editor_step (new_editor m) es s os \<Longrightarrow> me_message s = m \<and> (\<forall>eff \<in> set os. worthwhile m eff)"
proof (induction "new_editor m" es s os rule: run.induct)
  case (run_snoc es s os e t os')
  then show ?case using editor_keeps [of s m e] by auto
qed (simp add: new_editor_def)


text \<open>The errors that close the editor are those that no other text avoids.\<close>

lemma fatal_errors_stay:
  "EditMessage me c row = Inl e \<Longrightarrow> e \<in> set FATAL_EDIT_ERRORS \<longleftrightarrow> (\<forall>c'. EditMessage me c' row = Inl e)"
proof (cases row)
  case (Some r)
  assume e: "EditMessage me c row = Inl e"
  show ?thesis
  proof (cases "mr_author r \<noteq> me \<or> mr_window_expired r")
    case False
    with Some e have "e = ''content is required''" by (simp add: EditMessage_def split: if_splits)
    moreover have "EditMessage me ''x'' row \<noteq> Inl e" using Some False by (simp add: EditMessage_def)
    ultimately show ?thesis by (auto simp: FATAL_EDIT_ERRORS_def)
  qed (use Some e in \<open>auto simp: EditMessage_def FATAL_EDIT_ERRORS_def split: if_splits\<close>)
qed (auto simp: EditMessage_def FATAL_EDIT_ERRORS_def)

section \<open>Deleting\<close>

definition ui_inv :: "int option \<Rightarrow> list_ui \<Rightarrow> bool" where
  "ui_inv me s \<longleftrightarrow> (\<forall>m. lu_sheetDeleteTarget s = Some m \<longrightarrow> isOwn me m)"

lemma ui_step:
  "ui_inv me s \<Longrightarrow> list_enabled ms me s e \<Longrightarrow> ui_inv me (fst (list_step touch s e))
     \<and> (\<forall>i c. DeleteMessage i c \<in> set (snd (list_step touch s e)) \<longrightarrow> (\<exists>m. isOwn me m \<and> i = m_id m \<and> c = m_channel_id m))"
  by (cases e) (auto simp: ui_inv_def list_enabled_def buildMenuItems_def canEditMessage_def Let_def split: option.splits message_action.splits if_splits)

text \<open>Only messages of the user are deleted, in every sequence of clicks on the rows, the menus and the sheet.\<close>

theorem only_own_messages_deleted:
  assumes "run (list_enabled ms me) (list_step touch) new_list_ui es s os" and "DeleteMessage i c \<in> set os"
  shows "\<exists>m. isOwn me m \<and> i = m_id m \<and> c = m_channel_id m"
proof -
  have "ui_inv me s \<and> (\<forall>i c. DeleteMessage i c \<in> set os \<longrightarrow> (\<exists>m. isOwn me m \<and> i = m_id m \<and> c = m_channel_id m))"
    using assms(1)
  proof (induction "new_list_ui" es s os rule: run.induct)
    case (run_snoc es s os e t os')
    then show ?case using ui_step [of me s ms e touch] by auto
  qed (simp add: ui_inv_def new_list_ui_def)
  with assms(2) show ?thesis by blast
qed

section \<open>Rows\<close>

text \<open>The list is mounted while the channel is loading: then every message of it is shown as new.\<close>

lemma initial_bound: "x \<in> set ms \<Longrightarrow> m_id x \<le> fold (\<lambda>m mx. max mx (m_id m)) ms k"
proof (induction ms arbitrary: k)
  case (Cons m ms)
  have "j \<le> fold (\<lambda>m mx. max mx (m_id m)) ms j" for j by (induction ms arbitrary: j) (simp, metis fold_simps(2) max.cobounded1 order_trans)
  from this [of "max k (m_id m)"] Cons show ?case by auto
qed simp

lemma mounted_with_messages: "x \<in> set ms \<Longrightarrow> \<not> row_new (initialMaxId ms) x"
  using initial_bound [of x ms 0] by (simp add: row_new_def initialMaxId_def)

lemma mounted_while_loading: "0 < m_id x \<Longrightarrow> row_new (initialMaxId []) x"
  by (simp add: row_new_def initialMaxId_def)

text \<open>A reply to the user notifies as a mention and its row is not marked as one.\<close>

lemma reply_row_not_marked:
  assumes "m_reply_to msg = Val r" and "rp_author_id r = u" and "m_mentions msg = None" and "m_mentions_everyone msg = None"
  shows "isMention msg (Some u) \<and> \<not> row_mentioned (Some u) msg"
  using assms by (simp add: isMention_def row_mentioned_def)

section \<open>Who types\<close>

lemma resolve_one_asks:
  "resolve_one cl us ms i s = (s', r) \<Longrightarrow> set (tn_requested s') = set (tn_requested s) \<union> set r
     \<and> set r \<inter> set (tn_requested s) = {} \<and> distinct r"
  by (auto simp: resolve_one_def set_name_def set_add_def split: if_splits option.splits)

lemma resolve_all_asks:
  "resolve_all cl us ms is s = (s', r) \<Longrightarrow> set (tn_requested s') = set (tn_requested s) \<union> set r
     \<and> set r \<inter> set (tn_requested s) = {} \<and> distinct r"
proof (induction "is" arbitrary: s s' r)
  case (Cons i "is")
  obtain s1 r1 where 1: "resolve_one cl us ms i s = (s1, r1)" by fastforce
  obtain s2 r2 where 2: "resolve_all cl us ms is s1 = (s2, r2)" by fastforce
  have "s' = s2" "r = r1 @ r2" using Cons.prems 1 2 by simp_all
  with resolve_one_asks [OF 1] Cons.IH [OF 2] show ?case by auto
qed simp

text \<open>The server is asked for the name of a user at most once, also when it did not answer.\<close>

lemma names_asked_once:
  "run (\<lambda>_ _. True) names_step new_typing_names es s os \<Longrightarrow> distinct os \<and> set os = set (tn_requested s)"
proof (induction "new_typing_names" es s os rule: run.induct)
  case (run_snoc es s os e t os')
  show ?case
  proof (cases e)
    case (NamesEffect "is" us ms)
    with run_snoc have "resolve_all (tn_resolvedNames s) us ms is s = (t, os')" by simp
    from resolve_all_asks [OF this] run_snoc show ?thesis by auto
  next
    case (UserInfo i answer)
    have q: "tn_requested (user_info_answered i answer s) = tn_requested s"
      by (simp add: user_info_answered_def set_name_def split: option.split)
    have "t = user_info_answered i answer s" "os' = []" using run_snoc.hyps UserInfo by simp_all
    moreover have "distinct os \<and> set os = set (tn_requested s)" using run_snoc.hyps by blast
    ultimately show ?thesis using q by simp
  qed
qed (simp add: new_typing_names_def)

text \<open>The one name that is shown is that of the one who types.\<close>

lemma one_types: "typing_text is s = OneTypes n \<longleftrightarrow> (\<exists>i. is = [i] \<and> n = map_get_or [] (tn_resolvedNames s) i \<and> n \<noteq> [])"
proof -
  consider "is = []" | i where "is = [i]" | i j where "is = [i, j]" | i j k where "is = [i, j, k]" | "4 \<le> length is"
    by (cases "is"; cases "tl is"; cases "tl (tl is)"; cases "tl (tl (tl is))") auto
  then show ?thesis
    by cases (auto simp: typing_text_def Let_def)
qed

section \<open>At work\<close>

definition shown_message :: Message where
  "shown_message = \<lparr>m_id = 5, m_channel_id = 3, m_author_id = 9, m_author_first_name = JStr [],
     m_author_last_name = JStr [], m_author_nickname = JStr ''ann'', m_author_avatar_url = [], m_content = ''hello'',
     m_attachments = Some [\<lparr>att_url = ''/a'', att_file_name = ''a'', att_content_type = ''image/png''\<rparr>,
       \<lparr>att_url = ''/b'', att_file_name = ''b'', att_content_type = ''image/png''\<rparr>],
     m_reply_to_id = Absent, m_reply_to = Absent, m_mentions = None,
     m_mentions_everyone = None, m_embeds = [], m_created_at = ''now'', m_edited_at = None\<rparr>"

lemma headline_read_back_witness:
  "renderHeadline ''a [[HL]]b[[/HL]] c'' = [HeadText ''a '', Mark ''b'', HeadText '' c'']"
proof -
  have "\<forall>(a, b) \<in> set [(''a '', ''b'')]. \<not> sublist HL_START a \<and> \<not> sublist HL_STOP b" "\<not> sublist HL_START '' c''"
    by code_simp+
  from headline_read_back [OF this] show ?thesis by (simp add: headline_of_def HL_START_def HL_STOP_def head_text_def)
qed

lemma pictures_open_themselves_witness:
  "\<exists>v. openImageViewer (message_images shown_message) 1 None = Some v \<and> vi_url (iv_items v ! nat (iv_index v)) = ''/b''
     \<and> goNext (goPrev v) = v"
proof -
  let ?att = "\<lparr>att_url = ''/b'', att_file_name = ''b'', att_content_type = ''image/png''\<rparr>"
  obtain v where v: "openImageViewer (message_images shown_message) 1 None = Some v"
    by (auto simp: openImageViewer_def message_images_def shown_message_def isImageType_def)
  have p: "picture_click False (renderAttachment (message_images shown_message) ?att) = Some 1" by code_simp
  have a: "m_attachments shown_message = Some [\<lparr>att_url = ''/a'', att_file_name = ''a'', att_content_type = ''image/png''\<rparr>, ?att]"
    by (simp add: shown_message_def)
  have i: "isImageType (att_content_type ?att)" by (simp add: isImageType_def)
  have "?att \<in> set [\<lparr>att_url = ''/a'', att_file_name = ''a'', att_content_type = ''image/png''\<rparr>, ?att]" by simp
  from pictures_open_themselves [OF a this i p v]
  have "vi_url (iv_items v ! nat (iv_index v)) = att_url ?att" "goNext (goPrev v) = v" by blast+
  with v show ?thesis by simp
qed


lemma only_own_messages_deleted_witness:
  "DeleteMessage 5 3 \<in> set (snd (exec_run (list_step False) new_list_ui
      [OpenMenu shown_message, PickAction 10 DeleteAction, ConfirmDelete shown_message]))
    \<and> (\<exists>m. isOwn (Some 9) m \<and> 5 = m_id m \<and> 3 = m_channel_id m)"
  (is "_ \<in> set (snd (exec_run ?st ?s0 ?es)) \<and> _")
proof -
  obtain s os where e: "exec_run ?st ?s0 ?es = (s, os)" by fastforce
  have en: "enabled_run (list_enabled (\<lambda>_. None) (Some 9)) ?st ?s0 ?es" by code_simp
  have os: "DeleteMessage 5 3 \<in> set (snd (exec_run ?st ?s0 ?es))" by code_simp
  with e have "DeleteMessage 5 3 \<in> set os" by simp
  from only_own_messages_deleted [OF exec_run_run [OF en e] this] os show ?thesis by blast
qed

end
