(* ===== verification/Players.thy ===== *)
theory Players
  imports Media
begin

text \<open>
  The players on the page: the sound of a video tile (\<^verbatim>\<open>components/VideoTile.tsx\<close>, \<^verbatim>\<open>VolumeSlider.tsx\<close>), the controls of the
  media and the video player over the machine of \<open>Media\<close> (\<^verbatim>\<open>MediaPlayer.tsx\<close>, \<^verbatim>\<open>VideoPlayer.tsx\<close>), the clock of a call
  (\<^verbatim>\<open>VoiceMiniBar.tsx\<close>) and the sheet that is dragged away (\<^verbatim>\<open>Sheet.tsx\<close>). Streams are numbers, volumes rational.
\<close>

section \<open>Video tiles\<close>

text \<open>What the page passes, what the element has, the audio graph with its stream and gain, whether the browser refused to play,
  and the values the effect last ran with.\<close>

record tile_props =
  tp_stream :: "nat option"
  tp_muted :: bool
  tp_volume :: rat

record video_tile =
  vt_props :: tile_props
  vt_elMuted :: bool
  vt_elVolume :: rat
  vt_gain :: "(nat \<times> rat) option"
  vt_autoplayBlocked :: bool

definition clamped_volume :: "rat \<Rightarrow> rat" where
  "clamped_volume v = min 2 (max 0 v)"

definition tile_volume_effect :: "bool \<Rightarrow> video_tile \<Rightarrow> video_tile" where
  "tile_volume_effect graphOk s =
     (let p = vt_props s; clamped = clamped_volume (tp_volume p); effectiveMuted = (tp_muted p \<or> clamped = 0);
          native = s\<lparr>vt_gain := None, vt_elMuted := effectiveMuted, vt_elVolume := (if effectiveMuted then 0 else min 1 clamped)\<rparr>
      in case tp_stream p of
        Some st \<Rightarrow>
          (if \<not> effectiveMuted \<and> 1 < clamped
           then (if map_option fst (vt_gain s) = Some st then s\<lparr>vt_gain := Some (st, clamped), vt_elMuted := True\<rparr>
                 else if graphOk then s\<lparr>vt_gain := Some (st, clamped), vt_elMuted := True\<rparr>
                 else native)
           else native)
      | None \<Rightarrow> native)"

text \<open>The first rendering, and one with other properties: React sets \<open>muted\<close> of the element when the property changes.\<close>

definition tile_mount :: "bool \<Rightarrow> tile_props \<Rightarrow> video_tile" where
  "tile_mount graphOk p = tile_volume_effect graphOk
     \<lparr>vt_props = p, vt_elMuted = tp_muted p, vt_elVolume = 1, vt_gain = None, vt_autoplayBlocked = False\<rparr>"

definition tile_render :: "bool \<Rightarrow> tile_props \<Rightarrow> video_tile \<Rightarrow> video_tile" where
  "tile_render graphOk p s =
     (let s1 = s\<lparr>vt_props := p, vt_elMuted := (if tp_muted p = tp_muted (vt_props s) then vt_elMuted s else tp_muted p)\<rparr>
      in if p = vt_props s then s1 else tile_volume_effect graphOk s1)"

definition tile_played :: "bool \<Rightarrow> video_tile \<Rightarrow> video_tile" where
  "tile_played ok s = s\<lparr>vt_autoplayBlocked := \<not> ok\<rparr>"

definition tile_retried :: "bool \<Rightarrow> video_tile \<Rightarrow> video_tile" where
  "tile_retried ok s = (if ok then s\<lparr>vt_autoplayBlocked := False\<rparr> else s)"

datatype tile_input = TileRender tile_props | TilePlayed bool | TileRetried bool

fun tile_step :: "bool \<Rightarrow> video_tile \<Rightarrow> tile_input \<Rightarrow> video_tile" where
  "tile_step graphOk s (TileRender p) = tile_render graphOk p s"
| "tile_step graphOk s (TilePlayed ok) = tile_played ok s"
| "tile_step graphOk s (TileRetried ok) = tile_retried ok s"

text \<open>How loud the stream is heard: the element and the graph together.\<close>

definition tile_heard :: "video_tile \<Rightarrow> rat" where
  "tile_heard s = (if vt_elMuted s then 0 else vt_elVolume s) + (case vt_gain s of Some (_, g) \<Rightarrow> g | None \<Rightarrow> 0)"

text \<open>\<open>None\<close>: what the slider gives is no number.\<close>

definition slider_change :: "rat option \<Rightarrow> rat" where
  "slider_change raw = (case raw of Some v \<Rightarrow> max 0 (min 2 v) | None \<Rightarrow> 1)"

section \<open>The progress bar\<close>

definition getRatioFromEvent :: "rat \<Rightarrow> rat \<Rightarrow> rat \<Rightarrow> rat" where
  "getRatioFromEvent left width clientX = (if width = 0 then 0 else min 1 (max 0 ((clientX - left) / width)))"

record player_ui =
  pu_hoverRatio :: "rat option"
  pu_isDragging :: bool

definition handleProgressPointerDown :: "rat \<Rightarrow> media_player \<Rightarrow> player_ui \<Rightarrow> player_ui \<times> media_input list" where
  "handleProgressPointerDown ratio m s = (s\<lparr>pu_isDragging := True\<rparr>, [MSeek (ratio * mp_duration m)])"

definition handleProgressPointerMove :: "rat \<Rightarrow> media_player \<Rightarrow> player_ui \<Rightarrow> player_ui \<times> media_input list" where
  "handleProgressPointerMove ratio m s = (s\<lparr>pu_hoverRatio := Some ratio\<rparr>,
     if pu_isDragging s then [MSeek (ratio * mp_duration m)] else [])"

definition handleProgressPointerUp :: "player_ui \<Rightarrow> player_ui" where
  "handleProgressPointerUp s = s\<lparr>pu_isDragging := False\<rparr>"

definition handleProgressLeave :: "player_ui \<Rightarrow> player_ui" where
  "handleProgressLeave s = s\<lparr>pu_hoverRatio := None\<rparr>"

definition percent_of_duration :: "rat \<Rightarrow> media_player \<Rightarrow> rat" where
  "percent_of_duration t m = (if 0 < mp_duration m then t / mp_duration m * 100 else 0)"

section \<open>Keys and buttons\<close>

datatype player_key = KeySpace | KeyM | KeyF | KeyArrowRight | KeyArrowLeft | OtherPlayerKey

text \<open>\<open>inField\<close>: the key was pressed in an input.\<close>

definition player_keydown :: "bool \<Rightarrow> player_key \<Rightarrow> media_input list" where
  "player_keydown inField k = (if inField then [] else case k of
     KeySpace \<Rightarrow> [MTogglePlay] | KeyM \<Rightarrow> [MMute] | KeyArrowRight \<Rightarrow> [MSeekBy 5] | KeyArrowLeft \<Rightarrow> [MSeekBy (-5)] | _ \<Rightarrow> [])"

definition LOOP_CYCLE :: "LoopMode list" where
  "LOOP_CYCLE = [LoopOff, LoopAll, LoopOne]"

fun cycle_index :: "LoopMode \<Rightarrow> LoopMode list \<Rightarrow> nat" where
  "cycle_index m [] = 0"
| "cycle_index m (x # xs) = (if x = m then 0 else Suc (cycle_index m xs))"

definition cycleLoopMode :: "media_player \<Rightarrow> media_input" where
  "cycleLoopMode m = MLoop (LOOP_CYCLE ! ((cycle_index (mp_loopMode m) LOOP_CYCLE + 1) mod length LOOP_CYCLE))"

datatype volume_icon = VolumeOffIcon | VolumeLowIcon | VolumeHighIcon

definition VolumeIcon :: "rat \<Rightarrow> bool \<Rightarrow> volume_icon" where
  "VolumeIcon volume muted = (if muted \<or> volume = 0 then VolumeOffIcon else if volume < 3 / 5 then VolumeLowIcon else VolumeHighIcon)"

text \<open>The video player with its controls: the keys of the media player and full screen.\<close>

record video_ui =
  vu_controlsVisible :: bool
  vu_hideTimer :: bool
  vu_playing :: bool
  vu_fullscreen :: bool
  vu_pip :: bool

definition new_video_ui :: video_ui where
  "new_video_ui = \<lparr>vu_controlsVisible = True, vu_hideTimer = False, vu_playing = False, vu_fullscreen = False, vu_pip = False\<rparr>"

definition scheduleHideControls :: "video_ui \<Rightarrow> video_ui" where
  "scheduleHideControls s = s\<lparr>vu_hideTimer := True\<rparr>"

definition handleActivity :: "video_ui \<Rightarrow> video_ui" where
  "handleActivity s = (let s1 = s\<lparr>vu_controlsVisible := True\<rparr> in if vu_playing s then scheduleHideControls s1 else s1)"

text \<open>The effect on a change of playing: its clean-up clears the timer.\<close>

definition playing_changed :: "bool \<Rightarrow> video_ui \<Rightarrow> video_ui" where
  "playing_changed playing s = (if playing = vu_playing s then s
     else let s1 = s\<lparr>vu_playing := playing, vu_hideTimer := False\<rparr> in if playing then scheduleHideControls s1 else s1)"

definition hide_timer_fire :: "video_ui \<Rightarrow> video_ui" where
  "hide_timer_fire s = s\<lparr>vu_hideTimer := False, vu_controlsVisible := False\<rparr>"

definition showControls :: "video_ui \<Rightarrow> bool" where
  "showControls s \<longleftrightarrow> vu_controlsVisible s \<or> \<not> vu_playing s"

datatype video_effect = ExitFullscreen | RequestFullscreen | ExitPiP | RequestPiP | PlayerInput media_input

definition toggleFullscreen :: "bool \<Rightarrow> video_effect list" where
  "toggleFullscreen fullscreenElement = (if fullscreenElement then [ExitFullscreen] else [RequestFullscreen])"

definition togglePiP :: "bool \<Rightarrow> bool \<Rightarrow> video_effect list" where
  "togglePiP pipElement pipEnabled = (if pipElement then [ExitPiP] else if pipEnabled then [RequestPiP] else [])"

definition video_keydown :: "bool \<Rightarrow> bool \<Rightarrow> player_key \<Rightarrow> video_effect list" where
  "video_keydown inField fullscreenElement k = (if inField then [] else case k of
     KeyF \<Rightarrow> toggleFullscreen fullscreenElement | _ \<Rightarrow> map PlayerInput (player_keydown inField k))"

datatype video_input =
    VideoActivity | VideoPlaying bool | HideTimer | VideoKey bool bool player_key | FullscreenChange bool | PiPChange bool | PiPButton bool bool

fun video_step :: "video_ui \<Rightarrow> video_input \<Rightarrow> video_ui \<times> video_effect list" where
  "video_step s VideoActivity = (handleActivity s, [])"
| "video_step s (VideoPlaying b) = (playing_changed b s, [])"
| "video_step s HideTimer = (hide_timer_fire s, [])"
| "video_step s (VideoKey inField fs k) = (s, video_keydown inField fs k)"
| "video_step s (FullscreenChange b) = (s\<lparr>vu_fullscreen := b\<rparr>, [])"
| "video_step s (PiPChange b) = (s\<lparr>vu_pip := b\<rparr>, [])"
| "video_step s (PiPButton el enabled) = (s, togglePiP el enabled)"

section \<open>The clock of a call\<close>

definition pad_start :: "nat \<Rightarrow> string \<Rightarrow> string" where
  "pad_start n s = replicate (n - length s) CHR ''0'' @ s"

definition formatElapsed :: "nat \<Rightarrow> string" where
  "formatElapsed totalSeconds =
     (let h = totalSeconds div 3600; m = totalSeconds mod 3600 div 60; s = totalSeconds mod 60;
          mm = pad_start (if 0 < h then 2 else 1) (show_nat m); ss = pad_start 2 (show_nat s)
      in if 0 < h then show_nat h @ '':'' @ mm @ '':'' @ ss else mm @ '':'' @ ss)"

section \<open>Sheets\<close>

definition DRAG_CLOSE_PX :: rat where "DRAG_CLOSE_PX = 80"
definition DRAG_CLOSE_VELOCITY :: rat where "DRAG_CLOSE_VELOCITY = 1 / 2"

record sheet_drag =
  sd_startY :: rat
  sd_startT :: rat
  sd_lastY :: rat
  sd_lastT :: rat

record sheet_state =
  st_drag :: "sheet_drag option"
  st_dragY :: rat

definition new_sheet :: sheet_state where
  "new_sheet = \<lparr>st_drag = None, st_dragY = 0\<rparr>"

definition onGrabStart :: "rat \<Rightarrow> rat \<Rightarrow> sheet_state \<Rightarrow> sheet_state" where
  "onGrabStart y t s = s\<lparr>st_drag := Some \<lparr>sd_startY = y, sd_startT = t, sd_lastY = y, sd_lastT = t\<rparr>\<rparr>"

definition onGrabMove :: "rat \<Rightarrow> rat \<Rightarrow> sheet_state \<Rightarrow> sheet_state" where
  "onGrabMove y t s = (case st_drag s of None \<Rightarrow> s
   | Some d \<Rightarrow> s\<lparr>st_drag := Some (d\<lparr>sd_lastY := y, sd_lastT := t\<rparr>), st_dragY := max 0 (y - sd_startY d)\<rparr>)"

text \<open>Whether the sheet closes.\<close>

definition onGrabEnd :: "rat \<Rightarrow> rat \<Rightarrow> sheet_state \<Rightarrow> sheet_state \<times> bool" where
  "onGrabEnd y t s = (case st_drag s of None \<Rightarrow> (s, False)
   | Some d \<Rightarrow> (let dy = y - sd_startY d; velocity = dy / max 1 (t - sd_startT d)
       in (\<lparr>st_drag = None, st_dragY = 0\<rparr>, DRAG_CLOSE_PX < dy \<or> (20 < dy \<and> DRAG_CLOSE_VELOCITY < velocity))))"

end
