(* ===== verification/PlayersProps.thy ===== *)
theory PlayersProps
  imports Players
begin

text \<open>A tile is heard as loud as asked for, once; the bar seeks within the track; the controls of a video hide and come back.\<close>

section \<open>The sound of a tile\<close>

text \<open>How loud a tile with these properties should be: the volume up to twice, up to once without an audio graph.\<close>

definition tile_wanted :: "bool \<Rightarrow> tile_props \<Rightarrow> rat" where
  "tile_wanted graphOk p = (if tp_muted p then 0
     else if graphOk \<and> tp_stream p \<noteq> None then clamped_volume (tp_volume p) else min 1 (clamped_volume (tp_volume p)))"

definition tile_inv :: "bool \<Rightarrow> video_tile \<Rightarrow> bool" where
  "tile_inv graphOk s \<longleftrightarrow> tile_heard s = tile_wanted graphOk (vt_props s)
     \<and> (\<forall>st g. vt_gain s = Some (st, g) \<longrightarrow> vt_elMuted s \<and> graphOk \<and> tp_stream (vt_props s) = Some st)"

lemma clamped_range: "0 \<le> clamped_volume v" "clamped_volume v \<le> 2"
  by (simp_all add: clamped_volume_def)

lemma effect_inv:
  assumes "\<forall>st g. vt_gain s = Some (st, g) \<longrightarrow> graphOk"
  shows "tile_inv graphOk (tile_volume_effect graphOk s)"
proof -
  let ?c = "clamped_volume (tp_volume (vt_props s))"
  have c: "0 \<le> ?c" by (rule clamped_range)
  have g: "graphOk" if "map_option fst (vt_gain s) = Some st" for st using assms that by (cases "vt_gain s") auto
  show ?thesis
  proof (cases "\<not> tp_muted (vt_props s) \<and> 1 < ?c \<and> tp_stream (vt_props s) \<noteq> None")
    case True
    then obtain st where "tp_stream (vt_props s) = Some st" by blast
    with True g show ?thesis
      by (auto simp: tile_inv_def tile_volume_effect_def tile_heard_def tile_wanted_def Let_def)
  next
    case False
    then have "tile_volume_effect graphOk s = s\<lparr>vt_gain := None, vt_elMuted := (tp_muted (vt_props s) \<or> ?c = 0),
        vt_elVolume := (if tp_muted (vt_props s) \<or> ?c = 0 then 0 else min 1 ?c)\<rparr>"
      by (auto simp: tile_volume_effect_def Let_def split: option.splits)
    then show ?thesis using False c by (auto simp: tile_inv_def tile_heard_def tile_wanted_def)
  qed
qed

lemma tile_inv_step: "tile_inv graphOk s \<Longrightarrow> tile_inv graphOk (tile_step graphOk s e)"
proof (cases e)
  case (TileRender p)
  assume i: "tile_inv graphOk s"
  show ?thesis
  proof (cases "p = vt_props s")
    case True
    then have "tile_render graphOk p s = s" by (simp add: tile_render_def Let_def)
    with i TileRender show ?thesis by simp
  next
    case False
    let ?s1 = "s\<lparr>vt_props := p, vt_elMuted := (if tp_muted p = tp_muted (vt_props s) then vt_elMuted s else tp_muted p)\<rparr>"
    have "tile_step graphOk s e = tile_volume_effect graphOk ?s1" using False TileRender by (simp add: tile_render_def Let_def)
    moreover have "\<forall>st g. vt_gain ?s1 = Some (st, g) \<longrightarrow> graphOk" using i by (auto simp: tile_inv_def)
    ultimately show ?thesis using effect_inv [of ?s1 graphOk] by (simp only:)
  qed
qed (auto simp: tile_inv_def tile_played_def tile_retried_def tile_heard_def)

lemma tile_inv_run: "tile_inv graphOk (foldl (tile_step graphOk) (tile_mount graphOk p) es)"
proof -
  have "tile_inv graphOk (foldl (tile_step graphOk) s es)" if "tile_inv graphOk s" for s
    using that by (induction es arbitrary: s) (simp_all add: tile_inv_step)
  moreover have "tile_inv graphOk (tile_mount graphOk p)" unfolding tile_mount_def by (rule effect_inv) simp
  ultimately show ?thesis by blast
qed

text \<open>Through every change of the stream, the muting and the volume a tile is heard as loud as it was last asked to be, up to
  200 percent where the browser has an audio graph: never twice, by the element and the graph, and not at all when muted or
  turned down.\<close>

theorem tile_heard_as_asked:
  "tile_heard (foldl (tile_step graphOk) (tile_mount graphOk p) es) = tile_wanted graphOk (vt_props (foldl (tile_step graphOk) (tile_mount graphOk p) es))"
  using tile_inv_run [of graphOk p es] by (simp only: tile_inv_def)

section \<open>Seeking\<close>

lemma ratio_range: "0 \<le> getRatioFromEvent l w x" "getRatioFromEvent l w x \<le> 1"
  by (simp_all add: getRatioFromEvent_def)

text \<open>The bar asks for a time within the track, wherever the pointer is.\<close>

lemma bar_seeks_within:
  assumes "MSeek t \<in> set (snd (handleProgressPointerDown (getRatioFromEvent l w x) m s)
      @ snd (handleProgressPointerMove (getRatioFromEvent l w x) m s))" and "0 \<le> mp_duration m"
  shows "0 \<le> t \<and> t \<le> mp_duration m"
proof -
  have "t = getRatioFromEvent l w x * mp_duration m"
    using assms(1) by (auto simp: handleProgressPointerDown_def handleProgressPointerMove_def split: if_splits)
  with ratio_range [of l w x] assms(2) show ?thesis by (simp add: mult_left_le_one_le)
qed

lemma cycle_three:
  "mp_loopMode (fst (media_handle m (cycleLoopMode m))) \<noteq> mp_loopMode m"
  by (cases "mp_loopMode m") (simp_all add: cycleLoopMode_def LOOP_CYCLE_def)

section \<open>The controls of a video\<close>

fun video_enabled :: "video_ui \<Rightarrow> video_input \<Rightarrow> bool" where
  "video_enabled s HideTimer \<longleftrightarrow> vu_hideTimer s"
| "video_enabled s _ \<longleftrightarrow> True"

definition controls_inv :: "video_ui \<Rightarrow> bool" where
  "controls_inv s \<longleftrightarrow> (vu_playing s \<and> vu_controlsVisible s \<longrightarrow> vu_hideTimer s) \<and> (vu_hideTimer s \<longrightarrow> vu_playing s)"

lemma controls_step: "controls_inv s \<Longrightarrow> video_enabled s e \<Longrightarrow> controls_inv (fst (video_step s e))"
  by (cases e) (auto simp: controls_inv_def handleActivity_def scheduleHideControls_def playing_changed_def hide_timer_fire_def Let_def)

interpretation video_controls: machine_invariant video_enabled video_step controls_inv
  by unfold_locales (rule controls_step)

text \<open>Controls that are shown while a video plays are about to be hidden; while it does not play they are shown and no timer
  runs.\<close>

lemma controls_come_and_go:
  assumes "run video_enabled video_step new_video_ui es s os"
  shows "(vu_playing s \<and> showControls s \<longrightarrow> vu_hideTimer s) \<and> (\<not> vu_playing s \<longrightarrow> showControls s \<and> \<not> vu_hideTimer s)"
  using video_controls.inv_run [OF assms] by (auto simp: controls_inv_def new_video_ui_def showControls_def)

section \<open>Sheets and clocks\<close>

text \<open>A sheet is never closed by a drag upwards.\<close>

lemma drag_up_keeps: "st_drag s = Some d \<Longrightarrow> y \<le> sd_startY d \<Longrightarrow> \<not> snd (onGrabEnd y t s)"
  by (simp add: onGrabEnd_def DRAG_CLOSE_PX_def Let_def)

end
