(* ===== verification/VoicePanel.thy ===== *)
theory VoicePanel
  imports Voice Players MessageView
begin

text \<open>
  The call on the page (\<^verbatim>\<open>pages/ChatPage.tsx\<close>): the buttons of a call, its tiles, its banner and the full screen of a phone,
  over the state of \<open>Voice\<close>. A control is a button and whether it is disabled; the stream of a tile is its number.
\<close>

section \<open>The buttons of a call\<close>

datatype call_button =
    LeaveButton | MicButton | CameraButton | FacingButton | ScreenButton | DeafenButton | NoiseButton | SwitchButton

definition isInVoiceCall :: "voice_state \<Rightarrow> bool" where
  "isInVoiceCall s \<longleftrightarrow> 0 < vo_channel s"

definition isInSelectedVoiceChannel :: "bool \<Rightarrow> int \<Rightarrow> voice_state \<Rightarrow> bool" where
  "isInSelectedVoiceChannel isVoiceChannel selected s \<longleftrightarrow> isVoiceChannel \<and> vo_channel s = selected"

definition inCallControls :: "bool \<Rightarrow> bool \<Rightarrow> int \<Rightarrow> voice_state \<Rightarrow> (call_button \<times> bool) list" where
  "inCallControls isMobileDevice isVoiceChannel selected s =
     [(LeaveButton, False), (MicButton, vo_deafened s),
      (CameraButton, vo_cameraStarting s \<or> vo_switching s \<or> vo_localStream s = None)]
     @ (if isMobileDevice then [(FacingButton, vo_switching s \<or> vo_cameraStarting s \<or> \<not> vo_camera s)]
        else [(ScreenButton, vo_localStream s = None \<or> vo_togglingScreen s \<or> vo_switching s \<or> vo_cameraStarting s)])
     @ [(DeafenButton, False), (NoiseButton, False)]
     @ (if isVoiceChannel \<and> \<not> isInSelectedVoiceChannel isVoiceChannel selected s then [(SwitchButton, False)] else [])"

text \<open>What a click asks the voice controls for; \<open>left\<close> is the answer of leaving.\<close>

fun call_button_input :: "bool \<Rightarrow> int \<Rightarrow> call_button \<Rightarrow> voice_input" where
  "call_button_input left selected LeaveButton = VLeave left"
| "call_button_input left selected MicButton = VToggleMicrophone"
| "call_button_input left selected CameraButton = VCamera"
| "call_button_input left selected FacingButton = VFacing"
| "call_button_input left selected ScreenButton = VScreen"
| "call_button_input left selected DeafenButton = VToggleDeafen"
| "call_button_input left selected NoiseButton = VNoiseToggle"
| "call_button_input left selected SwitchButton = VJoin selected"

datatype call_icon =
    MicIcon | MicOffIcon | SpinnerIcon | CameraIcon | CameraOffIcon | RefreshIcon | MonitorIcon | MonitorOffIcon
  | SpeakerIcon | SpeakerOffIcon | NoiseIcon "NoiseSuppressionMode"

fun call_button_icon :: "voice_state \<Rightarrow> call_button \<Rightarrow> call_icon option" where
  "call_button_icon s MicButton = Some (if vo_mic s then MicIcon else MicOffIcon)"
| "call_button_icon s CameraButton = Some (if vo_cameraStarting s then SpinnerIcon else if vo_camera s then CameraIcon else CameraOffIcon)"
| "call_button_icon s FacingButton = Some RefreshIcon"
| "call_button_icon s ScreenButton = Some (if vo_screen s then MonitorOffIcon else MonitorIcon)"
| "call_button_icon s DeafenButton = Some (if vo_deafened s then SpeakerOffIcon else SpeakerIcon)"
| "call_button_icon s NoiseButton = Some (NoiseIcon (vo_noise s))"
| "call_button_icon s _ = None"

section \<open>The panel\<close>

datatype call_banner = NoBanner | ReconnectingBanner | LostBanner

definition call_status_banner :: "voice_state \<Rightarrow> call_banner" where
  "call_status_banner s = (if isInVoiceCall s \<and> vo_status s \<noteq> Connected
     then (if vo_status s = Reconnecting then ReconnectingBanner else LostBanner) else NoBanner)"

record voice_panel =
  vpn_controls :: "(call_button \<times> bool) list option"
  vpn_banner :: call_banner
  vpn_grid :: bool

text \<open>\<open>None\<close>: no panel. Outside of a call the panel has the button that joins; \<open>Reconnect\<close> of a lost call joins its channel.\<close>

definition voice_panel_view :: "bool \<Rightarrow> bool \<Rightarrow> bool \<Rightarrow> int \<Rightarrow> voice_state \<Rightarrow> voice_panel option" where
  "voice_panel_view isPhone isMobileDevice isVoiceChannel selected s =
     (if isInVoiceCall s \<or> isVoiceChannel
      then Some \<lparr>vpn_controls = (if isInVoiceCall s then Some (inCallControls isMobileDevice isVoiceChannel selected s) else None),
        vpn_banner = call_status_banner s, vpn_grid = (isInVoiceCall s \<and> \<not> isPhone)\<rparr>
      else None)"

definition join_button :: "int \<Rightarrow> voice_input" where
  "join_button selected = VJoin selected"

definition reconnect_button :: "voice_state \<Rightarrow> voice_input" where
  "reconnect_button s = VJoin (vo_channel s)"

section \<open>The tiles\<close>

definition getParticipantDisplayName :: "VoiceParticipant \<Rightarrow> string" where
  "getParticipantDisplayName p =
     (let nickname = trim (name_text (vp_nickname p));
          fullName = trim (join_with '' '' (filter (\<lambda>n. n \<noteq> []) [name_text (vp_first_name p), name_text (vp_last_name p)]))
      in if nickname \<noteq> [] then nickname else if fullName \<noteq> [] then fullName else ''User '' @ show_int (vp_user_id p))"

definition getParticipantInitials :: "(string \<Rightarrow> string) \<Rightarrow> VoiceParticipant \<Rightarrow> string" where
  "getParticipantInitials upper p =
     (let nickname = trim (name_text (vp_nickname p));
          initials = upper (take 1 (name_text (vp_first_name p)) @ take 1 (name_text (vp_last_name p)))
      in if nickname \<noteq> [] then word_initials upper nickname else if initials \<noteq> [] then initials else ''U'')"

record grid_tile =
  gt_user :: "int option"
  gt_stream :: "nat option"
  gt_label :: string
  gt_muted :: bool
  gt_volume :: rat
  gt_mic :: "bool option"
  gt_deafened :: "bool option"
  gt_quality :: "PeerQuality option"
  gt_detached :: bool
  gt_speaking :: bool

text \<open>The own tile has no user; its volume is the default of the component.\<close>

definition local_tile :: "voice_state \<Rightarrow> grid_tile list" where
  "local_tile s = (if vo_localScreen s = None \<and> vo_localStream s = None then []
     else [\<lparr>gt_user = None, gt_stream = (case vo_localScreen s of Some x \<Rightarrow> Some x | None \<Rightarrow> vo_localStream s),
       gt_label = (if vo_localScreen s \<noteq> None then ''You (screen)'' else ''You''), gt_muted = True, gt_volume = 1,
       gt_mic = Some (vo_mic s), gt_deafened = Some (vo_deafened s), gt_quality = None, gt_detached = False, gt_speaking = False\<rparr>])"

definition participant_tile :: "voice_state \<Rightarrow> VoiceParticipant \<Rightarrow> grid_tile" where
  "participant_tile s p =
     (let item = find (\<lambda>r. fst r = vp_user_id p) (vo_remote s);
          userVolume = map_get_or 1 (vo_volume s) (vp_user_id p)
      in \<lparr>gt_user = Some (vp_user_id p), gt_stream = map_option (\<lambda>(u, label, stream). stream) item,
          gt_label = (case item of Some (u, label, stream) \<Rightarrow> label | None \<Rightarrow> getParticipantDisplayName p),
          gt_muted = vo_deafened s, gt_volume = (if vo_deafened s then 0 else userVolume),
          gt_mic = vp_mic_enabled p, gt_deafened = vp_deafened p, gt_quality = map_get (vo_quality s) (vp_user_id p),
          gt_detached = (vp_user_id p \<in> detachedUserIds s), gt_speaking = (vp_user_id p \<in> vo_speakers s)\<rparr>)"

definition renderVideoGrid :: "int option \<Rightarrow> voice_state \<Rightarrow> grid_tile list" where
  "renderVideoGrid me s = local_tile s
     @ map (participant_tile s) (filter (\<lambda>p. Some (vp_user_id p) \<noteq> me) (voiceParticipantsInChannel s))"

definition grid_tile_props :: "grid_tile \<Rightarrow> tile_props" where
  "grid_tile_props t = \<lparr>tp_stream = gt_stream t, tp_muted = gt_muted t, tp_volume = gt_volume t\<rparr>"

text \<open>The name of the channel in the bar of the call: fixed words when no list has it. \<open>videoTracks\<close> counts those of a stream.\<close>

definition voiceChannelName :: "ChannelsByServer \<Rightarrow> voice_state \<Rightarrow> string option" where
  "voiceChannelName channels s = map_option ch_name (find (\<lambda>c. ch_id c = vo_channel s) (all_channels channels))"

definition hasCallVideo :: "(nat \<Rightarrow> nat) \<Rightarrow> voice_state \<Rightarrow> bool" where
  "hasCallVideo videoTracks s \<longleftrightarrow> vo_camera s \<or> (\<exists>r \<in> set (vo_remote s). 0 < videoTracks (snd (snd r)))"

definition activeVolumeParticipant :: "int option \<Rightarrow> voice_state \<Rightarrow> VoiceParticipant option" where
  "activeVolumeParticipant active s = (case active of None \<Rightarrow> None
   | Some u \<Rightarrow> find (\<lambda>p. vp_user_id p = u) (voiceParticipantsInChannel s))"

text \<open>A click on a member of a voice channel opens their volume, a second one closes it.\<close>

definition toggle_volume_user :: "int \<Rightarrow> int option \<Rightarrow> int option" where
  "toggle_volume_user u active = (if active = Some u then None else Some u)"

definition set_user_volume :: "int \<Rightarrow> rat option \<Rightarrow> voice_state \<Rightarrow> voice_state" where
  "set_user_volume u raw s = s\<lparr>vo_volume := map_set u (slider_change raw) (vo_volume s)\<rparr>"

record voice_member_row =
  vmr_user :: int
  vmr_avatar :: "string option"
  vmr_initials :: string
  vmr_name :: string
  vmr_micOff :: bool
  vmr_deafened :: bool
  vmr_popover :: bool

definition voice_member_row_of :: "(string \<Rightarrow> string) \<Rightarrow> bool \<Rightarrow> int option \<Rightarrow> VoiceParticipant \<Rightarrow> voice_member_row" where
  "voice_member_row_of upper isPhone active p =
     \<lparr>vmr_user = vp_user_id p, vmr_avatar = (if name_text (vp_avatar_url p) \<noteq> [] then vp_avatar_url p else None),
      vmr_initials = getParticipantInitials upper p, vmr_name = getParticipantDisplayName p,
      vmr_micOff = (vp_mic_enabled p = Some False), vmr_deafened = (vp_deafened p = Some True),
      vmr_popover = (\<not> isPhone \<and> active = Some (vp_user_id p))\<rparr>"

section \<open>The full screen of a phone\<close>

record call_screen =
  cs_open :: bool
  cs_autoOpened :: bool

definition new_call_screen :: call_screen where
  "new_call_screen = \<lparr>cs_open = False, cs_autoOpened = False\<rparr>"

definition call_screen_effect :: "bool \<Rightarrow> bool \<Rightarrow> bool \<Rightarrow> call_screen \<Rightarrow> call_screen" where
  "call_screen_effect inCall isPhone video s =
     (if \<not> inCall then \<lparr>cs_open = False, cs_autoOpened = False\<rparr>
      else if isPhone \<and> video \<and> \<not> cs_autoOpened s then \<lparr>cs_open = True, cs_autoOpened = True\<rparr> else s)"

datatype call_screen_input = CallRender bool bool bool | ExpandCall | CollapseCall

text \<open>The bar that expands the call and the button that collapses it are there in a call on a phone only.\<close>

fun call_screen_step :: "call_screen \<Rightarrow> call_screen_input \<Rightarrow> call_screen" where
  "call_screen_step s (CallRender inCall isPhone video) = call_screen_effect inCall isPhone video s"
| "call_screen_step s ExpandCall = s\<lparr>cs_open := True\<rparr>"
| "call_screen_step s CollapseCall = s\<lparr>cs_open := False\<rparr>"

definition call_screen_shown :: "bool \<Rightarrow> bool \<Rightarrow> call_screen \<Rightarrow> bool" where
  "call_screen_shown isPhone inCall s \<longleftrightarrow> isPhone \<and> inCall \<and> cs_open s"

definition mini_bar_shown :: "bool \<Rightarrow> bool \<Rightarrow> call_screen \<Rightarrow> bool" where
  "mini_bar_shown isPhone inCall s \<longleftrightarrow> isPhone \<and> inCall \<and> \<not> cs_open s"

section \<open>Keeping the screen awake\<close>

text \<open>The effect of \<^verbatim>\<open>CallScreen.tsx\<close>: locks are numbered as they are requested. \<open>wl_pending\<close> are the requests without an
  answer, each with the opening of the screen it belongs to; \<open>wl_held\<close> are the locks that are not released.\<close>

record wake_locks =
  wl_open :: bool
  wl_epoch :: nat
  wl_lock :: "nat option"
  wl_held :: "nat list"
  wl_pending :: "(nat \<times> nat) list"
  wl_next :: nat

definition no_wake_locks :: wake_locks where
  "no_wake_locks = \<lparr>wl_open = False, wl_epoch = 0, wl_lock = None, wl_held = [], wl_pending = [], wl_next = 0\<rparr>"

definition acquire_lock :: "wake_locks \<Rightarrow> wake_locks" where
  "acquire_lock s = s\<lparr>wl_pending := wl_pending s @ [(wl_next s, wl_epoch s)], wl_next := wl_next s + 1\<rparr>"

definition call_opened :: "wake_locks \<Rightarrow> wake_locks" where
  "call_opened s = acquire_lock (s\<lparr>wl_open := True, wl_epoch := wl_epoch s + 1, wl_lock := None\<rparr>)"

definition call_closed :: "wake_locks \<Rightarrow> wake_locks" where
  "call_closed s = s\<lparr>wl_open := False, wl_lock := None, wl_held := filter (\<lambda>l. wl_lock s \<noteq> Some l) (wl_held s)\<rparr>"

text \<open>The request \<open>l\<close> is answered: a lock that comes too late is released at once.\<close>

definition lock_granted :: "nat \<Rightarrow> wake_locks \<Rightarrow> wake_locks" where
  "lock_granted l s = (case find (\<lambda>p. fst p = l) (wl_pending s) of None \<Rightarrow> s
   | Some (i, epoch) \<Rightarrow>
       (let t = s\<lparr>wl_pending := filter (\<lambda>p. fst p \<noteq> l) (wl_pending s)\<rparr>
        in if wl_open s \<and> epoch = wl_epoch s then t\<lparr>wl_lock := Some l, wl_held := l # wl_held t\<rparr> else t))"

definition lock_denied :: "nat \<Rightarrow> wake_locks \<Rightarrow> wake_locks" where
  "lock_denied l s = s\<lparr>wl_pending := filter (\<lambda>p. fst p \<noteq> l) (wl_pending s)\<rparr>"

definition page_visible :: "wake_locks \<Rightarrow> wake_locks" where
  "page_visible s = (if wl_open s \<and> (case wl_lock s of None \<Rightarrow> True | Some l \<Rightarrow> l \<notin> set (wl_held s)) then acquire_lock s else s)"

text \<open>A hidden page: the browser releases every lock.\<close>

definition page_hidden :: "wake_locks \<Rightarrow> wake_locks" where
  "page_hidden s = s\<lparr>wl_held := []\<rparr>"

datatype wake_input = WakeOpen | WakeClose | WakeGranted nat | WakeDenied nat | PageVisible | PageHidden

text \<open>React opens and closes the effect in turn.\<close>

fun wake_enabled :: "wake_locks \<Rightarrow> wake_input \<Rightarrow> bool" where
  "wake_enabled s WakeOpen \<longleftrightarrow> \<not> wl_open s"
| "wake_enabled s WakeClose \<longleftrightarrow> wl_open s"
| "wake_enabled s _ \<longleftrightarrow> True"

fun wake_step :: "wake_locks \<Rightarrow> wake_input \<Rightarrow> wake_locks \<times> unit list" where
  "wake_step s WakeOpen = (call_opened s, [])"
| "wake_step s WakeClose = (call_closed s, [])"
| "wake_step s (WakeGranted l) = (lock_granted l s, [])"
| "wake_step s (WakeDenied l) = (lock_denied l s, [])"
| "wake_step s PageVisible = (page_visible s, [])"
| "wake_step s PageHidden = (page_hidden s, [])"

end
