(* ===== verification/VoicePanelProps.thy ===== *)
theory VoicePanelProps
  imports VoicePanel PlayersProps
begin

text \<open>
  The buttons of a call are the ones the voice controls accept, the tiles are heard as set and not at all when deafened; the
  full screen opens by itself once per call.
\<close>

section \<open>The buttons\<close>

text \<open>What each button is for.\<close>

fun call_button_effect :: "int \<Rightarrow> voice_state \<Rightarrow> call_button \<Rightarrow> voice_effect" where
  "call_button_effect selected s LeaveButton = LeaveCall"
| "call_button_effect selected s MicButton = SetMicrophone (\<not> vo_mic s)"
| "call_button_effect selected s CameraButton = SetCamera (\<not> vo_camera s)"
| "call_button_effect selected s FacingButton = ToggleFacing"
| "call_button_effect selected s ScreenButton = ToggleScreen"
| "call_button_effect selected s DeafenButton = SetMicrophone (vo_deafened s \<and> vo_micBeforeDeafen s)"
| "call_button_effect selected s NoiseButton = SetNoiseMode (if vo_noise s = NoiseRnnoise then NoiseBrowser else NoiseRnnoise)"
| "call_button_effect selected s SwitchButton = JoinCall selected"

text \<open>C31. Each button of a call that is not disabled is accepted by the voice controls and reaches the client: no click
  on it is lost. Disabled are exactly the microphone while deafened and what works on a camera or a screen that is missing or
  being changed.\<close>

theorem enabled_buttons_work:
  assumes "(b, False) \<in> set (inCallControls mobile voice selected s)" and "ve_client env" and "voice \<longrightarrow> 0 < selected"
  shows "call_button_effect selected s b \<in> set (snd (voice_step env s (call_button_input left selected b)))"
  using assms
  by (cases b) (auto simp: inCallControls_def toggleMicrophone_def toggleDeafen_def toggleCamera_start_def toggleScreenShare_start_def
      switchCameraFacingMode_start_def toggleNoiseSuppression_def setNoiseSuppression_def handleLeaveVoice_def handleJoinVoice_start_def
      set_microphone_def Let_def split: if_splits)

definition panel_env :: voice_env where
  "panel_env = \<lparr>ve_currentUserId = Some 1, ve_first_name = None, ve_last_name = None, ve_nickname = None, ve_avatarUrl = [],
     ve_client = True, ve_socket = True\<rparr>"

definition in_call :: voice_state where
  "in_call = no_voice\<lparr>vo_channel := 5, vo_localStream := Some 7, vo_camera := True\<rparr>"

theorem enabled_buttons_work_witness:
  "inCallControls False True 6 in_call = [(LeaveButton, False), (MicButton, False), (CameraButton, False), (ScreenButton, False),
      (DeafenButton, False), (NoiseButton, False), (SwitchButton, False)]
   \<and> SetCamera False \<in> set (snd (voice_step panel_env in_call VCamera)) \<and> JoinCall 6 \<in> set (snd (voice_step panel_env in_call (VJoin 6)))"
proof -
  have c: "inCallControls False True 6 in_call = [(LeaveButton, False), (MicButton, False), (CameraButton, False), (ScreenButton, False),
      (DeafenButton, False), (NoiseButton, False), (SwitchButton, False)]"
    by (simp add: inCallControls_def isInSelectedVoiceChannel_def in_call_def no_voice_def)
  have "vo_camera in_call" by (simp add: in_call_def)
  with c enabled_buttons_work [of CameraButton False True 6 in_call panel_env True] enabled_buttons_work [of SwitchButton False True 6 in_call panel_env True]
  show ?thesis by (simp add: panel_env_def)
qed

text \<open>A deafened user cannot switch the microphone on.\<close>

lemma deafened_mic_disabled: "vo_deafened s \<Longrightarrow> (MicButton, False) \<notin> set (inCallControls mobile voice selected s)"
  by (simp add: inCallControls_def)

section \<open>The tiles\<close>

lemma display_name_is_label: "getParticipantDisplayName p = toParticipantLabel p"
proof -
  have f: "filter (\<lambda>n. n \<noteq> []) (List.map_filter id [x, y]) = filter (\<lambda>n. n \<noteq> []) [name_text x, name_text y]" for x y
    by (cases x; cases y) (simp_all add: List.map_filter_def name_text_def)
  have n: "(case x of Some n \<Rightarrow> trim n | None \<Rightarrow> []) = trim (name_text x)" for x
    by (cases x) (simp_all add: name_text_def trim_def)
  show ?thesis by (simp only: getParticipantDisplayName_def toParticipantLabel_def f n Let_def)
qed

lemma grid_users: "map gt_user (renderVideoGrid me s) = map gt_user (local_tile s)
    @ map Some (filter (\<lambda>u. Some u \<noteq> me) (map vp_user_id (voiceParticipantsInChannel s)))"
  by (simp add: renderVideoGrid_def participant_tile_def Let_def filter_map comp_def)

text \<open>The volume a tile should have.\<close>

definition grid_volume :: "bool \<Rightarrow> voice_state \<Rightarrow> grid_tile \<Rightarrow> rat" where
  "grid_volume graphOk s t = (case gt_user t of None \<Rightarrow> 0
   | Some u \<Rightarrow> if vo_deafened s then 0
      else if graphOk \<and> gt_stream t \<noteq> None then clamped_volume (map_get_or 1 (vo_volume s) u)
      else min 1 (clamped_volume (map_get_or 1 (vo_volume s) u)))"

lemma grid_wanted: "t \<in> set (renderVideoGrid me s) \<Longrightarrow> tile_wanted graphOk (grid_tile_props t) = grid_volume graphOk s t"
  by (auto simp: renderVideoGrid_def local_tile_def participant_tile_def Let_def grid_tile_props_def tile_wanted_def grid_volume_def
      split: if_splits)


definition talking :: voice_state where
  "talking = in_call\<lparr>vo_participants := [(5, [\<lparr>vp_user_id = 1, vp_first_name = None, vp_last_name = None, vp_nickname = Some ''a'',
     vp_avatar_url = None, vp_mic_enabled = None, vp_deafened = None, vp_detached = None\<rparr>, \<lparr>vp_user_id = 2, vp_first_name = None,
     vp_last_name = None, vp_nickname = Some ''b'', vp_avatar_url = None, vp_mic_enabled = None, vp_deafened = None,
     vp_detached = None\<rparr>])], vo_remote := [(2, ''b'', 9)], vo_volume := [(2, 3 / 2)]\<rparr>"

definition b_props :: tile_props where "b_props = \<lparr>tp_stream = Some 9, tp_muted = False, tp_volume = 3 / 2\<rparr>"


section \<open>The full screen\<close>

text \<open>In a call the full screen opens by itself at most once: once it did, it opens by the bar only.\<close>

lemma opens_itself_once: "cs_autoOpened s \<Longrightarrow> \<not> cs_open s \<Longrightarrow> \<not> cs_open (call_screen_effect True isPhone video s)"
  by (simp add: call_screen_effect_def)

lemma leaving_closes: "\<not> cs_open (call_screen_effect False isPhone video s)"
  by (simp add: call_screen_effect_def)

text \<open>The comment of the effect says that leaving the layout of a phone closes the full screen as well: it stays open, and is
  there again on the way back.\<close>

lemma full_screen_survives_layout:
  "cs_autoOpened s \<Longrightarrow> call_screen_effect True False video s = s
   \<and> call_screen_shown True True (call_screen_effect True False video s) = cs_open s"
  by (simp add: call_screen_effect_def call_screen_shown_def)

text \<open>On a phone in a call there is the full screen or the bar.\<close>

lemma screen_or_bar: "isPhone \<and> inCall \<longleftrightarrow> call_screen_shown isPhone inCall s \<noteq> mini_bar_shown isPhone inCall s"
  by (auto simp: call_screen_shown_def mini_bar_shown_def)

section \<open>Wake locks\<close>

text \<open>A page that becomes visible while the first request is on its way asks a second time; the first lock is then forgotten
  and outlives the call screen.\<close>

lemma wake_lock_outlives_screen:
  "wl_held (foldl (\<lambda>s e. fst (wake_step s e)) no_wake_locks [WakeOpen, PageVisible, WakeGranted 0, WakeGranted 1, WakeClose]) = [0]"
  by code_simp

end
