(* ===== verification/Page.thy ===== *)
theory Page
  imports Servers DMs
begin

text \<open>
  Moving about the page (\<^verbatim>\<open>pages/ChatPage.tsx\<close>): servers, channels, conversations, notifications, links and search hits select
  a channel in the state of \<open>Servers\<close>, and the list of \<open>DMs\<close> keeps a conversation selected. The page is one machine over
  the two hooks; \<open>parse\<close> is \<open>Date.parse\<close> as in \<open>DMs\<close>.
\<close>

section \<open>State\<close>

datatype page_area = ServerArea | DmArea

record page_state =
  pa_servers :: servers_state
  pa_dms :: dm_state
  pa_view :: page_area
  pa_phone :: bool
  pa_drawer :: bool
  pa_searchOpen :: bool
  pa_userSearch :: bool
  pa_profileOpen :: bool
  pa_bootHandled :: bool

definition new_page_state :: "bool \<Rightarrow> page_state" where
  "new_page_state phone = \<lparr>pa_servers = no_servers, pa_dms = no_dms, pa_view = ServerArea, pa_phone = phone, pa_drawer = False,
     pa_searchOpen = False, pa_userSearch = False, pa_profileOpen = False, pa_bootHandled = False\<rparr>"

text \<open>The ref that the hooks read: an effect sets it to the channels of the list after every change of the list.\<close>

definition dm_ids :: "page_state \<Rightarrow> int set" where
  "dm_ids p = dm_channel_id ` set (dms_channels (pa_dms p))"

definition selected_channel :: "page_state \<Rightarrow> int" where
  "selected_channel p = sv_selectedChannel (pa_servers p)"

definition select_channel :: "int \<Rightarrow> page_state \<Rightarrow> page_state" where
  "select_channel c p = p\<lparr>pa_servers := (pa_servers p)\<lparr>sv_selectedChannel := c\<rparr>\<rparr>"

definition page_error :: "string \<Rightarrow> page_state \<Rightarrow> page_state" where
  "page_error e p = p\<lparr>pa_servers := (pa_servers p)\<lparr>sv_error := e\<rparr>\<rparr>"

datatype page_nav_effect =
    ServersEffect servers_effect
  | OpenDM int
  | JumpToMessage int int
  | HighlightMessage int
  | ResetTail int
  | ScrollToLatest
  | ClearBootParams
  | PreventDefault

section \<open>The lists\<close>

definition click_server :: "int \<Rightarrow> page_state \<Rightarrow> page_state \<times> page_nav_effect list" where
  "click_server serverId p =
     (let (s, effs) = handleSelectServer_start serverId (pa_servers p)
      in (p\<lparr>pa_view := ServerArea, pa_servers := s\<rparr>, map ServersEffect effs))"

definition click_dm_rail :: "page_state \<Rightarrow> page_state" where
  "click_dm_rail p = p\<lparr>pa_view := DmArea, pa_drawer := (pa_phone p \<or> pa_drawer p)\<rparr>"

definition click_dm :: "int \<Rightarrow> page_state \<Rightarrow> page_state" where
  "click_dm c p = (select_channel c p)\<lparr>pa_drawer := (\<not> pa_phone p \<and> pa_drawer p)\<rparr>"

definition click_channel :: "int \<Rightarrow> page_state \<Rightarrow> page_state" where
  "click_channel c p = (select_channel c p)\<lparr>pa_drawer := (\<not> pa_phone p \<and> pa_drawer p)\<rparr>"

text \<open>An answer to a synchronisation, which reads the ref.\<close>

definition page_synced :: "int option \<Rightarrow> Server list \<Rightarrow> (int \<times> channels_state) list \<Rightarrow> page_state \<Rightarrow> page_state" where
  "page_synced preferred servers entries p = p\<lparr>pa_servers := sync_done preferred (dm_ids p) servers entries (pa_servers p)\<rparr>"

section \<open>Conversations\<close>

definition handleMessageUser_start :: "int \<Rightarrow> page_state \<Rightarrow> page_state \<times> page_nav_effect list" where
  "handleMessageUser_start peerUserId p = (if peerUserId \<le> 0 then (p, []) else (p, [OpenDM peerUserId]))"

definition handleMessageUser_done :: "(string \<Rightarrow> int) \<Rightarrow> string + DMChannel \<Rightarrow> page_state \<Rightarrow> page_state" where
  "handleMessageUser_done parse res p0 =
     (let p = p0\<lparr>pa_dms := openDM_done parse res (pa_dms p0)\<rparr>
      in case res of
        Inr dm \<Rightarrow> page_error [] ((select_channel (dm_channel_id dm) p)\<lparr>pa_view := DmArea, pa_profileOpen := False\<rparr>)
      | Inl message \<Rightarrow> page_error (if message = ''no_shared_server''
          then ''You don'' @ [CHR 0x27] @ ''t share a server with this user'' else message) p)"

definition handleSelectUserFromSearch :: "UserSearchHit \<Rightarrow> page_state \<Rightarrow> page_state \<times> page_nav_effect list" where
  "handleSelectUserFromSearch user p = handleMessageUser_start (us_user_id user) (p\<lparr>pa_userSearch := False\<rparr>)"

text \<open>\<open>Close conversation\<close> of the menu: the item holds the selection and the list of the render in which the menu was opened.\<close>

definition close_conversation_done :: "int \<Rightarrow> int \<Rightarrow> DMChannel list \<Rightarrow> string + unit \<Rightarrow> page_state \<Rightarrow> page_state" where
  "close_conversation_done c selectedThen listThen res p0 =
     (let p = p0\<lparr>pa_dms := closeDM_done c res (pa_dms p0)\<rparr>
      in case res of
        Inl _ \<Rightarrow> p
      | Inr _ \<Rightarrow> (if selectedThen = c
          then select_channel (case find (\<lambda>d. dm_channel_id d \<noteq> c) listThen of Some d \<Rightarrow> dm_channel_id d | None \<Rightarrow> 0) p
          else p))"

section \<open>Jumping to a message\<close>

definition scrollToMessage_start :: "int \<Rightarrow> int option \<Rightarrow> page_state \<Rightarrow> page_state \<times> page_nav_effect list" where
  "scrollToMessage_start messageId channelId p =
     (let target = (case channelId of Some c \<Rightarrow> c | None \<Rightarrow> selected_channel p)
      in if target \<le> 0 then (p, [])
         else (if target \<noteq> selected_channel p then select_channel target p else p, [JumpToMessage target messageId]))"

text \<open>Once \<open>jumpToMessage\<close> has answered; \<open>inPage\<close>: the row is in the document.\<close>

definition scrollToMessage_done :: "int \<Rightarrow> bool \<Rightarrow> bool \<Rightarrow> page_nav_effect list" where
  "scrollToMessage_done messageId found inPage = (if found \<and> inPage then [HighlightMessage messageId] else [])"

definition handleJumpToLatest :: "bool \<Rightarrow> page_state \<Rightarrow> page_nav_effect list" where
  "handleJumpToLatest hasMoreNewer p = (if hasMoreNewer then [ResetTail (selected_channel p), ScrollToLatest] else [ScrollToLatest])"

text \<open>A hit of the search; on a phone the panel closes.\<close>

definition search_hit_clicked :: "int \<Rightarrow> int \<Rightarrow> page_state \<Rightarrow> page_state \<times> page_nav_effect list" where
  "search_hit_clicked messageId channelId p =
     scrollToMessage_start messageId (Some channelId) (p\<lparr>pa_searchOpen := (\<not> pa_phone p \<and> pa_searchOpen p)\<rparr>)"

text \<open>Ctrl or Cmd with F.\<close>

definition search_shortcut :: "bool \<Rightarrow> string \<Rightarrow> page_state \<Rightarrow> page_state \<times> page_nav_effect list" where
  "search_shortcut modifier key p =
     (if modifier \<and> to_lower key = ''f'' \<and> 0 < selected_channel p then (p\<lparr>pa_searchOpen := True\<rparr>, [PreventDefault]) else (p, []))"

section \<open>Notifications and links\<close>

record nav_target =
  nv_channel :: "int option"
  nv_server :: "int option"
  nv_message :: "int option"

definition truthy_id :: "int option \<Rightarrow> bool" where
  "truthy_id x \<longleftrightarrow> x \<noteq> None \<and> x \<noteq> Some 0"

text \<open>The part before the await; whether there is one.\<close>

definition navigate_start :: "nav_target \<Rightarrow> page_state \<Rightarrow> page_state \<times> page_nav_effect list \<times> bool" where
  "navigate_start t p =
     (if truthy_id (nv_server t) \<and> nv_server t \<noteq> Some (sv_selectedServer (pa_servers p))
      then (let (s, effs) = handleSelectServer_start (the (nv_server t)) (pa_servers p)
            in (p\<lparr>pa_servers := s\<rparr>, map ServersEffect effs, True))
      else (p, [], False))"

definition navigate_rest :: "nav_target \<Rightarrow> page_state \<Rightarrow> page_state \<times> page_nav_effect list" where
  "navigate_rest t p0 =
     (let c = the (nv_channel t); p = select_channel c p0
      in if truthy_id (nv_message t) then scrollToMessage_start (the (nv_message t)) (Some c) p else (p, []))"

text \<open>\<open>answer\<close>: the synchronisation that was awaited, when it succeeded. A failure is caught by \<open>handleSelectServer\<close>.\<close>

definition navigateFromNotification :: "nav_target \<Rightarrow> (string + Server list \<times> (int \<times> channels_state) list) \<Rightarrow> page_state
    \<Rightarrow> page_state \<times> page_nav_effect list" where
  "navigateFromNotification t answer p =
     (if \<not> truthy_id (nv_channel t) then (p, [])
      else case navigate_start t p of (p1, effs, awaits) \<Rightarrow>
        (let p2 = (if ServersEffect (StartSync (nv_server t)) \<in> set effs
                   then (case answer of Inr (servers, entries) \<Rightarrow> page_synced (nv_server t) servers entries p1
                         | Inl e \<Rightarrow> page_error e p1)
                   else p1);
             (p3, effs3) = navigate_rest t p2
         in (p3, effs @ effs3)))"

text \<open>A message of the service worker.\<close>

definition worker_message :: "string \<Rightarrow> nav_target \<Rightarrow> (string + Server list \<times> (int \<times> channels_state) list) \<Rightarrow> page_state
    \<Rightarrow> page_state \<times> page_nav_effect list" where
  "worker_message type t answer p = (if type = ''notification-click'' then navigateFromNotification t answer p else (p, []))"

text \<open>The parameters of the address the page was opened with: what is no positive number counts as missing. They name no server.\<close>

definition boot_target :: "int option \<Rightarrow> int option \<Rightarrow> nav_target" where
  "boot_target channel message = \<lparr>nv_channel = channel, nv_server = None,
     nv_message = (case message of Some m \<Rightarrow> if 0 < m then Some m else None | None \<Rightarrow> None)\<rparr>"

definition boot_effect :: "int option \<Rightarrow> int option \<Rightarrow> page_state \<Rightarrow> page_state \<times> page_nav_effect list" where
  "boot_effect channel message p =
     (if pa_bootHandled p \<or> \<not> sv_connected (pa_servers p) then (p, [])
      else case channel of
        Some c \<Rightarrow> (if 0 < c
          then (let (p1, effs) = navigateFromNotification (boot_target channel message) (Inl []) (p\<lparr>pa_bootHandled := True\<rparr>)
                in (p1, effs @ [ClearBootParams]))
          else (p, []))
      | None \<Rightarrow> (p, []))"

section \<open>The machine\<close>

datatype page_input =
    ClickServer int
  | ClickDmRail
  | ClickDm int
  | ClickChannel int
  | PageSynced "int option" "Server list" "(int \<times> channels_state) list"
  | UserMessaged "string + DMChannel"
  | ConversationClosed int int "DMChannel list" "string + unit"
  | DmEvent dm_input
  | Navigated nav_target "string + Server list \<times> (int \<times> channels_state) list"
  | HitClicked int int
  | Booted "int option" "int option"

fun page_step :: "(string \<Rightarrow> int) \<Rightarrow> page_state \<Rightarrow> page_input \<Rightarrow> page_state \<times> page_nav_effect list" where
  "page_step parse p (ClickServer i) = click_server i p"
| "page_step parse p ClickDmRail = (click_dm_rail p, [])"
| "page_step parse p (ClickDm c) = (click_dm c p, [])"
| "page_step parse p (ClickChannel c) = (click_channel c p, [])"
| "page_step parse p (PageSynced preferred servers entries) = (page_synced preferred servers entries p, [])"
| "page_step parse p (UserMessaged res) = (handleMessageUser_done parse res p, [])"
| "page_step parse p (ConversationClosed c sel list res) = (close_conversation_done c sel list res p, [])"
| "page_step parse p (DmEvent e) = (p\<lparr>pa_dms := fst (dm_step parse (pa_dms p) e)\<rparr>, [])"
| "page_step parse p (Navigated t answer) = navigateFromNotification t answer p"
| "page_step parse p (HitClicked m c) = search_hit_clicked m c p"
| "page_step parse p (Booted c m) = boot_effect c m p"

end
