(* ===== verification/PageView.thy ===== *)
theory PageView
  imports Page VoicePanel Settings Unread Gestures
begin

text \<open>
  What the page shows (\<^verbatim>\<open>pages/ChatPage.tsx\<close>): the rows of its lists, its headers, which buttons are disabled, the pictures of
  users by their names, its menus, drawers and modals. \<open>upper\<close> is \<open>toUpperCase\<close>, \<open>ms\<close> the time of a date; the fixed Russian
  words are constructors.
\<close>

section \<open>Derived values\<close>

definition activeChannels :: "page_state \<Rightarrow> Channel list" where
  "activeChannels p = map_get_or [] (sv_channels (pa_servers p)) (sv_selectedServer (pa_servers p))"

definition currentServer :: "page_state \<Rightarrow> Server option" where
  "currentServer p = find (\<lambda>s. srv_id s = sv_selectedServer (pa_servers p)) (sv_servers (pa_servers p))"

definition isCurrentServerOwner :: "int option \<Rightarrow> page_state \<Rightarrow> bool" where
  "isCurrentServerOwner me p \<longleftrightarrow> (case (me, currentServer p) of (Some u, Some s) \<Rightarrow> srv_owner_id s = u | _ \<Rightarrow> False)"

definition currentChannel :: "page_state \<Rightarrow> Channel option" where
  "currentChannel p = find (\<lambda>c. ch_id c = selected_channel p) (activeChannels p)"

definition isVoiceChannel :: "page_state \<Rightarrow> bool" where
  "isVoiceChannel p \<longleftrightarrow> (case currentChannel p of Some c \<Rightarrow> ch_type c = VoiceChannel | None \<Rightarrow> False)"

definition shouldHideMessageInput :: "page_state \<Rightarrow> bool" where
  "shouldHideMessageInput p \<longleftrightarrow> isVoiceChannel p"

definition currentDMPeer :: "page_state \<Rightarrow> DMChannel option" where
  "currentDMPeer p = find (\<lambda>d. dm_channel_id d = selected_channel p) (dms_channels (pa_dms p))"

definition dmUnreadTotal :: "UnreadByChannel \<Rightarrow> page_state \<Rightarrow> int" where
  "dmUnreadTotal unread p = foldl (\<lambda>n d. n + map_get_or 0 unread (dm_channel_id d)) 0 (dms_channels (pa_dms p))"

definition dmOnlineUserIds :: "OnlineUser list \<Rightarrow> int list" where
  "dmOnlineUserIds users = List.map_filter ou_user_id users"

definition activeMessages :: "MessagesByChannel \<Rightarrow> page_state \<Rightarrow> Message list" where
  "activeMessages messages p = (if 0 < selected_channel p then map_get_or [] messages (selected_channel p) else [])"

definition isMessagesLoading :: "MessagesByChannel \<Rightarrow> page_state \<Rightarrow> bool" where
  "isMessagesLoading messages p \<longleftrightarrow> 0 < selected_channel p \<and> map_get messages (selected_channel p) = None"

record history_flags =
  hf_loadingOlder :: bool
  hf_moreOlder :: bool
  hf_olderError :: bool
  hf_moreNewer :: bool
  hf_loadingNewer :: bool

definition active_history :: "PaginationByChannel \<Rightarrow> page_state \<Rightarrow> history_flags" where
  "active_history pagination p = (case map_get pagination (selected_channel p) of
     None \<Rightarrow> \<lparr>hf_loadingOlder = False, hf_moreOlder = False, hf_olderError = False, hf_moreNewer = False, hf_loadingNewer = False\<rparr>
   | Some g \<Rightarrow> \<lparr>hf_loadingOlder = pg_isLoadingMore g, hf_moreOlder = pg_hasMore g, hf_olderError = pg_error g,
       hf_moreNewer = (pg_hasMoreNewer g = Some True), hf_loadingNewer = (pg_isLoadingNewer g = Some True)\<rparr>)"

definition active_typing :: "int list record_map \<Rightarrow> page_state \<Rightarrow> int list" where
  "active_typing typing p = (if 0 < selected_channel p then map_get_or [] typing (selected_channel p) else [])"

text \<open>\<open>x?.[0]?.toUpperCase() ??\<close>: only a missing first letter passes on to the next.\<close>

definition userInitial :: "(string \<Rightarrow> string) \<Rightarrow> CurrentUserProfile option \<Rightarrow> string" where
  "userInitial upper profile =
     (case List.map_filter (\<lambda>f. case Option.bind profile f of Some (c # _) \<Rightarrow> Some (upper [c]) | _ \<Rightarrow> None)
         [pf_nickname, pf_first_name, pf_email] of
        i # _ \<Rightarrow> i | [] \<Rightarrow> ''U'')"

section \<open>Headers\<close>

datatype header_text =
    HeaderText string | ServerHeader string | NoServerHeader | HashChannel string | NoChannelRu | PrivateMessagesRu
  | DirectMessage | NoConversation | NoChannel

definition peer_or :: "string \<Rightarrow> page_state \<Rightarrow> string" where
  "peer_or d p = (case currentDMPeer p of Some dm \<Rightarrow> if dm_peer_nickname dm \<noteq> [] then dm_peer_nickname dm else d | None \<Rightarrow> d)"

definition chat_header :: "page_state \<Rightarrow> header_text" where
  "chat_header p = (if pa_view p = DmArea then HeaderText (peer_or ''Direct Messages'' p)
     else case currentServer p of Some s \<Rightarrow> ServerHeader (srv_name s) | None \<Rightarrow> NoServerHeader)"

definition mobile_title :: "page_state \<Rightarrow> header_text" where
  "mobile_title p = (if pa_view p = DmArea then HeaderText (peer_or ''Direct Messages'' p)
     else case currentChannel p of Some c \<Rightarrow> HashChannel (ch_name c) | None \<Rightarrow> NoChannelRu)"

definition mobile_subtitle :: "page_state \<Rightarrow> header_text" where
  "mobile_subtitle p = (if pa_view p = DmArea then PrivateMessagesRu
     else HeaderText (case currentServer p of Some s \<Rightarrow> srv_name s | None \<Rightarrow> []))"

definition chat_subheader :: "page_state \<Rightarrow> header_text" where
  "chat_subheader p = (case currentChannel p of Some c \<Rightarrow> HashChannel (ch_name c)
   | None \<Rightarrow> (if pa_view p = DmArea then (if currentDMPeer p \<noteq> None then DirectMessage else NoConversation) else NoChannel))"

definition channels_header :: "page_state \<Rightarrow> string" where
  "channels_header p = (if pa_view p = DmArea then ''Direct Messages''
     else ''Server '' @ (case currentServer p of Some s \<Rightarrow> srv_name s | None \<Rightarrow> ''-''))"

section \<open>Rows\<close>

definition unread_badge :: "int \<Rightarrow> string option" where
  "unread_badge n = (if 0 < n then Some (formatUnreadCount n) else None)"

record server_dot =
  sd_id :: int
  sd_active :: bool
  sd_letter :: string
  sd_badge :: "string option"

definition server_dots :: "(string \<Rightarrow> string) \<Rightarrow> UnreadByServer \<Rightarrow> page_state \<Rightarrow> server_dot list" where
  "server_dots upper unread p = map (\<lambda>s. \<lparr>sd_id = srv_id s,
     sd_active = (pa_view p = ServerArea \<and> sv_selectedServer (pa_servers p) = srv_id s),
     sd_letter = (case srv_name s of c # _ \<Rightarrow> upper [c] | [] \<Rightarrow> ''?''),
     sd_badge = unread_badge (map_get_or 0 unread (srv_id s))\<rparr>) (sv_servers (pa_servers p))"

definition isChannelSilenced :: "(string \<Rightarrow> int option) \<Rightarrow> int \<Rightarrow> NotificationSettings option \<Rightarrow> int \<Rightarrow> int \<Rightarrow> bool" where
  "isChannelSilenced ms now settings serverId channelId \<longleftrightarrow>
     resolveLevel settings serverId channelId = LevelNone \<or> isMuted ms settings serverId channelId now"

record channel_row_view =
  cr_id :: int
  cr_name :: string
  cr_voice :: bool
  cr_active :: bool
  cr_badge :: "string option"
  cr_silenced :: bool
  cr_delete :: bool
  cr_members :: "VoiceParticipant list"

definition channel_rows_view :: "(string \<Rightarrow> int option) \<Rightarrow> int \<Rightarrow> int option \<Rightarrow> NotificationSettings option \<Rightarrow> UnreadByChannel
    \<Rightarrow> VoiceParticipantsByChannel \<Rightarrow> page_state \<Rightarrow> channel_row_view list" where
  "channel_rows_view ms now me settings unread voice p = map (\<lambda>c.
     \<lparr>cr_id = ch_id c, cr_name = ch_name c, cr_voice = (ch_type c = VoiceChannel), cr_active = (selected_channel p = ch_id c),
      cr_badge = unread_badge (if ch_type c = TextChannel then map_get_or 0 unread (ch_id c) else 0),
      cr_silenced = isChannelSilenced ms now settings (sv_selectedServer (pa_servers p)) (ch_id c),
      cr_delete = isCurrentServerOwner me p,
      cr_members = (if ch_type c = VoiceChannel then map_get_or [] voice (ch_id c) else [])\<rparr>) (activeChannels p)"

section \<open>Buttons\<close>

datatype sidebar_button = AddServerButton | JoinServerButton | NewMessageButton | DeleteServerButton | CreateChannelButton

text \<open>The buttons of the sidebars and whether they are disabled.\<close>

definition rail_buttons :: "page_state \<Rightarrow> (sidebar_button \<times> bool) list" where
  "rail_buttons p = [(AddServerButton, \<not> sv_connected (pa_servers p) \<or> sv_creatingServer (pa_servers p)),
     (JoinServerButton, \<not> sv_connected (pa_servers p))]"

definition header_buttons :: "int option \<Rightarrow> page_state \<Rightarrow> (sidebar_button \<times> bool) list" where
  "header_buttons me p =
     (let s = pa_servers p; off = (\<not> sv_connected s)
      in if pa_view p = DmArea then [(NewMessageButton, off)]
         else (if isCurrentServerOwner me p then [(DeleteServerButton, off \<or> sv_selectedServer s \<le> 0)] else [])
           @ [(CreateChannelButton, off \<or> sv_selectedServer s \<le> 0 \<or> sv_creatingChannel s)])"

definition sidebar_buttons :: "int option \<Rightarrow> page_state \<Rightarrow> (sidebar_button \<times> bool) list" where
  "sidebar_buttons me p = rail_buttons p @ header_buttons me p"

definition message_input_shown :: "page_state \<Rightarrow> bool option" where
  "message_input_shown p = (if shouldHideMessageInput p then None else Some (sv_connected (pa_servers p) \<and> 0 < selected_channel p))"

definition search_button_disabled :: "page_state \<Rightarrow> bool" where
  "search_button_disabled p \<longleftrightarrow> selected_channel p \<le> 0"

datatype more_item = OnlineItem | ChannelNotificationsItem int | NotificationSettingsItem | VoiceSettingsItem | MoreSeparator | ProfileItem

definition more_menu :: "page_state \<Rightarrow> more_item list" where
  "more_menu p = [OnlineItem] @ (if 0 < selected_channel p then [ChannelNotificationsItem (selected_channel p)] else [])
     @ [NotificationSettingsItem, VoiceSettingsItem, MoreSeparator, ProfileItem]"

text \<open>A long press in the navigation: the innermost element of each kind around what was pressed, the first kind that is there.\<close>

datatype nav_menu = ServerMenu int | DmMenu int | ChannelMenu int

definition navLongPress :: "int option \<Rightarrow> int option \<Rightarrow> int option \<Rightarrow> nav_menu option" where
  "navLongPress server dm channel = (case server of Some s \<Rightarrow> Some (ServerMenu s)
   | None \<Rightarrow> (case dm of Some d \<Rightarrow> Some (DmMenu d) | None \<Rightarrow> map_option ChannelMenu channel))"

text \<open>The menu of a conversation: its extra item closes it.\<close>

definition openDMContextMenu :: "(string \<Rightarrow> int option) \<Rightarrow> (int \<Rightarrow> string) \<Rightarrow> int \<Rightarrow> NotificationSettings option \<Rightarrow> int \<Rightarrow> menu_item list" where
  "openDMContextMenu ms to_iso now settings channelId = openChannelMenu ms to_iso now settings channelId [ExtraItem 0]"

section \<open>Pictures by name\<close>

definition full_name_key :: "string \<Rightarrow> string \<Rightarrow> string" where
  "full_name_key firstName lastName = to_lower (trim (join_with '' '' (filter (\<lambda>n. n \<noteq> []) [firstName, lastName])))"

definition add_key :: "string \<Rightarrow> string \<Rightarrow> (string \<times> string) list \<Rightarrow> (string \<times> string) list" where
  "add_key k avatar m = (if k \<noteq> [] \<and> \<not> map_has k m then map_set k avatar m else m)"

definition add_avatar :: "string \<times> string \<times> string \<times> string \<Rightarrow> (string \<times> string) list \<Rightarrow> (string \<times> string) list" where
  "add_avatar user m = (case user of (firstName, lastName, avatar, nickname) \<Rightarrow>
     (if avatar = [] then m
      else add_key (to_lower (trim nickname)) avatar (add_key (full_name_key firstName lastName) avatar m)))"

definition author_names :: "Message \<Rightarrow> string \<times> string \<times> string \<times> string" where
  "author_names m = (str_or [] (m_author_first_name m), str_or [] (m_author_last_name m), m_author_avatar_url m,
     str_or [] (m_author_nickname m))"

definition onlineUserAvatarByName :: "MessagesByChannel \<Rightarrow> CurrentUserProfile option \<Rightarrow> string \<Rightarrow> (string \<times> string) list" where
  "onlineUserAvatarByName messages profile avatarUrl =
     fold add_avatar (map author_names (concat (map snd (record_entries messages)))
       @ [(name_text (Option.bind profile pf_first_name), name_text (Option.bind profile pf_last_name), avatarUrl,
           name_text (Option.bind profile pf_nickname))]) []"

section \<open>Theme\<close>

datatype ColorTheme = DarkTheme | LightTheme

definition COLOR_THEME_KEY :: string where "COLOR_THEME_KEY = ''color_theme''"

definition load_theme :: "storage \<Rightarrow> ColorTheme" where
  "load_theme st = (if st COLOR_THEME_KEY = Some ''light'' then LightTheme else DarkTheme)"

definition toggleTheme :: "ColorTheme \<Rightarrow> ColorTheme" where
  "toggleTheme t = (if t = LightTheme then DarkTheme else LightTheme)"

text \<open>\<open>writable\<close>: whether the storage takes the value.\<close>

definition theme_effect :: "bool \<Rightarrow> ColorTheme \<Rightarrow> storage \<Rightarrow> storage" where
  "theme_effect writable t st = (if writable then st(COLOR_THEME_KEY \<mapsto> (if t = LightTheme then ''light'' else ''dark'')) else st)"

section \<open>Modals\<close>

datatype page_modal = ProfileModal | ViewerModal | CreateServerModal | JoinModal | CreateChannelModal

text \<open>The open modals, the one that is closing and the timers of 160 ms.\<close>

record modal_state =
  mo_open :: "page_modal set"
  mo_closing :: "page_modal option"
  mo_timers :: "page_modal list"

definition no_modals :: modal_state where
  "no_modals = \<lparr>mo_open = {}, mo_closing = None, mo_timers = []\<rparr>"

definition closeModalWithAnim :: "page_modal \<Rightarrow> modal_state \<Rightarrow> modal_state" where
  "closeModalWithAnim m s = s\<lparr>mo_closing := Some m, mo_timers := mo_timers s @ [m]\<rparr>"

definition modal_timer_fire :: "modal_state \<Rightarrow> modal_state" where
  "modal_timer_fire s = (case mo_timers s of [] \<Rightarrow> s
   | m # rest \<Rightarrow> \<lparr>mo_open = mo_open s - {m}, mo_closing = None, mo_timers = rest\<rparr>)"

datatype modal_input = OpenModal page_modal | CloseModal page_modal | ShutModal page_modal | ModalTimer

text \<open>The buttons that close a modal are in it; \<open>ShutModal\<close>: a handler closes it at once. The timers fire in their order.\<close>

fun modal_enabled :: "modal_state \<Rightarrow> modal_input \<Rightarrow> bool" where
  "modal_enabled s (CloseModal m) \<longleftrightarrow> m \<in> mo_open s"
| "modal_enabled s ModalTimer \<longleftrightarrow> mo_timers s \<noteq> []"
| "modal_enabled s _ \<longleftrightarrow> True"

fun modal_step :: "modal_state \<Rightarrow> modal_input \<Rightarrow> modal_state \<times> unit list" where
  "modal_step s (OpenModal m) = (s\<lparr>mo_open := insert m (mo_open s)\<rparr>, [])"
| "modal_step s (CloseModal m) = (closeModalWithAnim m s, [])"
| "modal_step s (ShutModal m) = (s\<lparr>mo_open := mo_open s - {m}\<rparr>, [])"
| "modal_step s ModalTimer = (modal_timer_fire s, [])"

section \<open>Drawers\<close>

record drawer_state =
  dw_phone :: bool
  dw_open :: bool
  dw_more :: bool
  dw_autoOpened :: bool
  dw_sidebarHidden :: bool

definition new_drawer :: "bool \<Rightarrow> drawer_state" where
  "new_drawer phone = \<lparr>dw_phone = phone, dw_open = False, dw_more = False, dw_autoOpened = False, dw_sidebarHidden = False\<rparr>"

definition first_visit_effect :: "int \<Rightarrow> drawer_state \<Rightarrow> drawer_state" where
  "first_visit_effect selected s = (if dw_phone s \<and> selected \<le> 0 \<and> \<not> dw_autoOpened s
     then s\<lparr>dw_autoOpened := True, dw_open := True\<rparr> else s)"

definition phone_mode_effect :: "bool \<Rightarrow> drawer_state \<Rightarrow> drawer_state" where
  "phone_mode_effect phone s = (if phone = dw_phone s then s
     else if phone then s\<lparr>dw_phone := True\<rparr> else s\<lparr>dw_phone := False, dw_open := False, dw_more := False\<rparr>)"

definition layout_swipe :: "swipe_direction \<Rightarrow> drawer_state \<Rightarrow> drawer_state" where
  "layout_swipe d s = s\<lparr>dw_open := (d = SwipeRight)\<rparr>"

definition swipe_navigation_enabled :: "bool \<Rightarrow> drawer_state \<Rightarrow> bool" where
  "swipe_navigation_enabled searchOpen s \<longleftrightarrow> dw_phone s \<and> \<not> searchOpen"

datatype drawer_input =
    Hamburger | LayoutClick | OverlayClick | DrawerSwipe swipe_direction | PhoneMode bool | ChannelShown int | OpenMore | CloseMore
  | ProfileFromDrawer | ToggleSidebar | ShowSidebar

fun drawer_step :: "drawer_state \<Rightarrow> drawer_input \<Rightarrow> drawer_state" where
  "drawer_step s Hamburger = s\<lparr>dw_open := (\<not> dw_open s)\<rparr>"
| "drawer_step s LayoutClick = s\<lparr>dw_open := False\<rparr>"
| "drawer_step s OverlayClick = s\<lparr>dw_open := False\<rparr>"
| "drawer_step s (DrawerSwipe d) = layout_swipe d s"
| "drawer_step s (PhoneMode b) = phone_mode_effect b s"
| "drawer_step s (ChannelShown c) = first_visit_effect c s"
| "drawer_step s OpenMore = s\<lparr>dw_more := True\<rparr>"
| "drawer_step s CloseMore = s\<lparr>dw_more := False\<rparr>"
| "drawer_step s ProfileFromDrawer = s\<lparr>dw_open := False\<rparr>"
| "drawer_step s ToggleSidebar = s\<lparr>dw_sidebarHidden := (\<not> dw_sidebarHidden s)\<rparr>"
| "drawer_step s ShowSidebar = s\<lparr>dw_sidebarHidden := False\<rparr>"

section \<open>The profile modal\<close>

datatype profile_button = SaveButton | LogoutButton | DeleteAccountButton | CloseButton | MessageButton | ThemeButton
  | NotificationsButton | VoiceButton | ChangeAvatarButton | ConfirmDeleteButton | CancelDeleteButton

text \<open>The buttons of the modal and whether they are disabled; the skeleton of a loading profile has none of its rows.\<close>

definition profile_avatar_buttons :: "int option \<Rightarrow> profile_page \<Rightarrow> (profile_button \<times> bool) list" where
  "profile_avatar_buttons me s = (if isSelfProfile me s then [(ChangeAvatarButton, pp_avatarUploading s)] else [])"

definition profile_row_buttons :: "int option \<Rightarrow> profile_page \<Rightarrow> (profile_button \<times> bool) list" where
  "profile_row_buttons me s = (if isSelfProfile me s then [(ThemeButton, False), (NotificationsButton, False), (VoiceButton, False)]
     else [(MessageButton, False)])"

definition profile_confirm_buttons :: "int option \<Rightarrow> profile_page \<Rightarrow> (profile_button \<times> bool) list" where
  "profile_confirm_buttons me s = (if isSelfProfile me s \<and> pp_deleteConfirmOpen s
     then [(CancelDeleteButton, pp_deleting s), (ConfirmDeleteButton, pp_deleting s)] else [])"

definition profile_action_buttons :: "int option \<Rightarrow> profile_page \<Rightarrow> (profile_button \<times> bool) list" where
  "profile_action_buttons me s =
     (if isSelfProfile me s then [(SaveButton, pp_savingNickname s), (LogoutButton, False)]
        @ (if pp_deleteConfirmOpen s then [] else [(DeleteAccountButton, pp_savingNickname s \<or> pp_deleting s)]) else [])
     @ [(CloseButton, False)]"

definition profile_buttons :: "int option \<Rightarrow> profile_page \<Rightarrow> (profile_button \<times> bool) list" where
  "profile_buttons me s = (if pp_loading s then [] else profile_avatar_buttons me s @ profile_row_buttons me s)
     @ profile_confirm_buttons me s @ profile_action_buttons me s"

text \<open>The rows of the modal: their labels and texts; the nickname of the user is an input with the draft.\<close>

definition or_dash :: "string option \<Rightarrow> string" where
  "or_dash x = (if name_text x = [] then ''-'' else name_text x)"

definition profile_rows :: "int option \<Rightarrow> profile_page \<Rightarrow> (string \<times> string) list" where
  "profile_rows me s =
     (if pp_loading s then []
      else [(''First name'', or_dash (profileFirstName me s)), (''Last name'', or_dash (profileLastName me s)),
            (''Nickname'', if isSelfProfile me s then pp_nicknameDraft s else or_dash (profileNickname me s))]
         @ (if isSelfProfile me s then [(''Email'', or_dash (Option.bind (pp_profile s) pf_email))] else [])
         @ [(''Name'', or_dash (Some (profileDisplayName me s)))])"

definition profile_errors :: "int option \<Rightarrow> profile_page \<Rightarrow> string list" where
  "profile_errors me s = filter (\<lambda>e. e \<noteq> [])
     [pp_selectedError s, pp_updateError s, if isSelfProfile me s then pp_avatarError s else []]"

definition cancel_delete :: "profile_page \<Rightarrow> profile_page" where
  "cancel_delete s = s\<lparr>pp_deleteConfirmOpen := False, pp_deletePassword := []\<rparr>"

definition avatar_broken :: "int option \<Rightarrow> profile_page \<Rightarrow> profile_page" where
  "avatar_broken me s = (if isSelfProfile me s then s\<lparr>pp_avatarUrl := []\<rparr> else s)"

section \<open>Forms\<close>

datatype join_list = JoinNothing | JoinSearching | JoinNoneFound | JoinResults "(int \<times> string) list"

definition join_modal_list :: "server_search \<Rightarrow> join_list" where
  "join_modal_list s = (if ss_searching s then JoinSearching
     else if ss_results s \<noteq> [] then JoinResults (ss_results s)
     else if 2 \<le> length (trim (ss_query s)) then JoinNoneFound else JoinNothing)"

text \<open>The buttons of the forms that create: cancel and create are disabled while it is being done.\<close>

definition create_form_disabled :: "bool \<Rightarrow> bool \<times> bool" where
  "create_form_disabled creating = (creating, creating)"

definition channel_type_of :: "string \<Rightarrow> channel_type" where
  "channel_type_of v = (if v = ''voice'' then VoiceChannel else TextChannel)"

text \<open>The search of the modal for users goes through the socket.\<close>

definition page_search_users :: "bool \<Rightarrow> string + UserSearchHit list \<Rightarrow> string + UserSearchHit list" where
  "page_search_users hasSocket answer = (if hasSocket then answer else Inl ''No connection to chat'')"

end
