(* ===== verification/PageProps.thy ===== *)
theory PageProps
  imports Page ServersProps
begin

text \<open>
  A conversation that was opened stays open through everything but a choice of the user, and even through the choice of a
  server; a notification opens its channel for good when it names the server, and a link, which does not, is lost.
\<close>

section \<open>Conversations stay\<close>

definition keeps_conversation :: "int \<Rightarrow> page_input \<Rightarrow> bool" where
  "keeps_conversation c e = (case e of
     ClickServer i \<Rightarrow> True
   | ClickDmRail \<Rightarrow> True
   | PageSynced preferred servers entries \<Rightarrow> servers \<noteq> []
   | UserMessaged (Inl message) \<Rightarrow> True
   | ConversationClosed c' sel xs res \<Rightarrow> c' \<noteq> c \<and> sel \<noteq> c'
   | DmEvent (DmOpened dm) \<Rightarrow> True
   | DmEvent (DmCloseDone c' res) \<Rightarrow> c' \<noteq> c
   | DmEvent (DmRefreshDone (Inl message)) \<Rightarrow> True
   | DmEvent (DmRefreshDone (Inr channels)) \<Rightarrow> c \<in> dm_channel_id ` set channels
   | DmEvent (DmConnection b) \<Rightarrow> b
   | _ \<Rightarrow> False)"

definition conversation_open :: "int \<Rightarrow> page_state \<Rightarrow> bool" where
  "conversation_open c p \<longleftrightarrow> selected_channel p = c \<and> c \<in> dm_ids p \<and> sv_connected (pa_servers p)"

lemmas page_simps = select_channel_def page_error_def dm_ids_def selected_channel_def

lemma upsert_ids: "dm_channel_id ` set (dms_channels (upsert_dm parse dm s)) = insert (dm_channel_id dm) (dm_channel_id ` set (dms_channels s))"
  by (auto simp: upsert_dm_def Let_def image_iff split: if_splits)

lemma sync_keeps:
  "servers \<noteq> [] \<Longrightarrow> sv_selectedChannel s \<in> D \<Longrightarrow> sv_selectedChannel (sync_done preferred D servers entries s) = sv_selectedChannel s"
  by (simp add: sync_done_def next_selected_def Let_def)

lemma sync_connected [simp]: "sv_connected (sync_done preferred D servers entries s) = sv_connected s"
  by (simp add: sync_done_def Let_def)

lemma conversation_step:
  assumes "conversation_open c p" and "keeps_conversation c e"
  shows "conversation_open c (fst (page_step parse p e))"
proof (cases e)
  case (ClickServer i)
  with assms show ?thesis
    by (simp add: conversation_open_def click_server_def handleSelectServer_start_def Let_def page_simps)
next
  case (PageSynced preferred servers entries)
  with assms show ?thesis
    by (simp add: conversation_open_def keeps_conversation_def page_synced_def page_simps sync_keeps)
next
  case (UserMessaged res)
  with assms show ?thesis
    by (cases res) (auto simp: conversation_open_def keeps_conversation_def handleMessageUser_done_def openDM_done_def Let_def page_simps)
next
  case (ConversationClosed c' sel xs res)
  with assms show ?thesis
    by (cases res) (auto simp: conversation_open_def keeps_conversation_def close_conversation_done_def closeDM_done_def Let_def page_simps)
next
  case (DmEvent d)
  show ?thesis
  proof (cases d)
    case (DmOpened dm)
    with assms DmEvent show ?thesis by (simp add: conversation_open_def page_simps upsert_ids)
  next
    case (DmRefreshDone res)
    with assms DmEvent show ?thesis
      by (cases res) (simp_all add: conversation_open_def keeps_conversation_def page_simps refresh_dms_done_def)
  next
    case (DmCloseDone c' res)
    with assms DmEvent show ?thesis
      by (cases res) (auto simp: conversation_open_def keeps_conversation_def page_simps closeDM_done_def)
  qed (use assms DmEvent in \<open>auto simp: conversation_open_def keeps_conversation_def page_simps dm_connection_def refresh_dms_start_def\<close>)
qed (use assms in \<open>auto simp: conversation_open_def keeps_conversation_def click_dm_rail_def page_simps\<close>)

lemma conversation_run:
  "conversation_open c p \<Longrightarrow> \<forall>e \<in> set es. keeps_conversation c e \<Longrightarrow> conversation_open c (foldl (\<lambda>p e. fst (page_step parse p e)) p es)"
  by (induction es arbitrary: p) (simp_all add: conversation_step)

lemma area_step:
  assumes "keeps_conversation c e" and "\<forall>i. e \<noteq> ClickServer i" and "pa_view p = DmArea"
  shows "pa_view (fst (page_step parse p e)) = DmArea"
  using assms
  by (auto simp: keeps_conversation_def page_synced_def handleMessageUser_done_def close_conversation_done_def click_dm_rail_def
      page_simps Let_def split: page_input.splits sum.splits)

lemma area_run:
  "\<forall>e \<in> set es. keeps_conversation c e \<and> (\<forall>i. e \<noteq> ClickServer i) \<Longrightarrow> pa_view p = DmArea
    \<Longrightarrow> pa_view (foldl (\<lambda>p e. fst (page_step parse p e)) p es) = DmArea"
proof (induction es arbitrary: p)
  case (Cons e es)
  then have "pa_view (fst (page_step parse p e)) = DmArea" by (intro area_step [of c]) simp_all
  with Cons show ?case by simp
qed simp

lemma messaged_open:
  "sv_connected (pa_servers p) \<Longrightarrow> conversation_open (dm_channel_id dm) (handleMessageUser_done parse (Inr dm) p)
    \<and> pa_view (handleMessageUser_done parse (Inr dm) p) = DmArea"
  by (simp add: conversation_open_def handleMessageUser_done_def openDM_done_def Let_def page_simps upsert_ids)


definition online_page :: page_state where
  "online_page = (new_page_state False)\<lparr>pa_servers := no_servers\<lparr>sv_connected := True, sv_selectedServer := 4, sv_selectedChannel := 40\<rparr>\<rparr>"

definition busy_events :: "page_input list" where
  "busy_events = [PageSynced None [a_server 4] [(4, [a_channel 40 4], [])], DmEvent (DmOpened (a_dm 3 ''x'')),
     DmEvent (DmRefreshDone (Inr [a_dm 3 ''x'', a_dm 77 ''yy''])), ConversationClosed 3 77 [] (Inr ())]"


text \<open>C34. A click on a server does not leave an open conversation: once the server has answered, the page shows the area of the
  servers with the chosen server selected, but the messages, and the channel a new message goes to, are those of the
  conversation.\<close>

theorem server_click_keeps_conversation:
  assumes "conversation_open c p" and "i \<in> srv_id ` set servers" and "i \<noteq> 0"
    and "q = page_synced (Some i) servers entries (fst (click_server i p))"
  shows "snd (click_server i p) = [ServersEffect (StartSync (Some i))] \<and> pa_view q = ServerArea
    \<and> sv_selectedServer (pa_servers q) = i \<and> selected_channel q = c"
proof -
  have n: "servers \<noteq> []" using assms(2) by auto
  have c: "snd (click_server i p) = [ServersEffect (StartSync (Some i))] \<and> pa_view (fst (click_server i p)) = ServerArea"
    using assms(1) by (simp add: click_server_def handleSelectServer_start_def Let_def conversation_open_def)
  have "conversation_open c (fst (page_step (\<lambda>_. 0) (fst (page_step (\<lambda>_. 0) p (ClickServer i))) (PageSynced (Some i) servers entries)))"
    using n assms(1) by (intro conversation_step) (simp_all add: keeps_conversation_def)
  then have "selected_channel q = c" by (simp add: assms(4) conversation_open_def)
  with c n assms(2,3) show ?thesis
    by (simp add: assms(4) page_synced_def sync_done_def Let_def active_server_preferred)
qed

definition talking_page :: page_state where
  "talking_page = handleMessageUser_done (\<lambda>t. 0) (Inr (a_dm 77 ''y'')) online_page"

theorem server_click_keeps_conversation_witness:
  "pa_view (page_synced (Some 5) [a_server 4, a_server 5] [(5, [a_channel 50 5], [])] (fst (click_server 5 talking_page))) = ServerArea
   \<and> selected_channel (page_synced (Some 5) [a_server 4, a_server 5] [(5, [a_channel 50 5], [])] (fst (click_server 5 talking_page))) = 77"
proof -
  have "conversation_open 77 talking_page"
    using messaged_open [of online_page "a_dm 77 ''y''" "\<lambda>t. 0"] by (simp add: talking_page_def online_page_def a_dm_def)
  then show ?thesis
    using server_click_keeps_conversation [of 77 talking_page 5 "[a_server 4, a_server 5]" _ "[(5, [a_channel 50 5], [])]"]
    by (simp add: a_server_def)
qed

text \<open>Closing the conversation that is open never leaves it selected.\<close>

lemma closed_conversation_left:
  "c \<noteq> 0 \<Longrightarrow> selected_channel (close_conversation_done c c xs (Inr ()) p) \<noteq> c"
  by (auto simp: close_conversation_done_def page_simps Let_def dest!: find_Some_iff [THEN iffD1] split: option.splits)

section \<open>Notifications\<close>

definition lists :: "int \<Rightarrow> int \<Rightarrow> Server list \<times> (int \<times> channels_state) list \<Rightarrow> bool" where
  "lists i c a \<longleftrightarrow> i \<in> srv_id ` set (fst a) \<and> c \<in> ch_id ` set (map_get_or [] (channels_by_server (snd a)) i)"

definition at_channel :: "int \<Rightarrow> int \<Rightarrow> page_state \<Rightarrow> bool" where
  "at_channel i c p \<longleftrightarrow> sv_selectedServer (pa_servers p) = i \<and> selected_channel p = c"

lemma synced_at_channel:
  assumes "lists i c (servers, entries)" and "0 < i" and "at_channel i c p" and "preferred \<in> {None, Some i}"
  shows "at_channel i c (page_synced preferred servers entries p)"
proof -
  have "servers \<noteq> []" "i \<in> srv_id ` set servers" using assms(1) by (auto simp: lists_def)
  moreover have "active_server preferred i servers = i" using calculation assms(2,4) by (auto simp: active_server_def)
  ultimately show ?thesis using assms(1,3)
    by (simp add: at_channel_def page_synced_def sync_done_def Let_def selected_channel_def next_selected_def lists_def)
qed

lemma synced_selects_server:
  assumes "i \<in> srv_id ` set servers" and "0 < i"
  shows "sv_selectedServer (pa_servers (page_synced (Some i) servers entries p)) = i"
  using assms by (auto simp: page_synced_def sync_done_def Let_def active_server_def)

lemma navigate_rest_at:
  "nv_channel t = Some c \<Longrightarrow> sv_selectedServer (pa_servers p) = i \<Longrightarrow> at_channel i c (fst (navigate_rest t p))"
  by (auto simp: navigate_rest_def at_channel_def scrollToMessage_start_def page_simps Let_def)

lemma navigate_rest_jumps:
  "nv_channel t = Some c \<Longrightarrow> 0 < c \<Longrightarrow> nv_message t = Some m \<Longrightarrow> m \<noteq> 0 \<Longrightarrow> JumpToMessage c m \<in> set (snd (navigate_rest t p))"
  by (simp add: navigate_rest_def truthy_id_def scrollToMessage_start_def Let_def)

text \<open>C35. A click on a notification that names its server opens the channel, asks for the message, and the channel is still
  open after every later synchronisation in which the server lists it, wherever the user was.\<close>

theorem notification_opens_channel:
  assumes "nv_channel t = Some c" and "0 < c" and "nv_server t = Some i" and "0 < i" and "nv_message t = Some m" and "m \<noteq> 0"
    and "sv_connected (pa_servers p)" and "\<forall>a \<in> set ((servers, entries) # later). lists i c a"
    and "navigateFromNotification t (Inr (servers, entries)) p = (q, effs)"
  shows "at_channel i c (foldl (\<lambda>p a. page_synced None (fst a) (snd a) p) q later) \<and> JumpToMessage c m \<in> set effs"
proof -
  let ?p1 = "fst (navigate_start t p)" and ?e1 = "fst (snd (navigate_start t p))"
  let ?p2 = "if ServersEffect (StartSync (nv_server t)) \<in> set ?e1 then page_synced (nv_server t) servers entries ?p1 else ?p1"
  have nav: "q = fst (navigate_rest t ?p2)" "effs = ?e1 @ snd (navigate_rest t ?p2)"
    using assms(1,2,9) by (auto simp: navigateFromNotification_def truthy_id_def Let_def split: prod.splits if_splits)
  have "i \<in> srv_id ` set servers" using assms(8) by (simp add: lists_def)
  then have "sv_selectedServer (pa_servers ?p2) = i"
    using assms(3,4,7) synced_selects_server [of i servers]
    by (auto simp: navigate_start_def truthy_id_def handleSelectServer_start_def Let_def)
  then have "at_channel i c q" unfolding nav(1) using assms(1) by (intro navigate_rest_at)
  moreover have "at_channel i c (foldl (\<lambda>p a. page_synced None (fst a) (snd a) p) r later)" if "at_channel i c r" for r
    using that assms(8)
  proof (induction later arbitrary: r)
    case (Cons a later)
    then have "at_channel i c (page_synced None (fst a) (snd a) r)"
      by (intro synced_at_channel) (simp_all add: assms(4))
    with Cons show ?case by simp
  qed simp
  ultimately show ?thesis using navigate_rest_jumps [OF assms(1,2,5,6)] nav(2) by simp
qed

definition a_notification :: nav_target where
  "a_notification = \<lparr>nv_channel = Some 50, nv_server = Some 5, nv_message = Some 9\<rparr>"

definition two_servers :: "Server list \<times> (int \<times> channels_state) list" where
  "two_servers = ([a_server 4, a_server 5], [(4, [a_channel 40 4], []), (5, [a_channel 49 5, a_channel 50 5], [])])"

theorem notification_opens_channel_witness:
  "at_channel 5 50 (foldl (\<lambda>p a. page_synced None (fst a) (snd a) p)
     (fst (navigateFromNotification a_notification (Inr two_servers) online_page)) [two_servers])"
proof -
  obtain q effs where q: "navigateFromNotification a_notification (Inr (fst two_servers, snd two_servers)) online_page = (q, effs)"
    by fastforce
  have "lists 5 50 two_servers" by code_simp
  with notification_opens_channel [of a_notification 50 5 9 online_page "fst two_servers" "snd two_servers" "[two_servers]" q effs] q
  show ?thesis by (simp add: a_notification_def online_page_def)
qed

text \<open>The address that the service worker opens names the channel but not its server. Opened while another server is
  selected, the page shows the channel until the next synchronisation only, and then the first channel of the server that
  was selected, although the server of the channel is in the answer.\<close>

theorem link_to_other_server_is_lost:
  assumes "sv_connected (pa_servers p)" and "\<not> pa_bootHandled p" and "0 < c" and "c \<notin> dm_ids p"
    and "a = sv_selectedServer (pa_servers p)" and "0 < a" and "a \<in> srv_id ` set servers"
    and "map_get_or [] (channels_by_server entries) a = ch # chs" and "c \<notin> ch_id ` set (ch # chs)"
    and "boot_effect (Some c) message p = (q, effs)"
  shows "selected_channel q = c \<and> selected_channel (page_synced None servers entries q) = ch_id ch"
proof -
  have q: "selected_channel q = c" "sv_selectedServer (pa_servers q) = a" "dm_ids q = dm_ids p"
    using assms(1-3,5,10)
    by (auto simp: boot_effect_def navigateFromNotification_def boot_target_def truthy_id_def navigate_start_def navigate_rest_def
        scrollToMessage_start_def page_simps Let_def split: option.splits if_splits)
  have "servers \<noteq> []" using assms(7) by auto
  moreover have "active_server None a servers = a" using assms(6,7) by (simp add: active_server_def)
  ultimately have "selected_channel (page_synced None servers entries q)
      = next_selected (map_get_or [] (channels_by_server entries) a) (dm_ids q) (selected_channel q)"
    using q(2) by (simp add: page_synced_def sync_done_def Let_def selected_channel_def)
  with q assms(4,8,9) show ?thesis by (simp add: next_selected_def)
qed

theorem link_to_other_server_is_lost_witness:
  "selected_channel (fst (boot_effect (Some 50) (Some 9) online_page)) = 50
   \<and> lists 5 50 two_servers \<and> selected_channel (page_synced None (fst two_servers) (snd two_servers) (fst (boot_effect (Some 50) (Some 9) online_page))) = 40"
proof -
  obtain q effs where q: "boot_effect (Some 50) (Some 9) online_page = (q, effs)" by fastforce
  have m: "map_get_or [] (channels_by_server (snd two_servers)) 4 = a_channel 40 4 # []" by code_simp
  have l: "lists 5 50 two_servers" by code_simp
  have s: "4 \<in> srv_id ` set (fst two_servers)" by (simp add: two_servers_def a_server_def)
  have d: "50 \<notin> dm_ids online_page" by code_simp
  have p: "sv_connected (pa_servers online_page)" "\<not> pa_bootHandled online_page" "4 = sv_selectedServer (pa_servers online_page)"
    by (simp_all add: online_page_def new_page_state_def)
  have c: "50 \<notin> ch_id ` set (a_channel 40 4 # [])" "ch_id (a_channel 40 4) = 40" by (simp_all add: a_channel_def)
  have "selected_channel q = 50 \<and> selected_channel (page_synced None (fst two_servers) (snd two_servers) q) = ch_id (a_channel 40 4)"
    by (rule link_to_other_server_is_lost [OF p(1,2) _ d p(3) _ s m c(1) q]) simp_all
  with l q c(2) show ?thesis by (simp only: fst_conv)
qed

end
