(* ===== verification/PageViewProps.thy ===== *)
theory PageViewProps
  imports PageView PageProps
begin

text \<open>
  The rows marked as silent are the ones that never notify, deleting is for owners, the closing animation of a modal ends, the
  theme is found again, and the picture of a name is the first one seen.
\<close>

section \<open>Silent rows\<close>

lemma silent_none: "isChannelSilenced ms now settings srv (m_channel_id msg) \<Longrightarrow> nc_serverId ctx = srv \<Longrightarrow> nc_settings ctx = settings
    \<Longrightarrow> shouldNotify ms now msg ctx = NotifyNone"
  by (auto simp: isChannelSilenced_def shouldNotify_def Let_def)

text \<open>A message by somebody else that mentions everyone, seen by nobody.\<close>

definition loud_message :: "int \<Rightarrow> Message" where
  "loud_message c = \<lparr>m_id = 1, m_channel_id = c, m_author_id = 2, m_author_first_name = JNull, m_author_last_name = JNull,
     m_author_nickname = JNull, m_author_avatar_url = [], m_content = ''x'', m_attachments = None, m_reply_to_id = Absent,
     m_reply_to = Absent, m_mentions = None, m_mentions_everyone = Some True, m_embeds = [], m_created_at = [], m_edited_at = None\<rparr>"

definition hidden_ctx :: "int \<Rightarrow> NotificationSettings option \<Rightarrow> NotifyContext" where
  "hidden_ctx srv settings = \<lparr>nc_currentUserId = Some 1, nc_activeChannelId = 0, nc_isPageVisible = False, nc_serverId = srv,
     nc_settings = settings\<rparr>"

lemma loud_notifies:
  assumes "\<not> isChannelSilenced ms now settings srv c" and "\<not> isDoNotDisturb ms settings now"
  shows "shouldNotify ms now (loud_message c) (hidden_ctx srv settings) = NotifyMention"
  using assms by (auto simp: isChannelSilenced_def shouldNotify_def loud_message_def hidden_ctx_def isMention_def Let_def)


definition quiet_settings :: NotificationSettings where
  "quiet_settings = \<lparr>ns_default_level = LevelAll, ns_hide_message_preview = False, ns_dnd_until = None,
     ns_servers = [], ns_channels = [\<lparr>cno_channel_id = 8, cno_level = Some LevelNone, cno_muted_until = None\<rparr>]\<rparr>"


section \<open>Buttons of the sidebars\<close>

lemma delete_button_owner:
  "(DeleteServerButton, d) \<in> set (sidebar_buttons me p) \<Longrightarrow> isCurrentServerOwner me p"
  by (auto simp: sidebar_buttons_def rail_buttons_def header_buttons_def Let_def split: if_splits)

text \<open>Who has the button to delete owns the selected server, and the button asks to delete that server.\<close>

lemma delete_is_for_owners:
  assumes "(DeleteServerButton, False) \<in> set (sidebar_buttons me p)"
  shows "handleDeleteServer_start True (pa_servers p) = (pa_servers p, [DeleteServer (sv_selectedServer (pa_servers p))])
    \<and> (\<exists>s \<in> set (sv_servers (pa_servers p)). srv_id s = sv_selectedServer (pa_servers p) \<and> me = Some (srv_owner_id s))"
proof -
  have "isCurrentServerOwner me p" using assms by (rule delete_button_owner)
  then have "\<exists>s \<in> set (sv_servers (pa_servers p)). srv_id s = sv_selectedServer (pa_servers p) \<and> me = Some (srv_owner_id s)"
    by (auto simp: isCurrentServerOwner_def currentServer_def find_Some_iff split: option.splits)
  with assms show ?thesis by (auto simp: sidebar_buttons_def rail_buttons_def header_buttons_def handleDeleteServer_start_def Let_def split: if_splits)
qed

text \<open>An open conversation seen from the area of the servers: the header names the server, the subheader no channel, and the
  input takes a message.\<close>

lemma conversation_behind_server:
  assumes "conversation_open c p" and "0 < c" and "pa_view p = ServerArea" and "currentServer p = Some s" and "currentChannel p = None"
  shows "chat_header p = ServerHeader (srv_name s) \<and> chat_subheader p = NoChannel \<and> message_input_shown p = Some True"
  using assms by (simp add: chat_header_def chat_subheader_def message_input_shown_def shouldHideMessageInput_def isVoiceChannel_def
      conversation_open_def)

section \<open>The profile modal\<close>

text \<open>Nothing of the account of the user can be changed from the profile of somebody else.\<close>

lemma foreign_profile_buttons:
  "\<not> isSelfProfile me s \<Longrightarrow> (b, d) \<in> set (profile_buttons me s) \<Longrightarrow> b \<in> {MessageButton, CloseButton}"
  by (auto simp: profile_buttons_def profile_avatar_buttons_def profile_row_buttons_def profile_confirm_buttons_def
      profile_action_buttons_def split: if_splits)

text \<open>An account is deleted after the question only, and not while it is being deleted.\<close>

lemma delete_asks_first:
  "(ConfirmDeleteButton, False) \<in> set (profile_buttons me s) \<Longrightarrow> pp_deleteConfirmOpen s \<and> \<not> pp_deleting s"
  by (auto simp: profile_buttons_def profile_avatar_buttons_def profile_row_buttons_def profile_confirm_buttons_def
      profile_action_buttons_def split: if_splits)

section \<open>Modals\<close>

definition modal_inv :: "modal_state \<Rightarrow> bool" where
  "modal_inv s \<longleftrightarrow> (\<forall>m. mo_closing s = Some m \<longrightarrow> m \<in> set (mo_timers s))"

lemma modal_inv_step: "modal_inv s \<Longrightarrow> modal_enabled s e \<Longrightarrow> modal_inv (fst (modal_step s e))"
  by (cases e) (auto simp: modal_inv_def closeModalWithAnim_def modal_timer_fire_def split: list.splits)

interpretation modals: machine_invariant modal_enabled modal_step modal_inv
  by unfold_locales (rule modal_inv_step)

text \<open>A modal in its closing animation has a timer that closes it.\<close>

lemma closing_modal_closes:
  assumes "run modal_enabled modal_step no_modals es s os" and "mo_closing s = Some m"
  shows "m \<in> set (mo_timers s)"
  using modals.inv_run [OF assms(1)] assms(2) by (simp add: modal_inv_def no_modals_def)

lemma timers_close:
  "m \<in> set (mo_timers s) \<Longrightarrow> n = length (mo_timers s) \<Longrightarrow> m \<notin> mo_open ((modal_timer_fire ^^ n) s) \<and> mo_closing ((modal_timer_fire ^^ n) s) = None"
proof (induction n arbitrary: s)
  case (Suc n)
  then obtain x rest where t: "mo_timers s = x # rest" by (cases "mo_timers s") auto
  let ?s = "modal_timer_fire s"
  have s: "?s = \<lparr>mo_open = mo_open s - {x}, mo_closing = None, mo_timers = rest\<rparr>" using t by (simp add: modal_timer_fire_def)
  have stays: "m \<notin> mo_open ((modal_timer_fire ^^ k) u) \<and> mo_closing ((modal_timer_fire ^^ k) u) = None"
    if "m \<notin> mo_open u" "mo_closing u = None" for k u
    using that by (induction k arbitrary: u) (auto simp: funpow_swap1 modal_timer_fire_def split: list.splits)
  show ?case
  proof (cases "m \<in> set rest")
    case True
    with Suc.IH [of ?s] Suc.prems t s show ?thesis by (simp add: funpow_swap1)
  next
    case False
    with Suc.prems t have "m = x" by simp
    with stays [of ?s n] s show ?thesis by (simp add: funpow_swap1)
  qed
qed simp

text \<open>A modal that is opened again during its closing animation is closed by the timer of before.\<close>

lemma reopened_modal_is_closed:
  "m \<notin> mo_open (fst (modal_step (fst (modal_step (fst (modal_step (no_modals\<lparr>mo_open := {m}\<rparr>) (CloseModal m))) (OpenModal m))) ModalTimer))"
  by (simp add: closeModalWithAnim_def modal_timer_fire_def no_modals_def)

section \<open>Drawers\<close>

lemma leaving_phone_closes: "dw_phone s \<Longrightarrow> \<not> dw_open (drawer_step s (PhoneMode False)) \<and> \<not> dw_more (drawer_step s (PhoneMode False))"
  by (simp add: phone_mode_effect_def)

lemma drawer_opens_itself_once: "dw_autoOpened s \<Longrightarrow> drawer_step s (ChannelShown c) = s"
  by (simp add: first_visit_effect_def)

section \<open>The theme\<close>

lemma theme_found_again: "load_theme (theme_effect True t st) = t"
  by (cases t) (simp_all add: load_theme_def theme_effect_def)

lemma theme_toggles: "toggleTheme (toggleTheme t) = t" "toggleTheme t \<noteq> t"
  by (cases t; simp add: toggleTheme_def)+

section \<open>Pictures\<close>

lemma add_key_keeps: "map_get m k = Some a \<Longrightarrow> map_get (add_key k' b m) k = Some a"
  by (auto simp: add_key_def map_has_def)

lemma add_avatar_keeps: "map_get m k = Some a \<Longrightarrow> map_get (add_avatar u m) k = Some a"
  by (auto simp: add_avatar_def add_key_keeps split: prod.splits)

lemma avatars_keep: "map_get m k = Some a \<Longrightarrow> map_get (fold add_avatar us m) k = Some a"
  by (induction us arbitrary: m) (simp_all add: add_avatar_keeps)

lemma add_key_sets: "k \<noteq> [] \<Longrightarrow> map_get (add_key k a m) k = Some (case map_get m k of Some b \<Rightarrow> b | None \<Rightarrow> a)"
  by (auto simp: add_key_def map_has_def split: option.splits)

text \<open>The first user with a picture whose nickname or name is \<open>k\<close> gives the picture of \<open>k\<close>.\<close>

lemma first_picture_wins:
  assumes "map_get (fold add_avatar us []) k = None" and "a \<noteq> []" and "k \<noteq> []"
    and "k = to_lower (trim n) \<or> k = full_name_key f l"
  shows "map_get (fold add_avatar (us @ (f, l, a, n) # rest) []) k = Some a"
proof -
  let ?m = "fold add_avatar us []"
  let ?m1 = "add_key (full_name_key f l) a ?m"
  have e: "add_avatar (f, l, a, n) ?m = add_key (to_lower (trim n)) a ?m1" using assms(2) by (simp add: add_avatar_def)
  have new: "map_get (add_key k b m) k = Some (case map_get m k of Some x \<Rightarrow> x | None \<Rightarrow> b)" for b m
    using assms(3) by (rule add_key_sets)
  have "map_get (add_avatar (f, l, a, n) ?m) k = Some a"
  proof (cases "k = full_name_key f l")
    case True
    then have "map_get ?m1 k = Some a" using new [of a ?m] assms(1) by simp
    then show ?thesis unfolding e by (rule add_key_keeps)
  next
    case False
    then have "map_get ?m1 k = None" using assms(1) by (simp add: add_key_def)
    moreover have "to_lower (trim n) = k" using assms(4) False by simp
    ultimately show ?thesis using new [of a ?m1] unfolding e by simp
  qed
  then show ?thesis by (simp add: avatars_keep)
qed

end
