(* ===== verification/Widgets.thy ===== *)
theory Widgets
  imports MessageView Quality Voice
begin

text \<open>
  The small components around the page: the search for users (\<^verbatim>\<open>UserSearchModal.tsx\<close>), the toasts (\<^verbatim>\<open>Toast.tsx\<close>), the panel of
  the message search (\<^verbatim>\<open>SearchPanel.tsx\<close>), the list of mentions (\<^verbatim>\<open>MentionAutocomplete.tsx\<close>), the bars of the connection
  quality (\<^verbatim>\<open>ConnectionQualityIcon.tsx\<close>), the voice settings (\<^verbatim>\<open>VoiceSettingsModal.tsx\<close>), link previews
  (\<^verbatim>\<open>LinkPreviewCard.tsx\<close>), the button to the newest message (\<^verbatim>\<open>JumpToLatestButton.tsx\<close>) and the height of the visible page
  (\<^verbatim>\<open>hooks/useVisualViewport.ts\<close>).
\<close>

section \<open>The search for users\<close>

text \<open>The timer holds the number and the query of its request; \<open>uq_pending\<close> are the requests without an answer.\<close>

record user_search =
  uq_query :: string
  uq_results :: "UserSearchHit list"
  uq_searching :: bool
  uq_error :: string
  uq_requestId :: nat
  uq_timer :: "(nat \<times> string) option"
  uq_pending :: "(nat \<times> string) list"

definition new_user_search :: user_search where
  "new_user_search = \<lparr>uq_query = [], uq_results = [], uq_searching = False, uq_error = [], uq_requestId = 0, uq_timer = None,
     uq_pending = []\<rparr>"

definition SEARCH_DEBOUNCE_MS :: nat where "SEARCH_DEBOUNCE_MS = 250"

text \<open>The effect with its clean-up: it runs when the trimmed query or the function that searches is another one.\<close>

definition user_search_effect :: "user_search \<Rightarrow> user_search" where
  "user_search_effect s =
     (let q = trim (uq_query s); cleaned = s\<lparr>uq_timer := None\<rparr>
      in if q = [] then cleaned
         else cleaned\<lparr>uq_requestId := uq_requestId s + 1, uq_searching := True, uq_timer := Some (uq_requestId s + 1, q)\<rparr>)"

definition user_query_typed :: "string \<Rightarrow> user_search \<Rightarrow> user_search" where
  "user_query_typed text s = (let t = s\<lparr>uq_query := text\<rparr> in if trim text = trim (uq_query s) then t else user_search_effect t)"

text \<open>The page gives the modal a new function in every rendering.\<close>

definition page_rendered :: "user_search \<Rightarrow> user_search" where
  "page_rendered s = user_search_effect s"

definition user_search_timer :: "user_search \<Rightarrow> user_search" where
  "user_search_timer s = (case uq_timer s of None \<Rightarrow> s
   | Some request \<Rightarrow> s\<lparr>uq_timer := None, uq_pending := uq_pending s @ [request]\<rparr>)"

definition user_search_answered :: "nat \<Rightarrow> string + UserSearchHit list \<Rightarrow> user_search \<Rightarrow> user_search" where
  "user_search_answered requestId res s0 =
     (let s = s0\<lparr>uq_pending := filter (\<lambda>r. fst r \<noteq> requestId) (uq_pending s0)\<rparr>
      in if requestId \<noteq> uq_requestId s then s
         else case res of
           Inr hits \<Rightarrow> s\<lparr>uq_results := hits, uq_error := [], uq_searching := False\<rparr>
         | Inl e \<Rightarrow> s\<lparr>uq_results := [], uq_error := e, uq_searching := False\<rparr>)"

datatype user_list = UserListNothing | UserListError string | UserListSearching | UserListNone | UserListHits "UserSearchHit list"

text \<open>What the modal shows below the input; hits are also shown beside an error.\<close>

definition user_search_error :: "user_search \<Rightarrow> string" where
  "user_search_error s = (if trim (uq_query s) = [] then [] else uq_error s)"

definition user_search_hits :: "user_search \<Rightarrow> UserSearchHit list" where
  "user_search_hits s = (if trim (uq_query s) = [] \<or> uq_searching s then [] else uq_results s)"

definition user_search_view :: "user_search \<Rightarrow> user_list" where
  "user_search_view s =
     (if user_search_error s \<noteq> [] then UserListError (user_search_error s)
      else if trim (uq_query s) = [] then UserListNothing
      else if uq_searching s then UserListSearching
      else if user_search_hits s = [] then UserListNone else UserListHits (user_search_hits s))"

datatype user_search_input = UserQuery string | PageRendered | UserTimer | UserAnswer nat string

text \<open>\<open>find_users\<close> is what the server answers to a query.\<close>

fun user_search_enabled :: "user_search \<Rightarrow> user_search_input \<Rightarrow> bool" where
  "user_search_enabled s (UserAnswer i q) \<longleftrightarrow> (i, q) \<in> set (uq_pending s)"
| "user_search_enabled s _ \<longleftrightarrow> True"

fun user_search_step :: "(string \<Rightarrow> string + UserSearchHit list) \<Rightarrow> user_search \<Rightarrow> user_search_input \<Rightarrow> user_search \<times> unit list" where
  "user_search_step find_users s (UserQuery text) = (user_query_typed text s, [])"
| "user_search_step find_users s PageRendered = (page_rendered s, [])"
| "user_search_step find_users s UserTimer = (user_search_timer s, [])"
| "user_search_step find_users s (UserAnswer i q) = (user_search_answered i (find_users q) s, [])"

section \<open>Toasts\<close>

record toast =
  to_id :: nat
  to_success :: bool
  to_message :: string
  to_exiting :: bool

datatype toast_timer = AutoDismiss nat | RemoveToast nat

record toast_state =
  ts_toasts :: "toast list"
  ts_timers :: "toast_timer list"

definition no_toasts :: toast_state where
  "no_toasts = \<lparr>ts_toasts = [], ts_timers = []\<rparr>"

definition dismiss :: "nat \<Rightarrow> toast_state \<Rightarrow> toast_state" where
  "dismiss i s = s\<lparr>ts_toasts := map (\<lambda>t. if to_id t = i then t\<lparr>to_exiting := True\<rparr> else t) (ts_toasts s),
     ts_timers := ts_timers s @ [RemoveToast i]\<rparr>"

definition showToast :: "nat \<Rightarrow> bool \<Rightarrow> string \<Rightarrow> toast_state \<Rightarrow> toast_state" where
  "showToast i success message s = s\<lparr>ts_toasts := ts_toasts s @ [\<lparr>to_id = i, to_success = success, to_message = message, to_exiting = False\<rparr>],
     ts_timers := ts_timers s @ [AutoDismiss i]\<rparr>"

definition toast_timer_fire :: "toast_timer \<Rightarrow> toast_state \<Rightarrow> toast_state" where
  "toast_timer_fire t s0 =
     (let s = s0\<lparr>ts_timers := remove1 t (ts_timers s0)\<rparr>
      in case t of AutoDismiss i \<Rightarrow> dismiss i s
         | RemoveToast i \<Rightarrow> s\<lparr>ts_toasts := filter (\<lambda>x. to_id x \<noteq> i) (ts_toasts s)\<rparr>)"

datatype toast_input = ToastShown nat bool string | ToastClosed nat | ToastTimer toast_timer

text \<open>The id of a toast is made of the time and a random number: new.\<close>

fun toast_enabled :: "toast_state \<Rightarrow> toast_input \<Rightarrow> bool" where
  "toast_enabled s (ToastShown i _ _) \<longleftrightarrow> i \<notin> to_id ` set (ts_toasts s) \<and> AutoDismiss i \<notin> set (ts_timers s) \<and> RemoveToast i \<notin> set (ts_timers s)"
| "toast_enabled s (ToastClosed i) \<longleftrightarrow> i \<in> to_id ` set (ts_toasts s)"
| "toast_enabled s (ToastTimer t) \<longleftrightarrow> t \<in> set (ts_timers s)"

fun toast_step :: "toast_state \<Rightarrow> toast_input \<Rightarrow> toast_state \<times> unit list" where
  "toast_step s (ToastShown i success message) = (showToast i success message s, [])"
| "toast_step s (ToastClosed i) = (dismiss i s, [])"
| "toast_step s (ToastTimer t) = (toast_timer_fire t s, [])"

section \<open>The panel of the message search\<close>

datatype search_key = SearchEnter | SearchEscape | OtherSearchKey
datatype search_command = SubmitSearch | CloseSearch | ScrollToHit int int | LoadMoreHits

definition search_keydown :: "search_key \<Rightarrow> search_command list" where
  "search_keydown k = (case k of SearchEnter \<Rightarrow> [SubmitSearch] | SearchEscape \<Rightarrow> [CloseSearch] | OtherSearchKey \<Rightarrow> [])"

text \<open>The hit that was clicked last is marked; the row scrolls to its message.\<close>

definition handleHitClick :: "SearchHit \<Rightarrow> int option \<times> search_command list" where
  "handleHitClick hit = (Some (sh_message_id hit), [ScrollToHit (sh_message_id hit) (sh_channel_id hit)])"

definition hits_sentinel :: "bool \<Rightarrow> bool \<Rightarrow> bool \<Rightarrow> search_command list" where
  "hits_sentinel hasMore isLoadingMore intersecting = (if hasMore \<and> \<not> isLoadingMore \<and> intersecting then [LoadMoreHits] else [])"

text \<open>The value of the select: empty, or the number of a member.\<close>

definition author_filter :: "int option \<Rightarrow> SearchFilters \<Rightarrow> SearchFilters" where
  "author_filter v f = f\<lparr>sf_authorId := v\<rparr>"

definition file_filter :: "bool \<Rightarrow> SearchFilters \<Rightarrow> SearchFilters" where
  "file_filter checked f = f\<lparr>sf_hasFile := (if checked then Some True else None)\<rparr>"

definition link_filter :: "bool \<Rightarrow> SearchFilters \<Rightarrow> SearchFilters" where
  "link_filter checked f = f\<lparr>sf_hasLink := (if checked then Some True else None)\<rparr>"

definition isQueryTooShort :: "string \<Rightarrow> bool" where
  "isQueryTooShort query \<longleftrightarrow> 0 < length (trim query) \<and> length (trim query) < 2"

datatype results_part = TooShortHint | SearchFailed string | SearchingRow | NothingFound | HitRows "SearchHit list" | LoadingMoreRow | HitsSentinel

definition search_results_view :: "string \<Rightarrow> string \<Rightarrow> bool \<Rightarrow> bool \<Rightarrow> bool \<Rightarrow> bool \<Rightarrow> SearchHit list \<Rightarrow> results_part list" where
  "search_results_view query error isLoading isLoadingMore hasSearched hasMore hits =
     (if isQueryTooShort query then [TooShortHint] else []) @ (if error \<noteq> [] then [SearchFailed error] else [])
     @ (if isLoading then [SearchingRow] else [])
     @ (if \<not> isLoading \<and> hasSearched \<and> hits = [] \<and> error = [] then [NothingFound] else [])
     @ (if hits \<noteq> [] then [HitRows hits] else []) @ (if isLoadingMore then [LoadingMoreRow] else [])
     @ (if hasMore \<and> \<not> isLoadingMore then [HitsSentinel] else [])"

definition hit_author :: "SearchHit \<Rightarrow> string" where
  "hit_author hit =
     (let nickname = trim (str_or [] (sh_author_nickname hit));
          name = trim (str_or [] (sh_author_first_name hit) @ '' '' @ str_or [] (sh_author_last_name hit))
      in if nickname \<noteq> [] then nickname else if name \<noteq> [] then name else ''User #'' @ show_int (sh_author_id hit))"

definition hit_channel :: "SearchScope \<Rightarrow> SearchHit \<Rightarrow> string option" where
  "hit_channel scope hit = (if scope = ServerScope then Some (''# '' @ sh_channel_name hit) else None)"

section \<open>The list of mentions\<close>

definition memberInitials :: "(string \<Rightarrow> string) \<Rightarrow> ServerMember \<Rightarrow> string" where
  "memberInitials upper member = upper (take 2 (memberDisplayName member))"

datatype mention_choice = ChooseEveryone | ChooseMember ServerMember

text \<open>The rows and whether they are marked.\<close>

definition mention_rows :: "MentionResults \<Rightarrow> nat \<Rightarrow> (mention_choice \<times> bool) list" where
  "mention_rows r active = (if mr_total r = 0 then []
     else (if mr_showEveryone r then [(ChooseEveryone, active = 0)] else [])
       @ map (\<lambda>(i, m). (ChooseMember m, active = (if mr_showEveryone r then 1 else 0) + i)) (enumerate 0 (mr_members r)))"

section \<open>Icons, settings and previews\<close>

definition ACTIVE_BARS :: "QualityLevel \<Rightarrow> nat" where
  "ACTIVE_BARS level = (case level of Measured Good \<Rightarrow> 3 | Measured Medium \<Rightarrow> 2 | Measured Bad \<Rightarrow> 1 | Connecting \<Rightarrow> 0 | Disconnected \<Rightarrow> 0)"

text \<open>Which of the three bars are lit, and whether they are crossed out.\<close>

definition quality_bars :: "PeerQuality \<Rightarrow> bool list \<times> bool" where
  "quality_bars q = (map (\<lambda>i. i < ACTIVE_BARS (pq_level q)) [0, 1, 2], pq_level q = Disconnected)"

definition noise_options :: "NoiseSuppressionMode list" where
  "noise_options = [NoiseOff, NoiseBrowser, NoiseRnnoise]"

definition noise_option_checked :: "NoiseSuppressionMode \<Rightarrow> (NoiseSuppressionMode \<times> bool) list" where
  "noise_option_checked desired = map (\<lambda>m. (m, desired = m)) noise_options"

text \<open>A choice: the desired mode of the modal, and the call of the hook.\<close>

definition noise_selected :: "voice_env \<Rightarrow> NoiseSuppressionMode \<Rightarrow> voice_state \<Rightarrow> NoiseSuppressionMode \<times> voice_state \<times> voice_effect list" where
  "noise_selected env mode s = (mode, setNoiseSuppression env mode s)"

definition rnnoise_unavailable :: "NoiseSuppressionMode \<Rightarrow> voice_state \<Rightarrow> bool" where
  "rnnoise_unavailable desired s \<longleftrightarrow> desired = NoiseRnnoise \<and> vo_noise s \<noteq> NoiseRnnoise"

text \<open>\<open>base\<close> is the address of the interface, \<open>encode\<close> is \<open>encodeURIComponent\<close>, \<open>host_of\<close> the host of a parsed address.\<close>

definition embedImageUrl :: "string \<Rightarrow> (string \<Rightarrow> string) \<Rightarrow> string \<Rightarrow> string" where
  "embedImageUrl base encode token =
     (let b = (if base \<noteq> [] then base else ''/api/v1'');
          trimmed = (if last b = CHR 0x2F then butlast b else b)
      in trimmed @ ''/embeds/image/'' @ encode token)"

definition hostFromUrl :: "(string \<Rightarrow> string option) \<Rightarrow> string \<Rightarrow> string" where
  "hostFromUrl host_of raw = (case host_of raw of
     Some h \<Rightarrow> (if prefix ''www.'' h then drop 4 h else h) | None \<Rightarrow> raw)"

record preview_card =
  pc_href :: string
  pc_site :: string
  pc_title :: "string option"
  pc_description :: "string option"
  pc_image :: "string option"

definition some_text :: "string option \<Rightarrow> string option" where
  "some_text x = (if x = Some [] then None else x)"

definition link_preview_card :: "string \<Rightarrow> (string \<Rightarrow> string) \<Rightarrow> (string \<Rightarrow> string option) \<Rightarrow> bool \<Rightarrow> LinkPreview \<Rightarrow> preview_card" where
  "link_preview_card base encode host_of isImageBroken p =
     \<lparr>pc_href = lp_url p, pc_site = (case some_text (lp_site_name p) of Some s \<Rightarrow> s | None \<Rightarrow> hostFromUrl host_of (lp_url p)),
      pc_title = some_text (lp_title p), pc_description = some_text (lp_description p),
      pc_image = (if isImageBroken then None else map_option (embedImageUrl base encode) (some_text (lp_image_token p)))\<rparr>"

definition jump_badge :: "nat \<Rightarrow> string" where
  "jump_badge n = (if 0 < n then (if 99 < n then ''99+'' else show_nat n) else [])"

section \<open>The visible page\<close>

text \<open>Heights in pixels; without a visual viewport the window is what is visible.\<close>

record viewport =
  vw_visual :: "(rat \<times> rat) option"
  vw_inner :: rat
  vw_scrollY :: rat

record viewport_style =
  vs_height :: int
  vs_inset :: int
  vs_keyboard :: bool
  vs_scrollTop :: bool

definition keyboard_inset :: "viewport \<Rightarrow> rat" where
  "keyboard_inset v = (case vw_visual v of
     Some (height, offsetTop) \<Rightarrow> max 0 (vw_inner v - height - offsetTop) | None \<Rightarrow> 0)"

definition viewport_update :: "viewport \<Rightarrow> viewport_style" where
  "viewport_update v =
     (let height = (case vw_visual v of Some (h, _) \<Rightarrow> h | None \<Rightarrow> vw_inner v)
      in \<lparr>vs_height = floor (height + 1 / 2), vs_inset = floor (keyboard_inset v + 1 / 2), vs_keyboard = (80 < keyboard_inset v),
          vs_scrollTop = (vw_scrollY v \<noteq> 0 \<or> (case vw_visual v of Some (_, t) \<Rightarrow> t \<noteq> 0 | None \<Rightarrow> False))\<rparr>)"

text \<open>However many events come, one frame is asked for at a time.\<close>

datatype viewport_input = ViewportEvent | ViewportFrame viewport

fun viewport_step :: "bool \<times> viewport_style \<Rightarrow> viewport_input \<Rightarrow> bool \<times> viewport_style" where
  "viewport_step (frame, style) ViewportEvent = (True, style)"
| "viewport_step (frame, style) (ViewportFrame v) = (if frame then (False, viewport_update v) else (frame, style))"

end
