(* ===== verification/WidgetsProps.thy ===== *)
theory WidgetsProps
  imports Widgets
begin

text \<open>
  The users shown are those of the query that is typed, though the page restarts the search whenever it is rendered; every toast
  goes away; exactly one mention is marked.
\<close>

section \<open>The search for users\<close>

definition shows_answer :: "string + UserSearchHit list \<Rightarrow> user_search \<Rightarrow> bool" where
  "shows_answer a s \<longleftrightarrow> (case a of Inr hits \<Rightarrow> uq_results s = hits \<and> uq_error s = [] | Inl e \<Rightarrow> uq_results s = [] \<and> uq_error s = e)"

definition user_search_inv :: "(string \<Rightarrow> string + UserSearchHit list) \<Rightarrow> user_search \<Rightarrow> bool" where
  "user_search_inv find_users s \<longleftrightarrow>
     (\<forall>i q. (i, q) \<in> set (uq_pending s) \<longrightarrow> i \<le> uq_requestId s)
     \<and> (\<forall>i q. uq_timer s = Some (i, q) \<longrightarrow> i = uq_requestId s \<and> (\<forall>q'. (i, q') \<notin> set (uq_pending s)))
     \<and> (trim (uq_query s) \<noteq> [] \<longrightarrow>
          (\<forall>i q. uq_timer s = Some (i, q) \<longrightarrow> q = trim (uq_query s))
          \<and> (\<forall>q. (uq_requestId s, q) \<in> set (uq_pending s) \<longrightarrow> q = trim (uq_query s))
          \<and> (if uq_searching s then uq_timer s \<noteq> None \<or> (\<exists>q. (uq_requestId s, q) \<in> set (uq_pending s))
             else shows_answer (find_users (trim (uq_query s))) s))"

lemma shows_answer_same [simp]:
  "shows_answer a (s\<lparr>uq_query := w\<rparr>) = shows_answer a s"
  "shows_answer a (s\<lparr>uq_timer := x, uq_pending := y\<rparr>) = shows_answer a s"
  "shows_answer a (s\<lparr>uq_pending := y\<rparr>) = shows_answer a s"
  "shows_answer a (s\<lparr>uq_timer := x\<rparr>) = shows_answer a s"
  by (simp_all add: shows_answer_def split: sum.splits)

lemma answered_shows:
  "shows_answer a (user_search_answered (uq_requestId s) a s)"
  by (simp add: shows_answer_def user_search_answered_def Let_def split: sum.splits)

lemma fresh_request: "user_search_inv f s \<Longrightarrow> (Suc (uq_requestId s), q) \<notin> set (uq_pending s)"
  by (auto simp: user_search_inv_def)

lemma effect_user_inv:
  assumes p: "\<forall>i q. (i, q) \<in> set (uq_pending s) \<longrightarrow> i \<le> uq_requestId s"
  shows "user_search_inv f (user_search_effect s)"
proof (cases "trim (uq_query s) = []")
  case True
  with p show ?thesis by (auto simp: user_search_inv_def user_search_effect_def Let_def)
next
  case False
  with p show ?thesis by (force simp: user_search_inv_def user_search_effect_def Let_def)
qed

lemma user_search_inv_step:
  assumes inv: "user_search_inv f s" and en: "user_search_enabled s e"
  shows "user_search_inv f (fst (user_search_step f s e))"
proof (cases e)
  case (UserQuery w)
  show ?thesis
  proof (cases "trim w = trim (uq_query s)")
    case True
    with inv UserQuery show ?thesis by (auto simp: user_search_inv_def user_query_typed_def Let_def)
  next
    case False
    have "user_search_inv f (user_search_effect (s\<lparr>uq_query := w\<rparr>))"
      using inv by (intro effect_user_inv) (simp add: user_search_inv_def)
    with False UserQuery show ?thesis by (simp add: user_query_typed_def Let_def)
  qed
next
  case PageRendered
  have "user_search_inv f (user_search_effect s)" using inv by (intro effect_user_inv) (simp add: user_search_inv_def)
  with PageRendered show ?thesis by (simp add: page_rendered_def)
next
  case UserTimer
  with inv show ?thesis
    by (auto simp: user_search_inv_def user_search_timer_def split: option.splits)
next
  case (UserAnswer i q)
  have iq: "(i, q) \<in> set (uq_pending s)" using en UserAnswer by simp
  show ?thesis
  proof (cases "i = uq_requestId s")
    case True
    have t: "uq_timer s = None"
    proof (rule ccontr)
      assume "uq_timer s \<noteq> None"
      then obtain q' where "uq_timer s = Some (i, q')" using inv True by (auto simp: user_search_inv_def)
      with inv iq show False by (auto simp: user_search_inv_def)
    qed
    have "trim (uq_query s) \<noteq> [] \<Longrightarrow> q = trim (uq_query s)" using inv iq True by (auto simp: user_search_inv_def)
    with inv t True UserAnswer answered_shows [of "f q" s] show ?thesis
      by (cases "f q") (auto simp: user_search_inv_def user_search_answered_def Let_def)
  next
    case False
    with inv UserAnswer show ?thesis
      by (auto simp: user_search_inv_def user_search_answered_def Let_def)
  qed
qed

interpretation user_searches: machine_invariant user_search_enabled "user_search_step f" "user_search_inv f" for f
  by unfold_locales (rule user_search_inv_step)


definition found_users :: "string \<Rightarrow> string + UserSearchHit list" where
  "found_users q = Inr [\<lparr>us_user_id = int (length q), us_nickname = q, us_avatar_url = None\<rparr>]"

definition user_events :: "user_search_input list" where
  "user_events = [UserQuery ''a'', UserTimer, UserQuery ''ab'', UserTimer, UserAnswer 2 ''ab'', UserAnswer 1 ''a'']"


text \<open>Every rendering of the page sends the search again: what was found is hidden and a timer runs anew, and as long as the page
  is rendered more often than every 250 ms no request is sent.\<close>

lemma rendering_restarts_search:
  "trim (uq_query s) \<noteq> [] \<Longrightarrow> uq_searching (page_rendered s) \<and> user_search_hits (page_rendered s) = []
    \<and> uq_timer (page_rendered s) = Some (uq_requestId s + 1, trim (uq_query s))"
  by (simp add: page_rendered_def user_search_effect_def user_search_hits_def Let_def)

lemma renderings_starve_search: "uq_pending ((page_rendered ^^ n) s) = uq_pending s"
  by (induction n) (simp_all add: page_rendered_def user_search_effect_def Let_def)

section \<open>Toasts\<close>

definition toast_inv :: "toast_state \<Rightarrow> bool" where
  "toast_inv s \<longleftrightarrow> (\<forall>t \<in> set (ts_toasts s). if to_exiting t then RemoveToast (to_id t) \<in> set (ts_timers s)
     else AutoDismiss (to_id t) \<in> set (ts_timers s))
   \<and> distinct (map to_id (ts_toasts s))"

fun timer_weight :: "toast_timer \<Rightarrow> nat" where
  "timer_weight (AutoDismiss i) = 2"
| "timer_weight (RemoveToast i) = 1"

definition toast_weight :: "toast_state \<Rightarrow> nat" where
  "toast_weight s = sum_list (map timer_weight (ts_timers s))"

lemma dismiss_ids [simp]: "map to_id (ts_toasts (dismiss i s)) = map to_id (ts_toasts s)"
  by (simp add: dismiss_def comp_def)

lemma dismiss_toast_inv:
  assumes "distinct (map to_id (ts_toasts s))"
    and "\<forall>t \<in> set (ts_toasts s). to_id t \<noteq> i \<longrightarrow> (if to_exiting t then RemoveToast (to_id t) \<in> set (ts_timers s)
     else AutoDismiss (to_id t) \<in> set (ts_timers s))"
  shows "toast_inv (dismiss i s)"
proof -
  have "distinct (map to_id (ts_toasts (dismiss i s)))" using assms(1) by (simp only: dismiss_ids)
  moreover have "\<forall>t \<in> set (ts_toasts (dismiss i s)). if to_exiting t then RemoveToast (to_id t) \<in> set (ts_timers (dismiss i s))
     else AutoDismiss (to_id t) \<in> set (ts_timers (dismiss i s))"
    using assms(2) by (auto simp: dismiss_def split: if_splits)
  ultimately show ?thesis by (simp only: toast_inv_def)
qed

lemma toast_inv_step:
  assumes inv: "toast_inv s" and en: "toast_enabled s e"
  shows "toast_inv (fst (toast_step s e))"
proof (cases e)
  case (ToastShown i success message)
  with inv en show ?thesis by (auto simp: toast_inv_def showToast_def split: if_splits)
next
  case (ToastClosed i)
  have "toast_inv (dismiss i s)" using inv by (intro dismiss_toast_inv) (auto simp: toast_inv_def)
  with ToastClosed show ?thesis by simp
next
  case (ToastTimer t)
  show ?thesis
  proof (cases t)
    case (AutoDismiss i)
    have "toast_inv (dismiss i (s\<lparr>ts_timers := remove1 (AutoDismiss i) (ts_timers s)\<rparr>))"
      using inv by (intro dismiss_toast_inv) (auto simp: toast_inv_def split: if_splits)
    with ToastTimer AutoDismiss show ?thesis by (simp add: toast_timer_fire_def Let_def)
  next
    case (RemoveToast i)
    with inv ToastTimer show ?thesis
      by (auto simp: toast_inv_def toast_timer_fire_def Let_def distinct_map_filter split: if_splits)
  qed
qed

interpretation toasts: machine_invariant toast_enabled toast_step toast_inv
  by unfold_locales (rule toast_inv_step)

lemma fire_weight: "t \<in> set (ts_timers s) \<Longrightarrow> toast_weight (toast_timer_fire t s) + 1 = toast_weight s"
  by (cases t) (auto simp: toast_weight_def toast_timer_fire_def dismiss_def Let_def sum_list_map_remove1)

lemma fires_weight:
  "enabled_run toast_enabled toast_step s (map ToastTimer ts) \<Longrightarrow>
    toast_weight (fst (exec_run toast_step s (map ToastTimer ts))) + length ts = toast_weight s"
proof (induction ts arbitrary: s)
  case (Cons t ts)
  then have "t \<in> set (ts_timers s)" by simp
  with Cons fire_weight [of t s] show ?case by (auto simp: Let_def split: prod.splits)
qed simp

text \<open>After whatever was shown and dismissed: when no timer is left no toast is, and only as many timers can fire one after the other
  as the weight of the ones that run, two for each that dismisses and one for each that removes.\<close>

theorem toasts_go_away:
  assumes "run toast_enabled toast_step no_toasts es s os" and "enabled_run toast_enabled toast_step s (map ToastTimer ts)"
  shows "length ts \<le> toast_weight s \<and> (ts_timers s = [] \<longrightarrow> ts_toasts s = [])"
proof -
  have "toast_inv no_toasts" by (simp add: toast_inv_def no_toasts_def)
  with toasts.inv_run [OF assms(1)] have "toast_inv s" by blast
  then have "ts_timers s = [] \<longrightarrow> ts_toasts s = []"
    by (cases "ts_toasts s") (auto simp: toast_inv_def split: if_splits)
  moreover have "length ts \<le> toast_weight s" using fires_weight [OF assms(2)] by simp
  ultimately show ?thesis by blast
qed

section \<open>Mentions\<close>

lemma mention_rows_length:
  "mr_total r = (if mr_showEveryone r then 1 else 0) + length (mr_members r) \<Longrightarrow> length (mention_rows r active) = mr_total r"
  by (simp add: mention_rows_def)

text \<open>The marked row is the one that the keys pick: the row of the index.\<close>

lemma marked_mention:
  assumes "mr_total r = (if mr_showEveryone r then 1 else 0) + length (mr_members r)" and "i < mr_total r"
  shows "snd (mention_rows r active ! i) \<longleftrightarrow> i = active"
  using assms by (cases i) (auto simp: mention_rows_def nth_append nth_enumerate_eq)

section \<open>Bars and heights\<close>

lemma bars_lit: "length (filter id (fst (quality_bars q))) = ACTIVE_BARS (pq_level q)"
  by (auto simp: quality_bars_def ACTIVE_BARS_def split: QualityLevel.splits MeasuredLevel.splits)

lemma inset_covers: "vw_visual v = Some (h, t) \<Longrightarrow> 0 \<le> keyboard_inset v \<and> vw_inner v \<le> h + t + keyboard_inset v"
  by (simp add: keyboard_inset_def)

end
