(* ===== verification/CameraSwitch.thy ===== *)
theory CameraSwitch
  imports CaptureProps
begin

text \<open>
  Switching between the cameras of a phone in a call (\<open>toggleCameraFacingMode\<close> of \<^verbatim>\<open>services/sfuCallClient.ts\<close>), over the
  microphone of \<open>Capture\<close>. The switch awaits the device; the audio track it puts into the new stream is the one of the stream
  it found at its start. Video tracks are numbers of their own; \<open>cc_sender\<close> is the track of the camera slot, \<open>None\<close> without a slot.
\<close>

section \<open>State and operations\<close>

record camera_call =
  cc_mic :: mic_client
  cc_hasStream :: bool
  cc_video :: "nat option"
  cc_sender :: "nat option option"
  cc_facing :: facing_mode
  cc_screen :: bool
  cc_switch :: "(nat option \<times> nat \<times> facing_mode) option"
  cc_stopped :: "nat list"

datatype camera_effect = CameraError string | AcquireVideo facing_mode | CameraMic mic_effect

definition other_facing :: "facing_mode \<Rightarrow> facing_mode" where
  "other_facing f = (if f = FacingUser then FacingEnvironment else FacingUser)"

definition client_switchCameraFacingMode_start :: "camera_call \<Rightarrow> camera_call \<times> camera_effect list" where
  "client_switchCameraFacingMode_start s =
     (if \<not> cc_hasStream s \<or> mc_capture (cc_mic s) = None \<or> cc_sender s = None
      then (s, [CameraError ''Join voice channel before switching camera''])
      else case cc_video s of
        None \<Rightarrow> (s, [CameraError ''No camera track available in this call''])
      | Some current \<Rightarrow>
          (let next = other_facing (cc_facing s)
           in (s\<lparr>cc_switch := Some (mc_localStream (cc_mic s), current, next)\<rparr>, [AcquireVideo next])))"

definition toggleCameraFacingMode :: "camera_call \<Rightarrow> camera_call \<times> camera_effect list" where
  "toggleCameraFacingMode s =
     (if \<not> cc_hasStream s then (s, [CameraError ''Join voice channel before switching camera''])
      else if cc_screen s then (s, [CameraError ''Stop screen sharing before switching camera''])
      else if cc_switch s \<noteq> None then (s, [])
      else client_switchCameraFacingMode_start s)"

text \<open>The device has answered, and the sender when it gave a track.\<close>

definition client_switchCameraFacingMode_done :: "string + nat \<Rightarrow> bool \<Rightarrow> camera_call \<Rightarrow> camera_call \<times> camera_effect list" where
  "client_switchCameraFacingMode_done device replaced s0 = (case cc_switch s0 of
     None \<Rightarrow> (s0, [])
   | Some (audio, current, next) \<Rightarrow>
       (let s = s0\<lparr>cc_switch := None\<rparr>
        in case device of
             Inl e \<Rightarrow> (s, [CameraError e])
           | Inr t \<Rightarrow>
               (if \<not> replaced then (s\<lparr>cc_stopped := t # cc_stopped s\<rparr>, [CameraError ''Failed to switch camera''])
                else (s\<lparr>cc_mic := (cc_mic s)\<lparr>mc_localStream := audio,
                          mc_capture := map_option (\<lambda>c. c\<lparr>lc_stream := audio\<rparr>) (mc_capture (cc_mic s))\<rparr>,
                        cc_video := Some t, cc_sender := Some (Some t), cc_facing := next,
                        cc_stopped := current # cc_stopped s\<rparr>,
                      [CameraMic (LocalStreamIs audio)]))))"

datatype camera_input = FacingToggled | FacingAnswered "string + nat" bool | MicEvent mic_input

fun camera_step :: "camera_call \<Rightarrow> camera_input \<Rightarrow> camera_call \<times> camera_effect list" where
  "camera_step s FacingToggled = toggleCameraFacingMode s"
| "camera_step s (FacingAnswered device replaced) = client_switchCameraFacingMode_done device replaced s"
| "camera_step s (MicEvent e) = (let (m, os) = mic_step (cc_mic s) e in (s\<lparr>cc_mic := m\<rparr>, map CameraMic os))"

section \<open>Cameras\<close>

text \<open>A switch ends with the new camera sent and shown and the old one stopped, or with everything as it was and the new one
  stopped.\<close>

lemma switch_ends:
  assumes "cc_switch s = Some (audio, current, next)" and "cc_video s = Some current"
    and "client_switchCameraFacingMode_done (Inr t) replaced s = (s', os)"
  shows "if replaced then cc_video s' = Some t \<and> cc_sender s' = Some (Some t) \<and> cc_facing s' = next \<and> current \<in> set (cc_stopped s')
    else cc_video s' = Some current \<and> cc_sender s' = cc_sender s \<and> cc_facing s' = cc_facing s \<and> t \<in> set (cc_stopped s')"
  using assms by (auto simp: client_switchCameraFacingMode_done_def Let_def)

lemma one_switch_at_a_time: "cc_switch s \<noteq> None \<Longrightarrow> snd (toggleCameraFacingMode s) \<noteq> [AcquireVideo f]"
  by (auto simp: toggleCameraFacingMode_def)

text \<open>When the audio track is still that of the start, the microphone stays as the button says.\<close>

lemma switch_keeps_mic:
  assumes "mic_inv on (cc_mic s)" and "cc_switch s = Some (mc_localStream (cc_mic s), current, next)"
  shows "mic_inv on (cc_mic (fst (client_switchCameraFacingMode_done device replaced s)))"
proof -
  from assms(1) obtain c r t where i: "fresh_ids (cc_mic s)" "mc_capture (cc_mic s) = Some c" "capture_ok r t c (cc_mic s)"
    "lc_stream c = Some t" "mc_localStream (cc_mic s) = Some t" by (rule mic_invE)
  let ?m = "(cc_mic s)\<lparr>mc_localStream := mc_localStream (cc_mic s),
      mc_capture := map_option (\<lambda>c. c\<lparr>lc_stream := mc_localStream (cc_mic s)\<rparr>) (mc_capture (cc_mic s))\<rparr>"
  have "c\<lparr>lc_stream := Some t\<rparr> = c" using i(4) by (cases c) simp
  then have "?m = cc_mic s" using i(2,5) by (cases "cc_mic s") simp
  then show ?thesis using assms by (cases device) (simp_all add: client_switchCameraFacingMode_done_def Let_def)
qed

section \<open>A switch of the noise suppression in between\<close>


definition camera_on :: camera_call where
  "camera_on = \<lparr>cc_mic = fst (join_mic (Inr ()) GraphBuilt (new_mic ModeRnnoise)), cc_hasStream = True, cc_video = Some 1,
     cc_sender = Some (Some 1), cc_facing = FacingUser, cc_screen = False, cc_switch = None, cc_stopped = []\<rparr>"

definition switching_both :: camera_call where
  "switching_both = foldl (\<lambda>s e. fst (camera_step s e)) camera_on [FacingToggled, MicEvent (MicMode ModeBrowser True (Inr ()) GraphBuilt True)]"


end
