(* ===== verification/Addresses.thy ===== *)
theory Addresses
  imports Profile Media
begin

text \<open>
  Addresses and options of the transports: the address of the socket (\<open>resolveWsUrl\<close> of \<^verbatim>\<open>services/chatSocket.ts\<close>), pictures and
  uploads (\<^verbatim>\<open>services/avatarApi.ts\<close>), the options of the media connection (\<^verbatim>\<open>services/webrtcShared.ts\<close>,
  \<^verbatim>\<open>services/turnApi.ts\<close>) and the formats of media (\<^verbatim>\<open>types/media.ts\<close>). A parsed address is a record; \<open>parse\<close> is
  \<^verbatim>\<open>new URL\<close> (\<open>None\<close>: it throws), \<open>parse_at\<close> the one with a base, \<open>show_url\<close> is \<^verbatim>\<open>toString\<close>.
\<close>

section \<open>Addresses\<close>

record js_url =
  ur_scheme :: string
  ur_host :: string
  ur_path :: string
  ur_query :: "(string \<times> string) list"

text \<open>\<^verbatim>\<open>searchParams.set\<close>: the first entry of the name gets the value, others of the name go.\<close>

fun params_set :: "string \<Rightarrow> string \<Rightarrow> (string \<times> string) list \<Rightarrow> (string \<times> string) list" where
  "params_set k v [] = [(k, v)]"
| "params_set k v ((k', v') # ps) = (if k' = k then (k, v) # filter (\<lambda>p. fst p \<noteq> k) ps else (k', v') # params_set k v ps)"

definition set_param :: "string \<Rightarrow> string \<Rightarrow> js_url \<Rightarrow> js_url" where
  "set_param k v u = u\<lparr>ur_query := params_set k v (ur_query u)\<rparr>"

definition strip_slash :: "string \<Rightarrow> string" where
  "strip_slash p = (if p \<noteq> [] \<and> last p = CHR 0x2F then butlast p else p)"

section \<open>The address of the socket\<close>

record address_env =
  ae_wsUrl :: string
  ae_apiUrl :: string
  ae_pageSecure :: bool
  ae_pageHost :: string

definition resolveWsUrl :: "(string \<Rightarrow> js_url option) \<Rightarrow> address_env \<Rightarrow> string option \<Rightarrow> string + js_url" where
  "resolveWsUrl parse env token = (case token of
     None \<Rightarrow> Inl ''Re-login required''
   | Some t \<Rightarrow>
       (let invalid = Inl ''Invalid URL''; apiBase = (if ae_apiUrl env \<noteq> [] then ae_apiUrl env else ''/api/v1'')
        in if ae_wsUrl env \<noteq> []
           then (case parse (ae_wsUrl env) of Some u \<Rightarrow> Inr (set_param ''token'' t u) | None \<Rightarrow> invalid)
           else if prefix ''http://'' apiBase \<or> prefix ''https://'' apiBase
           then (case parse apiBase of
               Some u \<Rightarrow> Inr (set_param ''token'' t (u\<lparr>ur_scheme := (if ur_scheme u = ''https'' then ''wss'' else ''ws''),
                 ur_path := strip_slash (ur_path u) @ ''/server/ws''\<rparr>))
             | None \<Rightarrow> invalid)
           else (case parse ((if ae_pageSecure env then ''wss'' else ''ws'') @ ''://'' @ ae_pageHost env
                   @ (if prefix ''/'' apiBase then apiBase else CHR 0x2F # apiBase) @ ''/server/ws'') of
               Some u \<Rightarrow> Inr (set_param ''token'' t u) | None \<Rightarrow> invalid)))"

lemma params_set_get: "map_of (params_set k v ps) k = Some v"
  by (induction ps) auto

lemma params_set_once: "length (filter (\<lambda>p. fst p = k) (params_set k v ps)) = 1"
proof (induction ps)
  case (Cons p ps)
  have "filter (\<lambda>p. fst p = k) (filter (\<lambda>p. fst p \<noteq> k) qs) = []" for qs :: "(string \<times> string) list" by (induction qs) auto
  with Cons show ?case by (cases p) auto
qed simp

text \<open>What \<^verbatim>\<open>new URL\<close> does with an address that begins with a scheme.\<close>

definition keeps_scheme :: "(string \<Rightarrow> js_url option) \<Rightarrow> bool" where
  "keeps_scheme parse \<longleftrightarrow> (\<forall>scheme rest u. scheme \<in> {''http'', ''https'', ''ws'', ''wss''} \<and> parse (scheme @ ''://'' @ rest) = Some u
     \<longrightarrow> ur_scheme u = scheme)"


text \<open>A parser for the addresses that occur here: a scheme, a host and a path.\<close>

definition simple_parse :: "string \<Rightarrow> js_url option" where
  "simple_parse s =
     (let scheme = takeWhile (\<lambda>c. c \<noteq> CHR 0x3A) s; rest = drop 3 (dropWhile (\<lambda>c. c \<noteq> CHR 0x3A) s)
      in if length rest = 0 then None
         else Some \<lparr>ur_scheme = scheme, ur_host = takeWhile (\<lambda>c. c \<noteq> CHR 0x2F) rest, ur_path = dropWhile (\<lambda>c. c \<noteq> CHR 0x2F) rest, ur_query = []\<rparr>)"

lemma simple_keeps_scheme: "keeps_scheme simple_parse"
  by (auto simp: keeps_scheme_def simple_parse_def Let_def split: if_splits)


section \<open>Pictures\<close>

definition key_char :: "char \<Rightarrow> bool" where
  "key_char c \<longleftrightarrow> c \<in> set ''abcdefghijklmnopqrstuvwxyzABCDEFGHIJKLMNOPQRSTUVWXYZ0123456789-''"

definition looksLikeAvatarKey :: "string \<Rightarrow> bool" where
  "looksLikeAvatarKey v \<longleftrightarrow> 16 \<le> length v \<and> list_all key_char v"

definition path_segments :: "string \<Rightarrow> string list" where
  "path_segments path = filter (\<lambda>s. s \<noteq> []) (split_char CHR 0x2F path)"

definition join_path :: "string list \<Rightarrow> string" where
  "join_path segments = concat (map (\<lambda>s. CHR 0x2F # s) segments)"

definition ensureAvatarPath :: "(string \<Rightarrow> js_url option) \<Rightarrow> (js_url \<Rightarrow> string) \<Rightarrow> string \<Rightarrow> string" where
  "ensureAvatarPath parse show_url url =
     (if url = [] then url
      else case parse url of
        None \<Rightarrow> url
      | Some u \<Rightarrow>
          (let segments = path_segments (ur_path u)
           in if segments = [] \<or> ''avatars'' \<in> set segments then show_url u
              else if \<not> looksLikeAvatarKey (last segments) then show_url u
              else show_url (u\<lparr>ur_path := join_path (butlast segments @ [''avatars'', last segments])\<rparr>)))"

definition is_http_url :: "string \<Rightarrow> bool" where
  "is_http_url url \<longleftrightarrow> prefix ''http://'' (to_lower url) \<or> prefix ''https://'' (to_lower url)"

text \<open>\<open>None\<close>: it throws. \<open>base\<close> is the address of the interface, \<open>origin\<close> that of the page.\<close>

definition normalizeAvatarUrl :: "(string \<Rightarrow> js_url option) \<Rightarrow> (string \<Rightarrow> string \<Rightarrow> js_url option) \<Rightarrow> (js_url \<Rightarrow> string) \<Rightarrow> string \<Rightarrow> string
    \<Rightarrow> string \<Rightarrow> string option" where
  "normalizeAvatarUrl parse parse_at show_url base origin url =
     (if url = [] then Some url
      else if is_http_url url then Some (ensureAvatarPath parse show_url url)
      else case (if base = [] then None else parse_at url base) of
        Some u \<Rightarrow> Some (ensureAvatarPath parse show_url (show_url u))
      | None \<Rightarrow> map_option (\<lambda>u. ensureAvatarPath parse show_url (show_url u)) (parse_at url origin))"

definition withCacheBuster :: "(string \<Rightarrow> js_url option) \<Rightarrow> (js_url \<Rightarrow> string) \<Rightarrow> string option \<Rightarrow> string \<Rightarrow> string \<Rightarrow> string option" where
  "withCacheBuster parse show_url normalized url version =
     (if url = [] then Some url
      else case normalized of
        None \<Rightarrow> None
      | Some n \<Rightarrow> (case parse n of
          Some u \<Rightarrow> Some (show_url (if version \<noteq> [] then set_param ''v'' version u else u))
        | None \<Rightarrow> Some n))"

definition getMyAvatarUrl :: "(string \<Rightarrow> string option) \<Rightarrow> string http \<Rightarrow> string option" where
  "getMyAvatarUrl nrm answer = (case answer of
     HttpOk code url \<Rightarrow> (if url = [] then None else nrm url) | HttpError code body \<Rightarrow> None)"

text \<open>The upload and the address that is asked for afterwards; \<open>bust\<close> is \<open>withCacheBuster\<close> with the time.\<close>

definition uploadMyAvatar :: "(string \<Rightarrow> string option) \<Rightarrow> (string \<Rightarrow> string option) \<Rightarrow> string http \<Rightarrow> string http \<Rightarrow> string + string" where
  "uploadMyAvatar nrm bust upload canonical = (case upload of
     HttpError code body \<Rightarrow> Inl (extractApiError body ''Failed to upload avatar'')
   | HttpOk code url \<Rightarrow>
       (case getMyAvatarUrl nrm canonical of
          Some c \<Rightarrow> (case bust c of Some b \<Rightarrow> Inr b | None \<Rightarrow> Inl ''Failed to upload avatar'')
        | None \<Rightarrow> (if url = [] then Inl ''Failed to upload avatar''
            else case bust url of Some b \<Rightarrow> Inr b | None \<Rightarrow> Inl ''Failed to upload avatar'')))"

definition uploadAttachment :: "(int option \<times> string option) http \<Rightarrow> string + int \<times> string" where
  "uploadAttachment answer = (case answer of
     HttpOk code (Some i, Some url) \<Rightarrow> Inr (i, url)
   | HttpOk code _ \<Rightarrow> Inl ''Failed to upload attachment''
   | HttpError code body \<Rightarrow> Inl (extractApiError body ''Failed to upload attachment''))"

text \<open>An address that was completed stays as it is.\<close>

lemma split_ne [simp]: "split_char c s \<noteq> []"
  by (induction s) (auto split: list.splits)

lemma split_plain: "c \<notin> set s \<Longrightarrow> split_char c s = [s]"
  by (induction s) auto

lemma split_append: "split_char c (a @ c # b) = split_char c a @ split_char c b"
  by (induction a) (auto split: list.splits)

lemma split_no_sep: "w \<in> set (split_char c s) \<Longrightarrow> c \<notin> set w"
  by (induction s arbitrary: w) (auto split: list.splits if_splits)

lemma segments_no_slash: "w \<in> set (path_segments p) \<Longrightarrow> CHR 0x2F \<notin> set w"
  by (auto simp: path_segments_def dest: split_no_sep)

lemma segments_join:
  assumes "\<forall>w \<in> set ws. CHR 0x2F \<notin> set w \<and> w \<noteq> []"
  shows "path_segments (join_path ws) = ws"
  using assms
proof (induction ws)
  case (Cons w ws)
  have "split_char CHR 0x2F (w @ join_path ws) = (case ws of [] \<Rightarrow> [w] | _ \<Rightarrow> w # tl (split_char CHR 0x2F (join_path ws)))"
    using Cons.prems split_append [of "CHR 0x2F" w] by (auto simp: split_plain join_path_def split: list.splits)
  with Cons show ?case by (auto simp: path_segments_def join_path_def split: list.splits)
qed (simp add: path_segments_def join_path_def)

lemma avatar_path_stable:
  assumes parsed: "\<And>u. parse (show_url u) = Some u" and "url \<noteq> []" and shown: "\<And>u. show_url u \<noteq> []"
  shows "ensureAvatarPath parse show_url (ensureAvatarPath parse show_url url) = ensureAvatarPath parse show_url url"
proof (cases "parse url")
  case (Some u)
  let ?segs = "path_segments (ur_path u)"
  show ?thesis
  proof (cases "?segs = [] \<or> ''avatars'' \<in> set ?segs \<or> \<not> looksLikeAvatarKey (last ?segs)")
    case True
    with Some assms show ?thesis by (auto simp: ensureAvatarPath_def Let_def)
  next
    case False
    let ?ws = "butlast ?segs @ [''avatars'', last ?segs]"
    have "w \<in> set ?segs \<or> w = ''avatars''" if "w \<in> set ?ws" for w
      using that False last_in_set [of ?segs] by (auto dest: in_set_butlastD)
    moreover have "CHR 0x2F \<notin> set w \<and> w \<noteq> []" if "w \<in> set ?segs" for w
      using that segments_no_slash [OF that] by (auto simp: path_segments_def)
    moreover have "CHR 0x2F \<notin> set ''avatars'' \<and> ''avatars'' \<noteq> []" by simp
    ultimately have "\<forall>w \<in> set ?ws. CHR 0x2F \<notin> set w \<and> w \<noteq> []" by metis
    then have "path_segments (join_path ?ws) = ?ws" by (rule segments_join)
    with False Some assms show ?thesis by (simp add: ensureAvatarPath_def Let_def)
  qed
qed (simp add: ensureAvatarPath_def)

section \<open>Options of the connection\<close>

definition isTruthy :: "string option \<Rightarrow> bool" where
  "isTruthy raw = (case raw of None \<Rightarrow> False | Some r \<Rightarrow> to_lower (trim r) \<in> {''1'', ''true'', ''yes''})"

datatype ice_policy = RelayOnly | AllCandidates

definition buildIceTransportPolicy :: "string option \<Rightarrow> ice_policy" where
  "buildIceTransportPolicy forceRelay = (if isTruthy forceRelay then RelayOnly else AllCandidates)"

definition isWebRTCDebugEnabled :: "storage \<Rightarrow> bool" where
  "isWebRTCDebugEnabled st \<longleftrightarrow> st ''webrtc_debug'' = Some ''1''"

record rtp_encoding =
  re_maxBitrate :: "nat option"
  re_maxFramerate :: "nat option"

datatype degradation = Balanced | MaintainResolution

record sender_parameters =
  sp_encodings :: "rtp_encoding list"
  sp_degradation :: "degradation option"

record VideoBitratePreset =
  vb_maxBitrateBps :: nat
  vb_maxFramerate :: "nat option"
  vb_degradation :: "degradation option"

definition SCREEN_BITRATE_PRESET :: VideoBitratePreset where
  "SCREEN_BITRATE_PRESET = \<lparr>vb_maxBitrateBps = 2500000, vb_maxFramerate = Some 30, vb_degradation = Some MaintainResolution\<rparr>"

text \<open>The layers of the camera: their names, by what they are scaled down, and their rates.\<close>

definition CAMERA_SIMULCAST_ENCODINGS :: "(string \<times> nat \<times> nat) list" where
  "CAMERA_SIMULCAST_ENCODINGS = [(''l'', 4, 150000), (''m'', 2, 400000), (''h'', 1, 4000000)]"

text \<open>\<open>None\<close>: nothing is set, as the sender has no video track.\<close>

definition applyVideoBitratePreset :: "bool \<Rightarrow> sender_parameters \<Rightarrow> VideoBitratePreset \<Rightarrow> sender_parameters option" where
  "applyVideoBitratePreset hasVideo p preset =
     (if \<not> hasVideo then None
      else (case (if sp_encodings p = [] then [\<lparr>re_maxBitrate = None, re_maxFramerate = None\<rparr>] else sp_encodings p) of
          e # es \<Rightarrow> Some (p\<lparr>sp_encodings := e\<lparr>re_maxBitrate := Some (vb_maxBitrateBps preset),
              re_maxFramerate := (case vb_maxFramerate preset of Some f \<Rightarrow> if f = 0 then re_maxFramerate e else Some f
                | None \<Rightarrow> re_maxFramerate e)\<rparr> # es,
            sp_degradation := (if vb_degradation preset = None then sp_degradation p else vb_degradation preset)\<rparr>)
        | [] \<Rightarrow> None))"

lemma preset_caps_first:
  "applyVideoBitratePreset True p preset = Some q \<Longrightarrow> sp_encodings q \<noteq> [] \<and> re_maxBitrate (hd (sp_encodings q)) = Some (vb_maxBitrateBps preset)
    \<and> tl (sp_encodings q) = tl (sp_encodings p)"
  by (auto simp: applyVideoBitratePreset_def split: list.splits if_splits)

definition getTurnCredentials :: "'c http \<Rightarrow> string + 'c" where
  "getTurnCredentials answer = (case answer of HttpOk code c \<Rightarrow> Inr c
   | HttpError code body \<Rightarrow> Inl (extractApiError body ''Failed to fetch TURN credentials''))"

section \<open>Formats\<close>

datatype MediaFormat = Mp3 | Wav | Ogg | Webm | Mp4

definition guessFormatFromContentType :: "string \<Rightarrow> MediaFormat option" where
  "guessFormatFromContentType t =
     (if str_includes t ''mpeg'' \<or> str_includes t ''mp3'' then Some Mp3 else if str_includes t ''wav'' then Some Wav
      else if str_includes t ''ogg'' then Some Ogg else if str_includes t ''webm'' then Some Webm
      else if str_includes t ''mp4'' then Some Mp4 else None)"

definition PLAYBACK_RATES :: "rat list" where
  "PLAYBACK_RATES = [1 / 2, 3 / 4, 1, 5 / 4, 3 / 2, 2]"

definition DEFAULT_EQUALIZER_BANDS :: "(nat \<times> int \<times> string) list" where
  "DEFAULT_EQUALIZER_BANDS = [(60, 0, ''Bass''), (250, 0, ''Low''), (1000, 0, ''Mid''), (4000, 0, ''High''), (12000, 0, ''Treble'')]"

end
