(* ===== verification/Overlays.thy ===== *)
theory Overlays
  imports Settings
begin

text \<open>
  The frame of every dialog and menu (\<^verbatim>\<open>components/Sheet.tsx\<close>, \<^verbatim>\<open>components/ContextMenu.tsx\<close>, \<^verbatim>\<open>hooks/useBodyScrollLock.ts\<close>):
  where the focus is while a sheet is open, the lock of the page's scrolling, the place of a popover. Elements are numbers.
\<close>

section \<open>The focus of a sheet\<close>

datatype focus_place = PageBody | PageElement nat | SheetPanel | SheetElement nat

definition in_sheet :: "focus_place \<Rightarrow> bool" where
  "in_sheet p \<longleftrightarrow> (case p of SheetPanel \<Rightarrow> True | SheetElement i \<Rightarrow> True | _ \<Rightarrow> False)"

record sheet_focus =
  sf_active :: focus_place
  sf_previous :: focus_place

text \<open>The effect of an open sheet and its clean-up; to focus the body, which is what is active without a focus, does nothing.\<close>

definition sheet_effect :: "sheet_focus \<Rightarrow> sheet_focus" where
  "sheet_effect s = s\<lparr>sf_previous := sf_active s, sf_active := (if in_sheet (sf_active s) then sf_active s else SheetPanel)\<rparr>"

definition sheet_cleanup :: "sheet_focus \<Rightarrow> sheet_focus" where
  "sheet_cleanup s = (if sf_previous s = PageBody then s else s\<lparr>sf_active := sf_previous s\<rparr>)"

text \<open>An input with \<open>autoFocus\<close> has the focus before the effect runs.\<close>

definition sheet_mount :: "nat option \<Rightarrow> focus_place \<Rightarrow> sheet_focus" where
  "sheet_mount autoFocus opener = sheet_effect
     \<lparr>sf_active = (case autoFocus of Some i \<Rightarrow> SheetElement i | None \<Rightarrow> opener), sf_previous = PageBody\<rparr>"

text \<open>A rendering; the effect runs again when \<open>onClose\<close> is another function.\<close>

definition sheet_render :: "bool \<Rightarrow> sheet_focus \<Rightarrow> sheet_focus" where
  "sheet_render newClose s = (if newClose then sheet_effect (sheet_cleanup s) else s)"

text \<open>What has the focus after the sheet has gone: its elements cannot be focused any more.\<close>

definition sheet_unmount :: "sheet_focus \<Rightarrow> focus_place" where
  "sheet_unmount s =
     (let a = (if in_sheet (sf_active s) then PageBody else sf_active s)
      in if in_sheet (sf_previous s) \<or> sf_previous s = PageBody then a else sf_previous s)"

datatype sheet_input = FocusMoved focus_place | SheetRendered bool

fun sheet_step :: "sheet_focus \<Rightarrow> sheet_input \<Rightarrow> sheet_focus" where
  "sheet_step s (FocusMoved p) = s\<lparr>sf_active := p\<rparr>"
| "sheet_step s (SheetRendered newClose) = sheet_render newClose s"

section \<open>Forms of a sheet\<close>

datatype overlay_form = BottomSheet | Popover int int | ModalCard

definition POPOVER_WIDTH :: int where "POPOVER_WIDTH = 260"

definition popover_place :: "int \<Rightarrow> int \<Rightarrow> int \<times> int \<Rightarrow> int \<times> int" where
  "popover_place innerWidth innerHeight anchor =
     (max 8 (min (fst anchor) (innerWidth - POPOVER_WIDTH - 8)), max 8 (min (snd anchor) (innerHeight - 240)))"

definition overlay_form_of :: "bool \<Rightarrow> int \<Rightarrow> int \<Rightarrow> bool \<Rightarrow> (int \<times> int) option \<Rightarrow> overlay_form" where
  "overlay_form_of isMobile innerWidth innerHeight isPopover anchor =
     (if isMobile then BottomSheet
      else case (if isPopover then anchor else None) of
        Some a \<Rightarrow> (case popover_place innerWidth innerHeight a of (left, t) \<Rightarrow> Popover left t) | None \<Rightarrow> ModalCard)"

datatype overlay_event = BackdropClick | PanelClick | EscapeKey | OtherKey

definition overlay_closes :: "overlay_event \<Rightarrow> bool" where
  "overlay_closes e \<longleftrightarrow> e = BackdropClick \<or> e = EscapeKey"

section \<open>Menus\<close>

datatype menu_call = CallClose | CallItem nat

text \<open>On a phone the menu is a sheet and closes before its item runs, else after it.\<close>

definition menu_item_clicked :: "bool \<Rightarrow> (nat \<Rightarrow> bool) \<Rightarrow> nat \<Rightarrow> menu_call list" where
  "menu_item_clicked isMobile isDisabled i =
     (if isDisabled i then [] else if isMobile then [CallClose, CallItem i] else [CallItem i, CallClose])"

definition menu_mousedown :: "bool \<Rightarrow> menu_call list" where
  "menu_mousedown inside = (if inside then [] else [CallClose])"

section \<open>The lock of the page\<close>

record scroll_lock =
  sl_locks :: int
  sl_locked :: bool

definition no_lock :: scroll_lock where
  "no_lock = \<lparr>sl_locks = 0, sl_locked = False\<rparr>"

definition acquire_scroll_lock :: "scroll_lock \<Rightarrow> scroll_lock" where
  "acquire_scroll_lock s = s\<lparr>sl_locks := sl_locks s + 1, sl_locked := True\<rparr>"

definition release_scroll_lock :: "scroll_lock \<Rightarrow> scroll_lock" where
  "release_scroll_lock s =
     (let n = sl_locks s - 1 in if n \<le> 0 then s\<lparr>sl_locks := 0, sl_locked := False\<rparr> else s\<lparr>sl_locks := n\<rparr>)"

text \<open>The overlays on the page, each with the hook; a rendering says whether its overlay is open.\<close>

definition lock_render :: "nat \<Rightarrow> bool \<Rightarrow> scroll_lock \<times> nat set \<Rightarrow> scroll_lock \<times> nat set" where
  "lock_render i active s =
     (if active \<and> i \<notin> snd s then (acquire_scroll_lock (fst s), insert i (snd s))
      else if \<not> active \<and> i \<in> snd s then (release_scroll_lock (fst s), snd s - {i})
      else s)"

section \<open>Facts\<close>

text \<open>A popover and its menu stay in the window.\<close>

lemma popover_in_window:
  "popover_place w h a = (l, t) \<Longrightarrow> 8 \<le> l \<and> 8 \<le> t \<and> (POPOVER_WIDTH + 16 \<le> w \<longrightarrow> l + POPOVER_WIDTH + 8 \<le> w) \<and> (248 \<le> h \<longrightarrow> t + 240 \<le> h)"
  by (auto simp: popover_place_def POPOVER_WIDTH_def)

definition lock_inv :: "scroll_lock \<times> nat set \<Rightarrow> bool" where
  "lock_inv s \<longleftrightarrow> finite (snd s) \<and> sl_locks (fst s) = int (card (snd s)) \<and> (sl_locked (fst s) \<longleftrightarrow> snd s \<noteq> {})"

lemma lock_inv_render:
  assumes "lock_inv s"
  shows "lock_inv (lock_render i active s)"
proof (cases "i \<in> snd s")
  case True
  then obtain A where A: "snd s = insert i A" "i \<notin> A" by (meson Set.set_insert)
  with assms show ?thesis
    by (auto simp: lock_inv_def lock_render_def release_scroll_lock_def Let_def card_gt_0_iff)
next
  case False
  with assms show ?thesis by (auto simp: lock_inv_def lock_render_def acquire_scroll_lock_def)
qed

text \<open>The page is locked exactly while an overlay is open, whatever opens and closes in whatever order.\<close>

lemma locked_while_open:
  "sl_locked (fst (foldl (\<lambda>s e. lock_render (fst e) (snd e) s) (no_lock, {}) es))
    \<longleftrightarrow> snd (foldl (\<lambda>s e. lock_render (fst e) (snd e) s) (no_lock, {}) es) \<noteq> {}"
proof -
  have "lock_inv (foldl (\<lambda>s e. lock_render (fst e) (snd e) s) (no_lock, {}) es)"
    by (induction es rule: rev_induct) (simp_all add: lock_inv_render, simp add: lock_inv_def no_lock_def)
  then show ?thesis by (simp add: lock_inv_def)
qed

lemma sheet_previous:
  assumes "sf_previous s = p" and "p \<noteq> PageBody" and "p \<noteq> SheetPanel"
  shows "sf_previous (foldl sheet_step s es) = p"
  using assms(1)
proof (induction es arbitrary: s)
  case (Cons e es)
  have "sf_previous (sheet_step s e) = p"
    using Cons.prems assms(2) by (cases e) (simp_all add: sheet_render_def sheet_effect_def sheet_cleanup_def)
  with Cons.IH show ?case by simp
qed simp

text \<open>A sheet without an input of its own choice that was opened from a focused element: whatever the user focuses in
  it, the next rendering with a new close function takes the focus away and gives it to the panel; when it closes the focus is
  back at the element. With such an input it goes there, and is lost when the sheet closes.\<close>

theorem rendering_takes_focus:
  assumes "s = foldl sheet_step (sheet_mount autoFocus (PageElement k)) es"
  shows "sf_active (sheet_render True s) = (case autoFocus of Some i \<Rightarrow> SheetElement i | None \<Rightarrow> SheetPanel)
    \<and> sheet_unmount s = (if autoFocus = None then PageElement k else if in_sheet (sf_active s) then PageBody else sf_active s)"
proof (cases autoFocus)
  case None
  have "sf_previous s = PageElement k"
    unfolding assms None by (rule sheet_previous) (simp_all add: sheet_mount_def sheet_effect_def in_sheet_def)
  with None show ?thesis by (simp add: sheet_render_def sheet_effect_def sheet_cleanup_def sheet_unmount_def in_sheet_def)
next
  case (Some i)
  have "sf_previous s = SheetElement i"
    unfolding assms Some by (rule sheet_previous) (simp_all add: sheet_mount_def sheet_effect_def in_sheet_def)
  with Some show ?thesis
    by (simp add: sheet_render_def sheet_effect_def sheet_cleanup_def sheet_unmount_def in_sheet_def Let_def)
qed

theorem rendering_takes_focus_witness:
  "sf_active (sheet_render True (foldl sheet_step (sheet_mount None (PageElement 5)) [FocusMoved (SheetElement 1)])) = SheetPanel"
  using rendering_takes_focus [of "foldl sheet_step (sheet_mount None (PageElement 5)) [FocusMoved (SheetElement 1)]" None 5
      "[FocusMoved (SheetElement 1)]"] by simp

end
