(* ===== verification/Sounds.thy ===== *)
theory Sounds
  imports Settings
begin

text \<open>
  The audio elements behind the sounds (\<^verbatim>\<open>services/notifications/sound.ts\<close>): a pool of three per sound, built when it is first
  needed, and the unlock at the first gesture, which plays every element at volume zero. \<open>playSound\<close> of \<open>Notifications\<close> decides
  whether a sound starts; here is which element plays it. An element plays if it is neither paused nor at its end.
\<close>

section \<open>State\<close>

record audio_el =
  ea_volume :: rat
  ea_playing :: bool

type_synonym sound_pools = "SoundName \<Rightarrow> audio_el list option"

text \<open>\<open>sn_stored\<close> is what \<open>getVolume\<close> gives; \<open>sn_pending\<close> are the elements whose silent playing has not been answered, with the
  volume that they get back.\<close>

record sounds =
  sn_pools :: sound_pools
  sn_stored :: rat
  sn_unlocked :: bool
  sn_pending :: "(SoundName \<times> nat \<times> rat) list"

definition POOL_SIZE :: nat where "POOL_SIZE = 3"

definition all_sounds :: "SoundName list" where
  "all_sounds = [MessageSound, MentionSound, JoinSound, LeaveSound]"

definition no_sounds :: "rat \<Rightarrow> sounds" where
  "no_sounds v = \<lparr>sn_pools = Map.empty, sn_stored = v, sn_unlocked = False, sn_pending = []\<rparr>"

section \<open>Operations\<close>

definition new_pool :: "rat \<Rightarrow> audio_el list" where
  "new_pool v = replicate POOL_SIZE \<lparr>ea_volume = v, ea_playing = False\<rparr>"

definition pool_of :: "SoundName \<Rightarrow> sounds \<Rightarrow> audio_el list" where
  "pool_of n s = (case sn_pools s n of Some p \<Rightarrow> p | None \<Rightarrow> new_pool (sn_stored s))"

definition getPool :: "SoundName \<Rightarrow> sounds \<Rightarrow> sounds" where
  "getPool n s = s\<lparr>sn_pools := (sn_pools s)(n \<mapsto> pool_of n s)\<rparr>"

definition allPools :: "sounds \<Rightarrow> sounds" where
  "allPools s = fold getPool all_sounds s"

text \<open>\<open>setVolume\<close> on the pools that exist.\<close>

definition set_pool_volume :: "rat \<Rightarrow> sounds \<Rightarrow> sounds" where
  "set_pool_volume v s = s\<lparr>sn_stored := clamp_volume v,
     sn_pools := (\<lambda>n. map_option (map (\<lambda>el. el\<lparr>ea_volume := clamp_volume v\<rparr>)) (sn_pools s n))\<rparr>"

definition update_el :: "SoundName \<Rightarrow> nat \<Rightarrow> (audio_el \<Rightarrow> audio_el) \<Rightarrow> sounds \<Rightarrow> sounds" where
  "update_el n i f s = (case sn_pools s n of
     Some p \<Rightarrow> s\<lparr>sn_pools := (sn_pools s)(n \<mapsto> (if i < length p then p[i := f (p ! i)] else p))\<rparr> | None \<Rightarrow> s)"

text \<open>The first gesture, and the answers to its calls of \<open>play\<close>.\<close>

definition unlock :: "sounds \<Rightarrow> sounds" where
  "unlock s0 = (if sn_unlocked s0 then s0
     else let s = allPools s0
          in s\<lparr>sn_pools := (\<lambda>n. map_option (map (\<lambda>el. el\<lparr>ea_volume := 0, ea_playing := True\<rparr>)) (sn_pools s n)),
               sn_pending := concat (map (\<lambda>n. map (\<lambda>(i, el). (n, i, ea_volume el)) (enumerate 0 (pool_of n s))) all_sounds),
               sn_unlocked := True\<rparr>)"

definition unlock_answered :: "SoundName \<times> nat \<times> rat \<Rightarrow> sounds \<Rightarrow> sounds" where
  "unlock_answered call s = (case call of (n, i, v) \<Rightarrow>
     update_el n i (\<lambda>el. el\<lparr>ea_playing := False, ea_volume := v\<rparr>) (s\<lparr>sn_pending := remove1 call (sn_pending s)\<rparr>))"

text \<open>The element that plays a sound: the first one that does not play, else the first one, which starts again.\<close>

fun free_index :: "audio_el list \<Rightarrow> nat option" where
  "free_index [] = None"
| "free_index (el # els) = (if \<not> ea_playing el then Some 0 else map_option Suc (free_index els))"

definition chosen_el :: "audio_el list \<Rightarrow> nat" where
  "chosen_el p = (case free_index p of Some i \<Rightarrow> i | None \<Rightarrow> 0)"

definition start_sound :: "SoundName \<Rightarrow> sounds \<Rightarrow> sounds" where
  "start_sound n s0 =
     (let s = getPool n s0
      in update_el n (chosen_el (pool_of n s)) (\<lambda>el. el\<lparr>ea_volume := sn_stored s, ea_playing := True\<rparr>) s)"

definition el_ended :: "SoundName \<Rightarrow> nat \<Rightarrow> sounds \<Rightarrow> sounds" where
  "el_ended n i s = update_el n i (\<lambda>el. el\<lparr>ea_playing := False\<rparr>) s"

text \<open>A request to play, after the decision of \<open>playSound\<close>.\<close>

definition sound_requested :: "int \<Rightarrow> SoundName \<Rightarrow> PlayOptions \<Rightarrow> sound_player \<times> sounds \<Rightarrow> sound_player \<times> sounds" where
  "sound_requested now n opts ps = (case playSound now n opts (fst ps) of
     (p, Some m) \<Rightarrow> (p, start_sound m (snd ps)) | (p, None) \<Rightarrow> (p, snd ps))"

datatype sound_input =
    SoundRequest int SoundName PlayOptions | SoundEnded SoundName nat | FirstGesture | UnlockAnswer "SoundName \<times> nat \<times> rat" | VolumeSet rat

fun sound_enabled :: "sound_player \<times> sounds \<Rightarrow> sound_input \<Rightarrow> bool" where
  "sound_enabled ps (UnlockAnswer call) \<longleftrightarrow> call \<in> set (sn_pending (snd ps))"
| "sound_enabled ps (VolumeSet v) \<longleftrightarrow> sn_pending (snd ps) = []"
| "sound_enabled ps _ \<longleftrightarrow> True"

fun sound_step :: "sound_player \<times> sounds \<Rightarrow> sound_input \<Rightarrow> (sound_player \<times> sounds) \<times> unit list" where
  "sound_step ps (SoundRequest now n opts) = (sound_requested now n opts ps, [])"
| "sound_step ps (SoundEnded n i) = ((fst ps, el_ended n i (snd ps)), [])"
| "sound_step ps FirstGesture = ((fst ps, unlock (snd ps)), [])"
| "sound_step ps (UnlockAnswer call) = ((fst ps, unlock_answered call (snd ps)), [])"
| "sound_step ps (VolumeSet v) = ((fst ps, set_pool_volume v (snd ps)), [])"

section \<open>Which element plays\<close>

lemma free_index_Some: "free_index p = Some i \<Longrightarrow> i < length p \<and> \<not> ea_playing (p ! i)"
  by (induction p arbitrary: i) (auto split: if_splits)

lemma free_index_None: "free_index p = None \<longleftrightarrow> (\<forall>el \<in> set p. ea_playing el)"
  by (induction p) auto

lemma pool_of_getPool [simp]: "pool_of n (getPool n s) = pool_of n s"
  by (simp add: getPool_def pool_of_def)

lemma stored_getPool [simp]: "sn_stored (getPool n s) = sn_stored s"
  by (simp add: getPool_def)

text \<open>A sound never cuts another one off while an element of its pool is free.\<close>

lemma sound_takes_free_element:
  assumes "\<exists>el \<in> set (pool_of n s). \<not> ea_playing el" and "i < length (pool_of n s)" and "ea_playing (pool_of n s ! i)"
  shows "pool_of n (start_sound n s) ! i = pool_of n s ! i \<and> sn_pools (getPool n s) n = Some (pool_of n s)"
proof -
  obtain j where j: "free_index (pool_of n s) = Some j" using assms(1) free_index_None by (cases "free_index (pool_of n s)") auto
  with free_index_Some [OF j] assms(3) have "j \<noteq> i" by auto
  with j show ?thesis by (simp add: start_sound_def Let_def chosen_el_def update_el_def getPool_def pool_of_def)
qed

section \<open>Volumes\<close>

text \<open>Pools are complete; an element that waits for its answer gets the stored volume back, every other one has it.\<close>

definition sounds_ok :: "sounds \<Rightarrow> bool" where
  "sounds_ok s \<longleftrightarrow>
     (\<forall>n p. sn_pools s n = Some p \<longrightarrow> length p = POOL_SIZE
        \<and> (\<forall>i < length p. ea_volume (p ! i) = sn_stored s \<or> (n, i, sn_stored s) \<in> set (sn_pending s)))
     \<and> (\<forall>n i v. (n, i, v) \<in> set (sn_pending s) \<longrightarrow> v = sn_stored s)
     \<and> (\<not> sn_unlocked s \<longrightarrow> sn_pending s = [])"

lemma pool_ok: "sounds_ok s \<Longrightarrow> length (pool_of n s) = POOL_SIZE
    \<and> (\<forall>i < length (pool_of n s). ea_volume (pool_of n s ! i) = sn_stored s \<or> (n, i, sn_stored s) \<in> set (sn_pending s))"
  by (auto simp: sounds_ok_def pool_of_def new_pool_def split: option.splits)

lemma getPool_ok: "sounds_ok s \<Longrightarrow> sounds_ok (getPool n s)"
  using pool_ok [of s n] by (auto simp: sounds_ok_def getPool_def)

lemma update_el_ok:
  assumes "sounds_ok s" and "\<And>el. ea_volume el = sn_stored s \<Longrightarrow> ea_volume (f el) = sn_stored s"
    and "\<And>el. (n, i, sn_stored s) \<in> set (sn_pending s) \<or> ea_volume (f el) = sn_stored s"
  shows "sounds_ok (update_el n i f s)"
  using assms unfolding sounds_ok_def update_el_def
  by (auto simp: nth_list_update split: option.splits if_splits)

lemma update_el_fields [simp]:
  "sn_stored (update_el n i f s) = sn_stored s" "sn_pending (update_el n i f s) = sn_pending s"
  by (auto simp: update_el_def split: option.splits)

lemma getPool_fields [simp]:
  "sn_stored (getPool n s) = sn_stored s" "sn_pending (getPool n s) = sn_pending s" "sn_unlocked (getPool n s) = sn_unlocked s"
  by (simp_all add: getPool_def)

lemma getPool_pools [simp]: "sn_pools (getPool n s) = (sn_pools s)(n \<mapsto> pool_of n s)"
  by (simp add: getPool_def)

lemma pool_of_other [simp]: "pool_of m (getPool n s) = pool_of m s"
  by (simp add: pool_of_def split: option.split)

lemma allPools_spec:
  "sn_pools (allPools s) = (\<lambda>n. Some (pool_of n s)) \<and> sn_stored (allPools s) = sn_stored s \<and> sn_pending (allPools s) = sn_pending s"
proof -
  have "sn_pools (allPools s) n = Some (pool_of n s)" for n
    by (cases n) (simp_all add: allPools_def all_sounds_def)
  then show ?thesis by (auto simp: allPools_def all_sounds_def)
qed

lemma unlock_ok: "sounds_ok s \<Longrightarrow> sounds_ok (unlock s)"
proof (cases "sn_unlocked s")
  case False
  assume ok: "sounds_ok s"
  have pool: "pool_of n (allPools s) = pool_of n s" for n by (simp add: pool_of_def allPools_spec)
  have vol: "ea_volume (pool_of n s ! i) = sn_stored s" if "i < POOL_SIZE" for n i
    using pool_ok [OF ok, of n] that False ok by (auto simp: sounds_ok_def)
  have all: "n \<in> set all_sounds" for n by (cases n) (simp_all add: all_sounds_def)
  have len: "length (pool_of n s) = POOL_SIZE" for n using pool_ok [OF ok, of n] by blast
  have entries: "(n, i, v) \<in> set (map (\<lambda>(i, el). (m, i, ea_volume el)) (enumerate 0 (pool_of m s))) \<longleftrightarrow>
      m = n \<and> i < POOL_SIZE \<and> v = sn_stored s" for m n i v
    using vol [of i m] len [of m] by (auto simp: in_set_enumerate_eq image_iff intro!: bexI [of _ "(i, pool_of m s ! i)"])
  have calls: "(n, i, v) \<in> set (sn_pending (unlock s)) \<longleftrightarrow> i < POOL_SIZE \<and> v = sn_stored s" for n i v
  proof -
    have mem: "x \<in> set (concat (map g ns)) \<longleftrightarrow> (\<exists>m \<in> set ns. x \<in> set (g m))" for x g and ns :: "SoundName list" by auto
    have "sn_pending (unlock s) = concat (map (\<lambda>n. map (\<lambda>(i, el). (n, i, ea_volume el)) (enumerate 0 (pool_of n s))) all_sounds)"
      using False by (simp add: unlock_def Let_def pool)
    with all [of n] show ?thesis by (simp only: mem entries) blast
  qed
  show ?thesis unfolding sounds_ok_def calls using False
    by (auto simp: unlock_def Let_def allPools_spec len)
qed (simp add: unlock_def)

lemma answered_ok:
  assumes ok: "sounds_ok s" and "call \<in> set (sn_pending s)"
  shows "sounds_ok (unlock_answered call s)"
proof -
  obtain n i v where c: "call = (n, i, v)" by (cases call) auto
  with assms have v: "v = sn_stored s" by (auto simp: sounds_ok_def)
  have "ea_volume (p ! j) = sn_stored s \<or> (m, j, sn_stored s) \<in> set (remove1 call (sn_pending s))"
    if "sn_pools s m = Some p" "j < length p" "(m, j) \<noteq> (n, i)" for m p j
  proof -
    have "ea_volume (p ! j) = sn_stored s \<or> (m, j, sn_stored s) \<in> set (sn_pending s)"
      using ok that(1,2) unfolding sounds_ok_def by blast
    with that(3) c show ?thesis by (auto simp: in_set_remove1)
  qed
  note others = this
  have "length p = POOL_SIZE \<and> (\<forall>j < length p. ea_volume (p ! j) = sn_stored s \<or> (m, j, sn_stored s) \<in> set (remove1 call (sn_pending s)))"
    if "sn_pools (unlock_answered call s) m = Some p" for m p
  proof -
    have "\<exists>q. sn_pools s m = Some q
        \<and> p = (if m = n \<and> i < length q then q[i := (q ! i)\<lparr>ea_playing := False, ea_volume := v\<rparr>] else q)"
      using that c by (cases "sn_pools s n") (auto simp: unlock_answered_def update_el_def split: if_splits)
    then obtain q where q: "sn_pools s m = Some q"
      "p = (if m = n \<and> i < length q then q[i := (q ! i)\<lparr>ea_playing := False, ea_volume := v\<rparr>] else q)" by blast
    moreover have "length q = POOL_SIZE" using ok q(1) by (auto simp: sounds_ok_def)
    ultimately show ?thesis using others [OF q(1)] v by (auto simp: nth_list_update)
  qed
  moreover have "sn_pending (unlock_answered call s) = remove1 call (sn_pending s) \<and> sn_stored (unlock_answered call s) = sn_stored s
      \<and> sn_unlocked (unlock_answered call s) = sn_unlocked s"
    using c by (auto simp: unlock_answered_def update_el_def split: option.splits)
  ultimately show ?thesis using ok set_remove1_subset [of call "sn_pending s"] by (auto simp: sounds_ok_def)
qed

lemma sound_inv_step: "sounds_ok (snd ps) \<Longrightarrow> sound_enabled ps e \<Longrightarrow> sounds_ok (snd (fst (sound_step ps e)))"
proof (cases e)
  case (SoundRequest now n opts)
  assume ok: "sounds_ok (snd ps)"
  have "sounds_ok (start_sound m (snd ps))" for m
    using getPool_ok [OF ok, of m] by (auto simp: start_sound_def Let_def intro: update_el_ok)
  with ok SoundRequest show ?thesis by (auto simp: sound_requested_def split: prod.splits option.splits)
next
  case (SoundEnded n i)
  assume "sounds_ok (snd ps)"
  then have "sounds_ok (update_el n i (\<lambda>el. el\<lparr>ea_playing := False\<rparr>) (snd ps))"
    unfolding sounds_ok_def update_el_def by (auto simp: nth_list_update split: option.splits if_splits)
  with SoundEnded show ?thesis by (simp add: el_ended_def)
next
  case (VolumeSet v)
  assume "sounds_ok (snd ps)" "sound_enabled ps e"
  with VolumeSet show ?thesis by (auto simp: sounds_ok_def set_pool_volume_def)
qed (simp_all add: unlock_ok answered_ok)

interpretation sound_runs: machine_invariant sound_enabled sound_step "\<lambda>ps. sounds_ok (snd ps)"
  by unfold_locales (rule sound_inv_step)

text \<open>Whatever sounds are asked for and whenever the first gesture comes: if the volume is not set while the silent playing is
  under way, every element of every pool has the volume that is stored once that is over.\<close>

theorem sounds_at_stored_volume:
  assumes "run sound_enabled sound_step (new_player, no_sounds v) es ps os" and "sn_pending (snd ps) = []"
    and "sn_pools (snd ps) n = Some p"
  shows "length p = 3 \<and> (\<forall>el \<in> set p. ea_volume el = sn_stored (snd ps))"
proof -
  have "sounds_ok (snd (new_player, no_sounds v))" by (simp add: sounds_ok_def no_sounds_def)
  with sound_runs.inv_run [OF assms(1)] have "sounds_ok (snd ps)" by blast
  with assms(2,3) show ?thesis by (auto simp: sounds_ok_def POOL_SIZE_def in_set_conv_nth)
qed

theorem sounds_at_stored_volume_witness:
  "\<exists>p. sn_pools (snd (fst (exec_run sound_step (new_player, no_sounds (3 / 5)) [SoundRequest 5000 JoinSound \<lparr>po_channelId = None, po_bypassChannelLimit = False\<rparr>]))) JoinSound = Some p
     \<and> (\<forall>el \<in> set p. ea_volume el = 3 / 5)"
proof -
  let ?es = "[SoundRequest 5000 JoinSound \<lparr>po_channelId = None, po_bypassChannelLimit = False\<rparr>]"
  let ?r = "exec_run sound_step (new_player, no_sounds (3 / 5)) ?es"
  have r: "run sound_enabled sound_step (new_player, no_sounds (3 / 5)) ?es (fst ?r) (snd ?r)"
    by (rule exec_run_run) simp_all
  have f: "sn_pending (snd (fst ?r)) = []" "sn_stored (snd (fst ?r)) = 3 / 5" "sn_pools (snd (fst ?r)) JoinSound \<noteq> None"
    by (simp_all add: sound_requested_def playSound_def new_player_def GLOBAL_RATE_LIMIT_MS_def start_sound_def Let_def
        no_sounds_def update_el_def getPool_def pool_of_def)
  then obtain p where p: "sn_pools (snd (fst ?r)) JoinSound = Some p" by blast
  from sounds_at_stored_volume [OF r f(1) p] f(2) p show ?thesis by auto
qed

text \<open>A sound that is asked for while the silent playing is under way goes to an element of that, and is cut off by its answer; a volume
  set meanwhile is undone.\<close>

lemma unlock_cuts_sound:
  "pool_of n (unlock_answered (n, 0, v) (start_sound n (unlock (no_sounds v)))) ! 0 = \<lparr>ea_volume = v, ea_playing = False\<rparr>"
  by (cases n) (simp_all add: unlock_answered_def start_sound_def unlock_def allPools_spec Let_def no_sounds_def update_el_def getPool_def
      pool_of_def new_pool_def POOL_SIZE_def chosen_el_def numeral_3_eq_3)

lemma unlock_undoes_volume:
  "ea_volume (pool_of n (unlock_answered (n, 0, v) (set_pool_volume w (unlock (no_sounds v)))) ! 0) = v"
  by (cases n) (simp_all add: unlock_answered_def set_pool_volume_def unlock_def allPools_spec Let_def no_sounds_def update_el_def getPool_def
      pool_of_def new_pool_def POOL_SIZE_def numeral_3_eq_3)

end
