(* ===== verification/MediaView.thy ===== *)
theory MediaView
  imports Players
begin

text \<open>
  The media player as it is shown (\<^verbatim>\<open>components/MediaPlayer.tsx\<close>, \<^verbatim>\<open>VideoPlayer.tsx\<close>) and the part of
  \<^verbatim>\<open>hooks/useMediaPlayer.ts\<close> that \<open>Media\<close> leaves out: the equalizer's filters in the audio graph, the rate of the element, the
  animation of the spectrum. Gains are whole decibels, as the sliders give them.
\<close>

section \<open>Equalizer and rate\<close>

text \<open>\<open>eq_filters\<close> are the gains of the filters once the graph is built, \<open>eq_deps\<close> and \<open>eq_rateDep\<close> the values that the effects last
  ran with, \<open>eq_rate\<close> is \<^verbatim>\<open>playbackRate\<close> of the element.\<close>

record eq_player =
  eq_media :: media_player
  eq_bands :: "int list"
  eq_filters :: "int list option"
  eq_deps :: "int list \<times> bool"
  eq_rate :: rat
  eq_rateDep :: rat

definition flat_bands :: "int list" where
  "flat_bands = replicate 5 0"

definition shown_url :: "media_player \<Rightarrow> string option" where
  "shown_url m = map_option tr_url (currentTrack m)"

definition eq_effect :: "eq_player \<Rightarrow> eq_player" where
  "eq_effect s =
     (let now = (eq_bands s, mp_eqEnabled (eq_media s))
      in if eq_deps s = now then s
         else s\<lparr>eq_deps := now, eq_filters := map_option (\<lambda>g. if snd now then take (length g) (eq_bands s) else map (\<lambda>_. 0) g) (eq_filters s)\<rparr>)"

definition rate_effect :: "eq_player \<Rightarrow> eq_player" where
  "rate_effect s = (if eq_rateDep s = mp_playbackRate (eq_media s) then s
     else s\<lparr>eq_rateDep := mp_playbackRate (eq_media s), eq_rate := mp_playbackRate (eq_media s)\<rparr>)"

text \<open>A rendering after the state of the player has become \<open>m\<close>: the browser sets the rate back to one when it loads another address;
  the graph, where the effects of \<open>m\<close> built it, takes the gains as they are; then the effects of the equalizer and the rate run.\<close>

definition eq_rendered :: "media_player \<Rightarrow> eq_player \<Rightarrow> eq_player" where
  "eq_rendered m s =
     (let reloaded = (shown_url m \<noteq> None \<and> shown_url m \<noteq> shown_url (eq_media s))
      in rate_effect (eq_effect (s\<lparr>eq_media := m, eq_rate := (if reloaded then 1 else eq_rate s),
           eq_filters := (if mp_graph m \<and> eq_filters s = None then Some (eq_bands s) else eq_filters s)\<rparr>)))"

definition mount_player :: "bool \<Rightarrow> bool \<Rightarrow> media_player \<Rightarrow> eq_player" where
  "mount_player autoPlay graphOk m =
     (let m1 = fst (media_step autoPlay graphOk m MMount)
      in \<lparr>eq_media = m1, eq_bands = flat_bands, eq_filters = (if mp_graph m1 then Some flat_bands else None),
          eq_deps = (flat_bands, mp_eqEnabled m1), eq_rate = mp_playbackRate m1, eq_rateDep = mp_playbackRate m1\<rparr>)"

text \<open>A slider is disabled while the equalizer is off.\<close>

datatype eq_input = EqMedia media_input | EqSlider nat int

fun eq_enabled :: "bool \<Rightarrow> eq_player \<Rightarrow> eq_input \<Rightarrow> bool" where
  "eq_enabled graphOk s (EqSlider i gain) \<longleftrightarrow> mp_eqEnabled (eq_media s) \<and> i < length (eq_bands s) \<and> -12 \<le> gain \<and> gain \<le> 12"
| "eq_enabled graphOk s (EqMedia e) \<longleftrightarrow> (case e of MAnalyser ok \<Rightarrow> ok = graphOk | _ \<Rightarrow> True)"

fun eq_step :: "bool \<Rightarrow> bool \<Rightarrow> eq_player \<Rightarrow> eq_input \<Rightarrow> eq_player \<times> media_effect list" where
  "eq_step autoPlay graphOk s (EqMedia e) =
     (let (m, os) = media_step autoPlay graphOk (eq_media s) e in (eq_rendered m s, os))"
| "eq_step autoPlay graphOk s (EqSlider i gain) = (eq_rendered (eq_media s) (s\<lparr>eq_bands := (eq_bands s)[i := gain]\<rparr>), [])"

section \<open>The spectrum\<close>

text \<open>\<open>sp_loop\<close>: a frame has been asked for.\<close>

record spectrum =
  sp_expanded :: bool
  sp_advanced :: bool
  sp_on :: bool
  sp_deps :: "bool \<times> bool"
  sp_loop :: bool

definition new_spectrum :: "bool \<Rightarrow> spectrum" where
  "new_spectrum startsCompact = \<lparr>sp_expanded = \<not> startsCompact, sp_advanced = False, sp_on = False, sp_deps = (False, False), sp_loop = False\<rparr>"

definition canvas_mounted :: "spectrum \<Rightarrow> bool" where
  "canvas_mounted s \<longleftrightarrow> sp_expanded s \<and> sp_advanced s \<and> sp_on s"

text \<open>One frame: it asks for the next one if the canvas is there. The effect and its clean-up; without a graph there is no analyser.\<close>

definition spectrum_draw :: "spectrum \<Rightarrow> spectrum" where
  "spectrum_draw s = s\<lparr>sp_loop := canvas_mounted s\<rparr>"

definition spectrum_effect :: "bool \<Rightarrow> spectrum \<Rightarrow> spectrum" where
  "spectrum_effect graphOk s =
     (let now = (sp_on s, sp_advanced s)
      in if sp_deps s = now then s
         else let t = s\<lparr>sp_deps := now, sp_loop := False\<rparr>
              in if fst now \<and> snd now \<and> graphOk then spectrum_draw t else t)"

datatype spectrum_input = ExpandClicked bool | AdvancedClicked | SpectrumClicked | SpectrumFrame

text \<open>The buttons are where the view has them: all but the one that expands in the expanded player, the check box in the open
  panel.\<close>

fun spectrum_enabled :: "spectrum \<Rightarrow> spectrum_input \<Rightarrow> bool" where
  "spectrum_enabled s (ExpandClicked b) \<longleftrightarrow> sp_expanded s \<noteq> b"
| "spectrum_enabled s AdvancedClicked \<longleftrightarrow> sp_expanded s"
| "spectrum_enabled s SpectrumClicked \<longleftrightarrow> sp_expanded s \<and> sp_advanced s"
| "spectrum_enabled s SpectrumFrame \<longleftrightarrow> sp_loop s"

fun spectrum_step :: "bool \<Rightarrow> spectrum \<Rightarrow> spectrum_input \<Rightarrow> spectrum \<times> unit list" where
  "spectrum_step graphOk s (ExpandClicked b) = (spectrum_effect graphOk (s\<lparr>sp_expanded := b\<rparr>), [])"
| "spectrum_step graphOk s AdvancedClicked = (spectrum_effect graphOk (s\<lparr>sp_advanced := \<not> sp_advanced s\<rparr>), [])"
| "spectrum_step graphOk s SpectrumClicked = (spectrum_effect graphOk (s\<lparr>sp_on := \<not> sp_on s\<rparr>), [])"
| "spectrum_step graphOk s SpectrumFrame = (spectrum_draw s, [])"

text \<open>The bars of a frame: where each begins and how high it is.\<close>

definition bar_width :: "nat \<Rightarrow> nat \<Rightarrow> rat" where
  "bar_width width n = of_nat width / of_nat n * (5 / 2)"

definition spectrum_bars :: "nat \<Rightarrow> nat \<Rightarrow> nat list \<Rightarrow> (rat \<times> rat) list" where
  "spectrum_bars width height levels =
     takeWhile (\<lambda>b. fst b \<le> of_nat width)
       (map (\<lambda>(i, level). (of_nat i * (bar_width width (length levels) + 1), of_nat level / 255 * of_nat height)) (enumerate 0 levels))"

section \<open>What is shown\<close>

datatype player_part =
    TitlePart string | ArtistPart string | SpinnerPart | ErrorPart string | ProgressPart rat rat | TimesPart string string
  | ShufflePart bool | PreviousPart | PlayPart bool | StopPart | NextPart | LoopPart LoopMode | MutePart volume_icon | VolumePart int
  | RatePart rat | AdvancedPart bool | QueuePart bool | EqualizerPart bool "(int \<times> bool) list" int | SpectrumPart bool bool
  | TracksPart "(Track \<times> bool) list" | CenterPlayPart | PictureInPicturePart bool | FullscreenPart bool

record player_panel =
  pp_expanded :: bool
  pp_playlistOpen :: bool
  pp_advancedOpen :: bool

record player_options =
  po_playlist :: bool
  po_equalizer :: bool
  po_visualizer :: bool

definition to_percent :: "rat \<Rightarrow> int" where
  "to_percent v = \<lfloor>v * 100 + 1 / 2\<rfloor>"

definition volume_parts :: "media_player \<Rightarrow> player_part list" where
  "volume_parts m = [MutePart (VolumeIcon (if mp_muted m then 0 else mp_volume m) (mp_muted m)),
     VolumePart (if mp_muted m then 0 else to_percent (mp_volume m))]"

definition progress_part :: "media_player \<Rightarrow> player_part" where
  "progress_part m = ProgressPart (percent_of_duration (mp_currentTime m) m) (percent_of_duration (mp_buffered m) m)"

definition times_part :: "media_player \<Rightarrow> player_part" where
  "times_part m = TimesPart (formatTime (Some (mp_currentTime m))) (formatTime (Some (mp_duration m)))"

definition queue_rows :: "media_player \<Rightarrow> (Track \<times> bool) list" where
  "queue_rows m = map (\<lambda>(i, t). (t, int i = mp_index m)) (enumerate 0 (mp_queue m))"

definition advanced_parts :: "player_options \<Rightarrow> eq_player \<Rightarrow> player_part list" where
  "advanced_parts opts s =
     (if po_equalizer opts
      then [EqualizerPart (mp_eqEnabled (eq_media s)) (map (\<lambda>g. (g, \<not> mp_eqEnabled (eq_media s))) (eq_bands s)) (to_percent (mp_boost (eq_media s)))]
      else [])
     @ (if po_visualizer opts then [SpectrumPart (mp_visualizerEnabled (eq_media s)) (mp_visualizerEnabled (eq_media s))] else [])"

definition error_part :: "media_player \<Rightarrow> player_part list" where
  "error_part m = (case mp_error m of Some e \<Rightarrow> (if e = [] then [] else [ErrorPart e]) | None \<Rightarrow> [])"

definition media_player_view :: "player_options \<Rightarrow> player_panel \<Rightarrow> eq_player \<Rightarrow> player_part list" where
  "media_player_view opts u s =
     (let m = eq_media s; title = map_option tr_title (currentTrack m)
      in if pp_expanded u
         then [TitlePart (case title of Some t \<Rightarrow> t | None \<Rightarrow> ''No track selected'')]
           @ (case currentTrack m of Some t \<Rightarrow> (case tr_artist t of Some a \<Rightarrow> (if a = [] then [] else [ArtistPart a]) | None \<Rightarrow> []) | None \<Rightarrow> [])
           @ (if mp_isLoading m then [SpinnerPart] else []) @ error_part m @ [progress_part m, times_part m]
           @ [ShufflePart (mp_shuffle m), PreviousPart, PlayPart (mp_playing m), StopPart, NextPart, LoopPart (mp_loopMode m)]
           @ volume_parts m @ [RatePart (mp_playbackRate m)]
           @ (if po_equalizer opts \<or> po_visualizer opts then [AdvancedPart (pp_advancedOpen u)] else [])
           @ (if po_playlist opts then [QueuePart (pp_playlistOpen u)] else [])
           @ (if pp_advancedOpen u then advanced_parts opts s else [])
           @ (if pp_playlistOpen u \<and> po_playlist opts then [TracksPart (queue_rows m)] else [])
         else [PlayPart (mp_playing m), TitlePart (case title of Some t \<Rightarrow> t | None \<Rightarrow> ''No track'')] @ error_part m
           @ [progress_part m] @ volume_parts m)"

definition video_player_view :: "bool \<Rightarrow> media_player \<Rightarrow> video_ui \<Rightarrow> player_part list" where
  "video_player_view pipEnabled m u =
     (if mp_isLoading m \<and> error_part m = [] then [SpinnerPart] else [])
     @ (if \<not> mp_playing m \<and> \<not> mp_isLoading m \<and> error_part m = [] then [CenterPlayPart] else []) @ error_part m
     @ [progress_part m, PlayPart (mp_playing m)] @ volume_parts m @ [times_part m, RatePart (mp_playbackRate m)]
     @ (if pipEnabled then [PictureInPicturePart (vu_pip u)] else []) @ [FullscreenPart (vu_fullscreen u)]"

section \<open>The equalizer is heard as it is shown\<close>

definition deps_seen :: "media_player \<Rightarrow> bool" where
  "deps_seen m \<longleftrightarrow> mp_volumeDeps m = Some (mp_volume m, mp_boost m, mp_muted m, mp_eqEnabled m, mp_visualizerEnabled m)"

lemma handle_graph:
  assumes "media_handle m e = (t, os)"
  shows "mp_volumeDeps t = mp_volumeDeps m \<and> (mp_graph m \<longrightarrow> mp_graph t) \<and> (mp_graph t \<longrightarrow> mp_graph m \<or> e = MAnalyser True)"
  using assms
  by (cases e) (auto simp: stop_media_def seek_to_def set_volume_def set_boost_def playTrackAt_def toggleShuffle_def next_track_def
      previous_track_def on_ended_def Let_def split: option.splits if_splits)

lemma effects_graph:
  "mp_graph (fst (track_effect a m)) = mp_graph m" "mp_eqEnabled (fst (track_effect a m)) = mp_eqEnabled m"
  "deps_seen (fst (track_effect a m)) = deps_seen m"
  "mp_eqEnabled (volume_effect g m) = mp_eqEnabled m" "deps_seen (volume_effect g m)"
  by (simp_all add: track_effect_def volume_effect_def deps_seen_def Let_def)

lemma volume_effect_graph:
  "mp_graph (volume_effect g m) \<longleftrightarrow> mp_graph m \<or> (g \<and> needs_graph m \<and> \<not> deps_seen m)"
  by (auto simp: volume_effect_def needs_graph_def deps_seen_def Let_def)

definition graph_ok :: "bool \<Rightarrow> media_player \<Rightarrow> bool" where
  "graph_ok g m \<longleftrightarrow> deps_seen m \<and> (if g then mp_eqEnabled m \<longrightarrow> mp_graph m else \<not> mp_graph m)"

lemma media_step_graph:
  assumes "graph_ok g m" and "\<forall>ok. e = MAnalyser ok \<longrightarrow> ok = g" and "media_step a g m e = (m', os)"
  shows "graph_ok g m' \<and> (mp_graph m \<longrightarrow> mp_graph m')"
proof -
  obtain t os1 where t: "media_handle m e = (t, os1)" by fastforce
  have m': "m' = fst (track_effect a (volume_effect g t))"
    using assms(3) by (simp add: media_step_def t Let_def split: prod.splits)
  note h = handle_graph [OF t]
  have g': "mp_graph m' \<longleftrightarrow> mp_graph t \<or> (g \<and> needs_graph t \<and> \<not> deps_seen t)" and e': "mp_eqEnabled m' = mp_eqEnabled t" and "deps_seen m'"
    by (simp_all add: m' effects_graph volume_effect_graph)
  moreover have "mp_graph m'" if "g" "mp_eqEnabled m'"
  proof (cases "deps_seen t")
    case True
    with h assms(1) have "mp_eqEnabled t = mp_eqEnabled m" by (simp add: deps_seen_def graph_ok_def)
    with that assms(1) h g' e' show ?thesis by (simp add: graph_ok_def)
  next
    case False
    with that g' e' show ?thesis by (simp add: needs_graph_def)
  qed
  ultimately show ?thesis using assms(1,2) h by (auto simp: graph_ok_def split: if_splits)
qed

definition eq_gains :: "eq_player \<Rightarrow> int list" where
  "eq_gains s = (if mp_eqEnabled (eq_media s) then eq_bands s else flat_bands)"

definition eq_inv :: "bool \<Rightarrow> eq_player \<Rightarrow> bool" where
  "eq_inv g s \<longleftrightarrow> graph_ok g (eq_media s) \<and> length (eq_bands s) = 5 \<and> eq_deps s = (eq_bands s, mp_eqEnabled (eq_media s))
     \<and> eq_filters s = (if mp_graph (eq_media s) then Some (eq_gains s) else None)
     \<and> (g \<and> eq_bands s \<noteq> flat_bands \<longrightarrow> mp_graph (eq_media s))"

lemma rate_effect_same [simp]:
  "eq_media (rate_effect s) = eq_media s" "eq_bands (rate_effect s) = eq_bands s" "eq_filters (rate_effect s) = eq_filters s"
  "eq_deps (rate_effect s) = eq_deps s"
  by (simp_all add: rate_effect_def)

lemma eq_rendered_inv:
  assumes "graph_ok g m" and "length (eq_bands s) = 5" and "mp_graph (eq_media s) \<longrightarrow> mp_graph m"
    and "eq_filters s = (if mp_graph (eq_media s) then Some f else None)" and "length f = 5"
    and "eq_deps s = (eq_bands s, mp_eqEnabled m) \<longrightarrow> f = (if mp_eqEnabled m then eq_bands s else flat_bands)"
    and "g \<and> eq_bands s \<noteq> flat_bands \<longrightarrow> mp_graph (eq_media s)"
  shows "eq_inv g (eq_rendered m s)"
proof -
  have z: "map (\<lambda>_. 0) xs = flat_bands" if "length xs = 5" for xs :: "int list"
    using that by (simp add: flat_bands_def map_replicate_const)
  have g: "mp_graph m \<longrightarrow> g" using assms(1) by (auto simp: graph_ok_def split: if_splits)
  then have b: "eq_bands s = flat_bands" if "mp_graph m" "\<not> mp_graph (eq_media s)" using that assms(7) by blast
  show ?thesis
  proof (cases "mp_graph (eq_media s)")
    case True
    with assms z show ?thesis
      by (auto simp: eq_rendered_def eq_inv_def eq_effect_def eq_gains_def Let_def)
  next
    case False
    with assms z b g show ?thesis
      by (auto simp: eq_rendered_def eq_inv_def eq_effect_def eq_gains_def Let_def)
  qed
qed

lemma gains_length: "eq_inv g s \<Longrightarrow> length (eq_gains s) = 5"
  by (simp add: eq_inv_def eq_gains_def flat_bands_def)

lemma eq_inv_step:
  assumes inv: "eq_inv g s" and en: "eq_enabled g s e"
  shows "eq_inv g (fst (eq_step a g s e))"
proof (cases e)
  case (EqMedia i)
  obtain m os where m: "media_step a g (eq_media s) i = (m, os)" by fastforce
  have "\<forall>ok. i = MAnalyser ok \<longrightarrow> ok = g" using en EqMedia by auto
  with inv m media_step_graph [of g "eq_media s" i a m os]
  have "graph_ok g m \<and> (mp_graph (eq_media s) \<longrightarrow> mp_graph m)" by (simp add: eq_inv_def)
  then have "eq_inv g (eq_rendered m s)"
    using inv gains_length [OF inv] by (intro eq_rendered_inv [where f = "eq_gains s"]) (auto simp: eq_inv_def eq_gains_def)
  with m EqMedia show ?thesis by simp
next
  case (EqSlider i gain)
  let ?t = "s\<lparr>eq_bands := (eq_bands s)[i := gain]\<rparr>"
  have on: "mp_eqEnabled (eq_media s)" using en EqSlider by simp
  have "eq_inv g (eq_rendered (eq_media s) ?t)"
    using inv gains_length [OF inv] on
    by (intro eq_rendered_inv [where f = "eq_gains s"]) (auto simp: eq_inv_def eq_gains_def graph_ok_def)
  with EqSlider show ?thesis by simp
qed

interpretation equalizers: machine_invariant "eq_enabled g" "eq_step a g" "eq_inv g" for a g
  by unfold_locales (rule eq_inv_step)

lemma mount_eq_inv: "eq_inv g (mount_player a g (initial_media tracks i v l))"
  by (simp add: mount_player_def media_step_def volume_effect_def track_effect_def initial_media_def needs_graph_def eq_inv_def
      graph_ok_def deps_seen_def flat_bands_def eq_gains_def Let_def)

text \<open>In whatever order the equalizer, the boost, the spectrum and the sliders are used, the filters of the graph have
  the gains that the sliders show if the equalizer is on, and none if it is off; and if it is on, the sound goes through them, provided
  that the browser can build the graph.\<close>

theorem equalizer_as_shown:
  assumes "run (eq_enabled graphOk) (eq_step autoPlay graphOk) (mount_player autoPlay graphOk (initial_media tracks i v l)) es s os"
  shows "(\<forall>f. eq_filters s = Some f \<longrightarrow> f = (if mp_eqEnabled (eq_media s) then eq_bands s else flat_bands))
    \<and> (graphOk \<and> mp_eqEnabled (eq_media s) \<longrightarrow> eq_filters s \<noteq> None)"
proof -
  have "eq_inv graphOk s" using equalizers.inv_run [OF assms mount_eq_inv] .
  then show ?thesis by (auto simp: eq_inv_def eq_gains_def graph_ok_def)
qed

definition equalizer_moves :: "eq_input list" where
  "equalizer_moves = [EqMedia MEqualizer, EqSlider 1 6, EqMedia MEqualizer, EqMedia (MBoost (3 / 2))]"

theorem equalizer_as_shown_witness:
  "eq_filters (fst (exec_run (eq_step False True) (mount_player False True (initial_media [] 0 1 LoopOff)) equalizer_moves)) = Some flat_bands
   \<and> eq_bands (fst (exec_run (eq_step False True) (mount_player False True (initial_media [] 0 1 LoopOff)) equalizer_moves)) = [0, 6, 0, 0, 0]"
proof -
  let ?m = "mount_player False True (initial_media [] 0 1 LoopOff)"
  let ?r = "exec_run (eq_step False True) ?m equalizer_moves"
  have "enabled_run (eq_enabled True) (eq_step False True) ?m equalizer_moves" by code_simp
  then have r: "run (eq_enabled True) (eq_step False True) ?m equalizer_moves (fst ?r) (snd ?r)" by (rule exec_run_run) simp
  have f: "\<not> mp_eqEnabled (eq_media (fst ?r)) \<and> eq_filters (fst ?r) \<noteq> None" "eq_bands (fst ?r) = [0, 6, 0, 0, 0]" by code_simp+
  then obtain x where x: "eq_filters (fst ?r) = Some x" by blast
  from equalizer_as_shown [OF r] f x show ?thesis by simp
qed

section \<open>Rates\<close>

text \<open>A rate that is chosen reaches the element; a track with another address plays at rate one again, whatever rate is shown.\<close>

lemma track_change_resets_rate:
  assumes "shown_url m \<noteq> None" and "shown_url m \<noteq> shown_url (eq_media s)" and "eq_rateDep s = mp_playbackRate m"
  shows "eq_rate (eq_rendered m s) = 1"
  using assms by (simp add: eq_rendered_def rate_effect_def eq_effect_def Let_def)

lemma chosen_rate_is_played:
  assumes "eq_rateDep s \<noteq> mp_playbackRate m"
  shows "eq_rate (eq_rendered m s) = mp_playbackRate m"
  using assms by (simp add: eq_rendered_def rate_effect_def eq_effect_def Let_def)

section \<open>The spectrum\<close>

definition spectrum_inv :: "bool \<Rightarrow> spectrum \<Rightarrow> bool" where
  "spectrum_inv g s \<longleftrightarrow> sp_deps s = (sp_on s, sp_advanced s) \<and> (sp_expanded s \<or> \<not> sp_advanced s) \<and> (sp_loop s \<longleftrightarrow> canvas_mounted s \<and> g)"

lemma spectrum_inv_step:
  "spectrum_inv g s \<Longrightarrow> spectrum_enabled s e \<and> e \<noteq> ExpandClicked False \<Longrightarrow> spectrum_inv g (fst (spectrum_step g s e))"
  by (cases e) (auto simp: spectrum_inv_def spectrum_effect_def spectrum_draw_def canvas_mounted_def Let_def)

interpretation spectra: machine_invariant "\<lambda>s e. spectrum_enabled s e \<and> e \<noteq> ExpandClicked False" "spectrum_step g" "spectrum_inv g" for g
  by unfold_locales (rule spectrum_inv_step)

text \<open>Unless the player is collapsed, the spectrum moves exactly while it is on screen; a collapsed and expanded player shows
  one that stands still.\<close>

lemma spectrum_moves:
  "run (\<lambda>s e. spectrum_enabled s e \<and> e \<noteq> ExpandClicked False) (spectrum_step True) (new_spectrum c) es s os
    \<Longrightarrow> sp_loop s \<longleftrightarrow> canvas_mounted s"
  using spectra.inv_run [of True "new_spectrum c" es s os] by (auto simp: spectrum_inv_def new_spectrum_def canvas_mounted_def)

lemma collapse_stops_spectrum:
  fixes g :: bool
  assumes "sp_deps s = (True, True)" and "canvas_mounted s"
  defines "t \<equiv> fst (exec_run (spectrum_step g) s [ExpandClicked False, SpectrumFrame, ExpandClicked True])"
  shows "canvas_mounted t \<and> \<not> sp_loop t"
  using assms by (auto simp: canvas_mounted_def spectrum_effect_def spectrum_draw_def Let_def)

lemma bars_in_canvas:
  assumes "(x, h) \<in> set (spectrum_bars width height levels)" and "\<forall>l \<in> set levels. l \<le> 255"
  shows "x \<le> of_nat width \<and> 0 \<le> h \<and> h \<le> of_nat height"
proof -
  have "(x, h) \<in> set (map (\<lambda>(i, level). (of_nat i * (bar_width width (length levels) + 1), of_nat level / 255 * of_nat height)) (enumerate 0 levels))"
    using assms(1) set_takeWhileD unfolding spectrum_bars_def by fastforce
  then obtain i where "i < length levels" and i: "h = of_nat (levels ! i) / 255 * of_nat height" by (auto simp: in_set_enumerate_eq)
  define l where "l = levels ! i"
  have h: "h = of_nat l / 255 * of_nat height" using i by (simp add: l_def)
  have "l \<le> 255" using assms(2) \<open>i < length levels\<close> by (simp add: l_def)
  then have "of_nat l / 255 \<le> (1 :: rat)" by simp
  then have "h \<le> of_nat height" unfolding h by (intro mult_left_le_one_le) simp_all
  moreover have "x \<le> of_nat width" using assms(1) set_takeWhileD unfolding spectrum_bars_def by fastforce
  ultimately show ?thesis by (simp add: h)
qed

section \<open>Parts\<close>

lemma one_row_marked:
  assumes "0 \<le> mp_index m" and "i < length (mp_queue m)"
  shows "queue_rows m ! i = (mp_queue m ! i, i = nat (mp_index m))"
  using assms by (auto simp: queue_rows_def nth_enumerate_eq)

end
