(* ===== verification/MessageRows.thy ===== *)
theory MessageRows
  imports Widgets Players
begin

text \<open>
  The list of messages as it is shown (\<^verbatim>\<open>components/MessageList.tsx\<close>): the head and the foot of the list with the sentinels that
  ask for more of the history, the parts of a row, what opens the menu of a row, and the time of a message
  (\<^verbatim>\<open>services/formatTimestamp.ts\<close>).
\<close>

section \<open>Times\<close>

text \<open>A date in the zone of the browser; \<open>time_of\<close> and \<open>day_of\<close> are the two formats of \<^verbatim>\<open>Intl.DateTimeFormat\<close>,
  \<open>local_time\<close> is \<^verbatim>\<open>new Date\<close> (\<open>None\<close>: it is no date).\<close>

record local_date =
  ld_year :: int
  ld_month :: nat
  ld_date :: nat
  ld_minutes :: nat

definition same_day :: "local_date \<Rightarrow> local_date \<Rightarrow> bool" where
  "same_day a b \<longleftrightarrow> ld_year a = ld_year b \<and> ld_month a = ld_month b \<and> ld_date a = ld_date b"

definition formatMessageTimestamp :: "(string \<Rightarrow> local_date option) \<Rightarrow> (local_date \<Rightarrow> string) \<Rightarrow> (local_date \<Rightarrow> string) \<Rightarrow> local_date \<Rightarrow> string \<Rightarrow> string" where
  "formatMessageTimestamp local_time time_of day_of now isoDate = (case local_time isoDate of
     None \<Rightarrow> []
   | Some d \<Rightarrow> (if same_day d now then time_of d else day_of d @ '', '' @ time_of d))"

section \<open>The head and the foot of the list\<close>

record history_props =
  hp_hasMoreOlder :: bool
  hp_isLoadingOlder :: bool
  hp_loadOlderError :: bool
  hp_hasMoreNewer :: bool
  hp_isLoadingNewer :: bool

datatype list_part = Skeletons | NoMessages | OlderSentinel | LoadingOlder | RetryOlder | HistoryStart | RowOf int | LoadingNewer | NewerSentinel

definition list_head :: "history_props \<Rightarrow> list_part list" where
  "list_head h =
     (if hp_hasMoreOlder h \<and> \<not> hp_loadOlderError h then [OlderSentinel] else [])
     @ (if hp_isLoadingOlder h then [LoadingOlder] else []) @ (if hp_loadOlderError h then [RetryOlder] else [])
     @ (if \<not> hp_hasMoreOlder h \<and> \<not> hp_isLoadingOlder h \<and> \<not> hp_loadOlderError h then [HistoryStart] else [])"

definition list_foot :: "history_props \<Rightarrow> list_part list" where
  "list_foot h = (if hp_isLoadingNewer h then [LoadingNewer] else []) @ (if hp_hasMoreNewer h then [NewerSentinel] else [])"

definition message_list_view :: "bool \<Rightarrow> history_props \<Rightarrow> Message list \<Rightarrow> list_part list" where
  "message_list_view isLoading h messages =
     (if isLoading then [Skeletons] else if messages = [] then [NoMessages]
      else list_head h @ map (\<lambda>m. RowOf (m_id m)) messages @ list_foot h)"

text \<open>What the page passes for the channel, and the two effects: whether the observer is there and asks when its sentinel comes near.\<close>

definition history_of :: "ChannelPagination option \<Rightarrow> history_props" where
  "history_of p = (case p of
     None \<Rightarrow> \<lparr>hp_hasMoreOlder = False, hp_isLoadingOlder = False, hp_loadOlderError = False, hp_hasMoreNewer = False, hp_isLoadingNewer = False\<rparr>
   | Some g \<Rightarrow> \<lparr>hp_hasMoreOlder = pg_hasMore g, hp_isLoadingOlder = pg_isLoadingMore g, hp_loadOlderError = pg_error g,
       hp_hasMoreNewer = (pg_hasMoreNewer g = Some True), hp_isLoadingNewer = (pg_isLoadingNewer g = Some True)\<rparr>)"

definition older_observed :: "bool \<Rightarrow> history_props \<Rightarrow> Message list \<Rightarrow> bool" where
  "older_observed isLoading h messages \<longleftrightarrow> OlderSentinel \<in> set (message_list_view isLoading h messages)
     \<and> hp_hasMoreOlder h \<and> \<not> hp_isLoadingOlder h \<and> \<not> hp_loadOlderError h"

definition newer_observed :: "bool \<Rightarrow> history_props \<Rightarrow> Message list \<Rightarrow> bool" where
  "newer_observed isLoading h messages \<longleftrightarrow> NewerSentinel \<in> set (message_list_view isLoading h messages)
     \<and> hp_hasMoreNewer h \<and> \<not> hp_isLoadingNewer h"

section \<open>The menu of a row\<close>

text \<open>Where a pointer is: in the editor, on something that has a menu of the browser, on the rest of a row, or elsewhere.\<close>

datatype row_target = OnEditor int | OnMedia int | OnRow int | OffRows

definition right_click :: "row_target \<Rightarrow> Message list \<Rightarrow> Message option" where
  "right_click target messages = (case target of
     OnRow i \<Rightarrow> find (\<lambda>m. m_id m = i) messages | OnEditor i \<Rightarrow> find (\<lambda>m. m_id m = i) messages | _ \<Rightarrow> None)"

definition long_press :: "bool \<Rightarrow> row_target \<Rightarrow> Message list \<Rightarrow> Message option" where
  "long_press isTouch target messages = (if \<not> isTouch then None else case target of
     OnRow i \<Rightarrow> find (\<lambda>m. m_id m = i) messages | _ \<Rightarrow> None)"

section \<open>The parts of a row\<close>

datatype row_buttons = ConfirmButtons | ReplyAndDelete | ReplyOnly

definition row_buttons_of :: "int option \<Rightarrow> list_ui \<Rightarrow> Message \<Rightarrow> row_buttons" where
  "row_buttons_of me ui msg =
     (if isOwn me msg then (if lu_confirmDeleteId ui = Some (m_id msg) then ConfirmButtons else ReplyAndDelete) else ReplyOnly)"

definition button_inputs :: "row_buttons \<Rightarrow> Message \<Rightarrow> list_input list" where
  "button_inputs b msg = (case b of ConfirmButtons \<Rightarrow> [ConfirmDelete msg, CancelDelete]
     | ReplyAndDelete \<Rightarrow> [RowReply msg, RowDelete msg] | ReplyOnly \<Rightarrow> [RowReply msg])"

record reply_block =
  rb_message :: int
  rb_author :: string
  rb_content :: string
  rb_attachments :: bool

definition ReplyPreviewBlock :: "ReplyPreview \<Rightarrow> reply_block" where
  "ReplyPreviewBlock r = \<lparr>rb_message = rp_message_id r, rb_author = reply_author r, rb_content = truncateContent 60 (rp_content r),
     rb_attachments = rp_has_attachments r\<rparr>"

datatype row_body = RowEditor int | RowContent "text_part list option" | NoContent

record row_view =
  rv_own :: bool
  rv_mentioned :: bool
  rv_new :: bool
  rv_avatar :: "string option"
  rv_initials :: string
  rv_author :: string
  rv_profile :: int
  rv_buttons :: row_buttons
  rv_reply :: "reply_block option"
  rv_body :: row_body
  rv_attachments :: "attachment_view list"
  rv_embeds :: "LinkPreview list"
  rv_time :: string
  rv_edited :: bool

definition message_row_view :: "(string \<Rightarrow> string) \<Rightarrow> (string \<Rightarrow> string) \<Rightarrow> int option \<Rightarrow> int \<Rightarrow> list_ui \<Rightarrow> (int \<times> ServerMember) list \<Rightarrow> Message \<Rightarrow> row_view" where
  "message_row_view upper stamp me initial ui members msg =
     \<lparr>rv_own = isOwn me msg, rv_mentioned = row_mentioned me msg, rv_new = row_new initial msg,
      rv_avatar = (if m_author_avatar_url msg = [] then None else Some (m_author_avatar_url msg)),
      rv_initials = getAuthorInitials upper msg, rv_author = getAuthorLabel msg, rv_profile = m_author_id msg,
      rv_buttons = row_buttons_of me ui msg,
      rv_reply = (case m_reply_to msg of Val r \<Rightarrow> Some (ReplyPreviewBlock r) | _ \<Rightarrow> None),
      rv_body = (if lu_editingId ui = Some (m_id msg) then RowEditor (m_id msg)
        else if m_content msg = [] then NoContent else RowContent (renderMessageContent (m_content msg) members)),
      rv_attachments = map (renderAttachment (message_images msg)) (case m_attachments msg of Some as \<Rightarrow> as | None \<Rightarrow> []),
      rv_embeds = m_embeds msg, rv_time = stamp (m_created_at msg),
      rv_edited = (case m_edited_at msg of Some t \<Rightarrow> t \<noteq> [] | None \<Rightarrow> False)\<rparr>"

text \<open>The queue of one track of an attachment that is played; the parser keeps no id of attachments, so the id is the address.\<close>

definition attachment_tracks :: "(string \<Rightarrow> string option) \<Rightarrow> Attachment \<Rightarrow> Track list" where
  "attachment_tracks guess att = [\<lparr>tr_id = StringId (att_url att), tr_title = att_file_name att, tr_artist = None, tr_album = None,
     tr_duration = 0, tr_url = att_url att, tr_albumArt = None, tr_format = guess (att_content_type att)\<rparr>]"

section \<open>Facts\<close>

text \<open>The head of a list that is shown is never empty: it says that more is above, that it is being loaded, that it could not be, or that
  there is nothing more.\<close>

lemma head_says_something: "list_head h \<noteq> []"
  by (auto simp: list_head_def)

text \<open>The buttons of a row are the ones that the list accepts from it.\<close>

lemma row_buttons_accepted: "e \<in> set (button_inputs (row_buttons_of me ui msg) msg) \<Longrightarrow> list_enabled ms me ui e"
  by (auto simp: row_buttons_of_def button_inputs_def list_enabled_def split: if_splits)

text \<open>On a touch screen the long press opens the menu of the message under the finger, the same as the right click does, but not
  inside the editor.\<close>

lemma long_press_is_right_click: "long_press True (OnRow i) ms = right_click (OnRow i) ms \<and> long_press True (OnEditor i) ms = None"
  by (simp add: long_press_def right_click_def)

lemma pagination_get: "map_get (mv_pagination (set_pagination c p v)) c = Some p"
  by (simp add: set_pagination_def)

text \<open>C40. The sentinel and the hook agree: when the observer asks for older messages in an open channel, a request goes out, and until it
  is answered the list shows that it loads and the observer does not ask again; a failed request shows the button to retry instead of
  the sentinel, and the button starts the same request.\<close>

theorem sentinel_asks_once:
  assumes "p = map_get (mv_pagination v) c" and "older_observed isLoading (history_of p) msgs"
    and "0 < c" and "\<forall>g. p = Some g \<longrightarrow> pg_cursor g \<noteq> []"
    and "loadOlder_start True c (mv_pagination v) v = (v1, request)"
    and "h1 = history_of (map_get (mv_pagination v1) c)" and "v2 = loadOlder_done c (Inl e) v1"
    and "h2 = history_of (map_get (mv_pagination v2) c)"
  shows "(\<exists>g. p = Some g \<and> request = Some (pg_cursor g) \<and> snd (loadOlder_start True c (mv_pagination v2) v2) = Some (pg_cursor g))
    \<and> LoadingOlder \<in> set (list_head h1) \<and> \<not> older_observed isLoading h1 msgs
    \<and> RetryOlder \<in> set (list_head h2) \<and> OlderSentinel \<notin> set (list_head h2) \<and> \<not> older_observed isLoading h2 msgs"
proof -
  obtain g where g: "p = Some g" "pg_hasMore g" "\<not> pg_isLoadingMore g" "\<not> pg_error g"
    using assms(2) by (cases p) (simp_all add: older_observed_def history_of_def)
  have pg: "pagination_of c v = g" using g(1) assms(1) by (simp add: pagination_of_def map_get_or_def)
  have mg: "map_get (mv_pagination v) c = Some g" and cur: "pg_cursor g \<noteq> []" using g(1) assms(1,4) by simp_all
  have "loadOlder_start True c (mv_pagination v) v = (set_pagination c (g\<lparr>pg_isLoadingMore := True, pg_error := False\<rparr>) v, Some (pg_cursor g))"
    using assms(3) g(2,3) by (simp add: loadOlder_start_def mg cur pg)
  then have v1: "v1 = set_pagination c (g\<lparr>pg_isLoadingMore := True, pg_error := False\<rparr>) v" "request = Some (pg_cursor g)"
    using assms(5) by simp_all
  from v1(1) have p1: "map_get (mv_pagination v1) c = Some (g\<lparr>pg_isLoadingMore := True, pg_error := False\<rparr>)" by (simp add: pagination_get)
  then have "pagination_of c v1 = g\<lparr>pg_isLoadingMore := True, pg_error := False\<rparr>" by (simp add: pagination_of_def map_get_or_def)
  then have p2: "map_get (mv_pagination v2) c = Some (g\<lparr>pg_isLoadingMore := False, pg_error := True\<rparr>)"
    by (simp add: assms(7) loadOlder_done_def pagination_get)
  have "snd (loadOlder_start True c (mv_pagination v2) v2) = Some (pg_cursor g)"
    using p2 g(2) assms(3) cur by (simp add: loadOlder_start_def)
  with g v1 p1 p2 show ?thesis by (simp add: assms(6,8) history_of_def list_head_def older_observed_def)
qed

definition scrolled_view :: message_view where
  "scrolled_view = new_view\<lparr>mv_pagination := [(7, no_pagination\<lparr>pg_cursor := ''k'', pg_hasMore := True\<rparr>)]\<rparr>"

definition top_message :: Message where
  "top_message = \<lparr>m_id = 70, m_channel_id = 7, m_author_id = 1, m_author_first_name = JUndefined, m_author_last_name = JUndefined,
     m_author_nickname = JUndefined, m_author_avatar_url = [], m_content = ''hi'', m_attachments = None, m_reply_to_id = Absent,
     m_reply_to = Absent, m_mentions = None, m_mentions_everyone = None, m_embeds = [], m_created_at = [], m_edited_at = None\<rparr>"

theorem sentinel_asks_once_witness:
  "LoadingOlder \<in> set (list_head (history_of (map_get (mv_pagination (fst (loadOlder_start True 7 (mv_pagination scrolled_view) scrolled_view))) 7)))"
proof -
  let ?v = scrolled_view and ?h = "\<lambda>v. history_of (map_get (mv_pagination v) 7)"
  let ?r = "loadOlder_start True 7 (mv_pagination ?v) ?v"
  have m: "map_get (mv_pagination ?v) 7 = Some (no_pagination\<lparr>pg_cursor := ''k'', pg_hasMore := True\<rparr>)"
    by (simp add: scrolled_view_def map_get_def)
  have o: "older_observed False (?h ?v) [top_message]"
    by (simp add: m older_observed_def message_list_view_def list_head_def history_of_def no_pagination_def)
  have c: "\<forall>g. map_get (mv_pagination ?v) 7 = Some g \<longrightarrow> pg_cursor g \<noteq> []" by (simp add: m)
  from sentinel_asks_once [OF refl o _ c, of "fst ?r" "snd ?r" "?h (fst ?r)" "loadOlder_done 7 (Inl []) (fst ?r)" "[]"
      "?h (loadOlder_done 7 (Inl []) (fst ?r))"]
  show ?thesis by simp
qed

end
