(* ===== verification/SignalQueue.thy ===== *)
theory SignalQueue
  imports Prelude
begin

text \<open>
  What stands between the socket and the call client (\<^verbatim>\<open>services/sfuCallClient.ts\<close>): offers, answers and candidates of the server
  are handled one after the other by a chain of promises (\<open>enqueueSignal\<close>), since their handlers await the peer connection; the
  subscriptions that \<open>dispose\<close> ends. And the volumes per user that \<^verbatim>\<open>hooks/useVoice.ts\<close> stores.
\<close>

section \<open>The queue of signals\<close>

record 'a signal_queue =
  sq_waiting :: "'a list"
  sq_running :: "'a option"

definition no_signals :: "'a signal_queue" where
  "no_signals = \<lparr>sq_waiting = [], sq_running = None\<rparr>"

text \<open>A handler begins when the promise before it has settled, and ends with or without an error, which is only logged.\<close>

datatype 'a signal_input = SignalArrived 'a | SignalTurn | HandlerSettled bool
datatype 'a signal_effect = HandlerBegins 'a | HandlerEnded 'a | FailureLogged 'a

definition enqueueSignal :: "'a \<Rightarrow> 'a signal_queue \<Rightarrow> 'a signal_queue" where
  "enqueueSignal x s = s\<lparr>sq_waiting := sq_waiting s @ [x]\<rparr>"

fun signal_enabled :: "'a signal_queue \<Rightarrow> 'a signal_input \<Rightarrow> bool" where
  "signal_enabled s (SignalArrived x) \<longleftrightarrow> True"
| "signal_enabled s SignalTurn \<longleftrightarrow> sq_running s = None \<and> sq_waiting s \<noteq> []"
| "signal_enabled s (HandlerSettled ok) \<longleftrightarrow> sq_running s \<noteq> None"

fun signal_step :: "'a signal_queue \<Rightarrow> 'a signal_input \<Rightarrow> 'a signal_queue \<times> 'a signal_effect list" where
  "signal_step s (SignalArrived x) = (enqueueSignal x s, [])"
| "signal_step s SignalTurn = (case sq_waiting s of
     x # xs \<Rightarrow> (s\<lparr>sq_waiting := xs, sq_running := Some x\<rparr>, [HandlerBegins x]) | [] \<Rightarrow> (s, []))"
| "signal_step s (HandlerSettled ok) = (case sq_running s of
     Some x \<Rightarrow> (s\<lparr>sq_running := None\<rparr>, (if ok then [] else [FailureLogged x]) @ [HandlerEnded x]) | None \<Rightarrow> (s, []))"

definition arrived_signals :: "'a signal_input list \<Rightarrow> 'a list" where
  "arrived_signals es = concat (map (\<lambda>e. case e of SignalArrived x \<Rightarrow> [x] | _ \<Rightarrow> []) es)"

definition begun :: "'a signal_effect list \<Rightarrow> 'a list" where
  "begun os = concat (map (\<lambda>o1. case o1 of HandlerBegins x \<Rightarrow> [x] | _ \<Rightarrow> []) os)"

definition ended :: "'a signal_effect list \<Rightarrow> 'a list" where
  "ended os = concat (map (\<lambda>o1. case o1 of HandlerEnded x \<Rightarrow> [x] | _ \<Rightarrow> []) os)"

lemma signal_lists [simp]:
  "arrived_signals (es @ fs) = arrived_signals es @ arrived_signals fs" "arrived_signals [] = []"
  "arrived_signals [SignalArrived x] = [x]" "arrived_signals [SignalTurn] = []" "arrived_signals [HandlerSettled ok] = []"
  "begun (os @ ps) = begun os @ begun ps" "begun [] = []" "begun [HandlerBegins x] = [x]" "begun [HandlerEnded x] = []"
  "begun [FailureLogged x, HandlerEnded x] = []"
  "ended (os @ ps) = ended os @ ended ps" "ended [] = []" "ended [HandlerBegins x] = []" "ended [HandlerEnded x] = [x]"
  "ended [FailureLogged x, HandlerEnded x] = [x]"
  by (simp_all add: arrived_signals_def begun_def ended_def)

text \<open>Signals are handled in the order they came, one at a time, none twice and none left out, though handlers fail.\<close>

theorem signals_in_order:
  assumes "run signal_enabled signal_step no_signals es s os"
  shows "begun os @ sq_waiting s = arrived_signals es \<and> begun os = ended os @ (case sq_running s of Some x \<Rightarrow> [x] | None \<Rightarrow> [])"
  using assms
proof (induction "no_signals :: 'a signal_queue" es s os rule: run.induct)
  case run_nil
  then show ?case by (simp add: no_signals_def)
next
  case (run_snoc es t os e u os')
  then show ?case
    by (cases e) (auto simp: enqueueSignal_def split: list.splits option.splits if_splits)
qed

text \<open>While a signal waits something can go on: the handler that runs, or the next one.\<close>

lemma signals_progress: "sq_waiting s \<noteq> [] \<Longrightarrow> signal_enabled s SignalTurn \<or> (\<forall>ok. signal_enabled s (HandlerSettled ok))"
  by (cases "sq_running s") auto

lemma failure_is_passed: "fst (signal_step s (HandlerSettled False)) = fst (signal_step s (HandlerSettled True))"
  by (simp split: option.splits)

text \<open>An offer, a candidate and a second offer, the first handler failing.\<close>

definition signal_events :: "nat signal_input list" where
  "signal_events = [SignalArrived 1, SignalTurn, SignalArrived 2, SignalArrived 3, HandlerSettled False, SignalTurn]"

theorem signals_in_order_witness:
  "begun (snd (exec_run signal_step no_signals signal_events)) = [1, 2]
    \<and> ended (snd (exec_run signal_step no_signals signal_events)) = [1]"
proof -
  let ?r = "exec_run signal_step no_signals signal_events"
  have r: "run signal_enabled signal_step no_signals signal_events (fst ?r) (snd ?r)"
    by (rule exec_run_run) (simp_all add: signal_events_def no_signals_def enqueueSignal_def)
  have s: "sq_waiting (fst ?r) = [3]" "sq_running (fst ?r) = Some 2" "arrived_signals signal_events = [1, 2, 3]"
    by (simp_all add: signal_events_def no_signals_def enqueueSignal_def arrived_signals_def)
  from signals_in_order [OF r] s show ?thesis by (auto simp: Cons_eq_append_conv)
qed

section \<open>Disposing of the client\<close>

text \<open>The listeners of the socket that the constructor registers; after \<open>dispose\<close> no event of the server reaches the client.\<close>

datatype call_event = VoiceUserJoinedEv | VoiceUserLeftEv | SfuOfferEv | SfuAnswerEv | SfuCandidateEv | SfuErrorEv | SfuSessionClosedEv
  | SfuTrackPublishedEv | SfuTrackUnpublishedEv | SfuActiveSpeakersEv

definition call_listeners :: "(call_event \<times> bool) list" where
  "call_listeners = [(VoiceUserJoinedEv, False), (VoiceUserLeftEv, False), (SfuOfferEv, True), (SfuAnswerEv, True), (SfuCandidateEv, True),
     (SfuErrorEv, False), (SfuSessionClosedEv, False), (SfuTrackPublishedEv, False), (SfuTrackUnpublishedEv, False), (SfuActiveSpeakersEv, False)]"

text \<open>The signals that await the peer connection, and only they, go through the queue.\<close>

definition is_queued :: "call_event \<Rightarrow> bool option" where
  "is_queued e = map_of call_listeners e"

lemma every_event_heard: "is_queued e \<noteq> None"
  by (cases e) (simp_all add: is_queued_def call_listeners_def)

lemma queued_signals: "is_queued e = Some True \<longleftrightarrow> e = SfuOfferEv \<or> e = SfuAnswerEv \<or> e = SfuCandidateEv"
  by (cases e) (simp_all add: is_queued_def call_listeners_def)

section \<open>Stored volumes\<close>

text \<open>\<open>entries\<close> are the entries of the parsed object, key and value as \<open>Number\<close> reads them (\<open>None\<close>: not finite); without an object, or
  when reading throws, there are none.\<close>

definition volume_entry_ok :: "rat option \<times> rat option \<Rightarrow> bool" where
  "volume_entry_ok e \<longleftrightarrow> (case e of (Some i, Some v) \<Rightarrow> 0 < i \<and> 0 \<le> v \<and> v \<le> 2 | _ \<Rightarrow> False)"

definition load_volumes :: "(rat option \<times> rat option) list option \<Rightarrow> (rat \<times> rat) list" where
  "load_volumes entries = (case entries of None \<Rightarrow> []
   | Some es \<Rightarrow> fold (\<lambda>e m. case e of (Some i, Some v) \<Rightarrow> (if volume_entry_ok e then map_set i v m else m) | _ \<Rightarrow> m) es [])"

definition save_volumes :: "(rat \<times> rat) list \<Rightarrow> (rat option \<times> rat option) list option" where
  "save_volumes m = Some (map (\<lambda>(i, v). (Some i, Some v)) m)"

lemma map_get_Cons: "map_get ((i, v) # m) k = (if k = i then Some v else map_get m k)"
  by (simp add: map_get_def)

lemma load_fold:
  assumes "\<forall>(i, v) \<in> set m. 0 < i \<and> 0 \<le> v \<and> v \<le> 2" and "distinct (map fst m)"
  shows "map_get (fold (\<lambda>e m. case e of (Some i, Some v) \<Rightarrow> (if volume_entry_ok e then map_set i v m else m) | _ \<Rightarrow> m)
      (map (\<lambda>(i, v). (Some i, Some v)) m) acc) k = (case map_get m k of Some v \<Rightarrow> Some v | None \<Rightarrow> map_get acc k)"
  using assms
proof (induction m arbitrary: acc)
  case Nil
  then show ?case by (simp add: map_get_def)
next
  case (Cons p m)
  obtain i v where p: "p = (i, v)" by fastforce
  have "k = i \<Longrightarrow> map_get m k = None" using Cons.prems(2) p by (simp add: map_get_def map_of_eq_None_iff)
  with Cons p show ?case by (auto simp: volume_entry_ok_def map_get_Cons split: option.splits)
qed

text \<open>Volumes that the sliders can give are read back as they were stored.\<close>

lemma volumes_read_back:
  "\<forall>(i, v) \<in> set m. 0 < i \<and> 0 \<le> v \<and> v \<le> 2 \<Longrightarrow> distinct (map fst m) \<Longrightarrow> map_get (load_volumes (save_volumes m)) k = map_get m k"
  using load_fold [of m "[]" k] by (simp add: load_volumes_def save_volumes_def map_get_def split: option.splits)

end
