(* ===== verification/NotificationTray.thy ===== *)
theory NotificationTray
  imports Settings
begin

text \<open>
  The notifications of the browser: what a tab shows (\<open>showBrowserNotification\<close> of \<^verbatim>\<open>services/notifications/index.ts\<close>,
  \<open>requestNotificationPermission\<close> of \<^verbatim>\<open>permission.ts\<close>), what the service worker shows for a push and does at a click
  (\<^verbatim>\<open>public/sw.js\<close>). The tray is the list of the notifications shown, oldest first; one with the tag of another takes its place.
\<close>

section \<open>State\<close>

record tray_item =
  ti_title :: string
  ti_body :: string
  ti_icon :: "string option"
  ti_badge :: string
  ti_tag :: string
  ti_data :: "NotificationClickData option"

definition DEFAULT_BADGE :: string where "DEFAULT_BADGE = ''/favicon-192x192.png''"

text \<open>\<^verbatim>\<open>showNotification\<close> with \<open>renotify\<close>: without a tag it throws.\<close>

definition show_notification :: "tray_item \<Rightarrow> tray_item list \<Rightarrow> tray_item list option" where
  "show_notification n tray = (if ti_tag n = [] then None else Some (filter (\<lambda>t. ti_tag t \<noteq> ti_tag n) tray @ [n]))"

section \<open>Operations\<close>

text \<open>\<open>registration\<close>: the page has a service worker; \<open>accepted\<close>: the browser does not refuse.\<close>

definition showBrowserNotification :: "bool \<Rightarrow> bool \<Rightarrow> bool \<Rightarrow> string \<Rightarrow> string \<Rightarrow> string option \<Rightarrow> string \<Rightarrow> NotificationClickData \<Rightarrow> tray_item list \<Rightarrow> tray_item list" where
  "showBrowserNotification hasWorkers registration accepted title body icon tag data tray =
     (if \<not> hasWorkers \<or> \<not> registration \<or> \<not> accepted then tray
      else case show_notification \<lparr>ti_title = title, ti_body = body, ti_icon = icon, ti_badge = DEFAULT_BADGE, ti_tag = tag, ti_data = Some data\<rparr> tray of
        Some t \<Rightarrow> t | None \<Rightarrow> tray)"

definition show_effects :: "bool \<Rightarrow> bool \<Rightarrow> bool \<Rightarrow> notify_effect list \<Rightarrow> tray_item list \<Rightarrow> tray_item list" where
  "show_effects hasWorkers registration accepted os tray = fold (\<lambda>e t. case e of
     ShowNotification title body icon tag data \<Rightarrow> showBrowserNotification hasWorkers registration accepted title body icon tag data t | _ \<Rightarrow> t) os tray"

text \<open>\<open>answer\<close>: what the browser's question gives, \<open>None\<close> when it throws.\<close>

definition requestNotificationPermission :: "PermissionState \<Rightarrow> PermissionState option \<Rightarrow> PermissionState" where
  "requestNotificationPermission current answer =
     (if current = PermUnsupported then PermUnsupported else case answer of Some p \<Rightarrow> p | None \<Rightarrow> current)"

text \<open>The payload of a push; a field that is missing or empty gets its default.\<close>

record push_payload =
  pl_title :: string
  pl_body :: string
  pl_icon :: "string option"
  pl_badge :: string
  pl_tag :: string
  pl_data :: "NotificationClickData option"

definition empty_payload :: push_payload where
  "empty_payload = \<lparr>pl_title = [], pl_body = [], pl_icon = None, pl_badge = [], pl_tag = [], pl_data = None\<rparr>"

definition sw_push :: "push_payload option \<Rightarrow> tray_item list \<Rightarrow> tray_item list option" where
  "sw_push parsed tray =
     (let p = (case parsed of Some p \<Rightarrow> p | None \<Rightarrow> empty_payload)
      in show_notification \<lparr>ti_title = (if pl_title p = [] then ''MuArAb'' else pl_title p), ti_body = pl_body p, ti_icon = pl_icon p,
           ti_badge = (if pl_badge p = [] then DEFAULT_BADGE else pl_badge p), ti_tag = pl_tag p, ti_data = pl_data p\<rparr> tray)"

text \<open>A click on a notification: the first window of the site is focused and told, without one the address is opened.\<close>

datatype click_effect = FocusWindow nat | PostClick nat "NotificationClickData option" | OpenWindow string

definition sw_notificationclick :: "(nat \<times> bool) list \<Rightarrow> tray_item \<Rightarrow> tray_item list \<Rightarrow> tray_item list \<times> click_effect list" where
  "sw_notificationclick windows n tray =
     (filter (\<lambda>t. t \<noteq> n) tray,
      (case find snd windows of
         Some (w, _) \<Rightarrow> [FocusWindow w, PostClick w (ti_data n)]
       | None \<Rightarrow> [OpenWindow (case ti_data n of Some d \<Rightarrow> (if cd_url d = [] then ''/'' else cd_url d) | None \<Rightarrow> ''/'')]))"

section \<open>One notification per channel\<close>

lemma show_distinct: "distinct (map ti_tag tray) \<Longrightarrow> show_notification n tray = Some t \<Longrightarrow>
    distinct (map ti_tag t) \<and> filter (\<lambda>x. ti_tag x = ti_tag n) t = [n]"
  by (auto simp: show_notification_def distinct_map_filter split: if_splits)

datatype tray_input = TabShows string string "string option" string NotificationClickData | PushArrives "push_payload option" | TrayClick nat

text \<open>A push that cannot be shown leaves the tray as it is.\<close>

definition tray_step :: "(nat \<times> bool) list \<Rightarrow> tray_item list \<Rightarrow> tray_input \<Rightarrow> tray_item list" where
  "tray_step windows tray e = (case e of
     TabShows title body icon tag data \<Rightarrow> showBrowserNotification True True True title body icon tag data tray
   | PushArrives p \<Rightarrow> (case sw_push p tray of Some t \<Rightarrow> t | None \<Rightarrow> tray)
   | TrayClick i \<Rightarrow> (if i < length tray then fst (sw_notificationclick windows (tray ! i) tray) else tray))"

lemma tray_step_distinct:
  assumes d: "distinct (map ti_tag tray)"
  shows "distinct (map ti_tag (tray_step windows tray e))"
proof -
  have shown: "distinct (map ti_tag (case show_notification n tray of Some t \<Rightarrow> t | None \<Rightarrow> tray))" for n
    using d show_distinct [OF d, of n] by (cases "show_notification n tray") simp_all
  show ?thesis
  proof (cases e)
    case (TabShows title body icon tag data)
    then show ?thesis by (simp only: tray_step_def tray_input.case showBrowserNotification_def shown if_False not_True_eq_False simp_thms)
  next
    case (PushArrives p)
    then show ?thesis by (simp only: tray_step_def tray_input.case sw_push_def Let_def shown)
  next
    case (TrayClick i)
    with d show ?thesis by (simp add: tray_step_def sw_notificationclick_def distinct_map_filter del: distinct_map)
  qed
qed

text \<open>Tabs and pushes together never show two notifications of one tag, which is one for each channel, and the last one shown of a
  tag is the one that is there.\<close>

theorem one_notification_per_tag:
  assumes "tray = foldl (tray_step windows) [] es"
  shows "distinct (map ti_tag tray) \<and> (tag \<noteq> [] \<longrightarrow>
    filter (\<lambda>n. ti_tag n = tag) (tray_step windows tray (TabShows title body icon tag data))
      = [\<lparr>ti_title = title, ti_body = body, ti_icon = icon, ti_badge = DEFAULT_BADGE, ti_tag = tag, ti_data = Some data\<rparr>])"
proof -
  have d: "distinct (map ti_tag tray)"
    unfolding assms by (induction es rule: rev_induct) (simp_all add: tray_step_distinct)
  then show ?thesis by (simp add: tray_step_def showBrowserNotification_def show_notification_def filter_False)
qed

text \<open>A window of the site gets exactly the data of the notification that was clicked; without a window its address is opened.\<close>

lemma click_passes_data_on:
  "w \<in> set windows \<Longrightarrow> snd w \<Longrightarrow> \<exists>v. snd (sw_notificationclick windows n tray) = [FocusWindow v, PostClick v (ti_data n)]"
  by (cases w; cases "find snd windows") (auto simp: sw_notificationclick_def find_None_iff split: prod.splits)

lemma untagged_push_is_not_shown: "sw_push None tray = None"
  by (simp add: sw_push_def empty_payload_def show_notification_def)

end
