(* ===== verification/Spec2Isabelle.thy ===== *)
theory Spec2Isabelle
    imports SocketProps WireProps QualityProps NotifyProps Leader HistoryProps UnreadProps Typing CallProps CallRecovery DMs
    ServersProps VoicePeople TextProps MediaProps SearchPanel CaptureProps ProfileProps ComposerProps ScrollProps GestureProps
    SettingsProps MessageViewProps PlayersProps VoicePanelProps PageViewProps WidgetsProps CameraSwitch Addresses Overlays Sounds
    MediaView MessageRows SignalQueue NotificationTray
begin

text \<open>
  The web client of a chat application (\<^verbatim>\<open>src/frontend/src\<close>, TypeScript and React), modelled component by component.

  \<^bold>\<open>The program.\<close> One WebSocket (\<^verbatim>\<open>services/chatSocket.ts\<close>) carries commands, their replies and events. Hooks keep the
  state of the page: servers and channels, messages, unread counters, direct conversations, typing, the voice controls.
  A call client (\<^verbatim>\<open>services/sfuCallClient.ts\<close>) keeps the session with the media server. Hooks subscribe to the events
  of the socket and call its commands; React runs their effects after each render. The server is written in Go and is
  not modelled, but for what the client is compared with.

  \<^bold>\<open>How it is modelled.\<close> A hook or class is a record with one definition per operation, on explicit state. A handler that
  awaits is split at the await: \<open>_start\<close> before, \<open>_done\<close> with the answer (\<open>Inl\<close> an error). What an operation does
  outside (frames, timers, callbacks, sounds) is a list of effects. Where order matters a component is a machine: a
  datatype of its inputs, a step function, and runs of it (\<open>run\<close> in Prelude); an effect of React runs in the step of
  the input that causes it. Values from the network are of the type \<open>jsval\<close> of JSON values. A JavaScript object used as
  a map is an association list, whose numeric keys are enumerated in ascending order. Strings are lists of Latin-1 code
  units, numbers are integers or rationals without rounding. \<open>Date.parse\<close>, \<open>Math.random\<close> and the clock are arguments.

  \<^bold>\<open>The theories.\<close>
  \<^item> Prelude: JSON values, strings, maps, runs; the locales \<open>keyed_store\<close>, \<open>machine_invariant\<close> and \<open>machine_account\<close>,
    which the components interpret on their own operations.
  \<^item> ChatTypes, WireParse, SocketApi, WireProps: the records of \<^verbatim>\<open>types/*.ts\<close>, the parsers of what the server sends, and
    every command with the parser of its acknowledgement; a page of messages survives the way through the wire.
  \<^item> SocketCore, SocketDispatch, SocketMachine, SocketInvariant, SocketAccount, SocketRequests, SocketLiveness,
    SocketProps: the connection, the command queue, timeouts, reconnecting, the dispatcher of events. Every command is
    settled once and in order, stale replies are ignored, closing is final, the reconnect delay is bounded.
  \<^item> Quality, QualityProps: \<^verbatim>\<open>services/connectionQuality.ts\<close>.
  \<^item> Notifications, NotifyProps, Leader: the rules of notifications against the policy of the server, the sounds, and the
    election of the tab that notifies. Sounds, NotificationTray: the audio elements that play them, and what the browser and the
    service worker (\<^verbatim>\<open>public/sw.js\<close>) show. Settings, SettingsProps: the settings with the handlers of the server that store
    them, their menus and dialog.
  \<^item> Messages, History, HistoryProps: \<^verbatim>\<open>hooks/useMessages.ts\<close> against a channel history; the list shown is always a
    contiguous slice of it.
  \<^item> Unread, UnreadProps, Typing: \<^verbatim>\<open>hooks/useUnread.ts\<close> and the typing indicator.
  \<^item> DMs: \<^verbatim>\<open>hooks/useDMs.ts\<close>, which refines a map from channels to conversations.
  \<^item> Servers, ServersProps: \<^verbatim>\<open>hooks/useServers.ts\<close>, its synchronisation and its forms.
  \<^item> Call, CallSession, CallMachine, CallTiles, CallInv, CallProps, CallRecovery: \<^verbatim>\<open>services/sfuCallClient.ts\<close>: remote
    streams and their tiles, video subscriptions, sessions, signals, recovery, camera and screen.
  \<^item> SignalQueue, CameraSwitch: the order in which the call client handles signals, and the switch of its camera. Capture, CaptureProps:
    \<^verbatim>\<open>services/localCapture.ts\<close> and the microphone of the client over a store of tracks: muting acts on what is sent.
  \<^item> Voice, VoiceProps, VoicePeople: \<^verbatim>\<open>hooks/useVoice.ts\<close>, against what the server and the track hold, and together with
    Servers, whose synchronisation feeds its lists of participants.
  \<^item> MessageText, TextProps: links, mentions and the rendering of a message (\<^verbatim>\<open>services/links.ts\<close>, \<^verbatim>\<open>services/mentions.ts\<close>,
    parts of \<^verbatim>\<open>components/MessageList.tsx\<close> and \<^verbatim>\<open>components/MessageInput.tsx\<close>).
  \<^item> Media, MediaProps: \<^verbatim>\<open>services/playlistService.ts\<close> and \<^verbatim>\<open>hooks/useMediaPlayer.ts\<close>. Players, PlayersProps, MediaView: video
    tiles, the controls and the views of the players, equalizer and spectrum.
  \<^item> SearchPanel: \<^verbatim>\<open>hooks/useMessageSearch.ts\<close> with its requests in flight.
  \<^item> Account, AccountProps, Profile, ProfileProps, Addresses: the token and the stored profile (\<^verbatim>\<open>services/authToken.ts\<close>), log in,
    registration, \<^verbatim>\<open>hooks/useProfile.ts\<close>; the address of the socket, pictures, uploads, options of the media connection.
  \<^item> Composer, ComposerProps: \<^verbatim>\<open>components/MessageInput.tsx\<close> as one machine. Scroll, ScrollProps: the position in the list of
    messages and the members of a server. Gestures, GestureProps: the back button, swipes and long presses.
  \<^item> MessageView, MessageViewProps, MessageRows: \<^verbatim>\<open>components/MessageList.tsx\<close> and what else shows messages and users; edits
    against the handler of the server, the sentinels of the list against \<open>Messages\<close>.
  \<^item> VoicePanel, VoicePanelProps: what \<^verbatim>\<open>pages/ChatPage.tsx\<close> shows of a call, over \<open>Voice\<close> and \<open>Players\<close>: enabled buttons work,
    tiles are heard as the sliders say. Page, PageProps: what is selected on the page, over \<open>Servers\<close> and \<open>DMs\<close>: what clicks,
    notifications and synchronisations do to it. PageView, PageViewProps: rows, headers, menus and modals of the page.
  \<^item> Widgets, WidgetsProps, Overlays: the search for users, toasts and the other small components; the focus of dialogs, the
    lock of the page's scrolling.

  \<^bold>\<open>Interfaces.\<close> An invariant of a machine is an interpretation of \<open>machine_invariant\<close> in the theory that proves it, and
  its property follows by \<open>inv_run\<close>; the account of promises of the socket interprets \<open>machine_account\<close>; the maps
  interpret \<open>keyed_store\<close>.

  \<^bold>\<open>Ends and bounds.\<close> No definition has fuel. The loops of trimUrlTail are \<open>while_option\<close>, and rendering a message is
  proved to give a value for every text; the other loops are structural recursions or have a measure. The recovery of a
  call goes through the list of its three delays.

  \<^bold>\<open>What the proofs showed to be wrong.\<close> A connection whose url is refused is never retried; a live message may be lost
  behind the last newer page; a receipt given while the socket is down is lost; a failed recovery of a call ends it
  silently; a user without servers is thrown out of a direct conversation; a fresh rejoin announces a muted user as
  unmuted; unmuting may leave a player silent; loading more search results may stop for good; a click on a server keeps an open
  conversation as the target of the next message; the channel of a push is lost when another server is selected; a switch of the
  camera may detach the microphone button; renderings of the page restart the search for users and take the focus out of
  dialogs. The properties and lemmas state these behaviours as they are.

  \<^bold>\<open>Not modelled.\<close> Markup, styles, icons and class names of the components; the objects of the browser, whose answers are
  arguments (RTCPeerConnection, media devices, audio nodes, URL, Intl, IntersectionObserver, the push service); the cache of the
  service worker; the debug log and the overlay for developers; the server, but for the handlers and policies named above.
\<close>

end
